(* ===== verification/Prelude.thy ===== *)
theory Prelude
  imports Main "HOL-Library.Word" "HOL-Library.Monad_Syntax"
begin

unbundle bit_operations_syntax

text \<open>
  The vocabulary every component shares: the C integer types as words, C strings as lists
  of bytes, facts on words read as naturals, the locale of tables indexed by number (the
  descriptor tables, the handler table and the page tables all are such tables), and the
  locale of character sinks (everything the kernel prints goes through one \<open>putchar\<close>).

  Undefined behaviour of the C code (an index outside its array, a shift by the width or
  more) is the value \<open>None\<close> of an \<open>option\<close>; a theorem that says \<open>Some\<close> therefore says
  that the code stays inside its arrays.

  A shift of an \<open>int\<close> into its sign bit or past it (\<open>1 << 31\<close>, \<open>1023 << 22\<close>) keeps the low 32
  bits: GCC documents it so and clang, which the build files name, compiles it so. ISO C leaves
  it undefined.
\<close>

section \<open>The integer types of the code\<close>

type_synonym u8 = "8 word"
type_synonym u16 = "16 word"
type_synonym u32 = "32 word"
type_synonym u64 = "64 word"

named_theorems kernel_simps "unfoldings of the small operations of the kernel"

lemma unat_less_of [simp]: "unat (w :: u8) < 256" "unat (v :: u16) < 65536"
  using unsigned_less [of w] unsigned_less [of v] by simp_all

lemma unat_add_small:
  "unat (a :: 'a::len word) + unat b < 2 ^ LENGTH('a) \<Longrightarrow> unat (a + b) = unat a + unat b"
  by (simp add: unat_word_ariths)

lemma unat_mult_small:
  "unat (a :: 'a::len word) * unat b < 2 ^ LENGTH('a) \<Longrightarrow> unat (a * b) = unat a * unat b"
  by (simp add: unat_word_ariths)

lemma word_eq_iff_unat: "(a :: 'a::len word) = b \<longleftrightarrow> unat a = unat b"
  by (rule word_unat_eq_iff)

text \<open>Masks, shifts and casts, read as naturals.\<close>

lemma unat_and_mask: "unat (w AND mask n) = unat (w :: 'a::len word) mod 2 ^ n"
  unfolding take_bit_eq_mask [symmetric] unsigned_take_bit_eq by (simp only: take_bit_eq_mod)

lemma unat_shr: "unat (drop_bit n w) = unat (w :: 'a::len word) div 2 ^ n"
  unfolding unat_drop_bit_eq by (simp only: drop_bit_eq_div)

lemma unat_ucast_mod: "unat (ucast (w :: 'a::len word) :: 'b::len word) = unat w mod 2 ^ LENGTH('b)"
  by (simp only: unsigned_ucast_eq take_bit_eq_mod)

text \<open>The sign bit of a \<open>char\<close>.\<close>

lemma byte_high: "bit (c :: u8) 7 \<longleftrightarrow> \<not> c < 0x80"
proof -
  have "bit c 7 \<longleftrightarrow> bit (unat c) 7" by (simp add: bit_unsigned_iff)
  also have "\<dots> \<longleftrightarrow> odd (unat c div 128)" by (simp add: bit_iff_odd)
  also have "unat c div 128 = (if 128 \<le> unat c then 1 else 0)"
    using unat_less_of(1) [of c] by (auto intro: div_nat_eqI)
  also have "odd (if 128 \<le> unat c then 1 else 0 :: nat) \<longleftrightarrow> 128 \<le> unat c" by simp
  finally show ?thesis by (simp add: word_less_nat_alt not_less)
qed

lemma scast_char:
  "(scast (c :: u8) :: u16) = (if c < 0x80 then ucast c else NOT (mask 8) OR ucast c)"
  (is "_ = ?r")
proof (rule bit_word_eqI)
  fix n assume n: "n < LENGTH(16)"
  show "bit (scast c :: u16) n = bit ?r n"
  proof (cases "n < 8")
    case True
    then show ?thesis using n by (cases "n = 7") (auto simp: bit_simps min_def)
  next
    case False
    then have "\<not> bit c n" by (auto dest: bit_imp_le_length)
    then show ?thesis using n False by (auto simp: bit_simps min_def byte_high)
  qed
qed

section \<open>Characters and strings\<close>

text \<open>
  A \<open>char\<close> of the code is a byte. The bytes of a string literal are the codes of its
  characters, and the compiler puts a NUL after them.
\<close>

definition bytes :: "string \<Rightarrow> u8 list" where
  "bytes s = map of_char s"

definition c_literal :: "string \<Rightarrow> u8 list" where
  "c_literal s = bytes s @ [0]"

definition nl :: "string \<Rightarrow> string" where
  "nl s = s @ [CHR 0x0A]"

lemma length_bytes [simp]: "length (bytes s) = length s"
  by (simp add: bytes_def)

lemma bytes_append [simp]: "bytes (s @ t) = bytes s @ bytes t"
  by (simp add: bytes_def)

lemma bytes_nl: "bytes (nl s) = bytes s @ [10]"
  by (simp add: nl_def bytes_def)

section \<open>Arrays and loops\<close>

text \<open>
  An assignment to an element of a C array, checked: outside the array it is \<open>None\<close>. A loop
  whose body can fail runs it for one index after the other.
\<close>

definition array_put :: "nat \<Rightarrow> 'a \<Rightarrow> 'a list \<Rightarrow> 'a list option" where
  "array_put i x xs = (if i < length xs then Some (xs[i := x]) else None)"

primrec for_each :: "('i \<Rightarrow> 's \<Rightarrow> 's option) \<Rightarrow> 'i list \<Rightarrow> 's \<Rightarrow> 's option" where
  "for_each f [] s = Some s"
| "for_each f (i # is) s = do { s \<leftarrow> f i s; for_each f is s }"

lemma for_each_fold:
  assumes "\<And>i s. i \<in> set xs \<Longrightarrow> ok s \<Longrightarrow> f i s = Some (g i s)"
    and "\<And>i s. i \<in> set xs \<Longrightarrow> ok s \<Longrightarrow> ok (g i s)" and "ok s"
  shows "for_each f xs s = Some (fold g xs s)"
  using assms by (induction xs arbitrary: s) simp_all

lemma for_each_append: "for_each f (xs @ ys) s = do { s \<leftarrow> for_each f xs s; for_each f ys s }"
  by (induction xs arbitrary: s) simp_all

section \<open>Tables indexed by number\<close>

text \<open>
  A table is read and written by index. Writing one entry changes that entry and no
  other. A run of writes with distinct indices leaves exactly the entries written.
\<close>

locale indexed_table =
  fixes get :: "'i \<Rightarrow> 't \<Rightarrow> 'e"
    and put :: "'i \<Rightarrow> 'e \<Rightarrow> 't \<Rightarrow> 't"
    and ok :: "'i \<Rightarrow> 't \<Rightarrow> bool"
  assumes get_put_same: "ok i t \<Longrightarrow> get i (put i e t) = e"
    and get_put_other: "ok i t \<Longrightarrow> ok j t \<Longrightarrow> i \<noteq> j \<Longrightarrow> get j (put i e t) = get j t"
    and ok_put: "ok j (put i e t) \<longleftrightarrow> ok j t"
begin

lemma ok_fold: "ok j (fold (\<lambda>(i, e). put i e) ies t) \<longleftrightarrow> ok j t"
proof (induction ies arbitrary: t)
  case Nil
  show ?case by simp
next
  case (Cons ie ies)
  obtain i e where "ie = (i, e)" by fastforce
  with Cons.IH [of "put i e t"] show ?case by (simp only: fold_simps comp_apply prod.case ok_put)
qed

lemma get_fold:
  assumes "distinct (map fst ies)" and "ok j t" and "\<forall>i \<in> fst ` set ies. ok i t"
  shows "get j (fold (\<lambda>(i, e). put i e) ies t) =
         (case map_of ies j of Some e \<Rightarrow> e | None \<Rightarrow> get j t)"
  using assms
proof (induction ies arbitrary: t)
  case Nil
  then show ?case by simp
next
  case (Cons ie ies)
  obtain i e where ie: "ie = (i, e)" by fastforce
  have step: "get j (fold (\<lambda>(i, e). put i e) ies (put i e t)) =
      (case map_of ies j of Some e \<Rightarrow> e | None \<Rightarrow> get j (put i e t))"
    using Cons.prems ie by (intro Cons.IH) (auto simp: ok_put)
  show ?case
  proof (cases "j = i")
    case True
    then have none: "map_of ies j = None"
      using Cons.prems(1) ie by (simp add: map_of_eq_None_iff)
    show ?thesis
      using step none True ie get_put_same [OF Cons.prems(2)] by simp
  next
    case False
    have "get j (put i e t) = get j t"
      using Cons.prems ie False by (intro get_put_other) auto
    with step False ie show ?thesis by (simp split: option.split)
  qed
qed

lemma get_fold_other:
  assumes "distinct (map fst ies)" and "ok j t" and "\<forall>i \<in> fst ` set ies. ok i t"
    and "j \<notin> fst ` set ies"
  shows "get j (fold (\<lambda>(i, e). put i e) ies t) = get j t"
proof -
  have "map_of ies j = None" using assms(4) by (simp add: map_of_eq_None_iff)
  with get_fold [OF assms(1-3)] show ?thesis by simp
qed

end

text \<open>A C array of known length, as a list: the provider of the table laws.\<close>

interpretation array: indexed_table "\<lambda>i xs. xs ! i" "\<lambda>i x xs. xs[i := x]" "\<lambda>i xs. i < length xs"
  by unfold_locales auto

section \<open>Character sinks\<close>

text \<open>
  What the code needs of an output device: a \<open>put\<close> for one byte that keeps the device's
  invariant. Any sequence of bytes then keeps it too, however the code splits it.
\<close>

locale char_sink =
  fixes put :: "u8 \<Rightarrow> 's \<Rightarrow> 's"
    and good :: "'s \<Rightarrow> bool"
  assumes good_put: "good s \<Longrightarrow> good (put b s)"
begin

lemma good_fold: "good s \<Longrightarrow> good (fold put bs s)"
  by (induction bs arbitrary: s) (auto simp: good_put)

end

end
