(* ===== verification/Terminal.thy ===== *)
theory Terminal
  imports Prelude
begin

text \<open>
  The VGA text terminal, src/src/sys/terminal.c and terminal.h. The state is the four
  globals of terminal.c and the video memory they point into, a store of 16-bit cells by
  address. \<open>terminal_putchar\<close> and what is built on it are proved to refine an abstract
  screen of 24 by 80 cells with a linear cursor, and to write nowhere outside the video
  memory.
\<close>

section \<open>Colours and cells\<close>

datatype vga_color =
    COLOR_BLACK | COLOR_BLUE | COLOR_GREEN | COLOR_CYAN
  | COLOR_RED | COLOR_MAGENTA | COLOR_BROWN | COLOR_LIGHT_GREY
  | COLOR_DARK_GREY | COLOR_LIGHT_BLUE | COLOR_LIGHT_GREEN | COLOR_LIGHT_CYAN
  | COLOR_LIGHT_RED | COLOR_LIGHT_MAGENTA | COLOR_LIGHT_BROWN | COLOR_WHITE

primrec vga_color_value :: "vga_color \<Rightarrow> u32" where
  "vga_color_value COLOR_BLACK = 0"
| "vga_color_value COLOR_BLUE = 1"
| "vga_color_value COLOR_GREEN = 2"
| "vga_color_value COLOR_CYAN = 3"
| "vga_color_value COLOR_RED = 4"
| "vga_color_value COLOR_MAGENTA = 5"
| "vga_color_value COLOR_BROWN = 6"
| "vga_color_value COLOR_LIGHT_GREY = 7"
| "vga_color_value COLOR_DARK_GREY = 8"
| "vga_color_value COLOR_LIGHT_BLUE = 9"
| "vga_color_value COLOR_LIGHT_GREEN = 10"
| "vga_color_value COLOR_LIGHT_CYAN = 11"
| "vga_color_value COLOR_LIGHT_RED = 12"
| "vga_color_value COLOR_LIGHT_MAGENTA = 13"
| "vga_color_value COLOR_LIGHT_BROWN = 14"
| "vga_color_value COLOR_WHITE = 15"

definition make_color :: "vga_color \<Rightarrow> vga_color \<Rightarrow> u8" where
  "make_color fg bg = ucast (vga_color_value fg OR push_bit 4 (vga_color_value bg))"

text \<open>
  On this target \<open>char\<close> is signed, so the assignment of \<open>c\<close> to a 16-bit integer extends
  its sign. The shift is done in \<open>int\<close> and the result cut to 16 bits, which is the shift
  of the 16-bit word.
\<close>

definition make_vgaentry :: "u8 \<Rightarrow> u8 \<Rightarrow> u16" where
  "make_vgaentry c color =
     (let c16 = scast c; color16 = ucast color in c16 OR push_bit 8 color16)"

section \<open>The terminal\<close>

definition VGA_WIDTH :: u32 where "VGA_WIDTH = 80"
definition VGA_HEIGHT :: u32 where "VGA_HEIGHT = 24"

lemma unat_VGA [simp]: "unat VGA_WIDTH = 80" "unat VGA_HEIGHT = 24"
  by (simp_all add: VGA_WIDTH_def VGA_HEIGHT_def)

record terminal =
  terminal_row :: u32
  terminal_column :: u32
  terminal_color :: u8
  terminal_buffer :: u32 \<comment> \<open>the pointer\<close>
  vmem :: "u32 \<Rightarrow> u16" \<comment> \<open>the 16-bit cell at an address\<close>

text \<open>\<open>terminal_buffer[index] = e\<close>: the cell \<open>index\<close> times two bytes after the pointer.\<close>

definition buffer_store :: "u32 \<Rightarrow> u16 \<Rightarrow> terminal \<Rightarrow> terminal" where
  "buffer_store index e t = t\<lparr>vmem := (vmem t)(terminal_buffer t + 2 * index := e)\<rparr>"

text \<open>The two nested loops of \<open>terminal_initialize\<close>.\<close>

definition clear_row :: "u32 \<Rightarrow> terminal \<Rightarrow> terminal" where
  "clear_row y t =
     fold (\<lambda>x t. buffer_store (y * VGA_WIDTH + x) (make_vgaentry 0x20 (terminal_color t)) t)
       (map of_nat [0..<unat VGA_WIDTH]) t"

definition terminal_initialize :: "terminal \<Rightarrow> terminal" where
  "terminal_initialize t =
     fold clear_row (map of_nat [0..<unat VGA_HEIGHT])
       (t\<lparr>terminal_row := 0, terminal_column := 0,
          terminal_color := make_color COLOR_LIGHT_GREY COLOR_BLACK,
          terminal_buffer := 0xB8000\<rparr>)"

definition terminal_setcolor :: "u8 \<Rightarrow> terminal \<Rightarrow> terminal" where
  "terminal_setcolor color t = t\<lparr>terminal_color := color\<rparr>"

definition terminal_putentryat :: "u8 \<Rightarrow> u8 \<Rightarrow> u32 \<Rightarrow> u32 \<Rightarrow> terminal \<Rightarrow> terminal" where
  "terminal_putentryat c color x y t =
     (let index = y * VGA_WIDTH + x in buffer_store index (make_vgaentry c color) t)"

text \<open>\<open>if (++terminal_row == VGA_HEIGHT) terminal_row = 0\<close>\<close>

definition next_row :: "terminal \<Rightarrow> terminal" where
  "next_row t =
     (let t = t\<lparr>terminal_row := terminal_row t + 1\<rparr> in
      if terminal_row t = VGA_HEIGHT then t\<lparr>terminal_row := 0\<rparr> else t)"

definition terminal_putchar :: "u8 \<Rightarrow> terminal \<Rightarrow> terminal" where
  "terminal_putchar c t =
     (if c = 0x0A then (next_row t)\<lparr>terminal_column := 0\<rparr>
      else
        let t = terminal_putentryat c (terminal_color t) (terminal_column t) (terminal_row t) t;
            t = t\<lparr>terminal_column := terminal_column t + 1\<rparr>
        in if terminal_column t = VGA_WIDTH then next_row (t\<lparr>terminal_column := 0\<rparr>) else t)"

text \<open>
  \<open>terminal_writestring\<close> walks the bytes from \<open>data\<close> to the end of the array they are in;
  without a NUL it leaves the array, which is \<open>None\<close>.
\<close>

fun terminal_writestring :: "u8 list \<Rightarrow> terminal \<Rightarrow> terminal option" where
  "terminal_writestring [] t = None"
| "terminal_writestring (b # data) t =
     (if b \<noteq> 0 then terminal_writestring data (terminal_putchar b t) else Some t)"

text \<open>The effect of \<open>terminal_writestring\<close> on a string literal of the code.\<close>

definition terminal_putbytes :: "u8 list \<Rightarrow> terminal \<Rightarrow> terminal" where
  "terminal_putbytes bs t = fold terminal_putchar bs t"

definition literal_bytes :: "string \<Rightarrow> u8 list" where
  "literal_bytes s = takeWhile (\<lambda>b. b \<noteq> 0) (bytes s)"

definition terminal_puts :: "string \<Rightarrow> terminal \<Rightarrow> terminal" where
  "terminal_puts s t = terminal_putbytes (literal_bytes s) t"

text \<open>
  The argument of \<open>terminal_putchar\<close> is computed in \<open>int\<close> and cut to a \<open>char\<close>; with a
  digit below 16 the 8-bit sum is the same.
\<close>

definition terminal_writehexdigits :: "u8 \<Rightarrow> terminal \<Rightarrow> terminal" where
  "terminal_writehexdigits digit t =
     (let low = digit AND 0x0F;
          high = drop_bit 4 (digit AND 0xF0);
          t = (if high > 9 then terminal_putchar (0x41 + high - 10) t
               else terminal_putchar (0x30 + high) t)
      in if low > 9 then terminal_putchar (0x41 + low - 10) t
         else terminal_putchar (0x30 + low) t)"

definition terminal_writehex :: "u32 \<Rightarrow> terminal \<Rightarrow> terminal" where
  "terminal_writehex val t =
     (let t = terminal_writehexdigits (ucast (drop_bit 24 (val AND 0xFF000000))) t;
          t = terminal_writehexdigits (ucast (drop_bit 16 (val AND 0x00FF0000))) t;
          t = terminal_writehexdigits (ucast (drop_bit 8 (val AND 0x0000FF00))) t
      in terminal_writehexdigits (ucast (val AND 0x000000FF)) t)"

section \<open>Cells: what a character and an attribute become\<close>

lemma vga_color_value_less: "vga_color_value c < 16"
  by (cases c) simp_all

lemma make_color_nibbles_all:
  "make_color fg bg AND 0x0F = ucast (vga_color_value fg)
   \<and> drop_bit 4 (make_color fg bg) = ucast (vga_color_value bg)"
  by (cases fg; cases bg) (simp_all add: make_color_def)

lemma vga_color_value_inj: "ucast (vga_color_value a) = (ucast (vga_color_value b) :: u8) \<longleftrightarrow> a = b"
  by (cases a; cases b) simp_all

lemma make_vgaentry_char: "ucast (make_vgaentry c color) = c"
  by (rule bit_word_eqI) (simp add: make_vgaentry_def Let_def bit_simps)

lemma make_vgaentry_attribute:
  "drop_bit 8 (make_vgaentry c color) = (if c < 0x80 then ucast color else mask 8)"
proof -
  have "drop_bit 8 (ucast c OR push_bit 8 (ucast color) :: u16) = ucast color"
    by (rule bit_word_eqI) (auto simp: bit_simps dest: bit_imp_le_length)
  moreover have "drop_bit 8 ((NOT (mask 8) OR ucast c) OR push_bit 8 (ucast color) :: u16) = mask 8"
    by (rule bit_word_eqI) (auto simp: bit_simps dest: bit_imp_le_length)
  ultimately show ?thesis by (simp add: make_vgaentry_def scast_char Let_def)
qed

section \<open>The abstract screen\<close>

text \<open>
  What a text terminal promises: 1920 cells and a cursor; a newline moves to the start of
  the next line, any other character is written at the cursor, which moves one cell on;
  both wrap around at the last line.
\<close>

record screen =
  cursor :: nat
  cells :: "nat \<Rightarrow> u16"

definition scr_put :: "u8 \<Rightarrow> u8 \<Rightarrow> screen \<Rightarrow> screen" where
  "scr_put color c s =
     (if c = 0x0A then s\<lparr>cursor := (cursor s div 80 + 1) mod 24 * 80\<rparr>
      else s\<lparr>cells := (cells s)(cursor s := make_vgaentry c color),
             cursor := (cursor s + 1) mod 1920\<rparr>)"

definition video_cell :: "nat \<Rightarrow> u32" where
  "video_cell i = 0xB8000 + 2 * of_nat i"

definition on_screen :: "terminal \<Rightarrow> bool" where
  "on_screen t \<longleftrightarrow>
     terminal_buffer t = 0xB8000 \<and> unat (terminal_row t) < 24 \<and> unat (terminal_column t) < 80"

definition screen_of :: "terminal \<Rightarrow> screen" where
  "screen_of t =
     \<lparr>cursor = unat (terminal_row t) * 80 + unat (terminal_column t),
      cells = (\<lambda>i. if i < 1920 then vmem t (video_cell i) else 0)\<rparr>"

lemma video_cell_inj: "i < 1920 \<Longrightarrow> j < 1920 \<Longrightarrow> video_cell i = video_cell j \<longleftrightarrow> i = j"
proof -
  assume b: "i < 1920" "j < 1920"
  have u: "unat (2 * of_nat k :: u32) = 2 * k" if "k < 1920" for k
    using that by (simp add: unat_word_ariths unat_of_nat)
  have "video_cell i = video_cell j \<longleftrightarrow> unat (2 * of_nat i :: u32) = unat (2 * of_nat j :: u32)"
    by (simp only: video_cell_def add_left_cancel word_eq_iff_unat [symmetric])
  with u b show ?thesis by simp
qed

lemma cursor_less: "on_screen t \<Longrightarrow> cursor (screen_of t) < 1920"
  by (simp add: on_screen_def screen_of_def)

lemma buffer_store_video:
  "terminal_buffer t = 0xB8000 \<Longrightarrow>
   buffer_store (of_nat i) e t = t\<lparr>vmem := (vmem t)(video_cell i := e)\<rparr>"
  by (simp add: buffer_store_def video_cell_def)

text \<open>The index that \<open>terminal_putentryat\<close> computes is the cursor.\<close>

lemma putentryat_video:
  assumes "terminal_buffer t = 0xB8000"
  shows "terminal_putentryat c color x y t =
    t\<lparr>vmem := (vmem t)(video_cell (unat y * 80 + unat x) := make_vgaentry c color)\<rparr>"
proof -
  have "y * VGA_WIDTH + x = of_nat (unat y * 80 + unat x)"
    by (simp add: VGA_WIDTH_def)
  then show ?thesis
    using buffer_store_video [OF assms] by (simp only: terminal_putentryat_def Let_def)
qed

lemma unat_Suc_small: "unat (w :: u32) < 100 \<Longrightarrow> unat (w + 1) = unat w + 1"
  by (subst unat_add_small) auto

lemma next_row_row:
  "unat (terminal_row t) < 24 \<Longrightarrow> unat (terminal_row (next_row t)) = (unat (terminal_row t) + 1) mod 24"
  by (auto simp: next_row_def Let_def VGA_HEIGHT_def word_eq_iff_unat unat_Suc_small)

lemma next_row_frame [simp]:
  "terminal_column (next_row t) = terminal_column t"
  "terminal_color (next_row t) = terminal_color t"
  "terminal_buffer (next_row t) = terminal_buffer t"
  "vmem (next_row t) = vmem t"
  by (simp_all add: next_row_def Let_def)

lemma putchar_color [simp]: "terminal_color (terminal_putchar c t) = terminal_color t"
  by (simp add: terminal_putchar_def terminal_putentryat_def buffer_store_def Let_def)

lemma putchar_buffer [simp]: "terminal_buffer (terminal_putchar c t) = terminal_buffer t"
  by (simp add: terminal_putchar_def terminal_putentryat_def buffer_store_def Let_def)

lemma putchar_vmem:
  assumes "on_screen t"
  shows "vmem (terminal_putchar c t) =
    (if c = 0x0A then vmem t
     else (vmem t)(video_cell (cursor (screen_of t)) := make_vgaentry c (terminal_color t)))"
  using assms
  by (simp add: terminal_putchar_def putentryat_video on_screen_def screen_of_def Let_def)

lemma putchar_position:
  assumes "on_screen t"
  shows "unat (terminal_row (terminal_putchar c t)) =
      (if c = 0x0A \<or> unat (terminal_column t) = 79 then (unat (terminal_row t) + 1) mod 24
       else unat (terminal_row t))"
    and "unat (terminal_column (terminal_putchar c t)) =
      (if c = 0x0A then 0 else (unat (terminal_column t) + 1) mod 80)"
proof -
  have r: "unat (terminal_row t) < 24" and col: "unat (terminal_column t) < 80"
    and b: "terminal_buffer t = 0xB8000"
    using assms by (simp_all add: on_screen_def)
  have w: "terminal_column t + 1 = VGA_WIDTH \<longleftrightarrow> unat (terminal_column t) = 79"
    using col by (simp add: VGA_WIDTH_def word_eq_iff_unat unat_Suc_small)
  show "unat (terminal_row (terminal_putchar c t)) =
      (if c = 0x0A \<or> unat (terminal_column t) = 79 then (unat (terminal_row t) + 1) mod 24
       else unat (terminal_row t))"
    using r w by (simp add: terminal_putchar_def putentryat_video [OF b] next_row_row Let_def)
  show "unat (terminal_column (terminal_putchar c t)) =
      (if c = 0x0A then 0 else (unat (terminal_column t) + 1) mod 80)"
    using col w by (simp add: terminal_putchar_def putentryat_video [OF b] unat_Suc_small Let_def)
qed

lemma putchar_on_screen: "on_screen t \<Longrightarrow> on_screen (terminal_putchar c t)"
  using putchar_position [of t c] by (auto simp: on_screen_def)

interpretation term_sink: char_sink terminal_putchar on_screen
  by unfold_locales (rule putchar_on_screen)

lemma putchar_screen:
  assumes "on_screen t"
  shows "screen_of (terminal_putchar c t) = scr_put (terminal_color t) c (screen_of t)"
proof -
  have r: "unat (terminal_row t) < 24" and col: "unat (terminal_column t) < 80"
    using assms by (simp_all add: on_screen_def)
  let ?t = "terminal_putchar c t"
  have cur: "cursor (screen_of ?t) = cursor (scr_put (terminal_color t) c (screen_of t))"
    using r col putchar_position [OF assms, of c]
    by (auto simp: screen_of_def scr_put_def mod_Suc)
  have "cells (screen_of ?t) = cells (scr_put (terminal_color t) c (screen_of t))"
    using cursor_less [OF assms]
    by (auto simp: fun_eq_iff scr_put_def putchar_vmem [OF assms] screen_of_def video_cell_inj)
  with cur show ?thesis by simp
qed

section \<open>Sequences of characters\<close>

lemma putbytes_simps [simp]:
  "terminal_putbytes [] t = t"
  "terminal_putbytes (b # bs) t = terminal_putbytes bs (terminal_putchar b t)"
  "terminal_putbytes (bs @ cs) t = terminal_putbytes cs (terminal_putbytes bs t)"
  by (simp_all add: terminal_putbytes_def)

lemma putbytes_on_screen: "on_screen t \<Longrightarrow> on_screen (terminal_putbytes bs t)"
  unfolding terminal_putbytes_def by (rule term_sink.good_fold)

lemma putbytes_color [simp]: "terminal_color (terminal_putbytes bs t) = terminal_color t"
  by (induction bs arbitrary: t) simp_all

lemma putbytes_buffer [simp]: "terminal_buffer (terminal_putbytes bs t) = terminal_buffer t"
  by (induction bs arbitrary: t) simp_all

lemma putbytes_screen:
  "on_screen t \<Longrightarrow>
   screen_of (terminal_putbytes bs t) = fold (scr_put (terminal_color t)) bs (screen_of t)"
  by (induction bs arbitrary: t) (simp_all add: putchar_screen putchar_on_screen)

lemma writestring_putbytes:
  "terminal_writestring data t =
     (if 0 \<in> set data then Some (terminal_putbytes (takeWhile (\<lambda>b. b \<noteq> 0) data) t) else None)"
  by (induction data arbitrary: t) auto

lemma writestring_literal: "terminal_writestring (c_literal s) t = Some (terminal_puts s t)"
  by (simp add: writestring_putbytes c_literal_def terminal_puts_def literal_bytes_def
      takeWhile_tail)

lemma puts_on_screen: "on_screen t \<Longrightarrow> on_screen (terminal_puts s t)"
  by (simp add: terminal_puts_def putbytes_on_screen)

lemma puts_color [simp]: "terminal_color (terminal_puts s t) = terminal_color t"
  by (simp add: terminal_puts_def)

text \<open>Printing touches the video memory only.\<close>

definition in_video_memory :: "u32 \<Rightarrow> bool" where
  "in_video_memory a \<longleftrightarrow> 0xB8000 \<le> a \<and> a < 0xB8000 + 2 * 1920"

lemma video_cell_in_memory: "i < 1920 \<Longrightarrow> in_video_memory (video_cell i)"
proof -
  assume i: "i < 1920"
  have "unat (2 * of_nat i :: u32) = 2 * i"
    using i by (simp add: unat_word_ariths unat_of_nat)
  then have "unat (video_cell i) = 0xB8000 + 2 * i"
    using i unfolding video_cell_def by (subst unat_add_small) auto
  with i show ?thesis by (simp add: in_video_memory_def word_le_nat_alt word_less_nat_alt)
qed

lemma putchar_outside:
  assumes "on_screen t" and "\<not> in_video_memory a"
  shows "vmem (terminal_putchar c t) a = vmem t a"
  using assms video_cell_in_memory [OF cursor_less [OF assms(1)]]
  by (auto simp: putchar_vmem)

lemma putbytes_outside:
  "on_screen t \<Longrightarrow> \<not> in_video_memory a \<Longrightarrow> vmem (terminal_putbytes bs t) a = vmem t a"
  by (induction bs arbitrary: t) (simp_all add: putchar_outside putchar_on_screen)

text \<open>A run of ordinary characters occupies consecutive cells from the cursor on.\<close>

lemma scr_put_run:
  assumes "cursor s < 1920" and "10 \<notin> set bs" and "length bs \<le> 1920"
  shows "cursor (fold (scr_put color) bs s) = (cursor s + length bs) mod 1920
    \<and> (\<forall>i < 1920. cells (fold (scr_put color) bs s) i =
        (let k = (i + 1920 - cursor s) mod 1920 in
         if k < length bs then make_vgaentry (bs ! k) color else cells s i))"
  using assms
proof (induction bs rule: rev_induct)
  case Nil
  then show ?case by simp
next
  case (snoc b bs)
  let ?s = "fold (scr_put color) bs s"
  have cur: "cursor ?s = (cursor s + length bs) mod 1920"
    and cel: "\<And>i. i < 1920 \<Longrightarrow> cells ?s i =
        (let k = (i + 1920 - cursor s) mod 1920 in
         if k < length bs then make_vgaentry (bs ! k) color else cells s i)"
    using snoc by auto
  have at: "(i + 1920 - cursor s) mod 1920 = length bs \<longleftrightarrow> i = cursor ?s" if "i < 1920" for i
    using that snoc.prems(1,3) unfolding cur by (auto simp: mod_if)
  have "cursor (scr_put color b ?s) = (cursor s + length (bs @ [b])) mod 1920"
    using snoc.prems(2) by (simp add: scr_put_def cur mod_Suc_eq)
  moreover have "cells (scr_put color b ?s) i =
        (let k = (i + 1920 - cursor s) mod 1920 in
         if k < length (bs @ [b]) then make_vgaentry ((bs @ [b]) ! k) color else cells s i)"
    if i: "i < 1920" for i
    using snoc.prems(2) at [OF i] cel [OF i]
    by (auto simp: scr_put_def Let_def nth_append less_Suc_eq)
  ultimately show ?case by simp
qed

section \<open>Hexadecimal output\<close>

definition hex_char :: "u8 \<Rightarrow> u8" where
  "hex_char n = (if n > 9 then 0x41 + n - 10 else 0x30 + n)"

definition hex_byte :: "u8 \<Rightarrow> u8 list" where
  "hex_byte d = [hex_char (drop_bit 4 (d AND 0xF0)), hex_char (d AND 0x0F)]"

definition byte_of_word :: "nat \<Rightarrow> u32 \<Rightarrow> u8" where
  "byte_of_word k v = ucast (drop_bit (8 * k) v)"

definition hex_word :: "u32 \<Rightarrow> u8 list" where
  "hex_word v = concat (map (\<lambda>k. hex_byte (byte_of_word k v)) [3, 2, 1, 0])"

definition unhex_char :: "u8 \<Rightarrow> nat" where
  "unhex_char c = (if c \<ge> 0x41 then unat (c - 0x41 + 10) else unat (c - 0x30))"

definition unhex :: "u8 list \<Rightarrow> nat" where
  "unhex cs = foldl (\<lambda>v c. 16 * v + unhex_char c) 0 cs"

lemma writehexdigits_putbytes: "terminal_writehexdigits d t = terminal_putbytes (hex_byte d) t"
  by (simp add: terminal_writehexdigits_def hex_byte_def hex_char_def Let_def)

lemma masked_byte: "ucast (drop_bit k (v AND push_bit k (mask 8)) :: u32) = (ucast (drop_bit k v) :: u8)"
  by (rule bit_word_eqI) (auto simp: bit_simps dest: bit_imp_le_length)

lemma writehex_masks:
  "(0xFF000000 :: u32) = push_bit 24 (mask 8)" "(0x00FF0000 :: u32) = push_bit 16 (mask 8)"
  "(0x0000FF00 :: u32) = push_bit 8 (mask 8)" "(0x000000FF :: u32) = push_bit 0 (mask 8)"
  by (simp_all add: mask_eq_exp_minus_1)

lemma writehex_putbytes: "terminal_writehex v t = terminal_putbytes (hex_word v) t"
proof -
  have "(ucast (v AND 0x000000FF) :: u8) = ucast (drop_bit 0 v)"
    using masked_byte [of 0 v] unfolding writehex_masks by simp
  then show ?thesis
    unfolding terminal_writehex_def Let_def writehexdigits_putbytes hex_word_def byte_of_word_def
      writehex_masks(1-3) masked_byte
    by simp
qed

lemma nibble_cases:
  fixes n :: u8
  assumes "n < 16"
  shows "n \<in> {0, 1, 2, 3, 4, 5, 6, 7, 8, 9, 10, 11, 12, 13, 14, 15}"
proof -
  have "unat n \<in> set [0..<16]" using assms by (simp add: word_less_nat_alt)
  then have "of_nat (unat n) \<in> (of_nat ` set [0..<16] :: u8 set)" by (rule imageI)
  then show ?thesis by (simp add: upt_rec)
qed

lemma unhex_hex_char: "n < 16 \<Longrightarrow> unhex_char (hex_char n) = unat n"
  by (drule nibble_cases) (auto simp: hex_char_def unhex_char_def)

lemma unat_nibbles:
  "unat ((d :: u8) AND 0x0F) = unat d mod 16" "unat (drop_bit 4 ((d :: u8) AND 0xF0)) = unat d div 16"
proof -
  have "d AND 0x0F = d AND mask 4"
    by (simp add: mask_eq_exp_minus_1)
  then show "unat (d AND 0x0F) = unat d mod 16"
    by (simp only: unat_and_mask) simp
  have "drop_bit 4 (d AND 0xF0) = drop_bit 4 d AND mask 4"
    by (simp add: drop_bit_and mask_eq_exp_minus_1)
  then show "unat (drop_bit 4 (d AND 0xF0)) = unat d div 16"
    using unat_less_of(1) [of d] by (simp only: unat_shr unat_and_mask) (simp add: less_mult_imp_div_less)
qed

lemma nibbles_less: "(d :: u8) AND 0x0F < 16" "drop_bit 4 ((d :: u8) AND 0xF0) < 16"
  using unat_less_of(1) [of d] by (simp_all add: word_less_nat_alt unat_nibbles)

lemma foldl_hex_byte: "foldl (\<lambda>v c. 16 * v + unhex_char c) v (hex_byte d) = 256 * v + unat d"
proof -
  have "foldl (\<lambda>v c. 16 * v + unhex_char c) v (hex_byte d) =
      16 * (16 * v + unat d div 16) + unat d mod 16"
    by (simp only: hex_byte_def foldl_Cons foldl_Nil unhex_hex_char nibbles_less unat_nibbles)
  also have "\<dots> = 256 * v + (16 * (unat d div 16) + unat d mod 16)" by simp
  finally show ?thesis by (simp only: mult_div_mod_eq)
qed

lemma unat_byte_of_word: "unat (byte_of_word k v) = unat v div 2 ^ (8 * k) mod 256"
  unfolding byte_of_word_def unat_ucast_mod unat_shr by simp

lemma unhex_hex_word: "unhex (hex_word v) = unat v"
proof -
  define n1 n2 n3 where "n1 = unat v div 256" and "n2 = n1 div 256" and "n3 = n2 div 256"
  have d: "unat v div 2 ^ 8 = n1" "unat v div 2 ^ 16 = n2" "unat v div 2 ^ 24 = n3"
    by (simp_all add: n1_def n2_def n3_def div_mult2_eq [symmetric])
  have "unhex (hex_word v) =
      256 * (256 * (256 * (unat v div 2 ^ 24 mod 256) + unat v div 2 ^ 16 mod 256)
        + unat v div 2 ^ 8 mod 256) + unat v mod 256"
    by (simp add: unhex_def hex_word_def foldl_hex_byte unat_byte_of_word)
  also have "\<dots> = 256 * (256 * (256 * (n3 mod 256) + n2 mod 256) + n1 mod 256) + unat v mod 256"
    unfolding d by (rule refl)
  also have "n3 mod 256 = n3"
    using unsigned_less [of v, where 'a = nat] unfolding d(3) [symmetric]
    by (simp add: less_mult_imp_div_less)
  also have "256 * (256 * (256 * n3 + n2 mod 256) + n1 mod 256) + unat v mod 256 = unat v"
    unfolding n3_def mult_div_mod_eq n2_def n1_def by (rule refl)
  finally show ?thesis .
qed

section \<open>Initialisation\<close>

lemma fold_stores:
  assumes "terminal_buffer t = 0xB8000"
  shows "fold (\<lambda>i t. buffer_store (f i) (g (terminal_color t)) t) is t =
    t\<lparr>vmem := (\<lambda>a. if a \<in> (\<lambda>i. 0xB8000 + 2 * f i) ` set is then g (terminal_color t) else vmem t a)\<rparr>"
  using assms
proof (induction "is" arbitrary: t)
  case Nil
  then show ?case by simp
next
  case (Cons i "is")
  have "terminal_buffer (buffer_store (f i) (g (terminal_color t)) t) = 0xB8000"
    using Cons.prems by (simp add: buffer_store_def)
  from Cons.IH [OF this] show ?case
    using Cons.prems by (auto simp: buffer_store_def fun_eq_iff)
qed

text \<open>The state with which the loops start.\<close>

definition terminal_reset :: "terminal \<Rightarrow> terminal" where
  "terminal_reset t =
     t\<lparr>terminal_row := 0, terminal_column := 0,
       terminal_color := make_color COLOR_LIGHT_GREY COLOR_BLACK, terminal_buffer := 0xB8000\<rparr>"

definition fill_cells :: "u16 \<Rightarrow> nat set \<Rightarrow> terminal \<Rightarrow> terminal" where
  "fill_cells e C t = t\<lparr>vmem := (\<lambda>a. if a \<in> video_cell ` C then e else vmem t a)\<rparr>"

lemma clear_row_fill:
  assumes "terminal_buffer t = 0xB8000"
  shows "clear_row (of_nat y) t =
    fill_cells (make_vgaentry 0x20 (terminal_color t)) {y * 80..<y * 80 + 80} t"
proof -
  have "(\<lambda>x. 0xB8000 + 2 * (of_nat y * VGA_WIDTH + x)) ` set (map of_nat [0..<unat VGA_WIDTH]) =
      (\<lambda>x. video_cell (y * 80 + x)) ` {0..<80}"
    unfolding unat_VGA set_map image_image atLeastLessThan_upt [symmetric]
    by (rule image_cong) (simp_all add: video_cell_def VGA_WIDTH_def algebra_simps)
  also have "\<dots> = video_cell ` {y * 80..<y * 80 + 80}"
    using image_add_atLeastLessThan [of "y * 80" 0 80]
    by (simp only: image_image [symmetric] add_0 add.commute [of 80])
  finally show ?thesis
    unfolding clear_row_def fill_cells_def
    by (subst fold_stores [OF assms, where g = "make_vgaentry 0x20"]) simp
qed

lemma fill_cells_empty: "fill_cells e {} t = t"
  by (simp add: fill_cells_def)

lemma fill_cells_fill_cells: "fill_cells e A (fill_cells e B t) = fill_cells e (B \<union> A) t"
  by (auto simp: fill_cells_def fun_eq_iff image_Un)

lemma fill_cells_frame [simp]:
  "terminal_buffer (fill_cells e C t) = terminal_buffer t"
  "terminal_color (fill_cells e C t) = terminal_color t"
  by (simp_all add: fill_cells_def)

lemma fold_clear_rows:
  assumes "terminal_buffer t = 0xB8000"
  shows "fold clear_row (map of_nat [0..<n]) t =
    fill_cells (make_vgaentry 0x20 (terminal_color t)) {0..<n * 80} t"
proof (induction n)
  case 0
  show ?case by (simp add: fill_cells_empty)
next
  case (Suc n)
  have "{0..<n * 80} \<union> {n * 80..<n * 80 + 80} = {0..<Suc n * 80}" by auto
  moreover have "fold clear_row (map of_nat [0..<Suc n]) t =
      clear_row (of_nat n) (fold clear_row (map of_nat [0..<n]) t)"
    by simp
  ultimately show ?case
    using clear_row_fill [of "fill_cells (make_vgaentry 0x20 (terminal_color t)) {0..<n * 80} t" n]
    by (simp only: Suc.IH assms fill_cells_frame fill_cells_fill_cells)
qed

lemma terminal_initialize_fill:
  "terminal_initialize t =
     fill_cells (make_vgaentry 0x20 (make_color COLOR_LIGHT_GREY COLOR_BLACK)) {0..<1920}
       (terminal_reset t)"
proof -
  have b: "terminal_buffer (terminal_reset t) = 0xB8000"
    "terminal_color (terminal_reset t) = make_color COLOR_LIGHT_GREY COLOR_BLACK"
    by (simp_all add: terminal_reset_def)
  have "terminal_initialize t = fold clear_row (map of_nat [0..<24]) (terminal_reset t)"
    by (simp add: terminal_initialize_def terminal_reset_def VGA_HEIGHT_def)
  with fold_clear_rows [OF b(1), of 24] b(2) show ?thesis by simp
qed

lemma initialize_on_screen: "on_screen (terminal_initialize t)"
  by (simp add: terminal_initialize_fill fill_cells_def terminal_reset_def on_screen_def)

section \<open>Properties\<close>

text \<open>
  C8. \<open>terminal_putchar\<close> implements the abstract screen: from a terminal whose cursor is on
  the screen, it leaves the cursor on the screen, and the screen it leaves is the one that
  the specification \<open>scr_put\<close> gives, newline, line wrap and wrap to the first line included.
\<close>

theorem terminal_putchar_refines:
  "on_screen t \<Longrightarrow>
   on_screen (terminal_putchar c t)
   \<and> screen_of (terminal_putchar c t) = scr_put (terminal_color t) c (screen_of t)"
  by (simp add: putchar_on_screen putchar_screen)

definition demo_terminal :: terminal where
  "demo_terminal = \<lparr>terminal_row = 23, terminal_column = 79, terminal_color = 0x07,
     terminal_buffer = 0xB8000, vmem = (\<lambda>_. 0)\<rparr>"

lemma demo_on_screen: "on_screen demo_terminal"
  by (simp add: demo_terminal_def on_screen_def)

theorem terminal_putchar_refines_witness:
  "on_screen (terminal_putchar 0x41 demo_terminal)
   \<and> cursor (screen_of (terminal_putchar 0x41 demo_terminal)) = 0"
  using terminal_putchar_refines [OF demo_on_screen, of "0x41"]
  by (simp add: scr_put_def screen_of_def demo_terminal_def)

text \<open>
  C20. Printing is memory safe: whatever string is printed, from a terminal whose cursor is
  on the screen, the call returns with the cursor on the screen and no cell outside the
  3840 bytes of the text mode video memory has changed.
\<close>

theorem terminal_puts_memory_safe:
  "on_screen t \<Longrightarrow>
   terminal_writestring (c_literal s) t = Some (terminal_puts s t)
   \<and> on_screen (terminal_puts s t)
   \<and> (\<forall>a. in_video_memory a \<or> vmem (terminal_puts s t) a = vmem t a)"
  using putbytes_outside by (auto simp: writestring_literal terminal_puts_def intro: putbytes_on_screen)

theorem terminal_puts_memory_safe_witness:
  "vmem (terminal_puts ''Kernel'' demo_terminal) 0xB0 = 0"
proof -
  have "\<not> in_video_memory 0xB0" by (simp add: in_video_memory_def)
  with terminal_puts_memory_safe [OF demo_on_screen, of "''Kernel''"]
  have "vmem (terminal_puts ''Kernel'' demo_terminal) 0xB0 = vmem demo_terminal 0xB0" by blast
  then show ?thesis by (simp add: demo_terminal_def)
qed

text \<open>
  C25. Text appears where the cursor is: \<open>n\<close> characters other than newline, at most a screen
  full, occupy the \<open>n\<close> cells from the cursor on (over the line ends and, past the last cell,
  from the first cell on), every other cell is as before, and the cursor has moved \<open>n\<close> cells.
\<close>

theorem terminal_text_placement:
  assumes "on_screen t" and "10 \<notin> set bs" and "length bs \<le> 1920"
  shows "cursor (screen_of (terminal_putbytes bs t)) = (cursor (screen_of t) + length bs) mod 1920
    \<and> (\<forall>i < 1920. cells (screen_of (terminal_putbytes bs t)) i =
        (let k = (i + 1920 - cursor (screen_of t)) mod 1920 in
         if k < length bs then make_vgaentry (bs ! k) (terminal_color t) else cells (screen_of t) i))"
  unfolding putbytes_screen [OF assms(1)]
  by (rule scr_put_run [OF cursor_less [OF assms(1)] assms(2,3)])

theorem terminal_text_placement_witness:
  "cursor (screen_of (terminal_putbytes [0x48, 0x69] demo_terminal)) = 1
   \<and> cells (screen_of (terminal_putbytes [0x48, 0x69] demo_terminal)) 0 = 0x0769"
proof -
  have h: "10 \<notin> set [0x48, 0x69 :: u8]" "length [0x48, 0x69 :: u8] \<le> 1920" by simp_all
  have c: "cursor (screen_of demo_terminal) = 1919"
    by (simp add: screen_of_def demo_terminal_def)
  have e: "make_vgaentry 0x69 (terminal_color demo_terminal) = 0x0769"
    by (simp add: make_vgaentry_def demo_terminal_def)
  note p = terminal_text_placement [OF demo_on_screen h, unfolded c]
  from p have "cursor (screen_of (terminal_putbytes [0x48, 0x69] demo_terminal)) = 1"
    by (elim conjE) (simp only: list.size, simp)
  moreover from p have "cells (screen_of (terminal_putbytes [0x48, 0x69] demo_terminal)) 0 = 0x0769"
    by (elim conjE allE [of _ "0 :: nat"]) (simp only: Let_def list.size, simp add: e)
  ultimately show ?thesis ..
qed


text \<open>
  C38. A cell keeps its character, and its colour when the character is ASCII; for a byte of
  0x80 and above the sign extension of \<open>char\<close> overwrites the colour with 0xFF. The two
  halves of a colour byte are the foreground and the background.
\<close>

theorem make_vgaentry_fields:
  "ucast (make_vgaentry c color) = c
   \<and> drop_bit 8 (make_vgaentry c color) = (if c < 0x80 then ucast color else 0xFF)
   \<and> make_color fg bg AND 0x0F = ucast (vga_color_value fg)
   \<and> drop_bit 4 (make_color fg bg) = ucast (vga_color_value bg)"
proof -
  have "(mask 8 :: u16) = 0xFF" by (simp add: mask_eq_exp_minus_1)
  with make_vgaentry_attribute [of c color] make_color_nibbles_all [of fg bg]
  show ?thesis by (simp only: make_vgaentry_char)
qed

text \<open>
  C36. \<open>terminal_initialize\<close> establishes the terminal's invariant from any state (the globals
  are uninitialised before it): the cursor is at the first cell, every cell of the screen
  is a blank, and nothing outside the video memory is written.
\<close>

theorem terminal_initialize_blank:
  "on_screen (terminal_initialize t) \<and> cursor (screen_of (terminal_initialize t)) = 0
   \<and> cells (screen_of (terminal_initialize t)) = (\<lambda>i. if i < 1920 then 0x0720 else 0)
   \<and> (\<forall>a. in_video_memory a \<or> vmem (terminal_initialize t) a = vmem t a)"
proof -
  have b: "make_vgaentry 0x20 (make_color COLOR_LIGHT_GREY COLOR_BLACK) = 0x0720"
    by (simp add: make_vgaentry_def make_color_def)
  show ?thesis
    using initialize_on_screen [of t]
    by (auto simp: terminal_initialize_fill b fill_cells_def terminal_reset_def screen_of_def
        fun_eq_iff dest!: video_cell_in_memory)
qed

end
