(* ===== verification/Util.thy ===== *)
theory Util
  imports Prelude
begin

text \<open>
  src/src/sys/arch/i686/util.h: port input and output, model specific registers, CPUID
  and the busy waits. The instructions talk to hardware that is not part of the program,
  so the hardware is a parameter: a \<open>device\<close> answers each input, knowing the whole history
  of what the code did to it (a trace of events, newest first). Theorems about all devices
  hold whatever the hardware answers.
\<close>

section \<open>Events and devices\<close>

datatype io_event =
    OutB u16 u8 | OutW u16 u16 | OutL u16 u32
  | InB u16 u8 | InW u16 u16 | InL u16 u32
  | WrMsr u32 u32 u32 \<comment> \<open>address, eax, edx\<close>
  | RdMsr u32 u32 u32
  | Cpuid u32
  | Delay nat \<comment> \<open>iterations of the counting loop\<close>
  | MmioLoad u32 u32 | MmioStore u32 u32
  | Invlpg u32
  | Lgdt u16 u32 | Lidt u16 u32 \<comment> \<open>limit and base of the table\<close>
  | SetDataSegments u16 | SetCodeSegment u16
  | Sti | Cli

type_synonym trace = "io_event list"

record device =
  dev_inb :: "trace \<Rightarrow> u16 \<Rightarrow> u8"
  dev_inw :: "trace \<Rightarrow> u16 \<Rightarrow> u16"
  dev_inl :: "trace \<Rightarrow> u16 \<Rightarrow> u32"
  dev_rdmsr :: "trace \<Rightarrow> u32 \<Rightarrow> u32 \<times> u32" \<comment> \<open>eax, edx\<close>
  dev_cpuid :: "u32 \<Rightarrow> u32 \<times> u32 \<times> u32 \<times> u32" \<comment> \<open>eax, ebx, ecx, edx of a leaf\<close>
  dev_load :: "trace \<Rightarrow> u32 \<Rightarrow> u32" \<comment> \<open>memory mapped registers\<close>

section \<open>Port input and output\<close>

definition outb :: "u16 \<Rightarrow> u8 \<Rightarrow> trace \<Rightarrow> trace" where
  "outb port val tr = OutB port val # tr"

definition outw :: "u16 \<Rightarrow> u16 \<Rightarrow> trace \<Rightarrow> trace" where
  "outw port val tr = OutW port val # tr"

definition outl :: "u16 \<Rightarrow> u32 \<Rightarrow> trace \<Rightarrow> trace" where
  "outl port val tr = OutL port val # tr"

definition inb :: "device \<Rightarrow> u16 \<Rightarrow> trace \<Rightarrow> u8 \<times> trace" where
  "inb E port tr = (let ret = dev_inb E tr port in (ret, InB port ret # tr))"

definition inw :: "device \<Rightarrow> u16 \<Rightarrow> trace \<Rightarrow> u16 \<times> trace" where
  "inw E port tr = (let ret = dev_inw E tr port in (ret, InW port ret # tr))"

definition inl :: "device \<Rightarrow> u16 \<Rightarrow> trace \<Rightarrow> u32 \<times> trace" where
  "inl E port tr = (let ret = dev_inl E tr port in (ret, InL port ret # tr))"

section \<open>Model specific registers\<close>

definition wrmsr :: "u32 \<Rightarrow> u64 \<Rightarrow> trace \<Rightarrow> trace" where
  "wrmsr addr val tr =
     (let eax = ucast (val AND 0xFFFFFFFF); edx = ucast (drop_bit 32 val)
      in WrMsr addr eax edx # tr)"

definition rdmsr :: "device \<Rightarrow> u32 \<Rightarrow> trace \<Rightarrow> u64 \<times> trace" where
  "rdmsr E addr tr =
     (let (eax, edx) = dev_rdmsr E tr addr
      in (push_bit 32 (ucast edx) OR ucast eax, RdMsr addr eax edx # tr))"

section \<open>CPUID\<close>

datatype (plugins only: size) cpuid_feature_t =
    CPUID_FEAT_ECX_SSE3 | CPUID_FEAT_ECX_PCLMUL | CPUID_FEAT_ECX_DTES64
  | CPUID_FEAT_ECX_MONITOR | CPUID_FEAT_ECX_DS_CPL | CPUID_FEAT_ECX_VMX
  | CPUID_FEAT_ECX_SMX | CPUID_FEAT_ECX_EST | CPUID_FEAT_ECX_TM2
  | CPUID_FEAT_ECX_SSSE3 | CPUID_FEAT_ECX_CID | CPUID_FEAT_ECX_FMA
  | CPUID_FEAT_ECX_CX16 | CPUID_FEAT_ECX_ETPRD | CPUID_FEAT_ECX_PDCM
  | CPUID_FEAT_ECX_DCA | CPUID_FEAT_ECX_SSE4_1 | CPUID_FEAT_ECX_SSE4_2
  | CPUID_FEAT_ECX_x2APIC | CPUID_FEAT_ECX_MOVBE | CPUID_FEAT_ECX_POPCNT
  | CPUID_FEAT_ECX_AES | CPUID_FEAT_ECX_XSAVE | CPUID_FEAT_ECX_OSXAVE
  | CPUID_FEAT_ECX_AVX
  | CPUID_FEAT_EDX_FPU | CPUID_FEAT_EDX_VME | CPUID_FEAT_EDX_DE
  | CPUID_FEAT_EDX_PSE | CPUID_FEAT_EDX_TSC | CPUID_FEAT_EDX_MSR
  | CPUID_FEAT_EDX_PAE | CPUID_FEAT_EDX_MCE | CPUID_FEAT_EDX_CX8
  | CPUID_FEAT_EDX_APIC | CPUID_FEAT_EDX_SEP | CPUID_FEAT_EDX_MTRR
  | CPUID_FEAT_EDX_PGE | CPUID_FEAT_EDX_MCA | CPUID_FEAT_EDX_CMOV
  | CPUID_FEAT_EDX_PAT | CPUID_FEAT_EDX_PSE36 | CPUID_FEAT_EDX_PSN
  | CPUID_FEAT_EDX_CLF | CPUID_FEAT_EDX_DTES | CPUID_FEAT_EDX_ACPI
  | CPUID_FEAT_EDX_MMX | CPUID_FEAT_EDX_FXSR | CPUID_FEAT_EDX_SSE
  | CPUID_FEAT_EDX_SSE2 | CPUID_FEAT_EDX_SS | CPUID_FEAT_EDX_HTT
  | CPUID_FEAT_EDX_TM1 | CPUID_FEAT_EDX_IA64 | CPUID_FEAT_EDX_PBE

text \<open>An enumerator without a value is one more than the one before it.\<close>

primrec cpuid_feature_value :: "cpuid_feature_t \<Rightarrow> nat" where
  "cpuid_feature_value CPUID_FEAT_ECX_SSE3 = 0"
| "cpuid_feature_value CPUID_FEAT_ECX_PCLMUL = 1"
| "cpuid_feature_value CPUID_FEAT_ECX_DTES64 = 2"
| "cpuid_feature_value CPUID_FEAT_ECX_MONITOR = 3"
| "cpuid_feature_value CPUID_FEAT_ECX_DS_CPL = 4"
| "cpuid_feature_value CPUID_FEAT_ECX_VMX = 5"
| "cpuid_feature_value CPUID_FEAT_ECX_SMX = 6"
| "cpuid_feature_value CPUID_FEAT_ECX_EST = 7"
| "cpuid_feature_value CPUID_FEAT_ECX_TM2 = 8"
| "cpuid_feature_value CPUID_FEAT_ECX_SSSE3 = 9"
| "cpuid_feature_value CPUID_FEAT_ECX_CID = 10"
| "cpuid_feature_value CPUID_FEAT_ECX_FMA = 12"
| "cpuid_feature_value CPUID_FEAT_ECX_CX16 = 13"
| "cpuid_feature_value CPUID_FEAT_ECX_ETPRD = 14"
| "cpuid_feature_value CPUID_FEAT_ECX_PDCM = 15"
| "cpuid_feature_value CPUID_FEAT_ECX_DCA = 18"
| "cpuid_feature_value CPUID_FEAT_ECX_SSE4_1 = 19"
| "cpuid_feature_value CPUID_FEAT_ECX_SSE4_2 = 20"
| "cpuid_feature_value CPUID_FEAT_ECX_x2APIC = 21"
| "cpuid_feature_value CPUID_FEAT_ECX_MOVBE = 22"
| "cpuid_feature_value CPUID_FEAT_ECX_POPCNT = 23"
| "cpuid_feature_value CPUID_FEAT_ECX_AES = 25"
| "cpuid_feature_value CPUID_FEAT_ECX_XSAVE = 26"
| "cpuid_feature_value CPUID_FEAT_ECX_OSXAVE = 27"
| "cpuid_feature_value CPUID_FEAT_ECX_AVX = 28"
| "cpuid_feature_value CPUID_FEAT_EDX_FPU = 32"
| "cpuid_feature_value CPUID_FEAT_EDX_VME = 33"
| "cpuid_feature_value CPUID_FEAT_EDX_DE = 34"
| "cpuid_feature_value CPUID_FEAT_EDX_PSE = 35"
| "cpuid_feature_value CPUID_FEAT_EDX_TSC = 36"
| "cpuid_feature_value CPUID_FEAT_EDX_MSR = 37"
| "cpuid_feature_value CPUID_FEAT_EDX_PAE = 38"
| "cpuid_feature_value CPUID_FEAT_EDX_MCE = 39"
| "cpuid_feature_value CPUID_FEAT_EDX_CX8 = 40"
| "cpuid_feature_value CPUID_FEAT_EDX_APIC = 41"
| "cpuid_feature_value CPUID_FEAT_EDX_SEP = 32 + 11"
| "cpuid_feature_value CPUID_FEAT_EDX_MTRR = 44"
| "cpuid_feature_value CPUID_FEAT_EDX_PGE = 45"
| "cpuid_feature_value CPUID_FEAT_EDX_MCA = 46"
| "cpuid_feature_value CPUID_FEAT_EDX_CMOV = 47"
| "cpuid_feature_value CPUID_FEAT_EDX_PAT = 48"
| "cpuid_feature_value CPUID_FEAT_EDX_PSE36 = 49"
| "cpuid_feature_value CPUID_FEAT_EDX_PSN = 50"
| "cpuid_feature_value CPUID_FEAT_EDX_CLF = 51"
| "cpuid_feature_value CPUID_FEAT_EDX_DTES = 32 + 21"
| "cpuid_feature_value CPUID_FEAT_EDX_ACPI = 54"
| "cpuid_feature_value CPUID_FEAT_EDX_MMX = 55"
| "cpuid_feature_value CPUID_FEAT_EDX_FXSR = 56"
| "cpuid_feature_value CPUID_FEAT_EDX_SSE = 57"
| "cpuid_feature_value CPUID_FEAT_EDX_SSE2 = 58"
| "cpuid_feature_value CPUID_FEAT_EDX_SS = 59"
| "cpuid_feature_value CPUID_FEAT_EDX_HTT = 60"
| "cpuid_feature_value CPUID_FEAT_EDX_TM1 = 61"
| "cpuid_feature_value CPUID_FEAT_EDX_IA64 = 62"
| "cpuid_feature_value CPUID_FEAT_EDX_PBE = 63"

text \<open>The bytes of a 32-bit word in memory, low byte first.\<close>

definition le_bytes :: "u32 \<Rightarrow> u8 list" where
  "le_bytes w = map (\<lambda>k. ucast (drop_bit (8 * k) w)) [0, 1, 2, 3]"

text \<open>
  \<open>cpuid_vendor\<close> fills the first twelve bytes of the caller's array: word 0 from ebx, word
  2 from ecx, word 1 from edx.
\<close>

definition cpuid_vendor :: "device \<Rightarrow> trace \<Rightarrow> u8 list \<times> trace" where
  "cpuid_vendor E tr =
     (let (eax, ebx, ecx, edx) = dev_cpuid E 0
      in (le_bytes ebx @ le_bytes edx @ le_bytes ecx, Cpuid 0 # tr))"

text \<open>\<open>1 << k\<close> for \<open>k\<close> up to 31, as bits of a \<open>uint32_t\<close>.\<close>

definition cpuid_test_feature :: "device \<Rightarrow> cpuid_feature_t \<Rightarrow> trace \<Rightarrow> bool \<times> trace" where
  "cpuid_test_feature E feat tr =
     (let (eax, ebx, ecx, edx) = dev_cpuid E 1;
          (bitfield, res) =
            (if cpuid_feature_value feat \<ge> 32
             then (push_bit (cpuid_feature_value feat - 32) 1, edx)
             else (push_bit (cpuid_feature_value feat) 1, ecx))
      in (res AND bitfield = bitfield, Cpuid 1 # tr))"

definition cpuid_get_signature :: "device \<Rightarrow> trace \<Rightarrow> u32 \<times> trace" where
  "cpuid_get_signature E tr = (let (eax, ebx, ecx, edx) = dev_cpuid E 1 in (eax, Cpuid 1 # tr))"

section \<open>Busy waits\<close>

text \<open>
  The loop decrements eax first and tests it then, so a start value of zero counts through
  all 32-bit values. The asm statement does not say that it changes eax, its input; the model
  has the value loaded anew for every statement, which the compiler is free not to do.
\<close>

definition delay_iterations :: "u32 \<Rightarrow> nat" where
  "delay_iterations eax = (if eax = 0 then 2 ^ 32 else unat eax)"

definition udelay :: "u32 \<Rightarrow> trace \<Rightarrow> trace" where
  "udelay n tr = (if n = 0 then tr else Delay (delay_iterations (n * 1000)) # tr)"

text \<open>\<open>while (--n) udelay(1000)\<close>\<close>

function mdelay :: "u32 \<Rightarrow> trace \<Rightarrow> trace" where
  "mdelay n tr = (let n = n - 1 in if n \<noteq> 0 then mdelay n (udelay 1000 tr) else tr)"
  by pat_completeness auto
termination
proof (relation "measure (\<lambda>(n, tr). unat (n - 1))")
  fix n x :: u32 and tr :: trace
  assume "x = n - 1" and "x \<noteq> 0"
  then show "((x, udelay 1000 tr), n, tr) \<in> measure (\<lambda>(n, tr). unat (n - 1))"
    using measure_unat [of "n - 1"] by simp
qed simp

declare mdelay.simps [simp del]

section \<open>Lemmas\<close>

lemma cpuid_feature_value_less: "cpuid_feature_value f < 64"
  by (cases f) simp_all

lemma and_exp_eq: "n < LENGTH('a) \<Longrightarrow> (w :: 'a::len word) AND 2 ^ n = 2 ^ n \<longleftrightarrow> bit w n"
proof -
  assume n: "n < LENGTH('a)"
  have "w AND 2 ^ n = (if bit w n then 2 ^ n else 0)"
    by (rule bit_word_eqI) (auto simp: bit_simps)
  moreover have "(2 ^ n :: 'a word) \<noteq> 0"
    using n by (simp add: exp_eq_zero_iff)
  ultimately show ?thesis by auto
qed

lemma mdelay_replicate: "mdelay n tr = replicate (unat (n - 1)) (Delay 1000000) @ tr"
proof (induction n tr rule: mdelay.induct)
  case (1 n tr)
  show ?case
  proof (cases "n - 1 = 0")
    case True
    then show ?thesis by (subst mdelay.simps) (simp add: Let_def)
  next
    case False
    have step: "mdelay n tr = mdelay (n - 1) (udelay 1000 tr)"
      using False by (subst mdelay.simps) (simp only: Let_def if_True simp_thms)
    have d: "udelay 1000 tr = Delay 1000000 # tr"
      by (simp add: udelay_def delay_iterations_def)
    have u: "unat (n - 1) = Suc (unat (n - 1 - 1))"
      using unat_minus_one [OF False] unat_eq_0 [of "n - 1"] False by linarith
    have "mdelay (n - 1) (udelay 1000 tr) =
        replicate (unat (n - 1 - 1)) (Delay 1000000) @ udelay 1000 tr"
      using 1 [OF refl False] .
    then show ?thesis
      unfolding step d u by (simp add: replicate_app_Cons_same)
  qed
qed

section \<open>Properties\<close>

text \<open>
  A model specific register round trip: the halves that \<open>wrmsr\<close> puts into eax and edx
  make up, when the register gives them back, the value written.
\<close>

theorem msr_roundtrip:
  "wrmsr addr val tr = WrMsr addr eax edx # tr \<Longrightarrow> dev_rdmsr E tr' addr = (eax, edx) \<Longrightarrow>
   fst (rdmsr E addr tr') = val"
proof -
  assume w: "wrmsr addr val tr = WrMsr addr eax edx # tr" and r: "dev_rdmsr E tr' addr = (eax, edx)"
  have m: "(0xFFFFFFFF :: u64) = mask 32" by (simp add: mask_eq_exp_minus_1)
  have "push_bit 32 (ucast (ucast (drop_bit 32 val) :: u32)) OR ucast (ucast (val AND mask 32) :: u32) = val"
    by (rule bit_word_eqI) (auto simp: bit_simps)
  with w r show ?thesis by (auto simp: wrmsr_def rdmsr_def m Let_def)
qed

text \<open>A processor to instantiate the hypotheses with: it has an APIC, disabled, at 0xFEE00000.\<close>

definition demo_device :: device where
  "demo_device = \<lparr>dev_inb = (\<lambda>_ _. 0), dev_inw = (\<lambda>_ _. 0), dev_inl = (\<lambda>_ _. 0),
     dev_rdmsr = (\<lambda>_ _. (0xFEE00100, 0)),
     dev_cpuid = (\<lambda>leaf. if leaf = 0 then (0xD, 0x756E6547, 0x6C65746E, 0x49656E69)
                  else (0x6FB, 0, 1, 0x200)),
     dev_load = (\<lambda>_ _. 0)\<rparr>"

theorem msr_roundtrip_witness: "fst (rdmsr demo_device 0x1B []) = 0xFEE00100"
  by (rule msr_roundtrip [of "0x1B" "0xFEE00100" "[]" "0xFEE00100" 0])
    (simp_all add: wrmsr_def demo_device_def)

text \<open>
  \<open>cpuid_test_feature\<close> reads exactly one bit: an EDX feature is bit \<open>value - 32\<close> of edx,
  an ECX feature bit \<open>value\<close> of ecx, of leaf 1; all values are below 64 and two features never
  share one, so no test reads the bit of another feature.
\<close>

theorem cpuid_test_feature_bit:
  assumes "dev_cpuid E 1 = (eax, ebx, ecx, edx)"
  shows "cpuid_test_feature E f tr =
      (if cpuid_feature_value f \<ge> 32 then bit edx (cpuid_feature_value f - 32)
       else bit ecx (cpuid_feature_value f), Cpuid 1 # tr)
    \<and> cpuid_feature_value f < 64"
  using cpuid_feature_value_less [of f]
  by (auto simp: cpuid_test_feature_def assms and_exp_eq Let_def)

theorem cpuid_test_feature_bit_witness:
  "fst (cpuid_test_feature demo_device CPUID_FEAT_EDX_APIC [])
   \<and> \<not> fst (cpuid_test_feature demo_device CPUID_FEAT_EDX_SSE [])"
  using cpuid_test_feature_bit [of demo_device "0x6FB" 0 1 "0x200" CPUID_FEAT_EDX_APIC "[]"]
    cpuid_test_feature_bit [of demo_device "0x6FB" 0 1 "0x200" CPUID_FEAT_EDX_SSE "[]"]
  by (simp add: demo_device_def)

text \<open>
  C37. \<open>mdelay\<close> waits one millisecond too little: for every argument it makes \<open>n - 1\<close> calls of
  \<open>udelay(1000)\<close> in 32-bit arithmetic, so none for 1, and for 0 not none but 4294967295.
\<close>

theorem mdelay_calls:
  "mdelay n tr = replicate (unat (n - 1)) (Delay 1000000) @ tr
   \<and> mdelay 1 tr = tr \<and> length (mdelay 0 []) = 2 ^ 32 - 1"
  by (simp add: mdelay_replicate unsigned_minus_1_eq_mask mask_eq_exp_minus_1)

end
