(* ===== verification/Keyboard.thy ===== *)
theory Keyboard
  imports Terminal
begin

text \<open>
  The keyboard translation, src/src/sys/keyboard.c and keyboard.h: two key tables, three
  modifier flags, and \<open>keyboard_handle\<close>, which turns a scan code into a character on the
  terminal or a change of a modifier.
\<close>

section \<open>The key tables\<close>

abbreviation (input) chr :: "char \<Rightarrow> u8" where
  "chr c \<equiv> of_char c"

definition KEYBOARD_TBF :: u16 where "KEYBOARD_TBF = 0xE0"
definition KEYUP :: u16 where "KEYUP = 0x80"

definition keymap :: "u8 list" where
  "keymap = [
     0, 0x1B, chr CHR ''1'', chr CHR ''2'',
     chr CHR ''3'', chr CHR ''4'', chr CHR ''5'', chr CHR ''6'',
     chr CHR ''7'', chr CHR ''8'', chr CHR ''9'', chr CHR ''0'',
     chr CHR ''-'', chr CHR ''='', 0x08, 0x09,
     chr CHR ''q'', chr CHR ''w'', chr CHR ''e'', chr CHR ''r'',
     chr CHR ''t'', chr CHR ''y'', chr CHR ''u'', chr CHR ''i'',
     chr CHR ''o'', chr CHR ''p'', chr CHR ''['', chr CHR '']'',
     0x0A, 0, chr CHR ''a'', chr CHR ''s'',
     chr CHR ''d'', chr CHR ''f'', chr CHR ''g'', chr CHR ''h'',
     chr CHR ''j'', chr CHR ''k'', chr CHR ''l'', chr CHR '';'',
     0x27, 0x60, 0, 0x5C,
     chr CHR ''z'', chr CHR ''x'', chr CHR ''c'', chr CHR ''v'',
     chr CHR ''b'', chr CHR ''n'', chr CHR ''m'', chr CHR '','',
     chr CHR ''.'', chr CHR ''/'', 0, 0,
     0, chr CHR '' '', 0, 0]"

definition keymap_up :: "u8 list" where
  "keymap_up = [
     0, 0x1B, chr CHR ''!'', chr CHR ''@'',
     chr CHR ''#'', chr CHR ''$'', chr CHR ''%'', 0x5E,
     chr CHR ''&'', chr CHR ''*'', chr CHR ''('', chr CHR '')'',
     chr CHR ''_'', chr CHR ''+'', 0x08, 0x09,
     chr CHR ''Q'', chr CHR ''W'', chr CHR ''E'', chr CHR ''R'',
     chr CHR ''T'', chr CHR ''Y'', chr CHR ''U'', chr CHR ''I'',
     chr CHR ''O'', chr CHR ''P'', chr CHR ''{'', chr CHR ''}'',
     0x0A, 0, chr CHR ''A'', chr CHR ''S'',
     chr CHR ''D'', chr CHR ''F'', chr CHR ''G'', chr CHR ''H'',
     chr CHR ''J'', chr CHR ''K'', chr CHR ''L'', chr CHR '':'',
     0x22, 0x7E, 0, 0x7C,
     chr CHR ''Z'', chr CHR ''X'', chr CHR ''C'', chr CHR ''V'',
     chr CHR ''B'', chr CHR ''N'', chr CHR ''M'', chr CHR ''<'',
     chr CHR ''>'', chr CHR ''?'', 0, 0,
     0, chr CHR '' '', 0, 0]"

section \<open>The handler\<close>

record keyboard =
  shiftl_down :: bool
  shiftr_down :: bool
  caps_down :: bool

definition keyboard_init :: keyboard where
  "keyboard_init = \<lparr>shiftl_down = False, shiftr_down = False, caps_down = False\<rparr>"

text \<open>The two \<open>switch\<close> statements: a special key goes down or up.\<close>

definition special_key :: "u16 \<Rightarrow> bool \<Rightarrow> keyboard \<Rightarrow> keyboard" where
  "special_key code down kb =
     (if code = 0x2A then kb\<lparr>shiftl_down := down\<rparr>
      else if code = 0x36 then kb\<lparr>shiftr_down := down\<rparr>
      else if code = 0x3A then kb\<lparr>caps_down := down\<rparr>
      else kb)"

definition selected_map :: "keyboard \<Rightarrow> u8 list" where
  "selected_map kb =
     (if ((shiftl_down kb \<or> shiftr_down kb) \<and> \<not> caps_down kb) \<or> caps_down kb
      then keymap_up else keymap)"

definition keyboard_handle :: "u16 \<Rightarrow> keyboard \<times> terminal \<Rightarrow> keyboard \<times> terminal" where
  "keyboard_handle code s =
     (let (kb, t) = s in
      if code AND 0xEF00 = push_bit 8 KEYBOARD_TBF then (kb, t)
      else if code AND KEYUP = 0 then
        let key_map = selected_map kb in
        if unat code < length keymap \<and> key_map ! unat code \<noteq> 0
        then (kb, terminal_putchar (key_map ! unat code) t)
        else (special_key code True kb, t)
      else (special_key (code XOR KEYUP) False kb, t))"

definition keyboard_run :: "u16 list \<Rightarrow> keyboard \<times> terminal \<Rightarrow> keyboard \<times> terminal" where
  "keyboard_run codes s = fold keyboard_handle codes s"

section \<open>The tables\<close>

lemma length_keymaps: "length keymap = 60" "length keymap_up = 60"
  by (simp_all add: keymap_def keymap_up_def)

lemma keymaps_zero:
  "list_all (\<lambda>i. (keymap ! i = 0) = (keymap_up ! i = 0)) [0..<60]"
  by code_simp

lemma keymap_zeroes:
  "filter (\<lambda>i. keymap ! i = 0) [0..<60] = [0, 0x1D, 0x2A, 0x36, 0x37, 0x38, 0x3A, 0x3B]"
  by code_simp

lemma keymaps_ascii: "list_all (\<lambda>c. c < 0x80) keymap" "list_all (\<lambda>c. c < 0x80) keymap_up"
  by code_simp+

text \<open>Reading an entry: the index is in both tables, and both have a zero in the same places.\<close>

lemma keymaps_same_zeros: "i < 60 \<Longrightarrow> keymap ! i = 0 \<longleftrightarrow> keymap_up ! i = 0"
  using keymaps_zero by (auto simp: list_all_iff)

lemma selected_map_cases: "selected_map kb = keymap \<or> selected_map kb = keymap_up"
  by (simp add: selected_map_def)

lemma length_selected_map: "length (selected_map kb) = 60"
  using selected_map_cases [of kb] by (auto simp: length_keymaps)

lemma selected_map_zero: "i < 60 \<Longrightarrow> selected_map kb ! i = 0 \<longleftrightarrow> keymap ! i = 0"
  using selected_map_cases [of kb] keymaps_same_zeros by auto

lemma selected_map_upper:
  "selected_map kb = (if shiftl_down kb \<or> shiftr_down kb \<or> caps_down kb then keymap_up else keymap)"
  by (auto simp: selected_map_def)

definition printable :: "u16 \<Rightarrow> bool" where
  "printable code \<longleftrightarrow> unat code < 60 \<and> keymap ! unat code \<noteq> 0"

section \<open>Kinds of scan code\<close>

lemma keyup_bit: "code AND KEYUP = 0 \<longleftrightarrow> \<not> bit code 7"
  using and_exp_eq_0_iff_not_bit [of code 7] by (simp add: KEYUP_def)

definition two_byte :: "u16 \<Rightarrow> bool" where
  "two_byte code \<longleftrightarrow> code AND 0xEF00 = 0xE000"

lemma handle_cases:
  "keyboard_handle code (kb, t) =
     (if two_byte code then (kb, t)
      else if bit code 7 then (special_key (code XOR KEYUP) False kb, t)
      else if printable code then (kb, terminal_putchar (selected_map kb ! unat code) t)
      else (special_key code True kb, t))"
proof -
  have "push_bit 8 KEYBOARD_TBF = 0xE000" by (simp add: KEYBOARD_TBF_def)
  then show ?thesis
    unfolding keyboard_handle_def two_byte_def keyup_bit
    by (auto simp: printable_def length_keymaps selected_map_zero Let_def)
qed

lemma byte_high_bits: "(ucast (c :: u8) :: u16) AND 0xEF00 = 0"
proof -
  have "(ucast c :: u16) = ucast c AND mask 8"
    by (rule bit_word_eqI) (auto simp: bit_simps dest: bit_imp_le_length)
  then have "(ucast c :: u16) AND 0xEF00 = (ucast c AND mask 8) AND 0xEF00"
    by (rule arg_cong)
  then have "(ucast c :: u16) AND 0xEF00 = ucast c AND (mask 8 AND 0xEF00)"
    by (simp only: and.assoc)
  then show ?thesis by (simp add: mask_eq_exp_minus_1)
qed

lemma two_byte_prefix: "two_byte (push_bit 8 KEYBOARD_TBF OR ucast (c :: u8))"
  by (simp add: two_byte_def KEYBOARD_TBF_def word_ao_dist byte_high_bits)

lemma byte_not_two_byte: "\<not> two_byte (ucast (c :: u8))"
  by (simp add: two_byte_def byte_high_bits)

lemma bit_byte_7: "bit (ucast (c :: u8) :: u16) 7 \<longleftrightarrow> \<not> c < 0x80"
  by (simp add: bit_simps byte_high)

section \<open>Frame and safety\<close>

lemma special_key_fields:
  "shiftl_down (special_key code d kb) = (if code = 0x2A then d else shiftl_down kb)"
  "shiftr_down (special_key code d kb) = (if code = 0x36 then d else shiftr_down kb)"
  "caps_down (special_key code d kb) = (if code = 0x3A then d else caps_down kb)"
  by (simp_all add: special_key_def)

lemma handle_on_screen:
  "on_screen (snd s) \<Longrightarrow> on_screen (snd (keyboard_handle code s))"
  by (cases s) (simp add: handle_cases putchar_on_screen)

lemma handle_color [simp]: "terminal_color (snd (keyboard_handle code s)) = terminal_color (snd s)"
  by (cases s) (simp add: handle_cases)

lemma run_on_screen: "on_screen (snd s) \<Longrightarrow> on_screen (snd (keyboard_run codes s))"
  unfolding keyboard_run_def
  by (induction codes arbitrary: s) (simp_all add: handle_on_screen)

section \<open>Modifiers\<close>

text \<open>
  The key whose make code is \<open>key\<close> is held down after a sequence of codes when the last of
  its two codes in it was the make code.
\<close>

definition held :: "u16 \<Rightarrow> u16 list \<Rightarrow> bool \<Rightarrow> bool" where
  "held key codes before =
     (case filter (\<lambda>c. c = key \<or> c = key XOR KEYUP) codes of [] \<Rightarrow> before | cs \<Rightarrow> last cs = key)"

lemma held_Nil: "held key [] b = b"
  by (simp add: held_def)

lemma held_snoc:
  "held key (cs @ [c]) b =
     (if c = key then True else if c = key XOR KEYUP then False else held key cs b)"
proof -
  have last: "(case xs @ [x] of [] \<Rightarrow> b | ys \<Rightarrow> last ys = key) \<longleftrightarrow> x = key" for xs :: "u16 list" and x
    by (cases xs) simp_all
  show ?thesis
  proof (cases "c = key \<or> c = key XOR KEYUP")
    case True
    then have "held key (cs @ [c]) b \<longleftrightarrow> c = key"
      by (simp only: held_def filter_append list.sel filter.simps if_True last)
    with True show ?thesis by auto
  next
    case False
    then show ?thesis by (simp add: held_def)
  qed
qed

lemma special_keymap: "keymap ! 0x2A = 0" "keymap ! 0x36 = 0" "keymap ! 0x3A = 0"
  by code_simp+

lemma special_codes:
  assumes "key \<in> {0x2A, 0x36, 0x3A}"
  shows "\<not> two_byte key" "\<not> bit key 7" "\<not> printable key"
    "\<not> two_byte (key XOR KEYUP)" "bit (key XOR KEYUP) 7" "key \<noteq> key XOR KEYUP"
proof -
  show "\<not> two_byte key" "\<not> two_byte (key XOR KEYUP)" "key \<noteq> key XOR KEYUP"
    using assms by (auto simp: two_byte_def KEYUP_def)
  show "\<not> bit key 7"
    using assms unfolding keyup_bit [symmetric] by (auto simp: KEYUP_def)
  have "(key XOR KEYUP) AND KEYUP \<noteq> 0"
    using assms by (auto simp: KEYUP_def)
  then show "bit (key XOR KEYUP) 7" unfolding keyup_bit by simp
  show "\<not> printable key"
    using assms special_keymap by (auto simp: printable_def)
qed

lemma xor_keyup_eq: "code XOR KEYUP = key \<longleftrightarrow> code = key XOR KEYUP"
proof -
  have "(c XOR KEYUP) XOR KEYUP = c" for c :: u16 by (simp add: xor.assoc)
  then show ?thesis by metis
qed

text \<open>One code, seen by a modifier \<open>flag\<close> whose key is \<open>key\<close>.\<close>

lemma handle_flag:
  assumes "key \<in> {0x2A, 0x36, 0x3A}"
    and "\<And>code d kb. flag (special_key code d kb) = (if code = key then d else flag kb)"
  shows "flag (fst (keyboard_handle code (kb, t))) =
    (if code = key then True else if code = key XOR KEYUP then False else flag kb)"
proof -
  note key = special_codes [OF assms(1)]
  consider "code = key" | "code = key XOR KEYUP" | "code \<noteq> key" "code \<noteq> key XOR KEYUP" by blast
  then show ?thesis
  proof cases
    case 1
    with key show ?thesis by (simp add: handle_cases assms(2))
  next
    case 2
    with key show ?thesis by (simp add: handle_cases assms(2) xor_keyup_eq)
  next
    case 3
    then show ?thesis by (simp add: handle_cases assms(2) xor_keyup_eq)
  qed
qed

lemma run_flag:
  assumes "key \<in> {0x2A, 0x36, 0x3A}"
    and "\<And>code d kb. flag (special_key code d kb) = (if code = key then d else flag kb)"
  shows "flag (fst (keyboard_run codes (kb, t))) = held key codes (flag kb)"
proof (induction codes rule: rev_induct)
  case Nil
  show ?case by (simp add: keyboard_run_def held_Nil)
next
  case (snoc c cs)
  obtain kb' t' where run: "keyboard_run cs (kb, t) = (kb', t')" by fastforce
  then have "keyboard_run (cs @ [c]) (kb, t) = keyboard_handle c (kb', t')"
    by (simp add: keyboard_run_def)
  with handle_flag [OF assms] snoc run show ?case by (simp add: held_snoc)
qed

section \<open>The US layout\<close>

text \<open>
  The PC keyboard with the US layout, in scan code set 1: the rows of its keys, each with the
  code of its first key and the characters of its keys without and with shift.
\<close>

definition us_rows :: "(nat \<times> string \<times> string) list" where
  "us_rows =
     [(0x01, [CHR 0x1B], [CHR 0x1B]),
      (0x02, ''1234567890-='' @ [CHR 0x08, CHR 0x09], ''!@#$%^&*()_+'' @ [CHR 0x08, CHR 0x09]),
      (0x10, ''qwertyuiop[]'' @ [CHR 0x0A], ''QWERTYUIOP{}'' @ [CHR 0x0A]),
      (0x1E, ''asdfghjkl;'' @ [CHR 0x27, CHR 0x60], ''ASDFGHJKL:'' @ [CHR 0x22, CHR 0x7E]),
      (0x2B, CHR 0x5C # ''zxcvbnm,./'', ''|ZXCVBNM<>?''),
      (0x39, '' '', '' '')]"

definition us_keys :: "(nat \<times> char \<times> char) list" where
  "us_keys = concat (map (\<lambda>(first, plain, shifted).
     zip [first..<first + length plain] (zip plain shifted)) us_rows)"

definition us_layout :: "u16 \<Rightarrow> (char \<times> char) option" where
  "us_layout code = map_of us_keys (unat code)"

lemma us_keys_tables:
  "list_all (\<lambda>(n, plain, shifted). keymap ! n = of_char plain \<and> keymap_up ! n = of_char shifted) us_keys"
  by code_simp

lemma us_keys_numbers: "map fst us_keys = filter (\<lambda>n. keymap ! n \<noteq> 0) [0..<60]"
  by code_simp

lemma us_layout_printable: "printable code \<longleftrightarrow> us_layout code \<noteq> None"
proof -
  have "us_layout code = None \<longleftrightarrow> unat code \<notin> set (map fst us_keys)"
    by (simp add: us_layout_def map_of_eq_None_iff)
  then show ?thesis unfolding us_keys_numbers by (auto simp: printable_def)
qed

lemma us_layout_map:
  assumes "us_layout code = Some (plain, shifted)"
  shows "selected_map kb ! unat code =
    of_char (if shiftl_down kb \<or> shiftr_down kb \<or> caps_down kb then shifted else plain)"
proof -
  have "(unat code, plain, shifted) \<in> set us_keys"
    using assms by (simp add: us_layout_def map_of_SomeD)
  with us_keys_tables show ?thesis
    by (auto simp: list_all_iff selected_map_upper)
qed

lemma us_codes:
  assumes "us_layout code \<noteq> None"
  shows "\<not> two_byte code" and "\<not> bit code 7"
proof -
  have c: "unat code < 60" using assms us_layout_printable [of code] by (simp add: printable_def)
  have u: "unat (ucast code :: u8) = unat code"
    using c by (simp add: unat_ucast_mod)
  then have "code = ucast (ucast code :: u8)"
    using c by (simp add: word_eq_iff_unat unat_ucast_mod)
  moreover have "(ucast code :: u8) < 0x80" using c u by (simp add: word_less_nat_alt)
  ultimately show "\<not> two_byte code" "\<not> bit code 7"
    using byte_not_two_byte [of "ucast code"] bit_byte_7 [of "ucast code"] by simp_all
qed

lemma special_release: "two_byte code \<Longrightarrow> code \<noteq> 0xAA \<and> code \<noteq> 0xB6 \<and> code \<noteq> 0xBA
    \<and> code \<noteq> 0x2A \<and> code \<noteq> 0x36 \<and> code \<noteq> 0x3A"
  by (auto simp: two_byte_def)

lemma special_key_record:
  "special_key code d kb = \<lparr>shiftl_down = (if code = 0x2A then d else shiftl_down kb),
     shiftr_down = (if code = 0x36 then d else shiftr_down kb),
     caps_down = (if code = 0x3A then d else caps_down kb)\<rparr>"
  by (cases kb) (simp add: special_key_def)

section \<open>Properties\<close>

text \<open>
  C17. \<open>keyboard_handle\<close> types the US layout. A press of a key with a character prints the
  character of the layout, the shifted one while a shift key or caps lock is down, and changes
  no flag; a press or release of the left shift, right shift or caps lock key sets or clears its
  flag; every other code, of one byte or two, changes nothing. Caps lock shifts the digits and
  signs as well as the letters.
\<close>

theorem keyboard_handle_branches:
  "keyboard_handle code (kb, t) = (case us_layout code of
     Some (plain, shifted) \<Rightarrow> (kb, terminal_putchar
       (of_char (if shiftl_down kb \<or> shiftr_down kb \<or> caps_down kb then shifted else plain)) t)
   | None \<Rightarrow>
       (\<lparr>shiftl_down = code = 0x2A \<or> code \<noteq> 0xAA \<and> shiftl_down kb,
         shiftr_down = code = 0x36 \<or> code \<noteq> 0xB6 \<and> shiftr_down kb,
         caps_down = code = 0x3A \<or> code \<noteq> 0xBA \<and> caps_down kb\<rparr>, t))"
proof (cases "us_layout code")
  case None
  have r: "code XOR KEYUP = key \<longleftrightarrow> code = key XOR KEYUP" for key by (rule xor_keyup_eq)
  have k: "0x2A XOR KEYUP = 0xAA" "0x36 XOR KEYUP = 0xB6" "0x3A XOR KEYUP = 0xBA"
    by (simp_all add: KEYUP_def)
  have b: "\<not> bit (0x2A :: u16) 7" "\<not> bit (0x36 :: u16) 7" "\<not> bit (0x3A :: u16) 7"
    "bit (0xAA :: u16) 7" "bit (0xB6 :: u16) 7" "bit (0xBA :: u16) 7"
    by simp_all
  have "\<not> printable code" using None by (simp add: us_layout_printable)
  with None b show ?thesis
    using special_release [of code]
    by (cases "two_byte code"; cases "bit code 7")
      (auto simp: handle_cases special_key_record r k)
next
  case (Some a)
  then obtain plain shifted where a: "us_layout code = Some (plain, shifted)" by (cases a) simp
  have "us_layout code \<noteq> None" using Some by simp
  then show ?thesis
    using us_codes [of code] us_layout_printable [of code] us_layout_map [OF a, of kb]
    by (simp add: handle_cases a)
qed

text \<open>
  C18. The modifier flags follow the keys: after any sequence of codes, whatever else is
  typed in between, each of the three flags says whether the last code of its key was a
  press. Caps lock is held down like shift, it does not toggle.
\<close>

theorem keyboard_modifiers_follow_keys:
  "shiftl_down (fst (keyboard_run codes (kb, t))) = held 0x2A codes (shiftl_down kb)
   \<and> shiftr_down (fst (keyboard_run codes (kb, t))) = held 0x36 codes (shiftr_down kb)
   \<and> caps_down (fst (keyboard_run codes (kb, t))) = held 0x3A codes (caps_down kb)"
  by (intro conjI run_flag) (simp_all add: special_key_fields)

text \<open>
  C32. The tables are read in bounds and hold ASCII characters only: for every code and
  state, either the character read is at an index of both tables, or nothing is printed;
  both tables have 60 entries, are zero at the same eight places and hold no byte above
  0x7F, so a typed character never loses its colour.
\<close>

theorem keyboard_tables_safe:
  "length keymap = 60 \<and> length keymap_up = 60
   \<and> (\<forall>i < 60. keymap ! i < 0x80 \<and> keymap_up ! i < 0x80
        \<and> (keymap ! i = 0 \<longleftrightarrow> keymap_up ! i = 0)
        \<and> (keymap ! i = 0 \<longleftrightarrow> i \<in> {0, 0x1D, 0x2A, 0x36, 0x37, 0x38, 0x3A, 0x3B}))
   \<and> (snd (keyboard_handle code (kb, t)) = t \<or>
      unat code < 60 \<and> snd (keyboard_handle code (kb, t)) =
        terminal_putchar (selected_map kb ! unat code) t)"
proof -
  have zero: "keymap ! i = 0 \<longleftrightarrow> i \<in> {0, 0x1D, 0x2A, 0x36, 0x37, 0x38, 0x3A, 0x3B}" if "i < 60" for i
  proof -
    have "keymap ! i = 0 \<longleftrightarrow> i \<in> set (filter (\<lambda>i. keymap ! i = 0) [0..<60])"
      using that by simp
    then show ?thesis unfolding keymap_zeroes by simp
  qed
  have "\<forall>i < 60. keymap ! i < 0x80 \<and> keymap_up ! i < 0x80"
    using keymaps_ascii by (auto simp: list_all_length length_keymaps)
  with zero keymaps_same_zeros show ?thesis
    by (auto simp: length_keymaps handle_cases printable_def)
qed

theorem keyboard_tables_safe_witness: "keymap ! 0x1E < 0x80 \<and> keymap_up ! 0x2A = 0"
proof -
  note t = keyboard_tables_safe [of 0 undefined undefined, THEN conjunct2, THEN conjunct2, THEN conjunct1]
  have "keymap ! 0x1E < 0x80" using t [rule_format, of "0x1E"] by simp
  moreover have "keymap ! 0x2A = 0 \<longleftrightarrow> keymap_up ! 0x2A = 0" and "keymap ! 0x2A = 0"
    using t [THEN spec, of "0x2A"] by fastforce+
  ultimately show ?thesis by blast
qed

end
