(* ===== verification/Pic.thy ===== *)
theory Pic
  imports Util
begin

text \<open>
  The interrupt controllers and the timer: src/src/sys/arch/i686/pic.c, pic.h, pit.c and
  pit.h. The code's side are the port writes it makes; what they achieve is stated on the
  command protocol of the 8259 data sheet, read off the trace of writes.
\<close>

section \<open>The code\<close>

definition IRQ_BASE :: u8 where "IRQ_BASE = 32"
definition IRQ_INTERCONNECT :: u8 where "IRQ_INTERCONNECT = 0x02"
definition PIC1_CMD :: u16 where "PIC1_CMD = 0x20"
definition PIC1_DATA :: u16 where "PIC1_DATA = 0x21"
definition PIC2_CMD :: u16 where "PIC2_CMD = 0xA0"
definition PIC2_DATA :: u16 where "PIC2_DATA = 0xA1"
definition PIC_CMD_RESET :: u8 where "PIC_CMD_RESET = 0x20"

lemmas pic_ports = PIC1_CMD_def PIC1_DATA_def PIC2_CMD_def PIC2_DATA_def

text \<open>\<open>outb( port, val ); udelay(1);\<close>\<close>

definition outb_wait :: "u16 \<Rightarrow> u8 \<Rightarrow> trace \<Rightarrow> trace" where
  "outb_wait port val tr = udelay 1 (outb port val tr)"

definition pic_init :: "trace \<Rightarrow> trace" where
  "pic_init tr =
     (let tr = outb_wait PIC1_CMD 0x11 tr;
          tr = outb_wait PIC2_CMD 0x11 tr;
          tr = outb_wait PIC1_DATA IRQ_BASE tr;
          tr = outb_wait PIC2_DATA (IRQ_BASE + 8) tr;
          tr = outb_wait PIC1_DATA (push_bit (unat IRQ_INTERCONNECT) 1) tr;
          tr = outb_wait PIC2_DATA IRQ_INTERCONNECT tr;
          tr = outb_wait PIC1_DATA 0x1 tr;
          tr = outb_wait PIC2_DATA 0x1 tr;
          tr = outb_wait PIC1_DATA (0xFF XOR push_bit (unat IRQ_INTERCONNECT) 1) tr
      in outb_wait PIC2_DATA 0xFF tr)"

text \<open>
  \<open>1 << n\<close> is a shift of a 32-bit \<open>int\<close>: undefined from 32 on. Up to 31 the bits are those of
  the unsigned shift.
\<close>

definition int_bit :: "nat \<Rightarrow> u32 option" where
  "int_bit n = (if n < 32 then Some (push_bit n 1) else None)"

definition pic_enable_line :: "device \<Rightarrow> u8 \<Rightarrow> trace \<Rightarrow> trace option" where
  "pic_enable_line E num tr =
     (if num < 8 then do {
        b \<leftarrow> int_bit (unat num);
        let (v, tr) = inb E PIC1_DATA tr;
        Some (outb PIC1_DATA (ucast (ucast v AND NOT b)) tr)
      } else do {
        b \<leftarrow> int_bit (unat num - 8);
        let (v, tr) = inb E PIC2_DATA tr;
        Some (outb PIC2_DATA (ucast (ucast v AND NOT b)) tr)
      })"

definition pic_disable_line :: "device \<Rightarrow> u8 \<Rightarrow> trace \<Rightarrow> trace option" where
  "pic_disable_line E num tr =
     (if num < 8 then do {
        b \<leftarrow> int_bit (unat num);
        let (v, tr) = inb E PIC1_DATA tr;
        Some (outb PIC1_DATA (ucast (ucast v OR b)) tr)
      } else do {
        b \<leftarrow> int_bit (unat num - 8);
        let (v, tr) = inb E PIC2_DATA tr;
        Some (outb PIC2_DATA (ucast (ucast v OR b)) tr)
      })"

text \<open>The timer: pit.c.\<close>

definition PIT_FREQ :: nat where "PIT_FREQ = 250"
definition PIT_DIVISOR :: nat where "PIT_DIVISOR = 1193180"
definition PIT_BASE :: u16 where "PIT_BASE = 0x40"
definition PIT_CMD :: u16 where "PIT_CMD = PIT_BASE + 0x03"
definition PIT_CH0 :: u16 where "PIT_CH0 = PIT_BASE + 0x00"
definition PIT_CMD_INIT :: u8 where "PIT_CMD_INIT = 0x36"

definition pit_init :: "trace \<Rightarrow> trace" where
  "pit_init tr =
     (let divi = (of_nat (PIT_DIVISOR div PIT_FREQ) :: u16);
          tr = outb PIT_CMD PIT_CMD_INIT tr;
          tr = outb PIT_CH0 (ucast (divi AND 0x00FF)) tr
      in outb PIT_CH0 (ucast (drop_bit 8 (divi AND 0xFF00))) tr)"

section \<open>The 8259 protocol\<close>

text \<open>
  The data sheet: a command with bit 4 set (ICW1) starts an initialisation, clears the mask
  and makes the next writes to the data port the initialisation words: the vector base, the
  cascade wiring (unless single), and the mode (if announced). Otherwise a write to the
  data port sets the interrupt mask, and a read returns it.
\<close>

datatype pic_phase = Ready | Await_ICW2 | Await_ICW3 | Await_ICW4

record pic8259 =
  phase :: pic_phase
  single :: bool
  need_icw4 :: bool
  vector_base :: u8
  cascade :: u8
  mode :: u8
  imr :: u8

definition pic_write_cmd :: "u8 \<Rightarrow> pic8259 \<Rightarrow> pic8259" where
  "pic_write_cmd v p =
     (if v AND 0x10 \<noteq> 0
      then p\<lparr>phase := Await_ICW2, single := v AND 0x02 \<noteq> 0, need_icw4 := v AND 0x01 \<noteq> 0, imr := 0\<rparr>
      else p)"

definition pic_write_data :: "u8 \<Rightarrow> pic8259 \<Rightarrow> pic8259" where
  "pic_write_data v p =
     (case phase p of
        Ready \<Rightarrow> p\<lparr>imr := v\<rparr>
      | Await_ICW2 \<Rightarrow> p\<lparr>vector_base := v AND 0xF8,
          phase := (if \<not> single p then Await_ICW3 else if need_icw4 p then Await_ICW4 else Ready)\<rparr>
      | Await_ICW3 \<Rightarrow> p\<lparr>cascade := v, phase := (if need_icw4 p then Await_ICW4 else Ready)\<rparr>
      | Await_ICW4 \<Rightarrow> p\<lparr>mode := v, phase := Ready\<rparr>)"

text \<open>A controller at its two ports, started in \<open>p0\<close>, after the events of a trace.\<close>

fun pic_after :: "u16 \<Rightarrow> u16 \<Rightarrow> pic8259 \<Rightarrow> trace \<Rightarrow> pic8259" where
  "pic_after cmd data p0 [] = p0"
| "pic_after cmd data p0 (OutB port v # tr) =
     (let p = pic_after cmd data p0 tr in
      if port = cmd then pic_write_cmd v p else if port = data then pic_write_data v p else p)"
| "pic_after cmd data p0 (_ # tr) = pic_after cmd data p0 tr"

abbreviation pic1_after :: "pic8259 \<Rightarrow> trace \<Rightarrow> pic8259" where
  "pic1_after \<equiv> pic_after PIC1_CMD PIC1_DATA"

abbreviation pic2_after :: "pic8259 \<Rightarrow> trace \<Rightarrow> pic8259" where
  "pic2_after \<equiv> pic_after PIC2_CMD PIC2_DATA"

text \<open>The devices whose mask registers read back, as the data sheet says.\<close>

definition pic_reads_mask :: "pic8259 \<Rightarrow> pic8259 \<Rightarrow> device \<Rightarrow> bool" where
  "pic_reads_mask p q E \<longleftrightarrow>
     (\<forall>tr. dev_inb E tr PIC1_DATA = imr (pic1_after p tr)
         \<and> dev_inb E tr PIC2_DATA = imr (pic2_after q tr))"

section \<open>The 8253 protocol\<close>

text \<open>
  The data sheet: a write to port 0x43 is a control word, for the channel in bits 6 and 7. If
  bits 4 and 5 are 0 it latches a count and programs nothing; otherwise they say which bytes of
  the reload value follow on the port of the channel, the low, the high, or the low and then the
  high, bits 1 to 3 give the mode and bit 0 BCD counting. Channel number 3 is the read-back
  command of the 8254. In mode 3 the output is a square wave of the input clock, 1193182 Hz,
  divided by the reload value.
\<close>

datatype pit_bytes = Low_byte | High_byte | Both_bytes

record pit_channel =
  load_bytes :: pit_bytes
  high_next :: bool
  pit_mode :: nat
  bcd :: bool
  reload :: u16

definition pit_control :: "u8 \<Rightarrow> (nat \<Rightarrow> pit_channel) \<Rightarrow> nat \<Rightarrow> pit_channel" where
  "pit_control v cs =
     (let ch = unat (drop_bit 6 v); access = unat (drop_bit 4 v AND 3)
      in if ch = 3 \<or> access = 0 then cs
      else cs(ch := (cs ch)\<lparr>load_bytes := (if access = 1 then Low_byte else if access = 2 then High_byte
                                            else Both_bytes),
             high_next := False, pit_mode := unat (drop_bit 1 v AND 7), bcd := bit v 0\<rparr>))"

definition pit_load :: "u8 \<Rightarrow> pit_channel \<Rightarrow> pit_channel" where
  "pit_load v c = (case load_bytes c of
     Low_byte \<Rightarrow> c\<lparr>reload := ucast v\<rparr>
   | High_byte \<Rightarrow> c\<lparr>reload := push_bit 8 (ucast v)\<rparr>
   | Both_bytes \<Rightarrow>
       if high_next c then c\<lparr>reload := push_bit 8 (ucast v) OR (reload c AND 0xFF), high_next := False\<rparr>
       else c\<lparr>reload := (reload c AND 0xFF00) OR ucast v, high_next := True\<rparr>)"

fun pit_after :: "(nat \<Rightarrow> pit_channel) \<Rightarrow> trace \<Rightarrow> nat \<Rightarrow> pit_channel" where
  "pit_after cs0 [] = cs0"
| "pit_after cs0 (OutB port v # tr) =
     (let cs = pit_after cs0 tr in
      if port = 0x43 then pit_control v cs
      else if 0x40 \<le> port \<and> port < 0x43
      then cs(unat (port - 0x40) := pit_load v (cs (unat (port - 0x40)))) else cs)"
| "pit_after cs0 (_ # tr) = pit_after cs0 tr"

definition pit_clock :: nat where "pit_clock = 1193182"

section \<open>Lemmas\<close>

lemma pic_after_outb_wait:
  "pic_after cmd data p0 (outb_wait port v tr) =
     (let p = pic_after cmd data p0 tr in
      if port = cmd then pic_write_cmd v p else if port = data then pic_write_data v p else p)"
  by (simp add: outb_wait_def udelay_def outb_def)

lemma pic_after_inb [simp]: "pic_after cmd data p0 (snd (inb E port tr)) = pic_after cmd data p0 tr"
  by (simp add: inb_def Let_def)

text \<open>Clearing and setting one bit of a byte, as the \<open>int\<close> expressions of the code do.\<close>

lemma clear_bit_byte: "(ucast (ucast (v :: u8) AND NOT (2 ^ n :: u32)) :: u8) = v AND NOT (2 ^ n)"
  by (rule bit_word_eqI) (auto simp: bit_simps)

lemma set_bit_byte: "(ucast (ucast (v :: u8) OR (2 ^ n :: u32)) :: u8) = v OR 2 ^ n"
  by (rule bit_word_eqI) (auto simp: bit_simps)

definition pics_ready :: "pic8259 \<Rightarrow> pic8259 \<Rightarrow> trace \<Rightarrow> bool" where
  "pics_ready p q tr \<longleftrightarrow> phase (pic1_after p tr) = Ready \<and> phase (pic2_after q tr) = Ready"

definition line_masked :: "pic8259 \<Rightarrow> pic8259 \<Rightarrow> trace \<Rightarrow> nat \<Rightarrow> bool" where
  "line_masked p q tr n \<longleftrightarrow>
     (if n < 8 then bit (imr (pic1_after p tr)) n else bit (imr (pic2_after q tr)) (n - 8))"

lemma pic_after_data_write:
  assumes "pics_ready p q tr"
  shows "pic1_after p (outb PIC1_DATA v tr) = (pic1_after p tr)\<lparr>imr := v\<rparr>"
    and "pic2_after q (outb PIC1_DATA v tr) = pic2_after q tr"
    and "pic1_after p (outb PIC2_DATA v tr) = pic1_after p tr"
    and "pic2_after q (outb PIC2_DATA v tr) = (pic2_after q tr)\<lparr>imr := v\<rparr>"
  using assms by (simp_all add: pics_ready_def outb_def pic_write_data_def pic_ports)

lemma pic_after_InB:
  "pic1_after p (InB port v # tr) = pic1_after p tr" "pic2_after p (InB port v # tr) = pic2_after p tr"
  by simp_all

lemma pics_ready_InB: "pics_ready p q (InB port v # tr) = pics_ready p q tr"
  by (simp add: pics_ready_def)

lemmas pic_line_simps = pic_after_data_write pic_after_InB pics_ready_InB

lemma int_bit_Some: "n < 32 \<Longrightarrow> int_bit n = Some (push_bit n 1)"
  by (simp add: int_bit_def)

lemma enable_line_imr:
  assumes "pic_reads_mask p q E" and "unat num < 40"
  shows "pic_enable_line E num tr = Some
    (if num < 8
     then outb PIC1_DATA (imr (pic1_after p tr) AND NOT (push_bit (unat num) 1))
            (InB PIC1_DATA (imr (pic1_after p tr)) # tr)
     else outb PIC2_DATA (imr (pic2_after q tr) AND NOT (push_bit (unat num - 8) 1))
            (InB PIC2_DATA (imr (pic2_after q tr)) # tr))"
  using assms
  by (simp add: pic_enable_line_def pic_reads_mask_def inb_def int_bit_Some clear_bit_byte
      word_less_nat_alt Let_def)

lemma disable_line_imr:
  assumes "pic_reads_mask p q E" and "unat num < 40"
  shows "pic_disable_line E num tr = Some
    (if num < 8
     then outb PIC1_DATA (imr (pic1_after p tr) OR push_bit (unat num) 1)
            (InB PIC1_DATA (imr (pic1_after p tr)) # tr)
     else outb PIC2_DATA (imr (pic2_after q tr) OR push_bit (unat num - 8) 1)
            (InB PIC2_DATA (imr (pic2_after q tr)) # tr))"
  using assms
  by (simp add: pic_disable_line_def pic_reads_mask_def inb_def int_bit_Some set_bit_byte
      word_less_nat_alt Let_def)

section \<open>The interface of the interrupt lines\<close>

text \<open>
  What a driver relies on: sixteen lines, each masked or not; enabling or disabling a line
  succeeds and changes that line only.
\<close>

locale irq_lines =
  fixes enable :: "nat \<Rightarrow> 's \<Rightarrow> 's option"
    and disable :: "nat \<Rightarrow> 's \<Rightarrow> 's option"
    and masked :: "'s \<Rightarrow> nat \<Rightarrow> bool"
    and ok :: "'s \<Rightarrow> bool"
  assumes enable_line: "ok s \<Longrightarrow> n < 16 \<Longrightarrow>
      \<exists>s'. enable n s = Some s' \<and> ok s' \<and> (\<forall>m < 16. masked s' m \<longleftrightarrow> masked s m \<and> m \<noteq> n)"
    and disable_line: "ok s \<Longrightarrow> n < 16 \<Longrightarrow>
      \<exists>s'. disable n s = Some s' \<and> ok s' \<and> (\<forall>m < 16. masked s' m \<longleftrightarrow> masked s m \<or> m = n)"
begin

lemma enable_disable:
  assumes "ok s" and "n < 16" and "masked s n"
  shows "\<exists>s1 s2. enable n s = Some s1 \<and> disable n s1 = Some s2 \<and> ok s2
    \<and> (\<forall>m < 16. masked s2 m = masked s m)"
proof -
  obtain s1 where 1: "enable n s = Some s1" "ok s1" "\<forall>m < 16. masked s1 m \<longleftrightarrow> masked s m \<and> m \<noteq> n"
    using enable_line [OF assms(1,2)] by blast
  obtain s2 where 2: "disable n s1 = Some s2" "ok s2" "\<forall>m < 16. masked s2 m \<longleftrightarrow> masked s1 m \<or> m = n"
    using disable_line [OF 1(2) assms(2)] by blast
  from 1 2 assms show ?thesis by blast
qed

end

text \<open>
  The controllers as a provider: a state is the power-on state of both, the device and the
  trace.
\<close>

type_synonym pics = "pic8259 \<times> pic8259 \<times> device \<times> trace"

definition pics_ok :: "pics \<Rightarrow> bool" where
  "pics_ok = (\<lambda>(p, q, E, tr). pic_reads_mask p q E \<and> pics_ready p q tr)"

definition pics_masked :: "pics \<Rightarrow> nat \<Rightarrow> bool" where
  "pics_masked = (\<lambda>(p, q, E, tr). line_masked p q tr)"

definition pics_enable :: "nat \<Rightarrow> pics \<Rightarrow> pics option" where
  "pics_enable n = (\<lambda>(p, q, E, tr). map_option (\<lambda>tr. (p, q, E, tr)) (pic_enable_line E (of_nat n) tr))"

definition pics_disable :: "nat \<Rightarrow> pics \<Rightarrow> pics option" where
  "pics_disable n = (\<lambda>(p, q, E, tr). map_option (\<lambda>tr. (p, q, E, tr)) (pic_disable_line E (of_nat n) tr))"

lemma bit_clear: "bit ((v :: u8) AND NOT (2 ^ n)) m \<longleftrightarrow> bit v m \<and> m \<noteq> n"
  by (auto simp: bit_simps dest: bit_imp_le_length)

lemma bit_set: "m < 8 \<Longrightarrow> bit ((v :: u8) OR 2 ^ n) m \<longleftrightarrow> bit v m \<or> m = n"
  by (auto simp: bit_simps)

lemma enable_line_masks:
  assumes "pic_reads_mask p q E" and "pics_ready p q tr" and "unat num < 40"
  shows "\<exists>tr'. pic_enable_line E num tr = Some tr' \<and> pics_ready p q tr'
    \<and> (\<forall>m < 16. line_masked p q tr' m \<longleftrightarrow> line_masked p q tr m \<and> m \<noteq> unat num)"
proof (cases "num < 8")
  case True
  then have "unat num < 8" by (simp add: word_less_nat_alt)
  with True show ?thesis
    using assms(2) by (auto simp: enable_line_imr [OF assms(1,3)] pic_line_simps pics_ready_def
        line_masked_def bit_clear)
next
  case False
  then have "8 \<le> unat num" by (simp add: word_less_nat_alt)
  with False show ?thesis
    using assms(2) by (auto simp: enable_line_imr [OF assms(1,3)] pic_line_simps pics_ready_def
        line_masked_def bit_clear)
qed

lemma disable_line_masks:
  assumes "pic_reads_mask p q E" and "pics_ready p q tr" and "unat num < 40"
  shows "\<exists>tr'. pic_disable_line E num tr = Some tr' \<and> pics_ready p q tr'
    \<and> (\<forall>m < 16. line_masked p q tr' m \<longleftrightarrow> line_masked p q tr m \<or> m = unat num)"
proof (cases "num < 8")
  case True
  then have "unat num < 8" by (simp add: word_less_nat_alt)
  with True show ?thesis
    using assms(2) by (auto simp: disable_line_imr [OF assms(1,3)] pic_line_simps pics_ready_def
        line_masked_def bit_set)
next
  case False
  then have "8 \<le> unat num" by (simp add: word_less_nat_alt)
  with False show ?thesis
    using assms(2) by (auto simp: disable_line_imr [OF assms(1,3)] pic_line_simps pics_ready_def
        line_masked_def bit_set)
qed

interpretation pic: irq_lines pics_enable pics_disable pics_masked pics_ok
proof
  fix s :: pics and n :: nat
  assume ok: "pics_ok s" and n: "n < 16"
  obtain p q E tr where s: "s = (p, q, E, tr)" by (cases s)
  have u: "unat (of_nat n :: u8) = n" using n by (simp add: unat_of_nat)
  show "\<exists>s'. pics_enable n s = Some s' \<and> pics_ok s' \<and>
      (\<forall>m < 16. pics_masked s' m \<longleftrightarrow> pics_masked s m \<and> m \<noteq> n)"
    using ok n u enable_line_masks [of p q E tr "of_nat n"]
    by (auto simp: s pics_ok_def pics_enable_def pics_masked_def)
  show "\<exists>s'. pics_disable n s = Some s' \<and> pics_ok s' \<and>
      (\<forall>m < 16. pics_masked s' m \<longleftrightarrow> pics_masked s m \<or> m = n)"
    using ok n u disable_line_masks [of p q E tr "of_nat n"]
    by (auto simp: s pics_ok_def pics_disable_def pics_masked_def)
qed

section \<open>The state after \<open>pic_init\<close>\<close>

lemma pic_init_state:
  "pic1_after p (pic_init tr) =
     \<lparr>phase = Ready, single = False, need_icw4 = True, vector_base = 32, cascade = 4, mode = 1,
      imr = 0xFB\<rparr>
   \<and> pic2_after q (pic_init tr) =
     \<lparr>phase = Ready, single = False, need_icw4 = True, vector_base = 40, cascade = 2, mode = 1,
      imr = 0xFF\<rparr>
   \<and> pics_ready p q (pic_init tr)
   \<and> (\<forall>n < 16. line_masked p q (pic_init tr) n \<longleftrightarrow> n \<noteq> 2)"
proof -
  have 1: "pic1_after p (pic_init tr) =
     \<lparr>phase = Ready, single = False, need_icw4 = True, vector_base = 32, cascade = 4, mode = 1,
      imr = 0xFB\<rparr>"
    by (simp add: pic_init_def pic_after_outb_wait pic_ports pic_write_cmd_def pic_write_data_def
        IRQ_BASE_def IRQ_INTERCONNECT_def Let_def)
  have 2: "pic2_after q (pic_init tr) =
     \<lparr>phase = Ready, single = False, need_icw4 = True, vector_base = 40, cascade = 2, mode = 1,
      imr = 0xFF\<rparr>"
    by (simp add: pic_init_def pic_after_outb_wait pic_ports pic_write_cmd_def pic_write_data_def
        IRQ_BASE_def IRQ_INTERCONNECT_def Let_def)
  have 3: "bit (0xFB :: u8) n \<longleftrightarrow> n \<noteq> 2" "bit (0xFF :: u8) n" if "n < 8" for n
  proof -
    have "n \<in> {0, 1, 2, 3, 4, 5, 6, 7}" using that by auto
    then show "bit (0xFB :: u8) n \<longleftrightarrow> n \<noteq> 2" "bit (0xFF :: u8) n" by auto
  qed
  from 1 2 3 show ?thesis
    by (auto simp: pics_ready_def line_masked_def)
qed

section \<open>Properties\<close>

text \<open>A controller that has just been switched on, and a device that obeys the data sheet.\<close>

definition demo_pic :: pic8259 where
  "demo_pic = \<lparr>phase = Ready, single = False, need_icw4 = False, vector_base = 0, cascade = 0,
     mode = 0, imr = 0\<rparr>"

definition demo_pic_device :: device where
  "demo_pic_device = \<lparr>
     dev_inb = (\<lambda>tr port. if port = PIC1_DATA then imr (pic1_after demo_pic tr)
                 else if port = PIC2_DATA then imr (pic2_after demo_pic tr) else 0),
     dev_inw = (\<lambda>_ _. 0), dev_inl = (\<lambda>_ _. 0), dev_rdmsr = (\<lambda>_ _. (0, 0)),
     dev_cpuid = (\<lambda>_. (0, 0, 0, 0)), dev_load = (\<lambda>_ _. 0)\<rparr>"

lemma demo_pic_reads: "pic_reads_mask demo_pic demo_pic demo_pic_device"
  by (simp add: pic_reads_mask_def demo_pic_device_def pic_ports)

text \<open>
  C12. \<open>pic_init\<close> remaps and masks: whatever state the controllers were in, they are ready
  afterwards, the master delivers at vectors 32 to 39 and the slave at 40 to 47 (clear of the
  exceptions 0 to 31), the cascade is on line 2 of the master with slave identity 2, both are
  in 8086 mode, and every line is masked but the cascade.
\<close>

theorem pic_init_remaps:
  "pic1_after p (pic_init tr) =
     \<lparr>phase = Ready, single = False, need_icw4 = True, vector_base = 32, cascade = 4, mode = 1,
      imr = 0xFB\<rparr>
   \<and> pic2_after q (pic_init tr) =
     \<lparr>phase = Ready, single = False, need_icw4 = True, vector_base = 40, cascade = 2, mode = 1,
      imr = 0xFF\<rparr>
   \<and> pics_ready p q (pic_init tr)
   \<and> (\<forall>n < 16. line_masked p q (pic_init tr) n \<longleftrightarrow> n \<noteq> 2)"
  by (rule pic_init_state)

theorem pic_init_remaps_witness:
  "vector_base (pic1_after demo_pic (pic_init [])) = 32
   \<and> line_masked demo_pic demo_pic (pic_init []) 1"
  using pic_init_remaps [of demo_pic "[]" demo_pic] by simp

text \<open>
  C33. Enabling a line enables that line only: on ready controllers whose mask registers read
  back, \<open>pic_enable_line\<close> returns for every line number up to 39 and the only line whose mask
  changes is the one asked for (none, from 16 on); from 40 on the shift of the code is
  undefined.
\<close>

theorem pic_enable_line_exact:
  assumes "pic_reads_mask p q E" and "pics_ready p q tr"
  shows "(if unat num < 40
     then \<exists>tr'. pic_enable_line E num tr = Some tr' \<and> pics_ready p q tr'
       \<and> (\<forall>m < 16. line_masked p q tr' m \<longleftrightarrow> line_masked p q tr m \<and> m \<noteq> unat num)
     else pic_enable_line E num tr = None)"
proof (cases "unat num < 40")
  case True
  then show ?thesis using enable_line_masks [OF assms True] by simp
next
  case False
  then have "\<not> num < 8" "\<not> unat num - 8 < 32" by (simp_all add: word_less_nat_alt)
  with False show ?thesis by (simp add: pic_enable_line_def int_bit_def)
qed

theorem pic_enable_line_exact_witness:
  "\<exists>tr'. pic_enable_line demo_pic_device 1 (pic_init []) = Some tr'
     \<and> \<not> line_masked demo_pic demo_pic tr' 1 \<and> line_masked demo_pic demo_pic tr' 0"
proof -
  have r: "pics_ready demo_pic demo_pic (pic_init [])" and
    m: "\<forall>n < 16. line_masked demo_pic demo_pic (pic_init []) n \<longleftrightarrow> n \<noteq> 2"
    using pic_init_state [of demo_pic "[]" demo_pic] by blast+
  show ?thesis
    using pic_enable_line_exact [OF demo_pic_reads r, of 1] m by auto
qed

text \<open>
  C35. Enabling a masked line and disabling it again restores the mask of all sixteen lines.
\<close>

theorem pic_enable_disable_restores:
  assumes "pic_reads_mask p q E" and "pics_ready p q tr" and "n < 16" and "line_masked p q tr n"
  shows "\<exists>tr1 tr2. pic_enable_line E (of_nat n) tr = Some tr1
    \<and> pic_disable_line E (of_nat n) tr1 = Some tr2
    \<and> (\<forall>m < 16. line_masked p q tr2 m = line_masked p q tr m)"
  using pic.enable_disable [of "(p, q, E, tr)" n] assms
  by (auto simp: pics_ok_def pics_masked_def pics_enable_def pics_disable_def)

theorem pic_enable_disable_restores_witness:
  "\<exists>tr1 tr2. pic_enable_line demo_pic_device (of_nat 9) (pic_init []) = Some tr1
    \<and> pic_disable_line demo_pic_device (of_nat 9) tr1 = Some tr2
    \<and> (\<forall>m < 16. line_masked demo_pic demo_pic tr2 m \<longleftrightarrow> m \<noteq> 2)"
proof -
  have r: "pics_ready demo_pic demo_pic (pic_init [])" and
    m: "\<forall>n < 16. line_masked demo_pic demo_pic (pic_init []) n \<longleftrightarrow> n \<noteq> 2"
    using pic_init_state [of demo_pic "[]" demo_pic] by blast+
  from m have "line_masked demo_pic demo_pic (pic_init []) 9" by simp
  from pic_enable_disable_restores [OF demo_pic_reads r _ this] m show ?thesis by force
qed

text \<open>
  C34. Whatever a trace has made of the timer, \<open>pit_init\<close> leaves channel 0 fully programmed:
  square wave, binary, both bytes of the reload value taken and none awaited, and a reload value
  for which the frequency of the output lies between 250 and 250.1 Hz. The channels 1 and 2, the
  memory refresh and the speaker, stay as they were.
\<close>

theorem pit_init_programs_250Hz:
  "let cs = pit_after cs0 (pit_init tr); c = cs 0 in
     pit_mode c = 3 \<and> \<not> bcd c \<and> load_bytes c = Both_bytes \<and> \<not> high_next c
   \<and> 250 * unat (reload c) \<le> pit_clock \<and> 10 * pit_clock < 2501 * unat (reload c)
   \<and> (\<forall>n. n \<noteq> 0 \<longrightarrow> cs n = pit_after cs0 tr n)"
proof -
  let ?cs = "pit_after cs0 tr"
  have p: "pit_init tr = OutB 0x40 0x12 # OutB 0x40 0xA4 # OutB 0x43 0x36 # tr"
    by (simp add: pit_init_def outb_def PIT_DIVISOR_def PIT_FREQ_def PIT_CMD_def PIT_CH0_def
        PIT_BASE_def PIT_CMD_INIT_def Let_def)
  have r: "0x1200 OR (((w :: u16) AND 0xFF00) OR 0xA4) AND 0xFF = 0x12A4" for w
  proof -
    have "(w AND 0xFF00) AND 0xFF = 0" by (simp add: and.assoc)
    then have "((w AND 0xFF00) OR 0xA4) AND 0xFF = 0xA4" by (simp only: word_ao_dist) simp
    then show ?thesis by simp
  qed
  have c: "pit_after cs0 (pit_init tr) = ?cs(0 := (?cs 0)\<lparr>load_bytes := Both_bytes, pit_mode := 3,
      bcd := False, reload := 0x12A4, high_next := False\<rparr>)"
    unfolding p by (simp add: pit_control_def pit_load_def Let_def r)
  show ?thesis unfolding c by (simp add: pit_clock_def)
qed

text \<open>A timer in any state, and one whose count is half loaded.\<close>

theorem pit_init_programs_250Hz_witness:
  "let c = \<lparr>load_bytes = Both_bytes, high_next = True, pit_mode = 0, bcd = True, reload = 7\<rparr> in
     reload (pit_after (\<lambda>_. c) (pit_init []) 0) \<noteq> 7 \<and> pit_after (\<lambda>_. c) (pit_init []) 2 = c"
  using pit_init_programs_250Hz
    [of "\<lambda>_. \<lparr>load_bytes = Both_bytes, high_next = True, pit_mode = 0, bcd = True, reload = 7\<rparr>" "[]"]
  by (auto simp: Let_def pit_clock_def)

end
