(* ===== verification/Tables.thy ===== *)
theory Tables
  imports Util
begin

text \<open>
  The descriptor tables: src/src/sys/arch/i686/tables.c and tables.h, the stub names of
  irqdefs.h, the vector numbers of isr.h, and \<open>gdt_flush\<close>, \<open>idt_flush\<close> of entry.s and isr.s.
  Where the linker puts the tables and the stubs is not in the source: it is a parameter,
  the \<open>image\<close>. What the descriptors mean is stated with the layout of the Intel manual.
\<close>

section \<open>Availability of the APIC\<close>

text \<open>
  apic.c: the preprocessor symbol \<open>i686_USE_APIC\<close> is a parameter of the model. The build
  files of the repository never define it.
\<close>

definition apic_is_available :: "bool \<Rightarrow> device \<Rightarrow> trace \<Rightarrow> bool \<times> trace" where
  "apic_is_available i686_USE_APIC E tr =
     (if i686_USE_APIC then cpuid_test_feature E CPUID_FEAT_EDX_APIC tr else (False, tr))"

section \<open>The tables\<close>

record gdt_entry =
  g_limit_low :: u16
  g_base_low :: u16
  g_base_middle :: u8
  g_access :: u8
  g_granularity :: u8
  g_base_high :: u8

record gdt_ptr =
  gp_limit :: u16
  gp_base :: u32

record idt_entry =
  i_base_low :: u16
  i_selector :: u16
  ignore_is_always_0 :: u8
  i_flags :: u8
  i_base_high :: u16

record idt_ptr =
  ip_limit :: u16
  ip_base :: u32

definition sizeof_gdt_entry :: nat where "sizeof_gdt_entry = 8"
definition sizeof_idt_entry :: nat where "sizeof_idt_entry = 8"

record tables =
  gdt :: "gdt_entry list"
  p_gdt :: gdt_ptr
  idts :: "idt_entry list"
  p_idt :: idt_ptr

text \<open>The entry points of isr.s, named as in irqdefs.h.\<close>

datatype stub = Isr nat | Irq nat | Irq_a nat

record image =
  addr_gdt :: u32
  addr_idts :: u32
  stub_addr :: "stub \<Rightarrow> u32"

section \<open>The global descriptor table\<close>

definition make_gdt_entry :: "u32 \<Rightarrow> u32 \<Rightarrow> u8 \<Rightarrow> u8 \<Rightarrow> gdt_entry" where
  "make_gdt_entry base limit access gran =
     \<lparr>g_limit_low = ucast (limit AND 0xFFFF),
      g_base_low = ucast (base AND 0xFFFF),
      g_base_middle = ucast (drop_bit 16 base AND 0xFF),
      g_access = access,
      g_granularity = ucast (drop_bit 16 limit AND 0x0F) OR (gran AND 0xF0),
      g_base_high = ucast (drop_bit 24 base AND 0xFF)\<rparr>"

definition gdt_set_gate :: "int \<Rightarrow> u32 \<Rightarrow> u32 \<Rightarrow> u8 \<Rightarrow> u8 \<Rightarrow> tables \<Rightarrow> tables option" where
  "gdt_set_gate num base limit access gran T =
     (if 0 \<le> num \<and> nat num < length (gdt T)
      then Some (T\<lparr>gdt := (gdt T)[nat num := make_gdt_entry base limit access gran]\<rparr>)
      else None)"

text \<open>
  \<open>gdt_flush\<close> (entry.s): load the table register, reload the data segments with selector
  0x10 and, by a far jump, the code segment with selector 0x08.
\<close>

definition gdt_flush :: "tables \<Rightarrow> trace \<Rightarrow> trace" where
  "gdt_flush T tr =
     SetCodeSegment 0x08 # SetDataSegments 0x10 # Lgdt (gp_limit (p_gdt T)) (gp_base (p_gdt T)) # tr"

definition gdt_init :: "image \<Rightarrow> tables \<times> trace \<Rightarrow> (tables \<times> trace) option" where
  "gdt_init img s = (let (T, tr) = s in do {
     let T = T\<lparr>p_gdt := \<lparr>gp_limit = of_nat (sizeof_gdt_entry * 3 - 1), gp_base = addr_gdt img\<rparr>\<rparr>;
     T \<leftarrow> gdt_set_gate 0 0 0 0 0 T;
     T \<leftarrow> gdt_set_gate 1 0 0xFFFFFFFF 0x9A 0xCF T;
     T \<leftarrow> gdt_set_gate 2 0 0xFFFFFFFF 0x92 0xCF T;
     T \<leftarrow> gdt_set_gate 3 0 0xFFFFFFFF 0xFA 0xCF T;
     T \<leftarrow> gdt_set_gate 4 0 0xFFFFFFFF 0xF2 0xCF T;
     Some (T, gdt_flush T tr)
   })"

section \<open>The interrupt descriptor table\<close>

definition make_idt_entry :: "u32 \<Rightarrow> u16 \<Rightarrow> u8 \<Rightarrow> idt_entry" where
  "make_idt_entry base selector flags =
     \<lparr>i_base_low = ucast (base AND 0xFFFF), i_selector = selector, ignore_is_always_0 = 0,
      i_flags = flags, i_base_high = ucast (drop_bit 16 base AND 0xFFFF)\<rparr>"

definition idt_set_gate :: "u8 \<Rightarrow> u32 \<Rightarrow> u16 \<Rightarrow> u8 \<Rightarrow> tables \<Rightarrow> tables option" where
  "idt_set_gate num base selector flags T = do {
     es \<leftarrow> array_put (unat num) (make_idt_entry base selector flags) (idts T);
     Some (T\<lparr>idts := es\<rparr>)
   }"

text \<open>\<open>((uint8_t*)&idts)[i] = 0x00\<close>: byte \<open>i mod 8\<close> of entry \<open>i div 8\<close>.\<close>

definition clear_entry_byte :: "nat \<Rightarrow> idt_entry \<Rightarrow> idt_entry" where
  "clear_entry_byte b e =
     (if b = 0 then e\<lparr>i_base_low := i_base_low e AND 0xFF00\<rparr>
      else if b = 1 then e\<lparr>i_base_low := i_base_low e AND 0x00FF\<rparr>
      else if b = 2 then e\<lparr>i_selector := i_selector e AND 0xFF00\<rparr>
      else if b = 3 then e\<lparr>i_selector := i_selector e AND 0x00FF\<rparr>
      else if b = 4 then e\<lparr>ignore_is_always_0 := 0\<rparr>
      else if b = 5 then e\<lparr>i_flags := 0\<rparr>
      else if b = 6 then e\<lparr>i_base_high := i_base_high e AND 0xFF00\<rparr>
      else e\<lparr>i_base_high := i_base_high e AND 0x00FF\<rparr>)"

definition idt_clear_byte :: "nat \<Rightarrow> idt_entry list \<Rightarrow> idt_entry list option" where
  "idt_clear_byte i es = array_put (i div 8) (clear_entry_byte (i mod 8) (es ! (i div 8))) es"

definition idt_clear :: "idt_entry list \<Rightarrow> idt_entry list option" where
  "idt_clear es = for_each idt_clear_byte [0..<sizeof_idt_entry * 256] es"

definition IRQ :: "nat \<Rightarrow> nat" where "IRQ n = 32 + n"

text \<open>The gates that the calls of \<open>idt_init\<close> set, in their order.\<close>

definition idt_gates :: "bool \<Rightarrow> (u8 \<times> stub) list" where
  "idt_gates apic =
     map (\<lambda>n. (of_nat n, Isr n)) [0..<32] @
     map (\<lambda>n. (of_nat (IRQ n), if apic then Irq_a n else Irq n)) [0..<16]"

definition idt_flush :: "tables \<Rightarrow> trace \<Rightarrow> trace" where
  "idt_flush T tr = Lidt (ip_limit (p_idt T)) (ip_base (p_idt T)) # tr"

definition idt_init :: "bool \<Rightarrow> device \<Rightarrow> image \<Rightarrow> tables \<times> trace \<Rightarrow> (tables \<times> trace) option" where
  "idt_init i686_USE_APIC E img s = (let (T, tr) = s in do {
     let T = T\<lparr>p_idt := \<lparr>ip_limit = of_nat (sizeof_idt_entry * 256 - 1), ip_base = addr_idts img\<rparr>\<rparr>;
     es \<leftarrow> idt_clear (idts T);
     let T = T\<lparr>idts := es\<rparr>;
     let (apic, tr) = apic_is_available i686_USE_APIC E tr;
     T \<leftarrow> for_each (\<lambda>(num, st). idt_set_gate num (stub_addr img st) 0x08 0x8E) (idt_gates apic) T;
     Some (T, idt_flush T tr)
   })"

section \<open>What a descriptor means\<close>

definition seg_base :: "gdt_entry \<Rightarrow> u32" where
  "seg_base e = push_bit 24 (ucast (g_base_high e)) OR push_bit 16 (ucast (g_base_middle e))
     OR ucast (g_base_low e)"

definition seg_limit :: "gdt_entry \<Rightarrow> u32" where
  "seg_limit e = push_bit 16 (ucast (g_granularity e) AND 0x0F) OR ucast (g_limit_low e)"

definition seg_flags :: "gdt_entry \<Rightarrow> u8" where
  "seg_flags e = g_granularity e AND 0xF0"

definition seg_last_byte :: "gdt_entry \<Rightarrow> nat" where
  "seg_last_byte e =
     (if bit (g_granularity e) 7 then unat (seg_limit e) * 4096 + 4095 else unat (seg_limit e))"

definition gate_offset :: "idt_entry \<Rightarrow> u32" where
  "gate_offset e = push_bit 16 (ucast (i_base_high e)) OR ucast (i_base_low e)"

definition gate_present :: "idt_entry \<Rightarrow> bool" where
  "gate_present e \<longleftrightarrow> bit (i_flags e) 7"

definition null_gate :: idt_entry where
  "null_gate = \<lparr>i_base_low = 0, i_selector = 0, ignore_is_always_0 = 0, i_flags = 0, i_base_high = 0\<rparr>"

section \<open>Lemmas\<close>

lemma join_base:
  "push_bit 24 (ucast (ucast (drop_bit 24 w AND mask 8) :: u8)) OR
   push_bit 16 (ucast (ucast (drop_bit 16 w AND mask 8) :: u8)) OR
   ucast (ucast (w AND mask 16) :: u16) = (w :: u32)" (is "?l = w")
proof (rule bit_word_eqI)
  fix n assume "n < LENGTH(32)"
  then show "bit ?l n = bit w n" by (cases "n < 24") (auto simp: bit_simps)
qed

lemma seg_make_gdt_entry:
  "seg_base (make_gdt_entry base limit access gran) = base"
  "seg_limit (make_gdt_entry base limit access gran) = take_bit 20 limit"
  "seg_flags (make_gdt_entry base limit access gran) = gran AND 0xF0"
  "g_access (make_gdt_entry base limit access gran) = access"
proof -
  have m: "(0xFF :: u32) = mask 8" "(0xFFFF :: u32) = mask 16" "(0x0F :: u32) = mask 4"
      "(0xF0 :: u8) = NOT (mask 4)"
    by (simp_all add: mask_eq_exp_minus_1)
  show "seg_base (make_gdt_entry base limit access gran) = base"
    by (simp only: seg_base_def make_gdt_entry_def m gdt_entry.simps join_base)
  show "seg_limit (make_gdt_entry base limit access gran) = take_bit 20 limit"
    unfolding seg_limit_def make_gdt_entry_def m
    by (rule bit_word_eqI) (auto simp: bit_simps)
  show "seg_flags (make_gdt_entry base limit access gran) = gran AND 0xF0"
    unfolding seg_flags_def make_gdt_entry_def m
    by (rule bit_word_eqI) (auto simp: bit_simps)
  show "g_access (make_gdt_entry base limit access gran) = access"
    by (simp add: make_gdt_entry_def)
qed

lemma gate_make_idt_entry:
  "gate_offset (make_idt_entry base sel fl) = base"
  "i_selector (make_idt_entry base sel fl) = sel" "i_flags (make_idt_entry base sel fl) = fl"
proof -
  have m: "(0xFFFF :: u32) = mask 16" by (simp add: mask_eq_exp_minus_1)
  show "gate_offset (make_idt_entry base sel fl) = base"
    unfolding gate_offset_def make_idt_entry_def m
    by (rule bit_word_eqI) (auto simp: bit_simps)
qed (simp_all add: make_idt_entry_def)

lemma gdt_set_gate_cases:
  "gdt_set_gate (int n) base limit access gran T =
     (if n < length (gdt T)
      then Some (T\<lparr>gdt := (gdt T)[n := make_gdt_entry base limit access gran]\<rparr>) else None)"
  by (simp add: gdt_set_gate_def)

lemma gdt_init_result:
  assumes "length (gdt T) = 5"
  shows "gdt_init img (T, tr) = Some
    (T\<lparr>p_gdt := \<lparr>gp_limit = 23, gp_base = addr_gdt img\<rparr>,
       gdt := [make_gdt_entry 0 0 0 0, make_gdt_entry 0 0xFFFFFFFF 0x9A 0xCF,
               make_gdt_entry 0 0xFFFFFFFF 0x92 0xCF, make_gdt_entry 0 0xFFFFFFFF 0xFA 0xCF,
               make_gdt_entry 0 0xFFFFFFFF 0xF2 0xCF]\<rparr>,
     SetCodeSegment 0x08 # SetDataSegments 0x10 # Lgdt 23 (addr_gdt img) # tr)"
proof -
  obtain a b c d e where T: "gdt T = [a, b, c, d, e]"
    using assms by (auto simp: length_Suc_conv numeral_eq_Suc)
  show ?thesis
    by (simp add: gdt_init_def gdt_set_gate_def gdt_flush_def T sizeof_gdt_entry_def Let_def)
qed

text \<open>The byte loop clears every entry.\<close>

lemma clear_all_bytes: "fold clear_entry_byte [0..<8] e = null_gate"
proof -
  have 1: "((w :: u16) AND 0xFF00) AND 0x00FF = 0" for w by (simp add: and.assoc)
  have 2: "[0..<8] = [0, 1, 2, 3, 4, 5, 6, 7 :: nat]" by (simp add: upt_rec)
  show ?thesis
    unfolding 2 by (cases e) (simp add: clear_entry_byte_def null_gate_def 1)
qed

text \<open>The loop, on an array that is long enough.\<close>

definition byte_cleared :: "nat \<Rightarrow> idt_entry list \<Rightarrow> idt_entry list" where
  "byte_cleared i es = es[i div 8 := clear_entry_byte (i mod 8) (es ! (i div 8))]"

lemma fold_clear_entry:
  assumes "n < length es" and "\<forall>b \<in> set bs. b < 8"
  shows "fold byte_cleared (map (\<lambda>b. n * 8 + b) bs) es = es[n := fold clear_entry_byte bs (es ! n)]"
  using assms
proof (induction bs arbitrary: es)
  case Nil
  then show ?case by simp
next
  case (Cons b bs)
  then have "(n * 8 + b) div 8 = n" "(n * 8 + b) mod 8 = b" by simp_all
  with Cons show ?case by (simp add: byte_cleared_def)
qed

lemma idt_clear_prefix:
  "n \<le> length es \<Longrightarrow> fold byte_cleared [0..<n * 8] es = replicate n null_gate @ drop n es"
proof (induction n)
  case 0
  then show ?case by simp
next
  case (Suc n)
  let ?es = "replicate n null_gate @ drop n es"
  have "[0..<Suc n * 8] = [0..<n * 8] @ map (\<lambda>b. n * 8 + b) [0..<8]"
  proof -
    have "map (\<lambda>b. n * 8 + b) [0..<8] = [n * 8..<n * 8 + 8]"
      using map_add_upt [of "n * 8" 8] by (simp add: add.commute)
    then show ?thesis using upt_add_eq_append [of 0 "n * 8" 8] by (simp add: add.commute)
  qed
  then have "fold byte_cleared [0..<Suc n * 8] es =
      fold byte_cleared (map (\<lambda>b. n * 8 + b) [0..<8]) ?es"
    using Suc by simp
  also have "\<dots> = ?es[n := fold clear_entry_byte [0..<8] (?es ! n)]"
    using Suc.prems by (intro fold_clear_entry) auto
  also have "\<dots> = replicate (Suc n) null_gate @ drop (Suc n) es"
    unfolding clear_all_bytes using Suc.prems
    by (simp add: list_update_append replicate_app_Cons_same [symmetric] Cons_nth_drop_Suc [symmetric])
  finally show ?case .
qed

lemma idt_clear_replicate:
  assumes "length es = 256"
  shows "idt_clear es = Some (replicate 256 null_gate)"
proof -
  have "idt_clear es = Some (fold byte_cleared [0..<256 * 8] es)"
    unfolding idt_clear_def sizeof_idt_entry_def
    using for_each_fold [where f = idt_clear_byte and g = byte_cleared and ok = "\<lambda>es. length es = 256"
        and xs = "[0..<256 * 8]" and s = es] assms
    by (simp add: idt_clear_byte_def byte_cleared_def array_put_def mult.commute less_mult_imp_div_less
        del: upt_Suc)
  then show ?thesis using idt_clear_prefix [of 256 es] assms by simp
qed

text \<open>The table of gates as an indexed table.\<close>

definition put_gate :: "u8 \<Rightarrow> idt_entry \<Rightarrow> tables \<Rightarrow> tables" where
  "put_gate num e T = T\<lparr>idts := (idts T)[unat num := e]\<rparr>"

interpretation idt: indexed_table "\<lambda>num T. idts T ! unat num" put_gate "\<lambda>num T. length (idts T) = 256"
  by unfold_locales (auto simp: put_gate_def nth_list_update word_unat_eq_iff)

definition idt_entries :: "bool \<Rightarrow> image \<Rightarrow> (u8 \<times> idt_entry) list" where
  "idt_entries apic img =
     map (\<lambda>(num, st). (num, make_idt_entry (stub_addr img st) 0x08 0x8E)) (idt_gates apic)"

lemma for_each_set_gates:
  assumes "length (idts T) = 256"
  shows "for_each (\<lambda>(num, st). idt_set_gate num (stub_addr img st) 0x08 0x8E) (idt_gates apic) T =
   Some (fold (\<lambda>(num, e). put_gate num e) (idt_entries apic img) T)"
proof -
  have "for_each (\<lambda>(num, st). idt_set_gate num (stub_addr img st) 0x08 0x8E) (idt_gates apic) T =
      Some (fold (\<lambda>x. put_gate (fst x) (make_idt_entry (stub_addr img (snd x)) 0x08 0x8E))
        (idt_gates apic) T)"
    by (rule for_each_fold [where ok = "\<lambda>T. length (idts T) = 256"])
      (auto simp: assms idt_set_gate_def put_gate_def array_put_def)
  then show ?thesis by (simp add: idt_entries_def fold_map comp_def case_prod_beta)
qed

lemma fst_idt_gates: "map fst (idt_gates apic) = map of_nat [0..<48]"
proof -
  have "map fst (idt_gates apic) = map of_nat ([0..<32] @ map (\<lambda>n. n + 32) [0..<16])"
    by (simp add: idt_gates_def comp_def IRQ_def)
  also have "map (\<lambda>n. n + 32) [0..<16] = [32..<48 :: nat]"
    using map_add_upt [of 32 16] by simp
  also have "[0..<32] @ [32..<48] = [0..<48 :: nat]"
    using upt_add_eq_append [of 0 32 16] by simp
  finally show ?thesis .
qed

lemma distinct_idt_gates: "distinct (map fst (idt_gates apic))"
proof -
  have "inj_on (of_nat :: nat \<Rightarrow> u8) {0..<48}"
  proof (rule inj_onI)
    fix x y :: nat
    assume "x \<in> {0..<48}" "y \<in> {0..<48}" "(of_nat x :: u8) = of_nat y"
    then have "unat (of_nat x :: u8) = unat (of_nat y :: u8)" "x < 256" "y < 256" by simp_all
    then show "x = y" by (simp add: unat_of_nat)
  qed
  then show ?thesis unfolding fst_idt_gates by (simp add: distinct_map)
qed

lemma map_fst_entries: "map fst (idt_entries apic img) = map fst (idt_gates apic)"
  by (simp add: idt_entries_def comp_def case_prod_beta)

lemma fold_put_gate_frame:
  "p_idt (fold (\<lambda>(num, e). put_gate num e) es T) = p_idt T"
  "gdt (fold (\<lambda>(num, e). put_gate num e) es T) = gdt T"
  "p_gdt (fold (\<lambda>(num, e). put_gate num e) es T) = p_gdt T"
  by (induction es arbitrary: T) (auto simp: put_gate_def)

definition idt_cleared :: "image \<Rightarrow> tables \<Rightarrow> tables" where
  "idt_cleared img T =
     T\<lparr>p_idt := \<lparr>ip_limit = 2047, ip_base = addr_idts img\<rparr>, idts := replicate 256 null_gate\<rparr>"

lemma idt_cleared_nth: "idts (idt_cleared img T) ! unat (num :: u8) = null_gate"
  by (simp add: idt_cleared_def)

lemma length_idt_cleared: "length (idts (idt_cleared img T)) = 256"
  by (simp add: idt_cleared_def)

lemma idt_init_result:
  assumes "length (idts T) = 256" and "apic_is_available use E tr = (apic, tr')"
  shows "idt_init use E img (T, tr) = Some
    (fold (\<lambda>(num, e). put_gate num e) (idt_entries apic img) (idt_cleared img T),
     Lidt 2047 (addr_idts img) # tr')"
proof -
  have "T\<lparr>p_idt := \<lparr>ip_limit = 2047, ip_base = addr_idts img\<rparr>,
      idts := replicate 256 null_gate\<rparr> = idt_cleared img T"
    by (simp add: idt_cleared_def)
  then show ?thesis
    using assms
    by (simp add: idt_init_def for_each_set_gates length_idt_cleared idt_clear_replicate idt_flush_def
        fold_put_gate_frame sizeof_idt_entry_def Let_def)
      (simp add: idt_cleared_def)
qed

lemma idt_entry_after:
  assumes "length (idts T) = 256" and "apic_is_available use E tr = (apic, tr')"
    and "idt_init use E img (T, tr) = Some (T', tr'')"
  shows "idts T' ! unat num =
    (case map_of (idt_entries apic img) num of Some e \<Rightarrow> e | None \<Rightarrow> null_gate)"
    and "length (idts T') = 256" and "tr'' = Lidt 2047 (addr_idts img) # tr'"
proof -
  have T': "T' = fold (\<lambda>(num, e). put_gate num e) (idt_entries apic img) (idt_cleared img T)"
    and "tr'' = Lidt 2047 (addr_idts img) # tr'"
    using assms(3) unfolding idt_init_result [OF assms(1,2)] by simp_all
  then show "tr'' = Lidt 2047 (addr_idts img) # tr'" by blast
  have d: "distinct (map fst (idt_entries apic img))"
    unfolding map_fst_entries by (rule distinct_idt_gates)
  show "idts T' ! unat num =
    (case map_of (idt_entries apic img) num of Some e \<Rightarrow> e | None \<Rightarrow> null_gate)"
    unfolding T'
    using idt.get_fold [OF d length_idt_cleared, of img T num] length_idt_cleared [of img T]
    unfolding idt_cleared_nth by blast
  show "length (idts T') = 256"
    unfolding T' using idt.ok_fold length_idt_cleared by blast
qed

text \<open>The stub of a vector.\<close>

definition vector_stub :: "bool \<Rightarrow> nat \<Rightarrow> stub" where
  "vector_stub apic v = (if v < 32 then Isr v else if apic then Irq_a (v - 32) else Irq (v - 32))"

lemma map_of_idt_entries:
  "map_of (idt_entries apic img) num =
     (if unat num < 48
      then Some (make_idt_entry (stub_addr img (vector_stub apic (unat num))) 0x08 0x8E) else None)"
proof (cases "unat num < 48")
  case True
  have "(num, vector_stub apic (unat num)) \<in> set (idt_gates apic)"
  proof (cases "unat num < 32")
    case True
    then have "(num, vector_stub apic (unat num)) = (\<lambda>n. (of_nat n, Isr n)) (unat num)"
      by (simp add: vector_stub_def)
    moreover have "unat num \<in> set [0..<32]" using True by simp
    ultimately show ?thesis unfolding idt_gates_def set_append set_map by blast
  next
    case False
    then have "(num, vector_stub apic (unat num)) =
        (\<lambda>n. (of_nat (IRQ n), if apic then Irq_a n else Irq n)) (unat num - 32)"
      by (simp add: vector_stub_def IRQ_def)
    moreover have "unat num - 32 \<in> set [0..<16]" using True False by simp
    ultimately show ?thesis unfolding idt_gates_def set_append set_map by blast
  qed
  then have "(num, make_idt_entry (stub_addr img (vector_stub apic (unat num))) 0x08 0x8E)
      \<in> set (idt_entries apic img)"
    unfolding idt_entries_def set_map by (force intro: rev_image_eqI)
  with True distinct_idt_gates [of apic] show ?thesis
    by (simp add: map_fst_entries)
next
  case False
  have "num \<notin> set (map of_nat [0..<48])"
  proof
    assume "num \<in> set (map of_nat [0..<48])"
    then obtain n where "num = of_nat n" "n < 48" by auto
    with False show False by (simp add: unat_of_nat)
  qed
  then have "num \<notin> fst ` set (idt_entries apic img)"
    using map_fst_entries [of apic img] fst_idt_gates [of apic] by (metis list.set_map)
  with False show ?thesis by (simp add: map_of_eq_None_iff)
qed

section \<open>Properties\<close>

text \<open>
  C23. A segment descriptor says what \<open>gdt_set_gate\<close> was asked for: read back with the
  layout of the processor manual, the base is the base, the limit its low 20 bits, the access
  byte the access byte and the flags the upper half of \<open>gran\<close>; every other entry of the table
  is as before, and an index outside the table is not written.
\<close>

theorem gdt_set_gate_roundtrip:
  "if 0 \<le> num \<and> nat num < length (gdt T)
   then \<exists>T'. gdt_set_gate num base limit access gran T = Some T'
     \<and> seg_base (gdt T' ! nat num) = base
     \<and> seg_limit (gdt T' ! nat num) = take_bit 20 limit
     \<and> g_access (gdt T' ! nat num) = access
     \<and> seg_flags (gdt T' ! nat num) = gran AND 0xF0
     \<and> length (gdt T') = length (gdt T) \<and> idts T' = idts T
     \<and> (\<forall>j. j = nat num \<or> gdt T' ! j = gdt T ! j)
   else gdt_set_gate num base limit access gran T = None"
  by (auto simp: gdt_set_gate_def seg_make_gdt_entry nth_list_update)

text \<open>
  C24. \<open>gdt_init\<close> sets up flat segments: the selectors 0x08 and 0x10, which \<open>gdt_flush\<close>
  loads, are ring 0 code and data with base 0 that reach the last byte of 4 GiB, and lie
  within the limit loaded into the table register. The limit covers three entries only: the
  two user segments that are set up at 0x18 and 0x20 are out of its reach.
\<close>

theorem gdt_init_flat_segments:
  assumes "length (gdt T) = 5"
  shows "\<exists>T' tr'. gdt_init img (T, tr) = Some (T', tr')
    \<and> tr' = SetCodeSegment 0x08 # SetDataSegments 0x10 # Lgdt (gp_limit (p_gdt T')) (addr_gdt img) # tr
    \<and> (\<forall>i \<in> {1, 2, 3, 4}. seg_base (gdt T' ! i) = 0 \<and> seg_last_byte (gdt T' ! i) = 2 ^ 32 - 1)
    \<and> map g_access (gdt T') = [0, 0x9A, 0x92, 0xFA, 0xF2]
    \<and> (\<forall>i < 5. i * 8 + 7 \<le> unat (gp_limit (p_gdt T')) \<longleftrightarrow> i \<le> 2)"
proof -
  have "seg_last_byte (make_gdt_entry 0 0xFFFFFFFF a 0xCF) = 2 ^ 32 - 1" for a
    by (simp add: seg_last_byte_def seg_make_gdt_entry) (simp add: make_gdt_entry_def)
  then show ?thesis
    unfolding gdt_init_result [OF assms]
    by (auto simp: seg_make_gdt_entry)
qed

definition demo_tables :: tables where
  "demo_tables = \<lparr>gdt = replicate 5 (make_gdt_entry 0 0 0 0), p_gdt = \<lparr>gp_limit = 0, gp_base = 0\<rparr>,
     idts = replicate 256 (make_idt_entry 0xDEADBEEF 0 0xFF), p_idt = \<lparr>ip_limit = 0, ip_base = 0\<rparr>\<rparr>"

definition demo_stub_addr :: "stub \<Rightarrow> u32" where
  "demo_stub_addr st = (case st of Isr n \<Rightarrow> 0xC0101000 + of_nat n * 16
     | Irq n \<Rightarrow> 0xC0102000 + of_nat n * 16 | Irq_a n \<Rightarrow> 0xC0103000 + of_nat n * 16)"

definition demo_image :: image where
  "demo_image = \<lparr>addr_gdt = 0xC0105000, addr_idts = 0xC0106000, stub_addr = demo_stub_addr\<rparr>"

theorem gdt_init_flat_segments_witness:
  "\<exists>T' tr'. gdt_init demo_image (demo_tables, []) = Some (T', tr')
    \<and> tr' = [SetCodeSegment 0x08, SetDataSegments 0x10, Lgdt (gp_limit (p_gdt T')) 0xC0105000]"
proof -
  have "length (gdt demo_tables) = 5" by (simp add: demo_tables_def)
  from gdt_init_flat_segments [OF this, of demo_image "[]"] show ?thesis
    by (auto simp: demo_image_def)
qed

text \<open>
  C13. \<open>idt_init\<close> gives every vector from 0 to 47 its own stub and no other: the gate is a
  present ring 0 interrupt gate on the kernel's code segment 0x08 whose offset is the address
  of the exception stub (0 to 31) or of the PIC or APIC stub (32 to 47); the gates from 48
  on are all zero, so not present, whatever the table held before. The table register is
  loaded with the address and the last byte of the 256 entries.
\<close>

theorem idt_init_gates:
  assumes "length (idts T) = 256"
  shows "case idt_init use E img (T, tr) of None \<Rightarrow> False | Some (T', tr') \<Rightarrow>
    (\<forall>v < 256. let e = idts T' ! v in
      if v < 48 then gate_offset e = stub_addr img (vector_stub (fst (apic_is_available use E tr)) v)
        \<and> gate_present e \<and> i_selector e = 0x08 \<and> i_flags e = 0x8E
      else e = null_gate \<and> \<not> gate_present e)
    \<and> hd tr' = Lidt 2047 (addr_idts img)"
proof -
  obtain apic tr1 where a: "apic_is_available use E tr = (apic, tr1)" by fastforce
  obtain T' tr' where i: "idt_init use E img (T, tr) = Some (T', tr')"
    by (simp add: idt_init_result [OF assms a])
  have e: "idts T' ! v = (if v < 48
      then make_idt_entry (stub_addr img (vector_stub apic v)) 0x08 0x8E else null_gate)"
    if "v < 256" for v
    using idt_entry_after(1) [OF assms a i, of "of_nat v"] that
    by (simp add: map_of_idt_entries unat_of_nat)
  have p: "gate_present (make_idt_entry x s 0x8E)" "\<not> gate_present null_gate" for x s
    by (simp_all add: gate_present_def gate_make_idt_entry null_gate_def)
  show ?thesis
    using e p idt_entry_after(3) [OF assms a i] by (auto simp: Let_def gate_make_idt_entry a i)
qed

theorem idt_init_gates_witness:
  "case idt_init False demo_device demo_image (demo_tables, []) of None \<Rightarrow> False | Some (T', tr') \<Rightarrow>
     gate_offset (idts T' ! 33) = 0xC0102010 \<and> \<not> gate_present (idts T' ! 48)"
proof -
  have l: "length (idts demo_tables) = 256" by (simp add: demo_tables_def)
  obtain T' tr' where i: "idt_init False demo_device demo_image (demo_tables, []) = Some (T', tr')"
    using idt_init_gates [OF l, where use = False and E = demo_device and img = demo_image and tr = "[]"] by (auto split: option.splits)
  have g: "let e = idts T' ! v in
      if v < 48 then gate_offset e = stub_addr demo_image (vector_stub False v)
        \<and> gate_present e \<and> i_selector e = 0x08 \<and> i_flags e = 0x8E
      else e = null_gate \<and> \<not> gate_present e" if "v < 256" for v
    using idt_init_gates [OF l, where use = False and E = demo_device and img = demo_image and tr = "[]"] that
    unfolding i apic_is_available_def if_False fst_conv option.case prod.case by blast
  have "gate_offset (idts T' ! 33) = stub_addr demo_image (vector_stub False 33)"
    using g [of 33] by (simp add: Let_def)
  moreover have "stub_addr demo_image (vector_stub False 33) = 0xC0102010"
    by (simp add: demo_image_def vector_stub_def demo_stub_addr_def)
  moreover have "\<not> gate_present (idts T' ! 48)"
    using g [of 48] by (auto simp: Let_def)
  ultimately show ?thesis by (simp add: i)
qed

end
