(* ===== verification/Paging.thy ===== *)
theory Paging
  imports Util
begin

text \<open>
  Paging: src/src/sys/arch/i686/paging.c and paging.h. The state is the three arrays, the
  index of the next free entry of the last one, and the two control registers the code
  writes. What the tables achieve is stated with the page walk of the processor manual.
\<close>

section \<open>The code\<close>

record page_image =
  addr_kernelpagedir :: u32
  addr_lowpagetable :: u32
  addr_miscpagetable :: u32

record paging =
  kernelpagedir :: "u32 list"
  lowpagetable :: "u32 list"
  miscpagetable :: "u32 list"
  nMiscIndex :: u16
  cr0 :: u32
  cr3 :: u32

definition KERNEL_TO_REAL :: "u32 \<Rightarrow> u32" where
  "KERNEL_TO_REAL x = x + 0x40000000"

definition MISC_PAGEDIR :: nat where "MISC_PAGEDIR = 1023"

definition PAGING_CACHE_DISABLE :: u16 where "PAGING_CACHE_DISABLE = push_bit 4 1"
definition PAGING_WRITE_THROUGH :: u16 where "PAGING_WRITE_THROUGH = push_bit 3 1"
definition PAGING_USERLAND :: u16 where "PAGING_USERLAND = push_bit 2 1"
definition PAGING_READWRITE :: u16 where "PAGING_READWRITE = push_bit 1 1"

text \<open>One pass of the loop of \<open>paging_init\<close>.\<close>

definition paging_init_entry :: "nat \<Rightarrow> paging \<Rightarrow> paging option" where
  "paging_init_entry i pg = do {
     low \<leftarrow> array_put i (of_nat i * 0x1000 OR 0x3) (lowpagetable pg);
     let pg = pg\<lparr>lowpagetable := low\<rparr>;
     dir \<leftarrow> array_put i 0 (kernelpagedir pg);
     let pg = pg\<lparr>kernelpagedir := dir\<rparr>;
     misc \<leftarrow> array_put i 0 (miscpagetable pg);
     Some (pg\<lparr>miscpagetable := misc\<rparr>)
   }"

definition paging_init :: "page_image \<Rightarrow> paging \<Rightarrow> paging option" where
  "paging_init img pg = do {
     let pg = pg\<lparr>nMiscIndex := 0\<rparr>;
     let pKernelpagedir = KERNEL_TO_REAL (addr_kernelpagedir img);
     let pLowpagetable = KERNEL_TO_REAL (addr_lowpagetable img);
     let pMiscpagetable = KERNEL_TO_REAL (addr_miscpagetable img);
     pg \<leftarrow> for_each paging_init_entry [0..<1024] pg;
     dir \<leftarrow> array_put 0 (pLowpagetable OR 0x3) (kernelpagedir pg);
     dir \<leftarrow> array_put 768 (pLowpagetable OR 0x3) dir;
     dir \<leftarrow> array_put MISC_PAGEDIR (pMiscpagetable OR 0x3) dir;
     let pg = pg\<lparr>kernelpagedir := dir\<rparr>;
     Some (pg\<lparr>cr3 := pKernelpagedir, cr0 := cr0 pg OR 0x80000000\<rparr>)
   }"

text \<open>
  \<open>paging_map\<close> does not check the index: past the last entry it writes outside the array,
  which is \<open>None\<close>. \<open>(MISC_PAGEDIR) << 22\<close> shifts an \<open>int\<close> past its sign bit; as everywhere the
  low 32 bits are kept (\<open>Prelude\<close>).
\<close>

definition paging_map :: "u32 \<Rightarrow> u16 \<Rightarrow> paging \<times> trace \<Rightarrow> (u32 \<times> paging \<times> trace) option" where
  "paging_map physical flags s =
     (let (pg, tr) = s;
          physaddr = physical AND 0xFFFFF000
      in if unat (nMiscIndex pg) < length (miscpagetable pg) then
        let pg = pg\<lparr>miscpagetable :=
              (miscpagetable pg)[unat (nMiscIndex pg) := physaddr OR ucast flags OR 0x01]\<rparr>;
            virtaddr = push_bit 22 (of_nat MISC_PAGEDIR) OR push_bit 12 (ucast (nMiscIndex pg))
              OR (physical AND 0x00000FFF);
            pg = pg\<lparr>nMiscIndex := nMiscIndex pg + 1\<rparr>
        in Some (virtaddr, pg, Invlpg virtaddr # tr)
      else None)"

section \<open>The page walk of the processor\<close>

text \<open>
  4 KiB pages in two levels: the directory at the physical address in cr3, indexed by the
  top ten bits, then a table, indexed by the next ten. Bit 0 of an entry says present. The
  linker script (src/src/sys/arch/i686/kernel.ld) links the kernel's sections at addresses
  from 0xC0100000 on and has the boot loader put each 0xC0000000 below its address: the
  physical address of an array is its load address.
\<close>

definition load_address :: "u32 \<Rightarrow> u32" where
  "load_address a = a - 0xC0000000"

definition table_at :: "page_image \<Rightarrow> paging \<Rightarrow> u32 \<Rightarrow> u32 list option" where
  "table_at img pg p =
     (if p = load_address (addr_kernelpagedir img) then Some (kernelpagedir pg)
      else if p = load_address (addr_lowpagetable img) then Some (lowpagetable pg)
      else if p = load_address (addr_miscpagetable img) then Some (miscpagetable pg)
      else None)"

definition frame_of :: "u32 \<Rightarrow> u32" where "frame_of e = e AND NOT (mask 12)"

definition page_walk :: "page_image \<Rightarrow> paging \<Rightarrow> u32 \<Rightarrow> u32 option" where
  "page_walk img pg v = do {
     pd \<leftarrow> table_at img pg (frame_of (cr3 pg));
     let pde = pd ! unat (drop_bit 22 v);
     if bit pde 0 then do {
       pt \<leftarrow> table_at img pg (frame_of pde);
       let pte = pt ! unat (drop_bit 12 v AND mask 10);
       if bit pte 0 then Some (frame_of pte OR (v AND mask 12)) else None
     } else None
   }"

text \<open>The linker gives the three arrays distinct addresses, aligned as declared.\<close>

definition aligned_image :: "page_image \<Rightarrow> bool" where
  "aligned_image img \<longleftrightarrow>
     distinct [addr_kernelpagedir img, addr_lowpagetable img, addr_miscpagetable img] \<and>
     frame_of (addr_kernelpagedir img) = addr_kernelpagedir img \<and>
     frame_of (addr_lowpagetable img) = addr_lowpagetable img \<and>
     frame_of (addr_miscpagetable img) = addr_miscpagetable img"

section \<open>The loop of \<open>paging_init\<close>\<close>

definition arrays_ok :: "paging \<Rightarrow> bool" where
  "arrays_ok pg \<longleftrightarrow> length (kernelpagedir pg) = 1024 \<and> length (lowpagetable pg) = 1024
     \<and> length (miscpagetable pg) = 1024"

text \<open>On arrays of the declared sizes no assignment fails; then this is what is done.\<close>

definition entry_written :: "nat \<Rightarrow> paging \<Rightarrow> paging" where
  "entry_written i pg =
     pg\<lparr>lowpagetable := (lowpagetable pg)[i := of_nat i * 0x1000 OR 0x3],
        kernelpagedir := (kernelpagedir pg)[i := 0],
        miscpagetable := (miscpagetable pg)[i := 0]\<rparr>"

definition paging_started :: "page_image \<Rightarrow> paging \<Rightarrow> paging" where
  "paging_started img pg =
     (let pg = pg\<lparr>nMiscIndex := 0\<rparr>;
          pKernelpagedir = KERNEL_TO_REAL (addr_kernelpagedir img);
          pLowpagetable = KERNEL_TO_REAL (addr_lowpagetable img);
          pMiscpagetable = KERNEL_TO_REAL (addr_miscpagetable img);
          pg = fold entry_written [0..<1024] pg;
          pg = pg\<lparr>kernelpagedir := (kernelpagedir pg)[0 := pLowpagetable OR 0x3]\<rparr>;
          pg = pg\<lparr>kernelpagedir := (kernelpagedir pg)[768 := pLowpagetable OR 0x3]\<rparr>;
          pg = pg\<lparr>kernelpagedir := (kernelpagedir pg)[MISC_PAGEDIR := pMiscpagetable OR 0x3]\<rparr>
      in pg\<lparr>cr3 := pKernelpagedir, cr0 := cr0 pg OR 0x80000000\<rparr>)"

lemma paging_init_started:
  assumes "arrays_ok pg"
  shows "paging_init img pg = Some (paging_started img pg)"
proof -
  let ?pg = "pg\<lparr>nMiscIndex := 0\<rparr>"
  have ok: "arrays_ok ?pg" using assms by (simp add: arrays_ok_def)
  have "for_each paging_init_entry [0..<1024] ?pg = Some (fold entry_written [0..<1024] ?pg)"
    by (rule for_each_fold [where ok = arrays_ok, OF _ _ ok])
      (auto simp: paging_init_entry_def entry_written_def array_put_def arrays_ok_def)
  moreover have "arrays_ok (fold entry_written xs q)" if "arrays_ok q" for xs q
    using that by (induction xs arbitrary: q) (auto simp: entry_written_def arrays_ok_def)
  then have "length (kernelpagedir (fold entry_written [0..<1024] ?pg)) = 1024"
    using ok unfolding arrays_ok_def by blast
  ultimately show ?thesis
    by (simp add: paging_init_def paging_started_def array_put_def MISC_PAGEDIR_def Let_def
        del: upt_Suc length_greater_0_conv)
qed

lemma update_prefix:
  "n < length xs \<Longrightarrow> (map f [0..<n] @ drop n xs)[n := f n] = map f [0..<Suc n] @ drop (Suc n) xs"
  by (simp add: list_update_append Cons_nth_drop_Suc [symmetric])

lemma fold_init_entries:
  assumes "arrays_ok pg" and "n \<le> 1024"
  shows "fold entry_written [0..<n] pg =
    pg\<lparr>lowpagetable := map (\<lambda>i. of_nat i * 0x1000 OR 0x3) [0..<n] @ drop n (lowpagetable pg),
       kernelpagedir := map (\<lambda>_. 0) [0..<n] @ drop n (kernelpagedir pg),
       miscpagetable := map (\<lambda>_. 0) [0..<n] @ drop n (miscpagetable pg)\<rparr>"
  using assms(2)
proof (induction n)
  case 0
  then show ?case by simp
next
  case (Suc n)
  then have n: "n < length (lowpagetable pg)" "n < length (kernelpagedir pg)"
      "n < length (miscpagetable pg)"
    using assms(1) by (simp_all add: arrays_ok_def)
  have step: "fold entry_written [0..<Suc n] pg = entry_written n
    (pg\<lparr>lowpagetable := map (\<lambda>i. of_nat i * 0x1000 OR 0x3) [0..<n] @ drop n (lowpagetable pg),
       kernelpagedir := map (\<lambda>_. 0) [0..<n] @ drop n (kernelpagedir pg),
       miscpagetable := map (\<lambda>_. 0) [0..<n] @ drop n (miscpagetable pg)\<rparr>)"
    using Suc by simp
  show ?case
    unfolding step using n
    by (simp add: entry_written_def update_prefix [where f = "\<lambda>_. 0"]
        update_prefix [where f = "\<lambda>i. of_nat i * 0x1000 OR 0x3"] del: upt_Suc)
qed

text \<open>What the code maintains after \<open>paging_init\<close>.\<close>

definition low_entry :: "nat \<Rightarrow> u32" where
  "low_entry i = of_nat i * 0x1000 OR 0x3"

definition dir_entry :: "page_image \<Rightarrow> nat \<Rightarrow> u32" where
  "dir_entry img i =
     (if i = 0 \<or> i = 768 then KERNEL_TO_REAL (addr_lowpagetable img) OR 0x3
      else if i = 1023 then KERNEL_TO_REAL (addr_miscpagetable img) OR 0x3 else 0)"

definition paging_ok :: "page_image \<Rightarrow> paging \<Rightarrow> bool" where
  "paging_ok img pg \<longleftrightarrow>
     arrays_ok pg
     \<and> cr3 pg = KERNEL_TO_REAL (addr_kernelpagedir img) \<and> bit (cr0 pg) 31
     \<and> (\<forall>i < 1024. kernelpagedir pg ! i = dir_entry img i)
     \<and> (\<forall>i < 1024. lowpagetable pg ! i = low_entry i)
     \<and> unat (nMiscIndex pg) \<le> 1024
     \<and> (\<forall>i < 1024. bit (miscpagetable pg ! i) 0 \<longleftrightarrow> i < unat (nMiscIndex pg))"

lemma paging_started_ok:
  assumes "arrays_ok pg"
  shows "paging_ok img (paging_started img pg)" and "nMiscIndex (paging_started img pg) = 0"
proof -
  have a: "arrays_ok (pg\<lparr>nMiscIndex := 0\<rparr>)" using assms by (simp add: arrays_ok_def)
  have "bit (cr0 pg OR 0x80000000) 31"
    using bit_exp_iff [where 'a = "32 word", of 31 31] by (simp add: bit_or_iff)
  then show "paging_ok img (paging_started img pg)"
    using assms fold_init_entries [OF a, of 1024]
    by (auto simp: paging_started_def paging_ok_def arrays_ok_def low_entry_def dir_entry_def
        MISC_PAGEDIR_def nth_list_update Let_def)
  show "nMiscIndex (paging_started img pg) = 0"
    using fold_init_entries [OF a, of 1024] by (simp add: paging_started_def Let_def)
qed

section \<open>Frames\<close>

lemma frame_of_iff: "frame_of e = e \<longleftrightarrow> take_bit 12 e = 0"
proof
  assume "frame_of e = e"
  then have "take_bit 12 e = take_bit 12 (e AND NOT (mask 12))" by (simp add: frame_of_def)
  also have "\<dots> = 0" by (rule bit_word_eqI) (auto simp: bit_simps)
  finally show "take_bit 12 e = 0" .
next
  assume t: "take_bit 12 e = 0"
  have low: "\<not> bit e n" if "n < 12" for n
    using arg_cong [OF t, of "\<lambda>w. bit w n"] that by (simp add: bit_take_bit_iff)
  show "frame_of e = e"
  proof (rule bit_word_eqI)
    fix n
    show "n < LENGTH(32) \<Longrightarrow> bit (frame_of e) n = bit e n"
      using low [of n]
      by (cases "n < 12") (auto simp: frame_of_def bit_simps)
  qed
qed

lemma frame_of_dvd: "frame_of e = e \<longleftrightarrow> 4096 dvd unat e"
proof -
  have "take_bit 12 e = 0 \<longleftrightarrow> unat (take_bit 12 e) = 0" by (rule unat_eq_0 [symmetric])
  also have "\<dots> \<longleftrightarrow> unat e mod 2 ^ 12 = 0"
    unfolding take_bit_eq_mask unat_and_mask ..
  finally show ?thesis by (simp add: frame_of_iff mod_eq_0_iff_dvd)
qed

lemma frame_of_KERNEL_TO_REAL: "frame_of a = a \<Longrightarrow> frame_of (KERNEL_TO_REAL a) = KERNEL_TO_REAL a"
proof -
  assume "frame_of a = a"
  then have "4096 dvd unat a + 0x40000000" by (simp add: frame_of_dvd)
  then have "4096 dvd (unat a + 0x40000000) mod 2 ^ 32" by (simp add: dvd_mod)
  then show ?thesis by (simp add: frame_of_dvd KERNEL_TO_REAL_def unat_word_ariths)
qed

lemma frame_of_flags: "frame_of e = e \<Longrightarrow> f AND NOT (mask 12) = 0 \<Longrightarrow> frame_of (e OR f) = e"
  by (simp add: frame_of_def word_ao_dist)

lemma frame_of_3: "frame_of e = e \<Longrightarrow> frame_of (e OR 0x3) = e"
  by (rule frame_of_flags) (simp_all add: mask_eq_exp_minus_1)

lemma KERNEL_TO_REAL_inj: "KERNEL_TO_REAL a = KERNEL_TO_REAL b \<longleftrightarrow> a = b"
  by (simp add: KERNEL_TO_REAL_def)

lemma bit_or_3: "bit ((e :: u32) OR 0x3) 0"
  by (simp add: bit_or_iff)

text \<open>The macro of the code gives the load addresses.\<close>

lemma KERNEL_TO_REAL_load: "KERNEL_TO_REAL a = load_address a"
  by (simp add: KERNEL_TO_REAL_def load_address_def)

lemma table_at_image:
  assumes "aligned_image img"
  shows "table_at img pg (frame_of (KERNEL_TO_REAL (addr_kernelpagedir img))) = Some (kernelpagedir pg)"
    and "table_at img pg (frame_of (KERNEL_TO_REAL (addr_lowpagetable img) OR 0x3)) = Some (lowpagetable pg)"
    and "table_at img pg (frame_of (KERNEL_TO_REAL (addr_miscpagetable img) OR 0x3)) = Some (miscpagetable pg)"
  using assms
  by (auto simp: aligned_image_def frame_of_KERNEL_TO_REAL frame_of_3 table_at_def KERNEL_TO_REAL_load [symmetric]
      KERNEL_TO_REAL_inj)

lemma low_frame:
  "frame_of (low_entry (unat (drop_bit 12 v AND mask 10))) OR (v AND mask 12) = take_bit 22 v"
proof -
  let ?w = "drop_bit 12 v AND mask 10"
  have e: "low_entry (unat ?w) = push_bit 12 ?w OR 0x3"
    by (simp add: low_entry_def push_bit_eq_mult)
  have "frame_of (push_bit 12 ?w) = push_bit 12 ?w"
    unfolding frame_of_def by (rule bit_word_eqI) (auto simp: bit_simps)
  then have "frame_of (low_entry (unat ?w)) = push_bit 12 ?w"
    unfolding e by (rule frame_of_3)
  moreover have "push_bit 12 ?w OR (v AND mask 12) = take_bit 22 v"
    by (rule bit_word_eqI) (auto simp: bit_simps)
  ultimately show ?thesis by simp
qed

definition dir_index :: "u32 \<Rightarrow> nat" where "dir_index v = unat (drop_bit 22 v)"
definition table_index :: "u32 \<Rightarrow> nat" where "table_index v = unat (drop_bit 12 v AND mask 10)"

lemma dir_index_div: "dir_index v = unat v div 2 ^ 22"
  by (simp only: dir_index_def unat_shr)

lemma dir_index_less: "dir_index v < 1024"
  using unsigned_less [of v, where 'a = nat]
  by (simp add: dir_index_div less_mult_imp_div_less)

lemma table_index_less: "table_index v < 1024"
  unfolding table_index_def unat_and_mask by simp

text \<open>A page is given by its two indices.\<close>

lemma frame_eq_indices:
  "frame_of v = frame_of w \<longleftrightarrow> dir_index v = dir_index w \<and> table_index v = table_index w"
proof -
  have div: "frame_of v = frame_of w \<longleftrightarrow> drop_bit 12 v = drop_bit 12 w" for v w
  proof
    assume "frame_of v = frame_of w"
    then have "drop_bit 12 (frame_of v) = drop_bit 12 (frame_of w)" by simp
    moreover have "drop_bit 12 (frame_of x) = drop_bit 12 x" for x
      unfolding frame_of_def by (rule bit_word_eqI) (auto simp: bit_simps dest: bit_imp_le_length)
    ultimately show "drop_bit 12 v = drop_bit 12 w" by simp
  next
    assume "drop_bit 12 v = drop_bit 12 w"
    then have "push_bit 12 (drop_bit 12 v) = push_bit 12 (drop_bit 12 w)" by simp
    moreover have "frame_of x = push_bit 12 (drop_bit 12 x)" for x
      unfolding frame_of_def by (rule bit_word_eqI) (auto simp: bit_simps)
    ultimately show "frame_of v = frame_of w" by simp
  qed
  have d: "unat (drop_bit 12 x) div 1024 = dir_index x" for x
    by (simp add: unat_shr dir_index_div div_mult2_eq [symmetric])
  have t: "unat (drop_bit 12 x) mod 1024 = table_index x" for x
    unfolding table_index_def unat_and_mask unat_shr by simp
  have "frame_of v = frame_of w \<longleftrightarrow> unat (drop_bit 12 v) = unat (drop_bit 12 w)"
    unfolding div by (rule word_eq_iff_unat)
  then show ?thesis
    unfolding d [symmetric] t [symmetric] by (metis div_mult_mod_eq)
qed

lemma distinct_map_via:
  "distinct (map g xs) \<Longrightarrow> (\<And>x y. f x = f y \<Longrightarrow> g x = g y) \<Longrightarrow> distinct (map f xs)"
  unfolding distinct_map inj_on_def by blast

text \<open>The walk through the tables that the code maintains.\<close>

lemma page_walk_ok:
  assumes "aligned_image img" and "paging_ok img pg"
  shows "page_walk img pg v =
    (if dir_index v = 0 \<or> dir_index v = 768 then Some (take_bit 22 v)
     else if dir_index v = 1023 \<and> table_index v < unat (nMiscIndex pg)
     then Some (frame_of (miscpagetable pg ! table_index v) OR (v AND mask 12))
     else None)"
proof -
  note t = table_at_image [OF assms(1)]
  have pd: "table_at img pg (frame_of (cr3 pg)) = Some (kernelpagedir pg)"
    using assms(2) t(1) by (simp add: paging_ok_def)
  have e: "kernelpagedir pg ! unat (drop_bit 22 v) = dir_entry img (dir_index v)"
    using assms(2) dir_index_less [of v] by (simp add: paging_ok_def dir_index_def)
  have low: "lowpagetable pg ! unat (drop_bit 12 v AND mask 10) = low_entry (table_index v)"
    using assms(2) table_index_less [of v] by (simp add: paging_ok_def table_index_def)
  have misc: "bit (miscpagetable pg ! unat (drop_bit 12 v AND mask 10)) 0 \<longleftrightarrow>
      table_index v < unat (nMiscIndex pg)"
    using assms(2) table_index_less [of v] by (simp add: paging_ok_def table_index_def)
  have b: "bit (low_entry k) 0" for k
    by (simp add: low_entry_def bit_or_3)
  consider "dir_index v = 0 \<or> dir_index v = 768" | "dir_index v = 1023"
    | "dir_index v \<noteq> 0" "dir_index v \<noteq> 768" "dir_index v \<noteq> 1023" by blast
  then show ?thesis
  proof cases
    case 1
    then show ?thesis
      by (auto simp: page_walk_def pd e dir_entry_def bit_or_3 t low b low_frame [folded table_index_def]
          Let_def)
  next
    case 2
    then show ?thesis
      by (simp add: page_walk_def pd e dir_entry_def bit_or_3 t misc Let_def)
        (simp add: table_index_def)
  next
    case 3
    then show ?thesis by (simp add: page_walk_def pd e dir_entry_def)
  qed
qed

section \<open>Mapping a page\<close>

lemma masks_32: "(0xFFFFF000 :: u32) = NOT (mask 12)" "(0x00000FFF :: u32) = mask 12"
  by (simp_all add: mask_eq_exp_minus_1)

lemma small_flags:
  assumes "(flags :: u16) < 0x1000"
  shows "(ucast flags :: u32) AND NOT (mask 12) = 0"
proof -
  have "unat (flags AND mask 12) = unat flags"
    using assms unfolding unat_and_mask by (simp add: word_less_nat_alt)
  then have f: "flags AND mask 12 = flags" by (simp only: word_eq_iff_unat)
  have "(ucast (flags AND mask 12) :: u32) AND NOT (mask 12) = 0"
    by (rule bit_word_eqI) (auto simp: bit_simps)
  then show ?thesis unfolding f .
qed

definition misc_entry :: "u32 \<Rightarrow> u16 \<Rightarrow> u32" where
  "misc_entry physical flags = physical AND NOT (mask 12) OR ucast flags OR 0x01"

lemma misc_entry_frame:
  assumes "flags < 0x1000"
  shows "frame_of (misc_entry physical flags) = frame_of physical"
    and "bit (misc_entry physical flags) 0"
proof -
  show "frame_of (misc_entry physical flags) = frame_of physical"
    unfolding misc_entry_def
    by (simp add: frame_of_def word_ao_dist small_flags [OF assms] and.assoc)
      (simp add: mask_eq_exp_minus_1)
  show "bit (misc_entry physical flags) 0"
    by (simp add: misc_entry_def bit_or_iff)
qed

definition misc_address :: "u32 \<Rightarrow> u32 \<Rightarrow> u32" where
  "misc_address k physical = push_bit 22 (of_nat MISC_PAGEDIR) OR push_bit 12 k OR (physical AND mask 12)"

lemma misc_address_fields:
  assumes "unat k < 1024"
  shows "dir_index (misc_address k physical) = 1023"
    and "table_index (misc_address k physical) = unat k"
    and "misc_address k physical AND mask 12 = physical AND mask 12"
proof -
  have "unat (k AND mask 10) = unat k"
    using assms unfolding unat_and_mask by simp
  then have k: "k = k AND mask 10" by (simp only: word_eq_iff_unat)
  have a: "misc_address k physical =
      push_bit 22 (mask 10) OR push_bit 12 (k AND mask 10) OR (physical AND mask 12)"
    unfolding misc_address_def k [symmetric] by (simp add: MISC_PAGEDIR_def mask_eq_exp_minus_1)
  have "drop_bit 22 (misc_address k physical) = mask 10"
    unfolding a by (rule bit_word_eqI) (auto simp: bit_simps)
  then show "dir_index (misc_address k physical) = 1023"
    by (simp add: dir_index_def mask_eq_exp_minus_1)
  have "drop_bit 12 (misc_address k physical) AND mask 10 = k AND mask 10"
    unfolding a by (rule bit_word_eqI) (auto simp: bit_simps)
  then show "table_index (misc_address k physical) = unat k"
    using k by (simp add: table_index_def)
  show "misc_address k physical AND mask 12 = physical AND mask 12"
    unfolding a by (rule bit_word_eqI) (auto simp: bit_simps)
qed

definition mapped :: "u32 \<Rightarrow> u16 \<Rightarrow> paging \<Rightarrow> paging" where
  "mapped physical flags pg =
     pg\<lparr>miscpagetable := (miscpagetable pg)[unat (nMiscIndex pg) := misc_entry physical flags],
        nMiscIndex := nMiscIndex pg + 1\<rparr>"

lemma paging_map_cases:
  "paging_map physical flags (pg, tr) =
    (if unat (nMiscIndex pg) < length (miscpagetable pg)
     then Some (misc_address (ucast (nMiscIndex pg)) physical, mapped physical flags pg,
       Invlpg (misc_address (ucast (nMiscIndex pg)) physical) # tr)
     else None)"
  by (simp add: paging_map_def masks_32 misc_address_def misc_entry_def mapped_def Let_def)

lemma mapped_index: "paging_ok img pg \<Longrightarrow> unat (nMiscIndex (mapped p f pg)) = unat (nMiscIndex pg) + 1"
  unfolding mapped_def by simp (subst unat_add_small, auto simp: paging_ok_def)

lemma mapped_ok:
  assumes "paging_ok img pg" and "unat (nMiscIndex pg) < 1024" and "flags < 0x1000"
  shows "paging_ok img (mapped physical flags pg)"
proof -
  have "bit ((miscpagetable pg)[unat (nMiscIndex pg) := misc_entry physical flags] ! i) 0 \<longleftrightarrow>
      i < unat (nMiscIndex pg) + 1" if "i < 1024" for i
    using assms that misc_entry_frame(2) [OF assms(3)]
    by (cases "i = unat (nMiscIndex pg)") (auto simp: paging_ok_def arrays_ok_def)
  with mapped_index [OF assms(1), of physical flags] assms(1,2) show ?thesis
    by (simp add: paging_ok_def arrays_ok_def) (simp add: mapped_def)
qed

lemma ucast_index: "unat (ucast (nMiscIndex pg) :: u32) = unat (nMiscIndex pg)"
  unfolding unat_ucast_mod by (intro mod_less less_trans [OF unsigned_less]) simp

text \<open>The walk after a mapping: the new page, and every other address as before.\<close>

lemma mapped_walk:
  assumes "aligned_image img" and "paging_ok img pg" and "unat (nMiscIndex pg) < 1024"
    and "flags < 0x1000"
  shows "page_walk img (mapped physical flags pg) w =
    (if dir_index w = 1023 \<and> table_index w = unat (nMiscIndex pg)
     then Some (frame_of physical OR (w AND mask 12)) else page_walk img pg w)"
proof -
  note ok = mapped_ok [OF assms(2-4), of physical]
  have n: "unat (nMiscIndex (mapped physical flags pg)) = unat (nMiscIndex pg) + 1"
    by (rule mapped_index [OF assms(2)])
  have l: "length (miscpagetable pg) = 1024" using assms(2) by (simp add: paging_ok_def arrays_ok_def)
  have e: "miscpagetable (mapped physical flags pg) =
      (miscpagetable pg)[unat (nMiscIndex pg) := misc_entry physical flags]"
    by (simp add: mapped_def)
  show ?thesis
    unfolding page_walk_ok [OF assms(1) ok] page_walk_ok [OF assms(1,2)] n e
    using assms(3) l by (auto simp: misc_entry_frame(1) [OF assms(4)])
qed

lemma mapped_address:
  assumes "paging_ok img pg" and "unat (nMiscIndex pg) < 1024"
  shows "dir_index (misc_address (ucast (nMiscIndex pg)) physical) = 1023"
    and "table_index (misc_address (ucast (nMiscIndex pg)) physical) = unat (nMiscIndex pg)"
    and "frame_of physical OR (misc_address (ucast (nMiscIndex pg)) physical AND mask 12) = physical"
proof -
  have k: "unat (ucast (nMiscIndex pg) :: u32) < 1024" using assms(2) by (simp add: ucast_index)
  note f = misc_address_fields [OF k, of physical]
  show "dir_index (misc_address (ucast (nMiscIndex pg)) physical) = 1023" by (rule f)
  show "table_index (misc_address (ucast (nMiscIndex pg)) physical) = unat (nMiscIndex pg)"
    using f(2) by (simp add: ucast_index)
  show "frame_of physical OR (misc_address (ucast (nMiscIndex pg)) physical AND mask 12) = physical"
    unfolding f(3) frame_of_def by (rule bit_word_eqI) (auto simp: bit_simps)
qed

lemma mapped_page:
  assumes "aligned_image img" and "paging_ok img pg" and "unat (nMiscIndex pg) < 1024"
    and "flags < 0x1000"
  obtains virt pg' where "paging_map physical flags (pg, tr) = Some (virt, pg', Invlpg virt # tr)"
    and "paging_ok img pg'" and "page_walk img pg' virt = Some physical"
    and "unat (nMiscIndex pg') = unat (nMiscIndex pg) + 1"
proof
  let ?v = "misc_address (ucast (nMiscIndex pg)) physical"
  have "length (miscpagetable pg) = 1024" using assms(2) by (simp add: paging_ok_def arrays_ok_def)
  then show "paging_map physical flags (pg, tr) = Some (?v, mapped physical flags pg, Invlpg ?v # tr)"
    using assms(3) by (simp add: paging_map_cases)
  show "page_walk img (mapped physical flags pg) ?v = Some physical"
    by (simp add: mapped_walk [OF assms] mapped_address [OF assms(2,3)])
qed (use mapped_ok [OF assms(2-4)] mapped_index [OF assms(2)] in simp_all)

section \<open>Sequences of requests\<close>

fun paging_maps :: "(u32 \<times> u16) list \<Rightarrow> paging \<times> trace \<Rightarrow> (u32 list \<times> paging \<times> trace) option" where
  "paging_maps [] s = Some ([], s)"
| "paging_maps ((physical, flags) # rs) s = do {
     (v, s) \<leftarrow> paging_map physical flags s;
     (vs, s) \<leftarrow> paging_maps rs s;
     Some (v # vs, s)
   }"

lemma paging_maps_ok:
  assumes "aligned_image img" and "paging_ok img pg"
    and "unat (nMiscIndex pg) + length rs \<le> 1024" and "\<forall>(p, f) \<in> set rs. f < 0x1000"
  shows "\<exists>vs pg' tr'. paging_maps rs (pg, tr) = Some (vs, pg', tr') \<and> paging_ok img pg'
    \<and> unat (nMiscIndex pg') = unat (nMiscIndex pg) + length rs
    \<and> map (page_walk img pg') vs = map (\<lambda>(p, f). Some p) rs
    \<and> (\<forall>w q. page_walk img pg w = Some q \<longrightarrow> page_walk img pg' w = Some q)
    \<and> map table_index vs = [unat (nMiscIndex pg)..<unat (nMiscIndex pg) + length rs]"
  using assms(2-4)
proof (induction rs arbitrary: pg tr)
  case Nil
  then show ?case by simp
next
  case (Cons r rs)
  obtain p f where r: "r = (p, f)" by (cases r)
  have i: "unat (nMiscIndex pg) < 1024" and f: "f < 0x1000" using Cons.prems(2,3) by (auto simp: r)
  let ?v = "misc_address (ucast (nMiscIndex pg)) p" and ?pg = "mapped p f pg"
  have l: "length (miscpagetable pg) = 1024" using Cons.prems(1) by (simp add: paging_ok_def arrays_ok_def)
  note ok = mapped_ok [OF Cons.prems(1) i f, of p]
  have n: "unat (nMiscIndex ?pg) = unat (nMiscIndex pg) + 1" by (rule mapped_index [OF Cons.prems(1)])
  obtain vs pg' tr' where m: "paging_maps rs (?pg, Invlpg ?v # tr) = Some (vs, pg', tr')"
      "paging_ok img pg'" "unat (nMiscIndex pg') = unat (nMiscIndex ?pg) + length rs"
      "map (page_walk img pg') vs = map (\<lambda>(p, f). Some p) rs"
      "\<And>w q. page_walk img ?pg w = Some q \<Longrightarrow> page_walk img pg' w = Some q"
      "map table_index vs = [unat (nMiscIndex ?pg)..<unat (nMiscIndex ?pg) + length rs]"
    using Cons.IH [OF ok, of "Invlpg ?v # tr"] Cons.prems(2,3) n by auto
  note adr = mapped_address [OF Cons.prems(1) i, of p]
  note walk = mapped_walk [OF assms(1) Cons.prems(1) i f, of p]
  have new: "page_walk img pg' ?v = Some p"
    by (rule m(5)) (simp add: walk adr)
  have old: "page_walk img pg' w = Some q" if "page_walk img pg w = Some q" for w q
    using that page_walk_ok [OF assms(1) Cons.prems(1), of w]
    by (intro m(5)) (auto simp: walk split: if_splits)
  show ?case
    using m(1-4) new old n i l
    by (simp add: r paging_map_cases adr(2) m(6) upt_rec)
qed

lemma paging_maps_overflow:
  assumes "aligned_image img" and "paging_ok img pg"
    and "1024 < unat (nMiscIndex pg) + length rs" and "\<forall>(p, f) \<in> set rs. f < 0x1000"
  shows "paging_maps rs (pg, tr) = None"
  using assms(2-4)
proof (induction rs arbitrary: pg tr)
  case Nil
  then show ?case by (simp add: paging_ok_def)
next
  case (Cons r rs)
  obtain p f where r: "r = (p, f)" by (cases r)
  have f: "f < 0x1000" using Cons.prems(3) by (auto simp: r)
  show ?case
  proof (cases "unat (nMiscIndex pg) < 1024")
    case True
    have "paging_maps rs (mapped p f pg, t) = None" for t
      using Cons.IH [OF mapped_ok [OF Cons.prems(1) True f, of p], of t] Cons.prems(2,3)
        mapped_index [OF Cons.prems(1), of p f] by simp
    then show ?thesis by (simp add: r paging_map_cases)
  next
    case False
    then show ?thesis
      using Cons.prems(1) by (simp add: r paging_map_cases paging_ok_def arrays_ok_def)
  qed
qed

lemma dir_index_low: "dir_index v = 0 \<longleftrightarrow> unat v < 0x400000"
  by (simp add: dir_index_div div_eq_0_iff)

lemma dir_index_high: "dir_index v = 768 \<longleftrightarrow> 0xC0000000 \<le> unat v \<and> unat v < 0xC0400000"
  by (simp add: dir_index_div) linarith

lemma take_bit_low: "unat v < 0x400000 \<Longrightarrow> take_bit 22 v = v"
  by (simp add: word_eq_iff_unat take_bit_eq_mask unat_and_mask)

lemma take_bit_high:
  assumes "0xC0000000 \<le> unat v" and "unat v < 0xC0400000"
  shows "take_bit 22 (v :: u32) = v - 0xC0000000"
proof -
  have "unat (v - 0xC0000000) = unat v - 0xC0000000"
    using assms(1) by (subst unat_sub) (simp_all add: word_le_nat_alt)
  moreover have "unat (take_bit 22 v) = unat v mod 0x400000"
    by (simp add: take_bit_eq_mask unat_and_mask)
  moreover have "unat v mod 0x400000 = unat v - 0xC0000000"
  proof -
    have "unat v = (unat v - 0xC0000000) + 768 * 0x400000" using assms(1) by simp
    then have "unat v mod 0x400000 = (unat v - 0xC0000000) mod 0x400000"
      by (metis mod_mult_self1)
    also have "\<dots> = unat v - 0xC0000000" using assms by simp
    finally show ?thesis .
  qed
  ultimately show ?thesis by (simp only: word_eq_iff_unat)
qed

section \<open>Properties\<close>

definition demo_page_image :: page_image where
  "demo_page_image = \<lparr>addr_kernelpagedir = 0xC0104000, addr_lowpagetable = 0xC0105000,
     addr_miscpagetable = 0xC0106000\<rparr>"

definition demo_paging :: paging where
  "demo_paging = \<lparr>kernelpagedir = replicate 1024 7, lowpagetable = replicate 1024 7,
     miscpagetable = replicate 1024 7, nMiscIndex = 9, cr0 = 1, cr3 = 0\<rparr>"

lemma demo_paging_ok: "arrays_ok demo_paging" "aligned_image demo_page_image"
  by (simp_all add: arrays_ok_def demo_paging_def aligned_image_def demo_page_image_def
      frame_of_dvd del: length_replicate add: length_replicate)

text \<open>
  C7. After \<open>paging_init\<close>, whatever the three arrays held, paging is on (bit 31 of
  cr0), and the processor translates exactly the first 4 MiB to themselves and the 4 MiB
  from 0xC0000000 to the first 4 MiB; every other address is unmapped.
\<close>

theorem paging_init_translation:
  assumes "arrays_ok pg" and "aligned_image img"
  shows "case paging_init img pg of None \<Rightarrow> False | Some pg' \<Rightarrow> bit (cr0 pg') 31 \<and>
    page_walk img pg' v =
      (if unat v < 0x400000 then Some v
       else if 0xC0000000 \<le> unat v \<and> unat v < 0xC0400000 then Some (v - 0xC0000000)
       else None)"
proof -
  note ok = paging_started_ok [OF assms(1), of img]
  have "bit (cr0 (paging_started img pg)) 31" using ok(1) by (simp add: paging_ok_def)
  moreover have "page_walk img (paging_started img pg) v = (if dir_index v = 0 \<or> dir_index v = 768
      then Some (take_bit 22 v) else None)"
    by (simp add: page_walk_ok [OF assms(2) ok(1)] ok(2))
  ultimately show ?thesis
    unfolding paging_init_started [OF assms(1)]
    by (auto simp: dir_index_low dir_index_high take_bit_low take_bit_high)
qed

theorem paging_init_translation_witness:
  "case paging_init demo_page_image demo_paging of None \<Rightarrow> False
   | Some pg \<Rightarrow> page_walk demo_page_image pg 0xC0012345 = Some 0x12345"
  using paging_init_translation [OF demo_paging_ok, where v = "0xC0012345"]
  by (simp split: option.splits)

text \<open>
  C6. A call of \<open>paging_map\<close> in a state kept by the module changes the translation
  of exactly one 4 KiB page: the address it returns translates to the physical address
  asked for, all of its page to the frame of that address, and every address of another
  page translates as before; the stale entry of that page is flushed.
\<close>

theorem paging_map_exact:
  assumes "aligned_image img" and "paging_ok img pg" and "unat (nMiscIndex pg) < 1024"
    and "flags < 0x1000"
  shows "case paging_map physical flags (pg, tr) of
      None \<Rightarrow> False
    | Some (virt, pg', tr') \<Rightarrow>
        paging_ok img pg' \<and> page_walk img pg virt = None \<and> page_walk img pg' virt = Some physical
        \<and> tr' = Invlpg virt # tr
        \<and> page_walk img pg' w = (if frame_of w = frame_of virt
             then Some (frame_of physical OR (w AND mask 12)) else page_walk img pg w)"
proof -
  let ?v = "misc_address (ucast (nMiscIndex pg)) physical"
  note adr = mapped_address [OF assms(2,3), of physical]
  note walk = mapped_walk [OF assms, of physical]
  have l: "length (miscpagetable pg) = 1024" using assms(2) by (simp add: paging_ok_def arrays_ok_def)
  have "frame_of w = frame_of ?v \<longleftrightarrow> dir_index w = 1023 \<and> table_index w = unat (nMiscIndex pg)"
    unfolding frame_eq_indices by (simp add: adr)
  then show ?thesis
    using mapped_ok [OF assms(2-4), of physical]
    by (simp add: paging_map_cases l assms(3) walk adr page_walk_ok [OF assms(1,2), of ?v])
qed

theorem paging_map_exact_witness:
  "case paging_map 0xFEE00020 0x18 (paging_started demo_page_image demo_paging, []) of
     None \<Rightarrow> False
   | Some (virt, pg', tr') \<Rightarrow> page_walk demo_page_image pg' virt = Some 0xFEE00020"
  using paging_map_exact [OF demo_paging_ok(2) paging_started_ok(1) [OF demo_paging_ok(1)],
      of "0x18" "0xFEE00020" "[]" 0]
  by (simp add: paging_started_ok(2) [OF demo_paging_ok(1)] split: option.splits prod.splits)

text \<open>
  C9. Starting from \<open>paging_init\<close>, up to 1024 requests all succeed, and at the end
  every returned address translates to its physical address, no two share a page, and
  every address translated at the start still translates the same. With more than 1024 requests the code
  writes past the end of \<open>miscpagetable\<close>: nothing in \<open>paging_map\<close> guards it.
\<close>

theorem paging_map_requests:
  assumes "arrays_ok pg" and "aligned_image img" and "\<forall>(p, f) \<in> set rs. f < 0x1000"
  shows "case paging_init img pg of None \<Rightarrow> False | Some pg0 \<Rightarrow>
    (case paging_maps rs (pg0, tr) of
      None \<Rightarrow> 1024 < length rs
    | Some (vs, pg', tr') \<Rightarrow> length rs \<le> 1024
        \<and> map (page_walk img pg') vs = map (\<lambda>(p, f). Some p) rs \<and> distinct (map frame_of vs)
        \<and> (page_walk img pg0 w = None \<or> page_walk img pg' w = page_walk img pg0 w))"
proof -
  note ok = paging_started_ok [OF assms(1), of img]
  have i: "unat (nMiscIndex (paging_started img pg)) = 0" by (simp add: ok(2))
  show ?thesis
  proof (cases "length rs \<le> 1024")
    case True
    then obtain vs pg' tr' where m: "paging_maps rs (paging_started img pg, tr) = Some (vs, pg', tr')"
      "map (page_walk img pg') vs = map (\<lambda>(p, f). Some p) rs"
      "\<And>q. page_walk img (paging_started img pg) w = Some q \<Longrightarrow> page_walk img pg' w = Some q"
      "map table_index vs = [0..<length rs]"
      using paging_maps_ok [OF assms(2) ok(1) _ assms(3), of tr] by (auto simp: i)
    have "distinct (map table_index vs)" by (simp add: m(4))
    then have "distinct (map frame_of vs)"
      by (rule distinct_map_via) (simp add: frame_eq_indices)
    moreover have "page_walk img (paging_started img pg) w = None
        \<or> page_walk img pg' w = page_walk img (paging_started img pg) w"
      using m(3) by (cases "page_walk img (paging_started img pg) w") simp_all
    ultimately show ?thesis using True m(1,2) by (simp add: paging_init_started [OF assms(1)])
  next
    case False
    then show ?thesis
      using paging_maps_overflow [OF assms(2) ok(1) _ assms(3), of tr]
      by (simp add: i paging_init_started [OF assms(1)])
  qed
qed

theorem paging_map_requests_witness:
  "case paging_init demo_page_image demo_paging of None \<Rightarrow> False | Some pg0 \<Rightarrow>
     (case paging_maps [(0xB8000, 2), (0xB8000, 3), (0xFEE00020, 0x18)] (pg0, []) of
       None \<Rightarrow> False
     | Some (vs, pg', tr') \<Rightarrow>
         map (page_walk demo_page_image pg') vs = [Some 0xB8000, Some 0xB8000, Some 0xFEE00020]
         \<and> distinct (map frame_of vs))"
  using paging_map_requests [OF demo_paging_ok,
      where rs = "[(0xB8000, 2), (0xB8000, 3), (0xFEE00020, 0x18)]" and tr = "[]" and w = 0]
  by (simp add: case_prod_beta' del: paging_maps.simps split: option.splits) auto

end
