(* ===== verification/Machine.thy ===== *)
theory Machine
  imports Terminal Keyboard Pic Tables Paging
begin

text \<open>
  The state of the whole kernel: the globals of every file, as the records of their
  components, and the trace of what was done to the hardware. The operations of a component
  act on their part of it; the definitions below lift those that the drivers call.

  \<open>config\<close> collects what is fixed for a run: the addresses chosen by the linker, whether the
  build defines \<open>i686_USE_APIC\<close>, and the hardware.
\<close>

section \<open>State\<close>

text \<open>The functions whose addresses the code passes to \<open>isr_set_handler\<close>.\<close>

datatype handler =
    Timer_interrupt | Protection_fault | Double_fault | Int_hang | I8042_irq

record config =
  c_image :: image
  c_pages :: page_image
  i686_USE_APIC :: bool
  c_device :: device

record machine =
  m_terminal :: terminal
  m_keyboard :: keyboard
  m_paging :: paging
  m_tables :: tables
  handlers :: "handler option list"
  apic :: u32 \<comment> \<open>the pointer; 0 is \<open>NULL\<close>\<close>
  timerval :: u32
  has_secondary_channel :: bool
  m_trace :: trace

section \<open>Calls of the terminal\<close>

definition m_putchar :: "u8 \<Rightarrow> machine \<Rightarrow> machine" where
  "m_putchar c m = m\<lparr>m_terminal := terminal_putchar c (m_terminal m)\<rparr>"

definition m_puts :: "string \<Rightarrow> machine \<Rightarrow> machine" where
  "m_puts s m = m\<lparr>m_terminal := terminal_puts s (m_terminal m)\<rparr>"

definition m_hexdigits :: "u8 \<Rightarrow> machine \<Rightarrow> machine" where
  "m_hexdigits d m = m\<lparr>m_terminal := terminal_writehexdigits d (m_terminal m)\<rparr>"

definition m_hex :: "u32 \<Rightarrow> machine \<Rightarrow> machine" where
  "m_hex v m = m\<lparr>m_terminal := terminal_writehex v (m_terminal m)\<rparr>"

section \<open>Calls of the hardware primitives\<close>

definition m_do :: "(trace \<Rightarrow> trace) \<Rightarrow> machine \<Rightarrow> machine" where
  "m_do f m = m\<lparr>m_trace := f (m_trace m)\<rparr>"

definition m_ask :: "(trace \<Rightarrow> 'a \<times> trace) \<Rightarrow> machine \<Rightarrow> 'a \<times> machine" where
  "m_ask f m = (let (x, tr) = f (m_trace m) in (x, m\<lparr>m_trace := tr\<rparr>))"

definition m_outb :: "u16 \<Rightarrow> u8 \<Rightarrow> machine \<Rightarrow> machine" where
  "m_outb port val = m_do (outb port val)"

definition m_inb :: "config \<Rightarrow> u16 \<Rightarrow> machine \<Rightarrow> u8 \<times> machine" where
  "m_inb C port = m_ask (inb (c_device C) port)"

definition m_outl :: "u16 \<Rightarrow> u32 \<Rightarrow> machine \<Rightarrow> machine" where
  "m_outl port val = m_do (outl port val)"

definition m_inl :: "config \<Rightarrow> u16 \<Rightarrow> machine \<Rightarrow> u32 \<times> machine" where
  "m_inl C port = m_ask (inl (c_device C) port)"

definition mmio_load :: "config \<Rightarrow> u32 \<Rightarrow> machine \<Rightarrow> u32 \<times> machine" where
  "mmio_load C a = m_ask (\<lambda>tr. let w = dev_load (c_device C) tr a in (w, MmioLoad a w # tr))"

definition mmio_store :: "u32 \<Rightarrow> u32 \<Rightarrow> machine \<Rightarrow> machine" where
  "mmio_store a w = m_do (\<lambda>tr. MmioStore a w # tr)"

definition m_paging_map :: "u32 \<Rightarrow> u16 \<Rightarrow> machine \<Rightarrow> (u32 \<times> machine) option" where
  "m_paging_map physical flags m = do {
     (v, pg, tr) \<leftarrow> paging_map physical flags (m_paging m, m_trace m);
     Some (v, m\<lparr>m_paging := pg, m_trace := tr\<rparr>)
   }"

definition m_pic_enable_line :: "config \<Rightarrow> u8 \<Rightarrow> machine \<Rightarrow> machine option" where
  "m_pic_enable_line C num m = do {
     tr \<leftarrow> pic_enable_line (c_device C) num (m_trace m);
     Some (m\<lparr>m_trace := tr\<rparr>)
   }"

definition m_apic_is_available :: "config \<Rightarrow> machine \<Rightarrow> bool \<times> machine" where
  "m_apic_is_available C = m_ask (apic_is_available (i686_USE_APIC C) (c_device C))"

text \<open>Whether the kernel uses an APIC: the build has it and the processor reports it.\<close>

definition apic_present :: "config \<Rightarrow> bool" where
  "apic_present C \<longleftrightarrow> i686_USE_APIC C \<and> bit (snd (snd (snd (dev_cpuid (c_device C) 1)))) 9"

lemma fst_apic_is_available:
  "fst (apic_is_available (i686_USE_APIC C) (c_device C) tr) = apic_present C"
  using and_exp_eq [of 9 "snd (snd (snd (dev_cpuid (c_device C) 1)))"]
  by (simp add: apic_present_def apic_is_available_def cpuid_test_feature_def case_prod_beta' Let_def)

lemma apic_available:
  assumes "i686_USE_APIC C" and "bit (snd (snd (snd (dev_cpuid (c_device C) 1)))) 9"
  shows "m_apic_is_available C m = (True, m\<lparr>m_trace := Cpuid 1 # m_trace m\<rparr>)"
  using assms and_exp_eq [of 9 "snd (snd (snd (dev_cpuid (c_device C) 1)))"]
  by (simp add: m_apic_is_available_def m_ask_def apic_is_available_def cpuid_test_feature_def
      case_prod_beta' Let_def)

lemma apic_unavailable:
  assumes "\<not> i686_USE_APIC C"
  shows "m_apic_is_available C m = (False, m)"
  using assms by (simp add: m_apic_is_available_def m_ask_def apic_is_available_def)

lemmas machine_ops = m_putchar_def m_puts_def m_hexdigits_def m_hex_def m_do_def m_ask_def
  m_outb_def m_inb_def m_outl_def m_inl_def mmio_load_def mmio_store_def

section \<open>What the lifted operations leave alone\<close>

text \<open>Printing changes the terminal only, and the trace operations the trace only.\<close>

lemma m_print_parts [simp]:
  "m_keyboard (m_putchar c m) = m_keyboard m" "m_keyboard (m_puts s m) = m_keyboard m"
  "m_keyboard (m_hexdigits d m) = m_keyboard m" "m_keyboard (m_hex v m) = m_keyboard m"
  "m_paging (m_putchar c m) = m_paging m" "m_paging (m_puts s m) = m_paging m"
  "m_paging (m_hexdigits d m) = m_paging m" "m_paging (m_hex v m) = m_paging m"
  "m_tables (m_putchar c m) = m_tables m" "m_tables (m_puts s m) = m_tables m"
  "m_tables (m_hexdigits d m) = m_tables m" "m_tables (m_hex v m) = m_tables m"
  "handlers (m_putchar c m) = handlers m" "handlers (m_puts s m) = handlers m"
  "handlers (m_hexdigits d m) = handlers m" "handlers (m_hex v m) = handlers m"
  "apic (m_putchar c m) = apic m" "apic (m_puts s m) = apic m"
  "apic (m_hexdigits d m) = apic m" "apic (m_hex v m) = apic m"
  "timerval (m_putchar c m) = timerval m" "timerval (m_puts s m) = timerval m"
  "timerval (m_hexdigits d m) = timerval m" "timerval (m_hex v m) = timerval m"
  "has_secondary_channel (m_putchar c m) = has_secondary_channel m"
  "has_secondary_channel (m_puts s m) = has_secondary_channel m"
  "has_secondary_channel (m_hexdigits d m) = has_secondary_channel m"
  "has_secondary_channel (m_hex v m) = has_secondary_channel m"
  "m_trace (m_putchar c m) = m_trace m" "m_trace (m_puts s m) = m_trace m"
  "m_trace (m_hexdigits d m) = m_trace m" "m_trace (m_hex v m) = m_trace m"
  by (simp_all add: machine_ops)

lemma terminal_print [simp]:
  "m_terminal (m_putchar c m) = terminal_putbytes [c] (m_terminal m)"
  "m_terminal (m_puts s m) = terminal_putbytes (literal_bytes s) (m_terminal m)"
  "m_terminal (m_hexdigits d m) = terminal_putbytes (hex_byte d) (m_terminal m)"
  "m_terminal (m_hex v m) = terminal_putbytes (hex_word v) (m_terminal m)"
  by (simp_all add: machine_ops terminal_putbytes_def terminal_puts_def
      writehexdigits_putbytes [unfolded terminal_putbytes_def] writehex_putbytes [unfolded terminal_putbytes_def])

section \<open>Operations that only print and talk to the hardware\<close>

text \<open>
  \<open>does ok bs m m'\<close>: the code prints the bytes \<open>bs\<close> and adds events that satisfy \<open>ok\<close>,
  and changes nothing else.
\<close>

definition does :: "(io_event \<Rightarrow> bool) \<Rightarrow> u8 list \<Rightarrow> machine \<Rightarrow> machine \<Rightarrow> bool" where
  "does ok bs m m' \<longleftrightarrow> (\<exists>evs. list_all ok evs
     \<and> m' = m\<lparr>m_terminal := terminal_putbytes bs (m_terminal m), m_trace := evs @ m_trace m\<rparr>)"

lemma does_refl: "does ok [] m m"
  unfolding does_def by (intro exI [of _ "[]"]) (simp add: terminal_putbytes_def)

lemma does_trans:
  assumes "does ok bs m m'" and "does ok bs' m' m''"
  shows "does ok (bs @ bs') m m''"
proof -
  obtain evs evs' where e: "list_all ok evs" "list_all ok evs'"
    "m' = m\<lparr>m_terminal := terminal_putbytes bs (m_terminal m), m_trace := evs @ m_trace m\<rparr>"
    "m'' = m'\<lparr>m_terminal := terminal_putbytes bs' (m_terminal m'), m_trace := evs' @ m_trace m'\<rparr>"
    using assms unfolding does_def by blast
  then have "m'' = m\<lparr>m_terminal := terminal_putbytes (bs @ bs') (m_terminal m),
      m_trace := (evs' @ evs) @ m_trace m\<rparr>"
    by simp
  with e(1,2) show ?thesis unfolding does_def by (intro exI [of _ "evs' @ evs"]) simp
qed

lemma does_eq: "does ok bs m n \<Longrightarrow> bs = bs' \<Longrightarrow> does ok bs' m n"
  by simp

lemma does_print:
  "does ok bs m n \<Longrightarrow> does ok (bs @ literal_bytes str) m (m_puts str n)"
  "does ok bs m n \<Longrightarrow> does ok (bs @ hex_byte h) m (m_hexdigits h n)"
  "does ok bs m n \<Longrightarrow> does ok (bs @ hex_word w) m (m_hex w n)"
  "does ok bs m n \<Longrightarrow> does ok (bs @ [c]) m (m_putchar c n)"
proof -
  have t: "does ok out n (n\<lparr>m_terminal := terminal_putbytes out (m_terminal n)\<rparr>)" for out
    unfolding does_def by (intro exI [of _ "[]"]) simp
  show "does ok bs m n \<Longrightarrow> does ok (bs @ literal_bytes str) m (m_puts str n)"
    using does_trans [OF _ t [of "literal_bytes str"]] by (simp add: m_puts_def terminal_puts_def)
  show "does ok bs m n \<Longrightarrow> does ok (bs @ hex_byte h) m (m_hexdigits h n)"
    using does_trans [OF _ t [of "hex_byte h"]] by (simp add: m_hexdigits_def writehexdigits_putbytes)
  show "does ok bs m n \<Longrightarrow> does ok (bs @ hex_word w) m (m_hex w n)"
    using does_trans [OF _ t [of "hex_word w"]] by (simp add: m_hex_def writehex_putbytes)
  show "does ok bs m n \<Longrightarrow> does ok (bs @ [c]) m (m_putchar c n)"
    using does_trans [OF _ t [of "[c]"]] by (simp add: m_putchar_def terminal_putbytes_def)
qed

lemma does_events:
  assumes "list_all ok evs"
  shows "does ok [] m (m\<lparr>m_trace := evs @ m_trace m\<rparr>)"
  unfolding does_def using assms by (intro exI [of _ evs]) (simp add: terminal_putbytes_def)

lemma m_inb_eq:
  "m_inb C port m = (let v = dev_inb (c_device C) (m_trace m) port in (v, m\<lparr>m_trace := InB port v # m_trace m\<rparr>))"
  by (simp add: m_inb_def m_ask_def inb_def Let_def)

lemma snd_inb: "snd (m_inb C port m) =
    m\<lparr>m_trace := InB port (dev_inb (c_device C) (m_trace m) port) # m_trace m\<rparr>"
  by (simp add: m_inb_eq Let_def)

lemma m_outb_eq: "m_outb port v m = m\<lparr>m_trace := OutB port v # m_trace m\<rparr>"
  by (simp add: m_outb_def m_do_def outb_def)

lemma does_port:
  "(\<And>v. ok (InB port v)) \<Longrightarrow> does ok [] m (snd (m_inb C port m))"
  "ok (OutB port v) \<Longrightarrow> does ok [] m (m_outb port v m)"
  using does_events [of ok "[InB port (dev_inb (c_device C) (m_trace m) port)]" m]
    does_events [of ok "[OutB port v]" m]
  by (simp_all add: snd_inb m_outb_eq)

lemma does_on_screen: "does ok bs m m' \<Longrightarrow> on_screen (m_terminal m) \<Longrightarrow> on_screen (m_terminal m')"
  by (auto simp: does_def intro: putbytes_on_screen)

lemma does_parts:
  assumes "does ok bs m m'"
  shows "m_keyboard m' = m_keyboard m" "m_paging m' = m_paging m" "m_tables m' = m_tables m"
    "handlers m' = handlers m" "apic m' = apic m" "timerval m' = timerval m"
    "has_secondary_channel m' = has_secondary_channel m"
    "m_terminal m' = terminal_putbytes bs (m_terminal m)"
  using assms by (auto simp: does_def)

text \<open>A machine at rest, for the concrete instances of the properties.\<close>

definition demo_machine :: machine where
  "demo_machine = \<lparr>m_terminal = demo_terminal, m_keyboard = keyboard_init,
     m_paging = paging_started demo_page_image demo_paging, m_tables = demo_tables,
     handlers = replicate 256 None, apic = 0, timerval = 0, has_secondary_channel = False,
     m_trace = []\<rparr>"

end
