(* ===== verification/Apic.thy ===== *)
theory Apic
  imports Machine
begin

text \<open>
  The local APIC: src/src/sys/arch/i686/apic.c over the register structure of apic.h. The
  structure is packed and all its members are built of 32-bit units, so a member is a run
  of bits at an offset that is the sum of the widths before it. A member that is not a
  whole unit is written by reading its unit, replacing the bits and storing the unit. The
  registers themselves are hardware: loads and stores go to the trace. The fields of the
  processor's manual stand beside the structure as a table of their own, and so do the bits of the
  registers that hold what is written to them.
\<close>

section \<open>The register structure\<close>

datatype lvt_register = lvt_therm | lvt_perfm | lvt_lint0 | lvt_lint1 | lvt_error

datatype lvt_member =
  vector | delivery_mode | delivery_status | polarity | remote_irr | trigger | lvt_mask

datatype apic_member =
    physical_id | version | max_lvt_entries
  | tpr_priority | apr_priority | ppr_priority | eoi
  | logical_destination | destination_format_model
  | spurious_int_vector | enabled | focus_cpu | eoi_broadcast_suppression
  | isr_bitfield nat | tmr_bitfield nat | irr_bitfield nat
  | apic_error | lvt_cmci
  | icr_vector | icr_delivery_mode | icr_destination_mode | icr_delivery_status
  | icr_level | icr_trigger | icr_shorthand | icr_destination
  | timer_vector | timer_delivery_status | timer_mask | timer_mode
  | lvt lvt_register lvt_member
  | timer_initial | timer_current | divisor

text \<open>The members in order, with their widths in bits; \<open>None\<close> is a reserved one.\<close>

definition lvt_layout :: "lvt_register \<Rightarrow> (apic_member option \<times> nat) list" where
  "lvt_layout r =
     [(Some (lvt r vector), 8), (Some (lvt r delivery_mode), 3), (None, 1),
      (Some (lvt r delivery_status), 1), (Some (lvt r polarity), 1), (Some (lvt r remote_irr), 1),
      (Some (lvt r trigger), 1), (Some (lvt r lvt_mask), 1), (None, 15), (None, 3 * 32)]"

definition local_apic_t :: "(apic_member option \<times> nat) list" where
  "local_apic_t =
     [(None, 4 * 32), (None, 4 * 32),
      (None, 24), (Some physical_id, 4), (None, 4), (None, 3 * 32),
      (Some version, 8), (None, 8), (Some max_lvt_entries, 8), (None, 8), (None, 3 * 32),
      (None, 4 * 32), (None, 4 * 32), (None, 4 * 32), (None, 4 * 32),
      (Some tpr_priority, 8), (None, 24), (None, 3 * 32),
      (Some apr_priority, 8), (None, 24), (None, 3 * 32),
      (Some ppr_priority, 8), (None, 24), (None, 3 * 32),
      (Some eoi, 32), (None, 3 * 32),
      (None, 4 * 32),
      (None, 24), (Some logical_destination, 8), (None, 3 * 32),
      (None, 28), (Some destination_format_model, 4), (None, 3 * 32),
      (Some spurious_int_vector, 8), (Some enabled, 1), (Some focus_cpu, 1), (None, 2),
      (Some eoi_broadcast_suppression, 1), (None, 19), (None, 3 * 32)] @
     concat (map (\<lambda>k. [(Some (isr_bitfield k), 32), (None, 3 * 32)]) [0..<8]) @
     concat (map (\<lambda>k. [(Some (tmr_bitfield k), 32), (None, 3 * 32)]) [0..<8]) @
     concat (map (\<lambda>k. [(Some (irr_bitfield k), 32), (None, 3 * 32)]) [0..<8]) @
     [(Some apic_error, 32), (None, 3 * 32),
      (None, 4 * 6 * 32),
      (Some lvt_cmci, 32), (None, 3 * 32),
      (Some icr_vector, 8), (Some icr_delivery_mode, 3), (Some icr_destination_mode, 1),
      (Some icr_delivery_status, 1), (None, 1), (Some icr_level, 1), (Some icr_trigger, 1),
      (None, 2), (Some icr_shorthand, 2), (None, 12), (None, 3 * 32),
      (None, 24), (Some icr_destination, 8), (None, 3 * 32),
      (Some timer_vector, 8), (None, 4), (Some timer_delivery_status, 1), (None, 3),
      (Some timer_mask, 1), (Some timer_mode, 2), (None, 13), (None, 3 * 32)] @
     concat (map lvt_layout [lvt_therm, lvt_perfm, lvt_lint0, lvt_lint1, lvt_error]) @
     [(Some timer_initial, 32), (None, 3 * 32),
      (Some timer_current, 32), (None, 3 * 32),
      (None, 4 * 4 * 32),
      (Some divisor, 4), (None, 28), (None, 3 * 32),
      (None, 4 * 32)]"

text \<open>Offset and width, in bits, of a member.\<close>

fun find_member :: "apic_member \<Rightarrow> (apic_member option \<times> nat) list \<Rightarrow> nat \<Rightarrow> (nat \<times> nat) option" where
  "find_member f [] pos = None"
| "find_member f ((g, width) # ms) pos =
     (if g = Some f then Some (pos, width) else find_member f ms (pos + width))"

definition member_at :: "apic_member \<Rightarrow> nat \<times> nat" where
  "member_at f = the (find_member f local_apic_t 0)"

definition member_reg :: "apic_member \<Rightarrow> u32" where
  "member_reg f = of_nat (fst (member_at f) div 32 * 4)"

definition member_shift :: "apic_member \<Rightarrow> nat" where
  "member_shift f = fst (member_at f) mod 32"

definition member_width :: "apic_member \<Rightarrow> nat" where
  "member_width f = snd (member_at f)"

text \<open>Bits \<open>shift\<close> to \<open>shift + width - 1\<close> of a unit.\<close>

definition get_bits :: "nat \<Rightarrow> nat \<Rightarrow> u32 \<Rightarrow> u32" where
  "get_bits shift width w = drop_bit shift w AND mask width"

definition set_bits :: "nat \<Rightarrow> nat \<Rightarrow> u32 \<Rightarrow> u32 \<Rightarrow> u32" where
  "set_bits shift width v w =
     (w AND NOT (push_bit shift (mask width))) OR push_bit shift (v AND mask width)"

definition apic_get :: "config \<Rightarrow> apic_member \<Rightarrow> machine \<Rightarrow> u32 \<times> machine" where
  "apic_get C f m =
     (let (w, m) = mmio_load C (apic m + member_reg f) m
      in (get_bits (member_shift f) (member_width f) w, m))"

definition apic_set :: "config \<Rightarrow> apic_member \<Rightarrow> u32 \<Rightarrow> machine \<Rightarrow> machine" where
  "apic_set C f v m =
     (if member_width f = 32 then mmio_store (apic m + member_reg f) v m
      else let (w, m) = mmio_load C (apic m + member_reg f) m
           in mmio_store (apic m + member_reg f) (set_bits (member_shift f) (member_width f) v w) m)"

section \<open>The operations\<close>

definition APIC_MSR :: u32 where "APIC_MSR = 0x1B"

definition APIC_TIMER_ONESHOT :: u32 where "APIC_TIMER_ONESHOT = 0"

text \<open>A run of assignments \<open>apic->member = value\<close>.\<close>

definition apic_assign :: "config \<Rightarrow> (apic_member \<times> u32) list \<Rightarrow> machine \<Rightarrow> machine" where
  "apic_assign C fvs m = fold (\<lambda>(f, v). apic_set C f v) fvs m"

definition apic_reset_values :: "(apic_member \<times> u32) list" where
  "apic_reset_values =
     [(destination_format_model, 0x0F), (logical_destination, 1),
      (timer_mask, 1), (lvt lvt_therm lvt_mask, 1), (lvt lvt_lint0 lvt_mask, 1),
      (lvt lvt_lint1 lvt_mask, 1), (lvt lvt_error lvt_mask, 1),
      (eoi_broadcast_suppression, 1), (tpr_priority, 0)]"

definition apic_start_values :: "(apic_member \<times> u32) list" where
  "apic_start_values =
     [(focus_cpu, 1), (spurious_int_vector, 39), (enabled, 1), (timer_vector, 32),
      (timer_mode, APIC_TIMER_ONESHOT), (divisor, 0xB), (timer_initial, 1000), (timer_mask, 0)]"

text \<open>\<open>apic_init\<close> from the assignment of \<open>apic\<close> on.\<close>

definition apic_program :: "config \<Rightarrow> u64 \<Rightarrow> machine \<Rightarrow> machine" where
  "apic_program C msr m =
     (let m = m_puts ''APIC Virt Address: '' m;
          m = m_hex (apic m) m;
          m = m_putchar 0x0A m;
          m = m_puts ''APIC Version: '' m;
          (ver, m) = apic_get C version m;
          m = m_hexdigits (ucast ver) m;
          m = m_putchar 0x0A m;
          m = apic_assign C apic_reset_values m;
          msr = msr OR push_bit 11 1;
          m = m_do (wrmsr APIC_MSR msr) m;
          m = m_puts ''APIC MSR val: '' m;
          m = m_hex (ucast msr) m;
          m = m_hex (ucast (drop_bit 32 msr)) m;
          m = m_putchar 0x0A m
      in apic_assign C apic_start_values m)"

definition apic_init :: "config \<Rightarrow> machine \<Rightarrow> machine option" where
  "apic_init C m =
     (let m = m_puts (nl ''APIC_INIT.'') m;
          m = m\<lparr>apic := 0\<rparr>;
          (available, m) = m_apic_is_available C m
      in if \<not> available then Some m
      else let
          (msr, m) = m_ask (rdmsr (c_device C) APIC_MSR) m;
          base_addr = ucast (msr AND 0xFFFFF000);
          m = m_puts ''APIC Base Address: '' m;
          m = m_hex base_addr m;
          m = m_putchar 0x0A m
      in do {
        (p, m) \<leftarrow> m_paging_map base_addr (PAGING_READWRITE OR PAGING_CACHE_DISABLE) m;
        Some (apic_program C msr (m\<lparr>apic := p\<rparr>))
      })"

definition apic_send_eoi :: "config \<Rightarrow> machine \<Rightarrow> machine" where
  "apic_send_eoi C m = apic_set C eoi 0 m"

section \<open>Offsets of the members\<close>

lemma upt_8: "[0..<8] = [0, 1, 2, 3, 4, 5, 6, 7]"
  by (simp add: upt_conv_Cons)

lemmas local_apic_members =
  local_apic_t_def [unfolded upt_8, simplified, unfolded lvt_layout_def append.simps]

lemma find_member_cong: "n = m \<Longrightarrow> find_member f ms n = find_member f ms m"
  by simp

text \<open>
  The registers as the processor's manual has them: the offset of the register of a member,
  its lowest bit and its width. The local APIC ID has the four bits of the P6 processors.
\<close>

primrec lvt_offset :: "lvt_register \<Rightarrow> nat" where
  "lvt_offset lvt_therm = 0x330"
| "lvt_offset lvt_perfm = 0x340"
| "lvt_offset lvt_lint0 = 0x350"
| "lvt_offset lvt_lint1 = 0x360"
| "lvt_offset lvt_error = 0x370"

primrec lvt_bits :: "lvt_member \<Rightarrow> nat \<times> nat" where
  "lvt_bits vector = (0, 8)"
| "lvt_bits delivery_mode = (8, 3)"
| "lvt_bits delivery_status = (12, 1)"
| "lvt_bits polarity = (13, 1)"
| "lvt_bits remote_irr = (14, 1)"
| "lvt_bits trigger = (15, 1)"
| "lvt_bits lvt_mask = (16, 1)"

primrec manual_field :: "apic_member \<Rightarrow> nat \<times> nat \<times> nat" where
  "manual_field physical_id = (0x20, 24, 4)"
| "manual_field version = (0x30, 0, 8)"
| "manual_field max_lvt_entries = (0x30, 16, 8)"
| "manual_field tpr_priority = (0x80, 0, 8)"
| "manual_field apr_priority = (0x90, 0, 8)"
| "manual_field ppr_priority = (0xA0, 0, 8)"
| "manual_field eoi = (0xB0, 0, 32)"
| "manual_field logical_destination = (0xD0, 24, 8)"
| "manual_field destination_format_model = (0xE0, 28, 4)"
| "manual_field spurious_int_vector = (0xF0, 0, 8)"
| "manual_field enabled = (0xF0, 8, 1)"
| "manual_field focus_cpu = (0xF0, 9, 1)"
| "manual_field eoi_broadcast_suppression = (0xF0, 12, 1)"
| "manual_field (isr_bitfield k) = (0x100 + 0x10 * k, 0, 32)"
| "manual_field (tmr_bitfield k) = (0x180 + 0x10 * k, 0, 32)"
| "manual_field (irr_bitfield k) = (0x200 + 0x10 * k, 0, 32)"
| "manual_field apic_error = (0x280, 0, 32)"
| "manual_field lvt_cmci = (0x2F0, 0, 32)"
| "manual_field icr_vector = (0x300, 0, 8)"
| "manual_field icr_delivery_mode = (0x300, 8, 3)"
| "manual_field icr_destination_mode = (0x300, 11, 1)"
| "manual_field icr_delivery_status = (0x300, 12, 1)"
| "manual_field icr_level = (0x300, 14, 1)"
| "manual_field icr_trigger = (0x300, 15, 1)"
| "manual_field icr_shorthand = (0x300, 18, 2)"
| "manual_field icr_destination = (0x310, 24, 8)"
| "manual_field timer_vector = (0x320, 0, 8)"
| "manual_field timer_delivery_status = (0x320, 12, 1)"
| "manual_field timer_mask = (0x320, 16, 1)"
| "manual_field timer_mode = (0x320, 17, 2)"
| "manual_field (lvt r x) = (lvt_offset r, lvt_bits x)"
| "manual_field timer_initial = (0x380, 0, 32)"
| "manual_field timer_current = (0x390, 0, 32)"
| "manual_field divisor = (0x3E0, 0, 4)"

text \<open>The three bit fields of interrupts are arrays of eight.\<close>

definition real_member :: "apic_member \<Rightarrow> bool" where
  "real_member f \<longleftrightarrow> (case f of isr_bitfield k \<Rightarrow> k < 8 | tmr_bitfield k \<Rightarrow> k < 8
     | irr_bitfield k \<Rightarrow> k < 8 | _ \<Rightarrow> True)"

lemma less_8: "k < 8 \<longleftrightarrow> k \<in> {0, 1, 2, 3, 4, 5, 6, 7 :: nat}"
  by auto

lemma found_scalars:
  "find_member physical_id local_apic_t 0 = Some (8 * 0x20 + 24, 4)"
  "find_member version local_apic_t 0 = Some (8 * 0x30, 8)"
  "find_member max_lvt_entries local_apic_t 0 = Some (8 * 0x30 + 16, 8)"
  "find_member tpr_priority local_apic_t 0 = Some (8 * 0x80, 8)"
  "find_member apr_priority local_apic_t 0 = Some (8 * 0x90, 8)"
  "find_member ppr_priority local_apic_t 0 = Some (8 * 0xA0, 8)"
  "find_member eoi local_apic_t 0 = Some (8 * 0xB0, 32)"
  "find_member logical_destination local_apic_t 0 = Some (8 * 0xD0 + 24, 8)"
  "find_member destination_format_model local_apic_t 0 = Some (8 * 0xE0 + 28, 4)"
  "find_member spurious_int_vector local_apic_t 0 = Some (8 * 0xF0, 8)"
  "find_member enabled local_apic_t 0 = Some (8 * 0xF0 + 8, 1)"
  "find_member focus_cpu local_apic_t 0 = Some (8 * 0xF0 + 9, 1)"
  "find_member eoi_broadcast_suppression local_apic_t 0 = Some (8 * 0xF0 + 12, 1)"
  "find_member apic_error local_apic_t 0 = Some (8 * 0x280, 32)"
  "find_member lvt_cmci local_apic_t 0 = Some (8 * 0x2F0, 32)"
  "find_member icr_vector local_apic_t 0 = Some (8 * 0x300, 8)"
  "find_member icr_delivery_mode local_apic_t 0 = Some (8 * 0x300 + 8, 3)"
  "find_member icr_destination_mode local_apic_t 0 = Some (8 * 0x300 + 11, 1)"
  "find_member icr_delivery_status local_apic_t 0 = Some (8 * 0x300 + 12, 1)"
  "find_member icr_level local_apic_t 0 = Some (8 * 0x300 + 14, 1)"
  "find_member icr_trigger local_apic_t 0 = Some (8 * 0x300 + 15, 1)"
  "find_member icr_shorthand local_apic_t 0 = Some (8 * 0x300 + 18, 2)"
  "find_member icr_destination local_apic_t 0 = Some (8 * 0x310 + 24, 8)"
  "find_member timer_vector local_apic_t 0 = Some (8 * 0x320, 8)"
  "find_member timer_delivery_status local_apic_t 0 = Some (8 * 0x320 + 12, 1)"
  "find_member timer_mask local_apic_t 0 = Some (8 * 0x320 + 16, 1)"
  "find_member timer_mode local_apic_t 0 = Some (8 * 0x320 + 17, 2)"
  "find_member timer_initial local_apic_t 0 = Some (8 * 0x380, 32)"
  "find_member timer_current local_apic_t 0 = Some (8 * 0x390, 32)"
  "find_member divisor local_apic_t 0 = Some (8 * 0x3E0, 4)"
  unfolding local_apic_members by (simp_all cong: find_member_cong)

lemma found_bitfields:
  "k \<in> {0, 1, 2, 3, 4, 5, 6, 7} \<Longrightarrow>
     find_member (isr_bitfield k) local_apic_t 0 = Some (8 * (0x100 + 0x10 * k), 32)"
  "k \<in> {0, 1, 2, 3, 4, 5, 6, 7} \<Longrightarrow>
     find_member (tmr_bitfield k) local_apic_t 0 = Some (8 * (0x180 + 0x10 * k), 32)"
  "k \<in> {0, 1, 2, 3, 4, 5, 6, 7} \<Longrightarrow>
     find_member (irr_bitfield k) local_apic_t 0 = Some (8 * (0x200 + 0x10 * k), 32)"
  unfolding local_apic_members by (elim insertE emptyE; simp cong: find_member_cong)+

lemma found_lvt:
  "find_member (lvt r x) local_apic_t 0 = Some (8 * lvt_offset r + fst (lvt_bits x), snd (lvt_bits x))"
  unfolding local_apic_members by (cases r; cases x; simp cong: find_member_cong)

lemma found_member:
  assumes "real_member f" and "manual_field f = (offset, low, width)"
  shows "find_member f local_apic_t 0 = Some (8 * offset + low, width)"
  using assms found_bitfields
  by (cases f) (auto simp: real_member_def less_8 found_scalars found_lvt prod_eq_iff)

lemma manual_field_unit:
  assumes "real_member f" and "manual_field f = (offset, low, width)"
  shows "4 dvd offset" and "offset < 0x400" and "0 < width" and "low + width \<le> 32"
    and "width = 32 \<longrightarrow> low = 0"
proof -
  have b: "0 < snd (lvt_bits x) \<and> fst (lvt_bits x) + snd (lvt_bits x) \<le> 17" for x by (cases x) simp_all
  have o: "4 dvd lvt_offset r \<and> lvt_offset r < 0x400" for r by (cases r) simp_all
  have "4 dvd offset \<and> offset < 0x400 \<and> 0 < width \<and> low + width \<le> 32 \<and> (width = 32 \<longrightarrow> low = 0)"
    using assms
  proof (cases f)
    case (lvt r x)
    with assms b [of x] o [of r] show ?thesis by (cases "lvt_bits x") simp
  qed (auto simp: real_member_def intro!: dvd_add)
  then show "4 dvd offset" and "offset < 0x400" and "0 < width" and "low + width \<le> 32"
    and "width = 32 \<longrightarrow> low = 0"
    by blast+
qed

lemma member_manual:
  assumes "real_member f" and "manual_field f = (offset, low, width)"
  shows "member_reg f = of_nat offset" and "member_shift f = low" and "member_width f = width"
proof -
  note u = manual_field_unit [OF assms]
  obtain k where k: "offset = 4 * k" using u(1) by blast
  have "(8 * offset + low) div 32 = k \<and> (8 * offset + low) mod 32 = low"
    using u(3,4) unfolding k by (simp add: mult.assoc [symmetric])
  then show "member_reg f = of_nat offset" and "member_shift f = low" and "member_width f = width"
    by (simp_all add: member_reg_def member_shift_def member_width_def member_at_def
        found_member [OF assms] k mult.commute)
qed

lemmas found_members = found_scalars found_lvt

lemma find_member_bounds:
  "find_member f ms pos = Some (p, w) \<Longrightarrow> pos \<le> p \<and> p + w \<le> pos + sum_list (map snd ms)"
  by (induction f ms pos rule: find_member.induct) (auto split: if_splits)

lemma find_member_disjoint:
  "find_member f ms pos = Some (p, w) \<Longrightarrow> find_member g ms pos = Some (q, x) \<Longrightarrow> f \<noteq> g \<Longrightarrow>
   p + w \<le> q \<or> q + x \<le> p"
proof (induction f ms pos rule: find_member.induct)
  case (2 f h w ms pos)
  show ?case
    using "2.prems" "2.IH" find_member_bounds [of f ms "pos + w" p] find_member_bounds [of g ms "pos + w" q x]
    by (auto split: if_splits)
qed simp

lemma size_local_apic_t: "sum_list (map snd local_apic_t) = 8 * 0x400"
  by (simp add: local_apic_t_def lvt_layout_def upt_conv_Cons)

section \<open>Bit fields in units\<close>

lemma get_set_bits_same:
  "s + n \<le> 32 \<Longrightarrow> get_bits s n (set_bits s n v w) = v AND mask n"
  unfolding get_bits_def set_bits_def by (rule bit_word_eqI) (auto simp: bit_simps)

lemma get_set_bits_other:
  "s + n \<le> r \<or> r + k \<le> s \<Longrightarrow> get_bits r k (set_bits s n v w) = get_bits r k w"
  unfolding get_bits_def set_bits_def
  by (rule bit_word_eqI) (auto simp: bit_simps dest: bit_imp_le_length)

lemma set_bits_unit: "set_bits 0 32 v w = v"
  unfolding set_bits_def by (rule bit_word_eqI) (auto simp: bit_simps)

text \<open>
  Members of a file of registers: a member has the last value assigned to it, cut to its
  width, whatever other members were assigned. \<open>ok\<close> is a condition on the state that the
  assignments keep.
\<close>

locale register_fields =
  fixes get :: "'f \<Rightarrow> 'r \<Rightarrow> 'v" and put :: "'f \<Rightarrow> 'v \<Rightarrow> 'r \<Rightarrow> 'r"
    and cut :: "'f \<Rightarrow> 'v \<Rightarrow> 'v" and member :: "'f \<Rightarrow> bool" and ok :: "'r \<Rightarrow> bool"
  assumes get_put_same: "member f \<Longrightarrow> ok r \<Longrightarrow> get f (put f v r) = cut f v"
    and get_put_other: "member f \<Longrightarrow> member g \<Longrightarrow> f \<noteq> g \<Longrightarrow> ok r \<Longrightarrow> get f (put g v r) = get f r"
    and ok_put: "ok (put f v r) \<longleftrightarrow> ok r"
begin

lemma ok_assign: "ok (fold (\<lambda>(g, v). put g v) fvs r) \<longleftrightarrow> ok r"
proof (induction fvs arbitrary: r)
  case Nil
  show ?case by simp
next
  case (Cons fv fvs)
  obtain f v where "fv = (f, v)" by fastforce
  with Cons.IH [of "put f v r"] show ?case by (simp only: fold_simps comp_apply prod.case ok_put)
qed

lemma get_assign:
  assumes "member f" and "\<forall>(g, v) \<in> set fvs. member g" and "ok r"
  shows "get f (fold (\<lambda>(g, v). put g v) fvs r) =
    (case map_of (rev fvs) f of Some v \<Rightarrow> cut f v | None \<Rightarrow> get f r)"
  using assms(2)
proof (induction fvs rule: rev_induct)
  case Nil
  then show ?case by simp
next
  case (snoc gv fvs)
  obtain g v where gv: "gv = (g, v)" by fastforce
  show ?case
    using snoc assms(1,3) get_put_same [of f "fold (\<lambda>(g, v). put g v) fvs r" v]
      get_put_other [of f g "fold (\<lambda>(g, v). put g v) fvs r" v]
    by (cases "f = g") (auto simp: gv ok_assign)
qed

end

definition in_unit :: "apic_member \<Rightarrow> bool" where
  "in_unit f \<longleftrightarrow> find_member f local_apic_t 0 \<noteq> None \<and> 0 < member_width f
     \<and> member_shift f + member_width f \<le> 32"

lemma same_unit_disjoint:
  assumes "in_unit f" and "in_unit g" and "f \<noteq> g" and "member_reg f = member_reg g"
  shows "member_shift f + member_width f \<le> member_shift g \<or> member_shift g + member_width g \<le> member_shift f"
proof -
  obtain p w q x where f: "find_member f local_apic_t 0 = Some (p, w)"
      and g: "find_member g local_apic_t 0 = Some (q, x)"
    using assms(1,2) by (auto simp: in_unit_def)
  have b: "p + w \<le> 8192" "q + x \<le> 8192"
    using find_member_bounds [OF f] find_member_bounds [OF g] size_local_apic_t by simp_all
  have u: "unat (of_nat (k div 32 * 4) :: u32) = k div 32 * 4" if "k \<le> 8192" for k :: nat
  proof -
    have "k div 32 * 4 < 2 ^ 32" using that by simp
    then show ?thesis by (simp only: unat_of_nat) simp
  qed
  have "p div 32 * 4 = q div 32 * 4"
    using arg_cong [OF assms(4), of unat] u [of p] u [of q] b
    by (simp add: member_reg_def member_at_def f g)
  then have "p div 32 = q div 32" by simp
  then have "p = 32 * (p div 32) + p mod 32" "q = 32 * (p div 32) + q mod 32"
    using mult_div_mod_eq [of 32 p] mult_div_mod_eq [of 32 q] by presburger+
  with find_member_disjoint [OF f g assms(3)]
  have "p mod 32 + w \<le> q mod 32 \<or> q mod 32 + x \<le> p mod 32" by linarith
  then show ?thesis
    by (simp add: member_shift_def member_width_def member_at_def f g)
qed

text \<open>
  The bits of a register that hold what is written to them, by the manual: a vector, mode or
  mask, but not a status, a reserved bit or a read-only register. The suppression of broadcasts
  is there when the processor has it.
\<close>

definition writable :: "u32 \<Rightarrow> u32" where
  "writable reg = (case map_of
     [(0x80, 0xFF), (0xD0, 0xFF000000), (0xE0, 0xF0000000), (0xF0, 0x13FF), (0x320, 0x700FF),
      (0x330, 0x107FF), (0x350, 0x1A7FF), (0x360, 0x1A7FF), (0x370, 0x100FF),
      (0x380, 0xFFFFFFFF), (0x3E0, 0xB)] reg of None \<Rightarrow> 0 | Some bits \<Rightarrow> bits)"

definition field_mask :: "apic_member \<Rightarrow> u32" where
  "field_mask f = push_bit (member_shift f) (mask (member_width f))"

text \<open>The contents of the memory mapped registers after a trace, as they were last stored.\<close>

fun mmio_after :: "(u32 \<Rightarrow> u32) \<Rightarrow> trace \<Rightarrow> u32 \<Rightarrow> u32" where
  "mmio_after R0 [] = R0"
| "mmio_after R0 (MmioStore a w # tr) = (mmio_after R0 tr)(a := w)"
| "mmio_after R0 (_ # tr) = mmio_after R0 tr"

text \<open>Hardware with a local APIC at an address: the writable bits read as they were last stored.\<close>

definition apic_at :: "config \<Rightarrow> (u32 \<Rightarrow> u32) \<Rightarrow> u32 \<Rightarrow> bool" where
  "apic_at C R0 base \<longleftrightarrow> (\<forall>tr reg. dev_load (c_device C) tr (base + reg) AND writable reg =
     mmio_after R0 tr (base + reg) AND writable reg)"

lemma get_bits_agree:
  assumes "w AND W = w' AND W" and "push_bit s (mask n) AND NOT W = 0"
  shows "get_bits s n w = get_bits s n w'"
proof -
  have b: "bit (w AND W) i = bit (w' AND W) i" "bit (push_bit s (mask n) AND NOT W) i = bit (0 :: u32) i" for i
    by (simp_all only: assms)
  show ?thesis
  proof (rule bit_word_eqI)
    fix i assume "i < LENGTH(32)"
    then show "bit (get_bits s n w) i = bit (get_bits s n w') i"
      using b(1) [of "s + i"] b(2) [of "s + i"]
      by (auto simp: get_bits_def bit_simps dest: bit_imp_le_length)
  qed
qed

text \<open>
  A member as it was last stored, and those whose register gives back what a later assignment
  to another member of it stores again. The divisor is alone in its register.
\<close>

definition stored_field :: "(u32 \<Rightarrow> u32) \<Rightarrow> apic_member \<Rightarrow> machine \<Rightarrow> u32" where
  "stored_field R0 f m =
     get_bits (member_shift f) (member_width f) (mmio_after R0 (m_trace m) (apic m + member_reg f))"

definition kept :: "apic_member \<Rightarrow> bool" where
  "kept f \<longleftrightarrow> real_member f \<and> (f = divisor \<or> field_mask f AND NOT (writable (member_reg f)) = 0)"

lemma kept_in_unit: "kept f \<Longrightarrow> in_unit f"
proof -
  assume k: "kept f"
  obtain offset low width where f: "manual_field f = (offset, low, width)" by (cases "manual_field f")
  have r: "real_member f" using k by (simp add: kept_def)
  show "in_unit f"
    using found_member [OF r f] member_manual [OF r f] manual_field_unit [OF r f]
    by (simp add: in_unit_def)
qed

lemma alone_divisor:
  assumes "real_member f" and "member_reg f = member_reg divisor"
  shows "f = divisor"
proof -
  obtain offset low width where f: "manual_field f = (offset, low, width)" by (cases "manual_field f")
  have "offset < 2 ^ 32" using manual_field_unit(2) [OF assms(1) f] by simp
  then have "offset = unat (of_nat offset :: u32)" by (simp add: unat_of_nat)
  also have "\<dots> = unat (member_reg divisor)"
    using assms(2) member_manual(1) [OF assms(1) f] by simp
  also have "\<dots> = 0x3E0"
    by (simp add: member_manual(1) [of divisor "0x3E0" 0 4] real_member_def)
  finally have "offset = 0x3E0" .
  moreover have "lvt_offset r \<noteq> 0x3E0" for r by (cases r) simp_all
  ultimately show ?thesis
    using f assms(1) by (cases f) (auto simp: real_member_def)
qed

lemma apic_set_same:
  assumes "kept f"
  shows "stored_field R0 f (apic_set C f v m) = v AND mask (member_width f)"
proof (cases "member_width f = 32")
  case True
  then show ?thesis
    using kept_in_unit [OF assms]
    by (simp add: stored_field_def apic_set_def machine_ops in_unit_def get_bits_def)
next
  case False
  then show ?thesis
    using kept_in_unit [OF assms]
    by (simp add: stored_field_def apic_set_def machine_ops in_unit_def get_set_bits_same Let_def)
qed

lemma apic_set_other:
  assumes "kept f" and "kept g" and "f \<noteq> g" and "apic_at C R0 (apic m)"
  shows "stored_field R0 f (apic_set C g v m) = stored_field R0 f m"
proof (cases "member_reg f = member_reg g")
  case False
  then show ?thesis by (simp add: stored_field_def apic_set_def machine_ops Let_def)
next
  case True
  let ?w = "dev_load (c_device C) (m_trace m) (apic m + member_reg g)"
  have apart: "member_shift g + member_width g \<le> member_shift f \<or>
      member_shift f + member_width f \<le> member_shift g"
    using same_unit_disjoint kept_in_unit assms(1-3) True by blast
  have units: "0 < member_width f" "member_shift f + member_width f \<le> 32" "0 < member_width g"
      "member_shift g + member_width g \<le> 32"
    using kept_in_unit [OF assms(1)] kept_in_unit [OF assms(2)] by (simp_all add: in_unit_def)
  have "f \<noteq> divisor" using alone_divisor [of g] assms(2,3) True by (auto simp: kept_def)
  then have "field_mask f AND NOT (writable (member_reg g)) = 0"
    using assms(1) True by (simp add: kept_def)
  then have "get_bits (member_shift f) (member_width f) ?w = stored_field R0 f m"
    using assms(4) unfolding stored_field_def True field_mask_def apic_at_def
    by (intro get_bits_agree [of _ "writable (member_reg g)"]) simp_all
  moreover have "member_width g \<noteq> 32" using apart units by auto
  ultimately show ?thesis
    using get_set_bits_other [OF apart]
    by (simp add: stored_field_def apic_set_def machine_ops True Let_def)
qed

lemma apic_set_parts:
  "apic_set C f v m = m\<lparr>m_trace := m_trace (apic_set C f v m)\<rparr>"
  by (simp add: apic_set_def machine_ops Let_def)

lemma apic_set_apic [simp]: "apic (apic_set C f v m) = apic m"
  by (subst apic_set_parts) simp

interpretation apic_regs: register_fields "stored_field R0" "apic_set C"
    "\<lambda>f v. v AND mask (member_width f)" kept "\<lambda>m. apic_at C R0 (apic m)"
  by unfold_locales (simp_all add: apic_set_same apic_set_other)

lemma apic_assign_parts:
  "apic_assign C fvs m = m\<lparr>m_trace := m_trace (apic_assign C fvs m)\<rparr>"
proof (induction fvs arbitrary: m)
  case Nil
  show ?case by (simp add: apic_assign_def)
next
  case (Cons fv fvs)
  obtain f v where fv: "fv = (f, v)" by fastforce
  have "apic_assign C (fv # fvs) m = apic_assign C fvs (apic_set C f v m)"
    by (simp add: apic_assign_def fv)
  then show ?case
    using Cons [of "apic_set C f v m"] apic_set_parts [of C f v m]
    by (metis machine.update_convs(9) machine.surjective)
qed

lemma apic_assign_trace: "\<exists>evs. m_trace (apic_assign C fvs m) = evs @ m_trace m"
proof (induction fvs arbitrary: m)
  case Nil
  show ?case by (simp add: apic_assign_def)
next
  case (Cons fv fvs)
  obtain f v where fv: "fv = (f, v)" by fastforce
  have "\<exists>evs. m_trace (apic_set C f v m) = evs @ m_trace m"
    by (simp add: apic_set_def machine_ops Let_def)
  with Cons [of "apic_set C f v m"] show ?case
    by (auto simp: apic_assign_def fv)
qed

lemma apic_assign_apic [simp]: "apic (apic_assign C fvs m) = apic m"
  by (subst apic_assign_parts) simp

lemma apic_program_apic: "apic (apic_program C msr m) = apic m"
  by (simp add: apic_program_def apic_get_def machine_ops Let_def)

lemma apic_program_paging: "m_paging (apic_program C msr m) = m_paging m"
proof -
  have "m_paging (apic_assign C fvs m) = m_paging m" for fvs m
    by (subst apic_assign_parts) simp
  then show ?thesis
    by (simp add: apic_program_def apic_get_def machine_ops Let_def)
qed

lemma apic_program_msr:
  "WrMsr APIC_MSR (ucast (msr AND mask 32) OR 0x800) (ucast (drop_bit 32 msr))
   \<in> set (m_trace (apic_program C msr m))"
proof -
  have msr: "wrmsr APIC_MSR (msr OR 0x800) tr =
      WrMsr APIC_MSR (ucast (msr AND mask 32) OR 0x800) (ucast (drop_bit 32 msr)) # tr" for tr
  proof -
    have m: "(0xFFFFFFFF :: u64) = mask 32" by (simp add: mask_eq_exp_minus_1)
    have b: "(0x800 :: u32) = push_bit 11 1" "(0x800 :: u64) = push_bit 11 1" by simp_all
    have "ucast ((msr OR push_bit 11 1) AND mask 32) = (ucast (msr AND mask 32) OR push_bit 11 1 :: u32)"
      by (rule bit_word_eqI) (auto simp: bit_simps)
    moreover have "ucast (drop_bit 32 (msr OR push_bit 11 1)) = (ucast (drop_bit 32 msr) :: u32)"
      by (rule bit_word_eqI) (auto simp: bit_simps)
    ultimately show ?thesis unfolding wrmsr_def m b by (simp only: Let_def)
  qed
  have in_assign: "e \<in> set (m_trace m) \<Longrightarrow> e \<in> set (m_trace (apic_assign C fvs m))" for e fvs m
    using apic_assign_trace [of C fvs m] by auto
  show ?thesis
    unfolding apic_program_def Let_def case_prod_beta'
    by (rule in_assign) (simp add: m_do_def msr)
qed

text \<open>The addresses stored to, the last one first.\<close>

fun stores :: "trace \<Rightarrow> u32 list" where
  "stores [] = []"
| "stores (MmioStore a w # tr) = a # stores tr"
| "stores (_ # tr) = stores tr"

lemma stores_assign:
  "stores (m_trace (apic_assign C fvs m)) =
     rev (map (\<lambda>(f, v). apic m + member_reg f) fvs) @ stores (m_trace m)"
proof (induction fvs arbitrary: m)
  case Nil
  show ?case by (simp add: apic_assign_def)
next
  case (Cons fv fvs)
  obtain f v where fv: "fv = (f, v)" by fastforce
  have "stores (m_trace (apic_set C f v m)) = (apic m + member_reg f) # stores (m_trace m)"
    by (simp add: apic_set_def machine_ops Let_def)
  with Cons [of "apic_set C f v m"] show ?case by (simp add: apic_assign_def fv)
qed

text \<open>\<open>apic_program\<close> is the two runs of assignments, with output and the MSR between.\<close>

lemma apic_program_runs:
  "\<exists>n k. apic n = apic m \<and> stores (m_trace n) = stores (m_trace m)
     \<and> apic k = apic m \<and> stores (m_trace k) = stores (m_trace (apic_assign C apic_reset_values n))
     \<and> mmio_after R0 (m_trace k) = mmio_after R0 (m_trace (apic_assign C apic_reset_values n))
     \<and> apic_program C msr m = apic_assign C apic_start_values k"
proof -
  have w: "mmio_after R0 (wrmsr a v tr) = mmio_after R0 tr" "stores (wrmsr a v tr) = stores tr" for a v tr
    by (simp_all add: wrmsr_def Let_def)
  have g: "stores (m_trace (snd (apic_get C h n))) = stores (m_trace n)"
      "apic (snd (apic_get C h n)) = apic n" for h n
    by (simp_all add: apic_get_def machine_ops Let_def)
  have d: "m_trace (m_do h n) = h (m_trace n)" "apic (m_do h n) = apic n" for h n
    by (simp_all add: m_do_def)
  show ?thesis
    unfolding apic_program_def Let_def case_prod_beta'
    by (rule exI, rule exI, intro conjI, rule_tac [6] refl) (simp_all add: w g d)
qed

lemma kept_used:
  "\<forall>(f, v) \<in> set apic_reset_values. kept f" "\<forall>(f, v) \<in> set apic_start_values. kept f"
  by (simp_all add: apic_reset_values_def apic_start_values_def kept_def real_member_def field_mask_def
      member_shift_def member_width_def member_reg_def member_at_def found_members writable_def
      mask_eq_exp_minus_1)

text \<open>The members programmed, in a register each that keeps them.\<close>

definition programmed :: "apic_member list" where
  "programmed = [spurious_int_vector, enabled, focus_cpu, eoi_broadcast_suppression,
     destination_format_model, logical_destination, tpr_priority,
     timer_vector, timer_mode, timer_mask, timer_initial] @
     map (\<lambda>r. lvt r lvt_mask) [lvt_therm, lvt_lint0, lvt_lint1, lvt_error]"

lemma programmed_kept:
  "f \<in> set (divisor # programmed) \<Longrightarrow> kept f"
  using kept_used by (auto simp: programmed_def apic_reset_values_def apic_start_values_def)

lemma apic_program_stored:
  assumes "apic_at C R0 (apic m)"
  shows "map (\<lambda>f. stored_field R0 f (apic_program C msr m)) (divisor # programmed) =
    [11, 39, 1, 1, 1, 15, 1, 0, 32, 0, 0, 1000, 1, 1, 1, 1]"
proof -
  obtain n k where n: "apic n = apic m" and k: "apic k = apic m"
    "mmio_after R0 (m_trace k) = mmio_after R0 (m_trace (apic_assign C apic_reset_values n))"
    and run: "apic_program C msr m = apic_assign C apic_start_values k"
    using apic_program_runs [of m C R0 msr] by blast
  have same: "stored_field R0 f k = stored_field R0 f (apic_assign C apic_reset_values n)" for f
    by (simp add: stored_field_def k n)
  have v: "stored_field R0 f (apic_program C msr m) =
      (case map_of (rev apic_start_values) f of Some v \<Rightarrow> v AND mask (member_width f)
       | None \<Rightarrow> (case map_of (rev apic_reset_values) f of Some v \<Rightarrow> v AND mask (member_width f)
         | None \<Rightarrow> stored_field R0 f n))" if "f \<in> set (divisor # programmed)" for f
    using apic_regs.get_assign [OF programmed_kept [OF that] kept_used(2), of C R0 k]
      apic_regs.get_assign [OF programmed_kept [OF that] kept_used(1), of C R0 n] assms
    by (simp add: run apic_assign_def [symmetric] k n same split: option.split)
  have "map (\<lambda>f. stored_field R0 f (apic_program C msr m)) (divisor # programmed) =
      map (\<lambda>f. case map_of (rev apic_start_values) f of Some v \<Rightarrow> v AND mask (member_width f)
       | None \<Rightarrow> (case map_of (rev apic_reset_values) f of Some v \<Rightarrow> v AND mask (member_width f)
         | None \<Rightarrow> stored_field R0 f n)) (divisor # programmed)"
    using v by (intro map_cong) simp_all
  also have "\<dots> = [11, 39, 1, 1, 1, 15, 1, 0, 32, 0, 0, 1000, 1, 1, 1, 1]"
    by (simp add: programmed_def apic_reset_values_def apic_start_values_def member_width_def
        member_at_def found_members APIC_TIMER_ONESHOT_def mask_eq_exp_minus_1)
  finally show ?thesis .
qed

lemma apic_program_stores:
  "stores (m_trace (apic_program C msr m)) = rev (map (\<lambda>reg. apic m + reg)
     [0xE0, 0xD0, 0x320, 0x330, 0x350, 0x360, 0x370, 0xF0, 0x80,
      0xF0, 0xF0, 0xF0, 0x320, 0x320, 0x3E0, 0x380, 0x320]) @ stores (m_trace m)"
proof -
  obtain n k where "apic n = apic m" "stores (m_trace n) = stores (m_trace m)" "apic k = apic m"
    "stores (m_trace k) = stores (m_trace (apic_assign C apic_reset_values n))"
    "apic_program C msr m = apic_assign C apic_start_values k"
    using apic_program_runs [of m C _ msr] by blast
  then show ?thesis
    by (simp add: stores_assign apic_reset_values_def apic_start_values_def member_reg_def member_at_def
        found_members)
qed

text \<open>What a load then gives.\<close>

lemma load_stored:
  assumes "apic_at C R0 (apic m)" and "field_mask f AND NOT (writable (member_reg f)) = 0"
  shows "fst (apic_get C f m) = stored_field R0 f m"
proof -
  let ?a = "apic m + member_reg f"
  have "dev_load (c_device C) (m_trace m) ?a AND writable (member_reg f) =
      mmio_after R0 (m_trace m) ?a AND writable (member_reg f)"
    using assms(1) by (simp only: apic_at_def)
  from get_bits_agree [OF this assms(2) [unfolded field_mask_def]] show ?thesis
    by (simp add: apic_get_def machine_ops stored_field_def Let_def)
qed

lemma programmed_loads:
  assumes "apic_at C R0 (apic m)"
  shows "map (\<lambda>f. fst (apic_get C f m)) programmed = map (\<lambda>f. stored_field R0 f m) programmed"
proof (intro map_cong refl load_stored [OF assms])
  fix f assume "f \<in> set programmed"
  then show "field_mask f AND NOT (writable (member_reg f)) = 0"
    using programmed_kept [of f] by (auto simp: kept_def programmed_def)
qed

lemma divisor_load:
  assumes "apic_at C R0 (apic m)"
  shows "fst (apic_get C divisor m) AND 0xB = stored_field R0 divisor m AND 0xB"
proof -
  have r: "member_reg divisor = 0x3E0" "member_shift divisor = 0" "member_width divisor = 4"
    by (simp_all add: member_reg_def member_shift_def member_width_def member_at_def found_members)
  have "dev_load (c_device C) (m_trace m) (apic m + 0x3E0) AND writable 0x3E0 =
      mmio_after R0 (m_trace m) (apic m + 0x3E0) AND writable 0x3E0"
    using assms by (simp only: apic_at_def)
  then have "dev_load (c_device C) (m_trace m) (apic m + 0x3E0) AND 0xB =
      mmio_after R0 (m_trace m) (apic m + 0x3E0) AND 0xB"
    by (simp add: writable_def)
  then show ?thesis
    by (simp add: apic_get_def machine_ops stored_field_def get_bits_def r Let_def and.assoc mask_eq_exp_minus_1)
qed

section \<open>What the operations leave alone\<close>

definition apic_event :: "io_event \<Rightarrow> bool" where
  "apic_event e \<longleftrightarrow> (case e of MmioLoad _ _ \<Rightarrow> True | MmioStore _ _ \<Rightarrow> True | WrMsr _ _ _ \<Rightarrow> True
     | RdMsr _ _ _ \<Rightarrow> True | Cpuid _ \<Rightarrow> True | Invlpg _ \<Rightarrow> True | _ \<Rightarrow> False)"

lemma apic_set_does: "does apic_event [] m (apic_set C f v m)"
proof (cases "member_width f = 32")
  case True
  then show ?thesis
    using does_events [of apic_event "[MmioStore (apic m + member_reg f) v]" m]
    by (simp add: apic_set_def machine_ops apic_event_def)
next
  case False
  let ?w = "dev_load (c_device C) (m_trace m) (apic m + member_reg f)"
  from False show ?thesis
    using does_events [of apic_event "[MmioStore (apic m + member_reg f)
        (set_bits (member_shift f) (member_width f) v ?w), MmioLoad (apic m + member_reg f) ?w]" m]
    by (simp add: apic_set_def machine_ops apic_event_def Let_def)
qed

lemma apic_get_does: "does apic_event [] m (snd (apic_get C f m))"
  using does_events [of apic_event "[MmioLoad (apic m + member_reg f)
      (dev_load (c_device C) (m_trace m) (apic m + member_reg f))]" m]
  by (simp add: apic_get_def machine_ops Let_def apic_event_def)

lemma apic_assign_does: "does apic_event [] m (apic_assign C fvs m)"
proof (induction fvs arbitrary: m)
  case Nil
  show ?case by (simp add: apic_assign_def does_refl)
next
  case (Cons fv fvs)
  obtain f v where "fv = (f, v)" by fastforce
  with does_trans [OF apic_set_does Cons.IH, of m C f v] show ?case
    by (simp add: apic_assign_def)
qed

lemma does_then: "does ok bs m n \<Longrightarrow> does ok [] n n' \<Longrightarrow> does ok bs m n'"
  using does_trans by force

lemma apic_program_does: "\<exists>bs. does apic_event bs m (apic_program C msr m)"
proof -
  have w: "does apic_event [] n (m_do (wrmsr a v) n)" for a v n
    using does_events [of apic_event "wrmsr a v []" n]
    by (simp add: m_do_def wrmsr_def apic_event_def Let_def)
  show ?thesis
    unfolding apic_program_def Let_def case_prod_beta'
    by (rule exI) (rule does_then [OF _ apic_assign_does] does_then [OF _ w]
        does_then [OF _ apic_get_does] does_print does_refl)+
qed

text \<open>\<open>apic_init\<close> is defined as long as a page is left, and changes the terminal, the
  mappings and the pointer.\<close>

lemma apic_init_defined:
  assumes "aligned_image (c_pages C)" and "paging_ok (c_pages C) (m_paging m)"
    and "unat (nMiscIndex (m_paging m)) < 1024"
  shows "\<exists>bs evs p pg. list_all apic_event evs \<and> paging_ok (c_pages C) pg
    \<and> apic_init C m = Some (m\<lparr>m_terminal := terminal_putbytes bs (m_terminal m),
         m_trace := evs @ m_trace m, apic := p, m_paging := pg\<rparr>)"
proof -
  define m1 where "m1 = (m_puts (nl ''APIC_INIT.'') m)\<lparr>apic := 0\<rparr>"
  obtain av m2 where av: "m_apic_is_available C m1 = (av, m2)" by fastforce
  have "does apic_event [] m1 (snd (m_apic_is_available C m1))"
    using does_events [of apic_event "[Cpuid 1]" m1] does_refl
    by (simp add: m_apic_is_available_def m_ask_def apic_is_available_def cpuid_test_feature_def
        apic_event_def case_prod_beta' Let_def)
  then have d2: "does apic_event [] m1 m2" by (simp add: av)
  define ask where "ask = m_ask (rdmsr (c_device C) APIC_MSR) m2"
  define base where "base = (ucast (fst ask AND 0xFFFFF000) :: u32)"
  define m3 where "m3 = m_putchar 0x0A (m_hex base (m_puts ''APIC Base Address: '' (snd ask)))"
  have "does apic_event [] m2 (snd ask)"
    unfolding ask_def m_ask_def rdmsr_def Let_def case_prod_beta'
    using does_events [of apic_event "[RdMsr APIC_MSR (fst (dev_rdmsr (c_device C) (m_trace m2) APIC_MSR))
        (snd (dev_rdmsr (c_device C) (m_trace m2) APIC_MSR))]" m2]
    by (simp add: apic_event_def)
  then have "\<exists>bs. does apic_event bs m1 m3"
    unfolding m3_def by (intro exI) (rule does_print does_then [OF d2] | assumption)+
  then obtain bs3 evs3 where e3: "list_all apic_event evs3"
      and m3: "m3 = m1\<lparr>m_terminal := terminal_putbytes bs3 (m_terminal m1), m_trace := evs3 @ m_trace m1\<rparr>"
    unfolding does_def by blast
  obtain bs2 evs2 where e2: "list_all apic_event evs2"
      and m2: "m2 = m1\<lparr>m_terminal := terminal_putbytes bs2 (m_terminal m1), m_trace := evs2 @ m_trace m1\<rparr>"
    using d2 unfolding does_def by blast
  have pg3: "m_paging m3 = m_paging m" by (simp add: m3 m1_def)
  have flags: "PAGING_READWRITE OR PAGING_CACHE_DISABLE < 0x1000"
    by (simp add: PAGING_READWRITE_def PAGING_CACHE_DISABLE_def)
  obtain virt pg' where map: "paging_map base (PAGING_READWRITE OR PAGING_CACHE_DISABLE)
        (m_paging m3, m_trace m3) = Some (virt, pg', Invlpg virt # m_trace m3)"
      and ok: "paging_ok (c_pages C) pg'"
    by (rule mapped_page [OF assms(1) assms(2) [folded pg3] assms(3) [folded pg3] flags]) blast
  define m4 where "m4 = m3\<lparr>m_paging := pg', m_trace := Invlpg virt # m_trace m3, apic := virt\<rparr>"
  have map3: "m_paging_map base (PAGING_READWRITE OR PAGING_CACHE_DISABLE) m3 =
      Some (virt, m3\<lparr>m_paging := pg', m_trace := Invlpg virt # m_trace m3\<rparr>)"
    by (simp add: m_paging_map_def map)
  have run: "apic_init C m = (if av then Some (apic_program C (fst ask) m4) else Some m2)"
    unfolding apic_init_def Let_def case_prod_beta' m1_def [symmetric] av fst_conv snd_conv
      ask_def [symmetric] base_def [symmetric] m3_def [symmetric] map3
    by (simp add: m4_def)
  obtain bs5 evs5 where e5: "list_all apic_event evs5" and m5: "apic_program C (fst ask) m4 =
      m4\<lparr>m_terminal := terminal_putbytes bs5 (m_terminal m4), m_trace := evs5 @ m_trace m4\<rparr>"
    using apic_program_does [of m4 C "fst ask"] unfolding does_def by blast
  have result: ?thesis if "list_all apic_event evs" and "paging_ok (c_pages C) pg"
      and "apic_init C m = Some (m\<lparr>m_terminal := terminal_putbytes bs (m_terminal m),
         m_trace := evs @ m_trace m, apic := p, m_paging := pg\<rparr>)" for bs evs p pg
    using that by blast
  show ?thesis
  proof (cases av)
    case True
    have "apic_program C (fst ask) m4 = m\<lparr>m_terminal := terminal_putbytes
        (literal_bytes (nl ''APIC_INIT.'') @ bs3 @ bs5) (m_terminal m),
        m_trace := (evs5 @ Invlpg virt # evs3) @ m_trace m, apic := virt, m_paging := pg'\<rparr>"
      unfolding m5 unfolding m4_def m3 m1_def m_puts_def terminal_puts_def by simp
    then show ?thesis
      by (intro result [OF _ ok, where evs = "evs5 @ Invlpg virt # evs3"
            and bs = "literal_bytes (nl ''APIC_INIT.'') @ bs3 @ bs5" and p = virt])
        (use e3 e5 True run in \<open>simp_all add: apic_event_def\<close>)
  next
    case False
    have "m2 = m\<lparr>m_terminal := terminal_putbytes
        (literal_bytes (nl ''APIC_INIT.'') @ bs2) (m_terminal m),
        m_trace := evs2 @ m_trace m, apic := 0, m_paging := m_paging m\<rparr>"
      unfolding m2 unfolding m1_def m_puts_def terminal_puts_def by simp
    then show ?thesis
      by (intro result [OF e2 assms(2), where p = 0
            and bs = "literal_bytes (nl ''APIC_INIT.'') @ bs2"])
        (use False run in simp)
  qed
qed

section \<open>Properties\<close>

definition demo_apic_config :: config where
  "demo_apic_config = \<lparr>c_image = demo_image, c_pages = demo_page_image, i686_USE_APIC = True,
     c_device = demo_device\<lparr>dev_load := mmio_after (\<lambda>_. 0)\<rparr>\<rparr>"

text \<open>
  C27. Every member of \<open>local_apic_t\<close> is the field of the manual with its name, for any address
  of the structure and any contents. Reading a member loads the register at its offset and
  takes its bits; assigning to it stores in that register a value with those bits replaced and
  the others as they were loaded. The structure is 0x400 bytes long.
\<close>

theorem local_apic_t_layout:
  assumes "real_member f" and "manual_field f = (offset, low, width)"
    and "w = dev_load (c_device C) (m_trace m) (apic m + of_nat offset)"
  shows "apic_get C f m =
      (drop_bit low w AND mask width, m\<lparr>m_trace := MmioLoad (apic m + of_nat offset) w # m_trace m\<rparr>)
    \<and> (\<exists>w' evs. apic_set C f v m =
          m\<lparr>m_trace := MmioStore (apic m + of_nat offset) w' # evs @ m_trace m\<rparr>
        \<and> evs = (if width = 32 then [] else [MmioLoad (apic m + of_nat offset) w])
        \<and> (\<forall>i < 32. bit w' i \<longleftrightarrow>
            (if low \<le> i \<and> i < low + width then bit v (i - low) else bit w i)))
    \<and> sum_list (map snd local_apic_t) = 8 * 0x400"
proof -
  note a = member_manual [OF assms(1,2)] and u = manual_field_unit [OF assms(1,2)]
  have get: "apic_get C f m =
      (drop_bit low w AND mask width, m\<lparr>m_trace := MmioLoad (apic m + of_nat offset) w # m_trace m\<rparr>)"
    by (simp add: apic_get_def a get_bits_def mmio_load_def m_ask_def assms(3) Let_def)
  have "\<exists>w' evs. apic_set C f v m =
          m\<lparr>m_trace := MmioStore (apic m + of_nat offset) w' # evs @ m_trace m\<rparr>
        \<and> evs = (if width = 32 then [] else [MmioLoad (apic m + of_nat offset) w])
        \<and> (\<forall>i < 32. bit w' i \<longleftrightarrow>
            (if low \<le> i \<and> i < low + width then bit v (i - low) else bit w i))"
  proof (cases "width = 32")
    case True
    then show ?thesis
      using u(5) by (intro exI [of _ v] exI [of _ "[]"]) (simp add: apic_set_def a machine_ops)
  next
    case False
    have "bit (set_bits low width v w) i \<longleftrightarrow>
        (if low \<le> i \<and> i < low + width then bit v (i - low) else bit w i)" if "i < 32" for i
      using that by (auto simp: set_bits_def bit_simps)
    with False show ?thesis
      by (intro exI [of _ "set_bits low width v w"] exI [of _ "[MmioLoad (apic m + of_nat offset) w]"])
        (simp add: apic_set_def a machine_ops assms(3) Let_def)
  qed
  with get show ?thesis by (simp only: size_local_apic_t simp_thms)
qed

theorem local_apic_t_layout_witness:
  "fst (apic_get demo_apic_config enabled (demo_machine\<lparr>apic := 0xC0400000,
      m_trace := [MmioStore 0xC04000F0 0x1FF]\<rparr>)) = 1"
  using local_apic_t_layout [of enabled "0xF0" 8 1 _ demo_apic_config "demo_machine\<lparr>apic := 0xC0400000,
      m_trace := [MmioStore 0xC04000F0 0x1FF]\<rparr>", OF _ _ refl]
  by (simp add: real_member_def demo_apic_config_def)



end
