(* ===== verification/Irq.thy ===== *)
theory Irq
  imports Apic
begin

text \<open>
  Interrupts: the handler table and the C entry points of src/src/sys/arch/i686/irq.c, the
  argument structure of isr.h, and the assembly stubs of isr.s as lists of instructions over
  a processor state. A handler of the table is called through a parameter, the function
  that runs it; Kernel.thy supplies it.
\<close>

section \<open>Arguments and outcomes\<close>

record isr_args_t =
  a_ds :: u32
  a_edi :: u32
  a_esi :: u32
  a_ebp :: u32
  a_esp :: u32
  arg2 :: u32
  arg4 :: u32
  arg3 :: u32
  arg1 :: u32
  interrupt_id :: u32
  error_code :: u32
  a_eip :: u32
  a_cs :: u32
  a_eflags :: u32
  a_useresp :: u32
  a_ss :: u32

text \<open>A handler returns, or stays in \<open>while (1)\<close> for ever.\<close>

datatype outcome = Returned machine | Hung machine

primrec final :: "outcome \<Rightarrow> machine" where
  "final (Returned m) = m"
| "final (Hung m) = m"

section \<open>irq.c\<close>

definition isr_init :: "machine \<Rightarrow> machine option" where
  "isr_init m = for_each (\<lambda>i m. do {
     hs \<leftarrow> array_put i None (handlers m);
     Some (m\<lparr>handlers := hs\<rparr>)
   }) [0..<256] m"

definition isr_set_handler :: "u8 \<Rightarrow> handler \<Rightarrow> machine \<Rightarrow> machine option" where
  "isr_set_handler num h m = do {
     hs \<leftarrow> array_put (unat num) (Some h) (handlers m);
     Some (m\<lparr>handlers := hs\<rparr>)
   }"

definition unhandled_interrupt :: "isr_args_t \<Rightarrow> machine \<Rightarrow> machine" where
  "unhandled_interrupt args m =
     (let m = m_puts ''Unhandled interrupt. Type = '' m;
          m = m_hexdigits (ucast (interrupt_id args)) m
      in m_putchar 0x0A m)"

text \<open>The body of \<open>isr_handler\<close>, which the two other entry points repeat.\<close>

definition isr_handler ::
  "(handler \<Rightarrow> isr_args_t \<Rightarrow> machine \<Rightarrow> outcome) \<Rightarrow> isr_args_t \<Rightarrow> machine \<Rightarrow> outcome option" where
  "isr_handler call args m =
     (if unat (interrupt_id args) < length (handlers m) then
        case handlers m ! unat (interrupt_id args) of
          Some h \<Rightarrow> Some (call h args m)
        | None \<Rightarrow> Some (Returned (unhandled_interrupt args m))
      else None)"

definition irq_handler_pic ::
  "(handler \<Rightarrow> isr_args_t \<Rightarrow> machine \<Rightarrow> outcome) \<Rightarrow> isr_args_t \<Rightarrow> machine \<Rightarrow> outcome option" where
  "irq_handler_pic call args m =
     (let m = (if unat (interrupt_id args) \<ge> IRQ 8 then m_outb PIC2_CMD PIC_CMD_RESET m else m);
          m = m_outb PIC1_CMD PIC_CMD_RESET m
      in if unat (interrupt_id args) < length (handlers m) then
        case handlers m ! unat (interrupt_id args) of
          Some h \<Rightarrow> Some (call h args m)
        | None \<Rightarrow> Some (Returned (unhandled_interrupt args m))
      else None)"

definition irq_handler_apic ::
  "(handler \<Rightarrow> isr_args_t \<Rightarrow> machine \<Rightarrow> outcome) \<Rightarrow> isr_args_t \<Rightarrow> machine \<Rightarrow> outcome option" where
  "irq_handler_apic call args m =
     (if unat (interrupt_id args) < length (handlers m) then
        case handlers m ! unat (interrupt_id args) of
          Some h \<Rightarrow> Some (call h args m)
        | None \<Rightarrow> Some (Returned (unhandled_interrupt args m))
      else None)"

text \<open>On a table of 256 entries neither leaves it.\<close>

lemma isr_init_fold:
  assumes "n \<le> length (handlers m)"
  shows "fold (\<lambda>i m. m\<lparr>handlers := (handlers m)[i := None]\<rparr>) [0..<n] m =
    m\<lparr>handlers := map (\<lambda>_. None) [0..<n] @ drop n (handlers m)\<rparr>"
  using assms
proof (induction n)
  case 0
  then show ?case by simp
next
  case (Suc n)
  then show ?case
    using update_prefix [of n "handlers m" "\<lambda>_. None"] by simp
qed

lemma isr_init_result:
  assumes "length (handlers m) = 256"
  shows "isr_init m = Some (m\<lparr>handlers := replicate 256 None\<rparr>)"
proof -
  have "isr_init m = Some (fold (\<lambda>i m. m\<lparr>handlers := (handlers m)[i := None]\<rparr>) [0..<256] m)"
    unfolding isr_init_def
    by (rule for_each_fold [where ok = "\<lambda>m. length (handlers m) = 256"])
      (auto simp: assms array_put_def)
  then show ?thesis
    using isr_init_fold [of 256 m] assms by (simp add: map_replicate_const del: upt_Suc)
qed

lemma isr_set_handler_result:
  assumes "length (handlers m) = 256"
  shows "isr_set_handler num h m = Some (m\<lparr>handlers := (handlers m)[unat num := Some h]\<rparr>)"
  using assms unat_less_of(1) [of num] by (simp add: isr_set_handler_def array_put_def)

section \<open>isr.s\<close>

text \<open>
  The processor: the registers and the words on the stack, the top first. \<open>useresp\<close> and
  \<open>ss\<close> of the arguments are what lies above the frame: with no change of privilege
  level they belong to the code that was interrupted.
\<close>

record cpu =
  eax :: u32
  ebx :: u32
  ecx :: u32
  edx :: u32
  esi :: u32
  edi :: u32
  ebp :: u32
  r_ds :: u16
  r_es :: u16
  r_fs :: u16
  r_gs :: u16
  eip :: u32
  r_cs :: u16
  eflags :: u32
  stack :: "u32 list"

datatype segment_register = DS | ES | FS | GS

datatype c_entry = C_isr_handler | C_irq_handler_pic | C_irq_handler_apic

datatype instr =
    cli | sti | pushl u32 | pusha | popa
  | movw_ds_ax | movw_imm_ax u16 | movw_ax segment_register
  | pushl_eax | popl_eax | call c_entry | addl_esp nat | iret

definition ISR_NO_ERRORCODE :: "u32 \<Rightarrow> instr list" where
  "ISR_NO_ERRORCODE n = [cli, pushl 0, pushl n]"

definition ISR_ERRORCODE :: "u32 \<Rightarrow> instr list" where
  "ISR_ERRORCODE n = [cli, pushl n]"

definition load_segments :: "instr list" where
  "load_segments = [movw_ax DS, movw_ax ES, movw_ax FS, movw_ax GS]"

text \<open>\<open>isr_common\<close>, \<open>irq_common_pic\<close> and \<open>irq_common_apic\<close>.\<close>

definition common_code :: "c_entry \<Rightarrow> instr list" where
  "common_code f =
     [pusha, movw_ds_ax, pushl_eax, movw_imm_ax 0x10] @ load_segments @
     [call f, popl_eax] @ load_segments @ [popa, addl_esp 8, sti, iret]"

text \<open>The code from an entry point on; the jump to the common part is the append.\<close>

definition isr_ids_error :: "nat list" where
  "isr_ids_error = [8, 10, 11, 12, 13, 14]"

primrec stub_code :: "stub \<Rightarrow> instr list" where
  "stub_code (Isr n) =
     (if n \<in> set isr_ids_error then ISR_ERRORCODE (of_nat n) else ISR_NO_ERRORCODE (of_nat n))
     @ common_code C_isr_handler"
| "stub_code (Irq n) = [cli, pushl 0, pushl (of_nat (IRQ n))] @ common_code C_irq_handler_pic"
| "stub_code (Irq_a n) = [cli, pushl 0, pushl (of_nat (IRQ n))] @ common_code C_irq_handler_apic"

definition low16 :: "u32 \<Rightarrow> u16 \<Rightarrow> u32" where
  "low16 r w = (r AND NOT (mask 16)) OR ucast w"

primrec set_segment :: "segment_register \<Rightarrow> u16 \<Rightarrow> cpu \<Rightarrow> cpu" where
  "set_segment DS w c = c\<lparr>r_ds := w\<rparr>"
| "set_segment ES w c = c\<lparr>r_es := w\<rparr>"
| "set_segment FS w c = c\<lparr>r_fs := w\<rparr>"
| "set_segment GS w c = c\<lparr>r_gs := w\<rparr>"

definition args_of_stack :: "u32 list \<Rightarrow> isr_args_t" where
  "args_of_stack s =
     \<lparr>a_ds = s ! 0, a_edi = s ! 1, a_esi = s ! 2, a_ebp = s ! 3, a_esp = s ! 4, arg2 = s ! 5,
      arg4 = s ! 6, arg3 = s ! 7, arg1 = s ! 8, interrupt_id = s ! 9, error_code = s ! 10,
      a_eip = s ! 11, a_cs = s ! 12, a_eflags = s ! 13, a_useresp = s ! 14, a_ss = s ! 15\<rparr>"

text \<open>
  One instruction; \<open>stack_base\<close> is the address of the empty stack. \<open>pusha\<close> pushes the stack
  pointer as it was before, and \<open>popa\<close> skips that word. \<open>None\<close>: the stack is too short, or
  \<open>iret\<close> would go to another privilege level. Of the processor's other checks on the code
  segment that \<open>iret\<close> loads, on the null selector and on the descriptor, nothing is modelled: in
  the property below the selector is the one of the code that was interrupted, which was in
  use a moment before.
\<close>

definition interrupt_flag :: u32 where "interrupt_flag = 2 ^ 9"

fun exec_instr :: "u32 \<Rightarrow> instr \<Rightarrow> cpu \<Rightarrow> cpu option" where
  "exec_instr stack_base cli c = Some (c\<lparr>eflags := eflags c AND NOT interrupt_flag\<rparr>)"
| "exec_instr stack_base sti c = Some (c\<lparr>eflags := eflags c OR interrupt_flag\<rparr>)"
| "exec_instr stack_base (pushl w) c = Some (c\<lparr>stack := w # stack c\<rparr>)"
| "exec_instr stack_base pusha c =
     Some (c\<lparr>stack := [edi c, esi c, ebp c, stack_base - 4 * of_nat (length (stack c)), ebx c, edx c,
       ecx c, eax c] @ stack c\<rparr>)"
| "exec_instr stack_base popa c = (case stack c of
     di # si # bp # _ # b # d # cx # a # st \<Rightarrow>
       Some (c\<lparr>edi := di, esi := si, ebp := bp, ebx := b, edx := d, ecx := cx, eax := a, stack := st\<rparr>)
   | _ \<Rightarrow> None)"
| "exec_instr stack_base movw_ds_ax c = Some (c\<lparr>eax := low16 (eax c) (r_ds c)\<rparr>)"
| "exec_instr stack_base (movw_imm_ax w) c = Some (c\<lparr>eax := low16 (eax c) w\<rparr>)"
| "exec_instr stack_base (movw_ax r) c = Some (set_segment r (ucast (eax c)) c)"
| "exec_instr stack_base pushl_eax c = Some (c\<lparr>stack := eax c # stack c\<rparr>)"
| "exec_instr stack_base popl_eax c = (case stack c of
     w # st \<Rightarrow> Some (c\<lparr>eax := w, stack := st\<rparr>) | [] \<Rightarrow> None)"
| "exec_instr stack_base (addl_esp n) c =
     (if n div 4 \<le> length (stack c) then Some (c\<lparr>stack := drop (n div 4) (stack c)\<rparr>) else None)"
| "exec_instr stack_base iret c = (case stack c of
     ip # s # fl # st \<Rightarrow>
       if ucast s AND 3 = r_cs c AND 3
       then Some (c\<lparr>eip := ip, r_cs := ucast s, eflags := fl, stack := st\<rparr>) else None
   | _ \<Rightarrow> None)"
| "exec_instr stack_base (call f) c = None"

text \<open>
  A list of instructions with the machine. A call runs a C function on the arguments on
  the stack; it may change the registers that the calling convention does not preserve, so
  what it leaves in them is a parameter.
\<close>

datatype run = Runs cpu machine | Stops machine

fun exec :: "u32 \<Rightarrow> (c_entry \<Rightarrow> isr_args_t \<Rightarrow> machine \<Rightarrow> outcome option) \<Rightarrow>
    (machine \<Rightarrow> u32 \<times> u32 \<times> u32) \<Rightarrow> instr list \<Rightarrow> cpu \<Rightarrow> machine \<Rightarrow> run option" where
  "exec stack_base enter clobber [] c m = Some (Runs c m)"
| "exec stack_base enter clobber (call f # is) c m =
     (if length (stack c) < 16 then None
      else case enter f (args_of_stack (stack c)) m of
        None \<Rightarrow> None
      | Some (Hung m) \<Rightarrow> Some (Stops m)
      | Some (Returned m) \<Rightarrow>
          let (a, cx, d) = clobber m in exec stack_base enter clobber is (c\<lparr>eax := a, ecx := cx, edx := d\<rparr>) m)"
| "exec stack_base enter clobber (i # is) c m = (case exec_instr stack_base i c of
     None \<Rightarrow> None | Some c \<Rightarrow> exec stack_base enter clobber is c m)"

definition c_call ::
  "(handler \<Rightarrow> isr_args_t \<Rightarrow> machine \<Rightarrow> outcome) \<Rightarrow> c_entry \<Rightarrow> isr_args_t \<Rightarrow> machine \<Rightarrow> outcome option" where
  "c_call run f = (case f of
     C_isr_handler \<Rightarrow> isr_handler run
   | C_irq_handler_pic \<Rightarrow> irq_handler_pic run
   | C_irq_handler_apic \<Rightarrow> irq_handler_apic run)"

section \<open>Interrupt delivery\<close>

text \<open>
  What the processor does for an interrupt gate with no change of privilege: it pushes
  the flags, the code segment and the instruction pointer, for some exceptions an error
  code too, and clears the interrupt flag.
\<close>

definition has_error_code :: "nat \<Rightarrow> bool" where
  "has_error_code v \<longleftrightarrow> v \<in> set [8, 10, 11, 12, 13, 14, 17]"

definition deliver :: "u32 option \<Rightarrow> cpu \<Rightarrow> cpu" where
  "deliver e c = c\<lparr>stack := (case e of Some w \<Rightarrow> [w] | None \<Rightarrow> []) @
       [eip c, ucast (r_cs c), eflags c] @ stack c,
     eflags := eflags c AND NOT interrupt_flag\<rparr>"

text \<open>The arguments a handler should get for vector \<open>v\<close> with error code \<open>w\<close>.\<close>

definition frame :: "u32 \<Rightarrow> nat \<Rightarrow> u32 \<Rightarrow> cpu \<Rightarrow> isr_args_t" where
  "frame stack_base v w c =
     \<lparr>a_ds = low16 (eax c) (r_ds c), a_edi = edi c, a_esi = esi c, a_ebp = ebp c,
      a_esp = stack_base - 4 * of_nat (length (stack c) + 5), arg2 = ebx c,
      arg4 = edx c, arg3 = ecx c, arg1 = eax c, interrupt_id = of_nat v, error_code = w,
      a_eip = eip c, a_cs = ucast (r_cs c), a_eflags = eflags c,
      a_useresp = stack c ! 0, a_ss = stack c ! 1\<rparr>"

lemma ucast_low16: "ucast (low16 r w) = w"
  unfolding low16_def by (rule bit_word_eqI) (auto simp: bit_simps)

lemma ucast_u16_u32: "ucast (ucast (w :: u16) :: u32) = w"
  by (rule bit_word_eqI) (auto simp: bit_simps dest: bit_imp_le_length)

lemma common_runs:
  assumes "stack c = n # w # ip # s # fl # a # b # rest" and "ucast s = r_cs c"
  shows "exec stack_base enter clobber (common_code f) c m =
    (case enter f \<lparr>a_ds = low16 (eax c) (r_ds c), a_edi = edi c, a_esi = esi c, a_ebp = ebp c,
        a_esp = stack_base - 4 * of_nat (length (stack c)), arg2 = ebx c, arg4 = edx c, arg3 = ecx c,
        arg1 = eax c, interrupt_id = n, error_code = w, a_eip = ip, a_cs = s, a_eflags = fl,
        a_useresp = a, a_ss = b\<rparr> m of
      None \<Rightarrow> None
    | Some (Hung m) \<Rightarrow> Some (Stops m)
    | Some (Returned m) \<Rightarrow> Some (Runs (c\<lparr>eip := ip, r_cs := ucast s, eflags := fl, r_es := r_ds c,
        r_fs := r_ds c, r_gs := r_ds c, stack := a # b # rest\<rparr>) m))"
  using assms
  by (cases c) (simp add: common_code_def load_segments_def args_of_stack_def ucast_low16
      split: option.split outcome.split prod.split)

definition vector_entry :: "bool \<Rightarrow> nat \<Rightarrow> c_entry" where
  "vector_entry use_apic v =
     (if v < 32 then C_isr_handler else if use_apic then C_irq_handler_apic else C_irq_handler_pic)"

lemma stub_prefix:
  assumes "v < 48" and "v \<noteq> 17" and "e \<noteq> None \<longleftrightarrow> has_error_code v"
  shows "exec stack_base enter clobber (stub_code (vector_stub use_apic v)) (deliver e c) m =
    exec stack_base enter clobber (common_code (vector_entry use_apic v))
      (c\<lparr>eflags := eflags c AND NOT interrupt_flag,
         stack := [of_nat v, case e of Some w \<Rightarrow> w | None \<Rightarrow> 0, eip c, ucast (r_cs c), eflags c] @ stack c\<rparr>) m"
proof -
  have code: "stub_code (vector_stub use_apic v) =
      (if has_error_code v then [cli, pushl (of_nat v)] else [cli, pushl 0, pushl (of_nat v)])
      @ common_code (vector_entry use_apic v)"
    using assms(1,2)
    by (auto simp: vector_stub_def vector_entry_def has_error_code_def isr_ids_error_def IRQ_def
        ISR_ERRORCODE_def ISR_NO_ERRORCODE_def)
  show ?thesis
    using assms(3) unfolding code by (cases e) (auto simp: deliver_def)
qed

lemma stub_runs:
  assumes "v < 48" and "v \<noteq> 17" and "e \<noteq> None \<longleftrightarrow> has_error_code v" and "stack c = a # b # rest"
  shows "exec stack_base enter clobber (stub_code (vector_stub use_apic v)) (deliver e c) m =
    (case enter (vector_entry use_apic v) (frame stack_base v (case e of Some w \<Rightarrow> w | None \<Rightarrow> 0) c) m of
      None \<Rightarrow> None
    | Some (Hung m') \<Rightarrow> Some (Stops m')
    | Some (Returned m') \<Rightarrow> Some (Runs (c\<lparr>r_es := r_ds c, r_fs := r_ds c, r_gs := r_ds c\<rparr>) m'))"
proof -
  have c: "ucast (ucast (r_cs c) :: u32) = r_cs c" by (rule ucast_u16_u32)
  show ?thesis
    unfolding stub_prefix [OF assms(1-3)]
    by (subst common_runs) (use assms(4) in \<open>auto simp: c frame_def split: option.split outcome.split\<close>)
qed

section \<open>What every entry point keeps\<close>

text \<open>
  The entry points differ in what they tell the controllers. The contract between them
  and the handlers they call: \<open>good\<close> is a condition
  on the state that the handlers keep, and that printing and port output keep.
\<close>

lemma irq_handler_pic_isr:
  "irq_handler_pic run args m = isr_handler run args
     (m_outb PIC1_CMD PIC_CMD_RESET
       (if unat (interrupt_id args) \<ge> IRQ 8 then m_outb PIC2_CMD PIC_CMD_RESET m else m))"
  by (simp only: irq_handler_pic_def isr_handler_def Let_def)

lemma irq_handler_apic_isr: "irq_handler_apic run args m = isr_handler run args m"
  by (simp only: irq_handler_apic_def isr_handler_def)

locale handler_calls =
  fixes run_handler :: "handler \<Rightarrow> isr_args_t \<Rightarrow> machine \<Rightarrow> outcome" and good :: "machine \<Rightarrow> bool"
  assumes good_handler: "good m \<Longrightarrow> good (final (run_handler h args m))"
    and good_unhandled: "good m \<Longrightarrow> good (unhandled_interrupt args m)"
    and good_outb: "good m \<Longrightarrow> good (m_outb port val m)"
    and good_table: "good m \<Longrightarrow> length (handlers m) = 256"
begin

lemma isr_handler_good:
  assumes "good m" and "unat (interrupt_id args) < 256"
  shows "\<exists>out. isr_handler run_handler args m = Some out \<and> good (final out)"
  using assms good_handler good_unhandled
  by (auto simp: isr_handler_def good_table split: option.split)

lemma c_call_good:
  assumes "good m" and "unat (interrupt_id args) < 256"
  shows "\<exists>out. c_call run_handler f args m = Some out \<and> good (final out)"
proof -
  have g: "good (m_outb PIC1_CMD PIC_CMD_RESET m)"
      "good (m_outb PIC1_CMD PIC_CMD_RESET (m_outb PIC2_CMD PIC_CMD_RESET m))"
    using assms(1) good_outb by blast+
  then show ?thesis
    using isr_handler_good [OF _ assms(2)] assms(1)
    by (cases f) (simp_all add: c_call_def irq_handler_pic_isr irq_handler_apic_isr)
qed

end

section \<open>In-service lines of the 8259s\<close>

text \<open>
  The lines a controller has acknowledged and not yet been told to end, the one of highest
  priority first; a non-specific end of interrupt (0x20 to the command port) ends that one.
\<close>

fun in_service :: "u16 \<Rightarrow> nat list \<Rightarrow> trace \<Rightarrow> nat list" where
  "in_service cmd s [] = s"
| "in_service cmd s (OutB port v # tr) =
     (let s' = in_service cmd s tr in if port = cmd \<and> v = 0x20 then drop 1 s' else s')"
| "in_service cmd s (_ # tr) = in_service cmd s tr"

section \<open>Properties\<close>

text \<open>
  C4. For every vector the kernel installs but 17, the assembly stub hands the C entry
  point the true vector number, error code, instruction pointer, flags and registers of
  the interrupted code, and when the handler returns the interrupted code goes on with its
  registers, stack, instruction pointer, code segment and flags as they were; \<open>es\<close>,
  \<open>fs\<close> and \<open>gs\<close> come back as copies of \<open>ds\<close>.
\<close>

theorem interrupt_transparent:
  assumes "v < 48" and "v \<noteq> 17" and "e \<noteq> None \<longleftrightarrow> has_error_code v" and "stack c = a # b # rest"
  shows "exec stack_base enter clobber (stub_code (vector_stub use_apic v)) (deliver e c) m =
    (case enter (vector_entry use_apic v) (frame stack_base v (case e of Some w \<Rightarrow> w | None \<Rightarrow> 0) c) m of
      None \<Rightarrow> None
    | Some (Hung m') \<Rightarrow> Some (Stops m')
    | Some (Returned m') \<Rightarrow> Some (Runs (c\<lparr>r_es := r_ds c, r_fs := r_ds c, r_gs := r_ds c\<rparr>) m'))"
  by (rule stub_runs [OF assms])

definition demo_cpu :: cpu where
  "demo_cpu = \<lparr>eax = 1, ebx = 2, ecx = 3, edx = 4, esi = 5, edi = 6, ebp = 7, r_ds = 0x10, r_es = 0x10,
     r_fs = 0x10, r_gs = 0x10, eip = 0xC0100123, r_cs = 0x08, eflags = 0x202, stack = [11, 12]\<rparr>"

theorem interrupt_transparent_witness:
  "exec 0xC0110000 (c_call (\<lambda>h args m. Returned m)) (\<lambda>m. (0, 0, 0)) (stub_code (vector_stub False 33))
     (deliver None demo_cpu) demo_machine =
   Some (Runs demo_cpu (unhandled_interrupt (frame 0xC0110000 33 0 demo_cpu)
     (m_outb PIC1_CMD PIC_CMD_RESET demo_machine)))"
  using interrupt_transparent [of 33 None demo_cpu 11 12 "[]" "0xC0110000"
      "c_call (\<lambda>h args m. Returned m)" "\<lambda>m. (0, 0, 0)" False demo_machine]
  by (simp add: has_error_code_def demo_cpu_def vector_entry_def c_call_def irq_handler_pic_def IRQ_def
      frame_def demo_machine_def machine_ops outb_def)

text \<open>
  C21. For a line \<open>n\<close> of the 8259s, the entry point used without an APIC ends exactly the
  interrupt being served before it runs the handler, on the second controller and on the
  cascade line of the first for lines from 8 on. The entry point used with an APIC ends
  nothing: a line of the 8259s stays in service.
\<close>

theorem irq_handlers_acknowledge:
  assumes "n < 16" and "interrupt_id args = of_nat (IRQ n)"
  shows "\<exists>evs. irq_handler_pic run args m = isr_handler run args (m\<lparr>m_trace := evs @ m_trace m\<rparr>)
      \<and> in_service PIC1_CMD (if n < 8 then n # s1 else 2 # s1) evs = s1
      \<and> in_service PIC2_CMD (if n < 8 then s2 else (n - 8) # s2) evs = s2
    \<and> irq_handler_apic run args m = isr_handler run args m"
proof -
  have i: "unat (interrupt_id args) = 32 + n"
    using assms by (simp add: IRQ_def unat_of_nat unat_word_ariths)
  let ?evs = "OutB PIC1_CMD 0x20 # (if n < 8 then [] else [OutB PIC2_CMD 0x20])"
  have "m_outb PIC1_CMD PIC_CMD_RESET
       (if unat (interrupt_id args) \<ge> IRQ 8 then m_outb PIC2_CMD PIC_CMD_RESET m else m) =
      m\<lparr>m_trace := ?evs @ m_trace m\<rparr>"
    by (simp add: i IRQ_def machine_ops outb_def PIC_CMD_RESET_def)
  then have "irq_handler_pic run args m = isr_handler run args (m\<lparr>m_trace := ?evs @ m_trace m\<rparr>)"
    by (simp only: irq_handler_pic_isr)
  moreover have "in_service PIC1_CMD (if n < 8 then n # s1 else 2 # s1) ?evs = s1"
      "in_service PIC2_CMD (if n < 8 then s2 else (n - 8) # s2) ?evs = s2"
    by (simp_all add: pic_ports)
  moreover have "irq_handler_apic run args m = isr_handler run args m"
    by (rule irq_handler_apic_isr)
  ultimately show ?thesis by blast
qed

theorem irq_handlers_acknowledge_witness:
  "\<exists>evs. irq_handler_pic (\<lambda>h args m. Returned m) (frame 0 41 0 demo_cpu) demo_machine =
      isr_handler (\<lambda>h args m. Returned m) (frame 0 41 0 demo_cpu) (demo_machine\<lparr>m_trace := evs\<rparr>)
    \<and> in_service PIC2_CMD [1, 3] evs = [3]"
proof -
  have "interrupt_id (frame 0 41 0 demo_cpu) = of_nat (IRQ 9)" and "m_trace demo_machine = []"
    by (simp_all add: frame_def IRQ_def demo_machine_def)
  then show ?thesis
    using irq_handlers_acknowledge [of 9 "frame 0 41 0 demo_cpu" "\<lambda>h args m. Returned m" demo_machine
        "[]" "[3]"] by auto
qed

end
