(* ===== verification/I8042.thy ===== *)
theory I8042
  imports Irq
begin

text \<open>
  The keyboard controller: src/src/sys/arch/i686/drv/i8042.c. Every wait is a bounded loop
  on the status port; \<open>i8042_init\<close> gives up with a message when a wait times out. What it
  should say to the controller is a list of stages, and what that may look like on the ports a
  relation on events; the controller of the documentation is a state computed from the trace.
\<close>

section \<open>Ports, status bits and commands\<close>

definition i8042_DATA :: u16 where "i8042_DATA = 0x60"
definition i8042_STATUS :: u16 where "i8042_STATUS = 0x64"
definition i8042_COMMAND :: u16 where "i8042_COMMAND = 0x64"
definition i8042_STATUS_OUTBUF :: u8 where "i8042_STATUS_OUTBUF = push_bit 0 1"
definition i8042_STATUS_INBUF :: u8 where "i8042_STATUS_INBUF = push_bit 1 1"
definition i8042_CMD_TEST :: u8 where "i8042_CMD_TEST = 0xAA"
definition i8042_RSP_TEST_OKAY :: u8 where "i8042_RSP_TEST_OKAY = 0x55"
definition i8042_CMD_DISABLE_A :: u8 where "i8042_CMD_DISABLE_A = 0xAD"
definition i8042_CMD_DISABLE_B :: u8 where "i8042_CMD_DISABLE_B = 0xA7"
definition i8042_CMD_ENABLE_A :: u8 where "i8042_CMD_ENABLE_A = 0xAE"
definition i8042_CMD_ENABLE_B :: u8 where "i8042_CMD_ENABLE_B = 0xA8"
definition i8042_CMD_READ :: "u8 \<Rightarrow> u8" where "i8042_CMD_READ n = 0x20 + n"
definition i8042_CMD_WRITE :: "u8 \<Rightarrow> u8" where "i8042_CMD_WRITE n = 0x60 + n"

lemmas i8042_numbers = i8042_DATA_def i8042_STATUS_def i8042_COMMAND_def i8042_CMD_TEST_def
  i8042_RSP_TEST_OKAY_def i8042_CMD_DISABLE_A_def i8042_CMD_DISABLE_B_def i8042_CMD_ENABLE_A_def
  i8042_CMD_ENABLE_B_def i8042_CMD_READ_def i8042_CMD_WRITE_def

section \<open>The waits\<close>

text \<open>\<open>while (cntr--) { status = inb(i8042_STATUS); if (...) return true; } return false;\<close>\<close>

function wait_tx_loop :: "config \<Rightarrow> u32 \<Rightarrow> machine \<Rightarrow> bool \<times> machine" where
  "wait_tx_loop C cntr m =
     (if cntr \<noteq> 0 then
        let (status, m) = m_inb C i8042_STATUS m
        in if status AND i8042_STATUS_INBUF = 0 then (True, m) else wait_tx_loop C (cntr - 1) m
      else (False, m))"
  by pat_completeness auto
termination
  by (relation "measure (\<lambda>(C, cntr, m). unat cntr)") (auto simp: unat_minus_one word_neq_0_conv unat_gt_0)

function wait_rx_loop :: "config \<Rightarrow> u32 \<Rightarrow> machine \<Rightarrow> bool \<times> machine" where
  "wait_rx_loop C cntr m =
     (if cntr \<noteq> 0 then
        let (status, m) = m_inb C i8042_STATUS m
        in if status AND i8042_STATUS_OUTBUF \<noteq> 0 then (True, m) else wait_rx_loop C (cntr - 1) m
      else (False, m))"
  by pat_completeness auto
termination
  by (relation "measure (\<lambda>(C, cntr, m). unat cntr)") (auto simp: unat_minus_one word_neq_0_conv unat_gt_0)

declare wait_tx_loop.simps [simp del] wait_rx_loop.simps [simp del]

definition wait_tx :: "config \<Rightarrow> machine \<Rightarrow> bool \<times> machine" where
  "wait_tx C m = wait_tx_loop C 0x2000 m"

definition wait_rx :: "config \<Rightarrow> machine \<Rightarrow> bool \<times> machine" where
  "wait_rx C m = wait_rx_loop C 0x2000 m"

section \<open>The interrupt handler\<close>

definition i8042_irq :: "config \<Rightarrow> isr_args_t \<Rightarrow> machine \<Rightarrow> machine" where
  "i8042_irq C args m =
     (let (status, m) = m_inb C i8042_COMMAND m
      in if status AND i8042_STATUS_OUTBUF \<noteq> 0 then
        let (b, m) = m_inb C i8042_DATA m;
            keycode = ucast b;
            (keycode, m) =
              (if keycode = KEYBOARD_TBF then
                 let keycode = push_bit 8 keycode; (b, m) = m_inb C i8042_DATA m
                 in (keycode OR ucast b, m)
               else (keycode, m));
            (kb, t) = keyboard_handle keycode (m_keyboard m, m_terminal m)
        in m\<lparr>m_keyboard := kb, m_terminal := t\<rparr>
      else m)"

section \<open>Initialisation\<close>

definition timeout_message :: string where
  "timeout_message = nl ''Timeout occurred during PS/2 initialization.''"

text \<open>\<open>for (int i = 0; i < 256; i++) inb(i8042_DATA);\<close>\<close>

definition flush_data :: "config \<Rightarrow> machine \<Rightarrow> machine" where
  "flush_data C m = fold (\<lambda>i m. snd (m_inb C i8042_DATA m)) [0..<256] m"

text \<open>From the write-back of the command byte on, and from the self test on.\<close>

definition i8042_selftest :: "config \<Rightarrow> machine \<Rightarrow> machine" where
  "i8042_selftest C m =
     (let m = m_outb i8042_COMMAND i8042_CMD_TEST m; (ok, m) = wait_rx C m in
      if \<not> ok then m_puts (nl ''Failed during the self-test!'') m else
      let (inp, m) = m_inb C i8042_DATA m in
      if inp \<noteq> i8042_RSP_TEST_OKAY then m_puts ''Self test failed!'' m else
      let m = m_puts (nl ''Selftest completed.'') m;
          m = m_puts (if has_secondary_channel m then nl ''Single channel controller.''
                      else nl ''Dual channel controller.'') m;
          (ok, m) = wait_tx C m in
      if \<not> ok then m_puts timeout_message m else
      let m = m_outb i8042_COMMAND i8042_CMD_ENABLE_A m
      in m_outb i8042_COMMAND i8042_CMD_ENABLE_B m)"

definition i8042_write_back :: "config \<Rightarrow> u8 \<Rightarrow> machine \<Rightarrow> machine" where
  "i8042_write_back C inp m =
     (let (ok, m) = wait_tx C m in
      if \<not> ok then m_puts (nl ''i8042 controller is retarded.'') m else
      let m = m_outb i8042_COMMAND (i8042_CMD_WRITE 0) m; (ok, m) = wait_tx C m in
      if \<not> ok then m_puts ''Mweh.'' m else
      let m = m_outb i8042_DATA inp m; (ok, m) = wait_tx C m in
      if \<not> ok then m_puts ''Damn.'' m else
      i8042_selftest C (m_puts (nl ''So far so good for PS/2!'') m))"

definition i8042_setup :: "config \<Rightarrow> machine \<Rightarrow> machine" where
  "i8042_setup C m =
     (let m = m_outb i8042_COMMAND i8042_CMD_DISABLE_A m; (ok, m) = wait_tx C m in
      if \<not> ok then m_puts (nl ''i8042 controller timed out.'') m else
      let m = m_outb i8042_COMMAND i8042_CMD_DISABLE_B m; (ok, m) = wait_tx C m in
      if \<not> ok then m_puts (nl ''i8042 controller timed out.'') m else
      let m = flush_data C m;
          m = m_outb i8042_COMMAND (i8042_CMD_READ 0) m; (ok, m) = wait_rx C m in
      if \<not> ok then m_puts (nl ''i8042 controller did not respond.'') m else
      let (inp, m) = m_inb C i8042_DATA m in
      i8042_write_back C inp m)"

definition i8042_init :: "config \<Rightarrow> machine \<Rightarrow> machine option" where
  "i8042_init C m =
     (let m = m_puts (nl ''i8042!'') m
      in do {
        m \<leftarrow> isr_set_handler (of_nat (IRQ 1)) I8042_irq m;
        m \<leftarrow> m_pic_enable_line C 1 m;
        Some (i8042_setup C m)
      })"

section \<open>Bounded polling\<close>

text \<open>
  A loop that asks at most a counter's number of times and stops at the first answer that
  satisfies \<open>ready\<close>. Its outcome is the first such answer among those it may ask for.
\<close>

fun asked :: "('s \<Rightarrow> 'x \<times> 's) \<Rightarrow> nat \<Rightarrow> 's \<Rightarrow> 's" where
  "asked ask 0 s = s"
| "asked ask (Suc k) s = asked ask k (snd (ask s))"

definition answer :: "('s \<Rightarrow> 'x \<times> 's) \<Rightarrow> nat \<Rightarrow> 's \<Rightarrow> 'x" where
  "answer ask k s = fst (ask (asked ask k s))"

locale bounded_poll =
  fixes loop :: "u32 \<Rightarrow> 's \<Rightarrow> bool \<times> 's" and ask :: "'s \<Rightarrow> 'x \<times> 's" and ready :: "'x \<Rightarrow> bool"
  assumes loop_step: "loop n s =
      (if n \<noteq> 0 then let (x, s') = ask s in if ready x then (True, s') else loop (n - 1) s'
       else (False, s))"
begin

lemma loop_outcome:
  "\<exists>k \<le> unat n. snd (loop n s) = asked ask k s
     \<and> (\<forall>j. j + 1 < k \<longrightarrow> \<not> ready (answer ask j s))
     \<and> (if fst (loop n s) then 0 < k \<and> ready (answer ask (k - 1) s)
        else k = unat n \<and> (\<forall>j < k. \<not> ready (answer ask j s)))"
proof (induction "unat n" arbitrary: n s)
  case 0
  then have "n = 0" by (simp add: unat_eq_0)
  then have "loop n s = (False, s)" by (subst loop_step) simp
  with \<open>n = 0\<close> show ?case by simp
next
  case (Suc l)
  then have n: "n \<noteq> 0" by auto
  with Suc.hyps(2) have l: "l = unat (n - 1)" by (simp add: unat_minus_one)
  obtain x s' where a: "ask s = (x, s')" by fastforce
  show ?case
  proof (cases "ready x")
    case True
    then have "loop n s = (True, s')" using n a by (simp add: loop_step [of n])
    then show ?thesis
      using True a Suc.hyps(2) by (intro exI [of _ 1]) (auto simp: answer_def)
  next
    case False
    then have lp: "loop n s = loop (n - 1) s'" using n a by (subst loop_step) simp
    have sh: "answer ask (Suc j) s = answer ask j s'" "answer ask 0 s = x"
        "asked ask (Suc j) s = asked ask j s'" for j
      using a by (simp_all add: answer_def)
    obtain k where k: "k \<le> unat (n - 1)" "snd (loop (n - 1) s') = asked ask k s'"
        "\<forall>j. j + 1 < k \<longrightarrow> \<not> ready (answer ask j s')"
        "if fst (loop (n - 1) s') then 0 < k \<and> ready (answer ask (k - 1) s')
         else k = unat (n - 1) \<and> (\<forall>j < k. \<not> ready (answer ask j s'))"
      using Suc.hyps(1) [OF l, of s'] by blast
    have all: "\<not> ready (answer ask j s)" if "\<And>i. j = Suc i \<Longrightarrow> \<not> ready (answer ask i s')" for j
      using that sh False by (cases j) auto
    show ?thesis
    proof (intro exI [of _ "Suc k"] conjI)
      show "Suc k \<le> unat n" using k(1) l Suc.hyps(2) by simp
      show "snd (loop n s) = asked ask (Suc k) s" using k(2) lp sh by simp
      show "\<forall>j. j + 1 < Suc k \<longrightarrow> \<not> ready (answer ask j s)"
        using k(3) all by auto
      show "if fst (loop n s) then 0 < Suc k \<and> ready (answer ask (Suc k - 1) s)
         else Suc k = unat n \<and> (\<forall>j < Suc k. \<not> ready (answer ask j s))"
        using k(4) all lp l Suc.hyps(2) sh(1) [of "k - 1"] by (cases k) auto
    qed
  qed
qed

end

interpretation tx: bounded_poll "wait_tx_loop C" "m_inb C i8042_STATUS"
    "\<lambda>status. status AND i8042_STATUS_INBUF = 0"
  by unfold_locales (subst wait_tx_loop.simps, simp)

interpretation rx: bounded_poll "wait_rx_loop C" "m_inb C i8042_STATUS"
    "\<lambda>status. status AND i8042_STATUS_OUTBUF \<noteq> 0"
  by unfold_locales (subst wait_rx_loop.simps, simp)

section \<open>What reading and writing ports changes\<close>

lemma status_bits:
  "w AND i8042_STATUS_OUTBUF = 0 \<longleftrightarrow> \<not> bit w 0" "w AND i8042_STATUS_INBUF = 0 \<longleftrightarrow> \<not> bit w 1"
  using and_exp_eq_0_iff_not_bit [of w 0] and_exp_eq_0_iff_not_bit [of w 1]
  by (simp_all add: i8042_STATUS_OUTBUF_def i8042_STATUS_INBUF_def)

text \<open>
  The answers in a list of events, in the order of time, are those the hardware gives from
  a trace on.
\<close>

fun answered :: "device \<Rightarrow> trace \<Rightarrow> io_event list \<Rightarrow> bool" where
  "answered E tr [] \<longleftrightarrow> True"
| "answered E tr (InB port v # evs) \<longleftrightarrow> v = dev_inb E tr port \<and> answered E (InB port v # tr) evs"
| "answered E tr (e # evs) \<longleftrightarrow> answered E (e # tr) evs"

lemma answered_append:
  "answered E tr (xs @ ys) \<longleftrightarrow> answered E tr xs \<and> answered E (rev xs @ tr) ys"
proof (induction xs arbitrary: tr)
  case Nil
  show ?case by simp
next
  case (Cons x xs)
  then show ?case by (cases x) simp_all
qed

text \<open>Reads of one port: the trace grows by that many answers, nothing else changes.\<close>

lemma asked_snoc: "asked ask (Suc k) s = snd (ask (asked ask k s))"
  by (induction k arbitrary: s) simp_all

lemma asked_inb:
  "asked (m_inb C port) k m =
     m\<lparr>m_trace := rev (map (\<lambda>j. InB port (answer (m_inb C port) j m)) [0..<k]) @ m_trace m\<rparr>"
proof (induction k)
  case 0
  show ?case by simp
next
  case (Suc k)
  have "answer (m_inb C port) k m = dev_inb (c_device C) (m_trace (asked (m_inb C port) k m)) port"
    by (simp add: answer_def m_inb_eq Let_def)
  then show ?case by (simp only: asked_snoc snd_inb) (simp add: Suc)
qed

lemma asked_answered:
  "answered (c_device C) (m_trace m) (map (\<lambda>j. InB port (answer (m_inb C port) j m)) [0..<k])"
proof (induction k)
  case (Suc k)
  have "answer (m_inb C port) k m = dev_inb (c_device C) (m_trace (asked (m_inb C port) k m)) port"
    by (simp add: answer_def m_inb_eq Let_def)
  with Suc show ?case by (simp add: answered_append asked_inb)
qed simp

text \<open>
  A wait, as the values it reads: it ends at the first value that is ready, or after 8192
  that are not.
\<close>

definition waited :: "(u8 \<Rightarrow> bool) \<Rightarrow> u8 list \<Rightarrow> bool \<Rightarrow> bool" where
  "waited ready vs ok \<longleftrightarrow>
     (if ok then vs \<noteq> [] \<and> length vs \<le> 0x2000 \<and> ready (last vs) \<and> list_all (\<lambda>v. \<not> ready v) (butlast vs)
      else length vs = 0x2000 \<and> list_all (\<lambda>v. \<not> ready v) vs)"

lemma wait_values:
  assumes "k \<le> 0x2000" and "n = asked (m_inb C port) k m"
    and "\<forall>j. j + 1 < k \<longrightarrow> \<not> ready (answer (m_inb C port) j m)"
    and "if ok then 0 < k \<and> ready (answer (m_inb C port) (k - 1) m)
         else k = 0x2000 \<and> (\<forall>j < k. \<not> ready (answer (m_inb C port) j m))"
  shows "\<exists>vs. waited ready vs ok \<and> n = m\<lparr>m_trace := rev (map (InB port) vs) @ m_trace m\<rparr>
    \<and> answered (c_device C) (m_trace m) (map (InB port) vs)"
proof -
  let ?vs = "map (\<lambda>j. answer (m_inb C port) j m) [0..<k]"
  have "butlast ?vs = map (\<lambda>j. answer (m_inb C port) j m) [0..<k - 1]"
    by (cases k) (simp_all add: butlast_append)
  moreover have "last ?vs = answer (m_inb C port) (k - 1) m" if "0 < k"
    using that by (cases k) simp_all
  ultimately have "waited ready ?vs ok"
    using assms(1,3,4) by (auto simp: waited_def list_all_iff)
  moreover have "map (InB port) ?vs = map (\<lambda>j. InB port (answer (m_inb C port) j m)) [0..<k]" by simp
  ultimately show ?thesis
    using asked_inb [of C port k m] asked_answered [of C m port k] assms(2)
    by (intro exI [of _ ?vs]) (simp only: simp_thms)
qed

lemma wait_reads:
  "\<exists>vs. waited (\<lambda>v. \<not> bit v 1) vs (fst (wait_tx C m))
     \<and> snd (wait_tx C m) = m\<lparr>m_trace := rev (map (InB 0x64) vs) @ m_trace m\<rparr>
     \<and> answered (c_device C) (m_trace m) (map (InB 0x64) vs)"
  "\<exists>vs. waited (\<lambda>v. bit v 0) vs (fst (wait_rx C m))
     \<and> snd (wait_rx C m) = m\<lparr>m_trace := rev (map (InB 0x64) vs) @ m_trace m\<rparr>
     \<and> answered (c_device C) (m_trace m) (map (InB 0x64) vs)"
proof -
  have u: "unat (0x2000 :: u32) = 0x2000" by simp
  obtain k where "k \<le> 0x2000" and "snd (wait_tx C m) = asked (m_inb C i8042_STATUS) k m"
    and "\<forall>j. j + 1 < k \<longrightarrow> \<not> \<not> bit (answer (m_inb C i8042_STATUS) j m) 1"
    and "if fst (wait_tx C m) then 0 < k \<and> \<not> bit (answer (m_inb C i8042_STATUS) (k - 1) m) 1
         else k = 0x2000 \<and> (\<forall>j < k. \<not> \<not> bit (answer (m_inb C i8042_STATUS) j m) 1)"
    using tx.loop_outcome [where C = C and n = "0x2000" and s = m]
    unfolding wait_tx_def [symmetric] status_bits u by blast
  then show "\<exists>vs. waited (\<lambda>v. \<not> bit v 1) vs (fst (wait_tx C m))
     \<and> snd (wait_tx C m) = m\<lparr>m_trace := rev (map (InB 0x64) vs) @ m_trace m\<rparr>
     \<and> answered (c_device C) (m_trace m) (map (InB 0x64) vs)"
    unfolding i8042_STATUS_def by (rule wait_values [where ready = "\<lambda>v. \<not> bit v 1"])
  obtain k where "k \<le> 0x2000" and "snd (wait_rx C m) = asked (m_inb C i8042_STATUS) k m"
    and "\<forall>j. j + 1 < k \<longrightarrow> \<not> bit (answer (m_inb C i8042_STATUS) j m) 0"
    and "if fst (wait_rx C m) then 0 < k \<and> bit (answer (m_inb C i8042_STATUS) (k - 1) m) 0
         else k = 0x2000 \<and> (\<forall>j < k. \<not> bit (answer (m_inb C i8042_STATUS) j m) 0)"
    using rx.loop_outcome [where C = C and n = "0x2000" and s = m]
    unfolding wait_rx_def [symmetric] status_bits not_not u by blast
  then show "\<exists>vs. waited (\<lambda>v. bit v 0) vs (fst (wait_rx C m))
     \<and> snd (wait_rx C m) = m\<lparr>m_trace := rev (map (InB 0x64) vs) @ m_trace m\<rparr>
     \<and> answered (c_device C) (m_trace m) (map (InB 0x64) vs)"
    unfolding i8042_STATUS_def by (rule wait_values [where ready = "\<lambda>v. bit v 0"])
qed

lemma flush_asked: "flush_data C m = asked (m_inb C i8042_DATA) 256 m"
proof -
  have "fold (\<lambda>i m. snd (m_inb C i8042_DATA m)) ns m = asked (m_inb C i8042_DATA) (length ns) m"
    for ns :: "nat list" and m
    by (induction ns arbitrary: m) simp_all
  then show ?thesis by (simp add: flush_data_def)
qed

text \<open>The bytes sent to the controller, in order.\<close>

fun sent :: "trace \<Rightarrow> (u16 \<times> u8) list" where
  "sent [] = []"
| "sent (OutB port v # tr) =
     sent tr @ (if port = i8042_DATA \<or> port = i8042_COMMAND then [(port, v)] else [])"
| "sent (_ # tr) = sent tr"

lemma sent_reads: "sent (rev (map (InB port) vs) @ tr) = sent tr"
proof (induction vs arbitrary: tr)
  case (Cons v vs)
  show ?case using Cons [of "InB port v # tr"] by simp
qed simp

lemma sent_wait [simp]:
  "sent (m_trace (snd (wait_tx C m))) = sent (m_trace m)"
  "sent (m_trace (snd (wait_rx C m))) = sent (m_trace m)"
  using wait_reads(1) [of C m] wait_reads(2) [of C m] by (auto simp: sent_reads)

lemma sent_inb [simp]: "sent (m_trace (snd (m_inb C port m))) = sent (m_trace m)"
  by (simp add: m_inb_eq Let_def)

lemma sent_flush [simp]: "sent (m_trace (flush_data C m)) = sent (m_trace m)"
proof -
  have "sent (m_trace (asked (m_inb C port) k m)) = sent (m_trace m)" for port k
    by (induction k) (simp_all add: asked_snoc del: asked.simps(2))
  then show ?thesis by (simp add: flush_asked)
qed

lemma sent_outb:
  "sent (m_trace (m_outb i8042_COMMAND v m)) = sent (m_trace m) @ [(i8042_COMMAND, v)]"
  "sent (m_trace (m_outb i8042_DATA v m)) = sent (m_trace m) @ [(i8042_DATA, v)]"
  by (simp_all add: m_outb_eq)

text \<open>Everything but the terminal and the trace is left alone by the setup.\<close>

definition controller_event :: "io_event \<Rightarrow> bool" where
  "controller_event e \<longleftrightarrow> (case e of
     OutB port _ \<Rightarrow> port = i8042_DATA \<or> port = i8042_COMMAND
   | InB port _ \<Rightarrow> port = i8042_DATA \<or> port = i8042_COMMAND | _ \<Rightarrow> False)"

definition same_but_io :: "machine \<Rightarrow> machine \<Rightarrow> bool" where
  "same_but_io m m' \<longleftrightarrow> (\<exists>bs. does controller_event bs m m')"

lemma same_refl: "same_but_io m m"
  unfolding same_but_io_def using does_refl by blast

lemma same_trans: "same_but_io m m' \<Longrightarrow> same_but_io m' m'' \<Longrightarrow> same_but_io m m''"
  unfolding same_but_io_def using does_trans by blast

lemma same_io:
  "same_but_io m (m_outb i8042_DATA v m)" "same_but_io m (m_outb i8042_COMMAND v m)"
  "same_but_io m (snd (m_inb C i8042_DATA m))"
  "same_but_io m (m_puts str m)" "same_but_io m (snd (wait_tx C m))" "same_but_io m (snd (wait_rx C m))"
proof -
  show "same_but_io m (m_outb i8042_DATA v m)" "same_but_io m (m_outb i8042_COMMAND v m)"
    "same_but_io m (snd (m_inb C i8042_DATA m))"
    unfolding same_but_io_def by (rule exI, rule does_port, simp add: controller_event_def)+
  have ok: "list_all controller_event (rev (map (InB 0x64) vs))" for vs
    by (simp add: list_all_iff controller_event_def i8042_COMMAND_def)
  show "same_but_io m (snd (wait_tx C m))" "same_but_io m (snd (wait_rx C m))"
    using wait_reads(1) [of C m] wait_reads(2) [of C m] does_events [OF ok, of m]
    unfolding same_but_io_def by metis+
  show "same_but_io m (m_puts str m)"
    unfolding same_but_io_def by (rule exI, rule does_print(1), rule does_refl)
qed

lemma same_flush: "same_but_io m (flush_data C m)"
proof -
  have "same_but_io m n \<Longrightarrow> same_but_io m (fold (\<lambda>i m. snd (m_inb C i8042_DATA m)) ns n)"
    for ns :: "nat list" and n
  proof (induction ns arbitrary: n)
    case (Cons i ns)
    then show ?case using same_trans [OF Cons.prems same_io(3) [of n C]] by simp
  qed simp
  then show ?thesis by (simp add: flush_data_def same_refl)
qed

lemmas same_then = same_trans [OF _ same_io(1)] same_trans [OF _ same_io(2)]
  same_trans [OF _ same_io(3)] same_trans [OF _ same_io(4)] same_trans [OF _ same_io(5)]
  same_trans [OF _ same_io(6)] same_trans [OF _ same_flush]

lemma same_setup: "same_but_io m (i8042_setup C m)"
  by (simp add: i8042_setup_def i8042_write_back_def i8042_selftest_def Let_def case_prod_beta'
      same_then same_refl)

text \<open>\<open>i8042_init\<close> up to the setup: always defined, with the handler in the table.\<close>

definition i8042_start :: "config \<Rightarrow> machine \<Rightarrow> machine" where
  "i8042_start C m = (m_puts (nl ''i8042!'') m)\<lparr>
     handlers := (handlers m)[33 := Some I8042_irq],
     m_trace := the (pic_enable_line (c_device C) 1 (m_trace m))\<rparr>"

lemma i8042_init_start:
  assumes "length (handlers m) = 256"
  shows "i8042_init C m = Some (i8042_setup C (i8042_start C m))"
  by (simp add: i8042_init_def i8042_start_def m_pic_enable_line_def pic_enable_line_def int_bit_def
      isr_set_handler_result assms IRQ_def inb_def Let_def)

section \<open>The conversation with the controller\<close>

text \<open>
  What the driver should say and wait for, stage by stage, and the events and the output of
  such a conversation: every await reads the status until its bit is right, at most 8192
  times, and the first that fails, or a wrong answer to the self test, ends it with its
  message. \<open>b\<close> is the byte taken last.
\<close>

datatype stage =
    Command u8 | Await_free string | Await_full string | Flush | Take | Give_back
  | Verify u8 string | Say string

inductive conversed :: "stage list \<Rightarrow> u8 \<Rightarrow> io_event list \<Rightarrow> u8 list \<Rightarrow> bool" where
  over: "conversed [] b [] []"
| command: "conversed ss b evs out \<Longrightarrow> conversed (Command c # ss) b (OutB 0x64 c # evs) out"
| free: "waited (\<lambda>v. \<not> bit v 1) vs True \<Longrightarrow> conversed ss b evs out \<Longrightarrow>
     conversed (Await_free msg # ss) b (map (InB 0x64) vs @ evs) out"
| never_free: "waited (\<lambda>v. \<not> bit v 1) vs False \<Longrightarrow>
     conversed (Await_free msg # ss) b (map (InB 0x64) vs) (literal_bytes msg)"
| full: "waited (\<lambda>v. bit v 0) vs True \<Longrightarrow> conversed ss b evs out \<Longrightarrow>
     conversed (Await_full msg # ss) b (map (InB 0x64) vs @ evs) out"
| never_full: "waited (\<lambda>v. bit v 0) vs False \<Longrightarrow>
     conversed (Await_full msg # ss) b (map (InB 0x64) vs) (literal_bytes msg)"
| flush: "length vs = 256 \<Longrightarrow> conversed ss b evs out \<Longrightarrow>
     conversed (Flush # ss) b (map (InB 0x60) vs @ evs) out"
| take: "conversed ss v evs out \<Longrightarrow> conversed (Take # ss) b (InB 0x60 v # evs) out"
| give_back: "conversed ss b evs out \<Longrightarrow> conversed (Give_back # ss) b (OutB 0x60 b # evs) out"
| right: "conversed ss v evs out \<Longrightarrow> conversed (Verify v msg # ss) v evs out"
| wrong: "b \<noteq> v \<Longrightarrow> conversed (Verify v msg # ss) b [] (literal_bytes msg)"
| say: "conversed ss b evs out \<Longrightarrow> conversed (Say msg # ss) b evs (literal_bytes msg @ out)"

text \<open>
  Disable both ports, read the command byte and write it back, test, enable both ports. The
  message on the channels is chosen by \<open>second\<close>.
\<close>

definition i8042_conversation :: "bool \<Rightarrow> stage list" where
  "i8042_conversation second =
     [Command 0xAD, Await_free (nl ''i8042 controller timed out.''),
      Command 0xA7, Await_free (nl ''i8042 controller timed out.''),
      Flush,
      Command 0x20, Await_full (nl ''i8042 controller did not respond.''), Take,
      Await_free (nl ''i8042 controller is retarded.''),
      Command 0x60, Await_free ''Mweh.'', Give_back, Await_free ''Damn.'',
      Say (nl ''So far so good for PS/2!''),
      Command 0xAA, Await_full (nl ''Failed during the self-test!''), Take,
      Verify 0x55 ''Self test failed!'',
      Say (nl ''Selftest completed.''),
      Say (if second then nl ''Single channel controller.'' else nl ''Dual channel controller.''),
      Await_free (nl ''Timeout occurred during PS/2 initialization.''),
      Command 0xAE, Command 0xA8]"

definition follows :: "config \<Rightarrow> stage list \<Rightarrow> u8 \<Rightarrow> machine \<Rightarrow> machine \<Rightarrow> bool" where
  "follows C ss b m m' \<longleftrightarrow> (\<exists>evs out. conversed ss b evs out
     \<and> answered (c_device C) (m_trace m) evs
     \<and> m' = m\<lparr>m_terminal := terminal_putbytes out (m_terminal m), m_trace := rev evs @ m_trace m\<rparr>)"

lemma followsI:
  assumes "conversed ss b evs out" and "answered (c_device C) (m_trace m) evs"
    and "m' = m\<lparr>m_terminal := terminal_putbytes out (m_terminal m), m_trace := rev evs @ m_trace m\<rparr>"
  shows "follows C ss b m m'"
  unfolding follows_def using assms by blast

text \<open>The events of the first stage, then the rest of the conversation.\<close>

lemma follows_events:
  assumes "follows C ss b n m'" and "n = m\<lparr>m_trace := rev es @ m_trace m\<rparr>"
    and "answered (c_device C) (m_trace m) es"
    and "\<And>evs out. conversed ss b evs out \<Longrightarrow> conversed (s # ss) b' (es @ evs) out"
  shows "follows C (s # ss) b' m m'"
proof -
  obtain evs out where c: "conversed ss b evs out" "answered (c_device C) (m_trace n) evs"
    and m': "m' = n\<lparr>m_terminal := terminal_putbytes out (m_terminal n), m_trace := rev evs @ m_trace n\<rparr>"
    using assms(1) unfolding follows_def by blast
  show ?thesis
    by (rule followsI [OF assms(4) [OF c(1)]])
      (use c(2) assms(2,3) m' in \<open>simp_all add: answered_append\<close>)
qed

lemma follows_over: "follows C [] b m m"
  by (rule followsI [OF over]) (simp_all add: terminal_putbytes_def)

lemma follows_command:
  "follows C ss b (m_outb i8042_COMMAND c m) m' \<Longrightarrow> c = d \<Longrightarrow> follows C (Command d # ss) b m m'"
  by (erule follows_events [where es = "[OutB 0x64 c]"])
    (simp_all add: m_outb_eq i8042_COMMAND_def command)

lemma follows_give_back:
  "follows C ss b (m_outb i8042_DATA b m) m' \<Longrightarrow> follows C (Give_back # ss) b m m'"
  by (erule follows_events [where es = "[OutB 0x60 b]"])
    (simp_all add: m_outb_eq i8042_DATA_def give_back)

lemma follows_take:
  "follows C ss (fst (m_inb C i8042_DATA m)) (snd (m_inb C i8042_DATA m)) m' \<Longrightarrow>
   follows C (Take # ss) b m m'"
  by (erule follows_events [where es = "[InB 0x60 (fst (m_inb C i8042_DATA m))]"])
    (simp_all add: m_inb_eq i8042_DATA_def take Let_def)

lemma follows_flush:
  assumes "follows C ss b (flush_data C m) m'"
  shows "follows C (Flush # ss) b m m'"
proof (rule follows_events [OF assms])
  let ?vs = "map (\<lambda>j. answer (m_inb C 0x60) j m) [0..<256]"
  have e: "map (InB 0x60) ?vs = map (\<lambda>j. InB 0x60 (answer (m_inb C 0x60) j m)) [0..<256]"
    by (simp del: upt_Suc)
  show "flush_data C m = m\<lparr>m_trace := rev (map (InB 0x60) ?vs) @ m_trace m\<rparr>"
    unfolding e flush_asked i8042_DATA_def by (rule asked_inb)
  show "answered (c_device C) (m_trace m) (map (InB 0x60) ?vs)"
    unfolding e by (rule asked_answered)
  show "conversed (Flush # ss) b (map (InB 0x60) ?vs @ evs) out" if "conversed ss b evs out" for evs out
    by (rule flush [OF _ that]) simp
qed

lemma follows_await:
  assumes "follows C ss b n m'" and "n = m\<lparr>m_trace := rev (map (InB 0x64) vs) @ m_trace m\<rparr>"
    and "answered (c_device C) (m_trace m) (map (InB 0x64) vs)"
    and "ok \<Longrightarrow> (\<And>evs out. conversed ss b evs out \<Longrightarrow> conversed (s # ss) b (map (InB 0x64) vs @ evs) out)"
    and "\<not> ok \<Longrightarrow> conversed (s # ss) b (map (InB 0x64) vs) (literal_bytes msg)"
  shows "follows C (s # ss) b m (if \<not> ok then m_puts msg n else m')"
proof (cases ok)
  case True
  then show ?thesis using follows_events [OF assms(1-3)] assms(4) by simp
next
  case False
  then show ?thesis
    by (intro followsI [OF assms(5) [OF False] assms(3)]) (simp add: assms(2) m_puts_def terminal_puts_def)
qed

lemma follows_free:
  assumes "follows C ss b (snd (wait_tx C m)) m'"
  shows "follows C (Await_free msg # ss) b m
    (if \<not> fst (wait_tx C m) then m_puts msg (snd (wait_tx C m)) else m')"
proof -
  obtain vs where "waited (\<lambda>v. \<not> bit v 1) vs (fst (wait_tx C m))"
    and "snd (wait_tx C m) = m\<lparr>m_trace := rev (map (InB 0x64) vs) @ m_trace m\<rparr>"
    and "answered (c_device C) (m_trace m) (map (InB 0x64) vs)"
    using wait_reads(1) [of C m] by blast
  then show ?thesis by (intro follows_await [OF assms]) (use conversed.free conversed.never_free in \<open>simp_all del: One_nat_def\<close>)
qed

lemma follows_full:
  assumes "follows C ss b (snd (wait_rx C m)) m'"
  shows "follows C (Await_full msg # ss) b m
    (if \<not> fst (wait_rx C m) then m_puts msg (snd (wait_rx C m)) else m')"
proof -
  obtain vs where "waited (\<lambda>v. bit v 0) vs (fst (wait_rx C m))"
    and "snd (wait_rx C m) = m\<lparr>m_trace := rev (map (InB 0x64) vs) @ m_trace m\<rparr>"
    and "answered (c_device C) (m_trace m) (map (InB 0x64) vs)"
    using wait_reads(2) [of C m] by blast
  then show ?thesis by (intro follows_await [OF assms]) (use conversed.full conversed.never_full in \<open>simp_all del: One_nat_def\<close>)
qed

lemma follows_verify:
  assumes "follows C ss b m m'" and "v = w"
  shows "follows C (Verify w msg # ss) b m (if b \<noteq> v then m_puts msg m else m')"
proof (cases "b = v")
  case True
  with assms show ?thesis by (auto simp: follows_def intro: right)
next
  case False
  with assms(2) show ?thesis
    by (auto intro!: followsI [OF wrong] simp: m_puts_def terminal_puts_def)
qed

lemma follows_say:
  assumes "follows C ss b (m_puts msg m) m'"
  shows "follows C (Say msg # ss) b m m'"
proof -
  obtain evs out where "conversed ss b evs out" "answered (c_device C) (m_trace m) evs"
    and "m' = (m_puts msg m)\<lparr>m_terminal := terminal_putbytes out (m_terminal (m_puts msg m)),
      m_trace := rev evs @ m_trace m\<rparr>"
    using assms unfolding follows_def by auto
  then show ?thesis
    by (intro followsI [OF say]) (simp_all add: m_puts_def terminal_puts_def)
qed

lemmas follows_rules = follows_over follows_command follows_give_back follows_take follows_flush
  follows_free follows_full follows_verify follows_say

lemma setup_follows: "follows C (i8042_conversation (has_secondary_channel m)) b m (i8042_setup C m)"
proof -
  have second: "has_secondary_channel (m_outb port v n) = has_secondary_channel n"
    "has_secondary_channel (snd (m_inb C port n)) = has_secondary_channel n"
    "has_secondary_channel (snd (wait_tx C n)) = has_secondary_channel n"
    "has_secondary_channel (snd (wait_rx C n)) = has_secondary_channel n"
    "has_secondary_channel (flush_data C n) = has_secondary_channel n" for port v n
    using wait_reads(1) [of C n] wait_reads(2) [of C n]
    by (auto simp: m_outb_eq snd_inb flush_asked asked_inb)
  show ?thesis
    unfolding i8042_setup_def i8042_write_back_def i8042_selftest_def i8042_conversation_def
      Let_def case_prod_beta' timeout_message_def m_print_parts second
    by (rule follows_rules | simp add: i8042_numbers; fail)+
qed

section \<open>The documented controller\<close>

text \<open>
  An 8042 as its documentation has it: a command byte, an output buffer that a read of the
  data port empties, and whether the next data byte goes to the command byte. Command 0x20
  puts the command byte in the output buffer, 0xAA the result 0x55 of the self test; 0xAD,
  0xAE and 0xA7, 0xA8 set and clear the bits 4 and 5 that disable the two ports.
\<close>

record kbc =
  kbc_command :: u8
  kbc_output :: "u8 option"
  kbc_writing :: bool

definition kbc_does :: "u8 \<Rightarrow> kbc \<Rightarrow> kbc" where
  "kbc_does c s = (let s = s\<lparr>kbc_writing := (c = 0x60)\<rparr> in
     if c = 0x20 then s\<lparr>kbc_output := Some (kbc_command s)\<rparr>
     else if c = 0xAA then s\<lparr>kbc_output := Some 0x55\<rparr>
     else if c = 0xAD then s\<lparr>kbc_command := kbc_command s OR 0x10\<rparr>
     else if c = 0xAE then s\<lparr>kbc_command := kbc_command s AND NOT 0x10\<rparr>
     else if c = 0xA7 then s\<lparr>kbc_command := kbc_command s OR 0x20\<rparr>
     else if c = 0xA8 then s\<lparr>kbc_command := kbc_command s AND NOT 0x20\<rparr>
     else s)"

fun kbc_after :: "kbc \<Rightarrow> trace \<Rightarrow> kbc" where
  "kbc_after s0 [] = s0"
| "kbc_after s0 (OutB port v # tr) = (let s = kbc_after s0 tr in
     if port = 0x64 then kbc_does v s
     else if port = 0x60 \<and> kbc_writing s then s\<lparr>kbc_command := v, kbc_writing := False\<rparr>
     else s)"
| "kbc_after s0 (InB port v # tr) = (let s = kbc_after s0 tr in
     if port = 0x60 then s\<lparr>kbc_output := None\<rparr> else s)"
| "kbc_after s0 (_ # tr) = kbc_after s0 tr"

text \<open>
  Hardware that answers like it: it takes every byte at once, so the input buffer is never
  full; a byte in the output buffer shows in the status before the 8192nd read, and is then
  what the data port gives.
\<close>

definition works_as_8042 :: "config \<Rightarrow> kbc \<Rightarrow> bool" where
  "works_as_8042 C s0 \<longleftrightarrow>
     (\<forall>tr. \<not> bit (dev_inb (c_device C) tr 0x64) 1)
     \<and> (\<forall>m. kbc_output (kbc_after s0 (m_trace m)) \<noteq> None \<longrightarrow>
           (\<exists>k < 0x2000. bit (answer (m_inb C 0x64) k m) 0))
     \<and> (\<forall>tr status v. kbc_output (kbc_after s0 tr) = Some v \<longrightarrow> bit status 0 \<longrightarrow>
           dev_inb (c_device C) (InB 0x64 status # tr) 0x60 = v)"

lemma kbc_reads: "kbc_after s0 (rev (map (InB 0x64) vs) @ tr) = kbc_after s0 tr"
proof (induction vs arbitrary: tr)
  case (Cons v vs)
  show ?case using Cons [of "InB 0x64 v # tr"] by simp
qed simp

lemma kbc_wait [simp]:
  "kbc_after s0 (m_trace (snd (wait_tx C m))) = kbc_after s0 (m_trace m)"
  "kbc_after s0 (m_trace (snd (wait_rx C m))) = kbc_after s0 (m_trace m)"
  using wait_reads(1) [of C m] wait_reads(2) [of C m] by (auto simp: kbc_reads)

lemma kbc_io [simp]:
  "kbc_after s0 (m_trace (m_outb i8042_COMMAND v m)) = kbc_does v (kbc_after s0 (m_trace m))"
  "kbc_after s0 (m_trace (m_outb i8042_DATA v m)) = (let s = kbc_after s0 (m_trace m) in
     if kbc_writing s then s\<lparr>kbc_command := v, kbc_writing := False\<rparr> else s)"
  "kbc_after s0 (m_trace (snd (m_inb C i8042_DATA m))) = (kbc_after s0 (m_trace m))\<lparr>kbc_output := None\<rparr>"
  by (simp_all add: m_outb_eq snd_inb i8042_COMMAND_def i8042_DATA_def Let_def)

lemma kbc_commands [simp]:
  "kbc_does 0x20 s = s\<lparr>kbc_writing := False, kbc_output := Some (kbc_command s)\<rparr>"
  "kbc_does 0x60 s = s\<lparr>kbc_writing := True\<rparr>"
  "kbc_does 0xAA s = s\<lparr>kbc_writing := False, kbc_output := Some 0x55\<rparr>"
  "kbc_does 0xAD s = s\<lparr>kbc_writing := False, kbc_command := kbc_command s OR 0x10\<rparr>"
  "kbc_does 0xAE s = s\<lparr>kbc_writing := False, kbc_command := kbc_command s AND NOT 0x10\<rparr>"
  "kbc_does 0xA7 s = s\<lparr>kbc_writing := False, kbc_command := kbc_command s OR 0x20\<rparr>"
  "kbc_does 0xA8 s = s\<lparr>kbc_writing := False, kbc_command := kbc_command s AND NOT 0x20\<rparr>"
  by (simp_all add: kbc_does_def)

lemma kbc_flush [simp]:
  "kbc_after s0 (m_trace (flush_data C m)) = (kbc_after s0 (m_trace m))\<lparr>kbc_output := None\<rparr>"
proof -
  have "kbc_after s0 (m_trace (asked (m_inb C i8042_DATA) (Suc k) m)) =
      (kbc_after s0 (m_trace m))\<lparr>kbc_output := None\<rparr>" for k
    by (induction k) (simp_all only: asked_snoc kbc_io, simp_all)
  from this [of 255] show ?thesis by (simp add: flush_asked del: asked.simps)
qed

lemma works_tx:
  assumes "works_as_8042 C s0"
  shows "fst (wait_tx C m)"
  unfolding wait_tx_def using assms
  by (subst wait_tx_loop.simps)
    (simp add: m_inb_eq status_bits works_as_8042_def i8042_STATUS_def Let_def)

lemma works_rx:
  assumes "works_as_8042 C s0" and "kbc_output (kbc_after s0 (m_trace m)) \<noteq> None"
  shows "fst (wait_rx C m)"
    and "fst (m_inb C i8042_DATA (snd (wait_rx C m))) = the (kbc_output (kbc_after s0 (m_trace m)))"
proof -
  obtain k where k: "k < 0x2000" "bit (answer (m_inb C i8042_STATUS) k m) 0"
    using assms by (auto simp: works_as_8042_def i8042_STATUS_def)
  have "unat (0x2000 :: u32) = 0x2000" by simp
  with rx.loop_outcome [where C = C and n = "0x2000" and s = m] k
  show ok: "fst (wait_rx C m)"
    unfolding wait_rx_def status_bits not_not by metis
  obtain vs where vs: "waited (\<lambda>v. bit v 0) vs (fst (wait_rx C m))"
    and tr: "m_trace (snd (wait_rx C m)) = rev (map (InB 0x64) vs) @ m_trace m"
    using wait_reads(2) [of C m] by auto
  obtain us v where us: "vs = us @ [v]" and v: "bit v 0"
    using vs ok by (cases vs rule: rev_cases) (auto simp: waited_def)
  have "kbc_output (kbc_after s0 (rev (map (InB 0x64) us) @ m_trace m)) =
      Some (the (kbc_output (kbc_after s0 (m_trace m))))"
    using assms(2) by (auto simp: kbc_reads)
  then show "fst (m_inb C i8042_DATA (snd (wait_rx C m))) = the (kbc_output (kbc_after s0 (m_trace m)))"
    using assms(1) v by (simp add: m_inb_eq tr us works_as_8042_def i8042_DATA_def Let_def)
qed

lemma works_selftest:
  assumes "works_as_8042 C s0" and "kbc_after s0 (m_trace m) = s"
  shows "kbc_after s0 (m_trace (i8042_selftest C m)) =
      \<lparr>kbc_command = kbc_command s AND NOT 0x30, kbc_output = None, kbc_writing = False\<rparr>"
    and "sent (m_trace (i8042_selftest C m)) =
      sent (m_trace m) @ [(i8042_COMMAND, 0xAA), (i8042_COMMAND, 0xAE), (i8042_COMMAND, 0xA8)]"
proof -
  let ?n = "m_outb i8042_COMMAND 0xAA m"
  have n: "kbc_after s0 (m_trace ?n) = s\<lparr>kbc_writing := False, kbc_output := Some 0x55\<rparr>"
    by (simp add: assms(2))
  then have "fst (wait_rx C ?n)" "fst (m_inb C i8042_DATA (snd (wait_rx C ?n))) = i8042_RSP_TEST_OKAY"
    using works_rx [OF assms(1), of ?n] by (simp_all add: i8042_RSP_TEST_OKAY_def)
  then have run: "i8042_selftest C m = (let m = snd (m_inb C i8042_DATA (snd (wait_rx C ?n)));
      m = m_puts (nl ''Selftest completed.'') m;
      m = m_puts (if has_secondary_channel m then nl ''Single channel controller.''
                  else nl ''Dual channel controller.'') m
      in m_outb i8042_COMMAND 0xA8 (m_outb i8042_COMMAND 0xAE (snd (wait_tx C m))))"
    by (simp add: i8042_selftest_def Let_def case_prod_beta' works_tx [OF assms(1)]
        i8042_CMD_TEST_def i8042_CMD_ENABLE_A_def i8042_CMD_ENABLE_B_def)
  have bits: "(x AND NOT 0x10) AND NOT 0x20 = x AND NOT 0x30" for x :: u8
    by (simp add: and.assoc)
  show "kbc_after s0 (m_trace (i8042_selftest C m)) =
      \<lparr>kbc_command = kbc_command s AND NOT 0x30, kbc_output = None, kbc_writing = False\<rparr>"
    unfolding run by (simp add: assms(2) bits [simplified] Let_def)
  show "sent (m_trace (i8042_selftest C m)) =
      sent (m_trace m) @ [(i8042_COMMAND, 0xAA), (i8042_COMMAND, 0xAE), (i8042_COMMAND, 0xA8)]"
    unfolding run by (simp add: sent_outb Let_def)
qed

definition setup_sequence :: "u8 \<Rightarrow> (u16 \<times> u8) list" where
  "setup_sequence v =
     [(0x64, 0xAD), (0x64, 0xA7), (0x64, 0x20), (0x64, 0x60), (0x60, v),
      (0x64, 0xAA), (0x64, 0xAE), (0x64, 0xA8)]"

lemma works_setup:
  assumes "works_as_8042 C s0" and "kbc_command (kbc_after s0 (m_trace m)) = cb"
  shows "kbc_after s0 (m_trace (i8042_setup C m)) =
      \<lparr>kbc_command = cb AND NOT 0x30, kbc_output = None, kbc_writing = False\<rparr>"
    and "sent (m_trace (i8042_setup C m)) = sent (m_trace m) @ setup_sequence (cb OR 0x30)"
proof -
  note tx = works_tx [OF assms(1)]
  let ?n = "m_outb i8042_COMMAND 0x20 (flush_data C (snd (wait_tx C (m_outb i8042_COMMAND 0xA7
      (snd (wait_tx C (m_outb i8042_COMMAND 0xAD m)))))))"
  have bits: "(x OR 0x10) OR 0x20 = x OR 0x30" for x :: u8
    by (simp add: or.assoc)
  have n: "kbc_after s0 (m_trace ?n) =
      \<lparr>kbc_command = cb OR 0x30, kbc_output = Some (cb OR 0x30), kbc_writing = False\<rparr>"
    using assms(2) by (simp add: bits)
  have sent: "sent (m_trace ?n) = sent (m_trace m) @ [(0x64, 0xAD), (0x64, 0xA7), (0x64, 0x20)]"
    by (simp add: sent_outb) (simp add: i8042_COMMAND_def)
  have rx: "fst (wait_rx C ?n)" "fst (m_inb C i8042_DATA (snd (wait_rx C ?n))) = cb OR 0x30"
    using works_rx [OF assms(1), of ?n] unfolding n by simp_all
  let ?k = "snd (wait_tx C (snd (m_inb C i8042_DATA (snd (wait_rx C ?n)))))"
  let ?l = "m_puts (nl ''So far so good for PS/2!'') (snd (wait_tx C (m_outb i8042_DATA (cb OR 0x30)
      (snd (wait_tx C (m_outb i8042_COMMAND 0x60 ?k))))))"
  have run: "i8042_setup C m = i8042_selftest C ?l"
    using rx by (simp add: i8042_setup_def i8042_write_back_def Let_def case_prod_beta' tx
        i8042_CMD_DISABLE_A_def i8042_CMD_DISABLE_B_def i8042_CMD_READ_def i8042_CMD_WRITE_def)
  have k: "kbc_after s0 (m_trace ?k) =
      \<lparr>kbc_command = cb OR 0x30, kbc_output = None, kbc_writing = False\<rparr>"
    by (simp only: kbc_wait kbc_io(3) n) simp
  have l: "kbc_after s0 (m_trace ?l) =
      \<lparr>kbc_command = cb OR 0x30, kbc_output = None, kbc_writing = False\<rparr>"
    "sent (m_trace ?l) = sent (m_trace ?n) @ [(0x64, 0x60), (0x60, cb OR 0x30)]"
  proof -
    have "kbc_after s0 (m_trace (m_outb i8042_COMMAND 0x60 ?k)) =
        \<lparr>kbc_command = cb OR 0x30, kbc_output = None, kbc_writing = True\<rparr>"
      unfolding kbc_io k by simp
    then show "kbc_after s0 (m_trace ?l) =
        \<lparr>kbc_command = cb OR 0x30, kbc_output = None, kbc_writing = False\<rparr>"
      unfolding m_print_parts kbc_wait kbc_io(2) by simp
    show "sent (m_trace ?l) = sent (m_trace ?n) @ [(0x64, 0x60), (0x60, cb OR 0x30)]"
      by (simp add: sent_outb) (simp add: i8042_COMMAND_def i8042_DATA_def)
  qed
  show "kbc_after s0 (m_trace (i8042_setup C m)) =
      \<lparr>kbc_command = cb AND NOT 0x30, kbc_output = None, kbc_writing = False\<rparr>"
    unfolding run works_selftest(1) [OF assms(1) l(1)] by (simp add: word_ao_dist)
  show "sent (m_trace (i8042_setup C m)) = sent (m_trace m) @ setup_sequence (cb OR 0x30)"
    unfolding run works_selftest(2) [OF assms(1) l(1)] l(2) sent
    by (simp add: setup_sequence_def i8042_COMMAND_def)
qed

section \<open>Properties\<close>

text \<open>
  C14. Both waits return after reading the status port at most 8192 times and doing nothing
  else. They report success exactly when the last status read has the bit they wait for
  (input buffer free, output buffer full), no earlier read had it, and a failure only
  after all 8192 reads.
\<close>

theorem i8042_waits_bounded:
  "(\<exists>k \<le> 0x2000. snd (wait_tx C m) = asked (m_inb C i8042_STATUS) k m
      \<and> list_all (\<lambda>j. bit (answer (m_inb C i8042_STATUS) j m) 1) [0..<k - 1]
      \<and> (if fst (wait_tx C m) then 0 < k \<and> \<not> bit (answer (m_inb C i8042_STATUS) (k - 1) m) 1
         else k = 0x2000 \<and> bit (answer (m_inb C i8042_STATUS) (k - 1) m) 1))
   \<and> (\<exists>k \<le> 0x2000. snd (wait_rx C m) = asked (m_inb C i8042_STATUS) k m
      \<and> list_all (\<lambda>j. \<not> bit (answer (m_inb C i8042_STATUS) j m) 0) [0..<k - 1]
      \<and> (if fst (wait_rx C m) then 0 < k \<and> bit (answer (m_inb C i8042_STATUS) (k - 1) m) 0
         else k = 0x2000 \<and> \<not> bit (answer (m_inb C i8042_STATUS) (k - 1) m) 0))"
  using tx.loop_outcome [where C = C and n = "0x2000" and s = m]
    rx.loop_outcome [where C = C and n = "0x2000" and s = m]
  unfolding wait_tx_def [symmetric] wait_rx_def [symmetric] status_bits
  by (auto simp: list_all_iff split: if_splits)

text \<open>
  C19. The interrupt handler, whatever the controller answers. With no data it reads the
  status and stops. A byte other than 0xE0 goes to \<open>keyboard_handle\<close>; after 0xE0 it takes
  one byte more, and the pair changes neither the modifiers nor the screen.
\<close>

theorem i8042_irq_branches:
  "let tr = m_trace m; E = c_device C;
       status = dev_inb E tr 0x64; tr1 = InB 0x64 status # tr;
       b = dev_inb E tr1 0x60; tr2 = InB 0x60 b # tr1;
       b2 = dev_inb E tr2 0x60; tr3 = InB 0x60 b2 # tr2;
       (kb, t) = keyboard_handle (ucast b) (m_keyboard m, m_terminal m)
   in i8042_irq C args m =
       (if \<not> bit status 0 then m\<lparr>m_trace := tr1\<rparr>
        else if b = 0xE0 then m\<lparr>m_trace := tr3\<rparr>
        else m\<lparr>m_trace := tr2, m_keyboard := kb, m_terminal := t\<rparr>)"
proof -
  have tbf: "ucast (b :: u8) = KEYBOARD_TBF \<longleftrightarrow> b = 0xE0" for b
  proof -
    have "unat b mod 65536 = unat b" by (intro mod_less less_trans [OF unat_less_of(1)]) simp
    then show ?thesis unfolding KEYBOARD_TBF_def word_eq_iff_unat unat_ucast_mod by simp
  qed
  have pair: "keyboard_handle (push_bit 8 KEYBOARD_TBF OR ucast (b2 :: u8)) (kb, t) = (kb, t)" for b2 kb t
    by (simp add: handle_cases two_byte_prefix)
  show ?thesis
    unfolding i8042_irq_def m_inb_eq i8042_COMMAND_def i8042_DATA_def Let_def prod.case status_bits
    using tbf pair pair [simplified KEYBOARD_TBF_def, simplified]
    by (cases m) (auto split: prod.split)
qed

text \<open>
  C15. What \<open>i8042_init\<close> does, on any hardware: it registers the keyboard handler for vector 33,
  unmasks line 1, holds the conversation with the controller, and changes nothing else
  but the screen. The conversation is disable both ports, flush, read the command byte, write
  back the byte that was read, test, enable both ports; it stops with its message at the first
  wait whose 8192 status reads fail and at a wrong result of the self test, and nowhere else.
  What is read is what the hardware answers.
\<close>

theorem i8042_init_commands:
  assumes "length (handlers m) = 256"
  shows "\<exists>tr evs out. pic_enable_line (c_device C) 1 (m_trace m) = Some tr
     \<and> conversed (i8042_conversation (has_secondary_channel m)) 0 evs out
     \<and> answered (c_device C) tr evs
     \<and> i8042_init C m = Some (m\<lparr>
          m_terminal := terminal_putbytes (literal_bytes (nl ''i8042!'') @ out) (m_terminal m),
          handlers := (handlers m)[33 := Some I8042_irq], m_trace := rev evs @ tr\<rparr>)"
proof -
  obtain tr where tr: "pic_enable_line (c_device C) 1 (m_trace m) = Some tr"
    by (simp add: pic_enable_line_def int_bit_def inb_def Let_def)
  have second: "has_secondary_channel (i8042_start C m) = has_secondary_channel m"
    by (simp add: i8042_start_def)
  obtain evs out where "conversed (i8042_conversation (has_secondary_channel m)) 0 evs out"
    and "answered (c_device C) tr evs"
    and "i8042_setup C (i8042_start C m) = (i8042_start C m)\<lparr>
      m_terminal := terminal_putbytes out (m_terminal (i8042_start C m)), m_trace := rev evs @ tr\<rparr>"
    using setup_follows [of C "i8042_start C m" 0] second
    by (auto simp: follows_def i8042_start_def tr)
  then show ?thesis
    by (intro exI [of _ tr] exI [of _ evs] exI [of _ out] conjI)
      (simp_all add: tr i8042_init_start [OF assms] i8042_start_def)
qed

definition demo_kbc :: kbc where
  "demo_kbc = \<lparr>kbc_command = 0x45, kbc_output = Some 0x1C, kbc_writing = False\<rparr>"

definition demo_controller :: config where
  "demo_controller = \<lparr>c_image = demo_image, c_pages = demo_page_image, i686_USE_APIC = False,
     c_device = demo_device\<lparr>dev_inb := \<lambda>tr port. case kbc_output (kbc_after demo_kbc tr) of
       None \<Rightarrow> 0 | Some v \<Rightarrow> if port = 0x64 then 1 else v\<rparr>\<rparr>"

theorem i8042_init_commands_witness:
  "\<exists>m'. i8042_init demo_controller demo_machine = Some m' \<and> handlers m' ! 33 = Some I8042_irq"
  using i8042_init_commands [of demo_machine demo_controller] by (auto simp: demo_machine_def)



end
