(* ===== verification/Pci.thy ===== *)
theory Pci
  imports Machine
begin

text \<open>
  The PCI scan: src/src/sys/arch/i686/drv/pci/pci.c. Configuration space is reached
  through an address port and a data port. The scan reads the identification of every
  function of every device of the buses 0 to 254 and prints a line for each one found.
\<close>

section \<open>Configuration space\<close>

text \<open>The value of \<open>conval\<close>, built in the same way by both access functions.\<close>

definition conval :: "u8 \<Rightarrow> u8 \<Rightarrow> u8 \<Rightarrow> u8 \<Rightarrow> u32" where
  "conval busid devid func offset =
     (let c = push_bit 31 1;
          c = c OR push_bit 16 (ucast busid);
          c = c OR push_bit 11 (ucast devid AND 0x1F);
          c = c OR push_bit 8 (ucast func AND 0x03)
      in c OR (ucast offset AND 0xFC))"

definition read_pci_config :: "config \<Rightarrow> u8 \<Rightarrow> u8 \<Rightarrow> u8 \<Rightarrow> u8 \<Rightarrow> machine \<Rightarrow> u32 \<times> machine" where
  "read_pci_config C busid devid func offset m =
     (let m = m_outl 0xCF8 (conval busid devid func offset) m
      in m_inl C 0xCFC m)"

definition write_pci_config :: "u8 \<Rightarrow> u8 \<Rightarrow> u8 \<Rightarrow> u8 \<Rightarrow> u32 \<Rightarrow> machine \<Rightarrow> machine" where
  "write_pci_config busid devid func offset val m =
     (let m = m_outl 0xCF8 (conval busid devid func offset) m
      in m_outl 0xCFC val m)"

section \<open>The scan\<close>

definition pHex :: string where "pHex = ''  0x''"

text \<open>The body of the loop over functions; the Boolean says that it ends in \<open>break\<close>.\<close>

definition scan_function :: "config \<Rightarrow> u8 \<Rightarrow> u8 \<Rightarrow> u8 \<Rightarrow> machine \<Rightarrow> bool \<times> machine" where
  "scan_function C busid devid func m =
     (let (value, m) = read_pci_config C busid devid func 0x0 m;
          device_id = (ucast (drop_bit 16 value) :: u16);
          vendor_id = (ucast (value AND 0xFFFF) :: u16)
      in if vendor_id = 0xFFFF then (False, m)
      else let
          (value, m) = read_pci_config C busid devid func 0x8 m;
          device_class = (ucast (drop_bit 24 value) :: u8);
          device_subclass = (ucast (drop_bit 16 value AND 0xFF) :: u8);
          (value, m) = read_pci_config C busid devid func 0xC m;
          header_type = (ucast (drop_bit 16 value AND 0xFF) :: u8);
          m = m_puts pHex m;
          m = m_hexdigits busid m;
          m = m_puts pHex m;
          m = m_hexdigits devid m;
          m = m_puts pHex m;
          m = m_hexdigits (ucast (drop_bit 8 vendor_id)) m;
          m = m_hexdigits (ucast (vendor_id AND 0xFF)) m;
          m = m_puts pHex m;
          m = m_hexdigits (ucast (drop_bit 8 device_id)) m;
          m = m_hexdigits (ucast (device_id AND 0xFF)) m;
          m = m_puts pHex m;
          m = m_hexdigits device_class m;
          m = m_puts pHex m;
          m = m_hexdigits device_subclass m;
          m = m_puts pHex m;
          m = m_hexdigits header_type m;
          m = m_putchar 0x0A m;
          m = (if device_class = 0x06 \<and> device_subclass = 0x04 then
                 let (value, m) = read_pci_config C busid devid func 0x18 m
                 in m_puts (nl ''Found PCI-PCI bridge...'') m
               else m)
      in (header_type AND 0x80 = 0, m))"

lemma unat_next: "i < n \<Longrightarrow> unat (i + 1) = Suc (unat (i :: u8))"
proof -
  assume "i < n"
  then have "unat i < unat n" by (simp add: word_less_nat_alt)
  with unat_less_of(1) [of n] have "unat i + 1 < 256" by linarith
  then show ?thesis by (subst unat_add_small) simp_all
qed

lemma measure_up: "i < n \<Longrightarrow> unat (n :: u8) - unat (i + 1) < unat n - unat i"
  by (simp add: unat_next word_less_nat_alt diff_less_mono2)

function scan_functions :: "config \<Rightarrow> u8 \<Rightarrow> u8 \<Rightarrow> u8 \<Rightarrow> machine \<Rightarrow> machine" where
  "scan_functions C busid devid func m =
     (if func < 8 then
        let (stop, m) = scan_function C busid devid func m
        in if stop then m else scan_functions C busid devid (func + 1) m
      else m)"
  by pat_completeness auto
termination
  by (relation "measure (\<lambda>(C, busid, devid, func, m). 8 - unat func)")
    (use measure_up [where n = 8] in auto)

function scan_devices :: "config \<Rightarrow> u8 \<Rightarrow> u8 \<Rightarrow> machine \<Rightarrow> machine" where
  "scan_devices C busid devid m =
     (if devid < 0x20 then scan_devices C busid (devid + 1) (scan_functions C busid devid 0 m) else m)"
  by pat_completeness auto
termination
  by (relation "measure (\<lambda>(C, busid, devid, m). 0x20 - unat devid)")
    (use measure_up [where n = "0x20"] in auto)

definition scan_pci_bus :: "config \<Rightarrow> u8 \<Rightarrow> machine \<Rightarrow> machine" where
  "scan_pci_bus C busid m = scan_devices C busid 0 m"

function scan_buses :: "config \<Rightarrow> u8 \<Rightarrow> machine \<Rightarrow> machine" where
  "scan_buses C busid m =
     (if busid < 0xFF then scan_buses C (busid + 1) (scan_pci_bus C busid m) else m)"
  by pat_completeness auto
termination
  by (relation "measure (\<lambda>(C, busid, m). 0xFF - unat busid)")
    (use measure_up [where n = "0xFF"] in auto)

declare scan_functions.simps [simp del] scan_devices.simps [simp del] scan_buses.simps [simp del]

definition pci_init :: "config \<Rightarrow> machine \<Rightarrow> machine" where
  "pci_init C m =
     (let m = m_puts (nl '' busID nDev vendID  devID   clas  scls  htype'') m
      in scan_buses C 0 m)"

section \<open>Counting loops\<close>

text \<open>
  A loop over an 8-bit counter up to a bound, whose body may end it early, is a run over
  the list of the numbers.
\<close>

fun run_until :: "('i \<Rightarrow> 's \<Rightarrow> bool \<times> 's) \<Rightarrow> 'i list \<Rightarrow> 's \<Rightarrow> 's" where
  "run_until body [] s = s"
| "run_until body (i # is) s =
     (let (stop, s) = body i s in if stop then s else run_until body is s)"

locale counting_loop =
  fixes loop :: "u8 \<Rightarrow> 's \<Rightarrow> 's" and body :: "u8 \<Rightarrow> 's \<Rightarrow> bool \<times> 's" and bound :: u8
  assumes loop_step: "loop i s =
      (if i < bound then let (stop, s') = body i s in if stop then s' else loop (i + 1) s' else s)"
begin

lemma loop_run: "loop i s = run_until body (map of_nat [unat i..<unat bound]) s"
proof (induction "unat bound - unat i" arbitrary: i s)
  case 0
  then have "\<not> i < bound" by (simp add: word_less_nat_alt)
  then show ?case using 0 by (subst loop_step) simp
next
  case (Suc k)
  then have i: "i < bound" and u: "unat i < unat bound" by (simp_all add: word_less_nat_alt)
  have s: "unat (i + 1) = Suc (unat i)" by (rule unat_next [OF i])
  have "map of_nat [unat i..<unat bound] = i # map of_nat [unat (i + 1)..<unat bound]"
    using u by (simp add: upt_conv_Cons s)
  moreover have "loop (i + 1) s' = run_until body (map of_nat [unat (i + 1)..<unat bound]) s'" for s'
    using Suc(2) s u by (intro Suc(1)) simp
  ultimately show ?case using i by (subst loop_step) (simp split: prod.split)
qed

end

interpretation func_loop: counting_loop "scan_functions C busid devid" "scan_function C busid devid" 8
  by unfold_locales (subst scan_functions.simps, simp)

interpretation dev_loop: counting_loop "scan_devices C busid"
    "\<lambda>devid m. (False, scan_functions C busid devid 0 m)" "0x20"
  by unfold_locales (subst scan_devices.simps, simp)

interpretation bus_loop: counting_loop "scan_buses C" "\<lambda>busid m. (False, scan_pci_bus C busid m)" "0xFF"
  by unfold_locales (subst scan_buses.simps, simp)

lemma run_until_fold: "run_until (\<lambda>i s. (False, f i s)) is s = fold f is s"
  by (induction "is" arbitrary: s) simp_all

lemma pci_init_fold:
  "pci_init C m = fold (\<lambda>busid. fold (\<lambda>devid. run_until (scan_function C busid devid) (map of_nat [0..<8]))
       (map of_nat [0..<32])) (map of_nat [0..<255])
     (m_puts (nl '' busID nDev vendID  devID   clas  scls  htype'') m)"
  by (simp add: pci_init_def bus_loop.loop_run scan_pci_bus_def dev_loop.loop_run func_loop.loop_run
      run_until_fold del: upt_Suc)

section \<open>What the scan should report\<close>

text \<open>
  The host bridge answers a read of the data port from the configuration space, at the
  address written to the address port just before.
\<close>

definition config_space :: "config \<Rightarrow> (u32 \<Rightarrow> u32) \<Rightarrow> bool" where
  "config_space C space \<longleftrightarrow>
     (\<forall>tr a. dev_inl (c_device C) (OutL 0xCF8 a # tr) 0xCFC = space a)"

definition dword :: "(u32 \<Rightarrow> u32) \<Rightarrow> u8 \<times> u8 \<times> u8 \<Rightarrow> u8 \<Rightarrow> u32" where
  "dword space = (\<lambda>(b, d, f) off. space (conval b d f off))"

definition vendor_of :: "(u32 \<Rightarrow> u32) \<Rightarrow> u8 \<times> u8 \<times> u8 \<Rightarrow> u16" where
  "vendor_of space bdf = ucast (dword space bdf 0)"
definition device_of :: "(u32 \<Rightarrow> u32) \<Rightarrow> u8 \<times> u8 \<times> u8 \<Rightarrow> u16" where
  "device_of space bdf = ucast (drop_bit 16 (dword space bdf 0))"
definition class_of :: "(u32 \<Rightarrow> u32) \<Rightarrow> u8 \<times> u8 \<times> u8 \<Rightarrow> u8" where
  "class_of space bdf = ucast (drop_bit 24 (dword space bdf 8))"
definition subclass_of :: "(u32 \<Rightarrow> u32) \<Rightarrow> u8 \<times> u8 \<times> u8 \<Rightarrow> u8" where
  "subclass_of space bdf = ucast (drop_bit 16 (dword space bdf 8))"
definition header_of :: "(u32 \<Rightarrow> u32) \<Rightarrow> u8 \<times> u8 \<times> u8 \<Rightarrow> u8" where
  "header_of space bdf = ucast (drop_bit 16 (dword space bdf 12))"

definition present :: "(u32 \<Rightarrow> u32) \<Rightarrow> u8 \<times> u8 \<times> u8 \<Rightarrow> bool" where
  "present space bdf \<longleftrightarrow> vendor_of space bdf \<noteq> 0xFFFF"
definition multifunction :: "(u32 \<Rightarrow> u32) \<Rightarrow> u8 \<times> u8 \<times> u8 \<Rightarrow> bool" where
  "multifunction space bdf \<longleftrightarrow> bit (header_of space bdf) 7"

definition hex_half :: "u16 \<Rightarrow> u8 list" where
  "hex_half w = hex_byte (ucast (drop_bit 8 w)) @ hex_byte (ucast w)"

definition function_fields :: "(u32 \<Rightarrow> u32) \<Rightarrow> u8 \<times> u8 \<times> u8 \<Rightarrow> u8 list" where
  "function_fields space bdf =
     concat (map (\<lambda>h. bytes pHex @ h)
       [hex_byte (fst bdf), hex_byte (fst (snd bdf)), hex_half (vendor_of space bdf),
        hex_half (device_of space bdf), hex_byte (class_of space bdf),
        hex_byte (subclass_of space bdf), hex_byte (header_of space bdf)])"

definition function_line :: "(u32 \<Rightarrow> u32) \<Rightarrow> u8 \<times> u8 \<times> u8 \<Rightarrow> u8 list" where
  "function_line space bdf = function_fields space bdf
     @ [10] @ (if class_of space bdf = 6 \<and> subclass_of space bdf = 4
               then bytes (nl ''Found PCI-PCI bridge...'') else [])"

text \<open>
  The functions of a device that are reported: those present, up to the first that says
  it is the only one.
\<close>

definition reported :: "(u32 \<Rightarrow> u32) \<Rightarrow> u8 \<Rightarrow> u8 \<Rightarrow> u8 list \<Rightarrow> (u8 \<times> u8 \<times> u8) list" where
  "reported space b d fs =
     (let ps = filter (present space) (map (\<lambda>f. (b, d, f)) fs)
      in takeWhile (multifunction space) ps @ take 1 (dropWhile (multifunction space) ps))"

definition pci_report :: "(u32 \<Rightarrow> u32) \<Rightarrow> u8 list" where
  "pci_report space =
     bytes (nl '' busID nDev vendID  devID   clas  scls  htype'') @
     concat (map (\<lambda>b. concat (map (\<lambda>d.
       concat (map (function_line space) (reported space b d (map of_nat [0..<8]))))
       (map of_nat [0..<32]))) (map of_nat [0..<255]))"

section \<open>The scan prints the report\<close>

definition config_read :: "io_event \<Rightarrow> bool" where
  "config_read e \<longleftrightarrow> (case e of OutL port _ \<Rightarrow> port = 0xCF8 | InL port _ \<Rightarrow> port = 0xCFC | _ \<Rightarrow> False)"

abbreviation scans :: "u8 list \<Rightarrow> machine \<Rightarrow> machine \<Rightarrow> bool" where
  "scans \<equiv> does config_read"

lemma read_config:
  assumes "config_space C space"
  shows "fst (read_pci_config C b d f off m) = dword space (b, d, f) off"
    and "scans bs n m \<Longrightarrow> scans bs n (snd (read_pci_config C b d f off m))"
proof -
  have r: "read_pci_config C b d f off m =
      (dword space (b, d, f) off, m\<lparr>m_trace := InL 0xCFC (dword space (b, d, f) off)
        # OutL 0xCF8 (conval b d f off) # m_trace m\<rparr>)"
    using assms by (simp add: read_pci_config_def config_space_def dword_def m_outl_def m_do_def
        m_inl_def m_ask_def outl_def inl_def Let_def)
  then show "fst (read_pci_config C b d f off m) = dword space (b, d, f) off" by simp
  have "scans [] m (snd (read_pci_config C b d f off m))"
    unfolding does_def r
    by (intro exI [of _ "[InL 0xCFC (dword space (b, d, f) off), OutL 0xCF8 (conval b d f off)]"])
      (simp add: config_read_def terminal_putbytes_def)
  then show "scans bs n m \<Longrightarrow> scans bs n (snd (read_pci_config C b d f off m))"
    using does_trans by force
qed

lemma cut_fields:
  "(ucast (v AND 0xFFFF :: u32) :: u16) = ucast v"
  "(ucast (drop_bit 16 v AND 0xFF :: u32) :: u8) = ucast (drop_bit 16 v)"
  "(ucast (w AND 0xFF :: u16) :: u8) = ucast w"
  "(h :: u8) AND 0x80 = 0 \<longleftrightarrow> \<not> bit h 7"
proof -
  have m: "(0xFFFF :: u32) = mask 16" "(0xFF :: u32) = mask 8" "(0xFF :: u16) = mask 8"
    by (simp_all add: mask_eq_exp_minus_1)
  show "(ucast (v AND 0xFFFF :: u32) :: u16) = ucast v"
    "(ucast (drop_bit 16 v AND 0xFF :: u32) :: u8) = ucast (drop_bit 16 v)"
    "(ucast (w AND 0xFF :: u16) :: u8) = ucast w"
    unfolding m by (rule bit_word_eqI; simp add: bit_simps)+
  show "h AND 0x80 = 0 \<longleftrightarrow> \<not> bit h 7"
    using and_exp_eq_0_iff_not_bit [of h 7] by simp
qed

lemma literals:
  "literal_bytes pHex = bytes pHex"
  "literal_bytes (nl ''Found PCI-PCI bridge...'') = bytes (nl ''Found PCI-PCI bridge...'')"
  "literal_bytes (nl '' busID nDev vendID  devID   clas  scls  htype'') =
   bytes (nl '' busID nDev vendID  devID   clas  scls  htype'')"
  by (simp_all add: literal_bytes_def bytes_def nl_def pHex_def)

lemma scan_function_spec:
  assumes "config_space C space"
  shows "fst (scan_function C b d f m) \<longleftrightarrow> present space (b, d, f) \<and> \<not> multifunction space (b, d, f)"
    and "scans (if present space (b, d, f) then function_line space (b, d, f) else [])
      m (snd (scan_function C b d f m))"
proof -
  note simps = scan_function_def Let_def case_prod_beta' cut_fields read_config(1) [OF assms]
  note folds = vendor_of_def [symmetric] device_of_def [symmetric] class_of_def [symmetric]
    subclass_of_def [symmetric] header_of_def [symmetric] present_def [symmetric]
    multifunction_def [symmetric]
  show "fst (scan_function C b d f m) \<longleftrightarrow> present space (b, d, f) \<and> \<not> multifunction space (b, d, f)"
    unfolding simps folds by (auto simp: present_def)
  show "scans (if present space (b, d, f) then function_line space (b, d, f) else [])
      m (snd (scan_function C b d f m))"
  proof (cases "present space (b, d, f)")
    case False
    then show ?thesis
      unfolding simps folds by (simp add: present_def read_config(2) [OF assms] does_refl)
  next
    case True
    then have p: "vendor_of space (b, d, f) \<noteq> 0xFFFF" by (simp add: present_def)
    show ?thesis
    proof (cases "class_of space (b, d, f) = 6 \<and> subclass_of space (b, d, f) = 4")
      case bridge: True
      show ?thesis
        unfolding simps folds if_P [OF True] if_not_P [OF p] if_P [OF bridge] snd_conv
        by (rule does_eq, (rule does_print read_config(2) [OF assms] does_refl)+)
          (simp add: function_line_def function_fields_def bridge literals hex_half_def)
    next
      case no_bridge: False
      show ?thesis
        unfolding simps folds if_P [OF True] if_not_P [OF p] if_not_P [OF no_bridge] snd_conv
        by (rule does_eq, (rule does_print read_config(2) [OF assms] does_refl)+)
          (simp add: function_line_def function_fields_def no_bridge literals hex_half_def)
    qed
  qed
qed

lemma scan_run:
  assumes "config_space C space"
  shows "scans (concat (map (function_line space) (reported space b d fs)))
    m (run_until (scan_function C b d) fs m)"
proof (induction fs arbitrary: m)
  case Nil
  show ?case by (simp add: reported_def does_refl)
next
  case (Cons f fs)
  note spec = scan_function_spec [OF assms, of b d f m]
  let ?n = "snd (scan_function C b d f m)"
  have run: "run_until (scan_function C b d) (f # fs) m =
      (if present space (b, d, f) \<and> \<not> multifunction space (b, d, f) then ?n
       else run_until (scan_function C b d) fs ?n)"
    using spec(1) by (simp add: case_prod_beta' Let_def)
  have rep: "concat (map (function_line space) (reported space b d (f # fs))) =
      (if present space (b, d, f) then function_line space (b, d, f) else []) @
      (if present space (b, d, f) \<and> \<not> multifunction space (b, d, f) then []
       else concat (map (function_line space) (reported space b d fs)))"
    by (simp add: reported_def Let_def)
  show ?case
    unfolding run rep using spec(2) does_trans [OF spec(2) Cons.IH] by auto
qed

lemma scans_fold:
  assumes "\<And>i m. scans (out i) m (f i m)"
  shows "scans (concat (map out ns)) m (fold f ns m)"
proof (induction ns arbitrary: m)
  case Nil
  show ?case by (simp add: does_refl)
next
  case (Cons n ns)
  show ?case using does_trans [OF assms [of n m] Cons.IH] by simp
qed

lemma pci_init_scans:
  assumes "config_space C space"
  shows "scans (pci_report space) m (pci_init C m)"
proof -
  have head: "scans (bytes (nl '' busID nDev vendID  devID   clas  scls  htype''))
      m (m_puts (nl '' busID nDev vendID  devID   clas  scls  htype'') m)"
    by (rule does_eq, rule does_print(1), rule does_refl) (simp add: literals)
  show ?thesis
    unfolding pci_init_fold pci_report_def
    by (intro does_trans [OF head] scans_fold scan_run [OF assms])
qed

section \<open>Addresses\<close>

lemma conval_masks:
  "conval b d f off = push_bit 31 1 OR push_bit 16 (ucast b) OR push_bit 11 (ucast d AND mask 5)
     OR push_bit 8 (ucast f AND mask 2) OR (ucast off AND push_bit 2 (mask 6))"
proof -
  have "(0x1F :: u32) = mask 5" "(0x03 :: u32) = mask 2" "(0xFC :: u32) = push_bit 2 (mask 6)"
    by (simp_all add: mask_eq_exp_minus_1)
  then show ?thesis unfolding conval_def Let_def by (simp only: or.assoc)
qed

lemma func_mask: "(ucast (f + 4 :: u8) :: u32) AND mask 2 = ucast f AND mask 2"
proof -
  have "unat ((ucast (f + 4) :: u32) AND mask 2) = unat (f + 4) mod 4"
    unfolding unat_and_mask unat_ucast_mod by simp (simp add: mod_mod_cancel)
  also have "\<dots> = unat f mod 4"
    unfolding unat_word_ariths by simp (simp add: mod_mod_cancel)
  also have "\<dots> = unat ((ucast f :: u32) AND mask 2)"
    unfolding unat_and_mask unat_ucast_mod by simp (simp add: mod_mod_cancel)
  finally show ?thesis by (simp only: word_eq_iff_unat)
qed

lemma conval_alias: "conval b d (f + 4) off = conval b d f off"
  by (simp only: conval_masks func_mask)

lemma dword_alias: "dword space (b, d, f + 4) off = dword space (b, d, f) off"
  by (simp add: dword_def conval_alias)

lemma fields_alias:
  "vendor_of space (b, d, f + 4) = vendor_of space (b, d, f)"
  "device_of space (b, d, f + 4) = device_of space (b, d, f)"
  "class_of space (b, d, f + 4) = class_of space (b, d, f)"
  "subclass_of space (b, d, f + 4) = subclass_of space (b, d, f)"
  "header_of space (b, d, f + 4) = header_of space (b, d, f)"
  by (simp_all add: vendor_of_def device_of_def class_of_def subclass_of_def header_of_def dword_alias)

lemma line_alias:
  "present space (b, d, f + 4) = present space (b, d, f)"
  "multifunction space (b, d, f + 4) = multifunction space (b, d, f)"
  "function_line space (b, d, f + 4) = function_line space (b, d, f)"
  by (simp_all add: present_def multifunction_def function_line_def function_fields_def fields_alias)

lemma lines_alias:
  "map (function_line space) (filter (present space) (map (\<lambda>f. (b, d, f + 4)) fs)) =
   map (function_line space) (filter (present space) (map (\<lambda>f. (b, d, f)) fs))"
  "list_all (multifunction space) (filter (present space) (map (\<lambda>f. (b, d, f + 4)) fs)) =
   list_all (multifunction space) (filter (present space) (map (\<lambda>f. (b, d, f)) fs))"
  by (induction fs) (simp_all add: line_alias)

section \<open>Properties\<close>

text \<open>
  C11. With a host bridge that answers from a configuration space, \<open>pci_init\<close> prints the
  heading and one line for each function to be reported, of devices 0 to 31 on buses 0 to
  254, and does nothing else but read configuration space.
\<close>

theorem pci_init_reports:
  assumes "config_space C space"
  shows "\<exists>evs. list_all config_read evs \<and>
    pci_init C m = m\<lparr>m_terminal := terminal_putbytes (pci_report space) (m_terminal m),
      m_trace := evs @ m_trace m\<rparr>"
  using pci_init_scans [OF assms, of m] by (simp add: does_def)

text \<open>
  C31. The address of a configuration register: the enable bit, the bus, the device, the
  offset of an aligned register; but of the three bits of the function number only the
  lower two, so the functions 4 to 7 are those 0 to 3.
\<close>

theorem conval_fields:
  "bit (conval b d f off) 31
   \<and> drop_bit 24 (conval b d f off) AND mask 7 = 0
   \<and> ucast (drop_bit 16 (conval b d f off)) = b
   \<and> drop_bit 11 (conval b d f off) AND mask 5 = ucast d AND mask 5
   \<and> drop_bit 8 (conval b d f off) AND mask 3 = ucast f AND mask 2
   \<and> conval b d f off AND mask 8 = ucast off AND push_bit 2 (mask 6)
   \<and> conval b d (f + 4) off = conval b d f off"
proof -
  obtain e :: u32 where e: "e = 1" by blast
  note c = conval_masks [of b d f off, folded e]
  have "bit (conval b d f off) 31" unfolding c by (simp add: e bit_simps)
  moreover have "drop_bit 24 (conval b d f off) AND mask 7 = 0"
    unfolding c by (rule bit_word_eqI) (auto simp: bit_simps dest: bit_imp_le_length)
  moreover have "ucast (drop_bit 16 (conval b d f off)) = b"
    unfolding c by (rule bit_word_eqI) (auto simp: bit_simps dest: bit_imp_le_length)
  moreover have "drop_bit 11 (conval b d f off) AND mask 5 = ucast d AND mask 5"
    unfolding c by (rule bit_word_eqI) (auto simp: bit_simps dest: bit_imp_le_length)
  moreover have "drop_bit 8 (conval b d f off) AND mask 3 = ucast f AND mask 2"
    unfolding c by (rule bit_word_eqI) (auto simp: bit_simps dest: bit_imp_le_length)
  moreover have "conval b d f off AND mask 8 = ucast off AND push_bit 2 (mask 6)"
    unfolding c by (rule bit_word_eqI) (auto simp: bit_simps dest: bit_imp_le_length)
  ultimately show ?thesis using conval_alias by blast
qed

text \<open>
  C30. The scan lists a multifunction device twice. With a host bridge that answers from a
  configuration space, let all functions among 0 to 3 of a device that are present say that
  there are more: the loop over its functions prints the lines of these functions, and then the
  same lines again, for the functions 4 to 7, which the code can not address.
\<close>

theorem multifunction_listed_twice:
  assumes "config_space C space"
    and "ps = filter (present space) [(b, d, 0), (b, d, 1), (b, d, 2), (b, d, 3)]"
    and "list_all (multifunction space) ps"
  shows "\<exists>evs ls. list_all config_read evs \<and> ls = concat (map (function_line space) ps)
    \<and> scan_functions C b d 0 m = m\<lparr>m_terminal := terminal_putbytes (ls @ ls) (m_terminal m),
        m_trace := evs @ m_trace m\<rparr>"
proof -
  let ?qs = "filter (present space) (map (\<lambda>f. (b, d, f + 4)) [0, 1, 2, 3])"
  have ps: "ps = filter (present space) (map (\<lambda>f. (b, d, f)) [0, 1, 2, 3])" by (simp add: assms(2))
  have whole: "takeWhile P xs @ take 1 (dropWhile P xs) = xs" if "list_all P xs" for P and xs :: "(u8 \<times> u8 \<times> u8) list"
    using that by (simp add: list_all_iff takeWhile_eq_all_conv [THEN iffD2] dropWhile_eq_Nil_conv [THEN iffD2])
  have fs: "map of_nat [0..<8] = [0, 1, 2, 3 :: u8] @ map (\<lambda>f. f + 4) [0, 1, 2, 3]"
    by (simp add: upt_conv_Cons)
  have map_q: "map (function_line space) ?qs = map (function_line space) ps"
    and all_q: "list_all (multifunction space) ?qs"
    using assms(3) unfolding ps by (simp_all only: lines_alias)
  have split: "filter (present space) (map (\<lambda>f. (b, d, f)) (map of_nat [0..<8])) = ps @ ?qs"
    unfolding fs ps by simp
  have "list_all (multifunction space) (ps @ ?qs)" using assms(3) all_q by (simp add: list_all_append)
  then have rep: "map (function_line space) (reported space b d (map of_nat [0..<8])) =
      map (function_line space) ps @ map (function_line space) ps"
    unfolding reported_def Let_def split by (simp only: whole map_append map_q)
  have "scan_functions C b d 0 m = run_until (scan_function C b d) (map of_nat [0..<8]) m"
    by (simp add: func_loop.loop_run del: upt_Suc)
  then show ?thesis
    using scan_run [OF assms(1), of b d "map of_nat [0..<8]" m]
    unfolding rep by (auto simp: does_def)
qed

text \<open>A bus with one device, of two functions: a host bridge and a PCI bridge.\<close>

definition demo_space :: "u32 \<Rightarrow> u32" where
  "demo_space a =
     (if a = 0x80000000 \<or> a = 0x80000100 then 0x12378086
      else if a = 0x80000008 then 0x06000000 else if a = 0x80000108 then 0x06040000
      else if a = 0x8000000C \<or> a = 0x8000010C then 0x00800000
      else 0xFFFFFFFF)"

definition demo_pci :: config where
  "demo_pci = \<lparr>c_image = demo_image, c_pages = demo_page_image, i686_USE_APIC = False,
     c_device = demo_device\<lparr>dev_inl := \<lambda>tr port.
       case tr of OutL p a # _ \<Rightarrow> demo_space a | _ \<Rightarrow> 0\<rparr>\<rparr>"

lemma demo_pci_space: "config_space demo_pci demo_space"
  by (simp add: config_space_def demo_pci_def)

theorem pci_init_reports_witness:
  "m_terminal (pci_init demo_pci demo_machine) =
     terminal_putbytes (pci_report demo_space) (m_terminal demo_machine)"
  using pci_init_reports [OF demo_pci_space, of demo_machine] by auto

theorem multifunction_listed_twice_witness:
  "\<exists>ls. ls = function_line demo_space (0, 0, 0) @ function_line demo_space (0, 0, 1)
     \<and> m_terminal (scan_functions demo_pci 0 0 0 demo_machine) =
         terminal_putbytes (ls @ ls) (m_terminal demo_machine)"
proof -
  have ps: "[(0, 0, 0), (0, 0, 1)] =
      filter (present demo_space) [(0, 0, 0), (0, 0, 1), (0, 0, 2), (0, 0, 3)]"
    by (simp add: present_def vendor_of_def dword_def conval_def demo_space_def)
  have "list_all (multifunction demo_space) [(0, 0, 0), (0, 0, 1)]"
    by (simp add: multifunction_def header_of_def dword_def conval_def demo_space_def bit_iff_odd)
  from multifunction_listed_twice [OF demo_pci_space ps this, of demo_machine] show ?thesis
    by auto
qed

end
