(* ===== verification/Kernel.thy ===== *)
theory Kernel
  imports I8042 Pci
begin

text \<open>
  src/src/sys/kernel.c and src/src/sys/arch/i686/arch.c: the handlers the kernel installs,
  the initialisation of the architecture, and \<open>kernel_main\<close> up to its final idle loop. After
  that the kernel runs only in its interrupt handlers: the last part is the transition
  system of a booted kernel.
\<close>

section \<open>Handlers\<close>

definition protection_fault :: "isr_args_t \<Rightarrow> machine \<Rightarrow> outcome" where
  "protection_fault args m =
     (let m = m_puts ''General protection fault! type = '' m;
          m = m_hexdigits (ucast (error_code args)) m;
          m = m_putchar 0x0A m
      in Hung m)"

definition double_fault :: "isr_args_t \<Rightarrow> machine \<Rightarrow> outcome" where
  "double_fault args m =
     (let m = m_puts ''A double fault has occurred while serving int '' m;
          m = m_hexdigits (ucast (error_code args)) m;
          m = m_putchar 0x0A m
      in Returned m)"

definition int_hang :: "isr_args_t \<Rightarrow> machine \<Rightarrow> outcome" where
  "int_hang args m =
     (let m = m_puts ''Stopping. Recieved int '' m;
          m = m_hexdigits (ucast (interrupt_id args)) m;
          m = m_puts '' with error code '' m;
          m = m_hex (error_code args) m;
          m = m_puts (nl ''.'') m
      in Hung m)"

definition timer_interrupt :: "config \<Rightarrow> isr_args_t \<Rightarrow> machine \<Rightarrow> outcome" where
  "timer_interrupt C args m =
     (let m = m_puts ''Timer '' m;
          val = timerval m;
          m = m\<lparr>timerval := timerval m + 1\<rparr>;
          m = m_hex val m;
          m = m_putchar 0x0A m;
          m = apic_send_eoi C m
      in Returned m)"

primrec run_handler :: "config \<Rightarrow> handler \<Rightarrow> isr_args_t \<Rightarrow> machine \<Rightarrow> outcome" where
  "run_handler C Timer_interrupt args m = timer_interrupt C args m"
| "run_handler C Protection_fault args m = protection_fault args m"
| "run_handler C Double_fault args m = double_fault args m"
| "run_handler C Int_hang args m = int_hang args m"
| "run_handler C I8042_irq args m = Returned (i8042_irq C args m)"

section \<open>arch.c\<close>

definition arch_entry :: "config \<Rightarrow> machine \<Rightarrow> machine option" where
  "arch_entry C m =
     do {
        pg \<leftarrow> paging_init (c_pages C) (m_paging m);
        let m = m\<lparr>m_paging := pg\<rparr>;
        (T, tr) \<leftarrow> gdt_init (c_image C) (m_tables m, m_trace m);
        (T, tr) \<leftarrow> idt_init (i686_USE_APIC C) (c_device C) (c_image C) (T, tr);
        m \<leftarrow> isr_init (m\<lparr>m_tables := T, m_trace := tr\<rparr>);
        let m = m_do pic_init m;
        Some (m_do pit_init m)
      }"

definition arch_init :: "config \<Rightarrow> machine \<Rightarrow> machine option" where
  "arch_init C m = do {
     m \<leftarrow> i8042_init C m;
     let (available, m) = m_apic_is_available C m;
     if available then apic_init C m else Some m
   }"

definition arch_postinit :: "machine \<Rightarrow> machine" where
  "arch_postinit m = m"

definition isr_enable :: "machine \<Rightarrow> machine" where
  "isr_enable m = m_do (\<lambda>tr. Sti # tr) m"

definition isr_disable :: "machine \<Rightarrow> machine" where
  "isr_disable m = m_do (\<lambda>tr. Cli # tr) m"

section \<open>kernel_main\<close>

definition IRQ_TIMER :: nat where "IRQ_TIMER = IRQ 0"

text \<open>\<open>kernel_main\<close> up to the call of \<open>arch_init\<close>, and from there on.\<close>

definition kernel_early :: "machine \<Rightarrow> machine option" where
  "kernel_early m =
     (let m = m\<lparr>m_terminal := terminal_initialize (m_terminal m)\<rparr>;
          m = m_puts (nl ''Kernel initialized.'') m;
          m = m_puts (nl ''VGA Enabled!'') m
      in do {
        m \<leftarrow> isr_set_handler (of_nat IRQ_TIMER) Timer_interrupt m;
        m \<leftarrow> isr_set_handler 0x0D Protection_fault m;
        m \<leftarrow> isr_set_handler 0x08 Double_fault m;
        m \<leftarrow> isr_set_handler 0x06 Int_hang m;
        let m = m_puts (nl ''ISR Initialized...'') m;
        Some (isr_enable m)
      })"

definition kernel_late :: "config \<Rightarrow> machine \<Rightarrow> machine option" where
  "kernel_late C m =
     (let m = m_puts (nl ''Init survived...'') m;
          m = arch_postinit m;
          (vendor, m) = m_ask (cpuid_vendor (c_device C)) m;
          cpuvend = vendor @ [0x0A, 0]
      in do {
        t \<leftarrow> terminal_writestring cpuvend (m_terminal m);
        let m = m\<lparr>m_terminal := t\<rparr>;
        let (available, m) = m_apic_is_available C m;
        let m = m_puts (if available then nl ''ACPI Available!'' else nl ''No ACPI!'') m;
        Some (pci_init C m)
      })"

definition kernel_main :: "config \<Rightarrow> machine \<Rightarrow> machine option" where
  "kernel_main C m = do {
     m \<leftarrow> arch_entry C m;
     m \<leftarrow> kernel_early m;
     m \<leftarrow> arch_init C m;
     kernel_late C m
   }"

section \<open>Boot\<close>

text \<open>What the image loaded by the boot loader gives: the arrays have their declared sizes.\<close>

definition boot_ok :: "config \<Rightarrow> machine \<Rightarrow> bool" where
  "boot_ok C m \<longleftrightarrow> aligned_image (c_pages C) \<and> arrays_ok (m_paging m)
     \<and> length (gdt (m_tables m)) = 5 \<and> length (idts (m_tables m)) = 256 \<and> length (handlers m) = 256"

definition tables_ok :: "config \<Rightarrow> bool \<Rightarrow> tables \<Rightarrow> bool" where
  "tables_ok C use_apic T \<longleftrightarrow> length (idts T) = 256 \<and>
     (\<forall>v < 256. idts T ! v = (if v < 48
        then make_idt_entry (stub_addr (c_image C) (vector_stub use_apic v)) 0x08 0x8E else null_gate))"

lemma arch_entry_result:
  assumes "boot_ok C m"
  shows "\<exists>T tr. tables_ok C (apic_present C) T \<and> arch_entry C m = Some (m\<lparr>
     m_paging := paging_started (c_pages C) (m_paging m), m_tables := T,
     handlers := replicate 256 None, m_trace := pit_init (pic_init tr)\<rparr>)"
proof -
  have l: "length (gdt (m_tables m)) = 5" "length (idts (m_tables m)) = 256" "length (handlers m) = 256"
      "arrays_ok (m_paging m)"
    using assms by (simp_all add: boot_ok_def)
  note g = gdt_init_result [OF l(1), of "c_image C" "m_trace m"]
  define T1 where "T1 = fst (the (gdt_init (c_image C) (m_tables m, m_trace m)))"
  define tr1 where "tr1 = snd (the (gdt_init (c_image C) (m_tables m, m_trace m)))"
  have g1: "gdt_init (c_image C) (m_tables m, m_trace m) = Some (T1, tr1)"
    by (simp add: T1_def tr1_def g)
  have l1: "length (idts T1) = 256" by (simp add: T1_def g l(2))
  obtain tr2 where av: "apic_is_available (i686_USE_APIC C) (c_device C) tr1 = (apic_present C, tr2)"
    using fst_apic_is_available [of C tr1]
    by (cases "apic_is_available (i686_USE_APIC C) (c_device C) tr1") simp
  obtain T2 tr3 where i: "idt_init (i686_USE_APIC C) (c_device C) (c_image C) (T1, tr1) = Some (T2, tr3)"
    using idt_init_result [OF l1 av, of "c_image C"] by simp
  have "idts T2 ! v = (if v < 48
      then make_idt_entry (stub_addr (c_image C) (vector_stub (apic_present C) v)) 0x08 0x8E else null_gate)"
    if "v < 256" for v
  proof -
    have "unat (of_nat v :: u8) = v" using that by (simp add: unat_of_nat)
    then show ?thesis
      using idt_entry_after(1) [OF l1 av i, of "of_nat v"] by (simp add: map_of_idt_entries)
  qed
  then have "tables_ok C (apic_present C) T2"
    using idt_entry_after(2) [OF l1 av i] by (simp add: tables_ok_def)
  moreover have "arch_entry C m = Some (m\<lparr>
     m_paging := paging_started (c_pages C) (m_paging m), m_tables := T2,
     handlers := replicate 256 None, m_trace := pit_init (pic_init tr3)\<rparr>)"
    using l by (simp add: arch_entry_def paging_init_started g1 i isr_init_result m_do_def)
  ultimately show ?thesis by blast
qed

text \<open>The bytes printed before the drivers start.\<close>

definition early_text :: "u8 list" where
  "early_text = concat (map literal_bytes
     [nl ''Kernel initialized.'', nl ''VGA Enabled!'', nl ''ISR Initialized...''])"

definition kernel_handlers :: "handler option list" where
  "kernel_handlers = (replicate 256 None)[32 := Some Timer_interrupt, 13 := Some Protection_fault,
     8 := Some Double_fault, 6 := Some Int_hang, 33 := Some I8042_irq]"

lemma kernel_early_result:
  assumes "length (handlers m) = 256"
  shows "kernel_early m = Some (m\<lparr>
     m_terminal := terminal_putbytes early_text (terminal_initialize (m_terminal m)),
     handlers := (handlers m)[32 := Some Timer_interrupt, 13 := Some Protection_fault,
       8 := Some Double_fault, 6 := Some Int_hang],
     m_trace := Sti # m_trace m\<rparr>)"
  unfolding kernel_early_def Let_def isr_enable_def m_do_def m_puts_def terminal_puts_def early_text_def
  by (simp add: isr_set_handler_result assms IRQ_TIMER_def IRQ_def)

text \<open>The scan on any hardware: it prints something and only reads configuration space.\<close>

lemma read_config_does: "does config_read [] m (snd (read_pci_config C b d f off m))"
  using does_events [of config_read
      "[InL 0xCFC (dev_inl (c_device C) (OutL 0xCF8 (conval b d f off) # m_trace m) 0xCFC),
        OutL 0xCF8 (conval b d f off)]" m]
  by (simp add: read_pci_config_def m_outl_def m_do_def m_inl_def m_ask_def outl_def inl_def
      config_read_def Let_def)

definition only_scans :: "machine \<Rightarrow> machine \<Rightarrow> bool" where
  "only_scans m m' \<longleftrightarrow> (\<exists>bs. does config_read bs m m')"

lemma only_scans_refl: "only_scans m m"
  unfolding only_scans_def using does_refl by blast

lemma only_scans_trans: "only_scans m m' \<Longrightarrow> only_scans m' m'' \<Longrightarrow> only_scans m m''"
  unfolding only_scans_def using does_trans by blast

lemma only_scans_step:
  "only_scans m n \<Longrightarrow> only_scans m (snd (read_pci_config C b d f off n))"
  "only_scans m n \<Longrightarrow> only_scans m (m_puts str n)"
  "only_scans m n \<Longrightarrow> only_scans m (m_hexdigits h n)"
  "only_scans m n \<Longrightarrow> only_scans m (m_putchar ch n)"
  unfolding only_scans_def
  by (erule exE, rule exI, erule does_then [OF _ read_config_does] does_print)+

lemma only_scans_function: "only_scans m (snd (scan_function C b d f m))"
  unfolding scan_function_def Let_def case_prod_beta'
  by (simp add: only_scans_step only_scans_refl)

lemma only_scans_fold:
  assumes "\<And>i m. only_scans m (f i m)"
  shows "only_scans m (fold f ns m)"
proof (induction ns arbitrary: m)
  case Nil
  show ?case by (simp add: only_scans_refl)
next
  case (Cons n ns)
  show ?case using only_scans_trans [OF assms Cons.IH] by simp
qed

lemma only_scans_run: "only_scans m (run_until (scan_function C b d) fs m)"
proof (induction fs arbitrary: m)
  case Nil
  show ?case by (simp add: only_scans_refl)
next
  case (Cons f fs)
  show ?case
    using only_scans_function [of m C b d f]
      only_scans_trans [OF only_scans_function [of m C b d f] Cons.IH]
    by (simp add: case_prod_beta' Let_def)
qed

lemma pci_init_scans_any: "only_scans m (pci_init C m)"
proof -
  have "only_scans n (fold (\<lambda>d. run_until (scan_function C b d) (map of_nat [0..<8]))
      (map of_nat [0..<32]) n)" for b n
    by (rule only_scans_fold) (rule only_scans_run)
  then have "only_scans n (fold (\<lambda>b. fold (\<lambda>d. run_until (scan_function C b d) (map of_nat [0..<8]))
      (map of_nat [0..<32])) (map of_nat [0..<255]) n)" for n
    by (rule only_scans_fold)
  then show ?thesis
    unfolding pci_init_fold by (rule only_scans_trans [OF only_scans_step(2) [OF only_scans_refl]])
qed

section \<open>The whole of kernel_main\<close>

text \<open>Events that leave the interrupt controllers alone.\<close>

definition quiet :: "io_event \<Rightarrow> bool" where
  "quiet e \<longleftrightarrow> (case e of OutB port _ \<Rightarrow> port \<notin> {PIC1_CMD, PIC1_DATA, PIC2_CMD, PIC2_DATA} | _ \<Rightarrow> True)"

lemma quiet_events:
  "controller_event e \<Longrightarrow> quiet e" "apic_event e \<Longrightarrow> quiet e" "config_read e \<Longrightarrow> quiet e"
  "quiet Sti" "quiet (Cpuid l)"
  by (auto simp: quiet_def controller_event_def apic_event_def config_read_def pic_ports
      i8042_DATA_def i8042_COMMAND_def split: io_event.splits)

lemma does_mono: "does ok bs m m' \<Longrightarrow> (\<And>e. ok e \<Longrightarrow> ok' e) \<Longrightarrow> does ok' bs m m'"
  unfolding does_def list_all_iff by blast

lemma available_does: "does quiet [] m (snd (m_apic_is_available C m))"
  using does_events [of quiet "[Cpuid 1]" m] does_refl
  by (simp add: m_apic_is_available_def m_ask_def apic_is_available_def cpuid_test_feature_def
      quiet_events case_prod_beta' Let_def)

lemma kernel_late_result: "\<exists>m' bs. kernel_late C m = Some m' \<and> does quiet bs m m'"
proof -
  let ?m1 = "m_puts (nl ''Init survived...'') m"
  let ?m2 = "?m1\<lparr>m_trace := Cpuid 0 # m_trace ?m1\<rparr>"
  obtain a b c d where cpuid: "dev_cpuid (c_device C) 0 = (a, b, c, d)" by (cases "dev_cpuid (c_device C) 0")
  define vendor where "vendor = le_bytes b @ le_bytes d @ le_bytes c"
  have ask: "m_ask (cpuid_vendor (c_device C)) ?m1 = (vendor, ?m2)"
    by (simp add: m_ask_def cpuid_vendor_def cpuid vendor_def)
  define shown where "shown = takeWhile (\<lambda>x. x \<noteq> 0) (vendor @ [0x0A, 0])"
  have wr: "terminal_writestring (vendor @ [0x0A, 0]) (m_terminal ?m2) =
      Some (terminal_putbytes shown (m_terminal ?m2))"
    by (simp add: writestring_putbytes shown_def)
  let ?m3 = "?m2\<lparr>m_terminal := terminal_putbytes shown (m_terminal ?m2)\<rparr>"
  obtain av m4 where av: "m_apic_is_available C ?m3 = (av, m4)" by fastforce
  have run: "kernel_late C m = Some (pci_init C
      (m_puts (if av then nl ''ACPI Available!'' else nl ''No ACPI!'') m4))"
    using wr av by (simp add: kernel_late_def arch_postinit_def ask)
  have m1: "does quiet ([] @ literal_bytes (nl ''Init survived...'')) m ?m1"
    by (rule does_print(1) [OF does_refl])
  have m2: "does quiet [] ?m1 ?m2"
    using does_events [of quiet "[Cpuid 0]" ?m1] by (simp add: quiet_events)
  have m3: "does quiet shown ?m2 ?m3"
    unfolding does_def by (intro exI [of _ "[]"]) simp
  have m4: "does quiet [] ?m3 m4"
    using available_does [of ?m3 C] by (simp only: av snd_conv)
  have "\<exists>bs. does quiet bs m m4"
    using does_trans [OF does_trans [OF does_trans [OF m1 m2] m3] m4] by blast
  then have "\<exists>bs. does quiet bs m (m_puts (if av then nl ''ACPI Available!'' else nl ''No ACPI!'') m4)"
    using does_print(1) by blast
  moreover have "\<exists>bs. does quiet bs n (pci_init C n)" for n
    using pci_init_scans_any [of n C] does_mono quiet_events(3) unfolding only_scans_def by blast
  ultimately show ?thesis using run does_trans by blast
qed

text \<open>\<open>arch_init\<close>: the drivers, after the keyboard line is enabled.\<close>

lemma arch_init_result:
  assumes "aligned_image (c_pages C)" and "paging_ok (c_pages C) (m_paging m)"
    and "unat (nMiscIndex (m_paging m)) < 1024" and "length (handlers m) = 256"
  shows "\<exists>bs evs p pg. list_all quiet evs \<and> paging_ok (c_pages C) pg
    \<and> arch_init C m = Some (m\<lparr>m_terminal := terminal_putbytes bs (m_terminal m),
         m_paging := pg, handlers := (handlers m)[33 := Some I8042_irq], apic := p,
         m_trace := evs @ the (pic_enable_line (c_device C) 1 (m_trace m))\<rparr>)"
proof -
  let ?n = "i8042_start C m"
  obtain bs1 where "does controller_event bs1 ?n (i8042_setup C ?n)"
    using same_setup [of ?n C] unfolding same_but_io_def by blast
  then have "does quiet bs1 ?n (i8042_setup C ?n)" by (rule does_mono) (rule quiet_events)
  moreover obtain av m2 where av: "m_apic_is_available C (i8042_setup C ?n) = (av, m2)" by fastforce
  moreover have "does quiet [] (i8042_setup C ?n) m2"
    using available_does [of "i8042_setup C ?n" C] by (simp add: av)
  ultimately have "does quiet bs1 ?n m2" using does_then by blast
  then obtain evs where q: "list_all quiet evs"
    and m2: "m2 = ?n\<lparr>m_terminal := terminal_putbytes bs1 (m_terminal ?n), m_trace := evs @ m_trace ?n\<rparr>"
    unfolding does_def by blast
  have run: "arch_init C m = (if av then apic_init C m2 else Some m2)"
    by (simp add: arch_init_def i8042_init_start [OF assms(4)] av)
  let ?bs = "literal_bytes (nl ''i8042!'') @ bs1"
  have m2': "m2 = m\<lparr>m_terminal := terminal_putbytes ?bs (m_terminal m),
      handlers := (handlers m)[33 := Some I8042_irq],
      m_trace := evs @ the (pic_enable_line (c_device C) 1 (m_trace m))\<rparr>"
    unfolding m2 by (simp add: i8042_start_def m_puts_def terminal_puts_def)
  show ?thesis
  proof (cases av)
    case True
    have "m_paging m2 = m_paging m" by (simp add: m2')
    then obtain bs2 evs2 p pg where e: "list_all apic_event evs2" "paging_ok (c_pages C) pg"
      "apic_init C m2 = Some (m2\<lparr>m_terminal := terminal_putbytes bs2 (m_terminal m2),
         m_trace := evs2 @ m_trace m2, apic := p, m_paging := pg\<rparr>)"
      using apic_init_defined [OF assms(1), of m2] assms(2,3) by auto
    have "list_all quiet (evs2 @ evs)"
      using e(1) q quiet_events(2) by (auto simp: list_all_iff)
    moreover have "arch_init C m = Some (m\<lparr>m_terminal := terminal_putbytes (?bs @ bs2) (m_terminal m),
         m_paging := pg, handlers := (handlers m)[33 := Some I8042_irq], apic := p,
         m_trace := (evs2 @ evs) @ the (pic_enable_line (c_device C) 1 (m_trace m))\<rparr>)"
      by (simp add: run True e(3)) (simp add: m2')
    ultimately show ?thesis using e(2) by blast
  next
    case False
    have "arch_init C m = Some (m\<lparr>m_terminal := terminal_putbytes ?bs (m_terminal m),
         m_paging := m_paging m, handlers := (handlers m)[33 := Some I8042_irq], apic := apic m,
         m_trace := evs @ the (pic_enable_line (c_device C) 1 (m_trace m))\<rparr>)"
      by (simp add: run False) (simp add: m2')
    then show ?thesis using q assms(2) by blast
  qed
qed

lemma kernel_main_result:
  assumes "boot_ok C m"
  shows "\<exists>bs evs p pg T tr. list_all quiet evs \<and> paging_ok (c_pages C) pg
    \<and> tables_ok C (apic_present C) T
    \<and> kernel_main C m = Some (m\<lparr>
       m_terminal := terminal_putbytes (early_text @ bs) (terminal_initialize (m_terminal m)),
       m_paging := pg, m_tables := T, handlers := kernel_handlers, apic := p,
       m_trace := evs @ the (pic_enable_line (c_device C) 1 (Sti # pit_init (pic_init tr)))\<rparr>)"
proof -
  have b: "aligned_image (c_pages C)" "arrays_ok (m_paging m)"
    using assms by (simp_all add: boot_ok_def)
  obtain T tr where T: "tables_ok C (apic_present C) T" and entry: "arch_entry C m = Some (m\<lparr>
     m_paging := paging_started (c_pages C) (m_paging m), m_tables := T,
     handlers := replicate 256 None, m_trace := pit_init (pic_init tr)\<rparr>)"
    using arch_entry_result [OF assms] by blast
  let ?pg = "paging_started (c_pages C) (m_paging m)"
  let ?m1 = "m\<lparr>m_paging := ?pg, m_tables := T, handlers := replicate 256 None,
     m_trace := pit_init (pic_init tr)\<rparr>"
  define m2 where "m2 = the (kernel_early ?m1)"
  have early: "kernel_early ?m1 = Some m2"
    unfolding m2_def using kernel_early_result [of ?m1] by simp
  have m2: "m2 = m\<lparr>m_terminal := terminal_putbytes early_text (terminal_initialize (m_terminal m)),
      m_paging := ?pg, m_tables := T,
      handlers := (replicate 256 None)[32 := Some Timer_interrupt, 13 := Some Protection_fault,
       8 := Some Double_fault, 6 := Some Int_hang],
      m_trace := Sti # pit_init (pic_init tr)\<rparr>"
    unfolding m2_def by (subst kernel_early_result) simp_all
  have pg: "paging_ok (c_pages C) (m_paging m2)" "unat (nMiscIndex (m_paging m2)) < 1024"
    unfolding m2 using paging_started_ok [OF b(2), of "c_pages C"] by simp_all
  have handlers: "length (handlers m2) = 256" by (simp add: m2)
  obtain bs1 evs1 p pg' where i: "list_all quiet evs1" "paging_ok (c_pages C) pg'"
    "arch_init C m2 = Some (m2\<lparr>m_terminal := terminal_putbytes bs1 (m_terminal m2),
         m_paging := pg', handlers := (handlers m2)[33 := Some I8042_irq], apic := p,
         m_trace := evs1 @ the (pic_enable_line (c_device C) 1 (m_trace m2))\<rparr>)"
    using arch_init_result [OF b(1) pg handlers] by blast
  let ?m3 = "the (arch_init C m2)"
  obtain m4 bs2 where late: "kernel_late C ?m3 = Some m4" "does quiet bs2 ?m3 m4"
    using kernel_late_result by blast
  obtain evs2 where q2: "list_all quiet evs2" and m4: "m4 =
      ?m3\<lparr>m_terminal := terminal_putbytes bs2 (m_terminal ?m3), m_trace := evs2 @ m_trace ?m3\<rparr>"
    using late(2) unfolding does_def by blast
  have run: "kernel_main C m = Some m4"
    unfolding kernel_main_def entry using early i(3) late(1) by simp
  have "m4 = m\<lparr>
       m_terminal := terminal_putbytes (early_text @ bs1 @ bs2) (terminal_initialize (m_terminal m)),
       m_paging := pg', m_tables := T, handlers := kernel_handlers, apic := p,
       m_trace := (evs2 @ evs1) @ the (pic_enable_line (c_device C) 1 (Sti # pit_init (pic_init tr)))\<rparr>"
    unfolding m4 i(3) option.sel unfolding m2 by (simp add: kernel_handlers_def)
  moreover have "list_all quiet (evs2 @ evs1)" using q2 i(1) by simp
  ultimately show ?thesis using run i(2) T by blast
qed

section \<open>The booted kernel\<close>

text \<open>
  After \<open>kernel_main\<close> the kernel only serves interrupts. A step is one interrupt served
  to the end, labelled with its vector: the C entry point of the stub of that vector runs
  on a frame with that vector, and returns.
\<close>

inductive kernel_step :: "config \<Rightarrow> bool \<Rightarrow> machine \<Rightarrow> nat \<Rightarrow> machine \<Rightarrow> bool" for C use_apic where
  interrupt: "v < 48 \<Longrightarrow> interrupt_id args = of_nat v \<Longrightarrow>
     c_call (run_handler C) (vector_entry use_apic v) args m = Some (Returned m') \<Longrightarrow>
     kernel_step C use_apic m v m'"

inductive kernel_run :: "config \<Rightarrow> bool \<Rightarrow> machine \<Rightarrow> nat list \<Rightarrow> machine \<Rightarrow> bool" for C use_apic m where
  idle: "kernel_run C use_apic m [] m"
| serve: "kernel_run C use_apic m vs m' \<Longrightarrow> kernel_step C use_apic m' v m'' \<Longrightarrow>
     kernel_run C use_apic m (vs @ [v]) m''"

inductive_cases kernel_step_cases: "kernel_step C use_apic m v m'"
inductive_simps kernel_step_iff: "kernel_step C use_apic m v m'"

text \<open>What no interrupt changes, relative to the state \<open>m0\<close> after boot.\<close>

definition kernel_inv :: "machine \<Rightarrow> machine \<Rightarrow> bool" where
  "kernel_inv m0 m \<longleftrightarrow>
     on_screen (m_terminal m) \<and> handlers m = kernel_handlers
     \<and> m_paging m = m_paging m0 \<and> m_tables m = m_tables m0 \<and> apic m = apic m0
     \<and> (\<forall>a. in_video_memory a \<or> vmem (m_terminal m) a = vmem (m_terminal m0) a)"

lemma inv_printed:
  assumes "kernel_inv m0 m" and "m_terminal m' = terminal_putbytes bs (m_terminal m)"
    and "handlers m' = handlers m" and "m_paging m' = m_paging m" and "m_tables m' = m_tables m"
    and "apic m' = apic m"
  shows "kernel_inv m0 m'"
proof -
  have s: "on_screen (m_terminal m)" using assms(1) by (simp add: kernel_inv_def)
  have "in_video_memory a \<or> vmem (m_terminal m') a = vmem (m_terminal m0) a" for a
  proof (cases "in_video_memory a")
    case False
    moreover have "in_video_memory a \<or> vmem (m_terminal m) a = vmem (m_terminal m0) a"
      using assms(1) by (simp only: kernel_inv_def)
    ultimately show ?thesis using assms(2) putbytes_outside [OF s False, of bs] by simp
  qed simp
  then show ?thesis
    using assms putbytes_on_screen [OF s, of bs] by (simp add: kernel_inv_def)
qed

lemma does_inv: "does ok bs m m' \<Longrightarrow> kernel_inv m0 m \<Longrightarrow> kernel_inv m0 m'"
  using does_parts [of ok bs m m'] by (intro inv_printed [of m0 m m' bs])

lemma print_inv:
  "kernel_inv m0 m \<Longrightarrow> kernel_inv m0 (m_puts str m)" "kernel_inv m0 m \<Longrightarrow> kernel_inv m0 (m_hexdigits h m)"
  "kernel_inv m0 m \<Longrightarrow> kernel_inv m0 (m_hex w m)" "kernel_inv m0 m \<Longrightarrow> kernel_inv m0 (m_putchar ch m)"
  "kernel_inv m0 m \<Longrightarrow> kernel_inv m0 (m_outb port val m)"
  using does_print [OF does_refl [of "\<lambda>_. True" m]] does_port(2) [of "\<lambda>_. True" port val m] does_inv
  by blast+

text \<open>The keyboard interrupt prints at most one character.\<close>

lemma keyboard_handle_bytes:
  assumes "keyboard_handle code (kb, t) = (kb', t')"
  shows "\<exists>bs. t' = terminal_putbytes bs t"
proof -
  have e: "t = terminal_putbytes [] t" "terminal_putchar x t = terminal_putbytes [x] t" for x
    by (simp_all add: terminal_putbytes_def)
  have "t' = t \<or> (\<exists>x. t' = terminal_putchar x t)"
    using assms by (auto simp: handle_cases split: if_splits)
  then show ?thesis using e by metis
qed

lemma i8042_irq_effect:
  "\<exists>kb bs tr. i8042_irq C args m =
     m\<lparr>m_keyboard := kb, m_terminal := terminal_putbytes bs (m_terminal m), m_trace := tr\<rparr>"
proof -
  have n: "\<exists>kb bs tr. m\<lparr>m_trace := t\<rparr> =
      m\<lparr>m_keyboard := kb, m_terminal := terminal_putbytes bs (m_terminal m), m_trace := tr\<rparr>" for t
    by (intro exI [of _ "m_keyboard m"] exI [of _ "[]"] exI [of _ t]) (simp add: terminal_putbytes_def)
  have k: "\<exists>kb bs tr. m\<lparr>m_trace := t, m_keyboard := k, m_terminal := terminal_putbytes b (m_terminal m)\<rparr> =
      m\<lparr>m_keyboard := kb, m_terminal := terminal_putbytes bs (m_terminal m), m_trace := tr\<rparr>" for t k b
    by (intro exI [of _ k] exI [of _ b] exI [of _ t]) simp
  show ?thesis
    unfolding i8042_irq_def m_inb_eq Let_def prod.case
    by (auto intro: n k dest!: keyboard_handle_bytes split: prod.splits)
qed

lemma run_handler_inv: "kernel_inv m0 m \<Longrightarrow> kernel_inv m0 (final (run_handler C h args m))"
proof (cases h)
  case Timer_interrupt
  assume i: "kernel_inv m0 m"
  then have "kernel_inv m0 (m_puts ''Timer '' m\<lparr>timerval := k\<rparr>)" for k
    using print_inv(1) [OF i, of "''Timer ''"] by (simp add: kernel_inv_def)
  then show ?thesis
    using does_inv [OF apic_set_does]
    by (simp add: Timer_interrupt timer_interrupt_def apic_send_eoi_def print_inv)
next
  case I8042_irq
  assume "kernel_inv m0 m"
  then show ?thesis
    using i8042_irq_effect [of C args m] by (auto simp: I8042_irq intro: inv_printed)
qed (simp_all add: protection_fault_def double_fault_def int_hang_def print_inv)

lemma unhandled_inv: "kernel_inv m0 m \<Longrightarrow> kernel_inv m0 (unhandled_interrupt args m)"
  by (simp add: unhandled_interrupt_def print_inv)

interpretation kernel_calls: handler_calls "run_handler C" "kernel_inv m0"
  by unfold_locales
    (auto simp: run_handler_inv unhandled_inv print_inv, simp add: kernel_inv_def kernel_handlers_def)

text \<open>Which interrupts return, and what they do to the timer and the modifiers.\<close>

lemma handler_at:
  "handlers m = kernel_handlers \<Longrightarrow> v < 256 \<Longrightarrow> handlers m ! v =
     (if v = 33 then Some I8042_irq else if v = 6 then Some Int_hang else if v = 8 then Some Double_fault
      else if v = 13 then Some Protection_fault else if v = 32 then Some Timer_interrupt else None)"
  by (simp add: kernel_handlers_def nth_list_update)

definition serve_vector :: "config \<Rightarrow> nat \<Rightarrow> isr_args_t \<Rightarrow> machine \<Rightarrow> outcome" where
  "serve_vector C v args m =
     (if v = 33 then Returned (i8042_irq C args m) else if v = 6 then int_hang args m
      else if v = 8 then double_fault args m else if v = 13 then protection_fault args m
      else if v = 32 then timer_interrupt C args m else Returned (unhandled_interrupt args m))"

lemma isr_handler_serves:
  assumes "handlers m = kernel_handlers" and "v < 48" and "interrupt_id args = of_nat v"
  shows "isr_handler (run_handler C) args m = Some (serve_vector C v args m)"
proof -
  have v: "unat (interrupt_id args) = v" using assms(2,3) by (simp add: unat_of_nat)
  have "length (handlers m) = 256" by (simp add: assms(1) kernel_handlers_def)
  then show ?thesis
    using assms(2) handler_at [OF assms(1), of v]
    by (simp add: isr_handler_def v serve_vector_def)
qed

lemma c_call_serves:
  assumes "handlers m = kernel_handlers" and "v < 48" and "interrupt_id args = of_nat v"
  shows "\<exists>evs. c_call (run_handler C) f args m = Some (serve_vector C v args (m\<lparr>m_trace := evs @ m_trace m\<rparr>))"
proof -
  let ?m = "m_outb PIC1_CMD PIC_CMD_RESET
    (if unat (interrupt_id args) \<ge> IRQ 8 then m_outb PIC2_CMD PIC_CMD_RESET m else m)"
  obtain evs where e: "?m = m\<lparr>m_trace := evs @ m_trace m\<rparr>"
    by (cases "unat (interrupt_id args) \<ge> IRQ 8") (auto simp: m_outb_eq intro: that [of "[_]"] that [of "[_, _]"])
  have h: "handlers ?m = kernel_handlers" using assms(1) by (simp add: m_outb_eq)
  have a: "isr_handler (run_handler C) args m = Some (serve_vector C v args (m\<lparr>m_trace := [] @ m_trace m\<rparr>))"
    using isr_handler_serves [OF assms] by simp
  show ?thesis
    using isr_handler_serves [OF h assms(2,3)] a
    by (cases f) (auto simp: c_call_def irq_handler_pic_isr irq_handler_apic_isr e simp del: append_Nil)
qed

lemma serve_timer:
  "timerval (final (serve_vector C v args m)) = timerval m + (if v = 32 then 1 else 0)"
proof -
  have "timerval (apic_set C f w n) = timerval n" for f w n
    by (subst apic_set_parts) simp
  then show ?thesis
    using i8042_irq_effect [of C args m]
    by (auto simp: serve_vector_def int_hang_def double_fault_def protection_fault_def
        timer_interrupt_def apic_send_eoi_def unhandled_interrupt_def)
qed

lemma serve_keyboard:
  "v \<noteq> 33 \<Longrightarrow> m_keyboard (final (serve_vector C v args m)) = m_keyboard m"
proof -
  have "m_keyboard (apic_set C f w n) = m_keyboard n" for f w n
    by (subst apic_set_parts) simp
  then show "v \<noteq> 33 \<Longrightarrow> ?thesis"
    by (simp add: serve_vector_def int_hang_def double_fault_def protection_fault_def
        timer_interrupt_def apic_send_eoi_def unhandled_interrupt_def)
qed

lemma serve_returns: "(\<exists>m'. serve_vector C v args m = Returned m') \<longleftrightarrow> v \<noteq> 6 \<and> v \<noteq> 13"
  by (simp add: serve_vector_def int_hang_def double_fault_def protection_fault_def timer_interrupt_def)

lemma kernel_step_result:
  assumes "kernel_inv m0 m" and "kernel_step C use_apic m v m'"
  shows "v < 48 \<and> v \<noteq> 6 \<and> v \<noteq> 13 \<and> kernel_inv m0 m'
    \<and> timerval m' = timerval m + (if v = 32 then 1 else 0)
    \<and> (v = 33 \<or> m_keyboard m' = m_keyboard m)"
proof -
  obtain args where v: "v < 48" "interrupt_id args = of_nat v"
    and call: "c_call (run_handler C) (vector_entry use_apic v) args m = Some (Returned m')"
    using assms(2) by (auto elim: kernel_step_cases)
  have h: "handlers m = kernel_handlers" using assms(1) by (simp add: kernel_inv_def)
  obtain evs where s: "serve_vector C v args (m\<lparr>m_trace := evs @ m_trace m\<rparr>) = Returned m'"
    using c_call_serves [OF h v, of C "vector_entry use_apic v"] call by auto
  have "unat (interrupt_id args) < 256" using v by (simp add: unat_of_nat)
  then have "kernel_inv m0 m'"
    using kernel_calls.c_call_good [OF assms(1), of args C "vector_entry use_apic v"] call by auto
  moreover have "v \<noteq> 6 \<and> v \<noteq> 13" using serve_returns s by blast
  ultimately show ?thesis
    using v(1) serve_timer [of C v args "m\<lparr>m_trace := evs @ m_trace m\<rparr>"]
      serve_keyboard [of v C args "m\<lparr>m_trace := evs @ m_trace m\<rparr>"] s by auto
qed

lemma kernel_run_result:
  assumes "kernel_run C use_apic m vs m'" and "kernel_inv m0 m"
  shows "set vs \<subseteq> {v. v < 48} - {6, 13} \<and> kernel_inv m0 m'
    \<and> timerval m' = timerval m + of_nat (count_list vs 32)
    \<and> (33 \<in> set vs \<or> m_keyboard m' = m_keyboard m)"
  using assms
proof (induction rule: kernel_run.induct)
  case idle
  then show ?case by simp
next
  case (serve vs m' v m'')
  then show ?case
    using kernel_step_result [of m0 m' C use_apic v m''] by auto
qed

lemma booted_inv:
  assumes "boot_ok C m" and "kernel_main C m = Some m'"
  shows "kernel_inv m' m'"
  using kernel_main_result [OF assms(1)] assms(2)
  by (auto simp: kernel_inv_def intro!: putbytes_on_screen initialize_on_screen)

lemma initialize_outside: "\<not> in_video_memory a \<Longrightarrow> vmem (terminal_initialize t) a = vmem t a"
  by (auto simp: terminal_initialize_fill fill_cells_def terminal_reset_def dest!: video_cell_in_memory)

lemma kernel_main_facts:
  assumes "boot_ok C m"
  shows "\<exists>m'. kernel_main C m = Some m' \<and> kernel_inv m' m' \<and> paging_ok (c_pages C) (m_paging m')
    \<and> tables_ok C (apic_present C) (m_tables m') \<and> m_keyboard m' = m_keyboard m
    \<and> timerval m' = timerval m
    \<and> (\<forall>a. in_video_memory a \<or> vmem (m_terminal m') a = vmem (m_terminal m) a)"
proof -
  obtain m' bs evs p pg T tr where k: "kernel_main C m = Some m'" and ok: "paging_ok (c_pages C) pg"
      "tables_ok C (apic_present C) T" and m': "m' = m\<lparr>
       m_terminal := terminal_putbytes (early_text @ bs) (terminal_initialize (m_terminal m)),
       m_paging := pg, m_tables := T, handlers := kernel_handlers, apic := p,
       m_trace := evs @ the (pic_enable_line (c_device C) 1 (Sti # pit_init (pic_init tr)))\<rparr>"
    using kernel_main_result [OF assms] by blast
  have "in_video_memory a \<or> vmem (m_terminal m') a = vmem (m_terminal m) a" for a
    using putbytes_outside [OF initialize_on_screen, of a] initialize_outside [of a "m_terminal m"]
    by (cases "in_video_memory a") (simp_all add: m' del: putbytes_simps)
  then show ?thesis
    using k ok booted_inv [OF assms k] by (auto simp: m')
qed

lemma quiet_pics:
  assumes "list_all quiet evs"
  shows "pic1_after p (evs @ tr) = pic1_after p tr" and "pic2_after q (evs @ tr) = pic2_after q tr"
proof -
  have "pic1_after p (e # tr) = pic1_after p tr \<and> pic2_after q (e # tr) = pic2_after q tr"
    if "quiet e" for e tr
    using that by (cases e) (simp_all add: quiet_def)
  with assms show "pic1_after p (evs @ tr) = pic1_after p tr" "pic2_after q (evs @ tr) = pic2_after q tr"
    by (induction evs) simp_all
qed

lemma pit_quiet: "\<exists>evs. list_all quiet evs \<and> Sti # pit_init tr = evs @ tr"
proof -
  obtain x y z where "pit_init tr = [OutB PIT_CH0 x, OutB PIT_CH0 y, OutB PIT_CMD z] @ tr"
    by (simp add: pit_init_def outb_def Let_def)
  then show ?thesis
    by (intro exI [of _ "[Sti, OutB PIT_CH0 x, OutB PIT_CH0 y, OutB PIT_CMD z]"])
      (simp add: quiet_def pic_ports PIT_CMD_def PIT_CH0_def PIT_BASE_def)
qed

lemma kernel_main_lines:
  assumes "boot_ok C m" and "pic_reads_mask p q (c_device C)" and "kernel_main C m = Some m'"
  shows "\<forall>n < 16. line_masked p q (m_trace m') n \<longleftrightarrow> n \<noteq> 1 \<and> n \<noteq> 2"
proof -
  obtain evs tr where e: "list_all quiet evs"
    and tr: "m_trace m' = evs @ the (pic_enable_line (c_device C) 1 (Sti # pit_init (pic_init tr)))"
    using kernel_main_result [OF assms(1)] assms(3) by auto
  obtain evs0 where e0: "list_all quiet evs0" "Sti # pit_init (pic_init tr) = evs0 @ pic_init tr"
    using pit_quiet by blast
  let ?tr = "Sti # pit_init (pic_init tr)"
  have ready: "pics_ready p q ?tr" and mask: "\<forall>n < 16. line_masked p q ?tr n \<longleftrightarrow> n \<noteq> 2"
    using pic_init_state [of p tr q] unfolding e0(2) pics_ready_def line_masked_def quiet_pics [OF e0(1)]
    by auto
  obtain tr' where en: "pic_enable_line (c_device C) 1 ?tr = Some tr'"
    and m1: "\<forall>n < 16. line_masked p q tr' n \<longleftrightarrow> line_masked p q ?tr n \<and> n \<noteq> unat (1 :: u8)"
    using enable_line_masks [OF assms(2) ready, of 1] by auto
  have "line_masked p q (m_trace m') n \<longleftrightarrow> line_masked p q tr' n" for n
    by (simp only: tr en option.sel line_masked_def quiet_pics [OF e])
  then show ?thesis using m1 mask by auto
qed

section \<open>Properties\<close>

text \<open>
  C1. On any hardware, with or without an APIC, \<open>kernel_main\<close> comes to its idle loop when no
  interrupt is taken on the way. Every assignment to the page tables, the GDT, the IDT and the
  handler table on the way is inside its array: the model gives \<open>None\<close> for one that is not.
  Then the screen and its cursor are sound, the five handlers and no others are installed, the
  page tables are those the kernel maintains, every vector from 0 to 47 has the stub of the
  interrupt controller in use and no other gate is present, and no memory outside the video
  memory was written through the terminal.
\<close>

theorem kernel_main_boots:
  assumes "boot_ok C m"
  shows "case kernel_main C m of None \<Rightarrow> False | Some m' \<Rightarrow>
     on_screen (m_terminal m') \<and> handlers m' = kernel_handlers
     \<and> paging_ok (c_pages C) (m_paging m') \<and> tables_ok C (apic_present C) (m_tables m')
     \<and> (in_video_memory a \<or> vmem (m_terminal m') a = vmem (m_terminal m) a)"
  using kernel_main_facts [OF assms] by (auto simp: kernel_inv_def)

lemma demo_boot: "boot_ok demo_controller demo_machine"
proof -
  have "paging_ok demo_page_image (m_paging demo_machine)"
    using paging_started_ok(1) [OF demo_paging_ok(1)] by (simp add: demo_machine_def)
  then have "arrays_ok (m_paging demo_machine)" by (simp add: paging_ok_def)
  then show ?thesis
    using demo_paging_ok(2)
    by (simp add: boot_ok_def demo_controller_def demo_machine_def demo_tables_def)
qed

theorem kernel_main_boots_witness:
  "\<exists>m'. kernel_main demo_controller demo_machine = Some m' \<and> on_screen (m_terminal m')
     \<and> handlers m' ! 33 = Some I8042_irq"
  using kernel_main_boots [OF demo_boot, of 0]
  by (auto simp: kernel_handlers_def split: option.splits)

text \<open>
  C28. After boot, of the sixteen lines of the 8259s only the keyboard's (1) and the cascade
  (2) are unmasked. The timer's line 0 stays masked, so without an APIC the interval timer,
  which is programmed, never interrupts.
\<close>

theorem kernel_main_unmasks_keyboard:
  assumes "boot_ok C m" and "pic_reads_mask p q (c_device C)" and "kernel_main C m = Some m'"
  shows "filter (\<lambda>n. \<not> line_masked p q (m_trace m') n) [0..<16] = [1, 2]"
proof -
  have "filter (\<lambda>n. \<not> line_masked p q (m_trace m') n) [0..<16] = filter (\<lambda>n. n = 1 \<or> n = 2) [0..<16]"
    using kernel_main_lines [OF assms] by (intro filter_cong) auto
  also have "\<dots> = [1, 2]" by (simp add: upt_conv_Cons)
  finally show ?thesis .
qed

definition demo_pic_config :: config where
  "demo_pic_config = demo_controller\<lparr>c_device := demo_pic_device\<rparr>"

theorem kernel_main_unmasks_keyboard_witness:
  "\<exists>m'. kernel_main demo_pic_config demo_machine = Some m' \<and>
     \<not> line_masked demo_pic demo_pic (m_trace m') 1 \<and> line_masked demo_pic demo_pic (m_trace m') 0"
proof -
  have b: "boot_ok demo_pic_config demo_machine"
    using demo_boot by (simp add: boot_ok_def demo_pic_config_def)
  obtain m' where m': "kernel_main demo_pic_config demo_machine = Some m'"
    using kernel_main_facts [OF b] by blast
  have r: "pic_reads_mask demo_pic demo_pic (c_device demo_pic_config)"
    using demo_pic_reads by (simp add: demo_pic_config_def)
  have "n \<in> set (filter (\<lambda>n. \<not> line_masked demo_pic demo_pic (m_trace m') n) [0..<16]) \<longleftrightarrow> n \<in> {1, 2}" for n
    unfolding kernel_main_unmasks_keyboard [OF b r m'] by simp
  from this [of 1] this [of 0] m' show ?thesis by auto
qed

text \<open>
  C2. An invariant of the booted kernel: whatever interrupts are served, in whatever order,
  with whatever register contents and hardware answers, the cursor stays on the screen, the
  terminal writes only video memory, and the handler table, the page tables, the
  descriptor tables and the APIC pointer stay as boot left them. A run serves no vector 6 or 13 to
  its end, and the timer's counter has counted the interrupts on vector 32, modulo 2^32.
\<close>

theorem kernel_run_invariant:
  assumes "boot_ok C m" and "kernel_main C m = Some m0" and "kernel_run C use_apic m0 vs m'"
  shows "on_screen (m_terminal m') \<and> handlers m' = kernel_handlers
    \<and> m_paging m' = m_paging m0 \<and> m_tables m' = m_tables m0 \<and> apic m' = apic m0
    \<and> (in_video_memory a \<or> vmem (m_terminal m') a = vmem (m_terminal m) a)
    \<and> set vs \<subseteq> {v. v < 48} - {6, 13}
    \<and> timerval m' = timerval m + of_nat (count_list vs 32)"
proof -
  have "timerval m0 = timerval m"
    and "in_video_memory a \<or> vmem (m_terminal m0) a = vmem (m_terminal m) a"
    using kernel_main_facts [OF assms(1)] assms(2) by auto
  with kernel_run_result [OF assms(3) booted_inv [OF assms(1,2)]] show ?thesis
    unfolding kernel_inv_def by metis
qed

lemma demo_step:
  assumes "kernel_inv m0 m" and "v < 48" and "v \<noteq> 6" and "v \<noteq> 13"
  shows "\<exists>m'. kernel_step C use_apic m v m'"
proof -
  have h: "handlers m = kernel_handlers" using assms(1) by (simp add: kernel_inv_def)
  have a: "interrupt_id (frame 0 v 0 demo_cpu) = of_nat v" by (simp add: frame_def)
  show ?thesis
    using c_call_serves [OF h assms(2) a, of C "vector_entry use_apic v"] serve_returns [of C v]
      assms(2-4) a kernel_step.interrupt by metis
qed

theorem kernel_run_invariant_witness:
  "\<exists>m0 m'. kernel_main demo_controller demo_machine = Some m0
     \<and> kernel_run demo_controller False m0 [32] m' \<and> timerval m' = 1"
proof -
  obtain m0 where m0: "kernel_main demo_controller demo_machine = Some m0"
    using kernel_main_facts [OF demo_boot] by blast
  obtain m' where "kernel_step demo_controller False m0 32 m'"
    using demo_step [OF booted_inv [OF demo_boot m0], of 32] by auto
  then have "kernel_run demo_controller False m0 ([] @ [32]) m'"
    by (rule kernel_run.serve [OF kernel_run.idle])
  with kernel_run_invariant [OF demo_boot m0] m0 show ?thesis
    by (fastforce simp: demo_machine_def)
qed

text \<open>
  C10. Every interrupt on a vector the kernel installs is served in every state the booted
  kernel can reach: the entry point always gives an outcome. It returns on every vector
  but two; on vector 6 and on vector 13 it prints and stays in its loop. On the double
  fault, vector 8, it returns.
\<close>

theorem kernel_serves_interrupts:
  assumes "boot_ok C m" and "kernel_main C m = Some m0" and "kernel_run C use_apic m0 vs m1"
    and "v < 48" and "interrupt_id args = of_nat v"
  shows "case c_call (run_handler C) f args m1 of
      None \<Rightarrow> False
    | Some (Returned m2) \<Rightarrow> v \<noteq> 6 \<and> v \<noteq> 13
    | Some (Hung m2) \<Rightarrow> v = 6 \<or> v = 13"
proof -
  have "handlers m1 = kernel_handlers"
    using kernel_run_result [OF assms(3) booted_inv [OF assms(1,2)]] by (simp add: kernel_inv_def)
  then obtain evs where s: "c_call (run_handler C) f args m1 =
      Some (serve_vector C v args (m1\<lparr>m_trace := evs @ m_trace m1\<rparr>))"
    using c_call_serves assms(4,5) by blast
  show ?thesis
    unfolding s using serve_returns [of C v args "m1\<lparr>m_trace := evs @ m_trace m1\<rparr>"]
    by (auto split: outcome.split)
qed

theorem kernel_serves_interrupts_witness:
  "\<exists>m0. kernel_main demo_controller demo_machine = Some m0 \<and>
     (case c_call (run_handler demo_controller) C_isr_handler (frame 0 13 0 demo_cpu) m0 of
        Some (Hung m2) \<Rightarrow> True | _ \<Rightarrow> False)"
proof -
  obtain m0 where m0: "kernel_main demo_controller demo_machine = Some m0"
    using kernel_main_facts [OF demo_boot] by blast
  have a: "interrupt_id (frame 0 13 0 demo_cpu) = of_nat 13" by (simp add: frame_def)
  show ?thesis
    using kernel_serves_interrupts [OF demo_boot m0 kernel_run.idle _ a, where f = C_isr_handler] m0
    by (auto split: option.splits outcome.splits)
qed

text \<open>
  C29. The timer interrupt prints its counter, counts, and writes 0 to the end of interrupt
  register of the APIC, 0xB0 bytes after the pointer \<open>apic\<close>. It does not ask whether
  there is an APIC: with the pointer 0 the store goes to the linear address 0xB0.
\<close>

theorem timer_interrupt_effect:
  "timer_interrupt C args m = Returned (m\<lparr>
     m_terminal := terminal_putbytes (bytes ''Timer '' @ hex_word (timerval m) @ [10]) (m_terminal m),
     timerval := timerval m + 1, m_trace := MmioStore (apic m + 0xB0) 0 # m_trace m\<rparr>)"
proof -
  have eoi: "apic_set C eoi 0 n = n\<lparr>m_trace := MmioStore (apic n + 0xB0) 0 # m_trace n\<rparr>" for n
    by (simp add: apic_set_def member_width_def member_reg_def member_at_def found_members
        mmio_store_def m_do_def)
  have "literal_bytes ''Timer '' = bytes ''Timer ''" by (simp add: literal_bytes_def bytes_def)
  then show ?thesis
    unfolding timer_interrupt_def apic_send_eoi_def eoi Let_def m_puts_def m_hex_def m_putchar_def
      terminal_puts_def writehex_putbytes by simp
qed

text \<open>
  C5. A key press, from the interrupt to the screen, on the booted kernel without an APIC:
  the controller interrupts on line 1 with the scan code of a printable key. The stub
  saves the registers, the entry point ends the interrupt at the first 8259, the handler reads the
  code, the character of the key under the current modifiers appears at the cursor, and the
  interrupted code goes on as it was.
\<close>

theorem key_press_shows_character:
  assumes "handlers m = kernel_handlers" and "stack c = a # b # rest"
    and "tr = OutB PIC1_CMD 0x20 # m_trace m"
    and "dev_inb (c_device C) tr 0x64 = status" and "bit status 0"
    and "dev_inb (c_device C) (InB 0x64 status # tr) 0x60 = k" and "k < 0x80" and "printable (ucast k)"
  shows "exec stack_base (c_call (run_handler C)) clobber (stub_code (vector_stub False 33)) (deliver None c) m =
    Some (Runs (c\<lparr>r_es := r_ds c, r_fs := r_ds c, r_gs := r_ds c\<rparr>)
      (m\<lparr>m_terminal := terminal_putchar (selected_map (m_keyboard m) ! unat k) (m_terminal m),
         m_trace := InB 0x60 k # InB 0x64 status # tr\<rparr>))"
proof -
  let ?args = "frame stack_base 33 0 c" and ?m = "m\<lparr>m_trace := tr\<rparr>"
  have eoi: "irq_handler_pic (run_handler C) ?args m = Some (Returned (i8042_irq C ?args ?m))"
  proof -
    have "m_outb PIC1_CMD PIC_CMD_RESET m = ?m" by (simp add: m_outb_eq PIC_CMD_RESET_def assms(3))
    then have "irq_handler_pic (run_handler C) ?args m = isr_handler (run_handler C) ?args ?m"
      by (simp add: irq_handler_pic_isr frame_def IRQ_def)
    moreover have "isr_handler (run_handler C) ?args ?m = Some (serve_vector C 33 ?args ?m)"
      using assms(1) by (intro isr_handler_serves) (simp_all add: frame_def)
    ultimately show ?thesis by (simp add: serve_vector_def)
  qed
  have u: "unat (ucast k :: u16) = unat k"
    unfolding unat_ucast_mod by (intro mod_less less_trans [OF unat_less_of(1)]) simp
  have "ucast k \<noteq> KEYBOARD_TBF"
    using assms(7) unfolding KEYBOARD_TBF_def word_eq_iff_unat u word_less_nat_alt by simp
  moreover have "keyboard_handle (ucast k) (m_keyboard m, m_terminal m) =
      (m_keyboard m, terminal_putchar (selected_map (m_keyboard m) ! unat k) (m_terminal m))"
    using assms(7,8) by (simp add: handle_cases byte_not_two_byte bit_byte_7 u)
  ultimately have "i8042_irq C ?args ?m =
      m\<lparr>m_terminal := terminal_putchar (selected_map (m_keyboard m) ! unat k) (m_terminal m),
        m_trace := InB 0x60 k # InB 0x64 status # tr\<rparr>"
    using assms(4,5,6)
    by (cases m) (simp add: i8042_irq_def m_inb_eq i8042_COMMAND_def i8042_DATA_def status_bits Let_def)
  then show ?thesis
    by (subst stub_runs [OF _ _ _ assms(2)])
      (simp_all add: has_error_code_def vector_entry_def c_call_def eoi)
qed

definition demo_key_config :: config where
  "demo_key_config = demo_controller\<lparr>c_device := demo_device\<lparr>dev_inb := \<lambda>_ port.
     if port = 0x64 then 1 else 0x1E\<rparr>\<rparr>"

theorem key_press_shows_character_witness:
  "case exec 0xC0110000 (c_call (run_handler demo_key_config)) (\<lambda>m. (0, 0, 0))
      (stub_code (vector_stub False 33)) (deliver None demo_cpu)
      (demo_machine\<lparr>handlers := kernel_handlers\<rparr>) of
     Some (Runs c m) \<Rightarrow> c = demo_cpu \<and> m_terminal m = terminal_putchar (chr CHR ''a'') demo_terminal
   | _ \<Rightarrow> False"
proof -
  let ?m = "demo_machine\<lparr>handlers := kernel_handlers\<rparr>"
  have h: "handlers ?m = kernel_handlers" by simp
  have st: "stack demo_cpu = 11 # 12 # []" by (simp add: demo_cpu_def)
  have p: "printable (ucast (0x1E :: u8))" by (simp add: printable_def keymap_def)
  have key: "selected_map (m_keyboard ?m) ! unat (0x1E :: u8) = chr CHR ''a''"
    by (simp add: selected_map_def keymap_def demo_machine_def keyboard_init_def)
  have c: "demo_cpu\<lparr>r_es := r_ds demo_cpu, r_fs := r_ds demo_cpu, r_gs := r_ds demo_cpu\<rparr> = demo_cpu"
    by (simp add: demo_cpu_def)
  show ?thesis
    using key_press_shows_character [OF h st refl _ _ _ _ p, of demo_key_config 1 "0xC0110000" "\<lambda>m. (0, 0, 0)"]
    by (simp only: key c) (simp add: demo_key_config_def demo_machine_def bit_iff_odd)
qed

end
