(* ===== verification/Boot.thy ===== *)
theory Boot
  imports Kernel
begin

text \<open>
  The last part of \<open>kernel_main\<close> with interrupts. Interrupts are enabled before \<open>arch_init\<close>, and
  once the drivers are set up the keyboard can interrupt at any time. Here the rest of
  \<open>kernel_main\<close> is a list of actions, a message or one device of the bus scan each, and
  interrupts are served between any two of them.
\<close>

section \<open>The actions\<close>

type_synonym action = "machine \<Rightarrow> machine option"

text \<open>The lines of \<open>kernel_main\<close> after \<open>arch_init\<close>, up to the bus scan.\<close>

definition print_vendor :: "config \<Rightarrow> action" where
  "print_vendor C m =
     (let (vendor, m) = m_ask (cpuid_vendor (c_device C)) m;
          cpuvend = vendor @ [0x0A, 0]
      in do {
        t \<leftarrow> terminal_writestring cpuvend (m_terminal m);
        Some (m\<lparr>m_terminal := t\<rparr>)
      })"

definition print_available :: "config \<Rightarrow> action" where
  "print_available C m =
     (let (available, m) = m_apic_is_available C m
      in Some (m_puts (if available then nl ''ACPI Available!'' else nl ''No ACPI!'') m))"

definition message_actions :: "config \<Rightarrow> action list" where
  "message_actions C =
     [\<lambda>m. Some (arch_postinit (m_puts (nl ''Init survived...'') m)), print_vendor C, print_available C,
      \<lambda>m. Some (m_puts (nl '' busID nDev vendID  devID   clas  scls  htype'') m)]"

text \<open>The bus scan, device by device.\<close>

definition scan_actions :: "config \<Rightarrow> action list" where
  "scan_actions C = map (\<lambda>(busid, devid) m. Some (scan_functions C busid devid 0 m))
     (List.product (map of_nat [0..<0xFF]) (map of_nat [0..<0x20]))"

definition late_actions :: "config \<Rightarrow> action list" where
  "late_actions C = message_actions C @ scan_actions C"

primrec run_actions :: "action list \<Rightarrow> action" where
  "run_actions [] m = Some m"
| "run_actions (a # as) m = do { m \<leftarrow> a m; run_actions as m }"

lemma run_actions_append: "run_actions (as @ bs) m = do { m \<leftarrow> run_actions as m; run_actions bs m }"
  by (induction as arbitrary: m) simp_all

lemma run_actions_fold: "run_actions (map (\<lambda>x m. Some (f x m)) xs) m = Some (fold f xs m)"
  by (induction xs arbitrary: m) simp_all

lemma fold_product:
  "fold (\<lambda>(x, y). f x y) (List.product xs ys) s = fold (\<lambda>x. fold (f x) ys) xs s"
  by (induction xs arbitrary: s) (simp_all add: fold_map comp_def)

lemma run_scan_actions: "run_actions (scan_actions C) m = Some (scan_buses C 0 m)"
proof -
  have "scan_actions C =
      map (\<lambda>x m. Some ((\<lambda>(busid, devid). scan_functions C busid devid 0) x m))
        (List.product (map of_nat [0..<0xFF]) (map of_nat [0..<0x20]))"
    by (simp add: scan_actions_def case_prod_beta' del: upt_Suc)
  then have "run_actions (scan_actions C) m =
      Some (fold (\<lambda>busid. fold (\<lambda>devid. scan_functions C busid devid 0) (map of_nat [0..<0x20]))
        (map of_nat [0..<0xFF]) m)"
    by (simp only: run_actions_fold fold_product)
  also have "\<dots> = Some (scan_buses C 0 m)"
    by (simp add: bus_loop.loop_run scan_pci_bus_def dev_loop.loop_run run_until_fold del: upt_Suc)
  finally show ?thesis .
qed

text \<open>Without an interrupt the actions are what \<open>kernel_main\<close> does.\<close>

lemma kernel_late_actions: "kernel_late C m = run_actions (late_actions C) m"
  by (simp add: kernel_late_def late_actions_def message_actions_def run_actions_append run_scan_actions
      print_vendor_def print_available_def pci_init_def case_prod_beta' Let_def split: bind_splits)

section \<open>Each action prints and asks the hardware\<close>

definition harmless :: "action \<Rightarrow> bool" where
  "harmless a \<longleftrightarrow> (\<forall>m. \<exists>m' bs. a m = Some m' \<and> does quiet bs m m')"

lemma harmlessI: "(\<And>m. \<exists>m' bs. a m = Some m' \<and> does quiet bs m m') \<Longrightarrow> harmless a"
  by (simp add: harmless_def)

lemma harmless_puts: "harmless (\<lambda>m. Some (m_puts str m))"
  by (rule harmlessI) (use does_print(1) [OF does_refl] in blast)

lemma harmlessD: "harmless a \<Longrightarrow> (\<And>m' bs. a m = Some m' \<Longrightarrow> does quiet bs m m' \<Longrightarrow> P) \<Longrightarrow> P"
  unfolding harmless_def by blast

lemma harmless_vendor: "harmless (print_vendor C)"
proof (rule harmlessI)
  fix m
  let ?v = "fst (m_ask (cpuid_vendor (c_device C)) m)" and ?n = "snd (m_ask (cpuid_vendor (c_device C)) m)"
  have ask: "does quiet [] m ?n"
    using does_events [of quiet "[Cpuid 0]" m]
    by (simp add: m_ask_def cpuid_vendor_def quiet_events case_prod_beta' Let_def)
  define shown where "shown = takeWhile (\<lambda>x. x \<noteq> 0) (?v @ [0x0A, 0])"
  have "does quiet shown ?n (?n\<lparr>m_terminal := terminal_putbytes shown (m_terminal ?n)\<rparr>)"
    unfolding does_def by (intro exI [of _ "[]"]) simp
  note does = does_trans [OF ask this]
  moreover have "print_vendor C m = Some (?n\<lparr>m_terminal := terminal_putbytes shown (m_terminal ?n)\<rparr>)"
    by (simp add: print_vendor_def case_prod_beta' Let_def writestring_putbytes shown_def)
  ultimately show "\<exists>m' bs. print_vendor C m = Some m' \<and> does quiet bs m m'" by blast
qed

lemma harmless_available: "harmless (print_available C)"
proof (rule harmlessI)
  fix m
  have "\<exists>bs. does quiet bs m (m_puts str (snd (m_apic_is_available C m)))" for str
    using does_print(1) [OF available_does] by blast
  then show "\<exists>m' bs. print_available C m = Some m' \<and> does quiet bs m m'"
    by (simp add: print_available_def case_prod_beta' Let_def)
qed

lemma harmless_scan: "harmless (\<lambda>m. Some (scan_functions C busid devid 0 m))"
proof (rule harmlessI)
  fix m
  obtain bs where "does config_read bs m (scan_functions C busid devid 0 m)"
    using only_scans_run [of m C busid devid "map of_nat [unat (0 :: u8)..<unat (8 :: u8)]"]
    unfolding only_scans_def func_loop.loop_run by blast
  then show "\<exists>m' bs. Some (scan_functions C busid devid 0 m) = Some m' \<and> does quiet bs m m'"
    using does_mono quiet_events(3) by blast
qed

lemma late_actions_harmless: "a \<in> set (late_actions C) \<Longrightarrow> harmless a"
  unfolding late_actions_def message_actions_def scan_actions_def arch_postinit_def
  by (auto simp: harmless_puts harmless_vendor harmless_available harmless_scan simp del: upt_Suc)

lemma harmless_run:
  "list_all harmless as \<Longrightarrow> \<exists>m' bs. run_actions as m = Some m' \<and> does quiet bs m m'"
proof (induction as arbitrary: m)
  case Nil
  then show ?case using does_refl by auto
next
  case (Cons a as)
  then obtain n bs where n: "a m = Some n" "does quiet bs m n" by (auto elim: harmlessD [of a m])
  obtain m' bs' where "run_actions as n = Some m'" "does quiet bs' n m'"
    using Cons.IH [of n] Cons.prems by auto
  then show ?case using n does_trans [OF n(2)] by auto
qed

section \<open>Boot with interrupts\<close>

text \<open>
  A state of the boot: the actions still to come, the vectors served so far, the machine.
\<close>

inductive boot_run ::
  "config \<Rightarrow> bool \<Rightarrow> machine \<Rightarrow> action list \<Rightarrow> nat list \<Rightarrow> machine \<Rightarrow> bool" for C use_apic m0 where
  boot: "boot_run C use_apic m0 (late_actions C) [] m0"
| act: "boot_run C use_apic m0 (a # as) vs m \<Longrightarrow> a m = Some m' \<Longrightarrow> boot_run C use_apic m0 as vs m'"
| irq: "boot_run C use_apic m0 as vs m \<Longrightarrow> kernel_step C use_apic m v m' \<Longrightarrow>
     boot_run C use_apic m0 as (vs @ [v]) m'"

lemma boot_run_inv:
  assumes "boot_run C use_apic m0 as vs m" and "kernel_inv m0 m0"
  shows "kernel_inv m0 m \<and> list_all harmless as \<and> set vs \<subseteq> {v. v < 48} - {6, 13}
    \<and> timerval m = timerval m0 + of_nat (count_list vs 32)"
  using assms(1)
proof (induction rule: boot_run.induct)
  case boot
  then show ?case using assms(2) late_actions_harmless by (auto simp: list_all_iff)
next
  case (act a as vs m m')
  then obtain bs where "does quiet bs m m'" by (auto elim: harmlessD [of a m])
  then show ?case using act.IH does_inv does_parts(6) by auto
next
  case (irq as vs m v m')
  then show ?case using kernel_step_result [of m0 m C use_apic v m'] by auto
qed

text \<open>The state the drivers leave.\<close>

lemma drivers_done:
  assumes "boot_ok C m" and "arch_entry C m = Some m1" and "kernel_early m1 = Some m2"
    and "arch_init C m2 = Some m0"
  shows "kernel_inv m0 m0" and "paging_ok (c_pages C) (m_paging m0)" and "timerval m0 = timerval m"
    and "in_video_memory a \<or> vmem (m_terminal m0) a = vmem (m_terminal m) a"
    and "kernel_main C m = run_actions (late_actions C) m0"
proof -
  have b: "aligned_image (c_pages C)" "arrays_ok (m_paging m)"
    using assms(1) by (simp_all add: boot_ok_def)
  obtain T tr where m1: "m1 = m\<lparr>m_paging := paging_started (c_pages C) (m_paging m), m_tables := T,
      handlers := replicate 256 None, m_trace := pit_init (pic_init tr)\<rparr>"
    using arch_entry_result [OF assms(1)] assms(2) by auto
  have "m2 = m1\<lparr>m_terminal := terminal_putbytes early_text (terminal_initialize (m_terminal m1)),
     handlers := (handlers m1)[32 := Some Timer_interrupt, 13 := Some Protection_fault,
       8 := Some Double_fault, 6 := Some Int_hang], m_trace := Sti # m_trace m1\<rparr>"
    using kernel_early_result [of m1] assms(3) by (simp add: m1)
  then have m2: "m_paging m2 = paging_started (c_pages C) (m_paging m)" "timerval m2 = timerval m"
    "m_terminal m2 = terminal_putbytes early_text (terminal_initialize (m_terminal m))"
    "(handlers m2)[33 := Some I8042_irq] = kernel_handlers" "length (handlers m2) = 256"
    by (simp_all add: m1 kernel_handlers_def)
  obtain bs evs p pg where "paging_ok (c_pages C) pg" and m0: "m0 = m2\<lparr>
      m_terminal := terminal_putbytes bs (m_terminal m2), m_paging := pg,
      handlers := (handlers m2)[33 := Some I8042_irq], apic := p,
      m_trace := evs @ the (pic_enable_line (c_device C) 1 (m_trace m2))\<rparr>"
    using arch_init_result [OF b(1), of m2] paging_started_ok [OF b(2), of "c_pages C"] assms(4)
    by (auto simp: m2(1,5))
  then show "paging_ok (c_pages C) (m_paging m0)" "timerval m0 = timerval m"
    by (simp_all add: m2)
  have t: "m_terminal m0 = terminal_putbytes (early_text @ bs) (terminal_initialize (m_terminal m))"
    by (simp add: m0 m2)
  show "kernel_inv m0 m0"
    unfolding kernel_inv_def t
    using putbytes_on_screen [OF initialize_on_screen] by (simp add: m0 m2 del: putbytes_simps)
  show "in_video_memory a \<or> vmem (m_terminal m0) a = vmem (m_terminal m) a"
    using putbytes_outside [OF initialize_on_screen, of a] initialize_outside [of a "m_terminal m"]
    unfolding t by (cases "in_video_memory a") (simp_all del: putbytes_simps)
  show "kernel_main C m = run_actions (late_actions C) m0"
    by (simp add: kernel_main_def assms(2-4) kernel_late_actions)
qed

text \<open>
  C3. Boot with interrupts. Once the drivers are set up, let interrupts be served between any
  two messages or devices of the bus scan, in any number and order, with any register contents
  and hardware answers. In every state of the boot the screen, the handler table, the page tables
  and the descriptor tables are sound, only video memory was written through the terminal, the
  timer's counter has counted its interrupts, and the rest of \<open>kernel_main\<close> runs to its idle
  loop. With no interrupt the actions are what \<open>kernel_main\<close> does.
\<close>

theorem boot_with_interrupts:
  assumes "boot_ok C m" and "arch_entry C m = Some m1" and "kernel_early m1 = Some m2"
    and "arch_init C m2 = Some m0" and "boot_run C use_apic m0 as vs m'"
  shows "on_screen (m_terminal m') \<and> handlers m' = kernel_handlers
    \<and> paging_ok (c_pages C) (m_paging m') \<and> m_tables m' = m_tables m0
    \<and> (in_video_memory a \<or> vmem (m_terminal m') a = vmem (m_terminal m) a)
    \<and> set vs \<subseteq> {v. v < 48} - {6, 13}
    \<and> timerval m' = timerval m + of_nat (count_list vs 32)
    \<and> (\<exists>m''. run_actions as m' = Some m'')
    \<and> kernel_main C m = run_actions (late_actions C) m0"
proof -
  note d = drivers_done [OF assms(1-4)]
  have inv: "kernel_inv m0 m'" and h: "list_all harmless as"
    and vs: "set vs \<subseteq> {v. v < 48} - {6, 13}" "timerval m' = timerval m0 + of_nat (count_list vs 32)"
    using boot_run_inv [OF assms(5) d(1)] by auto
  have "\<exists>m''. run_actions as m' = Some m''" using harmless_run [OF h] by blast
  moreover have "in_video_memory a \<or> vmem (m_terminal m') a = vmem (m_terminal m) a"
    using inv d(4) [of a] unfolding kernel_inv_def by metis
  ultimately show ?thesis
    using inv vs d(2,3,5) unfolding kernel_inv_def by simp
qed

theorem boot_with_interrupts_witness:
  "\<exists>m0 as m'. boot_run demo_controller False m0 as [32, 33] m' \<and> timerval m' = 1
     \<and> length as < length (late_actions demo_controller)
     \<and> (\<exists>m''. run_actions as m' = Some m'')"
proof -
  obtain m1 m2 m0 where m: "arch_entry demo_controller demo_machine = Some m1"
      "kernel_early m1 = Some m2" "arch_init demo_controller m2 = Some m0"
    using kernel_main_facts [OF demo_boot]
    by (auto simp: kernel_main_def bind_eq_Some_conv)
  note inv = drivers_done(1) [OF demo_boot m]
  obtain n where n: "kernel_step demo_controller False m0 32 n"
    using demo_step [OF inv, of 32] by auto
  have s1: "boot_run demo_controller False m0 (late_actions demo_controller) ([] @ [32]) n"
    by (rule boot_run.irq [OF boot_run.boot n])
  obtain a as where as: "late_actions demo_controller = a # as"
    by (simp add: late_actions_def message_actions_def)
  have "harmless a" by (rule late_actions_harmless [of a demo_controller]) (simp add: as)
  then obtain n' where "a n = Some n'" by (auto elim: harmlessD [of a n])
  with s1 have s2: "boot_run demo_controller False m0 as [32] n'"
    unfolding as by (auto intro: boot_run.act)
  obtain m' where "kernel_step demo_controller False n' 33 m'"
    using demo_step [of m0 n' 33] boot_run_inv [OF s2 inv] by auto
  then have "boot_run demo_controller False m0 as ([32] @ [33]) m'"
    by (rule boot_run.irq [OF s2])
  then show ?thesis
    using boot_with_interrupts [OF demo_boot m] as by (fastforce simp: demo_machine_def)
qed

end
