(* ===== verification/PciIds.thy ===== *)
theory PciIds
  imports Prelude
begin

text \<open>
  src/src/sys/drv/pci/identifiers.h: the four structures of its tables, the initializers its
  rows are made of, and how a compiler reads a row. The rows themselves are in
  \<open>PciVendors\<close> and \<open>PciDevices1\<close> to \<open>PciDevices5\<close>, what holds of them in \<open>PciTables\<close>.
\<close>

section \<open>The structures\<close>

record PCI_VENTABLE =
  VenId :: u16
  VenShort :: string
  VenFull :: string

record PCI_DEVTABLE =
  dev_VenId :: u16
  DevId :: u16
  Chip :: string
  ChipDesc :: string

record PCI_CLASSCODETABLE =
  BaseClass :: u8
  SubClass :: u8
  ProgIf :: u8
  BaseDesc :: string
  SubDesc :: string
  ProgDesc :: string

section \<open>Initializers\<close>

text \<open>
  The rows of the device table are not all well-formed ISO C. A number is a constant, one of
  the two operations that occur between constants, or a text that is no constant expression.
\<close>

datatype c_expr = Const nat | Times c_expr c_expr | Minus c_expr c_expr | Malformed string

fun c_value :: "c_expr \<Rightarrow> int option" where
  "c_value (Const n) = Some (int n)"
| "c_value (Times a b) = (case (c_value a, c_value b) of (Some x, Some y) \<Rightarrow> Some (x * y) | _ \<Rightarrow> None)"
| "c_value (Minus a b) = (case (c_value a, c_value b) of (Some x, Some y) \<Rightarrow> Some (x - y) | _ \<Rightarrow> None)"
| "c_value (Malformed s) = None"

text \<open>A row: its numbers and its strings.\<close>

datatype initializer = Init "c_expr list" "string list"

text \<open>
  The structure a row initializes; a value is converted to the 16 bits of its member. \<open>None\<close>:
  the compiler rejects the row.
\<close>

definition dev_entry :: "initializer \<Rightarrow> PCI_DEVTABLE option" where
  "dev_entry r = (case r of
     Init [v, d] [chip, desc] \<Rightarrow> (case (c_value v, c_value d) of
       (Some x, Some y) \<Rightarrow> Some (PCI_DEVTABLE.make (word_of_int x) (word_of_int y) chip desc)
     | _ \<Rightarrow> None)
   | _ \<Rightarrow> None)"

definition ven :: "nat \<Rightarrow> string \<Rightarrow> string \<Rightarrow> PCI_VENTABLE" where
  "ven n short full = PCI_VENTABLE.make (of_nat n) short full"

definition cls :: "nat \<Rightarrow> nat \<Rightarrow> nat \<Rightarrow> string \<Rightarrow> string \<Rightarrow> string \<Rightarrow> PCI_CLASSCODETABLE" where
  "cls b s p bd sd pd = PCI_CLASSCODETABLE.make (of_nat b) (of_nat s) (of_nat p) bd sd pd"

section \<open>Reading a part of a table\<close>

text \<open>A row is accepted when its numbers and strings are as many as the members, each a value.\<close>

fun well_formed :: "initializer \<Rightarrow> bool" where
  "well_formed (Init es ss) = (list_all (\<lambda>e. c_value e \<noteq> None) es \<and> length es = 2 \<and> length ss = 2)"

lemma dev_entry_None: "dev_entry r = None \<longleftrightarrow> \<not> well_formed r"
  by (cases r) (auto simp: dev_entry_def length_Suc_conv numeral_2_eq_2 split: list.splits option.splits)

text \<open>A value that does not fit the 16 bits of its member is truncated.\<close>

definition c_fits :: "c_expr \<Rightarrow> bool" where
  "c_fits e = (case c_value e of None \<Rightarrow> True | Some x \<Rightarrow> 0 \<le> x \<and> x < 2 ^ 16)"

fun truncated :: "initializer \<Rightarrow> bool" where
  "truncated (Init es ss) = (well_formed (Init es ss) \<and> \<not> list_all c_fits es)"

fun row_vendor :: "initializer \<Rightarrow> c_expr" where
  "row_vendor (Init es ss) = hd es"

lemma dev_VenId_row:
  "dev_entry r = Some e \<Longrightarrow> row_vendor r = Const n \<Longrightarrow> dev_VenId e = of_nat n"
  by (cases r) (auto simp: dev_entry_def PCI_DEVTABLE.defs split: list.splits option.splits)

text \<open>The number of rejected and of truncated rows of a part, and its vendors.\<close>

definition rejected :: "initializer list \<Rightarrow> nat" where
  "rejected rs = length (filter (\<lambda>r. dev_entry r = None) rs)"

definition oversized :: "initializer list \<Rightarrow> nat" where
  "oversized rs = length (filter truncated rs)"

definition vendors :: "initializer list \<Rightarrow> c_expr set" where
  "vendors rs = row_vendor ` set rs"

text \<open>
  The simplifier computes them row by row; the congruence rules keep it out of the strings
  of the rows.
\<close>

named_theorems part_simps \<open>facts on a part of a table, row by row\<close>

lemma c_fits_Const [part_simps]: "c_fits (Const n) \<longleftrightarrow> n < 2 ^ 16"
  by (simp add: c_fits_def zless_nat_eq_int_zless)

lemma c_fits_operation [part_simps]:
  "c_fits (Times a b) =
     (case c_value (Times a b) of None \<Rightarrow> True | Some x \<Rightarrow> 0 \<le> x \<and> x < 2 ^ 16)"
  "c_fits (Minus a b) =
     (case c_value (Minus a b) of None \<Rightarrow> True | Some x \<Rightarrow> 0 \<le> x \<and> x < 2 ^ 16)"
  "c_fits (Malformed s)"
  by (simp_all add: c_fits_def)

lemma rejected_rows [part_simps]:
  "rejected [] = 0"
  "rejected (Init [Const m, Const n] [s, t] # rs) = rejected rs"
  "rejected (Init [Const m, Times a b] [s, t] # rs) =
     (if c_value (Times a b) = None then 1 else 0) + rejected rs"
  "rejected (Init [Const m, Minus a b] [s, t] # rs) =
     (if c_value (Minus a b) = None then 1 else 0) + rejected rs"
  "rejected (Init [Const m, Malformed u] [s, t] # rs) = 1 + rejected rs"
  "rejected (Init (a # b # c # es) ss # rs) = 1 + rejected rs"
  by (simp_all add: rejected_def dev_entry_None del: c_value.simps(2,3))

lemma oversized_rows [part_simps]:
  "oversized [] = 0"
  "oversized (Init [Const m, e] [s, t] # rs) =
     (if c_value e = None \<or> m < 2 ^ 16 \<and> c_fits e then 0 else 1) + oversized rs"
  "oversized (Init (a # b # c # es) ss # rs) = oversized rs"
  by (auto simp: oversized_def c_fits_Const)

lemma vendors_rows [part_simps]:
  "vendors [] = {}"
  "vendors (Init (e # es) ss # rs) = insert e (vendors rs)"
  by (simp_all add: vendors_def)

lemma rejected_append: "rejected (rs @ rs') = rejected rs + rejected rs'"
  by (simp add: rejected_def)

lemma oversized_append: "oversized (rs @ rs') = oversized rs + oversized rs'"
  by (simp add: oversized_def)

lemma vendors_append: "vendors (rs @ rs') = vendors rs \<union> vendors rs'"
  by (simp add: vendors_def image_Un)

text \<open>The numbers of a part of the vendor table.\<close>

definition ven_ids :: "PCI_VENTABLE list \<Rightarrow> u16 list" where
  "ven_ids rs = map VenId rs"

lemma ven_ids_rows [part_simps]:
  "ven_ids [] = []"
  "ven_ids (ven n short full # rs) = of_nat n # ven_ids rs"
  by (simp_all add: ven_ids_def ven_def PCI_VENTABLE.defs)

lemma ven_ids_append: "ven_ids (rs @ rs') = ven_ids rs @ ven_ids rs'"
  by (simp add: ven_ids_def)

text \<open>Search in a list of numbers, up to the first that is equal.\<close>

fun known :: "nat \<Rightarrow> nat list \<Rightarrow> bool" where
  "known n [] = False"
| "known n (x # xs) = (if n = x then True else known n xs)"

lemma known_iff: "known n xs \<longleftrightarrow> n \<in> set xs"
  by (induction xs) auto

text \<open>
  One pass over a list of numbers: those in \<open>sk\<close> are passed over, the others must ascend
  from \<open>lo\<close> on; the result is the last of them.
\<close>

fun ascent :: "nat list \<Rightarrow> nat \<Rightarrow> nat list \<Rightarrow> nat option" where
  "ascent sk lo [] = Some lo"
| "ascent sk lo (x # xs) =
     (if x \<in> set sk then ascent sk lo xs else if lo < x then ascent sk x xs else None)"

lemma ascent_append:
  "ascent sk lo (xs @ ys) = (case ascent sk lo xs of None \<Rightarrow> None | Some hi \<Rightarrow> ascent sk hi ys)"
  by (induction sk lo xs rule: ascent.induct) simp_all

lemma ascent_sound:
  "ascent sk lo xs = Some hi \<Longrightarrow>
     sorted_wrt (<) (filter (\<lambda>n. n \<notin> set sk) xs) \<and> lo \<le> hi \<and>
     (\<forall>n \<in> set xs. n \<notin> set sk \<longrightarrow> lo < n \<and> n \<le> hi)"
  by (induction sk lo xs rule: ascent.induct) (fastforce split: if_splits)+

definition picked :: "nat list \<Rightarrow> nat list \<Rightarrow> nat list" where
  "picked sk xs = filter (\<lambda>n. n \<in> set sk) xs"

lemma picked_rows [part_simps]:
  "picked sk [] = []"
  "picked sk (x # xs) = (if x \<in> set sk then x # picked sk xs else picked sk xs)"
  by (simp_all add: picked_def)

lemma picked_append: "picked sk (xs @ ys) = picked sk xs @ picked sk ys"
  by (simp add: picked_def)

lemma distinct_ascent:
  assumes "ascent sk lo xs = Some hi" and "distinct (picked sk xs)"
  shows "distinct xs"
proof -
  have "distinct (filter (\<lambda>n. n \<notin> set sk) xs)"
    using ascent_sound [OF assms(1)] by (auto simp: strict_sorted_iff)
  then show ?thesis
    using assms(2) unfolding picked_def by (induction xs) (auto split: if_splits)
qed

text \<open>The length of a part, counted without looking at the rows.\<close>

fun count_rows :: "'a list \<Rightarrow> nat \<Rightarrow> nat" where
  "count_rows [] n = n"
| "count_rows (x # xs) n = count_rows xs (Suc n)"

lemma count_rows: "length xs = count_rows xs 0"
proof -
  have "count_rows xs n = length xs + n" for n
    by (induction xs arbitrary: n) simp_all
  then show ?thesis by simp
qed

lemma part_cong:
  "rejected rs = rejected rs" "oversized rs = oversized rs" "vendors rs = vendors rs"
  "well_formed r = well_formed r" "truncated r = truncated r" "known n xs = known n xs"
  "ven_ids vs = ven_ids vs" "ascent sk lo xs = ascent sk lo xs" "picked sk xs = picked sk xs"
  by (rule refl)+

lemma count_rows_cong: "n = m \<Longrightarrow> count_rows xs n = count_rows xs m"
  by simp

end
