(* ===== verification/PciDevices1.thy ===== *)
theory PciDevices1
  imports PciVendors
begin

text \<open>
  src/src/sys/drv/pci/identifiers.h: rows 1 to 1500 of the device table \<open>PciDevTable\<close>, in
  parts of 150 rows. Of each part: its length, how many of its rows a compiler rejects, how
  many have a number that does not fit its member, and that all of its vendors are listed.
\<close>

definition PciDevTable_1 :: "initializer list" where
 "PciDevTable_1 = [
  Init [Const 0x165C, Const 0x0002] [''FT232BL'', ''FT232BL''],
  Init [Const 0x16AE, Const 0x000A] [''SafeXcel-1841'', ''Crypto Accelerator''],
  Init [Const 0x16AE, Const 0x1141] [''SafeXcel-1141'', ''Crypto Accelerator''],
  Init [Const 0x11DA, Const 0x2000] [''2'', ''Virtual-Bus / AlacrityVM bridge''],
  Init [Const 0x11DB, Const 0x1234] [[], ''Dreamcast Broadband Adapter''],
  Init [Const 0x11DE, Const 0x6057] [''59568'', ''Mc3aDo  <a href=''],
  Init [Const 0x11DE, Const 0x6067] [''zr36067pqc'', ''zoran''],
  Init [Const 0x11DE, Const 0x6120] [''ZR36120PQC'', ''MPEG VideoBVPSXI Capture Card''],
  Init [Const 0x11DE, Malformed ''0x6O57''] [''ZR36057PQC'', ''ZORAN PCI Bridge (interface for transferring video across the PCI bus)''],
  Init [Const 0x11DE, Const 0x9876] [[], []],
  Init [Const 0x11EC, Const 0x0028] [''NV05'', ''MCP67 High Definition Audio''],
  Init [Const 0x11EC, Const 0x2064] [[], []],
  Init [Const 0x11F0, Const 0x4] [''FASTline UTP Quattr'', ''PCI'' @ [CHR 0x5C] @ ''VEN_8086&DEV_2772&SUBSYS_0CCB105B&REV_02'' @ [CHR 0x5C] @ ''3&2411E6FE&0&10''],
  Init [Const 0x11F0, Const 0x4231] [''1'', ''2''],
  Init [Const 0x11F0, Const 0x4232] [''FASTline UTP Quattr'', ''PCI'' @ [CHR 0x5C] @ ''VEN_8086&DEV_2772&SUBSYS_0CCB105B&REV_02'' @ [CHR 0x5C] @ ''3&2411E6FE&0&10''],
  Init [Const 0x11F0, Const 0x4233] [''FASTline FO'', []],
  Init [Const 0x11F0, Const 0x4234] [''FASTline UTP'', []],
  Init [Const 0x11F0, Const 0x4235] [''FASTline-II UTP'', []],
  Init [Const 0x11F0, Const 0x4236] [''FASTline-II FO'', []],
  Init [Const 0x11F0, Const 0x4731] [''GIGAline'', ''Gigabit Ethernet Adapter''],
  Init [Const 0x11F0, Const 0x9876] [''1'', ''2''],
  Init [Const 0x11F4, Const 0x2915] [''2915'', []],
  Init [Const 0x11F6, Const 0x0112] [''ATT2MD11'', ''ReadyLink ENET100-VG4''],
  Init [Const 0x11F6, Const 0x0113] [[], ''FreedomLine 100''],
  Init [Const 0x11F6, Const 0x1401] [''832AE28030680'', ''ReadyLink RL2000''],
  Init [Const 0x11F6, Const 0x2011] [''TXA9882'', ''ReadyLink  RL100ATX/PCI Fast Ethernet Adapter''],
  Init [Const 0x11F6, Const 0x2201] [''TXA9883'', ''ReadyLink 100TX (Winbond W89C840)''],
  Init [Const 0x11F6, Const 0x9881] [''TXA9881?'', ''ReadyLink RL100TX Fast Ethernet Adapter''],
  Init [Const 0x11F8, Const 0x7364] [''PM7364'', ''FREEDM-32 Frame Engine & Datalink Mgr''],
  Init [Const 0x11F8, Const 0x7366] [''PM7364'', ''FREEDM-8 Frame Engine & Datalink Manager''],
  Init [Const 0x11F8, Const 0x7367] [''PM7367'', ''FREEDM-32P32 Frame Engine & Datalink Mgr''],
  Init [Const 0x11F8, Const 0x7375] [''PM7375'', ''LASAR-155 ATM SAR''],
  Init [Const 0x11F8, Const 0x7380] [''PM7380'', ''FREEDM-32P672 Frm Engine & Datalink Mgr''],
  Init [Const 0x11F8, Const 0x7382] [''PM7382'', ''FREEDM-32P256 Frm Engine & Datalink Mgr''],
  Init [Const 0x11F8, Const 0x7384] [''PM7384'', ''FREEDM-84P672 Frm Engine & Datalink Mgr''],
  Init [Const 0x11F8, Const 0x8000] [''PM8000 SPC'', ''6G SAS/SATA Controller''],
  Init [Const 0x11F8, Const 0x8010] [''PM8010 SRC'', ''6G SAS/SATA RAID Controller''],
  Init [Const 0x11FB, Const 0x0417] [''417'', ''PCI-417 High Speed A/D Board''],
  Init [Const 0x11FE, Const 0x0001] [''RocketPort'', []],
  Init [Const 0x11FE, Const 0x0002] [''RocketPort'', []],
  Init [Const 0x11FE, Const 0x0003] [''RocketPort'', []],
  Init [Const 0x11FE, Const 0x0004] [''RocketPort'', []],
  Init [Const 0x11FE, Const 0x0005] [''RocketPort'', []],
  Init [Const 0x11FE, Const 0x0006] [''RocketPort'', []],
  Init [Const 0x11FE, Const 0x0007] [''RocketPort'', []],
  Init [Const 0x11FE, Const 0x0008] [''RocketPort'', []],
  Init [Const 0x11FE, Const 0x0009] [''RocketPort'', []],
  Init [Const 0x11FE, Const 0x000A] [''RocketPort'', []],
  Init [Const 0x11FE, Const 0x000B] [''RocketPort'', []],
  Init [Const 0x11FE, Const 0x000C] [''RocketPort'', []],
  Init [Const 0x11FE, Const 0x000D] [''RocketPort'', []],
  Init [Const 0x11FE, Const 0x8015] [''RocketPort'', ''4-port UART 16954''],
  Init [Const 0x1202, Const 0x0001] [''NAIATMPCI'', ''PCI ATM Adapter''],
  Init [Const 0x1203, Const 0x0001] [''Unknown'', ''Unknown''],
  Init [Const 0x1204, Const 0x9876] [''12'', ''wwDW''],
  Init [Const 0x1208, Const 0x4853] [[], ''HS-Link Device''],
  Init [Const 0x1365, Const 0x9050] [''HYSDN'', []],
  Init [Const 0x1209, Const 0x0100] [''PCI 9054'', ''PLX PCI BRIDGE''],
  Init [Const 0x120E, Const 0x0100] [''Cyclom-Y'', ''Multiport Serial Card''],
  Init [Const 0x120E, Const 0x0101] [''Cyclom-Y'', ''Multiport Serial Card''],
  Init [Const 0x120E, Const 0x0102] [''Cyclom-4Y'', ''Multiport Serial Card''],
  Init [Const 0x120E, Const 0x0103] [''Cyclom-4Y'', ''Multiport Serial Card''],
  Init [Const 0x120E, Const 0x0104] [''Cyclom-8Y'', ''Multiport Serial Card''],
  Init [Const 0x120E, Const 0x0105] [''Cyclom-8Y'', ''Multiport Serial Card''],
  Init [Const 0x120E, Const 0x0200] [''Cyclom-Z'', ''Intelligent Multiport Serial''],
  Init [Const 0x120E, Const 0x0201] [''Cyclom-Z'', ''Intelligent Serial Card''],
  Init [Const 0x120E, Const 0x0300] [''PC300 RX 2'', ''1105''],
  Init [Const 0x120E, Const 0x0301] [''PC300 RX 1'', []],
  Init [Const 0x120E, Const 0x0302] [''PC300 TE 2'', []],
  Init [Const 0x120E, Const 0x0303] [''PC300 TE 1'', ''teclado''],
  Init [Const 0x120F, Const 0x0001] [''Roadrunner'', []],
  Init [Const 0x1210, Const 0x25F4] [''No data'', ''No data''],
  Init [Const 0x1216, Const 0x0003] [''188A2L432B'', ''PTM400 PCI Taxi Module''],
  Init [Const 0x1217, Const 0x00F7] [''0x00f71217'', ''1394 Open Host Controller Interface''],
  Init [Const 0x1217, Const 0x1217] [''EN-2242'', ''111111111''],
  Init [Const 0x1217, Const 0x6729] [''OZ6729'', ''PCI to PCMCIA Bridge''],
  Init [Const 0x1217, Const 0x673A] [''OZ6730'', ''PCI to PCMCIA Bridge''],
  Init [Const 0x1217, Const 0x6832] [''OZ6832/3'', ''CardBus Controller''],
  Init [Const 0x1217, Const 0x6836] [''OZ6836/6860'', ''CardBus Controller''],
  Init [Const 0x1217, Const 0x6872] [''OZ6812'', ''CardBus Controller''],
  Init [Const 0x1217, Const 0x6925] [''OZ6922'', ''CardBus Controller''],
  Init [Const 0x1217, Const 0x6933] [''OZ6933'', ''CardBus Controller''],
  Init [Const 0x1217, Const 0x6972] [''OZ6912'', ''CardBus Controller''],
  Init [Const 0x1217, Const 0x7110] [''OZ711Mx'', ''MemoryCardBus Accelerator''],
  Init [Const 0x1217, Const 0x7112] [[], []],
  Init [Const 0x1217, Const 0x7113] [''0Z711EC1'', ''PCMCIA/SmartCardBus Contoller''],
  Init [Const 0x1217, Const 0x7114] [''OZ711M1'', ''CardBus Controller''],
  Init [Const 0x1217, Const 0x7120] [''Unknown device'', ''O2Micro Integrated MMC/SD controller''],
  Init [Const 0x1217, Const 0x7130] [''501179'', ''O2Micro Integrated MMC/SD/MS/xD/SM Controller''],
  Init [Const 0x1217, Const 0x7134] [''OZ711MP1/MS1'', ''MemoryCardBus Controller 6-in-1''],
  Init [Const 0x1217, Const 0x7135] [''OZ711EZ1'', ''MemoryCardBus Contoller''],
  Init [Const 0x1217, Const 0x7136] [''OZ711SP1'', ''O2Micro CardBus Controller''],
  Init [Const 0x1217, Const 0x71E2] [[], []],
  Init [Const 0x1217, Const 0x7212] [[], []],
  Init [Const 0x1217, Const 0x7213] [[], []],
  Init [Const 0x1217, Const 0x7222] [''unknow'', ''pci to pcmcia bridge''],
  Init [Const 0x1217, Const 0x7223] [''OZ711M3/MC3'', ''MemoryCardBus Controller''],
  Init [Const 0x1217, Const 0x8130] [''0x8130'', ''o2 sd card reader''],
  Init [Const 0x1217, Const 0x8231] [''OZ600XXX'', ''O2Micro OZ600XXX Memory Card ''],
  Init [Const 0x1217, Const 0x8330] ['' PCI'' @ [CHR 0x5C] @ ''VEN_1217&DEV_8331&SUBSYS_049A1028&REV_05'' @ [CHR 0x5C] @ ''4&34'', ''Mass storage controller [0180]''],
  Init [Const 0x1217, Const 0x8331] [''OZ600xxx'', ''O2Micro Integrated MS/PRO controller''],
  Init [Const 0x121A, Const 3] [[], []],
  Init [Const 0x121A, Const 3] [[], []],
  Init [Const 0x121A, Const 0x0001] [''Voodoo'', ''Voodoo 3D Acceleration Chip''],
  Init [Const 0x121A, Const 0x0002] [''Voodoo2'', ''Voodoo 2 3D Accelerator''],
  Init [Const 0x121A, Const 0x0003] [''Voodoo Banshee'', ''Voodoo Banshee''],
  Init [Const 0x121A, Const 0x0005] [''Voodoo3'', ''All Voodoo3 chips, 3000''],
  Init [Const 0x121A, Const 0x0007] [''Voodoo4'', []],
  Init [Const 0x121A, Const 0x0009] [''Voodoo5'', ''AGP X2, or PCI. Chip: 2x VSA100 with 32Mo''],
  Init [Const 0x121A, Const 0x0010] [''Rampage'', ''Rev.A AGPx4, 0.25'' @ [CHR 0xB5] @ '', 200/2x200 core/RAM''],
  Init [Const 0x121A, Const 0x0057] [''Voodoo 3/3000'', ''Avenger''],
  Init [Const 0x1220, Const 0x1220] [''9622qac'', ''AMCC 5933 TMS320C80 DSP/Imaging Board''],
  Init [Const 0x1220, Const 0x4242] ['' '', ''controller audio multimediale''],
  Init [Const 0x1223, Const 0x0001] [''KatanaQp'', ''Real-Time Processing Blade in a standard single-slot AdvancedTCA'' @ [CHR 0xAE] @ '' formfactor''],
  Init [Const 0x1223, Const 0x0002] [''KosaiPM'', ''Intel'' @ [CHR 0xAE] @ '' Pentium-M'' @ [CHR 0xAE] @ '' based AMC Module''],
  Init [Const 0x1223, Const 0x0016] [''PCIe-8120'', ''PCIe-8120 MGW Octasic DSP card ''],
  Init [Const 0x1223, Const 0x003] [''Katana3752'', ''Advanced Tri-Processor Blade''],
  Init [Const 0x1223, Const 0x004] [''Katana3750'', ''Advanced Tri-Processor Blade''],
  Init [Const 0x1223, Const 0x0044] [''Memory controller'', ''Memory controller''],
  Init [Const 0x1223, Const 0x005] [''Katana752i'', ''Real-time Processing Blade''],
  Init [Const 0x1223, Const 0x006] [''Katana750i'', ''Real-time Processing Blade''],
  Init [Const 0x1223, Const 0x007] [''CC1000dm'', ''Processor PMC Carrier Card''],
  Init [Const 0x1223, Const 0x008] [''Pm3Gv'', ''Up to 8 E1/T1/J1 interfaces for PMC-compatible baseboards''],
  Init [Const 0x1223, Const 0x009] [''Pm3GE1T1'', ''Third Generation E1 and T1/J1 interfaces for PMC-compatible baseboards''],
  Init [Const 0x1223, Const 0x010] [''SpiderwareSG'', ''SIGTRAN Signalling Gateway Blade''],
  Init [Const 0x1223, Const 0x011] [''SpiderwareSS7'', ''64 SS7 signaling channels on a single blade''],
  Init [Const 0x1223, Const 0x012] [''SpiderSS7'', ''Portable, STREAMS-Based Implementation of the ITU SS7 Protocol Stack''],
  Init [Const 0x1223, Const 0x013] [''Spider FRAME RELAY'', ''STREAMS-Based Frame Relay Implementation''],
  Init [Const 0x1223, Const 0x014] [''Spider STREAMS'', ''Implementation of the UNIX STREAMS Environment''],
  Init [Const 0x1223, Const 0x015] [''Spider DSF'', ''Transparent STREAMS Interface for High Speed LAN or Shared Memory Systems''],
  Init [Const 0x1224, Const 0x1000] [''CL560?'', ''Plum Audio, Video and VTR Controller''],
  Init [Const 0x122D, Const 0x1206] [''ICH2'', ''Asus''],
  Init [Const 0x122D, Const 0x4201] [''MR2800W'', ''AMR 56K modem''],
  Init [Const 0x122D, Const 0x50DC] [''pci 120'', ''Audio''],
  Init [Const 0x122D, Const 0x80DA] [''3328'', ''Audio''],
  Init [Const 0x122F, Const 0x37AF] [''0x9030'', ''Reflectometer using PLX 9030''],
  Init [Const 0x1668, Const 0x0100] [''0304'', ''PCI to PCI Bridge''],
  Init [Const 0x1236, Const 0x0000] [''RealMagic64/GX'', ''SD6425''],
  Init [Const 0x1236, Const 0x0531] [''MX98715/25'', ''Single Chip Fast Ethernet NIC Controller''],
  Init [Const 0x1236, Const 0x3D01] [''000'', ''RealMagic/2D''],
  Init [Const 0x1236, Const 0x6401] [''REALmagic64/GX'', ''GUI''],
  Init [Const 0x1236, Const 0x9708] [''realmagic64/gx'', ''sd6425''],
  Init [Const 0x123D, Const 0x0010] [''PCI-DV'', ''PCI-DV Digital Video Interface''],
  Init [Const 0x123F, Const 0x00E4] [''cl 480'', ''MPEG''],
  Init [Const 0x123F, Const 0x6120] [''12.03'', ''DVD device''],
  Init [Const 0x123F, Const 0x8120] [''176'', ''i440B''],
  Init [Const 0x123F, Const 0x8888] [''12.03'', ''cPEG C 3.0 DVD/MPEG2 Decoder''],
  Init [Const 0x1241, Const 0x1603] [''1'', ''keyboard''],
  Init [Const 0x1244, Const 0x0700] [''B1'', ''ISDN controller''],
  Init [Const 0x1244, Const 0x0800] [''C4'', ''ISDN Controller'']]"

lemma PciDevTable_1_facts:
  "length PciDevTable_1 = 150" "rejected PciDevTable_1 = 1" "oversized PciDevTable_1 = 0"
  "vendors PciDevTable_1 \<subseteq> Const ` set vendor_numbers"
  unfolding PciDevTable_1_def count_rows by (simp_all add: part_simps listed vendor_known_list cong: part_cong count_rows_cong)

definition PciDevTable_2 :: "initializer list" where
 "PciDevTable_2 = [
  Init [Const 0x1244, Const 0x0A00] [''A1'', ''ISDN Controller''],
  Init [Const 0x1244, Const 0x0E00] [''0x1244'', ''Fritz!PCI 2.0 ISDN Controller''],
  Init [Const 0x1244, Const 0x1100] [''C2'', ''ISDN Controller''],
  Init [Const 0x1244, Const 0x1200] [''T1'', ''ISDN Controller''],
  Init [Const 0x1244, Const 0x2700] [''E13 32A5KYW / 2CAKRCT'', ''DSP TNETD5100GHK / TNETD5015''],
  Init [Const 0x1244, Const 0x2900] [''-'', ''AVM Fritz!Card DSL v2.0 PCI''],
  Init [Const 0x124A, Const 0x10BD] [''82566DM-2'', ''Intel Gigabit network connection''],
  Init [Const 0x124A, Const 0x4023] [''BWU713 v2.0'', ''Blitzz Wireless G''],
  Init [Const 0x124C, Const 0x0220] [''.'', ''.''],
  Init [Const 0x124D, Const 0x0000] [''EasyConnect 8/32'', []],
  Init [Const 0x124D, Const 0x0002] [''EasyConnect 8/64'', []],
  Init [Const 0x124D, Const 0x0003] [''EasyIO PCI'', []],
  Init [Const 0x124F, Const 0x0041] [''IFT-2000'', ''PCI RAID Controller''],
  Init [Const 0x1250, Const 0x1978] [[], []],
  Init [Const 0x1250, Const 0x2898] [[], []],
  Init [Const 0x1255, Const 0x1110] [''MPEG Forge'', []],
  Init [Const 0x1255, Const 0x1210] [''MPEG Fusion'', []],
  Init [Const 0x1255, Const 0x2110] [''VideoPlex-pci'', ''VideoPlex pci bpc1825 rev a''],
  Init [Const 0x1255, Const 0x2120] [''VideoPlex plus'', ''VideoPlex BPC 1851 A''],
  Init [Const 0x1255, Const 0x2130] [''VideoQuest'', []],
  Init [Const 0x1256, Const 0x4201] [''PCI-2240i'', ''EIDE Adapter''],
  Init [Const 0x1256, Const 0x4401] [''PCI-2220i'', ''Dale EIDE Adapter''],
  Init [Const 0x1256, Const 0x5201] [''PCI-2000'', ''IntelliCache SCSI Adapter''],
  Init [Const 0x1258, Const 0x1988] [[], []],
  Init [Const 0x1259, Const 0x2503] [''Realtek 8139b'', []],
  Init [Const 0x1259, Const 0x2560] [''82845G'', ''AT-2560 Fast Ethernet Adapter (i82557B)''],
  Init [Const 0x1259, Const 0xC107] [''Realtek 8110S'', []],
  Init [Const 0x125B, Const 0x0B95] [''AX88772'', ''USB2.0 to 10/100M Fast Ethernet Controller''],
  Init [Const 0x125B, Const 0x1400] [''AX88140A'', ''ASIX AX88140 Based PCI Fast Ethernet Adapter''],
  Init [Const 0x125B, Const 0x1720] [''AX88172'', ''USB2 to Fast Ethernet Adapter''],
  Init [Const 0x125D, Const 0x0000] [''ESS336H'', ''PCI Fax Modem (early model)''],
  Init [Const 0x125D, Const 0x1961] [''Multimedia Device'', ''ESS Solo-1 Soundcard''],
  Init [Const 0x125D, Const 0x1968] [''ES2839'', ''Maestro-2 PCI audio accelerator''],
  Init [Const 0x125D, Const 0x1969] [''ES1969'', ''Solo-1 PCI AudioDrive family''],
  Init [Const 0x125D, Const 0x1978] [''ES1978'', ''ESS Maestro-2E PCI Audiodrive''],
  Init [Const 0x125D, Const 0x1980] [''0x0401'', ''subsys_0012103c_rev_12''],
  Init [Const 0x125D, Const 0x1988] [''ES1999'', ''ESS Allegro PCI Audio (WDM)''],
  Init [Const 0x125D, Const 0x1989] [''ES1980'', ''ESS Maestro 3 PCI Audio Accelerator''],
  Init [Const 0x125D, Const 0x1990] [''ES2898S'', []],
  Init [Const 0x125D, Const 0x1992] [[], []],
  Init [Const 0x125D, Const 0x1998] [''Maestro 3i'', ''Maestro 3i''],
  Init [Const 0x125D, Const 0x1999] [''ES1980S'', ''TAWE0548S''],
  Init [Const 0x125D, Const 0x199B] [''ES1938/41/46 solo audio'', ''Maestro-3.COMM PCI Voice+audio''],
  Init [Const 0x125D, Const 0x2808] [''ES336H'', ''PCI Fax Modem (later model)''],
  Init [Const 0x125D, Const 0x2828] [''ES2828S'', ''TeleDrive''],
  Init [Const 0x125D, Const 0x2838] [''PCI'' @ [CHR 0x5C] @ ''VEN_125D&DEV_2838&SUBSYS_2838125D&REV_01'', ''PCI Data Fax Modem''],
  Init [Const 0x125D, Const 0x2839] [''2838'', ''Superlink Modem/V.92 chipset 56K''],
  Init [Const 0x125D, Const 0x2898] [''2898'', ''TelDrive ES56T-PI family V.90 PCI modem''],
  Init [Const 0x125F, Const 0x2084] [''AMCC S5933'', ''AMCC Bridge + 2 x Super I/O (National PC97338)''],
  Init [Const 0x1260, Const 0x3860] [''PRISM 2.5 '', ''PRISM 2.5 802.11b 11Mbps Wireless Controller''],
  Init [Const 0x1260, Const 0x3872] [''PRISM 3'', ''LAN-Express IEEE 802.11b PCI Adapter''],
  Init [Const 0x1260, Const 0x3873] [''ISL3886A'', ''PRISMII.5 IEE802.11g Wireless LAN''],
  Init [Const 0x1260, Const 0x3886] [''200206BE'', ''Creatix CTX405 WLAN Controller / ZyAir G100 - WLAN''],
  Init [Const 0x1260, Const 0x3890] [''ISL3890'', ''PRISM GT 802.11g 54Mbps Wireless Controller''],
  Init [Const 0x1260, Const 0x8130] [''HMP8130'', ''NTSC/PAL Video Decoder''],
  Init [Const 0x1260, Const 0x8131] [''HMP8131'', ''NTSC/PAL Video Decoder''],
  Init [Const 0x1266, Const 0x0001] [''023132'', ''NE10/100 Adapter (i82557B)''],
  Init [Const 0x1266, Const 0x1910] [[], ''NE2000Plus (RT8029) Ethernet Adapter''],
  Init [Const 0x1267, Const 0x1016] [[], ''NICCY PCI card''],
  Init [Const 0x1267, Const 0x4243] [[], ''Satellite receiver board / MPEG2 decoder''],
  Init [Const 0x1267, Const 0x5352] [''PCR2101'', []],
  Init [Const 0x1267, Const 0x5A4B] [''telsatturbo'', []],
  Init [Const 0x1382, Const 0x0001] [''f97260118'', ''Sek'' @ [CHR 0x27] @ ''D ARC88 professional soundcard''],
  Init [Const 0x1382, Const 0x2009] [''PLX TECHNOLOGY '' @ [CHR 0x5C] @ ''n PCI9052 '' @ [CHR 0x5C] @ ''n 0435 '' @ [CHR 0x5C] @ ''n BX9497.1 MALA'', ''SEK'' @ [CHR 0x27] @ ''D Prodif 96 Pro - professional audio card''],
  Init [Const 0x1382, Const 0x2048] [''2048'', ''Prodif Plus sound card''],
  Init [Const 0x1382, Const 0x2088] [''Marc 8 Midi'', ''8-in, 8-out sound card''],
  Init [Const 0x1268, Const 0x0204] [''Unknown'', ''Tektronix IO Processor / Tektronix PCI Acquisition Interface Rev 204''],
  Init [Const 0x126A, Const 0x269B] [''631xESB/6321ESB/3100'', ''SM Bus Controller''],
  Init [Const 0x126C, Const 0x1F1F] [[], ''e-mobility 802.11b Wireless LAN PCI Card''],
  Init [Const 0x126F, Const 0x0501] [''SM501/SM502'', ''Mobile Multimedia Companion Chip (MMCC)''],
  Init [Const 0x126F, Const 0x0710] [''SM710'', ''LynxEM''],
  Init [Const 0x126F, Const 0x0712] [''SM712'', ''LynxEM+''],
  Init [Const 0x126F, Const 0x0720] [''SM720 / SM722'', ''Lynx3DM''],
  Init [Const 0x126F, Const 0x0810] [''SM810'', ''LynxE''],
  Init [Const 0x126F, Const 0x0811] [''SM811'', ''LynxE''],
  Init [Const 0x126F, Const 0x0820] [''SM820'', ''Lynx3D''],
  Init [Const 0x126F, Const 0x0910] [''SM910'', ''SILICON MOTION''],
  Init [Const 0x1272, Const 0x0780] [''PCI'' @ [CHR 0x5C] @ ''VEN_8086&DEV_1C3A&SUBSYS_1C3A1458&REV_04'' @ [CHR 0x5C] @ ''3&115'', ''PCI'' @ [CHR 0x5C] @ ''VEN_8086&DEV_1C3A''],
  Init [Const 0x1272, Const 0x1272] [''PCI'' @ [CHR 0x5C] @ ''VEN_8086&DEV_1C3A&SUBSYS_1C3A1458&REV_04'', ''PCI'' @ [CHR 0x5C] @ ''VEN_8086&DEV_1C3A&SUBSYS_1C3A1458''],
  Init [Const 0x1272, Const 0x9876] [''PCI'' @ [CHR 0x5C] @ ''VEN_1272&DEV_0780&SUBSYS_00000008&REV_7A'' @ [CHR 0x5C] @ ''3&61A'', ''PCI'' @ [CHR 0x5C] @ ''VEN_1272&DEV_0780&SUBSYS_00000008&REV_7A'' @ [CHR 0x5C] @ ''3&61AAA01&0&58''],
  Init [Const 0x1273, Const 0x0002] [''DirecPC'', ''t9p17af-01''],
  Init [Const 0x1274, Const 0x1005] [[], ''Serial PCI Port''],
  Init [Const 0x1274, Const 0x1274] [''1880x1274'', ''multimedia audio device''],
  Init [Const 0x1274, Const 0x1371] [''ES 1370'', ''0401''],
  Init [Const 0x1274, Const 0x1373] [''ES1373'', ''Sound Blaster Audio(PCI)''],
  Init [Const 0x1274, Const 0x5000] [''ES1371'', ''AudioPCI''],
  Init [Const 0x1274, Const 0x5880] [''5880x'', ''Soundblaster (CT4750)''],
  Init [Const 0x1274, Const 0x9876] [[], []],
  Init [Const 0x1278, Const 0x0701] [''TPE3/TM3'', ''PowerPC Node''],
  Init [Const 0x1278, Const 0x1001] [''TMB17'', ''TMB17 Motherboard''],
  Init [Const 0x1279, Const 0x0060] [''TM8000'', ''Efficeon Virtual Northbridge''],
  Init [Const 0x1279, Const 0x0061] [''TMTM8000'', ''Efficeon AGP Bridge''],
  Init [Const 0x1279, Const 0x0295] [[], ''Virtual Northbridge''],
  Init [Const 0x1279, Const 0x0395] [''LongRun'', ''Northbridge''],
  Init [Const 0x1279, Const 0x0396] [[], ''SDRAM Controller''],
  Init [Const 0x1279, Const 0x0397] [''18490397'', ''BIOS scratchpad''],
  Init [Const 0x127E, Const 0x0010] [''Unknown'', ''Videum 1000 AV Plus''],
  Init [Const 0x1282, Const 0x1282] [''DM9102AF'', ''DEV''],
  Init [Const 0x1282, Const 0x9009] [''DM9009'', ''Ethernet Adapter''],
  Init [Const 0x1282, Const 0x9100] [[], []],
  Init [Const 0x1282, Const 0x9102] [''DM9102/A/AF'', ''10/100 Mbps Fast Ethernet Controller''],
  Init [Const 0x1283, Const 0x0801] [''Audio Digital Controller'', ''Audio Digital Controller''],
  Init [Const 0x1283, Const 0x673A] [''IT8330G'', ''IDE Controller''],
  Init [Const 0x1283, Const 0x8152] [''IT8152F/G'', ''Advanced RISC-to-PCI Companion Chip''],
  Init [Const 0x1283, Const 0x8172] [''IT8172G'', ''Ultra RISC (MIPS, SH4) Companion Chip''],
  Init [Const 0x1283, Const 0x8211] [''IT8211F'', ''ATA/ATAPI Controller''],
  Init [Const 0x1283, Const 0x8212] [''ITE8212'', ''ATA 133 IDE RAID Controller''],
  Init [Const 0x1283, Const 0x8213] [''IT8213F'', ''IDE Controller''],
  Init [Const 0x1283, Const 0x8330] [''IT8330G'', ''Host Bridge''],
  Init [Const 0x1283, Const 0x8872] [''IT8871/72'', ''PCI-ISA I/O chip with SMB & Parallel Port''],
  Init [Const 0x1283, Const 0x8875] [''IT8875F'', ''PCI Parallel Port''],
  Init [Const 0x1283, Const 0x8888] [''IT8888F'', ''PCI to ISA Bridge''],
  Init [Const 0x1283, Const 0x8889] [''IT8889F'', ''sound''],
  Init [Const 0x1283, Const 0x9876] [''IT8875F'', ''PCI I/O CARD''],
  Init [Const 0x1283, Const 0xE886] [''IT8330G'', ''PCI to ISA Bridge''],
  Init [Const 0x1285, Const 0x0100] [''ES1849'', ''Maestro-1 AudioDrive''],
  Init [Const 0x1287, Const 0x001E] [''LS220D'', ''DVD Decoder''],
  Init [Const 0x1287, Const 0x001F] [''LS220C'', ''DVD Decoder''],
  Init [Const 0x1287, Const 0x0020] [''LS242'', ''MPEG/DVD video decoder''],
  Init [Const 0x1289, Const 0x1006] [''1106'', ''1708''],
  Init [Const 0x128A, Const 0xF001] [''Ethernet 10/100'', ''controller ethernet''],
  Init [Const 0x128D, Const 0x0021] [[], ''ATM Adapter''],
  Init [Const 0x1290, Const 0x0010] [''?'', ''?''],
  Init [Const 0x13FE, Const 0x1240] [''PS2134CE-0'', ''4-Axis Stepping/Servo Motor Card''],
  Init [Const 0x13FE, Const 0x1600] [''PCI-1610CU/9-AE'', ''4-port RS-232 UNI PCI COMM card w/S&I&D''],
  Init [Const 0x13FE, Const 0x1680] [''PCI-1680U-A'', ''2-port CAN UniversalPCI Communication Card with Isolation''],
  Init [Const 0x13FE, Const 0x16FF] [''PCI-1610CU/9-AE'', ''4-port RS-232 UNI PCI COMM card w/S&I&D''],
  Init [Const 0x13FE, Const 0x1713] [''PCI-1713'', ''32-channel Isolated Analog Input Card''],
  Init [Const 0x13FE, Const 0x1723] [''PCI-1723'', ''16-bit, 8-ch Analog Output PCI Card with 16-ch Digital I/O''],
  Init [Const 0x13FE, Const 0x1724] [''PCI-1723'', ''14-bit, 32-channel Isolated Analog Output Card''],
  Init [Const 0x13FE, Const 0x1755] [''PCI-1755'', ''80 MB/s, 32-ch Digital I/O PCI Card''],
  Init [Const 0x13FE, Const 0x1760] [''amcc pci matchmaker s5920q'', ''pci''],
  Init [Const 0x13FE, Const 0x1761] [''PCI-1751'', ''48 Digital IO + Counter ''],
  Init [Const 0x13FE, Const 0x1762] [''PCI-1762'', ''16-ch Relay and 16-ch Isolated Digital Input PCI Card''],
  Init [Const 0x13FE, Const 0x1A00] [''0x03'', ''0x0200''],
  Init [Const 0x13FE, Const 0x3730] [''PCM-3730I'', ''16Bit dig. I/O Board''],
  Init [Const 0x129A, Const 0x0415] [''PBT-415'', ''PCI 66MHz Analyzer and 33MHz Exerciser''],
  Init [Const 0x129A, Const 0x0515] [''PBT-515'', ''PCI 66MHz Analyzer and Exerciser''],
  Init [Const 0x129A, Const 0x0615] [''PBT-615'', ''PCI 66MHz and PCI-X 100MHz Bus Analyzer and Exerciser''],
  Init [Const 0x129A, Const 0x0715] [''Vanguard PCI/PMC/cPCI'', ''PCI 66MHz and PCI-X 133MHz Bus Analyzer and Exerciser''],
  Init [Const 0x129A, Const 0xDD10] [''DPIO'', ''Digital Parallel Input Output Device 32bit, 33MHz PCI bus''],
  Init [Const 0x129A, Const 0xDD11] [''DPIO2'', ''Digital Parallel Input Output Device 64bit, 33MHz PCI bus''],
  Init [Const 0x129A, Const 0xDD12] [''DPIO2-66'', ''Digital Parallel Input Output Device 64bit, 66MHz PCI bus''],
  Init [Const 0x12A0, Const 0x0008] [''1784-PKTX'', ''Allen-Bradley 1784-PKTX''],
  Init [Const 0x12A3, Const 0xECB8] [''1646T00'', ''V.92 Lucent Modem''],
  Init [Const 0x12AA, Const 0x5568] [''Wan405'', ''WANic 400 series X.21 controller''],
  Init [Const 0x12AA, Const 0x556C] [[], ''NAI HSSI Sniffer PCI Adapter''],
  Init [Const 0x12AB, Const 0x3000] [''JRS-3DS100'', ''PCI''],
  Init [Const 0x12AD, Const 0x0010] [''1'', ''HERMES-S0''],
  Init [Const 0x12AD, Const 0x0020] [''1'', ''HERMES-PRI'']]"

lemma PciDevTable_2_facts:
  "length PciDevTable_2 = 150" "rejected PciDevTable_2 = 0" "oversized PciDevTable_2 = 0"
  "vendors PciDevTable_2 \<subseteq> Const ` set vendor_numbers"
  unfolding PciDevTable_2_def count_rows by (simp_all add: part_simps listed vendor_known_list cong: part_cong count_rows_cong)

definition PciDevTable_3 :: "initializer list" where
 "PciDevTable_3 = [
  Init [Const 0x12AD, Const 0x0080] [''1'', ''HERMES-PRI/PCIX''],
  Init [Const 0x12AE, Const 0x0001] [''3C986'', ''ACEnic 1000 BASE-SX Ethernet adapter''],
  Init [Const 0x12AE, Const 0x0002] [''3C986-T'', ''Copper Gigabit Ethernet Adapter''],
  Init [Const 0x12BA, Const 0x0032] [''Hammerhead-Lite-PCI'', ''DSP Prototyping & Development Card''],
  Init [Const 0x12C1, Const 0x9080] [''Sync4hs/CCP/PCI/MP'', ''Communications Processor''],
  Init [Const 0x13A3, Const 0x0005] [''7751'', ''Security Processor''],
  Init [Const 0x13A3, Const 0x0006] [''6500'', ''Public Key Processor''],
  Init [Const 0x13A3, Const 0x0007] [''7811'', ''Security Processor''],
  Init [Const 0x13A3, Const 0x0012] [''7951'', ''Security Processor''],
  Init [Const 0x13A3, Const 0x0014] [''7814'', ''Security Processor''],
  Init [Const 0x13A3, Const 0x0015] [''8065'', ''Security Processor''],
  Init [Const 0x13A3, Const 0x0017] [''8165'', ''Security Processor''],
  Init [Const 0x13A3, Const 0x0018] [''8154'', ''Security Processor''],
  Init [Const 0x13A3, Const 0x001D] [''7956'', ''Cryptographic Processor''],
  Init [Const 0x13A3, Const 0x0020] [''7954/7955'', ''Cryptographic Processor''],
  Init [Const 0x13A3, Const 0x0026] [''8155'', ''Security Processor''],
  Init [Const 0x13A3, Const 0x16] [''8065'', ''Security Processor''],
  Init [Const 0x12C3, Const 0x0058] [''HT80232'', ''LAN Adapter (NE2000-compatible)''],
  Init [Const 0x12C3, Const 0x5598] [''HT80229'', ''Ethernet Adapter (NE2000-compatible)''],
  Init [Const 0x12C4, Const 0x0001] [[], []],
  Init [Const 0x12C4, Const 0x0002] [[], []],
  Init [Const 0x12C4, Const 0x0003] [[], []],
  Init [Const 0x12C4, Const 0x0004] [[], []],
  Init [Const 0x12C4, Const 0x0005] [''Blue Heat-8 RS232'', ''BlueHeat 8 Port RS232 Serial Board''],
  Init [Const 0x12C4, Const 0x0006] [[], []],
  Init [Const 0x12C4, Const 0x0007] [[], []],
  Init [Const 0x12C4, Const 0x0008] [[], []],
  Init [Const 0x12C4, Const 0x0009] [[], []],
  Init [Const 0x12C4, Const 0x000A] [[], []],
  Init [Const 0x12C4, Const 0x000B] [[], []],
  Init [Const 0x12C4, Const 0x000C] [[], []],
  Init [Const 0x12C4, Const 0x000D] [[], []],
  Init [Const 0x12C4, Const 0x000E] [[], []],
  Init [Const 0x12C4, Const 0x000F] [[], []],
  Init [Const 0x12C4, Const 0x0300] [[], []],
  Init [Const 0x12C4, Const 0x0301] [[], []],
  Init [Const 0x12C4, Const 0x0302] [[], []],
  Init [Const 0x12C4, Const 0x0303] [[], []],
  Init [Const 0x12C4, Const 0x0304] [[], []],
  Init [Const 0x12C4, Const 0x0305] [[], []],
  Init [Const 0x12C4, Const 0x0306] [[], []],
  Init [Const 0x12C4, Const 0x0307] [[], []],
  Init [Const 0x12C4, Const 0x0308] [[], ''Starcom UM100 Wireless modem for WiMax ''],
  Init [Const 0x12C4, Const 0x0309] [[], []],
  Init [Const 0x12C4, Const 0x030A] [[], []],
  Init [Const 0x12C4, Const 0x030B] [[], []],
  Init [Const 0x12C5, Const 0x007F] [''ISE'', ''PEI Imaging Subsystem Engine''],
  Init [Const 0x12C5, Const 0x0081] [''PCIVST'', ''PCI Thresholding Engine''],
  Init [Const 0x12C5, Const 0x0085] [[], ''Video Simulator/Sender''],
  Init [Const 0x12C5, Const 0x0086] [''THR2'', ''Multi-scale Thresholder''],
  Init [Const 0x12C7, Const 0x0546] [''kssjsjj'', ''D120JCT-LS Card''],
  Init [Const 0x12C7, Const 0x0561] [[], ''BRI/2 Type Card (Voice Driver)''],
  Init [Const 0x12C7, Const 0x0647] [[], ''D/240JCT-T1 Card''],
  Init [Const 0x12C7, Const 0x0648] [''064812C7'', ''D/300JCT-E1 Card''],
  Init [Const 0x12C7, Const 0x0649] [''030000'', ''D/300JCT-E1 Card''],
  Init [Const 0x12C7, Const 0x0651] [[], ''MSI PCI Card''],
  Init [Const 0x12C7, Const 0x0673] [[], ''BRI/160-PCI Card''],
  Init [Const 0x12C7, Const 0x0674] [[], ''BRI/120-PCI Card''],
  Init [Const 0x12C7, Const 0x0675] [[], ''BRI/80-PCI Card''],
  Init [Const 0x12C7, Const 0x0676] [''067612C7'', ''D/41JCT Card''],
  Init [Const 0x12C7, Const 0x0685] [[], ''D/480JCT-2T1 Card''],
  Init [Const 0x12C7, Const 0x0687] [[], ''D/600JCT-2E1 (75 Ohm) Card''],
  Init [Const 0x12C7, Const 0x0689] [''D/600JCT-2E1'', ''Dialogic 2E1 - JCT series''],
  Init [Const 0x12C7, Const 0x0707] [[], ''D/320JCT (Resource Only) Card''],
  Init [Const 0x12C7, Const 0x0708] [[], ''D/160JCT (Resource Only) Card''],
  Init [Const 0x12CB, Const 0x0027] [''StudioCard'', ''studiocard''],
  Init [Const 0x12CB, Const 0x002D] [''BX-12'', ''agp''],
  Init [Const 0x12CB, Const 0x002E] [''SC-2000'', []],
  Init [Const 0x12CB, Const 0x002F] [''LX-44'', []],
  Init [Const 0x12CB, Const 0x0030] [''SC-22'', []],
  Init [Const 0x12CB, Const 0x0031] [''BX-44'', []],
  Init [Const 0x12CB, Const 0x0032] [''LX-24M'', ''20-bit 2-in, 4-out audio card w/MPEG-2''],
  Init [Const 0x12CB, Const 0x0033] [''LX-22M'', []],
  Init [Const 0x12CB, Const 0x0034] [''BX-8'', []],
  Init [Const 0x12CB, Const 0x0035] [''BX-12e'', []],
  Init [Const 0x12D1, Const 0x1001] [''MSM6246'', ''Huawei E153u-3 3G modem''],
  Init [Const 0x12D1, Const 0x1003] [''173'', ''HUAWEI Mobile Connect - 3G Modem''],
  Init [Const 0x12D1, Const 0x140B] [''EC159'', ''HUAWEI MOBILE BROADBAND MODEM''],
  Init [Const 0x12D1, Const 0x1412] [''09HT1407'', ''MW6208E''],
  Init [Const 0x12D1, Const 0x1446] [''E1800'', ''3G Modem''],
  Init [Const 0x12D1, Const 0x14C5] [''K4510'', ''HSPA+ USB Stick''],
  Init [Const 0x12D1, Const 0x1520] [''-e620'', ''-vodacom mobile connect''],
  Init [Const 0x12D1, Const 0x1802] [''unknown'', ''unknown''],
  Init [Const 0x12D1, Const 0x3609] [''N/A'', ''M88++''],
  Init [Const 0x12D4, Const 0x0301] [''EP1S'', ''SS7 Telecommunications Interface Adapter''],
  Init [Const 0x12D5, Const 0x1000] [''MAP-CA'', ''Broadband Signal Processor''],
  Init [Const 0x12D5, Const 0x1002] [''MAP-1000'', ''Digital Signal Processor''],
  Init [Const 0x1755, Const 0x000] [[], []],
  Init [Const 0x1755, Const 0x0000] [''Au1500'', ''Au1500 Processor''],
  Init [Const 0x12D8, Const 0x71E2] [''PI7C7300'', ''3 Port PCI to PCI bridge''],
  Init [Const 0x12D8, Const 0x8140] [''PI7C8140'', ''4 Port PCI to PCI bridge''],
  Init [Const 0x12D8, Const 0x8150] [''PI7C8150'', ''2-Port PCI to PCI Bridge''],
  Init [Const 0x12D8, Const 0x8152] [''PI7C8152'', ''2-Port PCI-To-PCI Bridge''],
  Init [Const 0x12D8, Const 0xA404] [''PI7C9X20404SL'', ''PCIe Packet Switch''],
  Init [Const 0x12D8, Const 0xE111] [''P17C9X'', ''PCI to PCIe Bridge''],
  Init [Const 0x12D8, Const 0xE130] [''PI7C9X130'', ''PCI-X Bridge''],
  Init [Const 0x12DB, Const 0x0003] [[], ''FoxFire II''],
  Init [Const 0x12DE, Const 0x0200] [''2005063294'', ''Cryptoswift 200''],
  Init [Const 0x12DF, Const 0x2102] [''Infineon PEB 20534'', ''Communications Controller''],
  Init [Const 0x12DF, Const 0x8236] [''Unknown'', ''PCI Controller''],
  Init [Const 0x12E0, Const 0x0010] [''ST16C654'', ''Quad UART''],
  Init [Const 0x12E0, Const 0x0020] [''ST16C654'', ''Quad UART''],
  Init [Const 0x12E0, Const 0x0030] [''ST16C654'', ''Quad UART''],
  Init [Const 0x12E4, Const 0x1000] [''TR1000 PRI'', ''PRI Controller''],
  Init [Const 0x12E4, Const 0x1140] [''NV34'', ''ISDN Controller''],
  Init [Const 0x12E4, Const 0xB005] [''TR1000 BRI'', ''BRI Controller''],
  Init [Const 0x12E4, Const 0xB006] [''TR1000 BRI'', ''BRI Controller''],
  Init [Const 0x12EB, Const 0x0001] [''AU8820'', ''Vortex 1 Digital Audio Processor''],
  Init [Const 0x12EB, Const 0x0002] [''AU8830A2'', ''Vortex 2 Audio Processor''],
  Init [Const 0x12EB, Const 0x0003] [''312EB&REV3'', ''Aureal Soundcard''],
  Init [Const 0x12EC, Const 0x8139] [''0xxxx'', ''0xxxx''],
  Init [Const 0x12EC, Const 0x8140] [''10'', ''asf''],
  Init [Const 0x12F2, Const 0x1002] [''215RAAGCGA11F'', ''Grapics Radeon X850''],
  Init [Const 0x12F2, Const 0x3059] [''VT8235'', ''AC97 Enhanced Audio Controller - the 8251 controller is different''],
  Init [Const 0x14C8, Const 0x0003] [''0000066779'', ''0''],
  Init [Const 0x12F8, Const 0x0002] [''VideoMaker'', ''s3 trio''],
  Init [Const 0x1DE1, Const 0x0045] [''RaidCore5000 Series'', ''Tekram SAS860 Embedded 8xSAS/SATAII RAID''],
  Init [Const 0x1DE1, Const 0x0058] [''RC5000Series'', ''Tekram Elrond 8xSAS/SATAII RAID''],
  Init [Const 0x1DE1, Const 0x0391] [''TRM-S1040'', ''SCSI ASIC''],
  Init [Const 0x1DE1, Const 0x2020] [''DC-390'', ''SCSI Controller''],
  Init [Const 0x1DE1, Const 0x690C] [''DC-690C'', ''IDE Cache Controller''],
  Init [Const 0x1DE1, Const 0xDC29] [''DC290M'', ''Bus Master IDE PCI 2 controllers''],
  Init [Const 0x3D3D, Const 0x0001] [''GLint 300SX'', ''3D Accelerator''],
  Init [Const 0x3D3D, Const 0x0002] [''GLint 500TX'', ''Sapphire 3D Accelerator''],
  Init [Const 0x3D3D, Const 0x0003] [''GLint'', ''Delta Geometry processor''],
  Init [Const 0x3D3D, Const 0x0004] [''3C0SX'', ''2D+3D Accelerator''],
  Init [Const 0x3D3D, Const 0x0005] [''Permedia'', ''2D+3D Accelerator''],
  Init [Const 0x3D3D, Const 0x0006] [''GLint MX'', ''3D Accelerator''],
  Init [Const 0x3D3D, Const 0x0007] [''3D Extreme'', ''Permedia II 2D+3D Accelerator''],
  Init [Const 0x3D3D, Const 0x0008] [''GLint Gamma G1'', []],
  Init [Const 0x3D3D, Const 0x0009] [''Permedia2v'', ''2d+3d chipset, integrated ramdac''],
  Init [Const 0x3D3D, Const 0x000A] [''8086'', ''Driver Ethernet Pci Ven 1969''],
  Init [Const 0x3D3D, Const 0x000C] [''Permedia 3'', ''video card''],
  Init [Const 0x3D3D, Const 0x000D] [''GLINT R4'', ''3D Accelerator''],
  Init [Const 0x3D3D, Const 0x000E] [''GLINT Gamma G2'', []],
  Init [Const 0x3D3D, Const 0x0020] [''0x0024'', ''3Dlabs Wildcat VP 880 Pro''],
  Init [Const 0x3D3D, Const 0x0030] [''0x030000'', ''3Dlabs Wildcat Realizm 800''],
  Init [Const 0x3D3D, Const 0x0100] [''Permedia II'', ''2D+3D Accelerator''],
  Init [Const 0x3D3D, Const 0x1004] [''Permedia'', ''3D+3D Accelerator''],
  Init [Const 0x3D3D, Const 0x3D04] [''Permedia'', ''2D+3D Accelerator''],
  Init [Const 0x3D3D, Const 0x3D07104C] [''same as above?  I have no idea'', ''?''],
  Init [Const 0x3D3D, Const 0xFFFF] [''GLint VGA'', []],
  Init [Const 0x4005, Const 0x0300] [''3220'', ''PCI Audio Device''],
  Init [Const 0x4005, Const 0x0308] [''3220'', ''PCI Audio Device + modem''],
  Init [Const 0x4005, Const 0x0309] [''ALS300 '', ''PCI Input Controller''],
  Init [Const 0x4005, Const 0x1064] [''ALG2064'', ''GUI Accelerator''],
  Init [Const 0x4005, Const 0x2064] [''<DELETE>'', ''GUI Accelerator''],
  Init [Const 0x4005, Const 0x2128] [''ALG2364A'', ''GUI Accelerator''],
  Init [Const 0x4005, Const 0x2301] [''ALG2301'', ''GUI Accelerator''],
  Init [Const 0x4005, Const 0x2302] [''ALG2302'', ''GUI Accelerator'']]"

lemma PciDevTable_3_facts:
  "length PciDevTable_3 = 150" "rejected PciDevTable_3 = 0" "oversized PciDevTable_3 = 1"
  "vendors PciDevTable_3 \<subseteq> Const ` set vendor_numbers"
  unfolding PciDevTable_3_def count_rows by (simp_all add: part_simps listed vendor_known_list cong: part_cong count_rows_cong)

definition PciDevTable_4 :: "initializer list" where
 "PciDevTable_4 = [
  Init [Const 0x4005, Const 0x2303] [''AVG2302'', ''GUI Accelerator''],
  Init [Const 0x4005, Const 0x2364] [''ALG2364'', ''GUI Accelerator''],
  Init [Const 0x4005, Const 0x2464] [''ALG2464'', ''GUI Accelerator''],
  Init [Const 0x4005, Const 0x2501] [''ALG2564A/25128A'', ''GUI Accelerator''],
  Init [Const 0x4005, Const 0x4000] [''ALS4000'', ''Audio Chipset''],
  Init [Const 0x5333, Const 0x0551] [''86C551'', ''Plato/PX''],
  Init [Const 0x5333, Const 0x5333] [''S3 86c765'', ''via''],
  Init [Const 0x5333, Const 0x5631] [''86C325'', ''Virge 3D ''],
  Init [Const 0x5333, Const 0x8800] [''86C866'', ''Vision 866 GUI Accelerator''],
  Init [Const 0x5333, Const 0x8801] [''86C964'', ''Vision 964 GUI Accelerator''],
  Init [Const 0x5333, Const 0x8810] [''86C732-P'', ''S3 TRIO32  IACB2  86C732-P''],
  Init [Const 0x5333, Const 0x8811] [''8622mcq04'', ''Trio 64/64V''],
  Init [Const 0x5333, Const 0x8812] [''86CM65?'', ''Aurora 64V+''],
  Init [Const 0x5333, Const 0x8813] [''86C764'', ''Trio 32/64 GUI Accelerator v3''],
  Init [Const 0x5333, Const 0x8814] [''86C767'', ''Trio 64UV+''],
  Init [Const 0x5333, Const 0x8815] [''86CM66'', ''Aurora128''],
  Init [Const 0x5333, Const 0x883D] [''86C988'', ''ViRGE/VX 3D GUI Accelerator''],
  Init [Const 0x5333, Const 0x8870] [''Fire GL'', []],
  Init [Const 0x5333, Const 0x8880] [''86C868'', ''Vision 868 GUI Accelerator VRAM rev. 0''],
  Init [Const 0x5333, Const 0x8881] [''86C868'', ''Vision 868 GUI Accelerator VRAM rev. 1''],
  Init [Const 0x5333, Const 0x8882] [''86C868'', ''Vision 868 GUI Accelerator VRAM rev. 2''],
  Init [Const 0x5333, Const 0x8883] [''86C868'', ''Vision 868 GUI Accelerator VRAM rev. 3''],
  Init [Const 0x5333, Const 0x88B0] [''86C928'', ''Vision 928 GUI Accelerator VRAM rev. 0''],
  Init [Const 0x5333, Const 0x88B1] [''86C928'', ''Vision 928 GUI Accelerator VRAM rev. 1''],
  Init [Const 0x5333, Const 0x88B2] [''86C928'', ''Vision 928 GUI Accelerator VRAM rev. 2''],
  Init [Const 0x5333, Const 0x88B3] [''86C928'', ''Vision 928 GUI Accelerator VRAM rev. 3''],
  Init [Const 0x5333, Const 0x88C0] [''86C864'', ''Vision 864 GUI Accelerator DRAM rev. 0''],
  Init [Const 0x5333, Const 0x88C1] [''86C864'', ''Vision 864 GUI Accelerator DRAM rev. 1''],
  Init [Const 0x5333, Const 0x88C2] [''86C864'', ''Vision 864 GUI Accelerator DRAM rev. 2''],
  Init [Const 0x5333, Const 0x88C3] [''86C864'', ''Vision 864 GUI Accelerator DRAM rev. 3''],
  Init [Const 0x5333, Const 0x88D0] [''86C964'', ''Vision 964 GUI Accelerator VRAM rev. 0''],
  Init [Const 0x5333, Const 0x88D1] [''86C964'', ''Vision 964-P GUI Accelerator VRAM rev. 1''],
  Init [Const 0x5333, Const 0x88D2] [''86C964'', ''Vision 964-P GUI Accelerator DRAM rev 2''],
  Init [Const 0x5333, Const 0x88D3] [''86C964'', ''Vision 964-P GUI Accelerator VRAM rev. 3''],
  Init [Const 0x5333, Const 0x88F0] [''86C968'', ''Vision 968 GUI Accelerator VRAM rev. 0''],
  Init [Const 0x5333, Const 0x88F1] [''86C968'', ''Vision 968 GUI Accelerator VRAM rev. 1''],
  Init [Const 0x5333, Const 0x88F2] [''86C968'', ''Vision 968 GUI Accelerator VRAM rev. 2''],
  Init [Const 0x5333, Const 0x88F3] [''86C968'', ''Vision 968 GUI Accelerator VRAM rev. 3''],
  Init [Const 0x5333, Const 0x8900] [''86C775'', ''Trio64V2/DX''],
  Init [Const 0x5333, Const 0x8901] [''pci'' @ [CHR 0x5C] @ ''ven_5333dev_8C2E&SUBSYS_00011179&REV_05'' @ [CHR 0x5C] @ ''4&74C6'', ''S3 trio64uv+ for windows xp''],
  Init [Const 0x5333, Const 0x8902] [''86C551'', ''SMA Family''],
  Init [Const 0x5333, Const 0x8903] [[], ''TrioV Family''],
  Init [Const 0x5333, Const 0x8904] [''86C365/366'', ''Trio3D QFP/BGA''],
  Init [Const 0x5333, Const 0x8905] [''86c765'', ''86C765 Trio64V+ compatible''],
  Init [Const 0x5333, Const 0x8906] [''86c765'', ''86C765 Trio64V+ compatible''],
  Init [Const 0x5333, Const 0x8907] [''86c765'', ''86C765 Trio64V+ compatible''],
  Init [Const 0x5333, Const 0x8908] [''9711 MCN74'', ''86C765 Trio64V+ compatible''],
  Init [Const 0x5333, Const 0x8909] [''7699688'', ''86C765 Trio64V+ compatible''],
  Init [Const 0x5333, Const 0x890A] [''0x00091011'', ''86C765 Trio64V+ compatible''],
  Init [Const 0x5333, Const 0x890B] [''9726 c19394.00'', ''86C765 Trio64V+ compatible''],
  Init [Const 0x5333, Const 0x890C] [''86C765'', ''86C765 Trio64V+ compatible''],
  Init [Const 0x5333, Const 0x890D] [''86C765 Trio64V+ compatible'', ''86C765 Trio64V+ compatible''],
  Init [Const 0x5333, Const 0x890E] [''9711 MCN74'', ''86C765 Trio64V+ compatible''],
  Init [Const 0x5333, Const 0x890F] [''86c765'', ''86C765 Trio64V+ compatible''],
  Init [Const 0x5333, Const 0x8A01] [''86C375/86C385'', ''ViRGE /DX & /GX''],
  Init [Const 0x5333, Const 0x8A10] [''86C357'', ''ViRGE /GX2''],
  Init [Const 0x5333, Const 0x8A11] [''86C359'', ''ViRGE /GX2+ Macrovision''],
  Init [Const 0x5333, Const 0x8A12] [''86C359'', ''ViRGE /GX2+''],
  Init [Const 0x5333, Const 0x8A13] [''86C368'', ''Trio3D2x & Trio3D2x+ AGP / Trio3D2x & Trio3D2x+ 8MB''],
  Init [Const 0x5333, Const 0x8A20] [''86C391'', ''S3savage3D''],
  Init [Const 0x5333, Const 0x8A21] [''86C390'', ''Savage3D/MV''],
  Init [Const 0x5333, Const 0x8A22] [''86c398'', ''Savage 4''],
  Init [Const 0x5333, Const 0x8A23] [''86C394-397'', ''Savage 4''],
  Init [Const 0x5333, Const 0x8A25] [''86C370'', ''Savage4''],
  Init [Const 0x5333, Const 0x8A26] [''86C395B'', ''ProSavage''],
  Init [Const 0x5333, Const 0x8C00] [''85C260'', ''ViRGE/M3 (ViRGE/MX)''],
  Init [Const 0x5333, Const 0x8C01] [''86C260'', ''ViRGE/M5 (ViRGE/MX)''],
  Init [Const 0x5333, Const 0x8C02] [''86C240'', ''ViRGE/MXC''],
  Init [Const 0x5333, Const 0x8C03] [''86C280'', ''ViRGE /MX+mv''],
  Init [Const 0x5333, Const 0x8C10] [''86C270/274/290/294'', ''Savage MX/IX/MX+MV/IX+MV''],
  Init [Const 0x5333, Const 0x8C12] [''86C270/274/290/294'', ''Savage MX/IX/MX+MV/IX+MV''],
  Init [Const 0x5333, Const 0x8C13] [''82C294'', ''SAVAGE IX''],
  Init [Const 0x5333, Const 0x8C22] [''86C508'', ''SuperSavage 128/MX''],
  Init [Const 0x5333, Const 0x8C2A] [''86C544'', ''SuperSavage 128/IX''],
  Init [Const 0x5333, Const 0x8C2B] [''86C553'', ''SuperSavage 128/IX DDR''],
  Init [Const 0x5333, Const 0x8C2C] [''86C564'', ''SuperSavage/IX''],
  Init [Const 0x5333, Const 0x8C2D] [''86C573'', ''SuperSavage/IX DDR''],
  Init [Const 0x5333, Const 0x8C2E] [''86C584'', ''SuperSavage/IXC SDRAM''],
  Init [Const 0x5333, Const 0x8C2F] [''86C594'', ''SuperSavage/IXC DDR''],
  Init [Const 0x5333, Const 0x8D01] [''86C380/381'', ''Twister/Twister T''],
  Init [Const 0x5333, Const 0x8D02] [''86c387'', ''Twister K''],
  Init [Const 0x5333, Const 0x8D04] [''86C410'', ''ProSavage DDR P4X333''],
  Init [Const 0x5333, Const 0x8E00] [''86C777/787'', ''DeltaChrome S8/F1''],
  Init [Const 0x5333, Const 0x8E01] [''86C732'', ''DeltaChromeX9m''],
  Init [Const 0x5333, Const 0x9102] [''86c410'', ''Inno Savage 2000''],
  Init [Const 0x5333, Const 0x9876] [''86C390'', ''Savage3D/MV''],
  Init [Const 0x5333, Const 0xCA00] [''86C617'', ''SonicVibes PCI Audio Accelerator''],
  Init [Const 0x165F, Const 0x2000] [''XILINX SPARTAN'', ''16 Channel Audio Capture Card''],
  Init [Const 0x8086, Malformed ''0x 27B8''] [''82801GB/GR'', ''Intel(R) 82801GB/GR (ICH7 Family) LPC Interface Controller''],
  Init [Const 0x8086, Const 0x0008] [[], ''Extended Express System Support Ctrlr''],
  Init [Const 0x8086, Const 0x0011] [''0x108D'', ''Ethernet Controller''],
  Init [Const 0x8086, Const 0x0042] [''Intel graphics'', ''Intel Q57/H55 Clarkdale (Onboard on D2912-A1x)''],
  Init [Const 0x8086, Const 0x0046] [''Intel Graphics Media Accelerator HD'', ''Intel Graphics Media Accelerator HD''],
  Init [Const 0x8086, Const 0x0054] [''not known'', ''Audio''],
  Init [Const 0x8086, Const 0x0082] [''6205'', ''Centrino Advanced-N 6205 ''],
  Init [Const 0x8086, Const 0x0083] [''Mobile Intel'' @ [CHR 0xAE] @ '' 5 Series Chipset'', ''Intel'' @ [CHR 0xAE] @ '' PROSet/Wireless Software and Drivers for Windows 7 32-Bit''],
  Init [Const 0x8086, Const 0x0084] [''Intel PROSet WiFi 1000'', ''Intel Wireless Link WiFi 1000, download -> http://downloadmirror.intel.com/20791/eng/Wireless_14.3.0''],
  Init [Const 0x8086, Const 0x0085] [''0x0280'', ''Intel Centrino(R) Advanced-N 6205''],
  Init [Const 0x8086, Const 0x0087] [''1306'', ''00E1''],
  Init [Const 0x8086, Const 0x008A] [''???'', ''Intel Centrino Wireless-N1030''],
  Init [Const 0x8086, Const 0x008B] [''Intel Wireless-N 1030'', ''Intel(R) Centrino(R) Wireless-N 1030 ''],
  Init [Const 0x8086, Const 0x0091] [''622ANHW'', ''Intel'' @ [CHR 0xAE] @ '' Centrino'' @ [CHR 0xAE] @ '' Advanced-N 6230''],
  Init [Const 0x8086, Const 0x0102] [''0001'', ''Intel HD Graphics 2000''],
  Init [Const 0x8086, Const 0x0104] [''2nd Gen Intel(R) Core(TM) Processor Family'', ''DRAM Controller (Host Bus Controller)''],
  Init [Const 0x8086, Const 0x0106] [''HD Graphics 3000/2000'', ''2nd Generation Intel'' @ [CHR 0xAE] @ '' Core'' @ [CHR 0x99] @ '' Processors with Intel'' @ [CHR 0xAE] @ '' HD Graphics 3000/2000''],
  Init [Const 0x8086, Const 0x010A] [''010A'', ''Lenovo TS130 Intel Video Adapter HD''],
  Init [Const 0x8086, Const 0x0111] [''82810e'', ''Intel Graphics Conroller''],
  Init [Const 0x8086, Const 0x0116] [''intel core i3'', ''Intel HD Graphics 3000''],
  Init [Const 0x8086, Const 0x0123] [''0300'', ''hardwareids''],
  Init [Const 0x8086, Const 0x0162] [''Core I5, Core I7, Ivy Bridge'', ''Graphics embedded''],
  Init [Const 0x8086, Const 0x0166] [''I3'', ''3rd Generation Intel'' @ [CHR 0xAE] @ '' HD Graphics 4000''],
  Init [Const 0x8086, Const 0x0189] [''Intel Centrino Wireless-N 1030 Bluetooth Adapter'', ''Intel Centrino Wireless Bluetooth 3.0 + High Speed Adapter''],
  Init [Const 0x8086, Const 0x027AE] [''82945GM'', ''Mobile Intel(R) 945 Express Chipset Family''],
  Init [Const 0x8086, Const 0x027D8] [''293esd'', ''Mobile PCI-to-PCIsdsdsdI2)''],
  Init [Const 0x8086, Const 0x0283E] [''AA01211025'', ''Intel(R) ICH8 Family SMBus Controller''],
  Init [Const 0x8086, Const 0x0308] [''3220'', ''PCI Audio Device + modem''],
  Init [Const 0x8086, Const 0x0309] [''80303'', ''I/O Processor PCI-to-PCI Bridge Unit''],
  Init [Const 0x8086, Const 0x030D] [''80312'', ''I/O Companion Unit PCI-to-PCI Bridge''],
  Init [Const 0x8086, Const 0x0318] [''80219'', ''General Purpose PCI Processor Address Translation Unit''],
  Init [Const 0x8086, Const 0x0319] [''80219'', ''General Purpose PCI Processor Address Translation Unit''],
  Init [Const 0x8086, Const 0x0326] [''670xPXH'', ''I/OxAPIC Interrupt Controller''],
  Init [Const 0x8086, Const 0x0327] [''6700PXH'', ''I/OxAPIC Interrupt Controller B''],
  Init [Const 0x8086, Const 0x0329] [''6700PXH'', ''PCI Express-to-PCI Express Bridge A''],
  Init [Const 0x8086, Const 0x032A] [''6700PXH'', ''PCI Express-to-PCI Express Bridge B''],
  Init [Const 0x8086, Const 0x032C] [''6702PXH'', ''PCI Express-to-PCI Express Bridge''],
  Init [Const 0x8086, Const 0x0330] [''80332'', ''A-Segment Bridge''],
  Init [Const 0x8086, Const 0x0331] [''80332'', ''A-Segment IOAPIC''],
  Init [Const 0x8086, Const 0x0332] [''80332'', ''B-Segment Bridge''],
  Init [Const 0x8086, Const 0x0333] [''80332'', ''B-Segment IOAPIC''],
  Init [Const 0x8086, Const 0x0334] [''80332'', ''Address Translation Unit''],
  Init [Const 0x8086, Const 0x0335] [''80331'', ''PCI-X Bridge''],
  Init [Const 0x8086, Const 0x0336] [''80331'', ''Address Translation Unit (ATU)''],
  Init [Const 0x8086, Const 0x0340] [''41210'', ''Serial to Parallel PCI Bridge A''],
  Init [Const 0x8086, Const 0x0341] [''41210'', ''Serial to Parallel PCI Bridge B''],
  Init [Const 0x8086, Const 0x0370] [''80333'', ''Segment-A PCI Express-to-PCI Express Bridge''],
  Init [Const 0x8086, Const 0x0371] [''80333'', ''A-Bus IOAPIC''],
  Init [Const 0x8086, Const 0x0372] [''80333'', ''Segment-B PCI Express-to-PCI Express Bridge''],
  Init [Const 0x8086, Const 0x0373] [''80333'', ''B-Bus IOAPIC''],
  Init [Const 0x8086, Const 0x0374] [''80333'', ''Address Translation Unit''],
  Init [Const 0x8086, Const 0x0401] [''266E'', ''P040100''],
  Init [Const 0x8086, Const 0x0402] [''ACPI x86-based PC'', ''intel core i5''],
  Init [Const 0x8086, Const 0x0482] [''82375MB'', ''PCI-EISA Bridge (PCEB)hp dx 7300 microwave tower''],
  Init [Const 0x8086, Const 0x0483] [''82424TX/ZX'', ''CPU (i486) Bridge (Saturn)''],
  Init [Const 0x8086, Const 0x0484] [''82378ZB/IB'', ''SIO ISA Bridge''],
  Init [Const 0x8086, Const 0x0486] [''82425EX'', ''1261028''],
  Init [Const 0x8086, Const 0x04A3] [''82434bX/zX'', ''Mercury/Neptune Cache/DRAM Controller''],
  Init [Const 0x8086, Const 0x0500] [''E8870'', ''Processor Bus Controller''],
  Init [Const 0x8086, Const 0x0501] [''E8870'', ''Memory Controller''],
  Init [Const 0x8086, Const 0x0502] [''E8870'', ''Scalability Port 0''],
  Init [Const 0x8086, Const 0x0503] [''E8870'', ''Scalability Port 1 / Glob. Perf. Monitor'']]"

lemma PciDevTable_4_facts:
  "length PciDevTable_4 = 150" "rejected PciDevTable_4 = 1" "oversized PciDevTable_4 = 0"
  "vendors PciDevTable_4 \<subseteq> Const ` set vendor_numbers"
  unfolding PciDevTable_4_def count_rows by (simp_all add: part_simps listed vendor_known_list cong: part_cong count_rows_cong)

definition PciDevTable_5 :: "initializer list" where
 "PciDevTable_5 = [
  Init [Const 0x8086, Const 0x0510] [''E8870IO'', ''Hub Interface Port 0 (8-bit compatible)''],
  Init [Const 0x8086, Const 0x0511] [''E8870IO'', ''Hub Interface Port 2''],
  Init [Const 0x8086, Const 0x0512] [''E8870IO'', ''Hub Interface Port 2''],
  Init [Const 0x8086, Const 0x0513] [''E8870IO'', ''Hub Interface Port 3''],
  Init [Const 0x8086, Const 0x0514] [''E8870IO'', ''Hub Interface Port 4''],
  Init [Const 0x8086, Const 0x0515] [''E8870IO'', ''Server I/O Hub (SIOH)''],
  Init [Const 0x8086, Const 0x0516] [''E8870IO'', ''Reliabilty, Availability, Serviceability''],
  Init [Const 0x8086, Const 0x0530] [''E8870SP'', ''Scalability Port 0''],
  Init [Const 0x8086, Const 0x0531] [''E8870SP'', ''Scalability Port 1''],
  Init [Const 0x8086, Const 0x0532] [''E8870SP'', ''Scalability Port 2''],
  Init [Const 0x8086, Const 0x0533] [''E8870SP'', ''Scalability Port 3''],
  Init [Const 0x8086, Const 0x0534] [''E8870SP'', ''Scalability Port 4''],
  Init [Const 0x8086, Const 0x0535] [''E8870SP'', ''Scalability Port 5''],
  Init [Const 0x8086, Const 0x0536] [''E8870SP'', ''Scalability Port Switch Global Registers''],
  Init [Const 0x8086, Const 0x0537] [''E8870SP'', ''Interleave Configuration Registers''],
  Init [Const 0x8086, Const 0x0600] [''1043'', ''Storage RAID Controller''],
  Init [Const 0x8086, Const 0x0780] [''3.0/2.0'', ''Intel B75 Express Chipset''],
  Init [Const 0x8086, Const 0x0800] [''10B01734'', ''pci/ven_8086&dev_27da&subsys_30b2103c&rev_02'' @ [CHR 0x5C] @ ''3&b1bfb68&0&fb''],
  Init [Const 0x8086, Const 0x0885] [''612BNXHMW'', ''Intel Centrino Wireless-N + WiMAX 6150''],
  Init [Const 0x8086, Const 0x0887] [''Intel Centrino Chipset'', ''Intel Centrino Wireless-N 2230''],
  Init [Const 0x8086, Const 0x0888] [''0'', ''Intel Centrino Wireless-N 2230''],
  Init [Const 0x8086, Const 0x088E] [''40608086'', ''Intel Centrino Advanced N 6235''],
  Init [Const 0x8086, Const 0x0890] [''Intel'', ''Network Controller''],
  Init [Const 0x8086, Const 0x0894] [''86881'', ''MRMgRH''],
  Init [Const 0x8086, Const 0x0896] [''Wireless-N 130'', ''Intel Centrino Wireless-N 130''],
  Init [Const 0x8086, Const 0x08AE] [''802.11n'', ''Intel Centrino Wireless-N 100''],
  Init [Const 0x8086, Const 0x0960] [''80960RP'', ''i960 RP Microprocessor/Bridge''],
  Init [Const 0x8086, Const 0x0962] [''80960RM/RN'', ''i960RM/RN Microprocessor/Bridge''],
  Init [Const 0x8086, Const 0x0964] [''80960RP'', ''i960 RP Microprocessor Bridge''],
  Init [Const 0x8086, Const 0x0BE1] [''0000000'', ''Intel Graphics Media Accelerator 3600 Series''],
  Init [Const 0x8086, Const 0x0C05] [''V9201015'', ''Intel(R) 6 Series/C200 Series Chipset Family SMBus Controller''],
  Init [Const 0x8086, Const 0x1000] [''82542'', ''Gigabit Ethernet Controller''],
  Init [Const 0x8086, Const 0x1001] [''2572'', ''10/100/1000 Ethernet Controller (Fiber)''],
  Init [Const 0x8086, Const 0x1002] [[], ''Pro 100 LAN+Modem 56 CardBus II''],
  Init [Const 0x8086, Const 0x1004] [''82543GC'', ''Gigabit Ethernet Controller (Copper)''],
  Init [Const 0x8086, Const 0x1008] [''82544EI/GC'', ''Gigabit Ethernet Controller (Copper)''],
  Init [Const 0x8086, Const 0x1009] [''82845G/GL/GV/GE/PE Integrated Graphics Device'', ''Intel''],
  Init [Const 0x8086, Const 0x100C] [''82543EI/GC'', ''Gigabit Ethernet Controller (Copper)''],
  Init [Const 0x8086, Const 0x100D] [''82544GC'', ''Gigabit Ethernet Controller (LOM)''],
  Init [Const 0x8086, Const 0x100E] [''02000'', ''Intel Pro 1000/MT''],
  Init [Const 0x8086, Const 0x100F] [''82545EM'', ''Gigabit Ethernet Controller (copper)''],
  Init [Const 0x8086, Const 0x1010] [''82546EB'', ''Dual Port Gigabit Ethernet Controller (Copper)''],
  Init [Const 0x8086, Const 0x1011] [''82545EM'', ''Gigabit Ethernet Controller (Fiber)''],
  Init [Const 0x8086, Const 0x1012] [''82546EB'', ''Dual Port Gigabit Ethernet Controller (Fiber)''],
  Init [Const 0x8086, Const 0x1013] [''82541EI'', ''Gigabit Ethernet Controller (Copper)''],
  Init [Const 0x8086, Const 0x1014] [''82541ER'', ''Gigabit Ethernet Controller''],
  Init [Const 0x8086, Const 0x1015] [''82540EM'', ''Gigabit Ethernet Controller (LOM)''],
  Init [Const 0x8086, Const 0x1016] [''82540EP'', ''Gigabit Ethernet Controller (LOM)''],
  Init [Const 0x8086, Const 0x1017] [''82540EP'', ''Gigabit Ethernet Controller (LOM)''],
  Init [Const 0x8086, Const 0x1018] [''82541EI'', ''PRO/1000 MT Mobile connection''],
  Init [Const 0x8086, Const 0x1019] [''82547EI'', ''Gigabit Ethernet Controller (LOM)''],
  Init [Const 0x8086, Const 0x101A] [''82547EI'', ''Gigabit Ethernet Controller (LOM)''],
  Init [Const 0x8086, Const 0x101D] [''82546EB'', ''Dual Port Gigabit Ethernet Controller''],
  Init [Const 0x8086, Const 0x101E] [''82540EP'', ''Gigabit Ethernet Controller (Mobile)''],
  Init [Const 0x8086, Const 0x1026] [''82545ep'', ''Gigabit Ethernet Controller''],
  Init [Const 0x8086, Const 0x1027] [''82545GM'', ''Gigabit Ethernet Controller (Fiber)''],
  Init [Const 0x8086, Const 0x1028] [''82545GM'', ''Gigabit Ethernet Controller''],
  Init [Const 0x8086, Const 0x1029] [''82559'', ''Fast Ethernet PCI/CardBus Controller''],
  Init [Const 0x8086, Const 0x1030] [''82801'', ''PCI Networking device''],
  Init [Const 0x8086, Const 0x1031] [''82801CAM'', ''PRO/100 VE Network Connection''],
  Init [Const 0x8086, Const 0x1032] [''82801CAM'', ''PRO/100 VE Network Connection''],
  Init [Const 0x8086, Const 0x1033] [''PB 642365-003'', ''multimedia video controller''],
  Init [Const 0x8086, Const 0x1034] [''82801CAM'', ''PRO/100 VM Network Connection''],
  Init [Const 0x8086, Const 0x1035] [''82562EH'', ''Phoneline Network Connection''],
  Init [Const 0x8086, Const 0x1036] [''82562EH'', ''Phoneline Network Connection''],
  Init [Const 0x8086, Const 0x1037] [''82801CAM'', ''LAN Controller''],
  Init [Const 0x8086, Const 0x1038] [''82801CAM'', ''PRO/100 VM/KM Network Connection''],
  Init [Const 0x8086, Const 0x1039] [''10011734'', '' 82562''],
  Init [Const 0x8086, Const 0x103A] [''82801DB'', ''LAN Controller with 82562ET/EZ (CNR) PHY''],
  Init [Const 0x8086, Const 0x103B] [''82801DB'', ''LAN Controller with 82562EM/EX PHY''],
  Init [Const 0x8086, Const 0x103C] [''82801DB'', ''LAN Controller with 82562EM/EX (CNR) PHY''],
  Init [Const 0x8086, Const 0x103D] [''05221014'', ''PRO/100 VE Network Connection''],
  Init [Const 0x8086, Const 0x103E] [''82801DB'', ''PRO/100 VM Network Connection''],
  Init [Const 0x8086, Const 0x1040] [''536EP'', ''V.92 PCI (DSP) Data Fax Modema''],
  Init [Const 0x8086, Const 0x1042] [''8086'', ''PRO/Wireless 2011 LAN PCI Card''],
  Init [Const 0x8086, Const 0x1043] [''82801'', ''Intel(R) PRO/Wireless 2100 LAN Card Driver''],
  Init [Const 0x8086, Const 0x1048] [''82597EX'', ''10 Gigabit Ethernet Controller''],
  Init [Const 0x8086, Const 0x1049] [''82566MM NIC'', ''Gigabit Network Connection Interface Controller''],
  Init [Const 0x8086, Const 0x104A] [''Intel 82566DM Gigabit Ethernet'', ''gigabit ethernet''],
  Init [Const 0x8086, Const 0x104B] [''82566DC'', ''Gigabit Ethernet''],
  Init [Const 0x8086, Const 0x104D] [''82566MC'', ''Intel Gigabit 82566MC''],
  Init [Const 0x8086, Const 0x1050] [''82562EZ'', ''PRO/100 VE Network Connection''],
  Init [Const 0x8086, Const 0x1051] [''82801EB/ER'', ''PRO/100 VE Network Connection''],
  Init [Const 0x8086, Const 0x1052] [''82801EB/ER'', ''PRO/100 VM Network Connection''],
  Init [Const 0x8086, Const 0x1053] [''82801EB/ER'', ''PRO/100 VM Network Connection''],
  Init [Const 0x8086, Const 0x1054] [''82801EB/ER'', ''PRO/100 VE Network Connection (mobile)''],
  Init [Const 0x8086, Const 0x1055] [''82801EB/ER'', ''PRO/100 VM Network Connection (mobile)''],
  Init [Const 0x8086, Const 0x1059] [''82551QM'', ''Fast Ethernet PCI/CardBus Controller''],
  Init [Const 0x8086, Const 0x105E] [''82579V'', ''Intel(R) PRO/1000 PT Dual Port Server Adapter''],
  Init [Const 0x8086, Const 0x1064] [''Intel Pro VE'', ''82562EZ PLC''],
  Init [Const 0x8086, Const 0x1065] [''82801FB/FR/FW/FRW'', ''LAN Controller Intel Corporation 82562ET/EZ/GT/GZ - PRO/100 VE Ethernet Controller''],
  Init [Const 0x8086, Const 0x1068] [''82562'', ''1068h 82562ET/EZ/GT/GZ PRO/100 VE Ethernet Controller''],
  Init [Const 0x8086, Const 0x1075] [''82547EI'', ''Gigabit Ethernet Controller''],
  Init [Const 0x8086, Const 0x1076] [''82541EI'', ''Gigabit Ethernet Controller''],
  Init [Const 0x8086, Const 0x1077] [''82547EI'', ''Gigabit Ethernet Controller (Mobile)''],
  Init [Const 0x8086, Const 0x1078] [''82541ER'', ''Gigabit Ethernet Controller''],
  Init [Const 0x8086, Const 0x1079] [''82546EB'', ''Dual Port Gigabit Ethernet Controller''],
  Init [Const 0x8086, Const 0x107A] [''82546EB'', ''Dual Port Gigabit Ethernet Controller (Fiber)''],
  Init [Const 0x8086, Const 0x107B] [''82546EB'', ''Dual Port Gigabit Ethernet Controller (Copper)''],
  Init [Const 0x8086, Const 0x107C] [''82541PI'', ''Gigabit Ethernet Controller (Copper) rev 5''],
  Init [Const 0x8086, Const 0x1080] [''0321CGEA04'', ''FA82537EP - Intel 537EP V.92 (PCI)  modem''],
  Init [Const 0x8086, Const 0x108B] [''PC82573V'', ''Intel network controller (PCIE Gigabit Ethernet)''],
  Init [Const 0x8086, Const 0x108C] [''82573E'', ''Intel Corporation 82573E Gigabit Ethernet Controller (Copper)''],
  Init [Const 0x8086, Const 0x108E] [''ICH7R'', ''Intel(R) Active Management Technology - KCS''],
  Init [Const 0x8086, Const 0x108F] [''ICH7R'', ''Intel(R) Active Management Technology - SOL''],
  Init [Const 0x8086, Const 0x1092] [''27DA'', ''PRO/100 VE Network Controller''],
  Init [Const 0x8086, Const 0x1094] [''Onboard - Intel PRO 100/VE nic'', ''get PRO2KXP.exe from Intel''],
  Init [Const 0x8086, Const 0x1096] [''Intel PRO/1000 EB'', ''Intel PRO/1000 EB''],
  Init [Const 0x8086, Const 0x109A] [''82573L'', ''Intel PRO/1000 PL Network Adaptor''],
  Init [Const 0x8086, Const 0x109C] [''e1qexpress'', ''HP E1Q Express''],
  Init [Const 0x8086, Const 0x10A7] [''82575 ?'', ''82575EB Gigabit Network Connection''],
  Init [Const 0x8086, Const 0x10A9] [''82575 ?'', ''82575EB Gigabit Backplane Connection''],
  Init [Const 0x8086, Const 0x10B5] [''82546GB'', ''Quad Port Gigabit Ethernet Controller''],
  Init [Const 0x8086, Const 0x10B9] [''82572GI'', ''Intel PRO/1000 PT Desktop''],
  Init [Const 0x8086, Const 0x10BD] [''82566DM'', ''Intel 82566DM Gigabit Ethernet Adapter''],
  Init [Const 0x8086, Const 0x10C0] [''8082'', ''Intel(R) 82562V-2 10/100 Network Connection''],
  Init [Const 0x8086, Const 0x10C4] [''82562GT'', ''Intel 82562GT 10/100 Network Controller''],
  Init [Const 0x8086, Const 0x10C4] [''82562EZ PLC'', ''Intel 82562GT 10/100 Network Controller''],
  Init [Const 0x8086, Const 0x10C9] [''82576?'', ''82576 Gigabit ET Dual Port Server Adapter''],
  Init [Const 0x8086, Const 0x10CE] [''82567V-2'', ''Intel 82567V-2 Gigabit Network Connection''],
  Init [Const 0x8086, Const 0x10D3] [''82574L'', ''Intel'' @ [CHR 0xAE] @ '' 82574L Gigabit Ethernet Controller''],
  Init [Const 0x8086, Const 0x10D6] [''82575'', ''82566 DM-2-gigabyte''],
  Init [Const 0x8086, Const 0x10DE] [''02761028'', ''Intel Gigabit network connection''],
  Init [Const 0x8086, Const 0x10E6] [''82576 ?'', ''82576 Gigabit Network Connection''],
  Init [Const 0x8086, Const 0x10E7] [''82576 ?'', ''82576 Gigabit Network Connection''],
  Init [Const 0x8086, Const 0x10E8] [''82576'', ''E64750-xxx Intel Gigabit ET Quad Port Server Adapter''],
  Init [Const 0x8086, Const 0x10EA] [''82577LM'', ''Intel 82577LM Gigabit LAN Controller''],
  Init [Const 0x8086, Const 0x10EC] [''Realtek AC97Audio'', ''Realtek 171 High Definition Audio''],
  Init [Const 0x8086, Const 0x10EF] [''Intel'' @ [CHR 0xAE] @ '' 82578DM Gigabit Ethernet Controller'', ''Intel'' @ [CHR 0xAE] @ '' 82578DM Gigabit Ethernet Controller''],
  Init [Const 0x8086, Const 0x10F0] [''82578'', ''Intel(R) 82578DC Gigabit NIC''],
  Init [Const 0x8086, Const 0x10F5] [''82567LM'', ''Intel'' @ [CHR 0xAE] @ ''  82567LM-2 Gigabit Network Connection''],
  Init [Const 0x8086, Const 0x10FB] [''82599'', ''10 Gb Ethernet controller''],
  Init [Const 0x8086, Const 0x1100] [''82815/EP/P'', ''Host-Hub Interface Bridge / DRAM Ctrlr''],
  Init [Const 0x8086, Const 0x1101] [''82815/EP/P'', ''AGP Bridge''],
  Init [Const 0x8086, Const 0x1102] [''82915GV'', ''Internal Graphics Device''],
  Init [Const 0x8086, Const 0x1110] [''82815'', ''Host-Hub Interface Bridge / DRAM Ctrlr''],
  Init [Const 0x8086, Const 0x1112] [''82815'', ''Internal Graphics Device''],
  Init [Const 0x8086, Const 0x1120] [''82815'', ''Host-Hub Interface Bridge / DRAM Ctrlr''],
  Init [Const 0x8086, Const 0x1121] [''82815'', ''AGP Bridge''],
  Init [Const 0x8086, Const 0x1130] [''82815/82815EM/EP'', ''Host-Hub Interface Bridge / DRAM Ctrlr''],
  Init [Const 0x8086, Const 0x1131] [''82815/82815EM/EP'', ''AGP Bridge''],
  Init [Const 0x8086, Const 0x1132] [''65416'', ''Internal Graphics Device [810/815 chipset AGP]''],
  Init [Const 0x8086, Const 0x1161] [''82806AA'', ''I/O APIC Device''],
  Init [Const 0x8086, Const 0x1162] [''BECC'', ''XScale 80200 Companion Chip (FPGA)''],
  Init [Const 0x8086, Const 0x1179] [''82546EB'', ''Dual Port Gigabit Ethernet Controller''],
  Init [Const 0x8086, Const 0x12] [''03491025'', ''00''],
  Init [Const 0x8086, Const 0x1200] [''IXP1200'', ''Network Processor''],
  Init [Const 0x8086, Const 0x1209] [''8255xER/IT'', ''Fast Ethernet Controller for xp pc''],
  Init [Const 0x8086, Const 0x1221] [''82092AA'', ''PCMCIA Bridge''],
  Init [Const 0x8086, Const 0x1222] [''2792'', ''IDE Ctrlr'']]"

lemma PciDevTable_5_facts:
  "length PciDevTable_5 = 150" "rejected PciDevTable_5 = 0" "oversized PciDevTable_5 = 0"
  "vendors PciDevTable_5 \<subseteq> Const ` set vendor_numbers"
  unfolding PciDevTable_5_def count_rows by (simp_all add: part_simps listed vendor_known_list cong: part_cong count_rows_cong)

definition PciDevTable_6 :: "initializer list" where
 "PciDevTable_6 = [
  Init [Const 0x8086, Const 0x1223] [''Conexant Cx20468 @ Intel 82801FB ICH6 - AC'' @ [CHR 0x27] @ ''97 Audi'', ''Audio Controller''],
  Init [Const 0x8086, Const 0x1225] [''82452KX/GX'', ''Orion Extended Express CPU to PCI Bridge''],
  Init [Const 0x8086, Const 0x1226] [''82596'', ''EtherExpress PRO/10''],
  Init [Const 0x8086, Const 0x1227] [''82801db ich4'', ''LAN Controller with 82562EM''],
  Init [Const 0x8086, Const 0x1228] [''EE PRO/100 Smart'', ''Intelligent 10/100 Fast Ethernet Adapter''],
  Init [Const 0x8086, Const 0x1229] [''1e22'', ''Intel(R) PRO/100 M 00000Desktop Adapter   http://downloadmirror.intel.com/8659/eng/LAN_ALLOS_11.2_PV''],
  Init [Const 0x8086, Const 0x122D] [''82437FX'', ''System Controller (TSC)''],
  Init [Const 0x8086, Const 0x122E] [''82371AB/EB PCI'', ''PCI to ISA Bridge (Triton)''],
  Init [Const 0x8086, Const 0x1230] [''FW82371AB'', ''IDE Interface (Triton)''],
  Init [Const 0x8086, Const 0x1231] [''16345'', ''DSVD Modem''],
  Init [Const 0x8086, Const 0x1234] [''82371MX'', ''PCI to ISA Bridge''],
  Init [Const 0x8086, Const 0x1235] [''82439TX'', ''Mobile System Controller (MTSC)''],
  Init [Const 0x8086, Const 0x1237] [''82440LX/EX'', ''PCI & Memory''],
  Init [Const 0x8086, Const 0x1239] [''82371FB'', ''IDE Interface (Triton)''],
  Init [Const 0x8086, Const 0x123B] [''82380PB'', ''PCI to PCI Docking Bridge''],
  Init [Const 0x8086, Const 0x123C] [''82380AB'', ''Mobile PCI-to-ISA Bridge (MISA)''],
  Init [Const 0x8086, Const 0x123D] [''683053'', ''Programmable Interrupt Device''],
  Init [Const 0x8086, Const 0x123E] [''82466GX'', ''Integrated Hot-Plug Controller (IHPC)''],
  Init [Const 0x8086, Const 0x123F] [''82466GX'', ''Integrated Hot-Plug Controller (IHPC)''],
  Init [Const 0x8086, Const 0x1240] [''82752'', ''AGP Graphics Accelerator''],
  Init [Const 0x8086, Const 0x124B] [''293esd'', ''Mobile PCI-to-PCIsdsdsdI2)''],
  Init [Const 0x8086, Const 0x124B] [''293esd'', ''Mobile PCI-to-PCIsdsdsdI2)v5''],
  Init [Const 0x8086, Const 0x124C] [''9776'', ''Mobile PCI-to-PCI Bridge (MPCI2)''],
  Init [Const 0x8086, Const 0x1250] [''82430HX'', ''System Controller (TXC)''],
  Init [Const 0x8086, Const 0x12D8] [''92XX'', ''SIGMATEL STAC 92XX C-Major HD Audio''],
  Init [Const 0x8086, Const 0x1360] [''82806AA'', ''Hub Interface to PCI Bridge''],
  Init [Const 0x8086, Const 0x1361] [''82806AA'', ''Advanced Interrupt Controller''],
  Init [Const 0x8086, Const 0x13CA] [''VVVV'', ''VVVVVV''],
  Init [Const 0x8086, Const 0x1460] [''82870P2'', ''Hub Interface-to-PCI Bridge''],
  Init [Const 0x8086, Const 0x1461] [''14611014'', ''I/OxAPIC Interrupt Controller''],
  Init [Const 0x8086, Const 0x1462] [''82870P2'', ''Hot Plug Controller''],
  Init [Const 0x8086, Const 0x1502] [''0x04931028'', ''Intel 82579LM Gigabit Network Card''],
  Init [Const 0x8086, Const 0x1503] [''Intel 82579v'', ''Gigabit Network Connection''],
  Init [Const 0x8086, Const 0x150A] [''82576 ?'', ''82576NS Gigabit Ethernet Controller''],
  Init [Const 0x8086, Const 0x150C] [''82583V'', ''Intel'' @ [CHR 0xAE] @ '' 82583V Gigabit Ethernet  Controller''],
  Init [Const 0x8086, Const 0x150D] [''82576 ?'', ''82576 Gigabit Backplane Connection''],
  Init [Const 0x8086, Const 0x150E] [''82580 ?'', ''82580 Gigabit Network Connection''],
  Init [Const 0x8086, Const 0x150F] [''82580 ?'', ''82580 Gigabit Fiber Network Connection''],
  Init [Const 0x8086, Const 0x1510] [''82580 ?'', ''82580 Gigabit Backplane Connection''],
  Init [Const 0x8086, Const 0x1511] [''82580 ?'', ''82580 Gigabit SFP Connection''],
  Init [Const 0x8086, Const 0x1516] [''82580 ?'', ''82580 Gigabit Network Connection''],
  Init [Const 0x8086, Const 0x1518] [''82576 ?'', ''82576NS SerDes Gigabit Network Connection''],
  Init [Const 0x8086, Const 0x1521] [''I350'', ''i350 Gigabit Network Connection''],
  Init [Const 0x8086, Const 0x1525] [''82567V-4'', ''Intel 82567V-4 Gigabit Network Connection''],
  Init [Const 0x8086, Const 0x1526] [''82576'', ''Intel Gigabit ET2 Quad Port Server Adapter''],
  Init [Const 0x8086, Const 0x1533] [''210'', ''Intel I210 Gigabit Network Connection''],
  Init [Const 0x8086, Const 0x167D] [''2200bg'', ''PCI Simple Communications Controller''],
  Init [Const 0x8086, Const 0x1960] [''80960RP'', ''i960RP Microprocessor''],
  Init [Const 0x8086, Const 0x1962] [''???'', ''Promise SuperTrak SX6000 IDE RAID Controller''],
  Init [Const 0x8086, Const 0x1A12] [''???'', ''Eicon DIVA Server Voice PRI 2.0 (PCI)''],
  Init [Const 0x8086, Const 0x1A13] [''???'', ''Eicon DIVA Server Voice PRI 2.0 (PCI)''],
  Init [Const 0x8086, Const 0x1A20] [''82840'', []],
  Init [Const 0x8086, Const 0x1A21] [''82840'', ''Host-Hub Interface A Bridge / DRAM Ctrlr''],
  Init [Const 0x8086, Const 0x1A22] [''82840'', ''Host to I/O Hub Bridge (Quad PCI)''],
  Init [Const 0x8086, Const 0x1A23] [''82840'', ''AGP Bridge''],
  Init [Const 0x8086, Const 0x1A24] [''82840'', ''Hub Interface B Bridge''],
  Init [Const 0x8086, Const 0x1A30] [''82845G[GL/GV/GE/PE]'', ''Host-Hub Interface Bridge''],
  Init [Const 0x8086, Const 0x1A31] [''82845[MP/MZ]'', ''AGP Bridge''],
  Init [Const 0x8086, Const 0x1A38] [''5000P'', ''5000 Series Chipset DMA Engine''],
  Init [Const 0x8086, Const 0x1C02] [''8086&dev_1c02'', ''SATA ahci controller 3Gbps 6 ports''],
  Init [Const 0x8086, Malformed ''0x1c02_''] [''8086&dev_1c02'', ''Intel(R) Desktop/Workstation/Server Express Chipset SATA AHCI Controller''],
  Init [Const 0x8086, Const 0x1C03] [''Intel(R) Mobile Express Chipset SATA AHCI Controll'', ''Intel(R) CPT Chipset Family 6 Port SATA AHCI Controller ''],
  Init [Const 0x8086, Const 0x1C22] [''win7 64-bit (tc40140300b.exe)'', ''Intel(R) 6 Series/C200 Series Chipset Family SMBus Controller''],
  Init [Const 0x8086, Const 0x1C26] [''HM65'', ''USB Enhanced Host Controller''],
  Init [Const 0x8086, Const 0x1C34A] [''0780'', ''pci simple communications controller''],
  Init [Const 0x8086, Const 0x1C3A] [''161C103C'', ''Intel Management Engine Interface''],
  Init [Const 0x8086, Const 0x1C3B] [''111'', ''Series Chipset Family HECI Controller #2''],
  Init [Const 0x8086, Const 0x1C3D] [''Intel(R) 6 Series Series Chipset Family'', ''Intel(R) Active Management Technology - SOL''],
  Init [Const 0x8086, Const 0x1C49] [''FCD01179'', ''04''],
  Init [Const 0x8086, Const 0x1D3A] [''X79 series chipset HECI Controller'', ''X79/C600 series chipset Management Engine Interface''],
  Init [Const 0x8086, Const 0x1E00] [''Intel H77 Express Chipset'', ''2 ports IDE Controller''],
  Init [Const 0x8086, Const 0x1E02] [''SUBSYS_102E17AA&REV_04'', ''Intel 7 Series/C216 Chipset Family SATA AHCI Controller''],
  Init [Const 0x8086, Const 0x1E03] [''PCI'' @ [CHR 0x5C] @ ''CC_010601'', ''Intel(R) 7 Series Chipset Family SATA AHCI Controller''],
  Init [Const 0x8086, Const 0x1E08] [''Intel H77 Express Chipset'', ''2 ports IDE Controller''],
  Init [Const 0x8086, Const 0x1E12] [''c4'', ''rev''],
  Init [Const 0x8086, Const 0x1E22] [''Intel(R) 7 SeriesC216 Chipset Family SMBus Host Co'', ''SM-Bus Controller of the Intel Z77 Chipset''],
  Init [Const 0x8086, Const 0x1E31] [''Intel USB 3.0 eXtensible Host Controller'', ''Intel USB 3.0''],
  Init [Const 0x8086, Const 0x1E3A] [''PCI'' @ [CHR 0x5C] @ ''VEN_8086&DEV_1E3A&SUBSYS_500217&REV_04'', ''Intel Management Engine Interface (MEI)''],
  Init [Const 0x8086, Malformed ''0x1E3A_''] [''C216'', ''8555555555555999999999999999999999999999999999999999999999999999999900000000000000000001222222222222''],
  Init [Const 0x8086, Malformed ''0x1E3A__''] [''Z77'', ''C216 Chipset - Platform controller hub''],
  Init [Const 0x8086, Const 0x1E3D] [''833810F7'', ''Intel(R) AMT LMS_SOL for AMT 8.xx''],
  Init [Const 0x8086, Const 0x1E59] [''140889'', ''140889''],
  Init [Const 0x8086, Const 0x2000] [''CA 95054'', ''505943621''],
  Init [Const 0x8086, Const 0x2014] [''0x18C9'', ''Framegrabber''],
  Init [Const 0x8086, Const 0x2048] [''Atheros L2'', ''Fast Ethernet 10/100 Base-T Controller''],
  Init [Const 0x8086, Const 0x2124] [''27DA'', ''PRO/100 VE Network Connection''],
  Init [Const 0x8086, Const 0x2125] [''82801AA'', ''AC97 Audio Controller. website to download - http://www.intel.com/design/chipsets/manuals/29802801.p''],
  Init [Const 0x8086, Const 0x2222] [''82801'', ''Intel Management Interface''],
  Init [Const 0x8086, Const 0x2255] [''810D1043'', ''02'' @ [CHR 0x5C] @ ''3''],
  Init [Const 0x8086, Const 0x2406] [''82801 / ?'', ''AC97 Modem Controller / PCI Modem''],
  Init [Const 0x8086, Const 0x2410] [''82801AA'', ''LPC Interface''],
  Init [Const 0x8086, Const 0x2411] [''82801AA'', ''IDE Controller (UltraATA/66)''],
  Init [Const 0x8086, Const 0x2412] [''82801AA'', ''USB Controller''],
  Init [Const 0x8086, Const 0x2413] [''82801AA'', ''SMBus Controller''],
  Init [Const 0x8086, Const 0x2415] [''Intel 82801DBM SM/BUS Controller 24C3'', ''Aureal (AD1881 SOUNDMAX) Placa M'' @ [CHR 0xE3] @ ''e Asaki P3-141''],
  Init [Const 0x8086, Const 0x2416] [''82801ER'', ''AC'' @ [CHR 0x27] @ ''97 Modem Controller''],
  Init [Const 0x8086, Const 0x2418] [''82801AA'', ''Hub Interface-to-PCI Bridge    82801 PCI-2448 0x2448''],
  Init [Const 0x8086, Const 0x2420] [''82801AB'', ''LPC Interface''],
  Init [Const 0x8086, Const 0x2421] [''82801AB'', ''IDE Controller (UltraATA/33)''],
  Init [Const 0x8086, Const 0x2422] [''82801AB'', ''USB Controller''],
  Init [Const 0x8086, Const 0x2423] [''82801AB'', ''SMBus Controller''],
  Init [Const 0x8086, Const 0x2425] [''82801BA'', ''Audio controler''],
  Init [Const 0x8086, Const 0x2426] [''82801AB'', ''AC97 Modem Controller''],
  Init [Const 0x8086, Const 0x2428] [''82801AB'', ''Hub Interface-to-PCI Bridge''],
  Init [Const 0x8086, Const 0x2431] [''82810'', ''pci bus''],
  Init [Const 0x8086, Const 0x2440] [''82801BA/BAM AC'' @ [CHR 0x27] @ ''97'', ''LPC Interface Bridge, ICH2''],
  Init [Const 0x8086, Const 0x2441] [''82801BA'', ''IDE Controller (UltraATA/66)''],
  Init [Const 0x8086, Const 0x2442] [''82801BA/BAM'', ''USB Controller, USB-A''],
  Init [Const 0x8086, Const 0x2443] [''82801BA/BAM'', ''SMBus Controller''],
  Init [Const 0x8086, Const 0x2444] [''82801BA/BAM'', ''USB Controller, USB-B''],
  Init [Const 0x8086, Const 0x2445] [''Intel i945G/GZ'', ''AC97 Audio Controller''],
  Init [Const 0x8086, Const 0x2446] [''82801BA/BAM'', ''AC97 Modem Controller''],
  Init [Const 0x8086, Const 0x2448] [''82801BAM/CAM/DBM'', ''Hub Interface to PCI Bridge''],
  Init [Const 0x8086, Const 0x2449] [''82559ER'', ''82559ER Integrated 10Base-T/100Base-TX Ethernet Controller''],
  Init [Const 0x8086, Const 0x244A] [''82801BAM'', ''IDE Controller''],
  Init [Const 0x8086, Const 0x244B] [''82801BA'', ''IDE Controller''],
  Init [Const 0x8086, Const 0x244C] [''82801BAM'', ''LPC Interface Bridge''],
  Init [Const 0x8086, Const 0x244E] [''82801DB'', ''Hub Interface to PCI Bridge''],
  Init [Const 0x8086, Const 0x2450] [''82801E'', ''LPC Interface Bridge''],
  Init [Const 0x8086, Const 0x2452] [''82801E'', ''USB Controller''],
  Init [Const 0x8086, Const 0x2453] [''82801E'', ''SMBus Controller''],
  Init [Const 0x8086, Const 0x2459] [''82801E'', ''LAN0 Controller''],
  Init [Const 0x8086, Const 0x245B] [''82801E'', ''IDE Controller''],
  Init [Const 0x8086, Const 0x245D] [''82801E'', ''Multimedia Audio Controller''],
  Init [Const 0x8086, Const 0x245E] [''82801E'', ''Hub Interface to PCI Bridge''],
  Init [Const 0x8086, Const 0x2480] [''82801CA'', ''LPC Interface Bridge''],
  Init [Const 0x8086, Const 0x2481] [''82801CA'', ''IDE Controller (UltraATA/66)''],
  Init [Const 0x8086, Const 0x2482] [''82801CA/CAM'', ''USB Controller''],
  Init [Const 0x8086, Const 0x2483] [''82801CA/CAM'', ''SMBus Controller''],
  Init [Const 0x8086, Const 0x2484] [''82801CA/CAM'', ''USB Controller''],
  Init [Const 0x8086, Const 0x2485] [''82801CA/CAM'', ''AC97 Audio Controller''],
  Init [Const 0x8086, Const 0x2486] [''82801CA/CAM'', ''AC 97 Modem Controller''],
  Init [Const 0x8086, Const 0x2487] [''82801CA/CAM'', ''USB Controller''],
  Init [Const 0x8086, Const 0x248A] [''82801CAM'', ''UltraATA IDE Controller''],
  Init [Const 0x8086, Const 0x248B] [''82801CA'', ''UltraATA/100 IDE Controller''],
  Init [Const 0x8086, Const 0x248C] [''82801CAM'', ''LPC Interface or ISA bridge: see Notes''],
  Init [Const 0x8086, Const 0x248D] [''82801??'', ''USB 2.0 EHCI Contoroller''],
  Init [Const 0x8086, Const 0x24C0] [''82801DB/DBL'', ''LPC Interface Bridge''],
  Init [Const 0x8086, Const 0x24C2] [''82801DB/DBL/DBM'', ''USB UHCI Controller #1''],
  Init [Const 0x8086, Const 0x24C3] [''82801DB/DBL/DBM'', ''modem''],
  Init [Const 0x8086, Const 0x24C4] [''82801DB/DBL/DBM'', ''USB UHCI Controller''],
  Init [Const 0x8086, Const 0x24C5] [''82801DBM SoundMAXController (ICH4-M B0 step)'', ''Realtek AC97''],
  Init [Const 0x8086, Malformed ''0x24C5&SUBSYS_041111''] [''2200bg'', ''PCI Simple Communications Controller''],
  Init [Const 0x8086, Const 0x24C5A] [''82801DBM SoundMAXController '', ''VIA Vynil v700b''],
  Init [Const 0x8086, Malformed ''0x24c5j''] [''SUBSYS_21179'', ''Soundmax Integrated Digital Audio''],
  Init [Const 0x8086, Malformed ''0x24C5n''] [''82801DBM SoundMAXController (ICH4-M B0 step)'', ''Intel 82801 DB DBM/DA AC 97 Audio Controller''],
  Init [Const 0x8086, Malformed ''0x24c5x''] [''C-Media AC97 Audio Device'', ''Audio Controller''],
  Init [Const 0x8086, Const 0x24C6] [''82801 /8086'', ''AC97 Modem Controller / PCI Modem''],
  Init [Const 0x8086, Const 0x24C7] [''82801DB/DBL/DBM'', ''USB UHCI Controller #3''],
  Init [Const 0x8086, Const 0x24CA] [''82801DBM'', ''IDE Controller (UltraATA/100)'']]"

lemma PciDevTable_6_facts:
  "length PciDevTable_6 = 150" "rejected PciDevTable_6 = 7" "oversized PciDevTable_6 = 2"
  "vendors PciDevTable_6 \<subseteq> Const ` set vendor_numbers"
  unfolding PciDevTable_6_def count_rows by (simp_all add: part_simps listed vendor_known_list cong: part_cong count_rows_cong)

definition PciDevTable_7 :: "initializer list" where
 "PciDevTable_7 = [
  Init [Const 0x8086, Const 0x24CB] [''82801DB/DBL'', ''IDE Controller (UltraATA/100)''],
  Init [Const 0x8086, Const 0x24CC] [''82801DBM'', ''LPC Interface Bridge''],
  Init [Const 0x8086, Const 0x24CD] [''82801DB/DBL/DBM'', ''USB EHCI Controller''],
  Init [Const 0x8086, Const 0x24D0] [''82801EB/ER'', ''LPC Interface Bridge''],
  Init [Const 0x8086, Const 0x24D1] [''82801EB/ER'', ''SATA Controller''],
  Init [Const 0x8086, Const 0x24D2] [''82801EB/ER'', ''USB UHCI Controller 1''],
  Init [Const 0x8086, Const 0x24D3] [''82801EB/ER'', ''SMBus Controller''],
  Init [Const 0x8086, Const 0x24D4] [''82801EB/ER'', ''USB UHCI Controller #2''],
  Init [Const 0x8086, Const 0x24D5] [''ALC850'', ''Realtek AC'' @ [CHR 0x27] @ ''97 &#1047;&#1074;&#1091;&#1082;&#1086;&#1074;&#1086;&#1081; &#1057;&#1080;&#1089;&#1090;&''],
  Init [Const 0x8086, Const 0x24D6] [''82801EB/ER'', ''Motorola SM56 Data Fax Modem''],
  Init [Const 0x8086, Const 0x24D7] [''82801EB/ER'', ''USB UHCI Controller #3''],
  Init [Const 0x8086, Const 0x24DB] [''82801EB/ER'', ''EIDE Controller''],
  Init [Const 0x8086, Const 0x24DC] [''82801EB'', ''LPC Interface Controller''],
  Init [Const 0x8086, Const 0x24DD] [''82801EB/ER'', ''USB EHCI Controller''],
  Init [Const 0x8086, Const 0x24DE] [''82801EB/ER'', ''USB UHCI Controller #4''],
  Init [Const 0x8086, Const 0x24DF] [''82801ER'', ''SATA Controller (RAID)''],
  Init [Const 0x8086, Const 0x24E4] [''24e4'', ''intel ''],
  Init [Const 0x8086, Const 0x2500] [''82820'', ''Host-Hub Interface Bridge / DRAM Ctrlr''],
  Init [Const 0x8086, Const 0x2501] [''82820'', ''Host Bridge (MCH)''],
  Init [Const 0x8086, Const 0x2502] [''82820'', []],
  Init [Const 0x8086, Const 0x2503] [''82820'', []],
  Init [Const 0x8086, Const 0x2504] [''82820'', []],
  Init [Const 0x8086, Const 0x250B] [''82820'', ''Host Bridge (MCH)''],
  Init [Const 0x8086, Const 0x250F] [''82820'', ''AGP Bridge''],
  Init [Const 0x8086, Const 0x2520] [''82805AA'', ''Memory Translator Hub (MTH)''],
  Init [Const 0x8086, Const 0x2521] [''8280'', ''Audio Device on High Definition Audio Bus''],
  Init [Const 0x8086, Const 0x2530] [''82850/E'', ''Host-Hub Interface Bridge(A2 step)''],
  Init [Const 0x8086, Const 0x2531] [''82860'', ''Host-Hub Interface_A Bridge (DP mode)''],
  Init [Const 0x8086, Const 0x2532] [''82850/850E/860'', ''AGP Bridge''],
  Init [Const 0x8086, Const 0x2533] [''82860'', ''Hub Interface_B Bridge''],
  Init [Const 0x8086, Const 0x2534] [''82860'', ''Hub Interface_C Bridge''],
  Init [Const 0x8086, Const 0x2535] [''82860'', ''PCI Bridge''],
  Init [Const 0x8086, Const 0x2536] [''82860'', ''PCI Bridge''],
  Init [Const 0x8086, Const 0x2539] [''82860'', ''(Quad Processor mode)''],
  Init [Const 0x8086, Const 0x2540] [''E7500'', ''Host-HI Bridge & DRAM Controller''],
  Init [Const 0x8086, Const 0x2541] [''E7500/E7501'', ''DRAM Controller Error Reporting''],
  Init [Const 0x8086, Const 0x2543] [''E7500/E7501'', ''HI_B Virtual PCI-to-PCI Bridge''],
  Init [Const 0x8086, Const 0x2544] [''E7500/E7501'', ''HI_B PCI-to-PCI Bridge Error Reporting''],
  Init [Const 0x8086, Const 0x2545] [''E7500/E7501'', ''HI_C Virtual PCI-to-PCI Bridge''],
  Init [Const 0x8086, Const 0x2546] [''E7500/E7501'', ''HI_C PCI-to-PCI Bridge Error Reporting''],
  Init [Const 0x8086, Const 0x2547] [''E7500/E7501'', ''HI_D Virtual PCI-to-PCI Bridge''],
  Init [Const 0x8086, Const 0x2548] [''E7500/E7501'', ''HI_D PCI-to-PCI Bridge Error Reporting''],
  Init [Const 0x8086, Const 0x254C] [''E7501'', ''Host Controller''],
  Init [Const 0x8086, Const 0x2550] [''E7505'', ''Host Controller''],
  Init [Const 0x8086, Const 0x2551] [''25511014'', ''Host RAS Controller''],
  Init [Const 0x8086, Const 0x2552] [''E7205/E7505'', ''PCI-to-AGP Bridge''],
  Init [Const 0x8086, Const 0x2553] [''E7505'', ''Hub Interface_B PCI-to-PCI Bridge''],
  Init [Const 0x8086, Const 0x2554] [''E7505'', ''Hub I/F_B PCI-to-PCI Bridge Error Report''],
  Init [Const 0x8086, Const 0x255D] [''E7205'', ''Host Controller''],
  Init [Const 0x8086, Const 0x2560] [''82845G/GL/GV/GE/PE'', ''DRAM Controller / Host-Hub I/F Bridge''],
  Init [Const 0x8086, Const 0x2561] [''82845G/GL/GV/GE/PE'', ''Host-to-AGP Bridge''],
  Init [Const 0x8086, Const 0x2562] [''82845G'', ''Integrated Graphics Device''],
  Init [Const 0x8086, Malformed (''0x2562@cc'')] [''82801FR'', ''SATA RAID CONTROLLER''],
  Init [Const 0x8086, Const 0x2570] [''82865G/PE/P, 82848P'', ''DRAM Controller / Host-Hub Interface''],
  Init [Const 0x8086, Const 0x2571] [''82865G/PE/P, 82848P'', ''PCI-to-AGP Bridge''],
  Init [Const 0x8086, Const 0x2572] [''intel d865glc'', ''Integrated Graphics Device''],
  Init [Const 0x8086, Const 0x2573] [''82865G/PE/P, 82848P'', ''PCI-to-CSA Bridge''],
  Init [Const 0x8086, Const 0x2576] [''82865G/PE/P, 82848P'', ''Overflow Configuration''],
  Init [Const 0x8086, Const 0x2578] [''82875P/E7210'', ''DRAM Controller / Host-Hub Interface''],
  Init [Const 0x8086, Const 0x2579] [''82875P'', ''PCI-to-AGP Bridge''],
  Init [Const 0x8086, Const 0x257A] [[], []],
  Init [Const 0x8086, Const 0x257B] [''82875P/E7210'', ''PCI to CSA Bridge''],
  Init [Const 0x8086, Const 0x257E] [''82875P/E7210'', ''Overflow Configuration''],
  Init [Const 0x8086, Const 0x2580] [''915G/P/GV'', ''Host Bridge / DRAM Controller''],
  Init [Const 0x8086, Const 0x2581] [''915G/P/GV, 925X/XE?'', ''Host-PCI Express Bridge''],
  Init [Const 0x8086, Const 0x2582] [''142550'', ''82915g/gv/910gl Express Chipset Family''],
  Init [Const 0x8086, Malformed ''0x2582.''] [''82915g/gv/910gl Express Chipset Family'', ''82915g/gv/910gl Express Chipset Family''],
  Init [Const 0x8086, Const 0x2584] [''82925X/XE'', ''Host Bridge / DRAM Controller''],
  Init [Const 0x8086, Const 0x2585] [[], []],
  Init [Const 0x8086, Const 0x2588] [''E7221'', ''Host Bridge/DRAM Controller''],
  Init [Const 0x8086, Const 0x2589] [''E7221'', ''PCI Express Bridge''],
  Init [Const 0x8086, Const 0x258A] [''E7221'', ''Internal Graphics''],
  Init [Const 0x8086, Const 0x2590] [''915GM'', ''Mobile Intel(R) 915GM/PM/GMS/910GML Express Processor to DRAM Controller''],
  Init [Const 0x8086, Const 0x2592] [''Intel 82852/82855 '', ''Graphic controller family''],
  Init [Const 0x8086, Const 0x25A1] [''6300ESB'', ''LPC Interface Bridge''],
  Init [Const 0x8086, Const 0x25A2] [''6300ESB'', ''PATA100 IDE Controller''],
  Init [Const 0x8086, Const 0x25A3] [''6300ESB'', ''SATA Controller(IDE Mode)''],
  Init [Const 0x8086, Const 0x25A4] [''6300ESB'', ''SMBus Controller''],
  Init [Const 0x8086, Const 0x25A6] [''6300ESB'', ''AC'' @ [CHR 0x27] @ ''97 Audio Controller''],
  Init [Const 0x8086, Const 0x25A7] [''6300ESB'', ''AC'' @ [CHR 0x27] @ ''97 Modem Controller''],
  Init [Const 0x8086, Const 0x25A9] [''6300ESB'', ''USB 1.1 UHCI Controller #1''],
  Init [Const 0x8086, Const 0x25AA] [''6300ESB'', ''USB 1.1 UHCI Controller #2''],
  Init [Const 0x8086, Const 0x25AB] [''6300ESB'', ''Watchdog Timer''],
  Init [Const 0x8086, Const 0x25AC] [''6300ESB'', ''APIC1''],
  Init [Const 0x8086, Const 0x25AD] [''6300ESB'', ''USB 2.0 EHCI Controller''],
  Init [Const 0x8086, Const 0x25AE] [''6300ESB'', ''Hub Interface to PCI-X Bridge''],
  Init [Const 0x8086, Const 0x25B0] [''6300ESB'', ''Serial ATA Controller (RAID mode)''],
  Init [Const 0x8086, Const 0x2600] [''E8500'', ''Hub Interface 1.5''],
  Init [Const 0x8086, Const 0x2601] [''E8500'', ''PCI Express Port D''],
  Init [Const 0x8086, Const 0x2602] [''E8500'', ''PCI Express Port C0''],
  Init [Const 0x8086, Const 0x2603] [''E8500'', ''PCI Express Port C1''],
  Init [Const 0x8086, Const 0x2604] [''E8500'', ''PCI Express Port B0''],
  Init [Const 0x8086, Const 0x2605] [''E8500'', ''PCI Express Port B1''],
  Init [Const 0x8086, Const 0x2606] [''E8500'', ''PCI Express Port A0''],
  Init [Const 0x8086, Const 0x2607] [''E8500'', ''PCI Express Port A1''],
  Init [Const 0x8086, Const 0x2640] [''82801FB/FR'', ''LPC Interface Bridge''],
  Init [Const 0x8086, Const 0x2641] [''82801FBM'', ''LPC Interface Bridge (ICH6-M)''],
  Init [Const 0x8086, Const 0x2651] [''82801Fb'', ''SATA Controller''],
  Init [Const 0x8086, Const 0x2652] [''82801FR'', ''SATA RAID Controller''],
  Init [Const 0x8086, Malformed ''0x2652&CC_0101''] [''82801FR/FRW'', ''SATA Controller''],
  Init [Const 0x8086, Malformed ''0x2652&CC_0104''] [''82801FR/FRW'', ''SATA Raid Controller''],
  Init [Const 0x8086, Malformed ''0x2652&CC_0106''] [''82801FR/FRW'', ''AHCI Controller''],
  Init [Const 0x8086, Const 0x2653] [''82801FBM'', ''SATA AHCI Controller''],
  Init [Const 0x8086, Malformed ''0x2653&CC_0101''] [''82801FBM'', ''SATA IDE Controller''],
  Init [Const 0x8086, Malformed ''0x2653&CC_0106''] [''82801FBM'', ''AHCI Controller''],
  Init [Const 0x8086, Const 0x2658] [''82801FB/FR/FW/FRW'', ''USB UHCI Controller #1''],
  Init [Const 0x8086, Const 0x2659] [''82801FB/FR/FW/FRW'', ''USB UHCI Controller #2''],
  Init [Const 0x8086, Const 0x265A] [''82801FB/FR/FW/FRW'', ''USB UHCI Controller #3''],
  Init [Const 0x8086, Const 0x265B] [''82801FB/FR/FW/FRW'', ''USB UHCI Controller #4''],
  Init [Const 0x8086, Const 0x265C] [''82801FB/FR/FW/FRW'', ''USB 2.0 EHCI Controller''],
  Init [Const 0x8086, Const 0x266] [''VIA Technologies Vinyl AC'' @ [CHR 0x27] @ ''97 Codec Combo Driver (W'', ''VIA AC97 codec incorporated into VT82C686VT8251 SouthbridA/B, VT8231, VT8233/A/C, VT8235, VT8237/R''],
  Init [Const 0x8086, Const 0x2660] [''82801FB/FR/FW/FRW'', ''PCI Express Port 1''],
  Init [Const 0x8086, Const 0x2662] [''82801FB/FR/FW/FRW'', ''PCI Express Port 2''],
  Init [Const 0x8086, Const 0x2664] [''82801FB'', ''PCI Express Port 3''],
  Init [Const 0x8086, Const 0x2666] [''82801FB/FR/FW/FRW'', ''PCI Express Port 4''],
  Init [Const 0x8086, Const 0x2668] [''11511583659'', ''82801FB (ICH6) High Definition Audio Controller''],
  Init [Const 0x8086, Const 0x2669] [''2028026'', ''jkn ''],
  Init [Const 0x8086, Const 0x266A] [''82801BA/CA'', ''SMBus Controller''],
  Init [Const 0x8086, Const 0x266C] [''82801FB/FR/FW/FRW'', ''LAN Controller''],
  Init [Const 0x8086, Const 0x266D] [''czc82809kr'', ''http://www.dell.com/support/drivers/us/en/19/DriverDetails/DriverFileFormats?DriverId=R104087&FileId''],
  Init [Const 0x8086, Const 0x266E] [''Driver audio digitale integrato ADI SoundMAX'', ''Driver audio digitale integrato ADI SoundMAX - HP DV4000''],
  Init [Const 0x8086, Const 0x266F] [''82801FB/FBM/FW/FR/FRW'', ''PATA100 Controller - 266F''],
  Init [Const 0x8086, Const 0x2670] [''631xESB/6321ESB/3100 '', ''LPC Interface Controller''],
  Init [Const 0x8086, Const 0x2678] [''8280'', ''8280 (ICH6) High Defininition Audio Controller''],
  Init [Const 0x8086, Const 0x2680] [''631x/632x ESB2&3100'', ''SATA Controller(IDE Mode)''],
  Init [Const 0x8086, Const 0x2681] [''62089A2'', ''631xESB/632xESB SATA AHCI Controller''],
  Init [Const 0x8086, Const 0x2682] [''ESB2'', ''Intel(R) ESB2 SATA RAID Controller''],
  Init [Const 0x8086, Const 0x269B] [''631xESB/6321ESB/3100'', ''SMBus Controller''],
  Init [Const 0x8086, Const 0x269E] [''631x/632x ESB2'', ''PATA100 IDE Controller''],
  Init [Const 0x8086, Const 0x27] [''82801G '', ''ICH7 Family''],
  Init [Const 0x8086, Const 0x2770] [''82945G/GZ/P/PL'', ''Host Bridge/DRAM Controller''],
  Init [Const 0x8086, Const 0x2771] [''82945G/GZ/P/PL'', ''Host to PCI Express Bridge''],
  Init [Const 0x8086, Const 0x2772] [''82945G/GZ'', ''Chipset Intel'' @ [CHR 0xAE] @ '' 82945G Express ''],
  Init [Const 0x8086, Const 0x2776] [''82945G'', ''INTEL(R) 82945G EXPRESS FAMILY''],
  Init [Const 0x8086, Const 0x277C] [''82975X'', ''Intel 975X Express Chipset''],
  Init [Const 0x8086, Const 0x2780] [''82915G'', ''Graphics device''],
  Init [Const 0x8086, Const 0x2782] [''82915G'', ''Graphics device: 82915G/GV/910GL Express Chipset Family''],
  Init [Const 0x8086, Const 0x2792] [''038000'', ''Mobile Intel(R) 915GM/GMS/, 910GML Express Chipset Family''],
  Init [Const 0x8086, Const 0x2794] [''945'', ''Mobile chipset''],
  Init [Const 0x8086, Const 0x27A0] [''874079'', ''i945GM Express Chipset''],
  Init [Const 0x8086, Const 0x27A1] [''Intel 82945PM Memory Controller'', ''Intel Corporation Mobile 945PM Express PCI Express Root Port''],
  Init [Const 0x8086, Const 0x27A2] [''HPQ0006'', ''Mobile Intel(R) 945 Express Chipset Family''],
  Init [Const 0x8086, Const 0x27A6] [''945GM'', ''Intel 945GM/950''],
  Init [Const 0x8086, Const 0x27B8] [''945GL'', ''PCI'' @ [CHR 0x5C] @ ''VEN_8086&_27B8&SUBSYS_8179DEV1043&REV_01'' @ [CHR 0x5C] @ ''3&11583659&0&F8''],
  Init [Const 0x8086, Const 0x27BC] [''NM10'', ''NM10 Family LPC Interface Controller''],
  Init [Const 0x8086, Const 0x27C0] [''82801GB/GR/GH'', ''82801 GB Serial ATA Storage Controllers''],
  Init [Const 0x8086, Const 0x27C1] [''82801GB/GR/GH'', ''AHCI Controller''],
  Init [Const 0x8086, Const 0x27C3] [''82801GR/GH'', ''Raid Controller''],
  Init [Const 0x8086, Const 0x27C4] [''82801GBM/GHM'', ''SATA IDE Controller''],
  Init [Const 0x8086, Const 0x27C5] [''82801GBM/GHM'', ''AHCI Controller'']]"

lemma PciDevTable_7_facts:
  "length PciDevTable_7 = 150" "rejected PciDevTable_7 = 7" "oversized PciDevTable_7 = 0"
  "vendors PciDevTable_7 \<subseteq> Const ` set vendor_numbers"
  unfolding PciDevTable_7_def count_rows by (simp_all add: part_simps listed vendor_known_list cong: part_cong count_rows_cong)

definition PciDevTable_8 :: "initializer list" where
 "PciDevTable_8 = [
  Init [Const 0x8086, Const 0x27C6] [''82801GHM'', ''Raid Controller''],
  Init [Const 0x8086, Const 0x27C8] [''946'', ''USB UHCI Controller''],
  Init [Const 0x8086, Const 0x27C9] [''USB UHCI Controller'', ''USB UHCI Controller''],
  Init [Const 0x8086, Const 0x27CA] [''-INTEL'', ''USB UHCI Controller''],
  Init [Const 0x8086, Const 0x27CB] [[], ''USB UHCI Controller''],
  Init [Const 0x8086, Const 0x27CC] [''82801G'', ''Intel(R) 82801G (ICH7 Family) USB2 Enhanced Host Controller''],
  Init [Const 0x8086, Const 0x27D0] [''82801G'', ''Intel(R) 82801G (ICH7 Family) PCI Express Root Port''],
  Init [Const 0x8086, Const 0x27D2] [''82801G'', ''Intel(R) 82801G (ICH7 Family) PCI Express Root Port''],
  Init [Const 0x8086, Const 0x27D8] [''FF311179'', ''Realtek High Definition Audio Driver FF311179 thequetta.com''],
  Init [Const 0x8086, Malformed ''0x27d8xzx''] [''PCI'' @ [CHR 0x5C] @ ''VEN_8086&DEV_2485&SUBSYS_AD021458&REV_02'', ''Microsoft UAA Bus HD Audio''],
  Init [Const 0x8086, Const 0x27D9] [''A62516F3'', ''IDT High Definition Audio Driver'' @ [CHR 0x09]],
  Init [Const 0x8086, Const 0x27DA] [''82801G'', ''Intel[R] 82801G (ICH7 Family) C- 27DA''],
  Init [Const 0x8086, Const 0x27DC] [''336C1462'', ''Intel'' @ [CHR 0xC2, CHR 0xAE] @ '' PRO/100 VE Desktop Adapter''],
  Init [Const 0x8086, Malformed ''0x27DC0x27DC''] [''336C1462'', ''Intel'' @ [CHR 0xC2, CHR 0xAE] @ '' PRO/100 VE Desktop Adapter''],
  Init [Const 0x8086, Const 0x27DE] [''RTL8100C'', ''AUDIO (ALC850) << Realtek ''],
  Init [Const 0x8086, Const 0x27DF] [''82801GB/GBM'', ''PATA100''],
  Init [Const 0x8086, Malformed ''0x27RR''] [''ALC850'', ''no''],
  Init [Const 0x8086, Const 0x2802] [''8086'', ''INTEL(R) HIGH DEFINITION AUDIO HDMI''],
  Init [Const 0x8086, Const 0x2803] [''0111'', ''Intel(R) High Definition Audio HDMI Service''],
  Init [Const 0x8086, Const 0x2804] [''80860101'', ''IntcDAudModel''],
  Init [Const 0x8086, Const 0x2815] [''902D104D'', ''Intel(R) ICH8M LPC Interface Controller - 2815 Driver''],
  Init [Const 0x8086, Const 0x2820] [''82801HB/HR/HH/HO'', ''SATA IDE Controller:4 port''],
  Init [Const 0x8086, Const 0x2821] [''82821HR/HH/HO'', ''AHCI Controller''],
  Init [Const 0x8086, Const 0x2822] [''82801HR/HH/HO&82801IR/IH/IO(AIE=0)/ICH10R'', ''Raid Controller''],
  Init [Const 0x8086, Const 0x2824] [''82801HB'', ''ICH8 AHCI Controller''],
  Init [Const 0x8086, Const 0x2825] [''82801IIH'', ''Intel Q35''],
  Init [Const 0x8086, Const 0x2828] [''82801HBM/HEM'', ''SATA IDE Controller''],
  Init [Const 0x8086, Const 0x2829] [''82801HBM'', ''AHCI Controller''],
  Init [Const 0x8086, Const 0x282A] [''ICH8M/9M/ICH10M/i5M'', ''Raid Controller''],
  Init [Const 0x8086, Const 0x283A] [''81EC1043 (?)'', ''ICH8 Enhanced USB2 Enhanced Host Controller''],
  Init [Const 0x8086, Const 0x283E] [''PCI'' @ [CHR 0x5C] @ ''VEN_8086&DEV_283E&SUBSYS_20A917AA&REV_03'' @ [CHR 0x5C] @ ''3&B1B'', ''SM Bus Controller''],
  Init [Const 0x8086, Const 0x284] [''888'', ''Microsoft UAA bus for HD audio''],
  Init [Const 0x8086, Const 0x284B] [''888'', ''Microsoft UAA bus for HD audio''],
  Init [Const 0x8086, Const 0x2850] [''82801HBM/HEM'', ''PATA Controller''],
  Init [Const 0x8086, Const 0x2880] [''0000000'', ''Intel Display Audio''],
  Init [Const 0x8086, Const 0x2888] [''Q945'', ''Q945''],
  Init [Const 0x8086, Const 0x2914] [''ICH9D0'', ''LPC bridge of ICH9''],
  Init [Const 0x8086, Const 0x2916] [''3'', ''PCI Simple Communications-Controller ''],
  Init [Const 0x8086, Const 0x2920] [''82801(IB)/IR/IH/IO'', ''SATA IDE Controller:4 port''],
  Init [Const 0x8086, Const 0x2921] [''82801IR/IH/IO'', ''SATA IDE Controller:2 port1''],
  Init [Const 0x8086, Const 0x2922] [''82801IR/IH/IO'', ''AHCI Controller''],
  Init [Const 0x8086, Const 0x2923] [''82801IB'', ''ICH9 AHCI Controller''],
  Init [Const 0x8086, Const 0x2925] [''82801IR/IH/IO(AIE=1)'', ''Raid Controller''],
  Init [Const 0x8086, Const 0x2926] [''82801IR/IH/IO'', ''SATA IDE Controller:2 port2''],
  Init [Const 0x8086, Const 0x2928] [''?(ICH9M Family)'', ''SATA IDE Controller:2port1''],
  Init [Const 0x8086, Const 0x2929] [''ICH9M/ME'', ''ICH9M/ME AHCI Controller''],
  Init [Const 0x8086, Const 0x292D] [''?(ICH9M Family)'', ''SATA IDE Controller:2port2''],
  Init [Const 0x8086, Const 0x292E] [''?(ICH9M Family)'', ''SATA IDE Controller:1port2''],
  Init [Const 0x8086, Const 0x2930] [''8086'', ''2930''],
  Init [Const 0x8086, Const 0x2930] [''Intel ICH9 Family SMBus Controller'', ''Intel ICH9 Family SMBus Controller''],
  Init [Const 0x8086, Const 0x2936] [''0x02141028'', ''Intel(R) ICH9 Family USB Univeral Host Controller''],
  Init [Const 0x8086, Const 0x293E] [''486486 '', ''82801IB/IR/IH (ICH9 Family) HD Audio Controller''],
  Init [Const 0x8086, Const 0x293E] [''486486'', ''82801IB/IR/IH (ICH9 Family) HD Audio Controller''],
  Init [Const 0x8086, Const 0x294C] [''82566DC-2'', ''Intel(R) 82566DC-2 Gigabit Network Connection''],
  Init [Const 0x8086, Const 0x2972] [''82946GZ '', ''Onboard Video Device for 82946GZ chips''],
  Init [Const 0x8086, Const 0x2986] [''265452'', ''Intel''],
  Init [Const 0x8086, Const 0x2987] [''Q965/Q963'', ''Intel PCI Serial Port''],
  Init [Const 0x8086, Const 0x2992] [''Q965/Q963'', ''Intel(R) Express Chipset video''],
  Init [Const 0x8086, Const 0x2993] [''G965'', ''Intel(R) Express Chipset (Dell Version)''],
  Init [Const 0x8086, Const 0x2994] [''2802103C'', ''intel management engine interface''],
  Init [Const 0x8086, Const 0x2996] [''Q963/Q965'', ''IDE Controller''],
  Init [Const 0x8086, Const 0x2997] [''Q965/Q963'', ''Intel'' @ [CHR 0xAE] @ '' Active Management Technology (AMT) - SOL''],
  Init [Const 0x8086, Const 0x29A0] [''?(82P965)'', ''Intel P965/G965 Processor to I/O Controller''],
  Init [Const 0x8086, Const 0x29A1] [''?(82Q965, 82G965, 82P965)'', ''Intel P965/G965 PCI Express Root Port''],
  Init [Const 0x8086, Const 0x29A2] [''Intel 82G965 Graphics and Memory Controller Hub (G'', ''Intel 82G965 Graphics and Memory Controller Hub (GMCH)''],
  Init [Const 0x8086, Const 0x29A4] [''86881'', ''MRMgRH <a href=''],
  Init [Const 0x8086, Const 0x29A6] [''G965'', ''IDE Controller''],
  Init [Const 0x8086, Const 0x29B2] [''Q35'', ''Intel(R) Q35 Express Chipset Family''],
  Init [Const 0x8086, Const 0x29B3] [''Q35'', ''Intel''],
  Init [Const 0x8086, Const 0x29B4] [''Q35-Chipset'', ''Intel(R) Management Engine Interface (HECI)''],
  Init [Const 0x8086, Malformed ''0x29B4&subys''] [''4F4A8086&rev_02'', ''Management Engine Driver''],
  Init [Const 0x8086, Const 0x29B6] [''Q35'', ''IDE Controller''],
  Init [Const 0x8086, Const 0x29B7] [''Q35-Chipset'', ''Serial Over LAN''],
  Init [Const 0x8086, Const 0x29C2] [''8086'', ''Intel(R) G33 chipset GMA3100 video Driver''],
  Init [Const 0x8086, Malformed ''0x29C2_''] [''Intel G33'', ''Intel(R) G33 chipset GMA3100 video Driver''],
  Init [Const 0x8086, Const 0x29C4] [''Intel DG33FB'', ''Intel ME: Management Engine Interface''],
  Init [Const 0x8086, Const 0x29C6] [''G3x'', ''IDE Controller''],
  Init [Const 0x8086, Const 0x29D4] [''281e103c'', ''Intel Management Interface''],
  Init [Const 0x8086, Const 0x29D6] [''Q33'', ''IDE Controller''],
  Init [Const 0x8086, Const 0x29E6] [''x48'', ''IDE Controller''],
  Init [Const 0x8086, Const 0x29F6] [''32xx'', ''IDE Controller''],
  Init [Const 0x8086, Const 0x2A02] [''02091028'', ''Intel GM965, Intel X3100''],
  Init [Const 0x8086, Const 0x2A03] [''82Q965'', ''Intel GM''],
  Init [Const 0x8086, Const 0x2A04] [''Q965/Q96'', ''Intel PCI communication controller-Intel Management Engine Interface update''],
  Init [Const 0x8086, Const 0x2A06] [''965PM'', ''IDE Controller''],
  Init [Const 0x8086, Const 0x2A07] [''Q965/Q963'', ''Intel PCI Serial Port''],
  Init [Const 0x8086, Const 0x2A08] [''Q965 Chipset'', ''Intel(R) Extended Thermal Model MCH''],
  Init [Const 0x8086, Const 0x2A12] [''965'', ''Mobile Intel(R) 965 Express Chipset Family''],
  Init [Const 0x8086, Const 0x2A16] [''96xMG'', ''IDE Controller''],
  Init [Const 0x8086, Const 0x2A42] [''Mobile Intel 4 Series Chipset Family'', ''Intel Mobile Graphic''],
  Init [Const 0x8086, Const 0x2A43] [''Mobile Intel 4 Series Chipset Family'', ''Intel Mobile Graphic''],
  Init [Const 0x8086, Const 0x2A44] [''Mobile 4 Series Chipset'', ''IC658''],
  Init [Const 0x8086, Const 0x2A46] [''M4x'', ''IDE Controller''],
  Init [Const 0x8086, Const 0x2A47] [''20EC17AA'', ''Active Management Technology - SOL''],
  Init [Const 0x8086, Const 0x2A52] [''Cantiga'', ''IDE Controller''],
  Init [Const 0x8086, Const 0x2E06] [''4x'', ''IDE Controller''],
  Init [Const 0x8086, Const 0x2E12] [''-'', ''Intel Q45/Q43 Express Chipset''],
  Init [Const 0x8086, Const 0x2E13] [''Intel Q43/Q45/G43/G45 (Eaglelake) Graphics Control'', ''Intel(R) 4 Series Internal Chipset''],
  Init [Const 0x8086, Const 0x2E14] [''PCI'' @ [CHR 0x5C] @ ''VEN_8086&DEV_2E14'', ''Intel Management Engine Interface (HECI)''],
  Init [Const 0x8086, Const 0x2E15] [''PCI'' @ [CHR 0x5C] @ ''VEN_8086&DEV_29C2&SUBSYS_29C28086&REV_10'' @ [CHR 0x5C] @ ''3&115'', ''Intel AMT LMS_SOL for AMT 5.xx''],
  Init [Const 0x8086, Const 0x2E16] [''4x'', ''IDE Controller''],
  Init [Const 0x8086, Const 0x2E17] [''CC_0700'', ''Intel AMT LMS_SOL for AMT 5.xx''],
  Init [Const 0x8086, Const 0x2E24] [''PCI'' @ [CHR 0x5C] @ ''VEN_8086&DEV_2E24&SUBSYS_72671462&REV_01'' @ [CHR 0x5C] @ ''3&115'', ''Intel Management Engine Interface''],
  Init [Const 0x8086, Malformed ''0x2E24&CC''] [''PCI'' @ [CHR 0x5C] @ ''VEN_8086&DEV_2E24&SUBSYS_00288086&REV_03'', ''Intel Management Engine Interface''],
  Init [Const 0x8086, Const 0x2E26] [''4x'', ''IDE Controller''],
  Init [Const 0x8086, Const 0x2E29] [''2e29'', ''Intel(R) 4 Series Chipset PCI Express Root Port - 2E29''],
  Init [Const 0x8086, Const 0x2E32] [''PCI'' @ [CHR 0x5C] @ ''VEN_8086&DEV_2E32&SUBSYS_31031565&REV_03'', ''Intel G41 express graphics''],
  Init [Const 0x8086, Const 0x2E33] [''G41TY EXPRESS CHIPSET'', ''ghaphics chipset g41TY''],
  Init [Const 0x8086, Malformed ''0x2E33_''] [''G41 EXPRESS CHIPSET'', ''ghaphics chipset g41 ghaphics chipset g41 ''],
  Init [Const 0x8086, Const 0x2E46] [''4x'', ''IDE Controller''],
  Init [Const 0x8086, Const 0x2E96] [''4x'', ''IDE Controller''],
  Init [Const 0x8086, Const 0x2F00] [''815B104D'', ''multimedia audio device (codec AC97) SoundMAX or VIA''],
  Init [Const 0x8086, Const 0x3092] [''SRCU32'', ''I2O 1.5 RAID Controller''],
  Init [Const 0x8086, Const 0x3200] [''31244'', ''PCI-X to Serial ATA Controller''],
  Init [Const 0x8086, Const 0x3252351341324] [''2802103'', ''SUBSYS''],
  Init [Const 0x8086, Const 0x3340] [''82855PM'', ''Host-Hub Interface Bridge''],
  Init [Const 0x8086, Const 0x3341] [''82855PM'', ''AGP Bridge''],
  Init [Const 0x8086, Const 0x3342] [''82855PM'', ''Power Management''],
  Init [Const 0x8086, Const 0x3408] [''7500'', ''Intel 7500 Chipset PCIe Root Port''],
  Init [Const 0x8086, Const 0x3409] [''7500'', ''Intel 7500 Chipset PCIe Root Port''],
  Init [Const 0x8086, Const 0x340A] [''7500'', ''Intel 7500 Chipset PCIe Root Port''],
  Init [Const 0x8086, Const 0x340B] [''7500'', ''Intel 7500 Chipset PCIe Root Port''],
  Init [Const 0x8086, Const 0x340C] [''7500'', ''Intel 7500 Chipset PCIe Root Port''],
  Init [Const 0x8086, Const 0x340E] [''7500'', ''Intel 7500 Chipset PCIe Root Port''],
  Init [Const 0x8086, Const 0x3410] [''7500'', ''Intel 7500 Chipset PCIe Root Port''],
  Init [Const 0x8086, Const 0x3423] [''The Intel'' @ [CHR 0xAE] @ '' Server RAID Controller U2-1 (SRCU21) an'', ''SRCU21/SRCU31 Microsoft Windows* 2000 Memory Management Files''],
  Init [Const 0x8086, Const 0x3464] [''22'', ''NTPNP_PCI0002''],
  Init [Const 0x8086, Const 0x348D] [''82541EI'', ''Gigabit Ethernet Controller''],
  Init [Const 0x8086, Const 0x34C5] [''82801DBM SoundMAXController (ICH4-M B0 step)'', ''Realtek AC97 (NOT an intel)''],
  Init [Const 0x8086, Const 0x3575] [''82830[MP]'', ''Host-Hub I/F Bridge / SDRAM Controller''],
  Init [Const 0x8086, Const 0x3576] [''82830M/MP'', ''Host-AGP Bridge''],
  Init [Const 0x8086, Const 0x3577] [''82830vm'', ''Integrated Graphics Device''],
  Init [Const 0x8086, Const 0x3578] [''82830[MP]'', ''CPU to I/O Bridge''],
  Init [Const 0x8086, Const 0x3579] [''82835'', ''SDRAM Controller / Host-hub Interface''],
  Init [Const 0x8086, Const 0x357B] [''82835'', ''Integrated Graphics Device''],
  Init [Const 0x8086, Const 0x3580] [''852GM/GMV'', ''Host-Hub Interface Bridge''],
  Init [Const 0x8086, Const 0x3581] [''82852GME/PM'', ''Virtual PCI to AGP Bridge''],
  Init [Const 0x8086, Const 0x3582] [''852GM/GMV or 82852/82855 GM/GME'', ''Integrated Graphics Device''],
  Init [Const 0x8086, Const 0x3584] [''852GM/GMV'', ''System Memory Controller''],
  Init [Const 0x8086, Const 0x3585] [''852GM'', ''Configuration Process''],
  Init [Const 0x8086, Const 0x3590] [''E7520'', ''Memory Controller Hub''],
  Init [Const 0x8086, Const 0x3591] [''E7520'', ''Memory Controller Hub''],
  Init [Const 0x8086, Const 0x3592] [''E7320'', ''Memory Controller Hub''],
  Init [Const 0x8086, Const 0x3593] [''E7320'', ''MCH Error Reporting Registers''],
  Init [Const 0x8086, Const 0x3594] [''E7520'', ''DMA Controller Registers''],
  Init [Const 0x8086, Const 0x3595] [''E7525'', ''PCI Express Port A''],
  Init [Const 0x8086, Const 0x3596] [''E7525'', ''PCI Express Port B''],
  Init [Const 0x8086, Const 0x3597] [''E7525'', ''PCI Express Port B''],
  Init [Const 0x8086, Const 0x3598] [''E7520'', ''PCI Express Port B1''],
  Init [Const 0x8086, Const 0x3599] [''E7520'', ''PCI Express Port C'']]"

lemma PciDevTable_8_facts:
  "length PciDevTable_8 = 150" "rejected PciDevTable_8 = 7" "oversized PciDevTable_8 = 1"
  "vendors PciDevTable_8 \<subseteq> Const ` set vendor_numbers"
  unfolding PciDevTable_8_def count_rows by (simp_all add: part_simps listed vendor_known_list cong: part_cong count_rows_cong)

definition PciDevTable_9 :: "initializer list" where
 "PciDevTable_9 = [
  Init [Const 0x8086, Const 0x359A] [''E7520'', ''PCI Express Port C1''],
  Init [Const 0x8086, Const 0x359B] [''E7525'', ''Extended Configuration Registers''],
  Init [Const 0x8086, Const 0x359E] [''E7525'', ''MCH Control Registers''],
  Init [Const 0x8086, Const 0x360B] [''PCI'' @ [CHR 0x5C] @ ''VEN_8086&DEV_2994&SUBSYS_2801103C'', ''intel simple communication controller''],
  Init [Const 0x8086, Const 0x3A00] [''ICH10 Family'', ''ICH10 4 port SATA IDE Controller''],
  Init [Const 0x8086, Const 0x3A02] [''82801JD'', ''ICH10D SATA Controller''],
  Init [Const 0x8086, Const 0x3A03] [''ICH10'', ''ICH10 AHCI''],
  Init [Const 0x8086, Const 0x3A05] [''82801JD'', ''ICH10D SATA Controller''],
  Init [Const 0x8086, Const 0x3A06] [''ICH10 Family'', ''SATA2(2Port1)''],
  Init [Const 0x8086, Const 0x3A14] [''82801JDO'', ''82801JDO ICH10DO''],
  Init [Const 0x8086, Const 0x3A1A] [''82801JD'', ''82801JD ICH10D''],
  Init [Const 0x8086, Const 0x3A20] [''ICH10 Family'', '' SATA2(4Port2)''],
  Init [Const 0x8086, Const 0x3A22] [''ICH10R'', ''AHCI Controller''],
  Init [Const 0x8086, Const 0x3A23] [''ICH10'', ''ICH10 AHCI''],
  Init [Const 0x8086, Const 0x3A26] [''ICH10 Family'', ''SATA2(2Port2)''],
  Init [Const 0x8086, Const 0x3A30] [''50011458'', ''INTEL(R) ICH10 Family SMB controller ''],
  Init [Const 0x8086, Const 0x3A3E] [''Microsoft UAA Bus Driver for High Definition Audio'', ''Microsoft UAA Bus Driver for High Definition Audio''],
  Init [Const 0x8086, Const 0x3A60] [''ICH10'', ''SM-Bus Controller''],
  Init [Const 0x8086, Const 0x3B00] [''Intel(R) 5 Series/3400 Series Chipset Family'', ''LPC Interface Controller''],
  Init [Const 0x8086, Const 0x3B01] [''Intel(R) 5 Series/3400 Series Chipset Family'', ''LPC Interface Controller''],
  Init [Const 0x8086, Const 0x3B02] [''Intel(R) 5 Series/3400 Series Chipset Family'', ''LPC Interface Controller''],
  Init [Const 0x8086, Const 0x3B03] [''Intel(R) 5 Series/3400 Series Chipset Family'', ''LPC Interface Controller''],
  Init [Const 0x8086, Const 0x3B06] [''Intel(R) 5 Series/3400 Series Chipset Family'', ''LPC Interface Controller''],
  Init [Const 0x8086, Const 0x3B07] [''Intel(R) 5 Series/3400 Series Chipset Family'', ''LPC Interface Controller''],
  Init [Const 0x8086, Const 0x3B08] [''Intel(R) 5 Series/3400 Series Chipset Family'', ''LPC Interface Controller''],
  Init [Const 0x8086, Const 0x3B09] [''Intel(R) 5 Series/3400 Series Chipset Family'', ''LPC Interface Controller''],
  Init [Const 0x8086, Const 0x3B0A] [''Intel(R) 5 Series/3400 Series Chipset Family'', ''LPC Interface Controller''],
  Init [Const 0x8086, Const 0x3B0B] [''Intel(R) 5 Series/3400 Series Chipset Family'', ''LPC Interface Controller''],
  Init [Const 0x8086, Const 0x3B0D] [''Intel(R) 5 Series/3400 Series Chipset Family'', ''LPC Interface Controller''],
  Init [Const 0x8086, Const 0x3B0F] [''Intel(R) 5 Series/3400 Series Chipset Family'', ''LPC Interface Controller''],
  Init [Const 0x8086, Const 0x3B12] [''Intel(R) 5 Series/3400 Series Chipset Family'', ''LPC Interface Controller''],
  Init [Const 0x8086, Const 0x3B14] [''Intel(R) 5 Series/3400 Series Chipset Family'', ''LPC Interface Controller''],
  Init [Const 0x8086, Const 0x3B16] [''Intel(R) 5 Series/3400 Series Chipset Family'', ''LPC Interface Controller''],
  Init [Const 0x8086, Const 0x3B20] [''PCH (Ibex P'', ''SATA IDE 4-Port Desktop''],
  Init [Const 0x8086, Const 0x3B21] [''PCH (Ibex Peak)'', ''SATA IDE 2-Port Desktop''],
  Init [Const 0x8086, Const 0x3B22] [''PCH (Ibex Peak)'', ''SATA AHCI 6-Port Desktop''],
  Init [Const 0x8086, Const 0x3B23] [''PCH (Ibex Peak)'', ''SATA AHCI 4-Port Desktop''],
  Init [Const 0x8086, Const 0x3B24] [''PCH'', ''SATA Enhanced RAID''],
  Init [Const 0x8086, Const 0x3B25] [''PCH'', ''SATA Raid Controller''],
  Init [Const 0x8086, Const 0x3B26] [''PCH (Ibex Peak)'', ''SATA IDE 2-Port Secondary Desktop''],
  Init [Const 0x8086, Const 0x3B28] [''PCH (Ibex Peak)'', ''SATA IDE 4-Port Mobile''],
  Init [Const 0x8086, Const 0x3B29] [''PCH (Ibex Peak)'', ''SATA AHCI 4-Port Mobile''],
  Init [Const 0x8086, Const 0x3B2B] [''PCHM'', ''SATA Enhanced RAID''],
  Init [Const 0x8086, Const 0x3B2C] [''PCHM'', ''SATA Raid Controller''],
  Init [Const 0x8086, Const 0x3B2D] [''PCHM'', ''SATA IDE Controller:2 port''],
  Init [Const 0x8086, Const 0x3B2E] [''PCH (Ibex Peak)'', ''SATA IDE 4-Port Mobile''],
  Init [Const 0x8086, Const 0x3B2F] [''PCH (Ibex Peak)'', ''SATA AHCI 6-Port Mobile''],
  Init [Const 0x8086, Const 0x3B30] [''Intel(R) 5 Series/&#1057;&#1077;&#1088;&#1080;&#11'', ''SMBus &#1050;&#1086;&#1085;&#1090;&#1088;&#1086;&#1083;&#1083;&#1077;&#1088;''],
  Init [Const 0x8086, Const 0x3B32] [''Intel(R) Turbo Boost Technology Driver'', ''LPC Interface Controller''],
  Init [Const 0x8086, Const 0x3B63] [''ff1e1179'', ''06''],
  Init [Const 0x8086, Const 0x3B64] [''Intel  3B69'', ''Management Engine Driver''],
  Init [Const 0x8086, Malformed ''0x3B64&SUBSYS_048210''] [''Intel 3B09'', ''Management Engine Driver''],
  Init [Const 0x8086, Malformed ''0x3B64&subsys_048710''] [''REV_06'', ''Intel Management Engine Interface''],
  Init [Const 0x8086, Malformed ''0x3B64&SUBSYS_116817''] [''REV_06'', ''Intel Management Engine Interface''],
  Init [Const 0x8086, Malformed ''0x3B64SUBSYS_FF1E117''] [''REV_06'', ''intel''],
  Init [Const 0x8086, Const 0x3B65] [''ff1e1179'', ''06''],
  Init [Const 0x8086, Const 0x3B67] [''Vendor ID 0x8086 '', ''Intel(R) Active Management Technology - Serial Over LAN (SOL) ''],
  Init [Const 0x8086, Const 0x4000] [''Creatix'', ''V.90 HaM Modem''],
  Init [Const 0x8086, Const 0x402F] [''-'', ''Intel (R) 5400 Chipset QuickData Technology device - 402F''],
  Init [Const 0x8086, Const 0x4220] [''Intel Pro/Wireless 2200BG'', ''Intel 54 MBit/s Notebook WLAN Card''],
  Init [Const 0x8086, Const 0x4222] [''10208086'', ''Intel 3945ABG Wireless LAN controller''],
  Init [Const 0x8086, Const 0x4223] [''2915ABG'', ''Intel (R) PRO/Wireless 2200BG Network Connection, (R) PRO/Wireless 2915ABG Network Connection''],
  Init [Const 0x8086, Const 0x42231] [''2915ABG'', ''Intel (R) PRO/Wireless 2200BG Network Connection, (R) PRO/Wireless 2915ABG Network Connection''],
  Init [Const 0x8086, Const 0x4224] [''Intel Pro Wireless 2915ABG'', ''802.11a/b/g WLan adapter''],
  Init [Const 0x8086, Const 0x4227] [''3945ABG'', ''Intel(R) PRO/Wireless 3945ABG''],
  Init [Const 0x8086, Const 0x4229] [''Intel 4965AGN'', ''Intel'' @ [CHR 0xAE] @ '' Wireless WiFi Link 4965AGN(supporting 802.11a/b/g/Draft-N)''],
  Init [Const 0x8086, Const 0x422B] ['' '', ''Intel(R) Centrino(R) Ultimate-N 6300 AGN''],
  Init [Const 0x8086, Const 0x422C] [''BCM4311KFBG'', ''Broadcom Wifi''],
  Init [Const 0x8086, Const 0x422D] [''Intel 4965AGN'', ''Intel'' @ [CHR 0xAE] @ '' Wireless WiFi Link 4965AGN''],
  Init [Const 0x8086, Const 0x4230] [''Intel 4965AGN'', ''Intel'' @ [CHR 0xAE] @ '' Wireless WiFi Link 4965AGN''],
  Init [Const 0x8086, Const 0x4232] [''Intel'' @ [CHR 0xAE] @ '' WiFi Link 5100'', ''Carte Intel'' @ [CHR 0xAE] @ '' WiFi Link 5100 AGN''],
  Init [Const 0x8086, Const 0x4233] [''Intel 4965AGN'', ''Intel'' @ [CHR 0xAE] @ '' Wireless WiFi Link 4965AGN''],
  Init [Const 0x8086, Const 0x4235] [''5300AGN'', ''Intel'' @ [CHR 0xAE] @ '' WiFi Link 5300 AGN''],
  Init [Const 0x8086, Const 0x4236] [''5300AGN'', ''Intel(R) WiFi Link 5300 AGN''],
  Init [Const 0x8086, Const 0x4237] [''27DA'', ''Intel (R) WiFi Link 5100 AGN''],
  Init [Const 0x8086, Const 0x4238] [''6300'', ''Intel Centrino Ultimate-N 6300 AGN''],
  Init [Const 0x8086, Const 0x4239] [''0x4239'', ''Intel(R) Centrino(R) Advanced-N 6200 AGN''],
  Init [Const 0x8086, Const 0x423A] [''5350AGN'', ''PRO/Wireless 5350 AGN [Echo Peak]''],
  Init [Const 0x8086, Const 0x423C] [''5150AGN'', ''WiMAX/WiFi Link 5150''],
  Init [Const 0x8086, Const 0x4318] [''1370 (0280)'', ''Dell Wireless 1370 WLAN Mini-PCI Card''],
  Init [Const 0x8086, Const 0x444E] [''TurboMemory'', ''Intel TurboMemory''],
  Init [Const 0x8086, Const 0x4813] [''1370 (0280)'', ''Dell Wireless 1370 WLAN Mini-PCI Card''],
  Init [Const 0x8086, Const 0x4836] [''242121'', ''2425678''],
  Init [Const 0x8086, Const 0x4888] [''3945'', ''intel 3945abg wireless lan controller''],
  Init [Const 0x8086, Const 0x5001] [[CHR 0x5C] @ ''Device'' @ [CHR 0x5C] @ ''0000004c'', ''Modem - PPP''],
  Init [Const 0x8086, Const 0x5005] [''PRO/DSL 2200'', ''Modem - PPPoA''],
  Init [Const 0x8086, Const 0x5029] [''?(EP80579)'', ''AHCI Controller''],
  Init [Const 0x8086, Const 0x502A] [''Tolaoai'', ''SATA Controller''],
  Init [Const 0x8086, Const 0x502B] [''Tolapai'', ''SATA Controller''],
  Init [Const 0x8086, Const 0x5200] [''NH82801GR'', ''PCI to PCI Bridge''],
  Init [Const 0x8086, Const 0x5201] [''i960'', ''Network Controller''],
  Init [Const 0x8086, Const 0x5309] [''80303'', ''I/O Processor Address Translation Unit''],
  Init [Const 0x8086, Const 0x530D] [''80312'', ''I/O Companion Unit Address Translation''],
  Init [Const 0x8086, Const 0x6960] [[], ''EHCI 960 emulator''],
  Init [Const 0x8086, Const 0x7000] [''82371SB'', ''PIIX3 PCI-to-ISA Bridge (Triton II)''],
  Init [Const 0x8086, Const 0x7010] [''82371SB'', ''PIIX3 IDE Interface (Triton II)''],
  Init [Const 0x8086, Const 0x7020] [''82371SB'', ''PIIX3 USB Host Controller (Triton II)''],
  Init [Const 0x8086, Const 0x7030] [''82437VX'', ''System Controller''],
  Init [Const 0x8086, Const 0x7051] [''PB 642365-003'', ''Intel Business Video Conferencing Card''],
  Init [Const 0x8086, Const 0x7100] [''82439TX'', ''System Controller (MTXC), part of 430TX chipset''],
  Init [Const 0x8086, Const 0x7110] [''82371AB/EB/MB'', ''PIIX4/4E/4M ISA Bridge''],
  Init [Const 0x8086, Const 0x7111] [''82371AB/EB/MB'', ''PIIX4/4E/4M IDE Controller''],
  Init [Const 0x8086, Const 0x7112] [''82371AB/EB/MB'', ''PIIX4/4E/4M USB Interface''],
  Init [Const 0x8086, Const 0x7113] [''82371AB/EB/MB'', ''PIIX4/4E/4M Power Management Controller''],
  Init [Const 0x8086, Const 0x7120] [''Intel(R) 82801IMB'', ''Host-Hub Interface Bridge / DRAM Ctrlr''],
  Init [Const 0x8086, Const 0x7121] [''801F104'', ''Graphics Controller''],
  Init [Const 0x8086, Const 0x7122] [''82810-DC100'', ''Host-Hub Interface Bridge / DRAM Ctrlr''],
  Init [Const 0x8086, Const 0x7123] [''82810-DC100'', ''Intel'' @ [CHR 0xC2, CHR 0xAE] @ '' 82810 Graphics Controller''],
  Init [Const 0x8086, Const 0x7123] [''82810-DC100'', ''Intel'' @ [CHR 0xC2, CHR 0xAE] @ '' 82810 Graphics Controller''],
  Init [Const 0x8086, Const 0x7124] [''82810E'', ''Host-Hub Interface Bridge / DRAM Ctrlr''],
  Init [Const 0x8086, Const 0x7125] [''82810E'', ''Intel Direct AGP 810Chipset ''],
  Init [Const 0x8086, Const 0x7126] [''82810-DC133'', ''Host Bridge and Memory Controller Hub''],
  Init [Const 0x8086, Const 0x7127] [''82810-DC133'', ''Graphics Device (FSB 133 MHz)''],
  Init [Const 0x8086, Const 0x7128] [''82810-M DC-100'', ''Host Bridge and Memory Controller Hub''],
  Init [Const 0x8086, Const 0x712A] [''82810-M DC-133'', ''Host Bridge and Memory Controller Hub''],
  Init [Const 0x8086, Const 0x7180] [''rmc'', ''Host/PCI bridge in 440LX/EX AGP chipset''],
  Init [Const 0x8086, Const 0x7181] [''82443 ex/lx'', ''AGP device in 440LX/EX AGP chipset''],
  Init [Const 0x8086, Const 0x7182] [''440LX/EX'', ''intel''],
  Init [Const 0x8086, Const 0x7190] [''82443BX/ZX'', ''440BX/ZX AGPset Host Bridge''],
  Init [Const 0x8086, Const 0x7191] [''82443BX/ZX'', ''440BX/ZX AGPset PCI-to-PCI bridge''],
  Init [Const 0x8086, Const 0x7192] [''82443BX/ZX'', ''440BX/ZX chipset Host-to-PCI Bridge''],
  Init [Const 0x8086, Const 0x7194] [''82443MX'', ''AC'' @ [CHR 0x27] @ ''97 Audio device''],
  Init [Const 0x8086, Const 0x7195] [''82443MX'', ''AC97 Audio Controller''],
  Init [Const 0x8086, Const 0x7196] [''82440 - 443MX'', ''AC97 Modem Controller (Winmodem)''],
  Init [Const 0x8086, Const 0x7198] [''82443MX'', ''PCI to ISA Bridge''],
  Init [Const 0x8086, Const 0x7199] [''82443MX'', ''EIDE Controller''],
  Init [Const 0x8086, Const 0x719A] [''82443MX'', ''USB Universal Host Controller''],
  Init [Const 0x8086, Const 0x719B] [''82443MX'', ''Power Management Controller''],
  Init [Const 0x8086, Const 0x71A0] [''82443GX'', ''Host-to-PCI Bridge''],
  Init [Const 0x8086, Const 0x71A1] [''intel 82801 IB ICH9 '', ''fabricated by Intel ''],
  Init [Const 0x8086, Const 0x71A2] [''82443GX'', ''Host-to-PCI Bridge''],
  Init [Const 0x8086, Const 0x7221] [''82810'', ''graphics device''],
  Init [Const 0x8086, Const 0x7600] [''82372FB/82468GX'', ''LPC/FWH Interface''],
  Init [Const 0x8086, Const 0x7601] [''82372FB/82468GX'', ''EIDE Controller''],
  Init [Const 0x8086, Const 0x7602] [''82372FB/82468GX'', ''USB Host Controller''],
  Init [Const 0x8086, Const 0x7603] [''82372FB/82468GX'', ''SM Bus Controller''],
  Init [Const 0x8086, Const 0x7605] [''82372FB'', ''IEEE1394 OpenHCI Host Controller''],
  Init [Const 0x8086, Const 0x7800] [''82740'', ''AGP Graphics Accelerator''],
  Init [Const 0x8086, Const 0x78000] [''PCI'' @ [CHR 0x5C] @ ''VEN_8086&DEV_3B64&CC_0780'', ''PCI'' @ [CHR 0x5C] @ ''VEN_8086&DEV_3B64&CC_0780''],
  Init [Const 0x8086, Const 0x803B] [''0x104d'', ''0x81ef''],
  Init [Const 0x8086, Const 0x8083] [''Intel PM45'', ''Intel Wireless WiFi Link 5100 ABGN 10/100/1000 Base T''],
  Init [Const 0x8086, Const 0x8086] [''https://downloadcenter.intel.com/detail_desc.aspx?'', ''PCI-&#1050;&#1086;&#1085;&#1090;&#1088;&#1086;&#1083;&#1083;&#1077;&#1088; Simple Communications''],
  Init [Const 0x8086, Malformed ''0x8086&DEV''] [''9.3.0.1019'', ''intel''],
  Init [Const 0x8086, Malformed ''0x8086&DEV-24C5''] [''VIA vynil v700b'', ''VIA vynil v700b''],
  Init [Const 0x8086, Malformed ''0x8086&DEV_1040''] [''SUBSYS_148A103C'', ''REV_00'' @ [CHR 0x5C] @ ''3&61AAA01&0&50 ''],
  Init [Const 0x8086, Malformed ''0x8086&DEV_24C5''] [''82801DBM SoundMax Controller'', ''VIA vynil v700b''],
  Init [Const 0x8086, Malformed ''0x8086&DEV_3B64''] [''SUBSYS_9071104&REV_06'', ''pci simple communications controller''],
  Init [Const 0x8086, Malformed ''0x8086&DEV_7191&SUBS''] [''PCI'' @ [CHR 0x5C] @ ''VEN_8086&DE4E&REV_01'' @ [CHR 0x5C] @ ''3&241'', ''HDAUDIO'' @ [CHR 0x5C] @ ''FUNC_01&VEN_8086&DEV_1000''],
  Init [Const 0x8086, Const 0x80861] [''(0x2994)'', ''Intel(R) Management Engine Interface''],
  Init [Const 0x8086, Const 0x8108] [''SCH US15WP'', ''Intel(R) Graphics Media Accelerator 500  https://downloadcenter.intel.com/confirm.aspx?httpDown=http'']]"

lemma PciDevTable_9_facts:
  "length PciDevTable_9 = 150" "rejected PciDevTable_9 = 10" "oversized PciDevTable_9 = 3"
  "vendors PciDevTable_9 \<subseteq> Const ` set vendor_numbers"
  unfolding PciDevTable_9_def count_rows by (simp_all add: part_simps listed vendor_known_list cong: part_cong count_rows_cong)

definition PciDevTable_10 :: "initializer list" where
 "PciDevTable_10 = [
  Init [Const 0x8086, Const 0x811A] [''Atom SCH'', ''Atom SCH PATA''],
  Init [Const 0x8086, Const 0x8186] [''i dont know'', ''i dont know''],
  Init [Const 0x8086, Const 0x82801] [''24D5'', ''Realtek AC97''],
  Init [Const 0x8086, Const 0x84C4] [''82454KX/GX'', ''450KX/GX PCI Bridge (Orion)''],
  Init [Const 0x8086, Const 0x84C5] [''82453KX/GX'', ''450KX/GX Memory Controller (Orion)''],
  Init [Const 0x8086, Const 0x84CA] [''82451NX'', ''450NX PCIset Memory & I/O Controller''],
  Init [Const 0x8086, Const 0x84CB] [''82454NX/82467GX'', ''PCI Expander Bridge''],
  Init [Const 0x8086, Const 0x84E0] [''82461GX'', ''System Address controller''],
  Init [Const 0x8086, Const 0x84E1] [''82462GX'', ''System Data Controller''],
  Init [Const 0x8086, Const 0x84E2] [''82465GX'', ''Graphics Expander Bridge''],
  Init [Const 0x8086, Const 0x84E3] [''82463GX'', ''Memory Address Controller''],
  Init [Const 0x8086, Const 0x84E4] [''82464GX'', ''Memory Data Controller''],
  Init [Const 0x8086, Const 0x84E6] [''82466GX'', ''Wide and fast PCI eXpander Bridge''],
  Init [Const 0x8086, Const 0x84EA] [''82460GX'', ''AGP Bridge (GXB function 1)''],
  Init [Const 0x8086, Const 0x85A1] [''6300ESB'', ''LPC Bridge''],
  Init [Const 0x8086, Const 0x85A2] [''6300ESB'', ''IDE Controller''],
  Init [Const 0x8086, Const 0x85A3] [''6300ESB'', ''Serial ATA Controller''],
  Init [Const 0x8086, Const 0x85A4] [''6300ESB'', ''SMBus Controller''],
  Init [Const 0x8086, Const 0x85A6] [''6300ESB'', ''AC'' @ [CHR 0x27] @ ''97 Audio Controller''],
  Init [Const 0x8086, Const 0x85A7] [''6300ESB'', ''AC'' @ [CHR 0x27] @ ''97 Modem Controller''],
  Init [Const 0x8086, Const 0x85A9] [''6300ESB'', ''USB 1.1 UHCI Controller #1''],
  Init [Const 0x8086, Const 0x85AA] [''6300ESB'', ''USB 1.1 UHCI Controller #2''],
  Init [Const 0x8086, Const 0x8C3A] [''0x8C3A'', ''Intel(R) Management Engine Interface''],
  Init [Const 0x8086, Const 0x9620] [[], ''I2O RAID PCI to PCI Bridge''],
  Init [Const 0x8086, Const 0x9621] [''SRCU21'', ''I2O 1.5 RAID Controller''],
  Init [Const 0x8086, Const 0x9622] [''SRCUxx'', ''I2O 1.5 RAID Controller''],
  Init [Const 0x8086, Const 0x9641] [''SRCU31'', ''I2O 1.5 RAID Controller''],
  Init [Const 0x8086, Const 0x96A1] [''SRCU31L'', ''I2O 1.5 RAID Controller''],
  Init [Const 0x8086, Const 0x9779] [''0x2992'', ''0x2992''],
  Init [Const 0x8086, Const 0x9874] [''AC97'', ''AUDIO CONTROLLER''],
  Init [Const 0x8086, Const 0x9876] [''i845'', ''intel brokdale''],
  Init [Const 0x8086, Malformed ''0x9876 2804''] [''80860101'', ''IntcDAudModel''],
  Init [Const 0x8086, Const 0x9877] [''1'', ''1''],
  Init [Const 0x8086, Const 0x9888] [''HDAUDIO'' @ [CHR 0x5C] @ ''FUNC_01&VEN_8086&DEV_27d8&SUBSYS_80860101&'', ''HDAUDIO'' @ [CHR 0x5C] @ ''FUNC_01&VEN_8086&DEV_27d8&REV_1000''],
  Init [Const 0x8086, Const 0x9998] [''42468068'', '' 02''],
  Init [Const 0x8086, Const 0x9999] [''pci30b2103c'', ''Interface chip''],
  Init [Const 0x8086, Const 0x9C22] [''PCI'' @ [CHR 0x5C] @ ''VEN_8086&DEV_9C22&SUBSYS_05EC1028&REV_04 '', ''Intel Chipset''],
  Init [Const 0x8086, Const 0x9C3A] [''PCI'' @ [CHR 0x5C] @ ''VEN_8086'', ''Intel Management Engine Interface driver''],
  Init [Const 0x8086, Malformed ''0x9c3a  Subsys_05eb1''] [''9c3a Subsys_05eb1028 & rev_04'' @ [CHR 0x5C] @ ''3 & 11583659'', ''PCI Simple Communication Controller''],
  Init [Const 0x8086, Const 0xA001] [''3150'', ''Intel Media Accelerator 3150''],
  Init [Const 0x8086, Const 0xA002] [''GMA 3150'', ''Intel'' @ [CHR 0xAE] @ '' Grafik-Media-Accelerator 3150 (Intel'' @ [CHR 0xAE] @ '' GMA 3150)''],
  Init [Const 0x8086, Const 0xA011] [''02'' @ [CHR 0x5C] @ ''3'', ''Intel(R) Graphics Media Accelerator 3150''],
  Init [Const 0x8086, Const 0xA012] [''GMA3150'', ''Intel'' @ [CHR 0xAE] @ '' Graphics Media Accelerator 3150''],
  Init [Const 0x8086, Malformed ''0xAO11''] [''02'' @ [CHR 0x5C] @ ''3'', ''3&33FD14CA&0&10''],
  Init [Const 0x8086, Malformed ''0xAO12''] [''0x0283E'', ''Intel(R) ICH8 Family SMBus Controller''],
  Init [Const 0x8086, Const 0xB152] [''S21152BB'', ''PCI to PCI Bridge''],
  Init [Const 0x8086, Const 0xB154] [''S21154AE/BE'', ''PCI to PCI Bridge''],
  Init [Const 0x8086, Const 0xB555] [''21555'', ''Non-Transparent PCI-to-PCI Bridge''],
  Init [Const 0x8086, Const 0xC50] [''fd'', ''sdf''],
  Init [Const 0x8086, Const 0xE13A] [''7600'', ''NXMOQSN00430812D49''],
  Init [Const 0x8086, Malformed (''0xPCI'' @ [CHR 0x5C] @ ''VEN_8086&DEV_2'')] [''11583659'', ''PCI'' @ [CHR 0x5C] @ ''VEN_8086&DEV_27DA&SUBSYS_31031565''],
  Init [Const 0x8086, Malformed (''0xPCI'' @ [CHR 0x5C] @ ''VEN_8086&DEV_2'')] [''11583659'', ''PCI/VEN_8086&DEV_2A07&SUBSYS''],
  Init [Const 0x8086, Malformed (''0xPCI'' @ [CHR 0x5C] @ ''VEN_8086&DEV_3'')] [''11583659'', ''PCI'' @ [CHR 0x5C] @ ''VEN_8086&DEV_3B64&SUBSYS_3B648086&REV_06'' @ [CHR 0x5C] @ ''3&11583659&0&B0 ''],
  Init [Const 0x8086, Malformed ''0xx27c8''] [''PCI'' @ [CHR 0x5C] @ ''VEN_8086&DEV_27D8&SUBSYS_02D61028&REV_01'' @ [CHR 0x5C] @ ''3&61A'', ''Microsoft UAA Bus HD Audio''],
  Init [Const 0x8086, Malformed ''0xx27d8''] [''A62516F3'', ''INTEL IDT Audio''],
  Init [Const 0x8086, Malformed ''0xx999''] [''2930'', ''PCI'' @ [CHR 0x5C] @ ''VEN_8086&DEV_2930&SUBSYS_037E1014&REV_02'' @ [CHR 0x5C] @ ''3&61AAA01&0&FB''],
  Init [Const 0x8086, Malformed ''0x_1c3a''] [''REV_04'', ''REV-04''],
  Init [Const 0x8086, Malformed ''0x_1E3A''] [''3570'', ''i5 2500k''],
  Init [Const 0x8086, Malformed ''0x_3B64''] [''REV_02'', ''REV_02''],
  Init [Const 0x8086, Malformed ''0x__1c3a''] [''SUBYS_319010919'', ''REV-04 3&11583659''],
  Init [Const 0x8086, Malformed ''0x___1C3A''] [''8086'', ''Intel(R) Management Engine Interface''],
  Init [Const 0x8086, Const 8671] [[], []],
  Init [Const 0x9004, Const 0x0078] [''aic-7880x'', ''AHA-2940UW/CN''],
  Init [Const 0x9004, Const 0x1078] [''AIC-7810C'', ''RAID Coprocessor''],
  Init [Const 0x9004, Const 0x1135] [''0x0035'', ''Texas Instruments''],
  Init [Const 0x9004, Const 0x1160] [''AIC-1160'', ''Fibre Channel Adapter''],
  Init [Const 0x9004, Const 0x2178] [''AIC-7821'', ''SCSI Controller''],
  Init [Const 0x9004, Const 0x3860] [[], ''AIC-2930U Ultra SCSI Ctrlr''],
  Init [Const 0x9004, Const 0x3B78] [''AHA-4944W/4944UW'', ''QuadChannel Fast-Wide/Ultra-Wide Diff. SCSI Ctrlr''],
  Init [Const 0x9004, Const 0x5075] [''AIC-755x'', ''SCSI Ctrlr''],
  Init [Const 0x9004, Const 0x5078] [''AIC-7850P'', ''Fast/Wide SCSI Controller''],
  Init [Const 0x9004, Const 0x5175] [''AIC-755x'', ''SCSI Ctrlr''],
  Init [Const 0x9004, Const 0x5178] [''AIC-7850'', ''FAST-SCSI Ctrlr''],
  Init [Const 0x9004, Const 0x5275] [''AIC-755x'', ''SCSI Ctrlr''],
  Init [Const 0x9004, Const 0x5278] [''AIC-7850'', ''Fast SCSI Ctrlr''],
  Init [Const 0x9004, Const 0x5375] [''AIC-755x'', ''SCSI Ctrlr''],
  Init [Const 0x9004, Const 0x5378] [''AIC-7850'', ''Fast SCSI Ctrlr''],
  Init [Const 0x9004, Const 0x5475] [''AIC-755x'', ''SCSI Ctrlr''],
  Init [Const 0x9004, Const 0x5478] [''AIC-7850'', ''Fast SCSI Ctrlr''],
  Init [Const 0x9004, Const 0x5575] [''AVA-2930'', ''SCSI Ctrlr''],
  Init [Const 0x9004, Const 0x5578] [''AIC-7855'', ''Fast SCSI Ctrlr''],
  Init [Const 0x9004, Const 0x5675] [''AIC-755x'', ''SCSI Ctrlr''],
  Init [Const 0x9004, Const 0x5678] [''AIC-7856'', ''Fast SCSI Ctrlr''],
  Init [Const 0x9004, Const 0x5775] [''AIC-755x'', ''SCSI Ctrlr''],
  Init [Const 0x9004, Const 0x5778] [''AIC-7850'', ''Fast SCSI Ctrlr''],
  Init [Const 0x9004, Const 0x5800] [''AIC-5800'', ''PCI-to-1394 Ctrlr''],
  Init [Const 0x9004, Const 0x5900] [''ANA-5910/30/40'', ''ATM155 & 25 LAN Controller''],
  Init [Const 0x9004, Const 0x5905] [''ANA-5910A/30A/40A'', ''ATM Adpater''],
  Init [Const 0x9004, Const 0x6038] [''AHA-2930C'', ''Ultra SCSI Adpater (VAR)''],
  Init [Const 0x9004, Const 0x6075] [''AIC-7560?'', ''CardBus Ultra SCSI Controller''],
  Init [Const 0x9004, Const 0x6078] [''AIC-7860'', ''PCI SCSI Controller''],
  Init [Const 0x9004, Const 0x6178] [''AIC-7861'', ''PCI SCSI Controller''],
  Init [Const 0x9004, Const 0x6278] [''AIC-7860'', ''SCSI Ctrlr''],
  Init [Const 0x9004, Const 0x6378] [''AIC-7860'', ''SCSI Ctrlr''],
  Init [Const 0x9004, Const 0x6478] [''AIC-786x'', ''SCSI Ctrlr''],
  Init [Const 0x9004, Const 0x6578] [''AIC-786x'', ''SCSI Ctrlr''],
  Init [Const 0x9004, Const 0x6678] [''AIC-786x'', ''SCSI Ctrlr''],
  Init [Const 0x9004, Const 0x6778] [''AIC-786x'', ''SCSI Ctrlr''],
  Init [Const 0x9004, Const 0x6915] [''ANA620xx/69011A'', ''Fast Ethernet''],
  Init [Const 0x9004, Const 0x7078] [''AIC-7870'', ''Fast and Wide SCSI Ctrlr''],
  Init [Const 0x9004, Const 0x7178] [''AHA-2940/2940W'', ''Fast/Fast-Wide SCSI Ctrlr''],
  Init [Const 0x9004, Const 0x7278] [''AHA-3940/3940W'', ''Multichannel Fast/Fast-Wide SCSI Ctrlr''],
  Init [Const 0x9004, Const 0x7378] [''AHA-3985'', ''4-chan RAID SCSI Ctrlr''],
  Init [Const 0x9004, Const 0x7478] [''AHA-2944'', ''SCSI Ctrlr''],
  Init [Const 0x9004, Const 0x7578] [''AHA-3944/3944W'', ''Multichannel Fast/Fast-Wide Diff. SCSI Ctrlr''],
  Init [Const 0x9004, Const 0x7678] [''AHA-4944W/4944UW'', ''QuadChannel Fast-Wide/Ultra-Wide Diff. SCSI Ctrlr''],
  Init [Const 0x9004, Const 0x7778] [''AIC-787x'', ''SCSI Ctrlr''],
  Init [Const 0x9004, Const 0x7810] [''aic 7810'', ''Memory control IC''],
  Init [Const 0x9004, Const 0x7815] [''AIC-7515'', ''RAID + Memory Controller IC''],
  Init [Const 0x9004, Const 0x7850] [''aic-7850'', ''Fast/Wide SCSI-2 Controller''],
  Init [Const 0x9004, Const 0x7855] [''AHA-2930'', ''Single channel SCSI Host Adapter''],
  Init [Const 0x9004, Const 0x7860] [''AIC-7860'', ''PCI SCSI Controller''],
  Init [Const 0x9004, Const 0x7870] [''AIC-7870'', ''Fast/Wide SCSI-2 Controller''],
  Init [Const 0x9004, Const 0x7871] [''aha 2940'', ''SCSI''],
  Init [Const 0x9004, Const 0x7872] [''aha 3940'', ''Multiple SCSI channels''],
  Init [Const 0x9004, Const 0x7873] [''aha 3985'', ''Multiple SCSI channels''],
  Init [Const 0x9004, Const 0x7874] [''aha 2944'', ''Differential SCSI''],
  Init [Const 0x9004, Const 0x7880] [''aic7880p'', ''Fast 20 SCSI''],
  Init [Const 0x9004, Const 0x7890] [''AIC-7890'', ''SCSI controller''],
  Init [Const 0x9004, Const 0x7891] [''AIC-789x'', ''SCSI controller''],
  Init [Const 0x9004, Const 0x7892] [''AIC-789x'', ''SCSI controller''],
  Init [Const 0x9004, Const 0x7893] [''AIC-789x'', ''SCSI controller''],
  Init [Const 0x9004, Const 0x7894] [''AIC-789x'', ''SCSI controller''],
  Init [Const 0x9004, Const 0x7895] [''AIC-7895'', ''Ultra-Wide SCSI Ctrlr on AHA-2940 AHA-394x''],
  Init [Const 0x9004, Const 0x7896] [''AIC-789x'', ''SCSI controller''],
  Init [Const 0x9004, Const 0x7897] [''AIC-789x'', ''SCSI controller''],
  Init [Const 0x9004, Const 0x8078] [''AIC-7880P'', ''Ultra Wide SCSI''],
  Init [Const 0x9004, Const 0x8178] [''AHA-2940U/2940UW'', ''Ultra/Ultra-Wide SCSI Ctrlr''],
  Init [Const 0x9004, Const 0x8278] [''AHA-3940Uxx'', ''AHA-3940U/3940UW/3940UWD SCSI Ctrlr''],
  Init [Const 0x9004, Const 0x8378] [''AIC-7883U'', ''SCSI Controller''],
  Init [Const 0x9004, Const 0x8478] [''ADAPTEC 2940UW CN SCSI'', ''Ultra-Wide Diff. SCSI Ctrlr''],
  Init [Const 0x9004, Const 0x8578] [''AHA-3944U/3944UWD'', ''Fast-Wide/Ultra-Wide Diff. SCSI Ctrlr''],
  Init [Const 0x9004, Const 0x8678] [''AHA-4944UW'', ''QuadChannel Ultra-Wide Diff. SCSI Ctrlr''],
  Init [Const 0x9004, Const 0x8778] [''AIC-788x'', ''Ultra-Wide SCSI Ctrlr''],
  Init [Const 0x9004, Const 0x8878] [''AIC-7888?'', ''Ultra Wide SCSI Controller''],
  Init [Const 0x9004, Const 0x8B78] [''ABA-1030'', ''AIC-7880P''],
  Init [Const 0x9004, Const 0xEC78] [''AHA-4944W/4944UW'', ''QuadChannel Fast-Wide/Ultra-Wide Diff. SCSI Ctrlr''],
  Init [Const 0xD4D4, Const 0x010F] [''PMC-211'', ''PMC-211''],
  Init [Const 0xD4D4, Const 0x0601] [[], ''PCI Mezzanine Card''],
  Init [Const 0xDEAF, Const 0x9050] [[], ''PC Weasel PCI VGA Device''],
  Init [Const 0xDEAF, Const 0x9051] [[], ''PC Weasel PCI Serial Comm. Device''],
  Init [Const 0xDEAF, Const 0x9052] [[], ''PC Weasel PCI''],
  Init [Const 0xE159, Const 0x0001] [''Ambient MD3200 A'', ''Yeastar TDM400''],
  Init [Const 0xE159, Const 0x0002] [[], ''Sedlbauer Speed PCI''],
  Init [Const 0xE159, Const 0x0600] [''Tiger 600'', ''PCI-to-PCI Bridge''],
  Init [Const 0xEDD8, Const 0xA091] [''ARK1000PV'', ''Stingray GUI Accelerator''],
  Init [Const 0xEDD8, Const 0xA099] [''ARK2000PV'', ''Stingray GUI Accelerator''],
  Init [Const 0xEDD8, Const 0xA0A1] [''ARK2000MT'', ''Stingray 64''],
  Init [Const 0xEDD8, Const 0xA0A9] [''ARK2000MI'', ''Quadro645 GUI Accelerator''],
  Init [Const 0xEDD8, Const 0xA0B1] [''ARK2000MI+'', ''GUI Accelerator'']]"

lemma PciDevTable_10_facts:
  "length PciDevTable_10 = 150" "rejected PciDevTable_10 = 15" "oversized PciDevTable_10 = 1"
  "vendors PciDevTable_10 \<subseteq> Const ` set vendor_numbers"
  unfolding PciDevTable_10_def count_rows by (simp_all add: part_simps listed vendor_known_list cong: part_cong count_rows_cong)

definition PciDevTable_rows1 :: "initializer list" where
  "PciDevTable_rows1 = concat [PciDevTable_1, PciDevTable_2, PciDevTable_3, PciDevTable_4,
     PciDevTable_5, PciDevTable_6, PciDevTable_7, PciDevTable_8,
     PciDevTable_9, PciDevTable_10]"

lemma PciDevTable_rows1_facts:
  "length PciDevTable_rows1 = 1500" "rejected PciDevTable_rows1 = 48" "oversized PciDevTable_rows1 = 8"
  "vendors PciDevTable_rows1 \<subseteq> Const ` set vendor_numbers"
  by (simp_all add: PciDevTable_rows1_def rejected_append oversized_append vendors_append
      PciDevTable_1_facts PciDevTable_2_facts PciDevTable_3_facts
      PciDevTable_4_facts PciDevTable_5_facts PciDevTable_6_facts
      PciDevTable_7_facts PciDevTable_8_facts PciDevTable_9_facts
      PciDevTable_10_facts)

end
