(* ===== verification/PciDevices2.thy ===== *)
theory PciDevices2
  imports PciVendors
begin

text \<open>
  src/src/sys/drv/pci/identifiers.h: rows 1501 to 3000 of the device table \<open>PciDevTable\<close>, in
  parts of 150 rows. Of each part: its length, how many of its rows a compiler rejects, how
  many have a number that does not fit its member, and that all of its vendors are listed.
\<close>

definition PciDevTable_11 :: "initializer list" where
 "PciDevTable_11 = [
  Init [Const 0x1519, Const 0x0020] [''0123456789'', ''HSIC Device''],
  Init [Const 0x1519, Const 0x2004] [''0x1'', ''PCI Interface bus''],
  Init [Const 0x151B, Const 0x9080] [''me594v02100 combox'', ''combox cb 300a''],
  Init [Const 0x151D, Const 0x9876] [''?'', ''?''],
  Init [Const 0x151F, Const 0x0001] [''TOPIC FM-56PCI-TP'', ''TOPIC FM-56PCI-TP''],
  Init [Const 0x151F, Const 0x0568] [''1.0.1.8'', ''56k Internal Data Fax Voice Modem''],
  Init [Const 0x1435, Const 0x0531] [''DELETE'', ''DELETE''],
  Init [Const 0x1435, Const 0x6020] [''SPM6020'', ''PCI-104 dspModule''],
  Init [Const 0x1435, Const 0x6030] [''SPM6030'', ''PC/104-Plus dspModule''],
  Init [Const 0x1435, Const 0x6420] [''SPM186420'', ''PC/104-Plus dspModule''],
  Init [Const 0x1435, Const 0x6430] [''SPM176430'', ''PC/104-Plus dspModule''],
  Init [Const 0x1435, Const 0x7520] [''DM7520'', ''PC/104-Plus dataModule''],
  Init [Const 0x1435, Const 0x7540] [''SDM7540'', ''PC/104-Plus dataModule with SmartCal''],
  Init [Const 0x1523, Const 0x8] [''MU9C8K64'', ''Content Addressable Memory''],
  Init [Const 0x1524, Malformed ''0x 0751''] [''08011558'', ''pci''],
  Init [Const 0x1524, Const 0x0100] [''ACPI'' @ [CHR 0x5C] @ ''ENE0100'', ''ENE CIR Receiver''],
  Init [Const 0x1524, Const 0x0510] [''1.4.5.0'', ''PCI Memory Card Reader Controller''],
  Init [Const 0x1524, Const 0x0530] [''CB-712/714/810'', ''Memory Stick Card Reader''],
  Init [Const 0x1524, Const 0x0550] [''CB-712/714/810'', ''Secure Digital Card Reader''],
  Init [Const 0x1524, Const 0x0551] [''10C11734'', ''ven1524&dev_0551&SUBSYS_009F1025&REV_01''],
  Init [Const 0x1524, Const 0x0555] [''10c11734'', ''ven1524&dev_0551&SUBSYS_009F1025&REV_01''],
  Init [Const 0x1524, Const 0x0610] [''???'', ''PCI Smart Card Reader Controller''],
  Init [Const 0x1524, Const 0x0730] [''0x0751'', ''CardBus Controller''],
  Init [Const 0x1524, Const 0x100] [''ACPI/ENE0100'', ''ENE CIR Receiver''],
  Init [Const 0x1524, Const 0x1025] [''1025123'', ''PCI'' @ [CHR 0x5C] @ ''VEN_127a&DEV_1025&SUBSYS_1025123A&REV_01'' @ [CHR 0x5C] @ ''4&1351887D&0&58F0''],
  Init [Const 0x1524, Const 0x1211] [''CB-1211'', ''CardBus Controller''],
  Init [Const 0x1524, Const 0x1225] [''CB-1225'', ''CardBus Controller''],
  Init [Const 0x1524, Const 0x1410] [''CB-1420'', ''CardBus Controller''],
  Init [Const 0x1524, Const 0x1411] [''CB-710/2/4/810'', ''pci device''],
  Init [Const 0x1524, Const 0x1412] [''CB-712/714/810'', ''Cardbus Controller''],
  Init [Const 0x1524, Const 0x1420] [''CB-1420'', ''CardBus Controller''],
  Init [Const 0x1524, Const 0x1421] [''CB-720/2/4'', ''CardBus Controller''],
  Init [Const 0x1524, Const 0x1422] [''CB-722/4'', ''CardBus Controller''],
  Init [Const 0x1524, Const 0x510] [''1.4.5.0'', ''PCI Memory Card Reader Controller''],
  Init [Const 0x1524, Const 0x551] [''10C11734'', ''ven1524&dev_0551&SUBSYS_009F1025&REV_01''],
  Init [Const 0x1524, Const 0x9876] [''1941'', ''1941''],
  Init [Const 0x1524, Const 0xFC10] [''card bus'', ''pci device''],
  Init [Const 0x152D, Const 0x2329] [''2338'', ''J micron JM20329''],
  Init [Const 0x152E, Const 0x2507] [''0'', ''0''],
  Init [Const 0x1538, Const 0x0301] [''ARS106S'', ''Tekram DC200 PATA100 RAID Controller''],
  Init [Const 0x1538, Const 0x0303] [''ARS0304S'', ''ARS0304S PATA133 RAID5''],
  Init [Const 0x153B, Const 0x1115] [''ICE1712 Envy24'', ''IC Ensemble Inc ICE1712 Envy24 Multichannel Audio Controller''],
  Init [Const 0x153B, Const 0x1143] [''SAA7134HL'', ''Philips Semiconductors SAA7134HL Multimedia Capture Device''],
  Init [Const 0x153B, Const 0x6003] [''CS4614/22/24'', ''CrystalClear SoundFusion PCI Audio Accel''],
  Init [Const 0x153F, Const 0xDEAD] [''xx12345'', ''Not a chip ...''],
  Init [Const 0x1540, Const 0x9524] [''saa7130'', ''PAL/SECAM TV card w/ FM1216ME MK3 tuner (+FM radio)''],
  Init [Const 0x1693, Const 0x0212] [''PLX PCI9054'', ''EPONINE ESR-PCI Board''],
  Init [Const 0x1693, Const 0x0213] [''Motorola MPC8245'', ''EPONINE MTM120 PCI Board''],
  Init [Const 0x170B, Const 0x0100] [''NSP2000-SSL'', ''Crypto Aceletator''],
  Init [Const 0x1743, Const 0x8139] [''ROL/F-100'', ''Fast Ethernet Adapter with ROL''],
  Init [Const 0x1522, Const 0x0100] [''PBridge+'', ''PCI Interface Chip''],
  Init [Const 0x1543, Const 0x1052] [''30201543'', ''Modem Intel 537EP (Chipset KAIOMY)''],
  Init [Const 0x1543, Const 0x3052] [''30201543'', ''Modem Intel 537EP (Chipset KAIOMY)''],
  Init [Const 0x1543, Const 0x3155] [''InfineonTPMProfessional'', ''ModemDeviceonHighDefinitionAudioBus''],
  Init [Const 0x1555, Const 0x0002] [''PLX PCI 9050'', ''Easylon PCI Bus Interface''],
  Init [Const 0x1549, Const 0x80FF] [''PCI-ISA-001'', ''PCI/ISA Bus Bridge''],
  Init [Const 0x154A, Const 0x9016] [''AF9016'', ''USB DVB-T Device AF9015''],
  Init [Const 0x154A, Const 0x9876] [''AF9015'', ''USB DVB-T Device  CE950081''],
  Init [Const 0x154B, Const 0x3038] [''VT6212L'', ''USB''],
  Init [Const 0x1556, Const 0x5555] [''001'', ''an cpci application''],
  Init [Const 0x1558, Const 0x1558] [[], ''gtx 670mx GPU''],
  Init [Const 0x155E, Const 0x0020] [''MFC3'', ''Multi Function Card Version 3''],
  Init [Const 0x1562, Const 0x0001] [''LA-41x3'', ''Spectrum24 Wireless LAN PCI Card''],
  Init [Const 0x1562, Const 0x0002] [''LA-5030'', ''Symbol Wireless Networker 802.11a/g CardBus''],
  Init [Const 0x1562, Const 0x0003] [''LA-5033'', ''Symbol Wireless Networker 802.11a/g PCI''],
  Init [Const 0x156A, Const 0x5000] [''NA'', ''Wideband Advanced Signal Processor''],
  Init [Const 0x156A, Const 0x5100] [''NA'', ''High Data Rate Radio''],
  Init [Const 0x16CA, Const 0x0001] [''Rocket Drive'', ''Solid State Disk''],
  Init [Const 0x1571, Const 0xA001] [''TFF'', ''GHB''],
  Init [Const 0x1571, Const 0xA002] [''CCSI PCI20-485D'', ''ARCnet''],
  Init [Const 0x1571, Const 0xA003] [''CCSI PCI20-485X'', ''ARCnet''],
  Init [Const 0x1571, Const 0xA004] [''CCSI PCI20-CXB'', ''ARCnet''],
  Init [Const 0x1571, Const 0xA005] [''CCSI PCI20-CXS'', ''ARCnet''],
  Init [Const 0x1571, Const 0xA006] [''CCSI PCI20-FOG-SMA'', ''ARCnet''],
  Init [Const 0x1571, Const 0xA007] [''CCSI PCI20-FOG-ST'', ''ARCnet''],
  Init [Const 0x1571, Const 0xA008] [''CCSI PCI20-TB5'', ''ARCnet''],
  Init [Const 0x1571, Const 0xA009] [''CCSI PCI20-5-485'', ''5 Mbit ARCnet''],
  Init [Const 0x1571, Const 0xA00A] [''CCSI PCI20-5-485D'', ''5 Mbit ARCnet''],
  Init [Const 0x1571, Const 0xA00B] [''CCSI PCI20-5-485X'', ''5 Mbit ARCnet''],
  Init [Const 0x1571, Const 0xA00C] [''CCSI PIC20-5-FOG-ST'', ''5 Mbit ARCnet''],
  Init [Const 0x1571, Const 0xA00D] [''CCSI PCI20-5-FOG-SMA'', ''5 Mbit ARCnet''],
  Init [Const 0x1571, Const 0xA00E] [''COM200C22'', ''ARCNET''],
  Init [Const 0x1571, Const 0xA201] [''CCSI PCI22-485'', ''10 Mbit ARCnet''],
  Init [Const 0x1571, Const 0xA202] [''CCSI PCI22-485D'', ''10 Mbit ARCnet''],
  Init [Const 0x1571, Const 0xA203] [''CCSI PCI22-485X'', ''10 Mbit ARCnet''],
  Init [Const 0x1571, Const 0xA204] [''CCSI PCI22-CHB'', ''10 Mbit ARCnet''],
  Init [Const 0x1571, Const 0xA205] [''CCSI PCI22-FOG-ST'', ''10 Mbit ARCnet''],
  Init [Const 0x1571, Const 0xA206] [''CCSI PCI22-THB'', ''10 Mbit ARCnet''],
  Init [Const 0x173B, Const 0x03E8] [''AC1000'', ''Gigabit Ethernet Adapter''],
  Init [Const 0x173B, Const 0x03EA] [''AC1002'', ''Gigabit Ethernet Adapter''],
  Init [Const 0x1584, Const 0x5054] [''VAS5055'', ''VAS Vetronix Automotive Service''],
  Init [Const 0x1584, Const 4003] [''VAS5052'', ''VAS Vetronix Automotive Service''],
  Init [Const 0x1586, Const 0x0803] [[], []],
  Init [Const 0x1588, Const 0x1100] [''PAX.port 1100'', ''PAX.ware 1100 dual Gb classifier engine''],
  Init [Const 0x1588, Const 0x2000] [''AMD '' @ [CHR 0x27] @ ''971'', ''SNP 8023 packet classifier - AMD component''],
  Init [Const 0x1588, Const 0x8023] [''SNP8023'', ''PAX.ware 100 packet classifier''],
  Init [Const 0x158B, Const 0x0005] [''HLF-VMPEU560-C'', ''Standar HSP Modem''],
  Init [Const 0x158B, Const 0x0015] [''HLF-VMPEU560-C'', ''Standar HSP Modem Series''],
  Init [Const 0x17AA, Const 0x7145] [''138A'', ''Mobility ATI Radeon X1400''],
  Init [Const 0x15A2, Const 0x0001] [''TA700'', ''PCI Bus Analyzer/Exerciser''],
  Init [Const 0x17AF, Const 0x4150] [''200'', ''HIS Excalibur Radeon 9600''],
  Init [Const 0x17AF, Const 0x7291] [''RV560'', ''HIS  Radeon X1650 XT''],
  Init [Const 0x15B0, Const 0x0001] [''FM-3986'', ''Pctel''],
  Init [Const 0x15B0, Const 0x0003] [''FM-3986'', ''Pctel''],
  Init [Const 0x15B0, Const 0x2BD0] [''2BD0'', ''soft56k voice,data,fax CARP''],
  Init [Const 0x15B3, Const 0x5274] [''MT21108'', ''InfiniBridge''],
  Init [Const 0x15B3, Const 0x5A44] [''MT23108'', ''InfiniHost I''],
  Init [Const 0x15B3, Const 0x6274] [''MT25204'', ''InfiniHost III Lx''],
  Init [Const 0x15B3, Const 0x6278] [''MT25208A0-FCC'', ''InfiniHost TM III Ex''],
  Init [Const 0x15B3, Const 0x6282] [''MT25218'', ''MT25218 [InfiniHost III Ex]''],
  Init [Const 0x15B3, Const 0x634A] [''MT2518'', ''Mellanox ConnectX VPI (MT2548) - PCIe 2.0 2.5GT/s, IB DDR /10GigE Network Adaptor''],
  Init [Const 0x15B3, Const 0x6732] [''MT26418'', ''ConnectX VPI (MT26418) - PCIe 2.0 5GT/s, IB DDR / 10GigE''],
  Init [Const 0x15B8, Const 0x3009] [''xPCI-3504'', ''Analog output board''],
  Init [Const 0x15BC, Const 0x0101] [''n2530a'', ''DX2+ FC-AL Adapter''],
  Init [Const 0x15BC, Const 0x0103] [''QX4'', ''4 Port Fibre Channel Controller''],
  Init [Const 0x15BC, Const 0x0B01] [''SUBSYS_000015BC&REV_00'', ''Agilen PCI-GPIB''],
  Init [Const 0x15BC, Const 0x1200] [''n/a'', ''Agilent QX4 Fibre Channel Controller''],
  Init [Const 0x15BC, Const 0x2530] [''???'', ''HP Communications Port''],
  Init [Const 0x15BC, Const 0x2531] [''???'', ''HP Toptools Remote Control Adapter''],
  Init [Const 0x15BC, Const 0x2532] [''???'', ''HP Toptools Remote Control Adapter''],
  Init [Const 0x15BC, Const 0x2929] [''E2929A'', ''PCI/PCI-X Bus Analyzer''],
  Init [Const 0x15C2, Const 0x0038] [''2.4G'', ''part of the iMon-IR-RC-Display-Kit''],
  Init [Const 0x1394, Const 0x0001] [''0x1394'', ''Gigabit Ethernet Adapter''],
  Init [Const 0x15D1, Const 0x0001] [''TC11IB'', ''TriCore 32-bit Single-chip Microctrlr''],
  Init [Const 0x15D1, Const 0x0003] [''PEB 20544 E v1.1'', ''6 Port Optimized Comm Ctrlr (SPOCC)''],
  Init [Const 0x15D1, Const 0x0004] [''PNPA000'', ''Infineon Technologies AG''],
  Init [Const 0x15D1, Const 0x000B] [''SLB9635'', ''TPM''],
  Init [Const 0x15D7, Malformed ''RS56''] [''hcf cx11252-41z'', ''hcf 56''],
  Init [Const 0x15D8, Const 0x9001] [[], []],
  Init [Const 0x15D9, Const 0x9876] [''1234'', ''4567''],
  Init [Const 0x15DD, Const 0x7664] [''vgn-ar51j'', ''idt high audio''],
  Init [Const 0x15DD, Const 0x7680] [''2772'', ''SIGMATEL STAC 92XX C-Major HD Audio''],
  Init [Const 0x15DD, Const 0x769] [''7690'', ''9200 HD '' @ [CHR 0xD0, CHR 0x90, CHR 0xD1, CHR 0x83, CHR 0xD0, CHR 0xB4, CHR 0xD0, CHR 0xB8, CHR 0xD0, CHR 0xBE] @ '' '' @ [CHR 0xD0, CHR 0x9A, CHR 0xD0, CHR 0x9E, CHR 0xD0, CHR 0x94, CHR 0xD0, CHR 0x95, CHR 0xD0, CHR 0x9A]],
  Init [Const 0x15DD, Const 0x7690] [''10F70000'', ''You'' @ [CHR 0x27] @ ''ll Love me 4 this/ visit http://wendhelofopportunity.info Support Me!''],
  Init [Const 0x15DD, Const 0x8384] [''HDAUDIO'' @ [CHR 0x5C] @ ''FUNC_01&VEN_8384&DEV_7616&SUBSYS_1028020A&'', ''Intel Audio Studio''],
  Init [Const 0x15DD, Const 0x9876] [''1'', ''1''],
  Init [Const 0x15E0, Const 0x7134] [''01385168'', ''01''],
  Init [Const 0x15E2, Const 0x0500] [[], ''Internet PhoneJack PCI Card''],
  Init [Const 0xEACE, Const 0x24C5] [''1'', ''VIA Vynil v700b''],
  Init [Const 0xEACE, Const 0x3100] [''DAG 3.10'', ''OC-3/OC-12''],
  Init [Const 0xEACE, Const 0x3200] [''DAG 3.2x'', ''OC-3/OC-12''],
  Init [Const 0xEACE, Const 0x320E] [''DAG 3.2E'', ''Fast Ethernet''],
  Init [Const 0xEACE, Const 0x340E] [''DAG 3.4E'', ''Fast Ethernet''],
  Init [Const 0xEACE, Const 0x341E] [''DAG 3.41E'', ''Fast Ethernet''],
  Init [Const 0xEACE, Const 0x3500] [''DAG 3.5'', ''OC-3/OC-12''],
  Init [Const 0xEACE, Const 0x351C] [''DAG 3.5ECM'', ''Fast Ethernet''],
  Init [Const 0xEACE, Const 0x4100] [''DAG 4.10'', ''OC-48''],
  Init [Const 0xEACE, Const 0x4110] [''DAG 4.11'', ''OC-48''],
  Init [Const 0xEACE, Const 0x4200] [''DAG 4.2'', ''OC-48''],
  Init [Const 0xEACE, Const 0x420E] [''DAG 4.2E'', ''Dual Gigabit Ethernet'']]"

lemma PciDevTable_11_facts:
  "length PciDevTable_11 = 150" "rejected PciDevTable_11 = 2" "oversized PciDevTable_11 = 0"
  "vendors PciDevTable_11 \<subseteq> Const ` set vendor_numbers"
  unfolding PciDevTable_11_def count_rows by (simp_all add: part_simps listed vendor_known_list cong: part_cong count_rows_cong)

definition PciDevTable_12 :: "initializer list" where
 "PciDevTable_12 = [
  Init [Const 0xEACE, Const 0x430E] [''DAG 4.3E'', ''Dual Gigabit Ethernet''],
  Init [Const 0x15E6, Const 0x00000002] [''1646t00'', ''v.90 Lucent Modem''],
  Init [Const 0x15E7, Const 0x755] [''QUAD-P'', ''NTDS Parallel Adapter''],
  Init [Const 0x15E8, Const 0x0130] [''NCP130'', ''Wireless NIC''],
  Init [Const 0x15E8, Const 0x0131] [''Prism II'', ''InstantWave HR PCI card''],
  Init [Const 0x15E9, Const 0x1841] [''NetStaQ ADMA-100'', ''ATA controller''],
  Init [Const 0x15EF, Const 0x0028] [''8280BDM SoundMAX Controller (ICH7-M B0 Setup)'', ''SigmaTelHigh Definition Audio CODEC''],
  Init [Const 0x15EF, Const 0x24C5] [''8280BDM SoundMAX Controller (ICH4-M B0 Setup)'', ''VIA-Vynil v700b''],
  Init [Const 0x15EF, Const 0x7616] [''102801F7'', ''SigmaTelHigh Definition Audio CODEC''],
  Init [Const 0x15F1, Const 0x2F30] [''CX11252-15'', ''Conexant HSFi''],
  Init [Const 0x15F2, Const 0x0001] [''Spot RT'', ''Spot RT Interface Board''],
  Init [Const 0x15F2, Const 0x0002] [''Spot RT #2'', ''Spot RT Interface Board''],
  Init [Const 0x15F2, Const 0x0003] [''Spot Insight'', ''Spot Insight Interface Board''],
  Init [Const 0x160A, Const 0x3184] [''6656'', ''Via VT6656 Wireless Lan Adapter''],
  Init [Const 0x1616, Const 0x0409] [''DaqBoard/2000'', ''16-Bit, 200-kHz PCI Data Acquisition DaqBoards with DBK Signal Conditioning Support ''],
  Init [Const 0x1619, Const 0x0400] [''FarSync T2P'', ''Two Port Intelligent Sync Comms Card''],
  Init [Const 0x1619, Const 0x0440] [''FarSync T4P'', ''Four Port Intelligent Sync Comms Card''],
  Init [Const 0x1619, Const 0x0610] [''FarSync T1U'', ''One Port Intelligent Sync Comms Card''],
  Init [Const 0x1619, Const 0x0620] [''FarSync T2U'', ''Two Port Intelligent Sync Comms Card''],
  Init [Const 0x1619, Const 0x0640] [''FarSync T4U'', ''Four Port Intelligent Sync Comms Card''],
  Init [Const 0x1619, Const 0x1610] [''FarSync TE1'', ''One Port Intelligent Sync Comms Card''],
  Init [Const 0x1619, Const 0x1612] [''FarSync TE1e (PCI Express)'', ''One Port Intelligent Sync Comms Card''],
  Init [Const 0x1619, Const 0x2610] [''FarSync DSL-S1'', ''G.SHDSL Intelligent Sync Comms Card''],
  Init [Const 0x1619, Const 0x3640] [''FarSync T4E'', ''Four Port Intelligent Sync Comms Card''],
  Init [Const 0x1619, Const 0x4620] [''FarSync T2Ue (PCI Express)'', ''Two Port Intelligent Sync Comms Card''],
  Init [Const 0x1619, Const 0x4640] [''FarSync T4Ue (PCI Express)'', ''Four Port Intelligent Sync Comms Card''],
  Init [Const 0x1619, Const 0x5621] [''FarSync T2Ee (PCI Express)'', ''Two Port Intelligent Sync Comms Card''],
  Init [Const 0x1619, Const 0x5641] [''FarSync T4Ee (PCI Express)'', ''Four Port Intelligent Sync Comms Card''],
  Init [Const 0x1619, Const 0x6620] [''FarSync-T2U-PMC'', ''Two Port Intelligent Sync Comms Card''],
  Init [Const 0x1621, Const 0x0020] [''LynxTWO-A'', ''4 in/4 out Professional Digital Audio Card''],
  Init [Const 0x1621, Const 0x0021] [''LynxTWO-B'', ''2 in/6 out Professional Digital Audio Card''],
  Init [Const 0x1621, Const 0x0022] [''LynxTWO-C'', ''6 in/2 out Professional Digital Audio Card''],
  Init [Const 0x1621, Const 0x0023] [''Lynx L22'', ''2 in/2 out Professional Digital Audio Card''],
  Init [Const 0x1621, Const 0x0024] [''Lynx AES16'', ''16 in/16 out AES/EBU Audio Card''],
  Init [Const 0x1621, Const 0x0025] [''Lynx AES16-SRC'', ''16 in/16 out AES/EBU Audio Card w/SRC''],
  Init [Const 0x1629, Const 0x1003] [[], ''Format Synchronizer v3.0''],
  Init [Const 0x1629, Const 0x2002] [[], ''Fast Universal Data Output''],
  Init [Const 0x162D, Const 0x0100] [''driver'', ''Repeographics controller''],
  Init [Const 0x162D, Const 0x0101] [[], ''Reprographics Controller''],
  Init [Const 0x162D, Const 0x0102] [[], ''Reprographics Controller''],
  Init [Const 0x162D, Const 0x0103] [[], ''Reprographics Controller''],
  Init [Const 0x162F, Const 0x1111] [''TS-PRL1'', ''General Purpose Relay Card''],
  Init [Const 0x162F, Const 0x1112] [''TS-PMA'', ''Matrix Card''],
  Init [Const 0x1638, Const 0x1100] [''WL11000P'', '' WL11000P''],
  Init [Const 0x163B, Const 0x2416] [''Techwell - TW2804  Model - JSA-2416Drivers on this'', ''DVR Video Capture Card 16CH''],
  Init [Const 0x163C, Const 0x3052] [''R6793-11'', ''RS56/HSP-PCI''],
  Init [Const 0x163C, Const 0xFF02] [''82801 GB'', ''PCI Bridge - 244E''],
  Init [Const 0x1734, Const 0x007A] [''Rage XL'', ''ATI Rage XL (rev 27)''],
  Init [Const 0x1734, Const 0x1011] [''AIC-7902W'', ''Adaptec AIC-7902 Dual Channel U320 SCSI''],
  Init [Const 0x1734, Const 0x1012] [''CSB6'', ''Serverworks Southbridge with RAID/IDE (rev a0), OHCI USB (rev 05), GCLE-2 Host Bridge''],
  Init [Const 0x1734, Const 0x1013] [''BCM5703'', ''Broadcom Corp. NetXtreme Gigabyte Ethernet''],
  Init [Const 0x1734, Const 0x10B9] [''0x00541000'', ''SAS 3000 series, 8-port with 1068 -StorPort''],
  Init [Const 0x164F, Const 0x0001] [''PLX 9054'', ''PCI interface chip''],
  Init [Const 0x164F, Const 0x0002] [''PLX 9054'', ''PCI interaface chip''],
  Init [Const 0x1813, Const 0x3059] [''VT8237'', ''AC97 Enhanced Audio Controller - the 8251 controller is different''],
  Init [Const 0x1813, Const 0x4000] [''MD5628D-L-A'', ''intel V.92 HaM Modem''],
  Init [Const 0x1813, Const 0x4100] [''Ambient MD8820'', ''Intel HaM V.92 Modem''],
  Init [Const 0x17D5, Const 0x5831] [''X1'', ''Xframe 10GbE PCI-X Adapter''],
  Init [Const 0x17D5, Const 0x5832] [''X2'', ''Xframe II 10GbE PCI-X 2.0 Adapter''],
  Init [Const 0x17D5, Const 0x5833] [''X3'', ''E3100 PCI-Express 10Gb Ethernet Interface''],
  Init [Const 0xFA57, Const 0x0001] [''PMC'', ''Pattern Matching Chip''],
  Init [Const 0x18CA, Const 0x0020] [''Volari Z9s'', ''Volari Z series (Select GPU Graphic Drivers''],
  Init [Const 0x18CA, Const 0x0040] [''Silicon Intgrated System'', ''Volari Family Z Series''],
  Init [Const 0x18C9, Const 0x1011] [''Leonardo CL'', ''Video processor''],
  Init [Const 0x18C9, Const 0x1012] [''Leonardo CL-P'', ''Video processor''],
  Init [Const 0x18C9, Const 0x1013] [''Leonardo CL-DB'', ''Video processor''],
  Init [Const 0x18C9, Const 0x1014] [''Leonardo CL-P-DB'', ''Video processor''],
  Init [Const 0x18C9, Const 0x1015] [''Leonardo CL-DVR'', ''Video processor''],
  Init [Const 0x18C9, Const 0x1016] [''Leonardo CL-DVR-DB'', ''Video processor''],
  Init [Const 0x18C9, Const 0x2011] [''Picasso 2SQ'', ''Framegrabber''],
  Init [Const 0x18C9, Const 0x2012] [''Picasso 3C/3Cpro'', ''Framegrabber''],
  Init [Const 0x18C9, Const 0x2013] [''Picasso LS'', ''Framegrabber''],
  Init [Const 0x18C9, Const 0x2014] [''Picasso CL'', ''Framegrabber''],
  Init [Const 0x18C9, Const 0x2015] [''Picasso FI'', ''Framegrabber''],
  Init [Const 0x18C9, Const 0x2016] [''Picasso SDI'', ''Framegrabber''],
  Init [Const 0x18C9, Const 0x2017] [''Picasso DUO'', ''Framegrabber''],
  Init [Const 0x18C9, Const 0x2021] [''Colory'', ''Framegrabber''],
  Init [Const 0x18C9, Const 0x3011] [''Valentino'', ''Video Output Board''],
  Init [Const 0x1910, Const 0x0001] [''SW5000-NCA'', ''Seaway Network Content Accelerator''],
  Init [Const 0x1360, Const 0x0101] [''PCI32'', ''DCF77 Radio Clock''],
  Init [Const 0x1360, Const 0x0102] [''PCI509'', ''DCF77 Radio Clock''],
  Init [Const 0x1360, Const 0x0103] [''PCI510'', ''DCF77 Radio Clock''],
  Init [Const 0x1360, Const 0x0104] [''PCI511'', ''DCF77 Radio Clock''],
  Init [Const 0x1360, Const 0x0105] [''PEX511'', ''DCF77 Receiver''],
  Init [Const 0x1360, Const 0x0106] [''PZF180PEX'', ''High Precision DCF77 Radio Clock''],
  Init [Const 0x1360, Const 0x0201] [''GPS167PCI'', ''GPS Receiver''],
  Init [Const 0x1360, Const 0x0202] [''GPS168PCI'', ''GPS Receiver''],
  Init [Const 0x1360, Const 0x0203] [''GPS169PCI'', ''GPS Receiver''],
  Init [Const 0x1360, Const 0x0204] [''GPS170PCI'', ''GPS Receiver''],
  Init [Const 0x1360, Const 0x0205] [''GPS170PEX'', ''GPS Receiver''],
  Init [Const 0x1360, Const 0x0206] [''GPS180PEX'', ''GPS receiver''],
  Init [Const 0x1360, Const 0x0301] [''TCR510PCI'', ''IRIG Timecode Reader''],
  Init [Const 0x1360, Const 0x0302] [''TCR167PCI'', ''IRIG Timecode Reader''],
  Init [Const 0x1360, Const 0x0303] [''TCR511PCI'', ''IRIG Timecode Reader''],
  Init [Const 0x1360, Const 0x0304] [''TCR511PEX'', ''IRIG Timecode Receiver''],
  Init [Const 0x1360, Const 0x0305] [''TCR170PEX'', ''IRIG Timecode Reader''],
  Init [Const 0x1360, Const 0x0306] [''TCR180PEX'', ''IRIG Timecode Reader''],
  Init [Const 0x1360, Const 0x0501] [''PTP270PEX'', ''PTP/IEEE1588 Slave Card''],
  Init [Const 0x1360, Const 0x0601] [''FRC511PEX'', ''Free Running Clock''],
  Init [Const 0x1725, Const 0x7174] [''VSC7174'', ''VSC7174 PCI/PCI-X SATA Controller''],
  Init [Const 0x1753, Const 0x1001] [''VP500'', ''VolumePro 500''],
  Init [Const 0x1753, Const 0x1004] [''VP1000'', ''VolumePro 1000''],
  Init [Const 0x17CC, Const 0x1978] [''net 2280'', ''usb 2.0 device controller''],
  Init [Const 0x17CC, Const 0x2280] [''Net 2280'', ''USB 2.0 Device Controller''],
  Init [Const 0x14EA, Const 0xAB06] [''XFNW-3603-T'', ''10/100 Fast Ethernet CardBus (RTL8139)''],
  Init [Const 0x12B9, Const 0x00C2] [''00000005'', ''pci simple communication controller''],
  Init [Const 0x12B9, Const 0x1006] [''5610'', ''5610 56K FaxModem WinModem''],
  Init [Const 0x12B9, Const 0x1007] [''AD1807JS'', ''US Robotics 56K DATA FAX WINMODEM''],
  Init [Const 0x12B9, Const 0x1008] [''USR5610B'', ''USR5610B (0005610-02) 56K Performance Pro Modem (PCI Internal)''],
  Init [Const 0x12B9, Const 0x12B9] [''00000005'', ''psi simple communication controller''],
  Init [Const 0x12B9, Const 0x3F0] [''3CP2977'', ''US Robotics 56K Fax PCI aka Model 0726, V.90 56K Internal Faxmodem''],
  Init [Const 0x1814, Const 0x0001] [''...B742000'', ''...I don'' @ [CHR 0x27] @ ''t know''],
  Init [Const 0x1814, Const 0x0101] [''2460  802.11b'', ''RT2460  802.11b Baseband/MAC integrated chip''],
  Init [Const 0x1814, Const 0x0201] [''PCI'' @ [CHR 0x5C] @ ''VEN_1814&DEV_5390&SUBSYS_1451033'', ''Ralink Chipset 802.11b/g WLAN Card''],
  Init [Const 0x1814, Malformed ''0x0201 (1)''] [''WiFiSKY'', ''Ralink RT2500 802.11b/g WLAN Card''],
  Init [Const 0x1814, Malformed ''0x0201 (2)''] [''001167F044E5'', ''W-LAN 802.11b/g''],
  Init [Const 0x1814, Malformed ''0x0201 (3)''] [''RT2560F'', ''RaLink''],
  Init [Const 0x1814, Malformed ''0x0201(3)''] [''WMP54G'', ''Wireless-G PCI adapter''],
  Init [Const 0x1814, Const 0x0301] [''RT2561'', ''Ralink RT2561 Wireless-G PCI''],
  Init [Const 0x1814, Malformed ''0x0301 (2)''] [''RT2561'', ''Ralink RT2561 Wireless-G PCI''],
  Init [Const 0x1814, Const 0x0302] [''RT2525 2.4GHz transceiver + RT2560 MAC/BBP'', ''wireless p/n same Chipset in D-Link DWL-G510''],
  Init [Const 0x1814, Const 0x0401] [''RT 2661'', ''Ralink MIMO RT 2661 Wireless 54 Mbps''],
  Init [Const 0x1814, Const 0x0601] [''RT2860T'', ''b/g/n  Wlan''],
  Init [Const 0x1814, Const 0x0701] [''RT2860T'', ''802.11 bgn''],
  Init [Const 0x1814, Const 0x0781] [''RT2790T/RT2860/RT2890/RT2700E'', ''Wireless 802.11 bgn PCI-e''],
  Init [Const 0x1814, Const 0x1418] [''0x14FI'', ''802.11b/g Wireless LAN''],
  Init [Const 0x1814, Const 0x14F1] [''0x1814'', ''PCI'' @ [CHR 0x5C] @ ''VEN_168C&DEV_001A&SUBSYS_04181468&REV_01'' @ [CHR 0x5C] @ ''4&FCF0450&0&10A4''],
  Init [Const 0x1814, Const 0x201] [''25601814&REV_01'', ''Ralink RT2500 Wireless Lan Card''],
  Init [Const 0x1814, Const 0x3060] [''RT3060'', ''Ralink corp. RT3060 Wireless 802.11n PCI adapter''],
  Init [Const 0x1814, Const 0x3090] [''Ralink RT3090'', ''Ralink RT3090 Wireless Lan Card with Bluetooth''],
  Init [Const 0x1814, Const 0x3290] [''1010'', ''802.11n   Bluetooth 4.0''],
  Init [Const 0x1814, Const 0x3298] [''-3298'', ''Ralink Bluetooth''],
  Init [Const 0x1814, Const 0x3592] [''RT3592'', ''Wireless LAN a/b/g/n plus Bluetooth 3.0 combo''],
  Init [Const 0x1814, Const 0x5360] [''RT5360 '', ''http://www.wikidevi.com/wiki/D-Link_DWA-525_rev_A2''],
  Init [Const 0x1814, Const 0x5390] [''RT5390'', ''Ralink RT5390 802.11b/g/n WiFi''],
  Init [Const 0x1814, Const 0x539B] [''RT5390R'', ''Ralink RT5390R 802.11b/g/n WiFi''],
  Init [Const 0x1814, Const 0x9876] [''b8341462'', ''Edimax 54 MBit WLan 802.11g rt 2500''],
  Init [Const 0x1103, Const 0x0003] [''HPT 343/345/363'', ''EIDE Controller''],
  Init [Const 0x1103, Const 0x0004] [''HPT366/368/370/370A/372'', ''ATA Raid Controller/ATA 100''],
  Init [Const 0x1103, Const 0x0005] [''HPT372/372N'', ''PATA133 Raid Controller''],
  Init [Const 0x1103, Const 0x0006] [''HPT302'', ''ATA Raid Controller''],
  Init [Const 0x1103, Const 0x0007] [''HPT371'', ''ATA133 Controller''],
  Init [Const 0x1103, Const 0x0008] [''HPT-374'', ''ATA Raid Controller''],
  Init [Const 0x1103, Const 0x1720] [''RR172x'', ''RR172x SATA Controller''],
  Init [Const 0x1103, Const 0x1740] [''RR174x'', ''RR174x SATA Controller''],
  Init [Const 0x1103, Const 0x1742] [''RR174x'', ''RR174x SATA Controller''],
  Init [Const 0x1103, Const 0x2210] [''RR2210'', ''RR2210 SATA Controller''],
  Init [Const 0x1103, Const 0x2300] [''RR2300'', ''RR2300 SATA Controller''],
  Init [Const 0x1103, Const 0x2310] [''RR231x'', ''RR231x SATA Controller''],
  Init [Const 0x1103, Const 0x2340] [''RR2340'', ''RR2340 SATA Controller'']]"

lemma PciDevTable_12_facts:
  "length PciDevTable_12 = 150" "rejected PciDevTable_12 = 5" "oversized PciDevTable_12 = 0"
  "vendors PciDevTable_12 \<subseteq> Const ` set vendor_numbers"
  unfolding PciDevTable_12_def count_rows by (simp_all add: part_simps listed vendor_known_list cong: part_cong count_rows_cong)

definition PciDevTable_13 :: "initializer list" where
 "PciDevTable_13 = [
  Init [Const 0x1103, Const 0x2522] [''RR252x'', ''RR252x SATA Controller''],
  Init [Const 0x1103, Const 0x3120] [''RR312x'', ''RR312x SATA Controller''],
  Init [Const 0x1103, Const 0x3220] [''RR322x'', ''RR322x SATA Controller''],
  Init [Const 0x1103, Const 0x3320] [''RR332x'', ''RR332x SATA Controller''],
  Init [Const 0x1103, Const 0x3410] [''RR341x'', ''RR341x SATA Controller''],
  Init [Const 0x1103, Const 0x3510] [''RR35xx'', ''RR35xx SATA Controller''],
  Init [Const 0x1103, Const 0x3511] [''RR35xx'', ''RR35xx SATA Controller''],
  Init [Const 0x1103, Const 0x3520] [''RR35xx'', ''RR35xx SATA Controller''],
  Init [Const 0x1103, Const 0x3521] [''RR35xx'', ''RR35xx SATA Controller''],
  Init [Const 0x1103, Const 0x3522] [''RR35xx'', ''RR35xx SATA Controller''],
  Init [Const 0x1103, Const 0x3530] [''RR3530'', ''RR3530 SATA RAID Controller''],
  Init [Const 0x1103, Const 0x3540] [''RR35xx'', ''RR35xx SATA Controller''],
  Init [Const 0x1103, Const 0x4320] [''RR432x'', ''RR432x SATA Controller''],
  Init [Const 0x1103, Const 0x5081] [''RR18xx'', ''RR18xx SATA Controller''],
  Init [Const 0x1103, Const 0x6081] [''RR222x/224x'', ''RR222x/224x SATA Controller''],
  Init [Const 0x1103, Const 0x7042] [''RR231x'', ''RR231x SATA Controller''],
  Init [Const 0x1681, Const 0x0050] [''HWGPCI-54'', ''Hercules WiFi PCI 802.11G''],
  Init [Const 0x18F7, Const 0x0001] [''ESCC-PCI-335'', ''Fastcom:ESCC-PCI-335 Syncronous RS422/485 serial communication adapter''],
  Init [Const 0x18F7, Const 0x0002] [''422/4-PCI-335'', ''Fastcom:422/4-PCI-335 Asyncronous RS422/485 serial adapter''],
  Init [Const 0x18F7, Const 0x0004] [''422/2-PCI-335'', ''Fastcom:422/2-PCI-335 Asyncronous RS422/485 serial adapter''],
  Init [Const 0x18F7, Const 0x000A] [''232/4-PCI-335'', ''Fastcom:232/4-PCI-335 Asyncronous RS232 serial adapter''],
  Init [Const 0x1737, Const 0x0071] [''RT2870'', ''Dual Band Wireless N USB Network Adapter''],
  Init [Const 0x1737, Const 0x1032] [''EG1032 v3'', ''Linksys Instant Gigabit Desktop Network Interface''],
  Init [Const 0x19AC, Const 0x0001] [''ACA2400'', ''Crypto Accelerator''],
  Init [Const 0x110A, Const 0x2101] [''PEB 20321'', ''Multichannel Network Interface Controller for HDLC''],
  Init [Const 0x110A, Const 0x2102] [''PEB 20534'', ''DMA supported serial communication controller with 4 channels''],
  Init [Const 0x110A, Const 0x2104] [''PSB4610'', ''PCI Interface for Telephony/Data Applications PITA-2''],
  Init [Const 0x110A, Const 0x3141] [''01'', ''PROFIBUS Communication Processor CP5611 A2''],
  Init [Const 0x110A, Const 0x4033] [''ERTEC400'', ''EB400 ProfiNet Device-Kit''],
  Init [Const 0x110A, Const 0x4036] [''XXX'', ''simens i/o control''],
  Init [Const 0x104B, Const 0x1040] [''BA81C15'', ''BT958 SCSI Host Adaptor''],
  Init [Const 0x104B, Const 0x8130] [''-'', ''Flashpoint LT''],
  Init [Const 0x1180, Const 0x0475] [''RL5c592'', ''Cardbus Controller''],
  Init [Const 0x1180, Const 0x0476] [''RL5c476 II'', ''RICOH SmartCard Reader''],
  Init [Const 0x1180, Const 0x0478] [''RB5c478'', ''Cardbus Controller''],
  Init [Const 0x1180, Const 0x0552] [''R5C552'', ''FireWire (IEEE 1394) Controller''],
  Init [Const 0x1180, Const 0x0575] [''44192'', ''I11fXI  <a href=''],
  Init [Const 0x1180, Const 0x059] [''1'', ''1''],
  Init [Const 0x1180, Const 0x0592] [''0843'', ''Ricoh R5C833 R5C8xx Memory Stick Controlle''],
  Init [Const 0x1180, Malformed ''0x05xx''] [''R5U8xx'', ''Ricoh R5U8xx Card Reader Driver - Win xp''],
  Init [Const 0x1180, Const 0x0822] [''R5C832'', ''SDA Standard Compliant SD Host Controller''],
  Init [Const 0x1180, Const 0x0832] [''ACPI'' @ [CHR 0x5C] @ ''ENE0100'' @ [CHR 0x5C] @ ''4&15458EF3&0'', ''ACPI'' @ [CHR 0x5C] @ ''ENE0100'' @ [CHR 0x5C] @ ''4&15458EF3&0''],
  Init [Const 0x1180, Const 0x0843] [''024D1028'', ''Ricoh SD Host Controller''],
  Init [Const 0x1180, Const 0x0847] [''delete'', ''delete''],
  Init [Const 0x1180, Const 0x0852] [''R5C852'', ''Ricoh xD-Picture Card Controller''],
  Init [Const 0x1180, Const 0x1108] [''30CF'', ''Ricoh Memory Stick Host Controlle''],
  Init [Const 0x1180, Const 0x2792] [''0x8086'', ''PCI'' @ [CHR 0x5C] @ ''VEN_8086&DEV_0083&SUBSYS_13058086&REV_00''],
  Init [Const 0x1180, Const 0x5551] [''Unknown'', ''IEEE 1394 Controller''],
  Init [Const 0x1180, Const 0x852] [''01cf1028 '', ''Ricoh xD-Picture Card Host Controller;0852h xd picture card controller''],
  Init [Const 0x1180, Const 0x9876] [''CC_088000'', ''Ricoh Memory Stick Host Controlle''],
  Init [Const 0x1180, Malformed ''0x98760x0843''] [''R5C853'', ''Ricoh SD/Host Controller''],
  Init [Const 0x1180, Const 0xE2030] [''0592'', ''Ricoh PCIe Memory Stick Host Controller''],
  Init [Const 0x1180, Const 0xE230] [''GM45 &#1053;&#1086;&#1084;&#1077;&#1088; &#1063;&#'', ''Ricoh PCIe Memory Stick &#1061;&#1086;&#1089;&#1090;-&#1050;&#1086;&#1085;&#1090;&#1088;&#1086;&#108''],
  Init [Const 0x1180, Const 0xE476] [''Ricoh R5C843'', ''Multipurpose chip, this e476 seems to be the CardBus controller part''],
  Init [Const 0x1180, Const 0xE822] [''R5U822'', ''Ricoh PCIe SD/MMC Host Controller''],
  Init [Const 0x1180, Const 0xE823] [''R5U822'', ''Ricoh PCIe SDXC/MMC Host Controller''],
  Init [Const 0x1180, Const 0xE832] [''R5U832'', ''Ricoh PCIe IEEE1394 Fireware Host Controller''],
  Init [Const 0x1180, Const 0xE852] [''Uknown'', ''Ricoh PCIe xD-Picture Card Controller''],
  Init [Const 0x14F1, Const 0x0F00] [''cx11252-11'', ''HSF Generic Modem''],
  Init [Const 0x14F1, Const 0x0F30] [''0x14F1'', ''0x14F1''],
  Init [Const 0x14F1, Const 0x1031] [''332'', ''dfd''],
  Init [Const 0x14F1, Const 0x1033] [''RH56D'', ''RH56D-PCI''],
  Init [Const 0x14F1, Const 0x1033A] [''RH56D'', ''RH56D-PCI''],
  Init [Const 0x14F1, Const 0x1035] [''R6795-11'', ''RH56D/SP-PCI, R6795-11, E416921/1, 0336 Mexico''],
  Init [Const 0x14F1, Const 0x1036] [''Conexant RH56D/SP-PCI'', ''unknown''],
  Init [Const 0x14F1, Const 0x1056] [''4-1b359d48-0-10f06'', ''Symphony modem DSL router6''],
  Init [Const 0x14F1, Const 0x1059] [''DI15630-5, DI5631, DI5633'', ''SmartHCF''],
  Init [Const 0x14F1, Const 0x10B4] [''Conextant HFC'', ''All Conextant HFC Modems (PCI)''],
  Init [Const 0x14F1, Const 0x10B6] [''unknown'', ''Conexant HCF PCI Soft modem''],
  Init [Const 0x14F1, Const 0x1416] [[], ''Contexant''],
  Init [Const 0x14F1, Const 0x1456] [''1456'', ''HCFp Modem''],
  Init [Const 0x14F1, Const 0x14F1] [''0x14F1'', ''0x14F1''],
  Init [Const 0x14F1, Const 0x1611] [''?'', ''AccessRunner ADSL Modem''],
  Init [Const 0x14F1, Const 0x1612] [''8'', ''8''],
  Init [Const 0x14F1, Const 0x2013] [''RS56-PCI'', ''in-Build CX11235 modem''],
  Init [Const 0x14F1, Const 0x2400] [''unknown'', ''unknown''],
  Init [Const 0x14F1, Const 0x2702] [''cx11252-11'', ''HSFi or Soft V92 PCI Modem''],
  Init [Const 0x14F1, Const 0x2710] [[], ''PCI modem card Conexant''],
  Init [Const 0x14F1, Const 0x2740] [''CC_0780'', ''Pci Simple Communtications Controller''],
  Init [Const 0x14F1, Const 0x2B10] [''0x14F1'', ''0x14F1''],
  Init [Const 0x14F1, Const 0x2BFA] [''0x0000ffff'', ''Conexant HDA D110 MDC v.92 Modem''],
  Init [Const 0x14F1, Const 0x2C06] [''136'', ''Conexant HD Audio SoftV92 Data Fax Modem with SmartCP''],
  Init [Const 0x14F1, Const 0x2F00] [''00101767'', ''HSF 56k HSFi Modem''],
  Init [Const 0x14F1, Const 0x2F01] [''0x0780'', ''missing driver for pci simple communications controller''],
  Init [Const 0x14F1, Const 0x2F10] [''USR90-12'', ''CXT / USR 56K Fax Host int''],
  Init [Const 0x14F1, Const 0x2F20] [''CX11256'', ''SoftV92 Data Fax Modem with SmartCP''],
  Init [Const 0x14F1, Const 0x2F30] [''CX11252-41z'', ''PCI SoftV92 Modem''],
  Init [Const 0x14F1, Malformed ''0x2F30&''] [''01'', ''hp/compaq alhena 5-gl6''],
  Init [Const 0x14F1, Const 0x2F40] [''200014F1'', ''PCI Soft Data Fax Modem with SmartCP''],
  Init [Const 0x14F1, Const 0x2F50] [''99269'', ''SmartLink 2801''],
  Init [Const 0x14F1, Const 0x2F52] [''C0220001'', ''01'' @ [CHR 0x5C] @ ''3&61AAA01&0&50''],
  Init [Const 0x14F1, Const 0x2F81] ['' '', '' ''],
  Init [Const 0x14F1, Const 0x2F82] [''cx9510-11z'', ''Conexant PCI-E Soft Data/Fax Modem with SmartCP''],
  Init [Const 0x14F1, Const 0x5045] [''4.0.3.1'', ''http://h10025.www1.hp.com/ewfrf/wc/softwareDownloadIndex?softwareitem=ob-43284-1&lc=en&dlc=en&cc=us&''],
  Init [Const 0x14F1, Const 0x50451] [''14f12f30'', ''Conextant High Definition Audio-Venice 5051''],
  Init [Const 0x14F1, Const 0x50452] [''14e4'', ''Conextant High Definition SmartAudio 221''],
  Init [Const 0x14F1, Const 0x50452] [''PCI'' @ [CHR 0x5C] @ ''VEN_14F1&DEV_5047'', ''Conextant High Definition Audio-Venice 5051''],
  Init [Const 0x14F1, Const 0x5047] [''Not sure'', ''HDAUDIO Soft Data Fax Modm- Conexant Sound Card Audio Driver''],
  Init [Const 0x14F1, Const 0x5051] [''4.0.1.6'', ''Conexant HD-Audio SmartAudio 221''],
  Init [Const 0x14F1, Malformed ''0x5051_''] [''DG31PR'', ''Conexant HD-Audio SmartAudio 221''],
  Init [Const 0x14F1, Malformed ''0x5051__''] [''CX20561'', ''Conexant HD-Audio SmartAudio 221''],
  Init [Const 0x14F1, Const 0x5066] [''Cx20561'', ''HDAUDIO'' @ [CHR 0x5C] @ ''Func_01&VEN_14F1&DEV_5069&SUBSYS_17AA214C&REV_1003''],
  Init [Const 0x14F1, Const 0x5069] [''20585'', ''conexant 20585 smartAudio HD''],
  Init [Const 0x14F1, Const 0x506C] [''0x506C'', ''Conexant High Definition Audio''],
  Init [Const 0x14F1, Const 0x506E] [''001'', ''Conexant 20672 SmartAudio HD''],
  Init [Const 0x14F1, Const 0x50A1] [''CX20641/CX20651'', ''Conexant HD Audio''],
  Init [Const 0x14F1, Const 0x50A2] [''Conexant CX20642'', ''Conexant HD Audio''],
  Init [Const 0x14F1, Const 0x5B7A] [''Belived to be a CX23416'', ''Single-Chip MPEG-2 Encoder with Integrated Analog Video/Broadcast Audio Decoder''],
  Init [Const 0x14F1, Const 0x8800] [''Conexant CX23881'', ''PAL audio/video decoder''],
  Init [Const 0x14F1, Const 0x88000] [''0x14F1'', ''0x14F1''],
  Init [Const 0x14F1, Const 0x8801] [''CX23880'', ''PCI Broadcast Audio/Video Decoder''],
  Init [Const 0x14F1, Const 0x8802] [''CX2388x'', ''MPEG Encoder (ASUS Blackbird)''],
  Init [Const 0x14F1, Const 0x8811] [''CX2388x'', ''Audio Capture ike''],
  Init [Const 0x14F1, Const 0x8852] [''cx23885'', ''Leadtek Winfast PxDVR3200 H (XC3028)''],
  Init [Const 0x14F1, Const 0x8880] [''CX23888'', ''PCI Express Video and Broadcast Audio Decoder''],
  Init [Const 0x14F1, Const 0x9876] [''PCI'' @ [CHR 0x5C] @ ''VEN_14F1&DEV_2F20&SUBSYS_200C14F1&REV_00'' @ [CHR 0x5C] @ ''4&CF8'', ''f''],
  Init [Const 0x14F1, Malformed ''0xx27d8''] [''A62516F3'', ''INTEL IDT Audio''],
  Init [Const 0x186C, Const 0x1014] [''AR5BXB6'', ''Atheros 802.11abg''],
  Init [Const 0x1971, Const 0x0001] [''PCI'' @ [CHR 0x5C, CHR 0x5C] @ ''VEN_1971&DEV_0000&SUBSYS_00021028&REV_00'' @ [CHR 0x5C, CHR 0x5C] @ ''4&2'', ''AGEIA PhysX 100 Series PCI Express Card''],
  Init [Const 0x1971, Const 0x1011] [''PCI'' @ [CHR 0x5C, CHR 0x5C] @ ''VEN_1971&DEV_1011&CC_FF00'', ''AGEIA PhysX 100 Series PCI Card''],
  Init [Const 0x1971, Const 0x1021] [[], ''AGEIA PhysX 200 Series PCI Express Card''],
  Init [Const 0x1969, Const 0x1026] [''AR8121/AR8113 '', ''PCI-E ETHERNET CONTROLLER ''],
  Init [Const 0x1969, Const 0x1048] [''Atheros L1'', ''Gigabit Ethernet 10/100/1000 Base-T Controller''],
  Init [Const 0x1969, Const 0x1060] [''AR8162'', ''PCI-E Fast Ethernet Controller''],
  Init [Const 0x1969, Const 0x1062] [''AR8132'', ''Atheros AR8132 PCI-E &#1050;&#1086;&#1085;&#1090;&#1088;&#1086;&#1083;&#1083;&#1077;&#1088; Fast Eth''],
  Init [Const 0x1969, Const 0x1062C] [''Atheros L1 '', ''Gigabit Ethernet 10/100/1000 Base-T Controller''],
  Init [Const 0x1969, Const 0x1063] [''AR8131'', ''Atheros AR8131 PCI-E Gigabit Ethernet Controller''],
  Init [Const 0x1969, Const 0x1073] [''AR81512'', ''Atheros AR81512 ''],
  Init [Const 0x1969, Const 0x1083] [''78161462'', ''Atheros AR8151 PCI-E Gigabit Ethernet Controller (NDIS 6.20)''],
  Init [Const 0x1969, Const 0x1090] [''AR8162'', ''Fast Ethernet''],
  Init [Const 0x1969, Const 0x1091] [''AR8161/8165'', ''PCI-E Gigabit Ethernet Controller''],
  Init [Const 0x1969, Const 0x168C] [''Atheros L1 '', ''Gigabit Ethernet 10/100/1000 Base-T Controller ''],
  Init [Const 0x1969, Const 0x1969] [''Atheros L1 '', ''Gigabit Ethernet 10/100/1000 Base-T '' @ [CHR 0xC3, CHR 0x83, CHR 0xC6, CHR 0x92] @ '' '' @ [CHR 0xC3, CHR 0x83, CHR 0xE2, CHR 0x80, CHR 0xA6, CHR 0xC3, CHR 0x82, CHR 0xC2, CHR 0xA1, CHR 0xC3, CHR 0x83, CHR 0xC6, CHR 0x92] @ '' '' @ [CHR 0xC3, CHR 0x83, CHR 0xE2, CHR 0x80, CHR 0x9A, CHR 0xC3, CHR 0x82, CHR 0xC2, CHR 0xBE, CHR 0xC3, CHR 0x83, CHR 0xC6, CHR 0x92] @ '' '' @ [CHR 0xC3, CHR 0x83, CHR 0xE2, CHR 0x80, CHR 0x9A, CHR 0xC3, CHR 0x82, CHR 0xC2, CHR 0xBD, CHR 0xC3, CHR 0x83, CHR 0xC6, CHR 0x92, CHR 0xC3, CHR 0xA2, CHR 0xE2, CHR 0x82, CHR 0xAC, CHR 0xCB, CHR 0x9C, CHR 0x27, CHR 0xC3, CHR 0x83, CHR 0xC6, CHR 0x92, CHR 0xC3, CHR 0xA2, CHR 0xE2, CHR 0x82, CHR 0xAC, CHR 0xCB]],
  Init [Const 0x1969, Const 0x2048] [''Atheros L2'', ''Fast Ethernet 10/100 Base-T Controller''],
  Init [Const 0x1969, Const 0x2049] [''234543'', ''der''],
  Init [Const 0x1969, Const 0x2060] [''f121'', ''AR8152 v1.1 Fast Ethernet''],
  Init [Const 0x1969, Const 0x2061] [''1'', ''Ethernet Controller''],
  Init [Const 0x1969, Const 0x2062] [''FB501179'', ''Qualcomm Atheros AR8152/8158''],
  Init [Const 0x1969, Const 0x4747] [''1969'', ''VEN_1969''],
  Init [Const 0x1969, Const 0x9876] [''Atheros L2'', ''Fast Ethernet 10/100 Base-T Controller ''],
  Init [Const 0x17C0, Const 0x12AB] [[], ''intel''],
  Init [Const 0x9710, Const 0x7705] [''ASIX MSC7705'', ''MCS7705 -- USB 1.1 to Single Parallel Controller''],
  Init [Const 0x9710, Const 0x7830] [''MCS7830'', ''USB 2.0 to 10/100M Fast Ethernet Controller''],
  Init [Const 0x9710, Const 0x8729] [''mcs7830'', ''usb 2.0 10/100M ethernet adaptor''],
  Init [Const 0x9710, Const 0x9805] [''mcs9805cv'', ''MosChip PCI Parallel Port''],
  Init [Const 0x9710, Const 0x9815] [''9815'', ''MCS9815 / M-CAB Parallel Adapter''],
  Init [Const 0x9710, Const 0x9835] [''9835'', ''2 serial, 1 LPT port PCI Card''],
  Init [Const 0x9710, Const 0x9845] [''NM9845CV'', ''2 serial''],
  Init [Const 0x9710, Const 0x9865] [''MCS9865'', ''PCI Porta Paralela''],
  Init [Const 0x9710, Const 0x9900] [''MCS9900CV-AA'', ''NetMOS Single Parallel Port Card'']]"

lemma PciDevTable_13_facts:
  "length PciDevTable_13 = 150" "rejected PciDevTable_13 = 6" "oversized PciDevTable_13 = 7"
  "vendors PciDevTable_13 \<subseteq> Const ` set vendor_numbers"
  unfolding PciDevTable_13_def count_rows by (simp_all add: part_simps listed vendor_known_list cong: part_cong count_rows_cong)

definition PciDevTable_14 :: "initializer list" where
 "PciDevTable_14 = [
  Init [Const 0x9710, Const 0x9912] [''MCS9901CV-CC'', ''PCIe to Dual Serial and Single Parallel''],
  Init [Const 0x9710, Const 0x9922] [''MCS9922'', ''PCIe to Dual Serial Port Controller''],
  Init [Const 0x067B, Const 0x2303] [''2303 HXA'', ''Prolific USB 2 Serial Comm Port &#1082;&#1086;&#1085;&#1090;&#1088;&#1086;&#1083;&#1083;&#1077;&#108''],
  Init [Const 0x067B, Const 0x2305] [''PL-2303'', ''USB-to-Printer Bridge Controller''],
  Init [Const 0x067B, Const 0x2393] [''prolific'', ''prolific''],
  Init [Const 0x067B, Const 0x2506] [''PL-2506'', ''Hi-Speed USB to IDE Bridge Controller''],
  Init [Const 0x067B, Const 0x25A1] [''PL-2501'', ''Prolific PCLinq3 USB Transfer Cable Driver''],
  Init [Const 0x067B, Const 0x9876] [''067B'', ''TES''],
  Init [Const 0x8080, Const 0x1040] [''VIA 82C259 rev 0'', ''PCI'' @ [CHR 0x5C] @ ''VEN_8086&DEV_1040&SUBSYS_1008086&REV_00''],
  Init [Const 0x0C45, Const 0x0C45] [''USB'' @ [CHR 0x5C] @ ''VID_0000&PID_0000'' @ [CHR 0x5C] @ ''6&14BE79D5&0&4'', ''USB2.0''],
  Init [Const 0x0C45, Const 0x1111] [''USB'' @ [CHR 0x5C] @ ''VID_0C45&PID_612A'' @ [CHR 0x5C] @ ''5&B0F4C74&0&2'', ''USB webcam''],
  Init [Const 0x0C45, Const 0x5243] [''USB'', ''xda exec Uknown device''],
  Init [Const 0x0C45, Const 0x6007] [''USB'' @ [CHR 0x5C] @ ''VID_0C45&PID_6007&REV_0101'', ''Genius WebCam Eye''],
  Init [Const 0x0C45, Const 0x600D] [''USB'' @ [CHR 0x5C] @ ''VID_0C45&PID_600D&REV_0101'', ''USB(v1.1) webcam''],
  Init [Const 0x0C45, Const 0x602C] [''SN9C102C'', ''Webcam''],
  Init [Const 0x0C45, Const 0x602D] [''VID_0C45&PID_6480&MI_00'', ''USB Webcam''],
  Init [Const 0x0C45, Const 0x6030] [''USB'' @ [CHR 0x5C] @ ''VID_0C45&PID_6030'' @ [CHR 0x5C] @ ''5&18D8BE1C&0&1'', ''USB WebCam ''],
  Init [Const 0x0C45, Const 0x610C] [''USB'' @ [CHR 0x5C] @ ''VID_0C45&PID_610B'' @ [CHR 0x5C] @ ''7&3211544E$0$2'', ''usb web camera ''],
  Init [Const 0x0C45, Const 0x6128] [''USB'' @ [CHR 0x5C] @ ''VID_0C45&PID_613C&REV_0101'', ''USB &#1074;&#1077;&#1073;-&#1082;&#1072;&#1084;&#1077;&#1088;&#1072;''],
  Init [Const 0x0C45, Malformed ''0x6128_''] [''USB'' @ [CHR 0x5C] @ ''VID_0C45&PID_6148&REV_0101'', ''USB PC Camera Plus''],
  Init [Const 0x0C45, Const 0x6129] [''USB'' @ [CHR 0x5C] @ ''VID_0C45&PID_6128'' @ [CHR 0x5C] @ ''5&3875c171&0&1'', ''USB WebCam''],
  Init [Const 0x0C45, Const 0x6130] [''USB'' @ [CHR 0x5C] @ ''VID_090C&PID_1000'' @ [CHR 0x5C] @ ''0346113020045748'', ''USB HUB''],
  Init [Const 0x0C45, Const 0x613A] [''USB'' @ [CHR 0x5C] @ ''VID_0C45&PID_613A'' @ [CHR 0x5C] @ ''5&2F621EE5&0&5'', ''USB WEBCAM''],
  Init [Const 0x0C45, Const 0x613C] [''USB'' @ [CHR 0x5C] @ ''VID_0C45&PID_613C'' @ [CHR 0x5C] @ ''5&377B3285&0&1 '', ''USB Webcam''],
  Init [Const 0x0C45, Const 0x613E] [''5&29957435&0&1'', ''USB Camera''],
  Init [Const 0x0C45, Const 0x624F] [''Sonix SN9C201'', ''Integrated Webcam in Compal HEL81 series barebones.''],
  Init [Const 0x0C45, Const 0x6270] [''USB'' @ [CHR 0x5C] @ ''VID_0C45&PID_6270'', ''USB Microscopr''],
  Init [Const 0x0C45, Const 0x6270A] [''USB'' @ [CHR 0x5C] @ ''VID_0C45&PID_6270&REV_0100'', ''webcam with mic link works for win 7''],
  Init [Const 0x0C45, Malformed ''0x6270_''] [''usb'' @ [CHR 0x5C] @ ''vid_oc45&pid_627b'' @ [CHR 0x5C] @ ''5&138897&#1044;1&0&5'', ''webcam''],
  Init [Const 0x0C45, Const 0x627F] [''USB'' @ [CHR 0x5C] @ ''VID_17A1&PID_0118&REV_0100'', ''USB'' @ [CHR 0x5C] @ ''VID_17A1&PID_0118&REV_0100''],
  Init [Const 0x0C45, Const 0x62B3] [''USB'' @ [CHR 0x5C] @ ''Vid_0c45&Pid_62b3&Rev_0100&MI_00'', ''USB 2.0 PC Camera''],
  Init [Const 0x0C45, Const 0x62BF] [''USB'' @ [CHR 0x5C] @ ''Vid_0c45&Pid_62bf'', ''USB'' @ [CHR 0x5C] @ ''Vid_0c45&Pid_62bf&Rev_0100''],
  Init [Const 0x0C45, Const 0x62C0] [''SNP2UVC'', ''Sonix Wecam''],
  Init [Const 0x0C45, Const 0x6353] [''USB'' @ [CHR 0x5C] @ ''VID_0000&PID_0000'' @ [CHR 0x5C] @ ''5&21F6DCD1&0&5'', ''USB Microscope''],
  Init [Const 0x0C45, Const 0x641D] [''USB'' @ [CHR 0x5C] @ ''VID_0C45&PID_643d'', ''1.3 MPixel Integrated Webcam used in Dell N5010 series''],
  Init [Const 0x0C45, Const 0x6421] [''USB'' @ [CHR 0x5C] @ ''VID_0C45&PID_6421&REV_0224&MI_00'', ''USB 2.0 Webcam slim 32''],
  Init [Const 0x0C45, Const 0x642F] [''USB'' @ [CHR 0x5C] @ ''VID_0C45&PID_642F&REV_1224'', ''Webcam''],
  Init [Const 0x0C45, Const 0x644B] [''not known'', ''not known''],
  Init [Const 0x0C45, Const 0x6489] [''0x6489'', ''Integrated Webcam Universal Serial Bus controllers''],
  Init [Const 0x0C45, Const 0x6840] [''USB'' @ [CHR 0x5C] @ ''VID_0C45&PID_6480&MI_00 '', ''sonix 1.3 mp laptop integrated webcam''],
  Init [Const 0x0C45, Const 0x9876] [''USB'' @ [CHR 0x5C] @ ''VID_090C&PID_B371&MI_00'' @ [CHR 0x5C] @ ''6&462987E&0&0000'', ''webcam''],
  Init [Const 0x0A5C, Const 0x0201] [''Blutonium BCM2035 Bluetooth 2.4 GHz Single Chip Tr'', ''Broadcom USB iLine10(tm) Network Adapter''],
  Init [Const 0x0A5C, Const 0x10DE] [''0264'', ''Controlador sm''],
  Init [Const 0x0A5C, Const 0x2000] ['' 0578A97'', ''Broadcom Bluetooth Firmware Upgrade Device''],
  Init [Const 0x0A5C, Const 0x2009] ['' '', ''Broadcom Bluetooth Controller''],
  Init [Const 0x0A5C, Const 0x200A] ['' '', ''Broadcom Bluetooth Controller''],
  Init [Const 0x0A5C, Const 0x200F] ['' '', ''Broadcom Bluetooth Controller''],
  Init [Const 0x0A5C, Const 0x201D] ['' n450'', ''BROADCOM Bluetooth Device''],
  Init [Const 0x0A5C, Const 0x201E] ['' '', ''IBM Integrated Bluetooth IV''],
  Init [Const 0x0A5C, Const 0x2020] ['' '', ''Broadcom Bluetooth Dongle''],
  Init [Const 0x0A5C, Const 0x2021] ['' '', ''BCM2035B3 ROM Adapter Generic''],
  Init [Const 0x0A5C, Const 0x2033] [''  1ujy100539f'', ''Broadcom Blutonium Device Firmware Downloader''],
  Init [Const 0x0A5C, Const 0x2035] [''5&263C7E89&0&1'', ''BCM92035NMD Bluetooth''],
  Init [Const 0x0A5C, Const 0x2038] ['' '', ''Broadcom Blutonium Device Firmware Downloader (BCM2038)''],
  Init [Const 0x0A5C, Const 0x2039] ['' BCM92045B3 ROM'', ''BROADCOM Bluetooth Device''],
  Init [Const 0x0A5C, Const 0x2045] [''BCM2045A'', ''Broadcom Bluetooth Controller''],
  Init [Const 0x0A5C, Const 0x2046] ['' 5738z'', ''Broadcom USB Bluetooth Device''],
  Init [Const 0x0A5C, Const 0x2047] ['' '', ''Broadcom USB Bluetooth Device''],
  Init [Const 0x0A5C, Const 0x205E] ['' USB'' @ [CHR 0x5C] @ ''VID_0A5C&PID_5801&MI_00'', ''Broadcom Bluetooth Firmware Upgrade Device''],
  Init [Const 0x0A5C, Const 0x2100] [''BT 50'', ''Broadcom Bluetooth 2.0+eDR USB dongle''],
  Init [Const 0x0A5C, Const 0x2101] [''USB'' @ [CHR 0x5C] @ ''VID_0A5C&PID_2101'', ''Broadcom Bluetooth 2.0+EDR USB dongle''],
  Init [Const 0x0A5C, Const 0x2102] ['' USB'' @ [CHR 0x5C] @ ''VID_04B4&PID_2102'' @ [CHR 0x5C] @ ''5&38CD4C16&0&6'', ''ANYCOM Blue USB-200/250''],
  Init [Const 0x0A5C, Const 0x2110] ['' 39A18BDD'', ''Broadcom Bluetooth Controller''],
  Init [Const 0x0A5C, Const 0x2111] ['' '', ''ANYCOM Blue USB-UHE 200/250''],
  Init [Const 0x0A5C, Const 0x2120] ['' 2045'', ''Broadcom 2045 Bluetooth 2.0 USB-UHE Device with trace filter''],
  Init [Const 0x0A5C, Const 0x2121] ['' '', ''Broadcom 2045 Bluetooth 2.0 USB Device with trace filter''],
  Init [Const 0x0A5C, Const 0x2122] ['' BCM92045B3'', ''Broadcom Bluetooth 2.0+EDR USB dongle''],
  Init [Const 0x0A5C, Const 0x2124] ['' '', ''2045B3ROM Bluetooth Dongle''],
  Init [Const 0x0A5C, Const 0x2130] ['' '', ''Broadcom 2045 Bluetooth 2.0 USB-UHE Device with trace filter''],
  Init [Const 0x0A5C, Const 0x2131] ['' '', ''Broadcom 2045 Bluetooth 2.0 USB Device with trace filter''],
  Init [Const 0x0A5C, Const 0x2140] ['' '', ''2046 Flash UHE Class 2''],
  Init [Const 0x0A5C, Const 0x2141] ['' '', ''2046 Flash non UHE Class 2''],
  Init [Const 0x0A5C, Const 0x2142] ['' '', ''2046 Flash non UHE Class 1''],
  Init [Const 0x0A5C, Const 0x2143] ['' '', ''2046 Flash non UHE Class 1''],
  Init [Const 0x0A5C, Const 0x2144] ['' '', ''2046 Flash non UHE module Class 2''],
  Init [Const 0x0A5C, Const 0x2145] [''bcm9204md '', ''Broadcom BCM9204MD LENO Module''],
  Init [Const 0x0A5C, Const 0x2146] ['' '', ''Broadcom 2045 Bluetooth 2.1 USB UHE Dongle''],
  Init [Const 0x0A5C, Const 0x2147] ['' 0A5C&PID_5800'', ''Broadcom 2046 Bluetooth 2.1 USB Dongle''],
  Init [Const 0x0A5C, Const 0x2148] ['' '', ''Broadcom 2046 Bluetooth 2.1 USB UHE Dongle''],
  Init [Const 0x0A5C, Const 0x2149] ['' '', ''Broadcom 2046 Bluetooth 2.1 USB Dongle''],
  Init [Const 0x0A5C, Const 0x214A] ['' '', ''Broadcom 2046 Bluetooth 2.1 USB Module''],
  Init [Const 0x0A5C, Const 0x214B] ['' 52AF1AB24D'', ''Broadcom 2046 Bluetooth 2.1 USB Module''],
  Init [Const 0x0A5C, Const 0x214C] ['' '', ''Broadcom 2046 Bluetooth 2.1 USB Module''],
  Init [Const 0x0A5C, Const 0x214D] ['' '', ''Broadcom Bluetooth 2.1 UHE Module''],
  Init [Const 0x0A5C, Const 0x214E] ['' '', ''Thinkpad Bluetooth with Enhanced Data Rate II''],
  Init [Const 0x0A5C, Const 0x214F] ['' '', ''Broadcom 2046 Bluetooth 2.1 USB UHE Dongle''],
  Init [Const 0x0A5C, Const 0x2150] ['' '', ''Broadcom 2046 Bluetooth 2.1 USB Dongle''],
  Init [Const 0x0A5C, Const 0x2151] ['' 2151'', ''Broadcom Bluetooth 2.1 USB Dongle''],
  Init [Const 0x0A5C, Const 0x2152] ['' '', ''Broadcom 2046 Bluetooth 2.1 USB UHE Dongle''],
  Init [Const 0x0A5C, Const 0x2153] ['' '', ''Broadcom 2046 Bluetooth 2.1 USB UHE Dongle''],
  Init [Const 0x0A5C, Const 0x2154] ['' '', ''Broadcom 2046 Bluetooth 2.1 USB UHE Dongle''],
  Init [Const 0x0A5C, Const 0x2155] ['' '', ''Broadcom Bluetooth USB Dongle''],
  Init [Const 0x0A5C, Const 0x2157] ['' '', ''BCM2046 B1 USB 500''],
  Init [Const 0x0A5C, Const 0x2158] ['' '', ''Broadcom 2046 Bluetooth 2.1 Device''],
  Init [Const 0x0A5C, Const 0x219C] [''BCM2070'', ''Broadcom BCM2070 Bluetooth 3.0+HS USB Device ''],
  Init [Const 0x0A5C, Const 0x21E3] [''BCM43142A0'', ''Broadcom Bluetooth 4.0''],
  Init [Const 0x0A5C, Const 0x4500] [''BCM2046B1'', ''Broadcom 2046 Bluetooth 2.1 USB Dongle''],
  Init [Const 0x0A5C, Const 0x4502] [''BCM2046B1'', ''Broadcom 2046 Bluetooth 2.1 USB Dongle''],
  Init [Const 0x0A5C, Const 0x4503] ['' BCM2046B1'', ''Broadcom 2046 Bluetooth 2.1 USB Dongle''],
  Init [Const 0x0A5C, Const 0x5800] ['' 1ujy100539f'', ''Unified Security Hub''],
  Init [Const 0x0A5C, Const 0x5801] [''0x5801'', ''Unified Security Hub ''],
  Init [Const 0x0A5C, Const 0x6300] ['' 965'', ''Pirelli ISB Remote NDIS Device''],
  Init [Const 0x0A5C, Const 0x6688] [''PCI'', ''NVIDIA GeForce GT 240M''],
  Init [Const 0x0A5C, Const 0x8613] [''USB'' @ [CHR 0x5C] @ ''VID_04B4&PID_8613&REV_:001'', ''TD 3104 USB vedio grabber ''],
  Init [Const 0x0A5C, Const 0x9876] [''0x9876'', ''0x9876''],
  Init [Const 0x197B, Const 0x0250] [''JMC25'', ''JMC250 PCI Express, Gigabit Ethernet''],
  Init [Const 0x197B, Const 0x0256] [''JMC2XX'', ''JMC260 PCI Express Fast Ethernet''],
  Init [Const 0x197B, Const 0x0260] [''JMC2XX'', ''JMC260 PCI Express Fast Ethernet''],
  Init [Const 0x197B, Const 0x1234] [''12345678'', ''1234567''],
  Init [Const 0x197B, Const 0x197B] [''JMB38X'', ''JMB38X SD/MMC &#1061;&#1086;&#1089;&#1090;-&#1050;&#1086;&#1085;&#1090;&#1088;&#1086;&#1083;&#1083;&''],
  Init [Const 0x197B, Const 0x2360] [''JMicron JMB36X'', ''JMB36X''],
  Init [Const 0x197B, Const 0x2361] [''JMB363'', ''PCI Express to SATA II and PATA Host Controller''],
  Init [Const 0x197B, Const 0x2363] [''JMB36X'', ''JMicron JMB362/JMB363 AHCI Controller''],
  Init [Const 0x197B, Const 0x2366] [''JMB36X'', ''JMicron JMB366 AHCI/IDE Controller''],
  Init [Const 0x197B, Const 0x2368] [''JMB368'', ''IDE Comtroller''],
  Init [Const 0x197B, Const 0x2380] [''JMB38X'', ''IEEE 1394 Host Controller''],
  Init [Const 0x197B, Const 0x2381] [''JMB38X'', ''JMB38X SD Host Controller''],
  Init [Const 0x197B, Const 0x2382] [''JMB38Xam5'', ''JMB38X SD/MMC Host Controller  ftp://driver.jmicron.com.tw/CardReader/Windows/''],
  Init [Const 0x197B, Const 0x2383] [''0261'', ''JMB38X MS Host Controller''],
  Init [Const 0x197B, Const 0x2384] [''JMB38X'', ''JMB38X xD Host Controller''],
  Init [Const 0x197B, Const 0x2391] [''9.2.0.1031'', ''Intel''],
  Init [Const 0x197B, Const 0x2392] [''721179'', '' JMB38X SD/MMC Host Controller''],
  Init [Const 0x197B, Const 0x2393] ['' Chip Number: '' @ [CHR 0x09] @ ''JMB38X'', ''Chip Description: '' @ [CHR 0x09] @ ''JMB38X SD/MMC Host Controller''],
  Init [Const 0x197B, Const 0x7002] [''JMB38Xam5'', ''JMB38X SD/MMC Host Controller''],
  Init [Const 0x4E8, Const 0x618D] [''rev_0400'', ''usb lan adapter''],
  Init [Const 0x058F, Const 0x0001] [''6377'', ''AM usb storage''],
  Init [Const 0x058F, Const 0x1234] [''9380'', ''6387''],
  Init [Const 0x058F, Const 0x6362] [''UNKNOWN'', ''Unknown 4-in-1 card reader (istar)''],
  Init [Const 0x058F, Const 0x6366] [''Unknown'', ''Multi Flash Reader USB Device''],
  Init [Const 0x058F, Const 0x6387] [''C508(FC8508)/AU6985/AU6992 - F/W 2902'', ''USB Mass Storage Device(USB1005B Flash Disk)''],
  Init [Const 0x058F, Const 0x9254] [''AU9254A21-HAS'', ''http://www.alldatasheet.com/datasheet-pdf/pdf/91600/ETC/AU9254A21.html''],
  Init [Const 0x058F, Const 0x9380] [''2C680446'', ''Micron=MT29F32G08CBABA''],
  Init [Const 0x058F, Const 0x9540] [''Unknown'', ''SmartCard Reader''],
  Init [Const 0x064E, Const 0x064E] [''VID_064E&PID_A111&MI_00'', ''Suyin''],
  Init [Const 0x064E, Const 0xA101] [''suYin'', ''Acer Crystal Eye Webcam''],
  Init [Const 0x064E, Const 0xA103] [''SuYin'', ''WebCam''],
  Init [Const 0x064E, Const 0xA116] [''Suiyn Optronics'', ''USB 2.0 UVC 1.3M WebCam''],
  Init [Const 0x064E, Const 0xA219] [''SUYIN'', ''SUYIN 1.3M WebCam''],
  Init [Const 0x064E, Const 0xC108] [''dont know'', ''its a webcam software''],
  Init [Const 0x064E, Const 0xD101] [''SuYin'', ''Web Cam''],
  Init [Const 0x198A, Const 0x0210] ['' '', ''XMC-210''],
  Init [Const 0x198A, Const 0x0220] ['' '', ''XMC-220''],
  Init [Const 0x198A, Const 0x0230] ['' '', ''XMC-230''],
  Init [Const 0x198A, Const 0x0240] ['' '', ''XMC-240''],
  Init [Const 0x198A, Const 0x1180] ['' pm 965'', ''PCIe-180''],
  Init [Const 0x198A, Const 0x1280] ['' '', ''PCIe-280''],
  Init [Const 0x198A, Const 0x1395] [''STRATIX V'', ''PCIe-395 standard''],
  Init [Const 0x198A, Const 0x198A] [''pm 965'', ''PCIe-180''],
  Init [Const 0x198A, Const 0x3395] [''STRATIX V'', ''PCIe-395 BSP''],
  Init [Const 0x198A, Const 0x402F] ['' '', '' BenNUEY PCIX'']]"

lemma PciDevTable_14_facts:
  "length PciDevTable_14 = 150" "rejected PciDevTable_14 = 2" "oversized PciDevTable_14 = 1"
  "vendors PciDevTable_14 \<subseteq> Const ` set vendor_numbers"
  unfolding PciDevTable_14_def count_rows by (simp_all add: part_simps listed vendor_known_list cong: part_cong count_rows_cong)

definition PciDevTable_15 :: "initializer list" where
 "PciDevTable_15 = [
  Init [Const 0x198A, Const 0x4030] ['' '', ''H100-PCIX''],
  Init [Const 0x198A, Const 0x4031] ['' '', ''BenNUEY PCI-104-V4''],
  Init [Const 0x198A, Const 0x4032] ['' '', ''BenONE-PCIe''],
  Init [Const 0x198A, Const 0x4033] ['' PCI'' @ [CHR 0x5C] @ ''VEN_198A&DEV_4033&SUBSYS_00000000&REV_00'', ''BenONE-Xilinx-Kit-ROHS''],
  Init [Const 0x198A, Const 0x4034] ['' '', ''BenNUEY PCIX RoHS''],
  Init [Const 0x17F3, Const 0x1010] [''D1010'', ''IDE Controller ''],
  Init [Const 0x17F3, Const 0x1011] [''D1011'', ''Standard IDE Controller''],
  Init [Const 0x17F3, Const 0x1030] [''M1030'', ''PCI to PCI-E Bridge''],
  Init [Const 0x17F3, Const 0x2010] [''M2010'', ''GPU (VGA )''],
  Init [Const 0x17F3, Const 0x3010] [''M3010'', ''HD Audio''],
  Init [Const 0x17F3, Const 0x6021] ['' '', ''Host Bridge''],
  Init [Const 0x17F3, Const 0x6036] ['' '', ''PCI to ISA Bridge''],
  Init [Const 0x17F3, Const 0x6040] [''R6040x'', ''Ethernet MACx''],
  Init [Const 0x17F3, Const 0x6060] ['' modem'', ''USB Controller (OHCI)''],
  Init [Const 0x17F3, Const 0x6061] ['' V90479. 1'', ''USB 2.0 Controller (EHCI)''],
  Init [Const 0x19E3, Const 0x5801] [''NA'', ''DDRdrive X1''],
  Init [Const 0x19E3, Const 0x5808] [''NA'', ''DDRdrive X8''],
  Init [Const 0x19E3, Const 0xDD52] ['' '', ''DDRdrive X1-30''],
  Init [Const 0x04B3, Const 0x24D5] [''PCI'' @ [CHR 0x5C] @ ''VEN_8086&DEV_24D5&SUBSYS_90111584&REV_02'', ''Audio Controller''],
  Init [Const 0x04B3, Const 0x401] [''8086'', ''PCI'' @ [CHR 0x5C] @ ''VEN_8086&DEV_293E&SUBSYS_20F217AA&REV_03'' @ [CHR 0x5C] @ ''3&B1BFB68&0&D8'' @ [CHR 0x09]],
  Init [Const 0x04B3, Const 0x401] [''24C5'', ''PCI'' @ [CHR 0x5C] @ ''VEN_8086&DEV_24C6&REV_03'' @ [CHR 0x5C] @ ''3 267A616A''],
  Init [Const 0x04B3, Const 0x4010] [''cc020000'', ''PCI'' @ [CHR 0x5C] @ ''VEN_8086&DEV_108C&SUBSYS_02F61014&REV03''],
  Init [Const 0x04B3, Const 0x9876] [''CC_040100'', ''PCI'' @ [CHR 0x5C] @ ''VEN_8086&DEV_101E&SUBSYS_0591014&REV_03'' @ [CHR 0x5C] @ ''4&39A85202&0&08F0''],
  Init [Const 0x051D, Const 0x0002] [''n/a'', ''n/a''],
  Init [Const 0x051D, Const 0x051D] [''INT33A0'', ''0 x051d''],
  Init [Const 0x7D1, Const 0x3304] [''graphic card'', ''802.11N usb wifi device''],
  Init [Const 0x7D1, Const 0x3C03] [''DWL-G122 Wifi PCI'', ''Same chipset of RALINK  RT2500''],
  Init [Const 0x7D1, Const 0x3C07] [''D-Link Wireless G DWA-110 USB Adapter'', ''PCI'' @ [CHR 0x5C] @ ''VEN_1799&DEV_700F&SUBSYS_700F1799&REV_20'' @ [CHR 0x5C] @ ''3&61AAA01&0&48''],
  Init [Const 0x05AC, Const 0x021E] [''Keyboard IT USB'', ''Alluminium Keyboard IT USB''],
  Init [Const 0x05AC, Const 0x1293] [''Apple iPod'', ''Apple iPod''],
  Init [Const 0x05AC, Const 0x1297] [''Apple iPhone '', ''Apple iPhone g3''],
  Init [Const 0x05AC, Const 0x21E] [''phone 3g'', ''Allumium keyboard it USB ''],
  Init [Const 0x19A2, Const 0x0710] [[], ''Emulex OneConnect 10Gb NIC (be3) (rev01)''],
  Init [Const 0x19A2, Const 0x0712] [[], ''Emulex OneConnect 10Gb iSCSI Initiator (be3) (rev 01)''],
  Init [Const 0x19A2, Const 0x0714] [''Emulex OneConnect 10Gb FCoE &#1048;&#1085;&#1080;&'', ''Emulex OneConnect 10Gb FCoE &#1048;&#1085;&#1080;&#1094;&#1080;&#1072;&#1090;&#1086;&#1088; (be3) (&''],
  Init [Const 0x138A, Const 0x0001] [''0001'', ''VFS201 Fingerprint Scanner''],
  Init [Const 0x138A, Const 0x0005] [''0008'', ''VFS301 Fingerprint Scanner''],
  Init [Const 0x138A, Const 0x0006] [''0006'', ''VFS351 Fingerprint Scanner''],
  Init [Const 0x138A, Const 0x0007] [''0007'', ''VFS451 Fingerprint Scanner''],
  Init [Const 0x138A, Const 0x0009] [''0008'', ''VFS421 Fingerprint Scanner''],
  Init [Const 0x138A, Const 0x0011] [''11'', ''Validity Fingerprint Reader''],
  Init [Const 0x138A, Const 0x0018] [''Biometric Devices'', ''Validity Sensors, Inc. (WBF) (PID=0018)''],
  Init [Const 0x138A, Const 0x003C] [''0008'', ''VFS431 Validity-Fingerprint Driver''],
  Init [Const 0x138A, Const 0x003D] [''0104'', ''Validity Fingerprint Sensor''],
  Init [Const 0x138A, Const 0x11] [''VFS5011'', ''Fingerprint Reader''],
  Init [Const 0x5853, Const 0x0001] [''n/a'', ''Citrix XenServer PV SCSI Host Adapter''],
  Init [Const 0x5853, Const 0x0002] [''n/a'', ''Citrix PV Bus Device''],
  Init [Const 0x046D, Const 0x0805] [''atom &#305;ntel &#305;ns&#305;de'', ''n.a.''],
  Init [Const 0x046D, Const 0x0808] [''n/a'', ''Logitech Webcam C600''],
  Init [Const 0x046D, Const 0x0809] [''Unknown'', ''Webcam Pro 9000''],
  Init [Const 0x046D, Const 0x082B] [''n/a'', ''n/a''],
  Init [Const 0x046D, Const 0x0896] [''5&34B666AE&0&7'', ''Camera''],
  Init [Const 0x046D, Const 0x08AD] [''N/A'', ''Quickcam Communicate STX''],
  Init [Const 0x046D, Const 0x08AF] [''-'', ''-''],
  Init [Const 0x046D, Const 0x08B2] [''123abc'', ''logitech QuickCam'' @ [CHR 0xAE] @ '' Pro 4000''],
  Init [Const 0x046D, Const 0x08C6] [''0x08C1'', ''Logitech OEM Webcam''],
  Init [Const 0x046D, Const 0x08F0] [''n/a'', ''n/a''],
  Init [Const 0x046D, Const 0x08F6] [''0100'', ''QuickCam Communicate''],
  Init [Const 0x046D, Const 0x092F] [''QuickCam Express'', ''model number: V-UAP9''],
  Init [Const 0x046D, Const 0x0A0B] [''A-00008'', ''Logitech ClearChat Pro USB''],
  Init [Const 0x046D, Const 0x0A1F] [''USB _ phone toush'', ''Logitech G930 Headset''],
  Init [Const 0x046D, Const 0x5A61] [''356254'', []],
  Init [Const 0x046D, Const 0xC018] [''?'', ''Baesline 3 Button Corded Optical Mouse, 2 button + scroll wheel''],
  Init [Const 0x046D, Const 0xC045] [''M/N: M-BZ96C. P/N: 810-000207. PID: HS91013.'', ''Epoxy Hidden''],
  Init [Const 0x046D, Const 0xC046] [''n/a'', ''n/a''],
  Init [Const 0x046D, Const 0xC05B] [''ee'', ''ftht''],
  Init [Const 0x046D, Const 0xC063] [''k251d'', ''DELL 6-Button mouse''],
  Init [Const 0x046D, Const 0xC226] [''n/a'', ''n/a''],
  Init [Const 0x046D, Const 0xC227] [''n/a'', ''n/a''],
  Init [Const 0x046D, Const 0xC281] [''J-UA9'', ''Wingman Force J-UA9''],
  Init [Const 0x046D, Const 0xC312] [''n/a'', ''n/a''],
  Init [Const 0x046D, Const 0xC404] [''n/a'', ''Logitech TrackMan Wheel''],
  Init [Const 0x046D, Const 0xC50E] [''M-RAM99, C-BS35'', ''MediaPlay Cordless Mouse''],
  Init [Const 0x046D, Const 0xC512] [''n/a'', ''n/a''],
  Init [Const 0x046D, Const 0xC51E] [''Unknown'', ''Unknown''],
  Init [Const 0x046D, Const 0xC526] [''n/a'', ''n/a''],
  Init [Const 0x046D, Const 0xC52A] [''Dell Wireless Keyboard w/ mouse'', ''HID Keyboard Device''],
  Init [Const 0x046D, Const 0xC52B] [''FC8708A607198-10F1043TA3'', ''N/A''],
  Init [Const 0x046D, Const 0xC52E] [''n/a'', ''USB3 receiver''],
  Init [Const 0x04D9, Const 0x1603] [''n'' @ [CHR 0x5C] @ ''a'', ''Samsung''],
  Init [Const 0x04D9, Const 0x2011] [''n/a'', ''n/a''],
  Init [Const 0x0590, Const 0x0028] [''HEM-790IT'', ''hid device class blood pressure monitor''],
  Init [Const 0x80EE, Const 0x7145] [''VBoxVideo 0x8168'', ''VirtualBox Graphics Adapter''],
  Init [Const 0x80EE, Const 0xBEEF] [''VBoxVideo 0x8168'', ''VirtualBox Graphics Adapter''],
  Init [Const 0x19B6, Const 0x110C] [''AR5413'', ''Atheros chipset for 802.11a/b/g''],
  Init [Const 0x10EC, Malformed ''0x 8136''] [''Realtek AC97Audio drivers'', ''Realtek 171 High Definition Audio''],
  Init [Const 0x10EC, Const 0x0062] [''LSISAS1078'', ''PCI-Express Fusion-MPT SAS''],
  Init [Const 0x10EC, Const 0x0185] [''802.11b'', ''Realtek 8180 Extensible 802.11b Wireless Device''],
  Init [Const 0x10EC, Const 0x0200] [''RTL8102E'', ''Realtek 10/100/1000 PCI-E NIC Family''],
  Init [Const 0x10EC, Const 0x0260] [''Realtek ALC260 High Definition Audio'', ''HDAUDIO'' @ [CHR 0x5C] @ ''FUNC_01&VEN_10EC&DEV_0262&SUBSYS_144DC034&REV_1002''],
  Init [Const 0x10EC, Const 0x0262] [''Realtek ALC 262'', ''Realtek ALC 262 &#1040;&#1091;&#1076;&#1080;&#1086;''],
  Init [Const 0x10EC, Const 0x0268] [''ALC268'', ''High Definition Audio Codecs''],
  Init [Const 0x10EC, Const 0x0269] [''ALC269'', ''Realtek High Definition audio''],
  Init [Const 0x10EC, Const 0x0270] [''0270'', ''Realtek High Definition Audio ''],
  Init [Const 0x10EC, Const 0x0272] [''ALC272X'', ''Realtek High Definition audio''],
  Init [Const 0x10EC, Const 0x0532] [''RTL8723AE'', ''BT combo mini pcie card''],
  Init [Const 0x10EC, Const 0x0660] [''HDAUDIO'' @ [CHR 0x5C] @ ''FUNC_01&VEN_10EC&DEV_0660&SUBSYS_10191386&'', ''HD Audio''],
  Init [Const 0x10EC, Const 0x0662] [''ALC662'', ''5.1 Channel Audio Codec''],
  Init [Const 0x10EC, Const 0x0861] [''ALC862'', ''Realtek ALC861 High Defintion Audio''],
  Init [Const 0x10EC, Const 0x0880] [''1631F603'', ''Realtek 880 High Definition Audio''],
  Init [Const 0x10EC, Const 0x0882] [''Realtek ALC882/D/M'', ''Intel 82801GB ICH7 - High Definition Audio Controller''],
  Init [Const 0x10EC, Const 0x0883] [''ALC883'', ''Realtek High definition Audio''],
  Init [Const 0x10EC, Const 0x0885] [''ALC889A'', ''REALTEK - 8 channel audio card ALC889A''],
  Init [Const 0x10EC, Const 0x0887] [''FUNC_01&VEN_10EC&DEV_0887&SUBSYS_1458A002&REV_1002'', ''xHDAUDIO'' @ [CHR 0x5C] @ ''FUNC_01&VEN_10EC&DEV_0887&SUBSYS_104383BC&REV_1002'' @ [CHR 0x5C] @ ''4&159EE542&0&0001''],
  Init [Const 0x10EC, Const 0x0888] [''ALC260'', ''Realtek High Definition Audio''],
  Init [Const 0x10EC, Const 0x0888] [''ALC888'', ''Realtek High Definition Audio''],
  Init [Const 0x10EC, Const 0x0889] [''1Device Ses G&#305;gabyte&#1058;&#1077;&#1093;'', ''HDAUDIO'' @ [CHR 0x5C] @ ''FUNC_01&VEN_10EC&DEV_0862''],
  Init [Const 0x10EC, Const 0x0892] [''ALC892'', ''7.1+2 Channel HD Audio Codec with Content Protection''],
  Init [Const 0x10EC, Const 0x10B9] [''M5288 SATA/Raid controller'', ''cpi''],
  Init [Const 0x10EC, Const 0x10EC] [''Realtek AC97Audio'', ''Realtek 171 High Definition Audio''],
  Init [Const 0x10EC, Const 0x10ECA] [''Realtek AC97Audio'', ''Realtek 171 High Definition Audio''],
  Init [Const 0x10EC, Const 0x12EC] [''naum tem'', ''naum tem ''],
  Init [Const 0x10EC, Const 0x5109] [''012659873654'', ''cuenta''],
  Init [Const 0x10EC, Const 0x5208] [''8185'', ''Realtek RTS5208 Card Reader''],
  Init [Const 0x10EC, Const 0x5209] [''Realtek'', ''Realtek PCIE CardReader''],
  Init [Const 0x10EC, Const 0x5227] [''unknown'', ''Realtek PCIE CardReader''],
  Init [Const 0x10EC, Const 0x5229] [''Rts5229'', ''Realtek PCIE CardReader''],
  Init [Const 0x10EC, Const 0x5286] [''Realtek RTS528x'', ''Realtek RTS528x PCIe Card Reader''],
  Init [Const 0x10EC, Const 0x5288] [''Realtek USB 2.0 Card Reader'', ''card reader''],
  Init [Const 0x10EC, Const 0x5289] [''RTL8411'', ''Realtek PCIE Card Reader''],
  Init [Const 0x10EC, Const 0x5591] [''MTC ms9377c'', ''PCI /ven_1039''],
  Init [Const 0x10EC, Const 0x662] [''Realtek AC97Audio'', ''Realtek 171 High Definition Audio''],
  Init [Const 0x10EC, Const 0x7305] [''Realtek UWB Radio Driver'', ''PCI'' @ [CHR 0x5C] @ ''VEN_10EC&DEV_7305''],
  Init [Const 0x10EC, Const 0x8029] [''8172'', ''Realtek RTL8191SE Wireless LAN 802.11n PCI-E NIC''],
  Init [Const 0x10EC, Const 0x8039] [''10EC'', ''10EC''],
  Init [Const 0x10EC, Const 0x8136] [''RTL8102ENetwork Controller'' @ [CHR 0x09] @ ''PCI'' @ [CHR 0x5C] @ ''VEN_10EC&DEV_8136&S'', ''Realtek 10/100/1000 PCI-E NIC Family''],
  Init [Const 0x10EC, Const 0x8137] [''RTL8102E'', ''Realtek 10/100/1000 PCI-E NIC Family''],
  Init [Const 0x10EC, Const 0x8139] [''RTL8139http://pcidatabase.com/update_device.php? _'', ''Realtek RTL8139 &#1057;&#1077;&#1084;&#1100;&#1080; PCI Fast Ethernet NIC''],
  Init [Const 0x10EC, Const 0x8167] [''RTL8167'', ''Realtek RTL8169/8110''],
  Init [Const 0x10EC, Const 0x8168] [''RTL8168E/RTL8111F/RTL'', ''PCIe GBE &#1057;&#1077;&#1084;&#1100;&#1080; &#1050;&#1086;&#1085;&#1090;&#1088;&#1086;&#1083;&#1083''],
  Init [Const 0x10EC, Const 0x8169] [''8169S'', ''Realtek RTL8169'' @ [CHR 0x5C] @ ''8110 &#1057;&#1077;&#1084;&#1100;&#1080; Gigabit Ethernet''],
  Init [Const 0x10EC, Const 0x816C] [''Realtek virtual IPMI'', [CHR 0x5C] @ ''10EC'' @ [CHR 0x5C]],
  Init [Const 0x10EC, Const 0x8171] [''8172'', ''Realtek RTL8191SE &#1041;&#1077;&#1089;&#1087;&#1088;&#1086;&#1074;&#1086;&#1076;&#1085;&#1086;&#108''],
  Init [Const 0x10EC, Const 0x8172] [''RTL8191SE-VA2'', ''Single-Chip IEEE 802.11b/g/n 1T2R WLAN Controller with PCI Express Interface''],
  Init [Const 0x10EC, Const 0x8174] [''RTL8188RU'', ''Realtek RTL8188RU''],
  Init [Const 0x10EC, Const 0x8176] [''RTL8188CE'', ''Realtek RTL8188CE Wireless LAN 802.11n PCI-E NIC''],
  Init [Const 0x10EC, Const 0x8178] [''PCE-N15'', ''ASUS PCE-N15 Wireless LAN PCI-E Card''],
  Init [Const 0x10EC, Const 0x8179] [''RTL8188E'', ''IEEE 802.11b/g/n Single-Chip WiFi Chip''],
  Init [Const 0x10EC, Const 0x8180] [''RTL8180L 802.11b MAC'', ''Network controller''],
  Init [Const 0x10EC, Const 0x8185] [''RTL8188ce'', ''RTL8185L &#1041;&#1077;&#1089;&#1087;&#1088;&#1086;&#1074;&#1086;&#1076;&#1085;&#1086;&#1081; PCI &#''],
  Init [Const 0x10EC, Const 0x8191] [''RTL8192CE'', ''Single-Chip IEEE 802.11b/g/n 2T2R WLAN Controller with PCI Express Interface''],
  Init [Const 0x10EC, Const 0x8199] [''RTL8187SE'', ''http://www.realtek.com/downloads/downloadsView.aspx?Langid=1&PNid=21&PFid=40&Level=5&Conn=4&DownType''],
  Init [Const 0x10EC, Const 0x8339] [''RTL8139'', ''Realtek 10/100M Fast Ethernet Controller''],
  Init [Const 0x10EC, Const 0x8609] [''Realtek AC97Audio'', ''Realtek 171 High Definition Audio''],
  Init [Const 0x10EC, Const 0x8723] [''8723AE'', ''Realtek 8191SE Wireless LAN''],
  Init [Const 0x10EC, Const 0x8979] [''RTL8168'', ''PCIe Gigabit Ethernet Family Controller''],
  Init [Const 0x10EC, Const 0x9876] [''Realtek AC97Audio drivers'', ''Realtek 171 High Definition Audio''],
  Init [Const 0x10EC, Const 0xA167] [''Realtek RTL8110SC-&#1043;&#1056;.'', ''Realtek RTL8110SC-&#1043;&#1056;.''],
  Init [Const 0x10EC, Const 0xB723] [''unkown'', ''Realtek RTL8723BE Wireless LAN 802.11n PCI-NIC #4''],
  Init [Const 0x10EC, Const 0xC139] [''5229'', ''PCIE RTS5229 card reader'']]"

lemma PciDevTable_15_facts:
  "length PciDevTable_15 = 150" "rejected PciDevTable_15 = 1" "oversized PciDevTable_15 = 1"
  "vendors PciDevTable_15 \<subseteq> Const ` set vendor_numbers"
  unfolding PciDevTable_15_def count_rows by (simp_all add: part_simps listed vendor_known_list cong: part_cong count_rows_cong)

definition PciDevTable_16 :: "initializer list" where
 "PciDevTable_16 = [
  Init [Const 0x05E1, Const 0x0408] [''00000000000'', ''USB 2.0 Video Capture Controller''],
  Init [Const 0x05E1, Const 0x0501] [''120315000000621'', ''web cam''],
  Init [Const 0x0553, Const 0x0200, Const 0x0201, Const 0x02] [''DS38xx'', ''Oregon Scientific''],
  Init [Const 0x093A, Const 0x2468] [''Genius iLook 110'', ''http://genius.ru/products.aspx?pnum=24948&archive=1''],
  Init [Const 0x093A, Const 0x2608] [''PAC7311 - Toshiba PX1342E-1 CAM'', ''USB'' @ [CHR 0x5C] @ ''VID_093A&PID_2608&REV_0100&MI_00''],
  Init [Const 0x093A, Const 0x2620] [''CNR-WCAM53G'', ''WEBCAM http://www.canyon-tech.com/archive/voip/webcams/CNR-WCAM53#pr-switcher''],
  Init [Const 0x1904, Const 0x2031] [''n /a'', ''controladora ethernet''],
  Init [Const 0x1904, Const 0x8139] [''8139'', ''Realtek RTL8139 PCI Fast Ethernet Adapter''],
  Init [Const 0x1904, Const 0x8139] [''8139'', ''Realtek RTL8139 PCI Fast Ethernet Adapter''],
  Init [Const 0x0B05, Const 0x170C] [''6205'', ''WIFI USB Card''],
  Init [Const 0x1B73, Const 0x1000] [''1'', ''PCI'' @ [CHR 0x5C] @ ''VEN_1000&DEV_0020&SUBSYS_10301000&REV_01PCI'' @ [CHR 0x5C] @ ''VEN''],
  Init [Const 0x1B73, Const 0x1100] [''n/a'', ''USB 3.0 eXtensibile Host controller''],
  Init [Const 0x17FE, Const 0x2220] [''n/a'', ''Generic IEEE 802.11b/g Wireless LAN Card''],
  Init [Const 0x0DF6, Const 0x9071] [''   '' @ [CHR 0x5C] @ ''t9071'' @ [CHR 0x5C] @ ''t WL-113 - Wireless Network USB dongle 5'', [CHR 0x5C] @ ''t9071'' @ [CHR 0x5C] @ ''t   WL-113 - Wireless Network USB dongle 54g  ''],
  Init [Const 0x1682, Const 0x9875] [[], []],
  Init [Const 0x1B6F, Const 0x7023] [''DEV_7023&REV_010'', ''Etron USB 3.0 Extensible Host Controller''],
  Init [Const 0x0E8D, Const 0x0002] [''2200'', ''PCI Simple Communications Controller / Mobiles China''],
  Init [Const 0x0E8D, Const 0x0003] [''VT6212L'', ''usb''],
  Init [Const 0x0CF3, Const 0x1002] [''Wireless USB 2.0 adapter TL-WN821N'', ''Wireless USB 2.0 adapter TL-WN821N''],
  Init [Const 0x0CF3, Const 0x3000] [''&#1085;&#1077;&#1080;&#1079;&#1074;&#1077;&#1089;&'', ''&#1085;&#1077;&#1080;&#1079;&#1074;&#1077;&#1089;&#1090;&#1085;&#1086;&#1077; &#1091;&#1089;&#1090;&''],
  Init [Const 0x0CF3, Const 0x3002] [''unknown'', ''unkown''],
  Init [Const 0x0CF3, Malformed ''0x3002_''] [''unknown'', ''unknown''],
  Init [Const 0x0CF3, Const 0x3005] [''AR3011'', ''Atheros Bluetooth Module''],
  Init [Const 0x0CF3, Const 0x9271] [''0x0108'', ''TP-LINK 150 Mbps Wireless Lite N Adapter TL-WN721N''],
  Init [Const 0x1491, Const 0x0020] [''USB Fingerprint Scanner Model FS80'', ''USB Fingerprint Scanner Model FS80''],
  Init [Const 0x1491, Const 0x0021] [''USB Fingerprint Scanner Model FS80'', ''USB Fingerprint Scanner Model FS80''],
  Init [Const 0x0483, Const 0x2016] [''UPEK fingerprint sensors '', ''Driver Windows xp''],
  Init [Const 0x0AC8, Const 0x1234] [''1'', ''1''],
  Init [Const 0x0AC8, Const 0x6719] [''asus'', ''PCI'' @ [CHR 0x5C] @ ''VEN_8086&DEV_27DA&SUBSYS_81791043&REV_01'' @ [CHR 0x5C] @ ''3&11583659&0&FB''],
  Init [Const 0x1688, Const 0x0013] [''AR5213'', []],
  Init [Const 0x0402, Const 0x5606] [''0x8086'', ''0x2592''],
  Init [Const 0x0402, Const 0x9665] [''0009'', ''ZCT8YBT''],
  Init [Const 0x17A1, Const 0x0128] ['' 17A1'', ''USB2.0 JPEG WebCam ''],
  Init [Const 0x096E, Const 0x0201] [''Rockey4'', '' ''],
  Init [Const 0x04F2, Const 0xB008] [''.'', ''.oem44.inf''],
  Init [Const 0x04F2, Const 0xB175] [''0001'', ''SN''],
  Init [Const 0x04F2, Const 0xB307] [''6030'', ''Webcam''],
  Init [Const 0x1912, Const 0x0014] [''YET-D720201-0014'', ''usb3.0 renesas''],
  Init [Const 0x1912, Const 0x0015] ['' upd720202'', '' nec''],
  Init [Const 0x1912, Malformed ''0x0015_''] [''EC01-P'', ''Renesas Electronics USB 3.0 Host Controller''],
  Init [Const 0x4348, Const 0x1453] [''202204073'', ''WCH353L''],
  Init [Const 0x4348, Const 0x3253] [''32534348'', ''SIE9835 PCI=>DUAL SERIAL''],
  Init [Const 0x4348, Const 0x5053] [''4348'', ''5053''],
  Init [Const 0x4348, Const 0x7173] [''ch'', '' CH35X''],
  Init [Const 0x0A92, Const 0x1010] [''1010&REV_0101&MI_00'', '' RoMI/o by Egosys - Midi USB Cable''],
  Init [Const 0x1B21, Const 0x1041] [''SUBSYS_2104174C'', ''USB 3.0 Host Controller Driver for Windows 7''],
  Init [Const 0x1B21, Const 0x1042] [''1'', ''Asmedia ASM104x USB 3.0 Host Controller''],
  Init [Const 0x8087, Const 0x0028] [''NV05'', ''MCP67 High Definition Audio''],
  Init [Const 0x8087, Const 0x07D6] [''612BNXHMW'', ''Intel Centrino Wireless-N + WiMAX 6150''],
  Init [Const 0x06FE, Const 0x9700] [''i don'' @ [CHR 0x27] @ ''t know'', ''a netcard used usb interface''],
  Init [Const 0x0D8C, Const 0x0102] [''6206lc'', ''USB 5.1CH audio codec''],
  Init [Const 0x0D8C, Const 0x5200] [''0x5200'', ''C-Media USB 2.0 Mass Storage Controller''],
  Init [Const 0x1C39, Const 0x0300] [''PEGAVIO'', ''Pegasus Board PCI-e interface''],
  Init [Const 0x168C, Malformed ''0x 001c''] [''AR5005GS'', ''pci'' @ [CHR 0x5C] @ ''ven_10ac&dev_ooo''],
  Init [Const 0x168C, Const 0x00027] [''E017105B'', ''Atheros AR5B95 Wireless LAN 802.11 a/b/g/n Controller''],
  Init [Const 0x168C, Const 0x00030] [''PCI'' @ [CHR 0x5C] @ ''VEN_168C&DEV_0030&SUBSYS_3112168C&REV_01'', ''TP-LINK 450Mbps Wireless N Adapter''],
  Init [Const 0x168C, Const 0x0007] [''AR5007EG'', ''Wireless Network Adapter''],
  Init [Const 0x168C, Const 0x0011] [''11a/b/g Wireless LAN Mini PCI Adapter'', ''11a/b/g Wireless LAN Mini PCI Adapter''],
  Init [Const 0x168C, Const 0x0012] [''AR5211'', '' PCI'' @ [CHR 0x5C] @ ''VEN_1217&DEV_7130&SUBSYS_FF501179&REV_01 DELL Latitude C510 as mini-PCI board behind the larg''],
  Init [Const 0x168C, Const 0x0013] [''Netgear WPN311'', ''Netgear RangeMax WPN311 PCI Wireless NIC''],
  Init [Const 0x168C, Const 0x0019] [''AR5bmb5'', ''802.11a Wireless Adapter''],
  Init [Const 0x168C, Const 0x001A] [''Atheros AR5005GS'', ''http://support1.toshiba-tro.de/tools/updates/atheros-wlan/atheros-wlan-xp-7702331.zip''],
  Init [Const 0x168C, Const 0x001B] [''AR5006X'', ''802.11abg NIC''],
  Init [Const 0x168C, Const 0x001C] [''ACPI'' @ [CHR 0x5C] @ ''PNP0C32'' @ [CHR 0x5C] @ ''1'', ''PCI'' @ [CHR 0x5C] @ ''VEN_8086&DEV_2805&SUBSYS_80860101&REV_1000'' @ [CHR 0x5C] @ ''4&245E8196&0&0301''],
  Init [Const 0x168C, Malformed ''0x001C other''] [''AR5BXB63'', ''Atheros AR5BXB63 WWAN Chip''],
  Init [Const 0x168C, Malformed ''0x001c_again''] [''AR5BXB61'', ''AR5006EX AR5423a''],
  Init [Const 0x168C, Const 0x001D] [''TP-Link TL-WN350GD'', ''PCI'' @ [CHR 0x5C] @ ''VEN_168C&DEV_002E&SUBSYS_E034105B&REV_01'' @ [CHR 0x5C] @ ''4&124A40C8&0&00E1''],
  Init [Const 0x168C, Const 0x002] [''c660'', ''PCI/VEN_168C&DEV_002B&SUBSYS_7173144F&REV_01'' @ [CHR 0x5C] @ ''4&200004B7&0&00E1''],
  Init [Const 0x168C, Const 0x0023] [''AR5416'', ''802.11a/b/g/n&#1041;&#1077;&#1089;&#1087;&#1088;&#1086;&#1074;&#1086;&#1076;&#1085;&#1086;&#1081; PC''],
  Init [Const 0x168C, Const 0x0024] [''AR5B95'', ''Atheros 802.11a/b/g/n''],
  Init [Const 0x168C, Const 0x0027] [''E017105B'', ''Atheros AR5B95 Wireless LAN 802.11 a/b/g/n Controller''],
  Init [Const 0x168C, Const 0x002A] [''2'', ''Atheros AR5B91''],
  Init [Const 0x168C, Const 0x002B] [''1461103c'', ''Atheros AR5B95 ''],
  Init [Const 0x168C, Const 0x002C] [''AR5006'', ''Wireless 802.11 a/b/g/n WiFi Adapter (PCI-Express)''],
  Init [Const 0x168C, Const 0x002D] [''AR9287 rev01'', ''802.11b/g/n''],
  Init [Const 0x168C, Const 0x002E] [''AR9287'', ''Atheros ar9287 PCI &#1052;&#1086;&#1078;&#1083;&#1080;&#1074;&#1086;&#1089;&#1090;&#1110;: &#1047;&#''],
  Init [Const 0x168C, Const 0x0030] [''1102 - 1103'', ''Killer Wireless - N''],
  Init [Const 0x168C, Const 0x0032] [''0x028000'', ''Atheros AR9485''],
  Init [Const 0x168C, Const 0x0034] [''DW1901'', ''802.11a/b/g/n, BT4.0+HS ''],
  Init [Const 0x168C, Const 0x0036] [''Qualcomm Atheros 956x Wireless Adapter'', ''Acer E1-432g''],
  Init [Const 0x168C, Const 0x0037] [''AR1111'', ''Atheros AR1111 WB-EG Wireless Network Adapter''],
  Init [Const 0x168C, Const 0x003E] [''1'', ''1''],
  Init [Const 0x168C, Const 0x007] [''AR5007UG'', ''Wireless Network Adapter''],
  Init [Const 0x168C, Const 0x0280] [''0x002b'', ''PCI'' @ [CHR 0x5C] @ ''VEN_168C&DEV_002B&SUBSYS_30AF185F''],
  Init [Const 0x168C, Const 0x032] [''0x0280'', ''Dell Wireless DW1703 802.11b/g/n, BT4.0 + HS ''],
  Init [Const 0x168C, Const 0x1014] [''AR5112'', ''Atheros AR5212 802.11abg wireless Drivers''],
  Init [Const 0x168C, Const 0x14F1] [''nForce6100-430  '', ''PCI'' @ [CHR 0x5C] @ ''VEN_168C&DEV_001A&SUBSYS_04181468&REV_01'' @ [CHR 0x5C] @ ''4&FCF0450&0&10A4''],
  Init [Const 0x168C, Const 0x168C] [''0x001b'', ''PCI'' @ [CHR 0x5C] @ ''VEN_168C''],
  Init [Const 0x168C, Const 0x1A3B] [''ar8132'', ''802.11a/b/g/n Wireless PCI Adapte''],
  Init [Const 0x168C, Const 0x3002] [''AR3011'', ''Bluetooth 3.0''],
  Init [Const 0x168C, Const 0x6666] [''AR5007UG'', ''Atheros AR5B95 Wireless LAN 802.11 a/b/g/n Controller''],
  Init [Const 0x168C, Const 0x9876] [''AR5419'', ''Atheros AR5B95 Wireless LAN 802.11 a/b/g/n Controller''],
  Init [Const 0x168C, Const 0xFF1B] [''AR 5001'', ''Wireless LAN G''],
  Init [Const 0x168C, Const 0xFF96] [''AR5212'', ''LAN-Express AS IEEE 802.11g miniPCI adapter''],
  Init [Const 0x1710, Const 0x5812] [''5812'', ''itech numeric small keyboard''],
  Init [Const 0x1710, Const 0x9835] [''9825'', ''2 serial, 1 LPT port PCI Card''],
  Init [Const 0x1712, Const 0x3038] [''VT6212L'', ''usb''],
  Init [Const 0x1712, Const 0x7130] [''0x1712'', ''unknown''],
  Init [Const 0x1303, Const 0x0001] [''0239'', ''cM67 CompactPCI DSP Card''],
  Init [Const 0x1303, Const 0x0002] [''1'', ''M44/cM44 DSP board''],
  Init [Const 0x1303, Const 0x0003] [''1'', ''Quattro6x DSP board''],
  Init [Const 0x1303, Const 0x0004] [''1'', ''Chico/ChicoPlus Data Acquisition Board''],
  Init [Const 0x1303, Const 0x0005] [''1'', ''Code Hammer Jtag Debugger board''],
  Init [Const 0x1303, Const 0x0006] [''1'', ''Matador DSP board''],
  Init [Const 0x1303, Const 0x0007] [''1'', ''Quixote DSP board''],
  Init [Const 0x1303, Const 0x0008] [''1'', ''Quadia C64x DSP''],
  Init [Const 0x1303, Const 0x0009] [''1'', ''Quadia DSP Baseboard''],
  Init [Const 0x4144, Const 0x0040] [''ADM-XRC'', ''Virtex-E Bridge''],
  Init [Const 0x4144, Const 0x0041] [''ADM-XRC-II Lite'', ''Virtex-II Bridge''],
  Init [Const 0x4144, Const 0x0042] [''ADM-XRC-II'', ''Virtex-II Bridge''],
  Init [Const 0x4144, Const 0x0043] [''ADM-XPL'', ''Virtex-II Pro Bridge''],
  Init [Const 0x4144, Const 0x0044] [''ADM-XP'', ''Virtex-II Pro PCI/PCI-X Bridge''],
  Init [Const 0x4144, Const 0x0045] [''ADP-WRC-II'', ''Virtex-II Bridge''],
  Init [Const 0x4144, Const 0x0046] [''ADP-DRC-II'', ''Virtex-II Bridge''],
  Init [Const 0x4144, Const 0x0049] [''ADP-XPI'', ''Virtex-II Pro PCI''],
  Init [Const 0x4144, Const 0x004A] [''ADP-XPI (PCI-X)'', ''Virtex-II Pro PCI-X Bridge''],
  Init [Const 0x4144, Const 0x004F] [''ADM-XRC-4FX'', ''Virtex-II Pro PCI-X Bridge''],
  Init [Const 0x4144, Const 0x0050] [''ADM-XRC-5LX'', ''Virtex-4LX Bridge''],
  Init [Const 0x4144, Const 0x0051] [''ADM-XRC-5T1'', ''ADM-XRC-5T1''],
  Init [Const 0x4144, Const 0x0052] [''ADM-XRC-5T2'', ''Xilinx Virtex 5 PMC''],
  Init [Const 0x4144, Const 0x0056] [''ADM-AMC-5A2'', ''Virtex 5 AMC FPGA board''],
  Init [Const 0x4144, Const 0x0057] [''ADM-XRC-5TZ'', ''Xilinx Virtex 5 FPGA PMC ''],
  Init [Const 0x4144, Const 0x0058] [''ADC-VXS'', ''VXS FPGA and PMC Carrier Board''],
  Init [Const 0x4144, Const 0x005B] [''ADM-XRC-5T2-ADV'', ''ADM-XRC-5T2 with JPEG 2000 devices''],
  Init [Const 0x4144, Const 0x005C] [''ADM-XRC-5T-DA1'', ''FPGA PMC with Analog I/O Interface''],
  Init [Const 0x4144, Const 0x005F] [''ADM-XRC-5T2-ADV6'', ''As per XRC-5T2 but with 6 JPEG2000 devices''],
  Init [Const 0x4144, Const 0x0300] [''ADM-XRC-6T1'', ''Xilinx Virtex 6 FPGA XMC''],
  Init [Const 0x4144, Const 0x0301] [''ADM-XRC-6TGE'', ''Xilinx Virtex 6 FPGA XMC''],
  Init [Const 0x4144, Const 0x0303] [''ADPe-XRC-6T-L'', ''Full lenght PCI Express Xilinx Virtex-6 FPGA platform''],
  Init [Const 0x4144, Const 0x0305] [''ADPe-XRC-6T'', ''Full length PC Card Xilinx Virtex-6 FPGA platform''],
  Init [Const 0x17E9, Const 0x02A7] [''0000'', ''USB VGA/DVI Adapter UV-D4A1-B''],
  Init [Const 0x1332, Const 0x5410] [''MM-5410D'', ''PCI 32bit Bulk Memory w/DMA''],
  Init [Const 0x1332, Const 0x5415] [''MM-5415CN'', ''PCI Battery Backed SDRAM Adapter''],
  Init [Const 0x1332, Const 0x5425] [''MM-5425CN'', ''PCI Memory Module with Battery Backup''],
  Init [Const 0x1332, Const 0x6140] [''MM-6140D'', ''Memory Module''],
  Init [Const 0x1888, Const 0x0301] [[], []],
  Init [Const 0x1888, Const 0x0601] [[], []],
  Init [Const 0x1888, Const 0x0710] [[], []],
  Init [Const 0x1888, Const 0x0720] [[], []],
  Init [Const 0x1888, Const 0x2503] [''Bt881'', ''Video Capture (10 bit High qualtiy cap)''],
  Init [Const 0x1888, Const 0x2504] [''Bt878'', ''Video Capture''],
  Init [Const 0x1888, Const 0x3503] [''nVidia NV28'', ''VGA Geforce4 MX440''],
  Init [Const 0x1888, Const 0x3505] [''nVidia NV28'', ''VGA Geforce4 Ti4200''],
  Init [Const 0x167F, Const 0x4634] [[], ''FOB-IO Card''],
  Init [Const 0x167F, Const 0x4C32] [[], ''L2B PCI Board''],
  Init [Const 0x167F, Const 0x5344] [''SD '' @ [CHR 0x5C] @ '' VID_03 '' @ [CHR 0xD0, CHR 0xB8] @ '' OID_5344 '' @ [CHR 0xD0, CHR 0xB8] @ '' PID_SU01G '' @ [CHR 0xD0, CHR 0xB8] @ '' REV_8.0'', ''FOB-SD Card''],
  Init [Const 0x167F, Const 0x5443] [[], ''FOB-TDC Card''],
  Init [Const 0x167F, Const 0xF0B2] [''ibaFOB-2io-D'', ''ibaFOB-2io-D''],
  Init [Const 0x167F, Const 0xF0B4] [''ibaFOB-4io-D'', ''ibaFOB-4io-D''],
  Init [Const 0x14B5, Const 0x0200] [''Scope'', []]]"

lemma PciDevTable_16_facts:
  "length PciDevTable_16 = 150" "rejected PciDevTable_16 = 6" "oversized PciDevTable_16 = 0"
  "vendors PciDevTable_16 \<subseteq> Const ` set vendor_numbers"
  unfolding PciDevTable_16_def count_rows by (simp_all add: part_simps listed vendor_known_list cong: part_cong count_rows_cong)

definition PciDevTable_17 :: "initializer list" where
 "PciDevTable_17 = [
  Init [Const 0x14B5, Const 0x0300] [''Pulsar'', []],
  Init [Const 0x14B5, Const 0x0400] [''Pulsar SRB'', []],
  Init [Const 0x14B5, Const 0x0600] [''Pulsar 2'', []],
  Init [Const 0x14B5, Const 0x0800] [[], ''DSP-Board''],
  Init [Const 0x14B5, Const 0x0900] [''1039'', ''DSP-Board''],
  Init [Const 0x14B5, Const 0x0A00] [[], ''DSP-Board''],
  Init [Const 0x14B5, Const 0x0B00] [[], ''DSP-Board''],
  Init [Const 0x148C, Const 0x4011] [''RV250'', ''RADEON 9000 PRO EVIL COMMANDO''],
  Init [Const 0x148C, Const 0x4152] [''0x1002'', ''0x2079''],
  Init [Const 0x174B, Const 0x0260] [''RV280'', ''Saphire Radeon 9250''],
  Init [Const 0x174B, Const 0x0261] [''RV280'', ''Sapphire Radeon 9250 - Secondary''],
  Init [Const 0x174B, Const 0x7176] [''RV250'', ''RADEON 9000 ATLANTIS PRO''],
  Init [Const 0x174B, Const 0x7177] [''RV280'', ''RADEON 9000 ATLANTIS PRO - Secondary''],
  Init [Const 0x174B, Const 0x7244] [''RV580'', ''Sapphire ATI  X1950 XT''],
  Init [Const 0x174B, Const 0x7C12] [''RV280'', ''RADEON 9200 ATLANTIS - Secondary''],
  Init [Const 0x174B, Const 0x7C13] [''RV280'', ''RADEON 9200 ATLANTIS''],
  Init [Const 0x174B, Const 0x9501] [''RV620 '', ''ATI Radeon HD 3450''],
  Init [Const 0x174B, Const 0xE106] [''0x954F'', ''Graphics Chipset'' @ [CHR 0x09] @ ''ATI Radeon HD 4300/4500 Series       '' @ [CHR 0x09]],
  Init [Const 0x174B, Const 0xE131] [''RV770'', ''ATI 4870''],
  Init [Const 0x174B, Const 0xE140] [''5870'', ''Sapphire HD 5870 1GB GDDR5''],
  Init [Const 0x17EE, Const 0x4153] [''RV350'', ''Radeon 9550''],
  Init [Const 0x1328, Const 0x2048] [[], []],
  Init [Const 0x1328, Const 0x8888] [''rev 1.5'', ''cPEG'' @ [CHR 0x99] @ '' C 3.0 DVD/MPEG2 decoder''],
  Init [Const 0x16EC, Const 0x0116] [''RTL8169S'', ''RealTek 8169S chip''],
  Init [Const 0x16EC, Const 0x0303] [''Rev_0200'', ''U.S. Robotics 56K FAX USB V1.1.0 /  V.92 USB modem''],
  Init [Const 0x16EC, Const 0x1007] [''0637'', ''U.S. Robotics 56K Win INT''],
  Init [Const 0x16EC, Const 0x2013] [''11323A'', ''U.S. Robotics 56K Voice Host Int''],
  Init [Const 0x16EC, Const 0x2F00] [''USRobotics 5660A - Internal Soft Modem'', ''http://www.usr.com/support/product-template.asp?prod=5660a''],
  Init [Const 0x16EC, Const 0x2F12] [''E129336-1'', ''U.S.Robotic (A- Modem/PCI)''],
  Init [Const 0x16EC, Const 0x3685] [''1518'', ''Wireless Access Adapter Model 022415''],
  Init [Const 0x16EC, Const 0x5685] [''E129336-1'', ''U.S. Robotics 56K Voice Host Int (A-Modem/ PCI)''],
  Init [Const 0x003D, Const 0x003D] [''mx98715/25'', ''1740pci''],
  Init [Const 0x003D, Const 0x00D1] [''mx98715/25'', ''i740 PCI''],
  Init [Const 0x0E11, Const 0x0001] [''2'', ''PCI to EISA Bridge''],
  Init [Const 0x0E11, Const 0x0002] [''55919'', ''W9B0Tx  <a href=''],
  Init [Const 0x0E11, Const 0x000F] [''CPQB1A9'', ''StorageWorks Library Adapter (HVD)''],
  Init [Const 0x0E11, Const 0x0012] [''686P7'', ''686P7''],
  Init [Const 0x0E11, Const 0x0046] [''Intel Exteme Graphics'', ''Smart Array 6400 Controller''],
  Init [Const 0x0E11, Const 0x0049] [''NC7132'', ''Gigabit Upgrade Module''],
  Init [Const 0x0E11, Const 0x004A] [''NC6136'', ''Gigabit Server Adapter''],
  Init [Const 0x0E11, Const 0x005A] [''PowerPC 405GP processor at 200MHz [3305103C]'', ''HP Remote Insight Lights-Out II Board''],
  Init [Const 0x0E11, Const 0x00B1] [''3305103C'', ''HP Remote Insight Lights-Out II PCI Device''],
  Init [Const 0x0E11, Const 0x00C0] [''Adaptec AIC-7899G'', ''64Bit,66MHz,Dual Channel WideUltra3 SCSI''],
  Init [Const 0x0E11, Const 0x0508] [''Neteligent 4/16 TR'', ''PCI UTP/STP Controller''],
  Init [Const 0x0E11, Const 0x1000] [''Triflex Model 1000'', ''Pentium Bridge''],
  Init [Const 0x0E11, Const 0x2000] [''Triflex Model 2000'', ''Pentium Bridge''],
  Init [Const 0x0E11, Const 0x3032] [''42692'', ''krLXy0  <a href=''],
  Init [Const 0x0E11, Const 0x3033] [''25744'', ''4anmlO  <a href=''],
  Init [Const 0x0E11, Const 0x3034] [''QVision 1280/p v2'', ''GUI Accelerator''],
  Init [Const 0x0E11, Const 0x4000] [''Triflex Model 4000'', ''Pentium Bridge''],
  Init [Const 0x0E11, Const 0x6010] [''Model 6010'', ''HotPlug PCI Bridge''],
  Init [Const 0x0E11, Const 0x7020] [''camara web'', ''USB Controller''],
  Init [Const 0x0E11, Const 0xA0EC] [[], ''Original Compaq fibre Channel HBA''],
  Init [Const 0x0E11, Const 0xA0F0] [[], ''Advanced System Management Controller''],
  Init [Const 0x0E11, Const 0xA0F3] [[], ''Triflex PCI to ISA PnP Bridge''],
  Init [Const 0x0E11, Const 0xA0F7] [''PCI bus 6, device 4, function 4'', ''PCI Hotplug Controller''],
  Init [Const 0x0E11, Const 0xA0F8] [''ZFMicro'', ''USB Open Host Controller''],
  Init [Const 0x0E11, Const 0xA0FC] [''HPFC-5166A'', ''Tachyon TL 64-bit/66-Mhz FC HBA''],
  Init [Const 0x0E11, Const 0xAE10] [[], ''Smart-2 Array Controller''],
  Init [Const 0x0E11, Const 0xAE29] [''MIS-L'', ''PCI to ISA Bridge''],
  Init [Const 0x0E11, Const 0xAE2A] [''MPC'', ''CPU to PCI Bridge''],
  Init [Const 0x0E11, Const 0xAE2B] [''MIS-E'', ''PCI to ISA PnP Bridge''],
  Init [Const 0x0E11, Const 0xAE31] [''1002&DEV-5653&SUBSYS'', ''System Management Controller''],
  Init [Const 0x0E11, Const 0xAE32] [''950'', ''Netelligent 10/100 TX PCI UTP TLAN 2.3''],
  Init [Const 0x0E11, Const 0xAE33] [''Triflex'', ''Dual EIDE Controller''],
  Init [Const 0x0E11, Const 0xAE34] [[], ''Netelligent 10 T PCI UTP TLAN 2.3''],
  Init [Const 0x0E11, Const 0xAE35] [[], ''Integrated NetFlex 3/P TLAN 2.3''],
  Init [Const 0x0E11, Const 0xAE40] [[], ''Dual Port Netelligent 10/100 TX PCI TLAN''],
  Init [Const 0x0E11, Const 0xAE43] [[], ''Integrated Netelligent 10/100 TX PCI''],
  Init [Const 0x0E11, Const 0xAE69] [''CETUS-L'', ''PCI to ISA Bridge''],
  Init [Const 0x0E11, Const 0xAE6C] [''DRACO'', ''PCI Bridge''],
  Init [Const 0x0E11, Const 0xAE6D] [''NorthStar'', ''CPU to PCI Bridge''],
  Init [Const 0x0E11, Const 0xB011] [[], ''Dual Port Netelligent 10/100 TX''],
  Init [Const 0x0E11, Const 0xB012] [''Netelligent 10 T/2'', ''UTP/Coax PCI''],
  Init [Const 0x0E11, Const 0xB01E] [''NC3120'', ''Fast Ethernet NIC''],
  Init [Const 0x0E11, Const 0xB01F] [''NC3122'', ''Fast Ethernet NIC''],
  Init [Const 0x0E11, Const 0xB02F] [''NC1120'', ''Ethernet NIC''],
  Init [Const 0x0E11, Const 0xB030] [''Netelligent WS 1500'', ''10/100TX Embedded UTP/Coax Controller''],
  Init [Const 0x0E11, Const 0xB04A] [''699209-003'', ''10/100TX WOL UTP Controller''],
  Init [Const 0x0E11, Const 0xB060] [''CISS'', ''SMART2 Array Controller''],
  Init [Const 0x0E11, Const 0xB0C6] [''NC3161'', ''Fast Ethernet Embedded Controller w/ WOL''],
  Init [Const 0x0E11, Const 0xB0C7] [''NC3160'', ''Fast Ethernet NIC''],
  Init [Const 0x0E11, Const 0xB0D7] [''NC3121 rev. A & B'', ''Fast Ethernet NIC''],
  Init [Const 0x0E11, Const 0xB0DD] [''NC3131'', ''Fast Ethernet NIC''],
  Init [Const 0x0E11, Const 0xB0DE] [''NC3132'', ''Fast Ethernet NIC''],
  Init [Const 0x0E11, Const 0xB0DF] [''NC6132'', ''Gigabit Module''],
  Init [Const 0x0E11, Const 0xB0E0] [''NC6133'', ''Gigabit Module''],
  Init [Const 0x0E11, Const 0xB0E1] [''NC3133'', ''Fast Ethernet Module''],
  Init [Const 0x0E11, Const 0xB123] [''NC6134'', ''Gigabit NIC''],
  Init [Const 0x0E11, Const 0xB134] [''NC3163'', ''Fast Ethernet NIC''],
  Init [Const 0x0E11, Const 0xB13C] [''NC3162'', ''Fast Ethernet NIC''],
  Init [Const 0x0E11, Const 0xB144] [''NC3123'', ''Fast Ethernet NIC''],
  Init [Const 0x0E11, Const 0xB163] [''NC3134'', ''Fast Ethernet NIC''],
  Init [Const 0x0E11, Const 0xB164] [''NC3135'', ''Fast Ethernet Upgrade Module''],
  Init [Const 0x0E11, Const 0xB178] [''CISSB'', ''SMART2 Array Controller''],
  Init [Const 0x0E11, Const 0xB196] [''0230'', ''Conexant SoftK56 Modem''],
  Init [Const 0x0E11, Const 0xB1A4] [''NC7131'', ''Gigabit Server Adapter''],
  Init [Const 0x0E11, Const 0xB203] [''iLo'', ''Integrated Lights Out Processor''],
  Init [Const 0x0E11, Const 0xB204] [''iLo'', ''Integrated Lights Out Processor''],
  Init [Const 0x0E11, Const 0xF095] [''FCA2101'', ''HP StorageWorks 2 Gb, 64-Bit/66-MHz PCI-to-Fibre Channel Host Bus Adapter for Windows 2000, Windows''],
  Init [Const 0x0E11, Const 0xF130] [[], ''ThunderLAN 1.0 NetFlex-3/P''],
  Init [Const 0x0E11, Const 0xF150] [''PCI'' @ [CHR 0x5C] @ ''VEN_14E4&DEV_1698&REV_10'', ''ThunderLAN 2.3 NetFlex-3/P with BNC''],
  Init [Const 0x0E11, Const 0xF700] [[], ''LP7000 Compaq/Emulex Fibre Channel HBA''],
  Init [Const 0x0E11, Const 0xF800] [[], ''LP8000 Compaq/Emulex Fibre Channel HBA''],
  Init [Const 0x1000, Const 0x0001] [''LSI53C810'', ''PCI-SCSI I/O Processor''],
  Init [Const 0x1000, Const 0x0002] [''53C820'', ''Fast-wide SCSI gg''],
  Init [Const 0x1000, Const 0x0003] [''LSI53C1010-33'', ''PCI to SCSI I/O Processor''],
  Init [Const 0x1000, Const 0x0004] [''53C815'', ''SCSI raid controllers''],
  Init [Const 0x1000, Const 0x0005] [''53C810AP'', ''Fast SCSI''],
  Init [Const 0x1000, Const 0x0006] [''LSI53C860/860E'', ''PCI to Ultra SCSI I/O Processor''],
  Init [Const 0x1000, Const 0x000A] [''LSI53C1510'', ''PCI Dual Channel Wide Ultra2 SCSI Ctrlr''],
  Init [Const 0x1000, Const 0x000B] [''LSI53C896/897'', ''PCI Dual Channel Wide Ultra2 SCSI Ctrlr''],
  Init [Const 0x1000, Const 0x000C] [''LSI53C895'', ''PCI to Ultra2 SCSI I/O Processor''],
  Init [Const 0x1000, Const 0x000D] [''53C885'', ''Ultra Wide SCSI, Ethernet''],
  Init [Const 0x1000, Const 0x000F] [''53C875/875E/876/876E'', ''PCI to Ultra SCSI I/O Processor''],
  Init [Const 0x1000, Const 0x0010] [''LSI53C1510'', ''I2O-Ready PCI RAID Ultra2 SCSI Ctrlr''],
  Init [Const 0x1000, Const 0x0012] [''LSI53C895A'', ''PCI to Ultra2 SCSI Controller''],
  Init [Const 0x1000, Const 0x0013] [''LSI53C875A'', ''PCI to Ultra SCSI Controller''],
  Init [Const 0x1000, Const 0x0020] [''LSI53C1010-33'', ''PCI to Dual Channel Ultra3 SCSI Ctrlr''],
  Init [Const 0x1000, Const 0x0021] [''LSI53C1000/1000R/1010R/1010-66'', ''PCI to Ultra160 SCSI Controller''],
  Init [Const 0x1000, Const 0x0030] [''LSI53C1020/1030'', ''PCI-X to Ultra320 SCSI Controller''],
  Init [Const 0x1000, Const 0x0031] [''LSI53C1030ZC'', ''PCI-X SCSI Controller''],
  Init [Const 0x1000, Const 0x0032] [''LSI53C1035'', ''PCI-X to Ultra320 SCSI Controller''],
  Init [Const 0x1000, Const 0x0035] [''LSI53C1035'', ''PCI-X SCSI Controller''],
  Init [Const 0x1000, Const 0x0040] [''LSI53C1035'', ''PCI-X to Ultra320 SCSI Controller''],
  Init [Const 0x1000, Const 0x0050] [''LSISAS1068E'', ''LSISAS1068E / LSI SAS 6i RAID Controller''],
  Init [Const 0x1000, Const 0x0054] [''LSISAS1068'', ''PCI-X Fusion-MPT SAS''],
  Init [Const 0x1000, Const 0x0056] [''LSISAS1064ET'', ''PCI-Express Fusion-MPT SAS''],
  Init [Const 0x1000, Const 0x0058] [''LSISAS1068E'', ''PCI-Express Fusion-MPT SAS''],
  Init [Const 0x1000, Const 0x005B] [''LSISAS2108/2208'', ''LSI Logic / Symbios Logic MegaRAID SAS 2208 [Thunderbolt] [1000:005b] (rev 05)''],
  Init [Const 0x1000, Const 0x005E] [''LSISAS1066'', ''PCI-X Fusion-MPT SAS''],
  Init [Const 0x1000, Const 0x0060] [''0x1734'', ''0x10f9''],
  Init [Const 0x1000, Const 0x0062] [''LSISAS1078'', ''PCI-Express Fusion-MPT SAS''],
  Init [Const 0x1000, Const 0x0064] [''LSISAS2116'', ''PCI-Express Fusion-MPT SAS 2.0''],
  Init [Const 0x1000, Const 0x0072] [''SAS2008'', ''Dell PERC H200''],
  Init [Const 0x1000, Const 0x0073] [''LSISAS2008'', ''IBM ServeRAID M1015''],
  Init [Const 0x1000, Const 0x008F] [''53C810'', ''LSI 53C8xx SCSI host adapter chip''],
  Init [Const 0x1000, Const 0x0408] [''L3-01037-03D'', ''U320-2E Raid Controller''],
  Init [Const 0x1000, Const 0x0621] [''LSIFC909'', ''Fibre Channel I/O Processor''],
  Init [Const 0x1000, Const 0x0622] [''53c885'', ''Dial Channel Fibre Channel I/O Processor''],
  Init [Const 0x1000, Const 0x0623] [''LSIFC929'', ''Dual Channel Fibre Channel I/O Processor''],
  Init [Const 0x1000, Const 0x0624] [''LSIFC919'', ''Fibre Channel I/O Processor''],
  Init [Const 0x1000, Const 0x0625] [''LSIFC919'', ''Fibre Channel I/O Processor''],
  Init [Const 0x1000, Const 0x0626] [''LSIFC929X'', ''Fibre Channel Adapter''],
  Init [Const 0x1000, Const 0x0628] [''LSIFC919X'', ''Fibre Channel Adapter''],
  Init [Const 0x1000, Const 0x0630] [''LSIFC920'', ''Fibre Channel I/O Processor''],
  Init [Const 0x1000, Const 0x0640] [''LSIFC949X'', ''Fibre Channel Adapter''],
  Init [Const 0x1000, Const 0x0642] [''LSIFC939X'', ''Fibre Channel Adapter''],
  Init [Const 0x1000, Const 0x0646] [''LSIFC949ES'', ''Fibre Channel Adapter''],
  Init [Const 0x1000, Const 0x0701] [''53C885'', ''10/100 MBit Ethernet'']]"

lemma PciDevTable_17_facts:
  "length PciDevTable_17 = 150" "rejected PciDevTable_17 = 0" "oversized PciDevTable_17 = 0"
  "vendors PciDevTable_17 \<subseteq> Const ` set vendor_numbers"
  unfolding PciDevTable_17_def count_rows by (simp_all add: part_simps listed vendor_known_list cong: part_cong count_rows_cong)

definition PciDevTable_18 :: "initializer list" where
 "PciDevTable_18 = [
  Init [Const 0x1000, Const 0x0702] [''Yellowfin G-NIC'', ''Gigabit Ethernet Controller''],
  Init [Const 0x1000, Const 0x0901] [''61C102'', ''USB Controller''],
  Init [Const 0x1000, Const 0x1000] [''63C815'', ''Fast SCSI Controller''],
  Init [Const 0x1000, Const 0x1001] [''53C895'', ''Symbios Ultra2 SCSI controller''],
  Init [Const 0x1000, Const 0x1010] [''LSI 53C102000'', ''Single channel SCSI controller''],
  Init [Const 0x1000, Const 0x1020] [''LSI53C1020'', ''LSI Logic MegaRAID 320-1 Dell PowerEdge PERC 4/SC''],
  Init [Const 0x1000, Const 0x1960] [''6002432'', ''RAID Controller''],
  Init [Const 0x1000, Const 0x9876] [''7DB82C.YF.F.3.25'', ''5946504E44383243''],
  Init [Const 0x1002, Malformed ''0x 4370''] [''RV370'', ''ATI RADEON X300/X550/X1050 Series Secondary''],
  Init [Const 0x1002, Malformed ''0x00000100 (256)''] [''{4D36E968-E325-11CE-BFC1-08002BE10318}'', ''{4D36E968-E325-11CE-BFC1-08002BE10318}''],
  Init [Const 0x1002, Const 0x0002] [''EMU10K1'', ''Audio Cipset (SB) Livel''],
  Init [Const 0x1002, Const 0x000D] [''bhjkh'', ''ATI RADEON X1200 &#1089;&#1077;&#1088;&#1080;&#1080;''],
  Init [Const 0x1002, Const 0x0180200A] [''LXPAY0Y001926158A92000        '', ''AMD Athlon(tm) X2 Dual-Core QL-62''],
  Init [Const 0x1002, Const 0x0300] [''1002'', ''PCI''],
  Init [Const 0x1002, Const 0x0B12] [''R580'', ''ATI Radeon X1900''],
  Init [Const 0x1002, Const 0x1002] [''0x675d pcie'', ''0x675d pcie''],
  Init [Const 0x1002, Const 0x10024152] [''RV360'', ''ATI RADEON 9250 Series''],
  Init [Const 0x1002, Const 0x1043] [''RV410'', ''ATI MOBILITY/ATI RADEON X700''],
  Init [Const 0x1002, Const 0x11] [''0x215r2qzua21'', ''0xbcg62''],
  Init [Const 0x1002, Const 0x1111] [''ATI Technologies Inc. / Advanced Micro Devices, In'', ''ATI Technologies Inc. ''],
  Init [Const 0x1002, Const 0x1714] [''A4-3400'', ''AMD Radeon'' @ [CHR 0x99] @ '' HD 6410D Audio''],
  Init [Const 0x1002, Malformed ''0x1ab8 hex''] [''2'', ''ati radeon ''],
  Init [Const 0x1002, Const 0x3150] [''M24'', ''ATI MOBILITY /ATI RADEON X600''],
  Init [Const 0x1002, Const 0x3151] [''RV380'', ''ATI FireMV 2400''],
  Init [Const 0x1002, Const 0x3152] [''M24'', ''ATI MOBILITY /ATI RADEON X300''],
  Init [Const 0x1002, Const 0x3154] [''M24GL'', ''ATI MOBILITY FireGL V3200''],
  Init [Const 0x1002, Const 0x3171] [''RV380'', ''ATI FireMV 2400 Secondary''],
  Init [Const 0x1002, Const 0x3E50] [''PCI'' @ [CHR 0x5C] @ ''VEN_1002&DEV_3E50&SUBSYS_0410174B&REV_00'' @ [CHR 0x5C] @ ''4&243'', ''ATI RADEON X600/X550 Series''],
  Init [Const 0x1002, Const 0x3E54] [''RV380GL'', ''ATI FireGL V3200''],
  Init [Const 0x1002, Const 0x3E70] [''RV380'', ''ATI RADEON X600/X550 Series Secondary''],
  Init [Const 0x1002, Const 0x3E74] [''RV380GL'', ''ATI FireGL V3200 Secondary''],
  Init [Const 0x1002, Const 0x4136] [''A3'', ''Radeon IGP 320''],
  Init [Const 0x1002, Const 0x4137] [''RS200'', ''Radeon IGP 340m''],
  Init [Const 0x1002, Const 0x4143] [''9550'', ''X1050''],
  Init [Const 0x1002, Const 0x4144] [''R300'', ''ATI RADEON 9500''],
  Init [Const 0x1002, Const 0x4145] [''R300'', ''Radeon 9200 (M+X)''],
  Init [Const 0x1002, Const 0x4146] [''R300'', ''ATI RADEON 9600TX''],
  Init [Const 0x1002, Const 0x4147] [''R300GL'', ''ATI FireGL Z1''],
  Init [Const 0x1002, Const 0x4148] [''R350'', ''ATI RADEON 9800 SE''],
  Init [Const 0x1002, Const 0x4149] [''R350'', ''ATI RADEON 9500''],
  Init [Const 0x1002, Const 0x4150] [''RV350'', ''ATI RADEON 9600''],
  Init [Const 0x1002, Const 0x4151] [''RV350'', ''ATI RADEON 9600 Series''],
  Init [Const 0x1002, Const 0x4152] [''RV360'', ''ATI RADEON 9600 Series''],
  Init [Const 0x1002, Const 0x4153] [''RV350'', ''ATI RADEON 9550/X1050 Series''],
  Init [Const 0x1002, Const 0x4154] [''RV350GL'', ''ATI FireGL T2''],
  Init [Const 0x1002, Const 0x4155] [''RV350'', ''ATI RADEON 9600 Series''],
  Init [Const 0x1002, Const 0x4158] [''0x5954'', ''Mach32xBH''],
  Init [Const 0x1002, Const 0x4164] [''R300'', ''ATI RADEON 9500 Secondary''],
  Init [Const 0x1002, Const 0x4166] [''R300'', ''ATI RADEON 9600TX Secondary''],
  Init [Const 0x1002, Const 0x4167] [''R300GL'', ''ATI FireGL Z1 Secondary''],
  Init [Const 0x1002, Const 0x4168] [''R350'', ''ATI RADEON 9800 SE Secondary''],
  Init [Const 0x1002, Const 0x4169] [''R350'', ''ATI RADEON 9500 Secondary''],
  Init [Const 0x1002, Const 0x4170] [''RV350'', ''ATI RADEON 9600 Series Secondary''],
  Init [Const 0x1002, Const 0x4171] [''RV350'', ''ATI RADEON 9600 Series Secondary''],
  Init [Const 0x1002, Const 0x4172] [''REV_00'', ''ATI RADEON 9600 Series Secondary''],
  Init [Const 0x1002, Const 0x4173] [''RV350'', ''ATI RADEON 9550/X1050 Series Secondary''],
  Init [Const 0x1002, Const 0x4174] [''RV350GL'', ''ATI FireGL T2 Secondary''],
  Init [Const 0x1002, Const 0x4175] [''RV350'', ''RADEON 9200 pro secundar''],
  Init [Const 0x1002, Const 0x4242] [''R200AIW'', ''All-In-Wonder 8500DV''],
  Init [Const 0x1002, Const 0x4243] [[], ''Lucent OHCI IEEE1394 Host Controller''],
  Init [Const 0x1002, Const 0x4336] [''rs200'', ''Radeon IGP 320M''],
  Init [Const 0x1002, Const 0x4337] [''RS200M'', ''RADEON IGP 345M''],
  Init [Const 0x1002, Const 0x4341] [''SB200'', ''AC'' @ [CHR 0x27] @ ''97 Audio Controller''],
  Init [Const 0x1002, Const 0x4342] [''SB200'', ''PCI-PCI Bridge''],
  Init [Const 0x1002, Const 0x4345] [''SB200'', ''EHCI USB Controller''],
  Init [Const 0x1002, Const 0x4347] [''SB200'', ''USB Controller''],
  Init [Const 0x1002, Const 0x4348] [''SB200'', ''USB Controller''],
  Init [Const 0x1002, Const 0x4349] [''SB200'', ''PATA-100 IDE Controller''],
  Init [Const 0x1002, Const 0x434C] [''SB200'', ''PCI-ISA Bridge''],
  Init [Const 0x1002, Const 0x434D] [''SB200'', ''AC'' @ [CHR 0x27] @ ''97 Modem Controller''],
  Init [Const 0x1002, Const 0x4353] [''SB200'', ''SMBus Controller''],
  Init [Const 0x1002, Const 0x4354] [''215CT'', ''Mach64 CT''],
  Init [Const 0x1002, Const 0x4358] [''210888CX'', ''PCI'' @ [CHR 0x5C] @ ''VEN_1002&DEV_5B60&SUBSYS_00821043&REV_00''],
  Init [Const 0x1002, Const 0x4361] [''ALC665'', ''ATI AC97 REALTEK AUDIO DRIVER''],
  Init [Const 0x1002, Const 0x4363] [''SB300'', ''ATI SOUTH BRIDGE SB300 DRIVER''],
  Init [Const 0x1002, Const 0x4369] [''IXP 3xx'', ''PATA 133 Controller''],
  Init [Const 0x1002, Const 0x436E] [''IXP 3xx'', ''ATI 436E Serial ATA Controller''],
  Init [Const 0x1002, Const 0x4370] [''SB400'', ''AC'' @ [CHR 0x27] @ ''97 Audio Controller''],
  Init [Const 0x1002, Const 0x4371] [''IXP SB400'', ''PCI-PCI Bridge''],
  Init [Const 0x1002, Const 0x4372] [''SMBus Controller'', ''SMBus Controller''],
  Init [Const 0x1002, Const 0x4373] [''IXP SB400'', ''EHCI USB 2.0 Controller''],
  Init [Const 0x1002, Const 0x4374] [''IXP SB400'', ''OHCI USB Controller''],
  Init [Const 0x1002, Const 0x4375] [''IXP SB400'', ''OHCI USB Controller''],
  Init [Const 0x1002, Const 0x4376] [''SB4xx'', ''PATA 133 Controller''],
  Init [Const 0x1002, Const 0x4377] [''IXP SB400'', ''PCI-ISA Bridge''],
  Init [Const 0x1002, Const 0x4378] [''SB400'', ''AC'' @ [CHR 0x27] @ ''97 Modem Controller''],
  Init [Const 0x1002, Const 0x4379] [''SB400 / SB450 (Sil3112)'', ''ATI 4379 Serial ATA Controller''],
  Init [Const 0x1002, Const 0x437A] [''SB4xx'', ''ATI 437A Serial ATA Controller''],
  Init [Const 0x1002, Const 0x437B] [''SB450'', ''High Definition Audio Controller ''],
  Init [Const 0x1002, Malformed ''0x4380&CC_0101''] [''ATI SB600'', ''SATA2''],
  Init [Const 0x1002, Malformed ''0x4380&CC_0104''] [''ATI SB600'', ''RAID/AHCI Controller''],
  Init [Const 0x1002, Malformed ''0x4380&CC_0106''] [''ATI RS690m'', ''AHCI Controller''],
  Init [Const 0x1002, Const 0x4381] [''ATI ?'', ''AHCI/Raid Controller''],
  Init [Const 0x1002, Const 0x4383] [''SB700'', ''High Definition Audio controller''],
  Init [Const 0x1002, Const 0x4385] [''ATI RD600/RS600'', ''ATI SMBus''],
  Init [Const 0x1002, Const 0x4386] [''690G'', ''Northbridge''],
  Init [Const 0x1002, Const 0x438C] [''RD600/RS600'', ''ATI RD600/RS600 IDE Controller''],
  Init [Const 0x1002, Const 0x438D] [''SB600'', ''PCI to LPC Bridge''],
  Init [Const 0x1002, Const 0x439] [''rv360'', ''ATI Technologies SB700 LPCHost Controller''],
  Init [Const 0x1002, Const 0x4390] [''SB750'', ''Integrated SATA II Controller''],
  Init [Const 0x1002, Const 0x4391] [''ATI SB700'', ''AHCI Controller''],
  Init [Const 0x1002, Malformed ''0x4391&CC_0106''] [''9H54474G00579'', ''AMD II X3 440 3,0GHz''],
  Init [Const 0x1002, Const 0x4392] [''ATI SB700'', ''Raid Controller''],
  Init [Const 0x1002, Const 0x4393] [''ATI SB850'', ''RAID-Controller''],
  Init [Const 0x1002, Malformed ''0x4394&CC_0106''] [''5100'', ''AMD SP5100 South Bridge''],
  Init [Const 0x1002, Const 0x4396] [''210888CX'', ''Mach64 CX''],
  Init [Const 0x1002, Const 0x4398] [''SB700'', ''Standard OpenHCD USB-Hostcontroller''],
  Init [Const 0x1002, Const 0x439C] [''SB7xx'', ''PATA 133 Controller''],
  Init [Const 0x1002, Const 0x439D] [''SB700 LPC'', ''ATI Technologies SB700 LPCHost ''],
  Init [Const 0x1002, Const 0x4437] [''ATI Mobility Radeon 7000 IGP'', ''RS250M''],
  Init [Const 0x1002, Const 0x4554] [''Mach64 ET'', []],
  Init [Const 0x1002, Const 0x4654] [''Mach64 VT'', ''113--34004-104''],
  Init [Const 0x1002, Const 0x4742] [''(GT-C2U2)'', ''3D Rage Pro AGP 1X''],
  Init [Const 0x1002, Const 0x4744] [''Rage 3D Pro AGP 2x'', ''Rage 3D Pro AGP 2x''],
  Init [Const 0x1002, Const 0x4747] [''GT-C2U2'', ''Rage 3D Pro''],
  Init [Const 0x1002, Const 0x4749] [''RAGE PRO TURBO AGP 2X'', ''ATI ALL IN WONDER PRO (8MB)''],
  Init [Const 0x1002, Const 0x474C] [''Rage XC PCI-66'', ''k7 som+''],
  Init [Const 0x1002, Const 0x474D] [''Rage XL AGP 2x'', ''SLAT''],
  Init [Const 0x1002, Const 0x474E] [''Rage XC AGP 2x'', []],
  Init [Const 0x1002, Const 0x474F] [''Rage XL PCI-66'', ''I Need Driver for the Chip''],
  Init [Const 0x1002, Const 0x4750] [''1039'', ''ATI 3D Rage Pro 215GP''],
  Init [Const 0x1002, Const 0x4751] [''0x1002'', ''0x4752''],
  Init [Const 0x1002, Const 0x4752] [''Rage XL PCI'', ''ATI On-Board VGA for HP Proliant 350 G3''],
  Init [Const 0x1002, Const 0x4753] [''Rage XC PCI'', []],
  Init [Const 0x1002, Const 0x4754] [''Mach 64 VT'', ''Rage 3D II Graphics Accelerator''],
  Init [Const 0x1002, Const 0x4755] [''Rage 3D II+pci'', ''3d rage 2 + dvd''],
  Init [Const 0x1002, Const 0x4756] [''Rage 3D IIC AGP'', ''Graphics Accelerator''],
  Init [Const 0x1002, Const 0x4757] [''3D 11C AGP'', ''Rage 3D IIC AGP''],
  Init [Const 0x1002, Const 0x4758] [''210888GX'', ''Mach64 GX''],
  Init [Const 0x1002, Const 0x4759] [''215r2qzua21'', ''m3d agp card on agp slot''],
  Init [Const 0x1002, Const 0x475A] [''215r2qua12'', ''Rage IIC AGP''],
  Init [Const 0x1002, Const 0x4966] [''RV250'', ''Radeon 9000/9000 Pro''],
  Init [Const 0x1002, Const 0x4967] [''RV250'', ''Radeon 9000''],
  Init [Const 0x1002, Const 0x496E] [''RV250'', ''Radeon 9000/9000 Pro - Secondary''],
  Init [Const 0x1002, Const 0x496F] [''RV250'', ''Radeon 9000 - Secondary''],
  Init [Const 0x1002, Const 0x4A48] [''R420'', ''ATI RADEON X800 Series''],
  Init [Const 0x1002, Const 0x4A49] [''R420'', ''ATI RADEON X800 PRO''],
  Init [Const 0x1002, Const 0x4A4A] [''R420'', ''ATI RADEON X800 Series''],
  Init [Const 0x1002, Const 0x4A4B] [''R420'', ''ATI RADEON X800 XT''],
  Init [Const 0x1002, Const 0x4A4C] [''R420'', ''ATI RADEON X800 Series''],
  Init [Const 0x1002, Const 0x4A4D] [''R420GL'', ''ATI FireGL X3-256''],
  Init [Const 0x1002, Const 0x4A4E] [''M18'', ''ATI MOBILITY /ATI RADEON 9800''],
  Init [Const 0x1002, Const 0x4A4F] [''R420'', ''ATI RADEON X800 SE''],
  Init [Const 0x1002, Const 0x4A50] [''R420'', ''ATI RADEON X800 XT Platinum Edition''],
  Init [Const 0x1002, Const 0x4A54] [''R420'', ''ATI RADEON X800 VE''],
  Init [Const 0x1002, Const 0x4A68] [''R420'', ''ATI RADEON X800 Series Secondary''],
  Init [Const 0x1002, Const 0x4A69] [''R420'', ''ATI RADEON X800 PRO Secondary''],
  Init [Const 0x1002, Const 0x4A6A] [''R420'', ''ATI RADEON X800 Series Secondary''],
  Init [Const 0x1002, Const 0x4A6B] [''R420'', ''ATI RADEON X800 XT Secondary''],
  Init [Const 0x1002, Const 0x4A6C] [''R420'', ''ATI RADEON X800 Series Secondary'']]"

lemma PciDevTable_18_facts:
  "length PciDevTable_18 = 150" "rejected PciDevTable_18 = 8" "oversized PciDevTable_18 = 2"
  "vendors PciDevTable_18 \<subseteq> Const ` set vendor_numbers"
  unfolding PciDevTable_18_def count_rows by (simp_all add: part_simps listed vendor_known_list cong: part_cong count_rows_cong)

definition PciDevTable_19 :: "initializer list" where
 "PciDevTable_19 = [
  Init [Const 0x1002, Const 0x4A6D] [''R420GL'', ''ATI FireGL X3-256 Secondary''],
  Init [Const 0x1002, Const 0x4A6F] [''R420'', ''ATI RADEON X800 SE Secondary''],
  Init [Const 0x1002, Const 0x4A70] [''R420'', ''ATI RADEON X800 XT Platinum Edition Secondary''],
  Init [Const 0x1002, Const 0x4A74] [''R420'', ''ATI RADEON X800 VE Secondary''],
  Init [Const 0x1002, Const 0x4B49] [''R481'', ''ATI RADEON X850 XT''],
  Init [Const 0x1002, Const 0x4B4B] [''R481'', ''ATI RADEON X850 PRO''],
  Init [Const 0x1002, Const 0x4B4C] [''R481'', ''ATI RADEON X850 XT Platinum Edition''],
  Init [Const 0x1002, Const 0x4B69] [''R481'', ''ATI RADEON X850 XT Secondary''],
  Init [Const 0x1002, Const 0x4B6A] [''R481'', ''ATI RADEON X850 SE Secondary''],
  Init [Const 0x1002, Const 0x4B6B] [''R481'', ''ATI RADEON X850 PRO Secondary''],
  Init [Const 0x1002, Const 0x4B6C] [''R481'', ''ATI RADEON X850 XT Platinum Edition Secondary''],
  Init [Const 0x1002, Const 0x4C42] [''B10E0E11'', ''3D Rage LT Pro AGP-133''],
  Init [Const 0x1002, Const 0x4C44] [''Rage 3D LT Pro AGP'', ''Rage 3D LT Pro AGP 133 MHz''],
  Init [Const 0x1002, Const 0x4C45] [[], ''Rage Mobility M3 AGP''],
  Init [Const 0x1002, Const 0x4C46] [''Mobility M3 AGP'', ''0x9495''],
  Init [Const 0x1002, Const 0x4C47] [''ati rage pro'', ''Rage 3D LT-G''],
  Init [Const 0x1002, Const 0x4C49] [''123'', ''Rage 3D LT Pro''],
  Init [Const 0x1002, Const 0x4C4D] [''01541014'', ''Rage P/M Mobility AGP 2x''],
  Init [Const 0x1002, Const 0x4C4E] [''216lo sasa25'', ''Rage Mobility l''],
  Init [Const 0x1002, Const 0x4C50] [''unknown'', ''Rage 3D LT Pro PCI''],
  Init [Const 0x1002, Const 0x4C51] [''113'', ''Rage 3D LT Pro PCI''],
  Init [Const 0x1002, Const 0x4C52] [''1241243'', ''Rage P/M Mobility agp''],
  Init [Const 0x1002, Const 0x4C53] [''216L0SASA25'', ''Rage L Mobility PCI''],
  Init [Const 0x1002, Const 0x4C54] [''4372'', ''Mach 64 LT''],
  Init [Const 0x1002, Const 0x4C57] [''M7 [LW]'', ''Mobility Radeon 7500''],
  Init [Const 0x1002, Const 0x4C58] [[], ''FireGL Mobility''],
  Init [Const 0x1002, Const 0x4C59] [''Mobility 6'', ''Radeon Mobility M6 Series (Also known as ATI R7000 64MB TV PCI)''],
  Init [Const 0x1002, Const 0x4C5A] [[], ''Radeon Mobility M6 LZ''],
  Init [Const 0x1002, Const 0x4C64] [[], ''Radeon Mobility M9-GL''],
  Init [Const 0x1002, Const 0x4C66] [''RV250'', ''ATI MOBILITY RADEON 9000''],
  Init [Const 0x1002, Const 0x4C6E] [''0x4C6E'', ''ATI FireMV 2400 PCI''],
  Init [Const 0x1002, Const 0x4D46] [''ATI mobility128'', ''Rage Mobility 128 AGP 4x''],
  Init [Const 0x1002, Const 0x4D4C] [''216l0sasa25'', ''Rage Mobility 128 AGP''],
  Init [Const 0x1002, Const 0x4D52] [''ATI Theater 550 Pro'', ''ATI Theater 550 Pro''],
  Init [Const 0x1002, Const 0x4D53] [''TVT2 Wonder Elite'', ''TVT2 Wonder Elite''],
  Init [Const 0x1002, Const 0x4E44] [''R300'', ''ATI RADEON 9700 PRO''],
  Init [Const 0x1002, Const 0x4E45] [''R300'', ''ATI RADEON 9500 PRO / 9700''],
  Init [Const 0x1002, Const 0x4E46] [''R300'', ''ATI RADEON 9600 TX''],
  Init [Const 0x1002, Const 0x4E47] [''R300GL'', ''ATI FireGL X1''],
  Init [Const 0x1002, Const 0x4E48] [''R350'', ''ATI RADEON 9800 PRO''],
  Init [Const 0x1002, Const 0x4E49] [''R350'', ''ATI RADEON 9800''],
  Init [Const 0x1002, Const 0x4E4A] [''R360'', ''ATI RADEON 9800 XT''],
  Init [Const 0x1002, Const 0x4E4B] [''R350GL'', ''ATI FireGL X2-256/X2-256t''],
  Init [Const 0x1002, Const 0x4E50] [''M10'', ''ATI MOBILITY /ATI RADEON 9600/9700 Series''],
  Init [Const 0x1002, Const 0x4E51] [''RV350'', ''ATI RADEON 9600 Series''],
  Init [Const 0x1002, Const 0x4E52] [''M10'', ''ATI MOBILITY /ATI RADEON 9500''],
  Init [Const 0x1002, Const 0x4E54] [''M10GL'', ''ATI MOBILITY FIRE GL T2/T2e''],
  Init [Const 0x1002, Const 0x4E56] [''M12'', ''ATI MOBILITY /ATI RADEON 9400''],
  Init [Const 0x1002, Const 0x4E64] [''R300'', ''ATI RADEON 9700''],
  Init [Const 0x1002, Const 0x4E65] [''R300'', ''ATI RADEON 9500 PRO / 9700 Secondary''],
  Init [Const 0x1002, Const 0x4E66] [''R300'', ''ATI RADEON 9600 TX Secondary''],
  Init [Const 0x1002, Const 0x4E67] [''R300GL'', ''ATI FireGL X1 Secondary''],
  Init [Const 0x1002, Const 0x4E68] [''R350'', ''ATI RADEON 9800 PRO Secondary''],
  Init [Const 0x1002, Const 0x4E69] [''R350'', ''ATI RADEON 9800 Secondary''],
  Init [Const 0x1002, Const 0x4E6A] [''R360'', ''ATI RADEON 9800 XT Secondary''],
  Init [Const 0x1002, Const 0x4E6B] [''R350GL'', ''ATI FireGL X2-256/X2-256t Secondary''],
  Init [Const 0x1002, Const 0x4E71] [''RV350'', ''ATI RADEON 9600 Series Secondary''],
  Init [Const 0x1002, Const 0x5041] [''gt'', ''Rage 128 Pro PA PCI''],
  Init [Const 0x1002, Const 0x5042] [''rage 128 pf pro agp '', ''Rage 128 Pro PB AGP 2x''],
  Init [Const 0x1002, Const 0x5043] [''1231324445'', ''Rage 128 Pro PC AGP 4x''],
  Init [Const 0x1002, Const 0x5044] [''rv100'', ''Rage 128 Pro PD PCI''],
  Init [Const 0x1002, Const 0x5045] [[], ''Rage 128 Pro PE AGP 2x''],
  Init [Const 0x1002, Const 0x5046] [''R128'', ''Rage 128 Pro PF AGP 4x''],
  Init [Const 0x1002, Const 0x5047] [''215R3BUA22'', '' 3d Rage pro agp 2x''],
  Init [Const 0x1002, Const 0x5048] [''8212104D'', ''Rage 128 Pro PH AGP 2x''],
  Init [Const 0x1002, Const 0x5049] [''R128'', ''Rage 128 Pro PI AGP 4x''],
  Init [Const 0x1002, Const 0x504A] [''Rage 128 Pro PJ PCI'', ''Rage 128 Pro PJ PCI (TMDS)''],
  Init [Const 0x1002, Const 0x504B] [''Rage 128 Pro PK AGP'', ''Rage 128 Pro PK AGP 2x (TMDS)''],
  Init [Const 0x1002, Const 0x504C] [''Rage 128 Pro PL AGP'', ''4x (TMDS)''],
  Init [Const 0x1002, Const 0x504D] [''Rage 128 Pro PM PCI'', ''Rage 128 Pro PM PCI''],
  Init [Const 0x1002, Const 0x504E] [''Rage 128 Pro PN AGP'', ''Rage 128 Pro PN AGP 2x''],
  Init [Const 0x1002, Const 0x504F] [''Rage 128 Pro PO AGP'', ''Rage 128 Pro PO AGP 4x''],
  Init [Const 0x1002, Const 0x5050] [''Scheda Grafica Standard PCI(VGA)'', ''Rage 128 Pro PP PCI (TMDS)''],
  Init [Const 0x1002, Const 0x5051] [''Rage 128 Pro PQ AGP'', ''Rage 128 Pro PQ AGP 2x (TMDS)''],
  Init [Const 0x1002, Const 0x5052] [''Rage 128 Pro PR AGP'', ''Rage 128 Pro PR AGP 4x (TMDS)''],
  Init [Const 0x1002, Const 0x5053] [''Rage 128 Pro PS PCI'', ''Rage 128 Pro PS PCI''],
  Init [Const 0x1002, Const 0x5054] [''Rage 128 Pro PT AGP'', ''Rage 128 Pro PT AGP 2x''],
  Init [Const 0x1002, Const 0x5055] [''rage 128 pro agp 4x tmds'', ''rage 128 pro agp 4x tmds''],
  Init [Const 0x1002, Const 0x5056] [''Rage 128 Pro PV PCI'', ''Rage 128 Pro PV PCI (TMDS)''],
  Init [Const 0x1002, Const 0x5057] [''Rage 128 Pro PW AGP'', ''Rage 128 Pro PW AGP 2x (TMDS)''],
  Init [Const 0x1002, Const 0x5058] [''Rage 128 Pro'', ''PX AGP 4x (TMDS)''],
  Init [Const 0x1002, Const 0x5144] [''Radeon 7200 QD SDR/DDR'', ''Radeon 7200 QD SDR/DDR''],
  Init [Const 0x1002, Const 0x5145] [[], ''Radeon QE''],
  Init [Const 0x1002, Const 0x5146] [[], ''Radeon QF''],
  Init [Const 0x1002, Const 0x5147] [[], ''Radeon QG''],
  Init [Const 0x1002, Const 0x5148] [''R200'', ''Radeon R200 QH''],
  Init [Const 0x1002, Const 0x5149] [[], ''Radeon R200 QI''],
  Init [Const 0x1002, Const 0x514A] [[], ''Radeon R200 QJ''],
  Init [Const 0x1002, Const 0x514B] [[], ''Radeon R200 QK''],
  Init [Const 0x1002, Const 0x514C] [''R200'', ''Radeon 8500 / 8500LE''],
  Init [Const 0x1002, Const 0x514D] [''R200'', ''Redeon 9100 Series''],
  Init [Const 0x1002, Const 0x514E] [[], ''Radeon R200 QM''],
  Init [Const 0x1002, Const 0x514F] [[], ''Radeon R200 QN''],
  Init [Const 0x1002, Const 0x5157] [''RV200'', ''Radeon 7500''],
  Init [Const 0x1002, Const 0x5158] [''radeon 9700 or 9200'', ''Radeon 7500 QX''],
  Init [Const 0x1002, Const 0x5159] [''RV100'', ''Radeon 7000 series AGP ''],
  Init [Const 0x1002, Const 0x515A] [[], ''Radeon VE QZ''],
  Init [Const 0x1002, Const 0x515E] [''Radeon ES1000'', ''Radeon ES1000''],
  Init [Const 0x1002, Const 0x5168] [''ati'', ''Radeon R200 Qh''],
  Init [Const 0x1002, Const 0x5169] [[], ''Radeon R200 Qi''],
  Init [Const 0x1002, Const 0x516A] [[], ''Radeon R200 Qj''],
  Init [Const 0x1002, Const 0x516B] [[], ''Radeon R200 Qk''],
  Init [Const 0x1002, Const 0x516C] [''E7505'', ''Radeon 8500 / 8500LE''],
  Init [Const 0x1002, Const 0x516D] [''R200'', ''Redeon 9100 Series - Secondary''],
  Init [Const 0x1002, Const 0x5245] [''215R2QZUA21'', ''Rage 128 GL PCI''],
  Init [Const 0x1002, Const 0x5246] [''Rage 128'', ''Rage 32MB''],
  Init [Const 0x1002, Const 0x5247] [''Rage 32MB'', ''Rage 128 RG''],
  Init [Const 0x1002, Const 0x524B] [''g01080-108'', ''Rage 128 VR RK PCI''],
  Init [Const 0x1002, Const 0x524C] [[], ''Rage 128 VR RL AGP 2x''],
  Init [Const 0x1002, Const 0x5345] [[], ''Rage 128 4x SE PCI''],
  Init [Const 0x1002, Const 0x5346] [''Rage 128 SF 4x AGP 2x'', ''Rage 128 SF 4x AGP 2x''],
  Init [Const 0x1002, Const 0x5347] [[], ''Rage 128 SG 4x AGP 4x''],
  Init [Const 0x1002, Const 0x5348] [[], ''Rage 128 4x SH''],
  Init [Const 0x1002, Const 0x534B] [''Rage 128 SK PCI'', ''Rage 128 4x SK PCI''],
  Init [Const 0x1002, Const 0x534C] [''Rage 128 SL AGP 2x'', ''Rage 128 4x SL AGP 2x''],
  Init [Const 0x1002, Const 0x534D] [''Rage 128 SM AGP 4x'', ''Rage 128 4x SM AGP 4x''],
  Init [Const 0x1002, Const 0x534E] [''Rage 128 4x'', []],
  Init [Const 0x1002, Const 0x5354] [[], ''Mach 64 ST''],
  Init [Const 0x1002, Const 0x5446] [''unknown'', ''Rage 128 Pro Ultra TF''],
  Init [Const 0x1002, Const 0x544C] [[], ''Rage 128 Pro TL''],
  Init [Const 0x1002, Const 0x5452] [[], ''Rage 128 Pro TR''],
  Init [Const 0x1002, Const 0x5455] [[], ''Rage 128 Pro Ultra TU''],
  Init [Const 0x1002, Const 0x5457] [''RS200M'', ''RADEON IGP 345M''],
  Init [Const 0x1002, Const 0x5460] [''M22'', ''ATI MOBILITY /ATI RADEON X300''],
  Init [Const 0x1002, Const 0x5461] [''M22'', ''ATI MOBILITY /ATI RADEON X300''],
  Init [Const 0x1002, Const 0x5462] [''M24C'', ''ATI MOBILITY /ATI RADEON X600 SE''],
  Init [Const 0x1002, Const 0x5464] [''M22GL'', ''ATI MOBILITY FireGL V3100''],
  Init [Const 0x1002, Const 0x5548] [''R423'', ''ATI RADEON X800 Series''],
  Init [Const 0x1002, Const 0x5549] [''R423'', ''ATI RADEON X800 GTO''],
  Init [Const 0x1002, Const 0x554A] [''R423'', ''ATI RADEON X800 XT Platinum Edition''],
  Init [Const 0x1002, Const 0x554B] [''R423'', ''ATI RADEON X800 GT''],
  Init [Const 0x1002, Const 0x554D] [''R430'', ''ATI RADEON X800 CrossFire Edition''],
  Init [Const 0x1002, Const 0x554E] [''R430'', ''ATI RADEON X800 GT''],
  Init [Const 0x1002, Const 0x554F] [''R430'', ''ATI RADEON X800 GTO''],
  Init [Const 0x1002, Const 0x5550] [''R423GL'', ''ATI FireGL V7100''],
  Init [Const 0x1002, Const 0x5551] [''R423GL'', ''ATI FireGL V5100''],
  Init [Const 0x1002, Const 0x5568] [''R423'', ''ATI RADEON X800 Series Secondary''],
  Init [Const 0x1002, Const 0x5569] [''R423'', ''ATI RADEON X800 GTO Secondary''],
  Init [Const 0x1002, Const 0x556A] [''R423'', ''ATI RADEON X800 XT Platinum Edition Secondary''],
  Init [Const 0x1002, Const 0x556B] [''R423'', ''ATI RADEON X800 GT Secondary''],
  Init [Const 0x1002, Const 0x556D] [''R430'', ''ATI RADEON X800 CrossFire Edition Secondary''],
  Init [Const 0x1002, Const 0x556E] [''R430'', ''ATI RADEON X800 GT Secondary''],
  Init [Const 0x1002, Const 0x556F] [''R430'', ''ATI RADEON X800 GTO Secondary''],
  Init [Const 0x1002, Const 0x5570] [''R423GL'', ''ATI FireGL V7100 Secondary''],
  Init [Const 0x1002, Const 0x5571] [''R423GL'', ''ATI FireGL V5100  Secondary''],
  Init [Const 0x1002, Const 0x564A] [''M26GL'', ''ATI MOBILITY FireGL V5000''],
  Init [Const 0x1002, Const 0x564B] [''M26GL'', ''ATI MOBILITY FireGL V5000''],
  Init [Const 0x1002, Const 0x564F] [''M26'', ''ATI MOBILITY /ATI RADEON X700 XL''],
  Init [Const 0x1002, Const 0x5652] [''M26'', ''ATI MOBILITY /ATI RADEON X700''],
  Init [Const 0x1002, Const 0x5653] [''RV410'', ''ATI MOBILITY/ATI RADEON X700'']]"

lemma PciDevTable_19_facts:
  "length PciDevTable_19 = 150" "rejected PciDevTable_19 = 0" "oversized PciDevTable_19 = 0"
  "vendors PciDevTable_19 \<subseteq> Const ` set vendor_numbers"
  unfolding PciDevTable_19_def count_rows by (simp_all add: part_simps listed vendor_known_list cong: part_cong count_rows_cong)

definition PciDevTable_20 :: "initializer list" where
 "PciDevTable_20 = [
  Init [Const 0x1002, Const 0x5654] [''264VT'', ''Mach64 VT''],
  Init [Const 0x1002, Const 0x5655] [[], ''Mach 64 VT3''],
  Init [Const 0x1002, Const 0x5656] [''Mach 64 VT4 PCI'', ''Mach 64 VT4 PCI''],
  Init [Const 0x1002, Const 0x5657] [''RV410'', ''ATI RADEON X550/X700 Series''],
  Init [Const 0x1002, Const 0x5673] [''M26'', ''ATI MOBILITY /ATI RADEON X700 Secondary''],
  Init [Const 0x1002, Const 0x5677] [''RV410'', ''ATI RADEON X550/X700 Series Secondary''],
  Init [Const 0x1002, Const 0x5830] [''RS300'', ''Host Bridge''],
  Init [Const 0x1002, Const 0x5831] [''RS300'', ''Host Bridge''],
  Init [Const 0x1002, Const 0x5832] [''RS300'', ''Host Bridge''],
  Init [Const 0x1002, Const 0x5833] [''RS300M'', ''ATI Radeon 9000/9100 IGP Chipset - Host-PCI Bridge''],
  Init [Const 0x1002, Const 0x5834] [''RS300'', ''Radeon 9100 IGP''],
  Init [Const 0x1002, Const 0x5835] [''RS300M'', ''Mobilitiy Radeon 9000 IGP (RGP)''],
  Init [Const 0x1002, Const 0x5838] [''RS330M'', ''ATI Radeon 9000/9100 IGP Chipset - AGP Controller''],
  Init [Const 0x1002, Const 0x5854] [''RS480'', ''ATI RADEON Xpress Series''],
  Init [Const 0x1002, Const 0x5874] [''RS482'', ''ATI RADEON Xpress Series''],
  Init [Const 0x1002, Const 0x5940] [''RV280'', ''Radeon 9200 Pro Secondary''],
  Init [Const 0x1002, Const 0x5941] [''RV280'', ''ATI Radeon 9200 - Secondary''],
  Init [Const 0x1002, Const 0x5950] [''RS480'', ''Host Bridge''],
  Init [Const 0x1002, Const 0x5954] [''RS482'', ''ATI RADEON Xpress 200''],
  Init [Const 0x1002, Const 0x5955] [''RS480M'', ''ATI RADEON Xpress 200M''],
  Init [Const 0x1002, Const 0x5960] [''RV280'', ''Radeon 9200 Pro''],
  Init [Const 0x1002, Malformed ''0x5960 AGP''] [''A051400005470'', ''PN 1024-RC26-1F-SA''],
  Init [Const 0x1002, Const 0x5961] [''RV280'', ''ATI RADEON 9200 se agp''],
  Init [Const 0x1002, Const 0x5962] [''RV280'', ''Radeon 9200''],
  Init [Const 0x1002, Const 0x5964] [''Radeon 9200'', ''Radeon 9200 SE Series''],
  Init [Const 0x1002, Const 0x5965] [''unknown'', ''FireMV 2200''],
  Init [Const 0x1002, Const 0x5974] [''RS482'', ''ATI RADEON Xpress Series''],
  Init [Const 0x1002, Malformed ''0x5974&SUBSYS_022A10''] [''RS482'', ''ATI Radeon Xpress 200M (Mobile)''],
  Init [Const 0x1002, Const 0x5975] [''RS482M (200M)'', ''ATI RADEON Xpress Series''],
  Init [Const 0x1002, Const 0x5A23] [''RD890'', ''AMD IOMMU''],
  Init [Const 0x1002, Const 0x5A31] [''RS400/133'', ''Host Bridge''],
  Init [Const 0x1002, Const 0x5A33] [''RC410'', ''Northbridge: Radeon Xpress 200''],
  Init [Const 0x1002, Malformed (''0x5A41'' @ [CHR 0x09] @ ''ATI RADEON Xp'')] [''0x5A41'' @ [CHR 0x09] @ ''ATI RADEON Xpress 1200 Series'' @ [CHR 0x09] @ ''0x1002'', ''0x5A41'' @ [CHR 0x09] @ ''ATI RADEON Xpress 1200 Series'' @ [CHR 0x09] @ ''0x1002''],
  Init [Const 0x1002, Const 0x5A41] [''RS400'', ''ATI RADEON Xpress Series''],
  Init [Const 0x1002, Const 0x5A42] [''RS400M'', ''ATI RADEON Xpress Series''],
  Init [Const 0x1002, Const 0x5A43] [''RS400'', ''ATI RADEON Xpress Series''],
  Init [Const 0x1002, Const 0x5A60] [''SUBSYS_FF311179'', ''Video Controller''],
  Init [Const 0x1002, Const 0x5A61] [''RC410'', ''ATI Radeon Xpress 200''],
  Init [Const 0x1002, Const 0x5A613] [''RC410'', ''ATI RADEON Xpress Series''],
  Init [Const 0x1002, Const 0x5A62] [''http://www.csd.toshiba.com/cgi-bin/tais/support/js'', ''ATI RADEON Xpress &#1057;&#1077;&#1088;&#1080;&#1080;&#1100;''],
  Init [Const 0x1002, Const 0x5A63] [''RC410'', ''ATI RADEON Xpress Series''],
  Init [Const 0x1002, Const 0x5B60] [''RV370'', ''ATI RADEON X300/X550/X1050 Series..''],
  Init [Const 0x1002, Const 0x5B62] [''RV380x'', ''ATI RADEON X600 Series''],
  Init [Const 0x1002, Const 0x5B63] [''REV_00'' @ [CHR 0x5C] @ ''4&399D3C6A&0&0008'', ''ATI RADEON X300/X550/X1050 Series''],
  Init [Const 0x1002, Const 0x5B64] [''RV370GL'', ''ATI FireGL V3100''],
  Init [Const 0x1002, Const 0x5B65] [''RV370'', ''ATI FireMV 2200''],
  Init [Const 0x1002, Malformed ''0x5B6O''] [''RV370'', ''ATI RADEON X300/X550/X1050 Series''],
  Init [Const 0x1002, Const 0x5B70] [''RV370'', ''randeon''],
  Init [Const 0x1002, Const 0x5B72] [''RV380x'', ''ATI RADEON X600 Series Secondary''],
  Init [Const 0x1002, Const 0x5B73] [''RV370'', ''0 SerieATI RADEON X300 Secondary''],
  Init [Const 0x1002, Const 0x5B74] [''RV370GL'', ''ATI FireGL V3100 Secondary''],
  Init [Const 0x1002, Const 0x5B75] [''RV370'', ''ATI FireMV 2200 Secondary''],
  Init [Const 0x1002, Const 0x5C61] [''bk-ati ver008.016m.085.006'', ''Mobility Radeon 9200''],
  Init [Const 0x1002, Const 0x5C63] [''RV280 (M9+)'', ''Mobility Radeon 9200''],
  Init [Const 0x1002, Const 0x5D44] [''RV280'', ''Radeon 9200 SE Series - Secondary''],
  Init [Const 0x1002, Const 0x5D45] [''RV280'', ''ATI FireMV 2200 PCI Secondary''],
  Init [Const 0x1002, Const 0x5D48] [''M28'', ''ATI MOBILITY/ATI RADEON X800  XT''],
  Init [Const 0x1002, Const 0x5D49] [''M28GL'', ''ATI MOBILITY FireGL V5100''],
  Init [Const 0x1002, Const 0x5D4A] [''M28'', ''ATI MOBILITY /ATI RADEON X800''],
  Init [Const 0x1002, Const 0x5D4D] [''R480'', ''ATI RADEON X850 XT Platinum Edition''],
  Init [Const 0x1002, Const 0x5D4F] [''R480'', ''ATI RADEON X800 GTO''],
  Init [Const 0x1002, Const 0x5D50] [''R480GL'', ''ATI FireGL V7200''],
  Init [Const 0x1002, Const 0x5D52] [''R480'', ''ATI RADEON X850 XT''],
  Init [Const 0x1002, Const 0x5D57] [''R423'', ''ATI RADEON X800 XT''],
  Init [Const 0x1002, Const 0x5D6D] [''R480'', ''ATI RADEON X850 XT Platinum Edition Secondary''],
  Init [Const 0x1002, Const 0x5D6F] [''R480'', ''ATI RADEON X800 GTO Secondary''],
  Init [Const 0x1002, Const 0x5D70] [''R480GL'', ''ATI FireGL V7200 Secondary''],
  Init [Const 0x1002, Const 0x5D72] [''R480'', ''ATI RADEON X850 XT Secondary''],
  Init [Const 0x1002, Const 0x5D77] [''R423'', ''ATI RADEON X800 XT Secondary''],
  Init [Const 0x1002, Const 0x5E48] [''RV410GL'', ''ATI FireGL V5000''],
  Init [Const 0x1002, Const 0x5E4A] [''RV410'', ''ATI RADEON X700 XT''],
  Init [Const 0x1002, Const 0x5E4B] [''RV410'', ''ATI RADEON X700 PRO''],
  Init [Const 0x1002, Const 0x5E4C] [''RV410'', ''ATI RADEON X700 SE''],
  Init [Const 0x1002, Const 0x5E4D] [''RV410'', ''ATI RADEON X700''],
  Init [Const 0x1002, Const 0x5E4F] [''RV410'', ''ATI RADEON X700/X550 Series''],
  Init [Const 0x1002, Const 0x5E68] [''RV410GL'', ''ATI FireGL V5000 Secondary''],
  Init [Const 0x1002, Const 0x5E6A] [''RV410'', ''ATI RADEON X700 XT Secondary''],
  Init [Const 0x1002, Const 0x5E6B] [''RV410'', ''ATI RADEON X700 PRO Secondary''],
  Init [Const 0x1002, Const 0x5E6C] [''RV410'', ''ATI RADEON X700 SE Secondary''],
  Init [Const 0x1002, Const 0x5E6D] [''RV410'', ''ATI RADEON X700 Secondary''],
  Init [Const 0x1002, Const 0x5E6F] [''RV410'', ''ATI RADEON X700/X550 Series Secondary''],
  Init [Const 0x1002, Const 0x60760] [''123123132'', ''11''],
  Init [Const 0x1002, Const 0x6718] [''CAYMAN XT'', ''AMD Radeon HD 6970''],
  Init [Const 0x1002, Const 0x6719] [''Cayman'', ''AMD Radeon HD 6950''],
  Init [Const 0x1002, Const 0x6738] [''HD6870'', ''MSI''],
  Init [Const 0x1002, Const 0x6739] [''Barts (Pro)'', ''AMD Radeon HD 6850''],
  Init [Const 0x1002, Const 0x673E] [''0x2310'', ''0x1787''],
  Init [Const 0x1002, Const 0x6740] [''Whistler'', ''ATI Radeon HD 6670M''],
  Init [Const 0x1002, Const 0x6741] [''Whistler'', ''AMD Radeon'' @ [CHR 0xE2, CHR 0x84, CHR 0xA2] @ '' HD 6700M/HD 6600M Series ''],
  Init [Const 0x1002, Malformed ''0x6741_''] [''AMD Radeon HD 7450M (6470M)&#12289;6630M&#12289;In'', ''PCI'' @ [CHR 0x5C] @ ''VEN_1002&DEV_6741&SUBSYS_21E317AA&REV_00''],
  Init [Const 0x1002, Const 0x6749] [''unknown'', ''unknown''],
  Init [Const 0x1002, Const 0x674A] [''V3900'', ''AMD FirePro V3900 graphics''],
  Init [Const 0x1002, Const 0x6750] [''1996'', ''AMD Radeon HD 6570''],
  Init [Const 0x1002, Const 0x6758] [''NI'', ''AMD Radeon HD 6670''],
  Init [Const 0x1002, Const 0x6759] [''1996'', ''AMD Radeon HD 6570''],
  Init [Const 0x1002, Const 0x6760] [''3305M'', ''AMD/ATi Radeon 6470M''],
  Init [Const 0x1002, Const 0x6778] [''7470'', ''AMD Radeon HD 7470''],
  Init [Const 0x1002, Const 0x6779] [''AMD Radeon HD 6470m'', ''AMD Radeon HD 6470m''],
  Init [Const 0x1002, Const 0x677B] [''Unknown'', ''Radeon HD 7450''],
  Init [Const 0x1002, Const 0x6840] [''SUBSYS'', ''056A1028''],
  Init [Const 0x1002, Const 0x6898] [''EG CYPRESS XT'', ''ATI Radeon HD 5800 Series''],
  Init [Const 0x1002, Const 0x6899] [''EG CYPRESS PRO'', ''ATI Radeon HD 5800 Series''],
  Init [Const 0x1002, Const 0x689C] [''EG Cypress XT HEMLOCK'', ''ATI Radeon HD 5970 Series''],
  Init [Const 0x1002, Const 0x68A0] [''EG BROADWAY XT'', ''ATI Mobility Radeon HD 5800 Series''],
  Init [Const 0x1002, Const 0x68A1] [''EG BROADWAY PRO/LP'', ''ATI Mobility Radeon HD 5800 Series''],
  Init [Const 0x1002, Const 0x68A8] [''AMD Radeon HD6870M (at least the one from Dell)'', ''AMD Radeon HD6870M (at least the one from Dell)''],
  Init [Const 0x1002, Const 0x68B0] [''EG BROADWAY XT'', ''ATI Mobility Radeon HD 5800 Series''],
  Init [Const 0x1002, Const 0x68B8] [''EG JUNIPER XT'', ''ATI Radeon HD 5700 Series''],
  Init [Const 0x1002, Const 0x68BA] [''1482174B'', ''ATI Radeon HD 6700 Series''],
  Init [Const 0x1002, Const 0x68BE] [''EG JUNIPER LE'', ''ATI Radeon HD 5700 Series''],
  Init [Const 0x1002, Const 0x68C1] [''DEV_68C1&SUBSYS_144A103C&REV_00'', ''ATI Mobility Radeon HD 6550M''],
  Init [Const 0x1002, Const 0x68C8] [''RV830'', ''FirePro v4800''],
  Init [Const 0x1002, Const 0x68C9] [''RV830'', ''FirePro 3D V3800''],
  Init [Const 0x1002, Const 0x68D8] [''Redwood'', ''ATI Radeon HD 5670''],
  Init [Const 0x1002, Const 0x68D9] [''RV830/Redwood'', ''HD 5570''],
  Init [Const 0x1002, Const 0x68E0] [''HD 5470'', ''ATI Mobility Radeon HD 5470''],
  Init [Const 0x1002, Const 0x68E4] [''RV810'', ''Ati Radeon HD 6370M''],
  Init [Const 0x1002, Const 0x68F9] [''Cedar'', ''ATI Radeon HD 5470''],
  Init [Const 0x1002, Const 0x700F] [''A3/U1'', ''PCI to AGP Bridge''],
  Init [Const 0x1002, Const 0x7010] [''RS200'', ''PCI to AGP Bridge''],
  Init [Const 0x1002, Const 0x7100] [''R520'', ''ATI RADEON X1800 Series''],
  Init [Const 0x1002, Const 0x7101] [''M58'', ''ATI MOBILITY /ATI RADEON X1800 XT''],
  Init [Const 0x1002, Const 0x7102] [''PCIE'', ''ATI MOBILITY /ATI RADEON X1800''],
  Init [Const 0x1002, Const 0x7103] [''M58GL'', ''ATI MOBILITY FireGL V7200''],
  Init [Const 0x1002, Const 0x7104] [''R520GL'', ''ATI FireGL V7200''],
  Init [Const 0x1002, Const 0x7105] [''R520GL'', ''ATI FireGL V5300''],
  Init [Const 0x1002, Const 0x7106] [''M58GL'', ''ATI MOBILITY FireGL V7100''],
  Init [Const 0x1002, Const 0x7108] [''R520'', ''ATI RADEON X1800 Series''],
  Init [Const 0x1002, Const 0x7109] [''R520'', ''ATI RADEON X1800 Series''],
  Init [Const 0x1002, Const 0x710A] [''R520'', ''ATI RADEON X1800 Series''],
  Init [Const 0x1002, Const 0x710B] [''R520'', ''ATI RADEON X1800 Series''],
  Init [Const 0x1002, Const 0x710C] [''R520'', ''ATI RADEON X1800 Series''],
  Init [Const 0x1002, Const 0x710E] [''R520GL'', ''ATI FireGL V7300''],
  Init [Const 0x1002, Const 0x710F] [''R520GL'', ''ATI FireGL V7350''],
  Init [Const 0x1002, Const 0x7120] [''R520'', ''ATI RADEON X1800 Series Secondary''],
  Init [Const 0x1002, Const 0x7124] [''R520GL'', ''ATI FireGL V7200 Secondary''],
  Init [Const 0x1002, Const 0x7125] [''R520GL'', ''ATI FireGL V5300 Secondary''],
  Init [Const 0x1002, Const 0x7128] [''R520'', ''ATI RADEON X1800 Series Secondary''],
  Init [Const 0x1002, Const 0x7129] [''R520'', ''ATI RADEON X1800 Series Secondary''],
  Init [Const 0x1002, Const 0x712A] [''R520'', ''ATI RADEON X1800 Series Secondary''],
  Init [Const 0x1002, Const 0x712B] [''R520'', ''ATI RADEON X1800 Series Secondary''],
  Init [Const 0x1002, Const 0x712C] [''R520'', ''ATI RADEON X1800 Series Secondary''],
  Init [Const 0x1002, Const 0x712E] [''R520GL'', ''ATI FireGL V7300 Secondary''],
  Init [Const 0x1002, Const 0x712F] [''R520GL'', ''ATI FireGL V7350 Secondary''],
  Init [Const 0x1002, Const 0x7140] [''RV515'', ''ATI RADEON X1600 Series''],
  Init [Const 0x1002, Const 0x7142] [''RV515'', ''ATI RADEON X1300/X1550 Series''],
  Init [Const 0x1002, Const 0x7143] [''RV515'', ''ATI RADEON X1300/ X1550 Series''],
  Init [Const 0x1002, Const 0x7145] [''M54'', ''ATI MOBILITY /ATI RADEON X1400''],
  Init [Const 0x1002, Const 0x7146] [''RV505'', ''ATI RADEON X1300 / X1550 Series''],
  Init [Const 0x1002, Const 0x7147] [''RV515'', ''ATI RADEON X1550 64-bit'']]"

lemma PciDevTable_20_facts:
  "length PciDevTable_20 = 150" "rejected PciDevTable_20 = 5" "oversized PciDevTable_20 = 2"
  "vendors PciDevTable_20 \<subseteq> Const ` set vendor_numbers"
  unfolding PciDevTable_20_def count_rows by (simp_all add: part_simps listed vendor_known_list cong: part_cong count_rows_cong)

definition PciDevTable_rows2 :: "initializer list" where
  "PciDevTable_rows2 = concat [PciDevTable_11, PciDevTable_12, PciDevTable_13, PciDevTable_14,
     PciDevTable_15, PciDevTable_16, PciDevTable_17, PciDevTable_18,
     PciDevTable_19, PciDevTable_20]"

lemma PciDevTable_rows2_facts:
  "length PciDevTable_rows2 = 1500" "rejected PciDevTable_rows2 = 35" "oversized PciDevTable_rows2 = 13"
  "vendors PciDevTable_rows2 \<subseteq> Const ` set vendor_numbers"
  by (simp_all add: PciDevTable_rows2_def rejected_append oversized_append vendors_append
      PciDevTable_11_facts PciDevTable_12_facts PciDevTable_13_facts
      PciDevTable_14_facts PciDevTable_15_facts PciDevTable_16_facts
      PciDevTable_17_facts PciDevTable_18_facts PciDevTable_19_facts
      PciDevTable_20_facts)

end
