(* ===== verification/PciDevices3.thy ===== *)
theory PciDevices3
  imports PciVendors
begin

text \<open>
  src/src/sys/drv/pci/identifiers.h: rows 3001 to 4500 of the device table \<open>PciDevTable\<close>, in
  parts of 150 rows. Of each part: its length, how many of its rows a compiler rejects, how
  many have a number that does not fit its member, and that all of its vendors are listed.
\<close>

definition PciDevTable_21 :: "initializer list" where
 "PciDevTable_21 = [
  Init [Const 0x1002, Const 0x7149] [''M52'', ''ATI MOBILITY RADEON X1300''],
  Init [Const 0x1002, Const 0x714A] [''M52'', ''ATI MOBILITY /ATI RADEON X1300''],
  Init [Const 0x1002, Const 0x714B] [''M52'', ''ATI MOBILITY /ATI RADEON X1300''],
  Init [Const 0x1002, Const 0x714C] [''M52'', ''ATI MOBILITY /ATI RADEON X1300''],
  Init [Const 0x1002, Const 0x714D] [''RV515'', ''ATI RADEON X1300 Series''],
  Init [Const 0x1002, Const 0x714E] [''RV515PCI'', ''ATI RADEON X1300 Series''],
  Init [Const 0x1002, Const 0x7152] [''RV515GL'', ''ATI FireGL V3300''],
  Init [Const 0x1002, Const 0x7153] [''RV515GL'', ''ATI FireGL V3350''],
  Init [Const 0x1002, Const 0x715E] [''RV515'', ''ATI RADEON X1300 Series''],
  Init [Const 0x1002, Const 0x715F] [''RV515'', ''ATI RADEON X1550 64-bit''],
  Init [Const 0x1002, Const 0x7160] [''RV515'', ''ATI RADEON X1600 Series Secondary''],
  Init [Const 0x1002, Const 0x7162] [''RV515'', ''ATI RADEON X1300/X1550 Series Secondary''],
  Init [Const 0x1002, Const 0x7163] [''RV515'', ''ATI RADEON X1550 Series Secondary''],
  Init [Const 0x1002, Const 0x7166] [''RV515'', ''ATI RADEON X1300 / X1550 Series Secondary''],
  Init [Const 0x1002, Const 0x7167] [''RV515'', ''ATI RADEON X1550 64-bit Secondary''],
  Init [Const 0x1002, Const 0x716D] [''RV515'', ''ATI RADEON X1300 Series Secondary''],
  Init [Const 0x1002, Const 0x716E] [''RV515PCI'', ''ATI RADEON X1300 Series Secondary''],
  Init [Const 0x1002, Const 0x7172] [''RV515GL'', ''ATI FireGL V3300 Secondary''],
  Init [Const 0x1002, Const 0x7173] [''RV515GL'', ''ATI FireGL V3350 Secondary''],
  Init [Const 0x1002, Const 0x717E] [''RV515'', ''ATI RADEON X1300 Series Secondary''],
  Init [Const 0x1002, Const 0x717F] [''RV515'', ''ATI RADEON X1550 32-bit Secondary''],
  Init [Const 0x1002, Const 0x7180] [''RV515'', ''ATI RADEON X1300/X1550 Series =x1400''],
  Init [Const 0x1002, Const 0x7181] [''RV515'', ''ATI RADEON X1600 Series''],
  Init [Const 0x1002, Const 0x7183] [''RV515'', ''ATI RADEON X1300/X1550 Series''],
  Init [Const 0x1002, Const 0x7186] [''M54'', ''ATI MOBILITY /ATI RADEON X1450''],
  Init [Const 0x1002, Const 0x7187] [''RV515'', ''ATI RADEON X1300/X1550 Series''],
  Init [Const 0x1002, Const 0x7188] [''M64'', ''ATI MOBILITY /ATI RADEON X2300''],
  Init [Const 0x1002, Const 0x718A] [''M54'', ''ATI MOBILITY /ATI RADEON X2300''],
  Init [Const 0x1002, Const 0x718B] [''M52'', ''ATI MOBILITY /ATI RADEON X1350''],
  Init [Const 0x1002, Const 0x718C] [''M52'', ''ATI MOBILITY /ATI RADEON X1350''],
  Init [Const 0x1002, Const 0x718D] [''M54'', ''ATI MOBILITY /ATI RADEON X1450''],
  Init [Const 0x1002, Const 0x718F] [''RV515PCI'', ''ATI RADEON X1300 Series''],
  Init [Const 0x1002, Const 0x7193] [''RV515'', ''ATI RADEON X1550 Series''],
  Init [Const 0x1002, Const 0x7196] [''M52'', ''ATI MOBILITY /ATI RADEON X1350''],
  Init [Const 0x1002, Const 0x719B] [''RV515'', ''ATI FireMV 2250''],
  Init [Const 0x1002, Const 0x719F] [''RV515'', ''ATI RADEON X1550 64-bit''],
  Init [Const 0x1002, Const 0x71A0] [''RV515'', ''ATI RADEON X1300/X1550 Series Secondary''],
  Init [Const 0x1002, Const 0x71A1] [''RV515'', ''ATI RADEON X1600 Series Secondary''],
  Init [Const 0x1002, Const 0x71A3] [''RV515'', ''ATI RADEON X1300/X1550 Series Secondary''],
  Init [Const 0x1002, Const 0x71A7] [''RV515'', ''ATI RADEON X1300/X1550 Series Secondary''],
  Init [Const 0x1002, Const 0x71AF] [''RV515PCI'', ''ATI RADEON X1300 Series Secondary''],
  Init [Const 0x1002, Const 0x71B3] [''RV515'', ''ATI RADEON X1550 Series Secondary''],
  Init [Const 0x1002, Const 0x71BB] [''RV515'', ''ATI FireMV 2250 Secondary''],
  Init [Const 0x1002, Const 0x71C0] [''RV530'', ''ATI RADEON X1600 Series''],
  Init [Const 0x1002, Const 0x71C1] [''RV535'', ''ATI RADEON X1650 Series''],
  Init [Const 0x1002, Const 0x71C2] [''RV530'', ''ATI RADEON X1600 Series''],
  Init [Const 0x1002, Const 0x71C3] [''RV535'', ''ATI RADEON X1650 Series''],
  Init [Const 0x1002, Const 0x71C4] [''M56GL'', ''ATI MOBILITY FireGL V5200''],
  Init [Const 0x1002, Const 0x71C5] [''M56'', ''ATI MOBILITY /ATI RADEON X1600''],
  Init [Const 0x1002, Const 0x71C6] [''RV530'', ''ATI RADEON X1650 Series''],
  Init [Const 0x1002, Const 0x71C7] [''RV535'', ''ATI RADEON X1650 Series''],
  Init [Const 0x1002, Const 0x71CD] [''RV530'', ''ATI RADEON X1600 &#1057;&#1077;&#1088;&#1080;&#1080;''],
  Init [Const 0x1002, Const 0x71CE] [''RV530'', ''ATI RADEON X1600 Pro / ATI RADEON X1300 XT''],
  Init [Const 0x1002, Const 0x71D2] [''RV530GL'', ''ATI FireGL V3400''],
  Init [Const 0x1002, Const 0x71D4] [''M56GL'', ''ATI MOBILITY FireGL V5250''],
  Init [Const 0x1002, Const 0x71D5] [''M56'', ''ATI MOBILITY /ATI RADEON X1700''],
  Init [Const 0x1002, Const 0x71D6] [''M56'', ''ATI MOBILITY /ATI RADEON X1700 XT''],
  Init [Const 0x1002, Const 0x71DA] [''RV530GL'', ''ATI FireGL V5200''],
  Init [Const 0x1002, Const 0x71DE] [''M56'', ''ATI MOBILITY /ATI RADEON X1700''],
  Init [Const 0x1002, Const 0x71E0] [''RV530'', ''ATI RADEON X1600 Series Secondary''],
  Init [Const 0x1002, Const 0x71E1] [''RV535'', ''ATI RADEON X1650 Series Secondary''],
  Init [Const 0x1002, Const 0x71E2] [''RV530'', ''ATI RADEON X1600 Series Secondary''],
  Init [Const 0x1002, Const 0x71E3] [''RV535'', ''ATI RADEON X1300 Series Secondary''],
  Init [Const 0x1002, Const 0x71E6] [''RV530'', ''ATI RADEON X1600 Series Secondary''],
  Init [Const 0x1002, Const 0x71E7] [''RV535'', ''ATI RADEON X1650 Series Secondary''],
  Init [Const 0x1002, Const 0x71ED] [''RV530'', ''ATI RADEON X1600 Series Secondary''],
  Init [Const 0x1002, Const 0x71EE] [''RV530'', ''ATI RADEON X1600 Pro / ATI RADEON X1300 XT Secondary''],
  Init [Const 0x1002, Const 0x71F2] [''RV530GL'', ''ATI FireGL V3400 Secondary''],
  Init [Const 0x1002, Const 0x71FA] [''RV530GL'', ''ATI FireGL V5200 Secondary''],
  Init [Const 0x1002, Const 0x7205] [''1106'', ''S3G Unichrome IGP KM400/KN400''],
  Init [Const 0x1002, Const 0x7210] [''M71'', ''ATI MOBILITY /ATI RADEON HD 2300''],
  Init [Const 0x1002, Const 0x7211] [''M71'', ''ATI MOBILITY /ATI RADEON HD 2300''],
  Init [Const 0x1002, Const 0x7240] [''R580'', ''ATI RADEON X1950 Series''],
  Init [Const 0x1002, Const 0x7243] [''R580'', ''ATI RADEON X1900 Series''],
  Init [Const 0x1002, Const 0x7244] [''R580'', ''ATI RADEON X1950 Series''],
  Init [Const 0x1002, Const 0x7245] [''R580'', ''ATI RADEON X1900 Series''],
  Init [Const 0x1002, Const 0x7246] [''R580'', ''ATI RADEON X1900 Series''],
  Init [Const 0x1002, Const 0x7247] [''R580'', ''ATI RADEON X1900 Series''],
  Init [Const 0x1002, Const 0x7248] [''R580'', ''ATI RADEON X1900 Series''],
  Init [Const 0x1002, Const 0x7249] [''R580'', ''ATI RADEON X1900 Series''],
  Init [Const 0x1002, Const 0x724A] [''R580'', ''ATI RADEON X1900 Series''],
  Init [Const 0x1002, Const 0x724B] [''R580'', ''ATI RADEON X1900 Series''],
  Init [Const 0x1002, Const 0x724C] [''R580'', ''ATI RADEON X1900 Series''],
  Init [Const 0x1002, Const 0x724D] [''R580'', ''ATI RADEON X1900 Series''],
  Init [Const 0x1002, Const 0x724E] [''R580'', ''ATI FireStream 2U''],
  Init [Const 0x1002, Const 0x724F] [''R580'', ''ATI RADEON X1900 Series''],
  Init [Const 0x1002, Const 0x7260] [''R580'', ''ATI RADEON X1950 Series Secondary''],
  Init [Const 0x1002, Const 0x7263] [''R580'', ''ATI RADEON X1900 Series Secondary''],
  Init [Const 0x1002, Const 0x7264] [''R580'', ''ATI RADEON X1950 Series Secondary''],
  Init [Const 0x1002, Const 0x7265] [''R580'', ''ATI RADEON X1900 Series Secondary''],
  Init [Const 0x1002, Const 0x7266] [''R580'', ''ATI RADEON X1900 Series Secondary''],
  Init [Const 0x1002, Const 0x7267] [''R580'', ''ATI RADEON X1900 Series Secondary''],
  Init [Const 0x1002, Const 0x7268] [''R580'', ''ATI RADEON X1900 Series Secondary''],
  Init [Const 0x1002, Const 0x7269] [''R580'', ''ATI RADEON X1900 Series Secondary''],
  Init [Const 0x1002, Const 0x726A] [''R580'', ''ATI RADEON X1900 Series Secondary''],
  Init [Const 0x1002, Const 0x726B] [''R580'', ''ATI RADEON X1900 Series Secondary''],
  Init [Const 0x1002, Const 0x726C] [''R580'', ''ATI RADEON X1900 Series Secondary''],
  Init [Const 0x1002, Const 0x726D] [''R580'', ''ATI RADEON X1900 Series Secondary''],
  Init [Const 0x1002, Const 0x726E] [''R580'', ''ATI FireStream 2U Secondary''],
  Init [Const 0x1002, Const 0x726F] [''R580'', ''ATI RADEON X1900 Series Secondary''],
  Init [Const 0x1002, Const 0x7280] [''R580'', ''ATI RADEON X1950 Series''],
  Init [Const 0x1002, Const 0x7284] [''M58'', ''ATI MOBILITY /ATI RADEON X1900''],
  Init [Const 0x1002, Const 0x7286] [''R580'', ''ATI RAEDON X1950 ''],
  Init [Const 0x1002, Const 0x7288] [''R580'', ''ATI RADEON X1950 GT''],
  Init [Const 0x1002, Const 0x7291] [''R560'', ''ATI RADEON X1650 Series''],
  Init [Const 0x1002, Const 0x7293] [''R580'', ''ATI RADEON X1650 Series''],
  Init [Const 0x1002, Const 0x72A0] [''R580'', ''ATI RADEON X1950 Series Secondary''],
  Init [Const 0x1002, Const 0x72A8] [''R580'', ''ATI RADEON X1950 GT Secondary''],
  Init [Const 0x1002, Const 0x72B1] [''R580'', ''ATI RADEON X1650 Series Secondary''],
  Init [Const 0x1002, Const 0x72B3] [''R580'', ''ATI RADEON X1650 Series Secondary''],
  Init [Const 0x1002, Const 0x7833] [''RS350'', ''Radeon 9100 Pro''],
  Init [Const 0x1002, Const 0x79] [''unknown, 2200 mhz'', ''Campo'' @ [CHR 0x09] @ ''Valor Juego de instrucciones'' @ [CHR 0x09] @ ''x86, x86-64, MMX, 3DNow!, SSE, SSE2, SSE3''],
  Init [Const 0x1002, Const 0x791] [''RS690M'', ''ATI Mobility Radeon x1200''],
  Init [Const 0x1002, Const 0x791A] [''791A'', ''HDMI Audio''],
  Init [Const 0x1002, Const 0x791E] [''RS690'', ''ATI RADEON X1200 Series''],
  Init [Const 0x1002, Const 0x791F] [''RS690M'', ''ATI Mobility Radeon x1100''],
  Init [Const 0x1002, Malformed ''0x791Z''] [''SUBSYS_826D1043'', ''REV_00''],
  Init [Const 0x1002, Const 0x7937] [''Samsung R25P'', ''ATI Technoligies Inc''],
  Init [Const 0x1002, Const 0x793F] [''RS600'', ''ATI RADEON Xpress 1200 Series''],
  Init [Const 0x1002, Const 0x7941] [''RS690M'', ''ATI RADEON Xpress 1200 Series''],
  Init [Const 0x1002, Const 0x7942] [''RS600M'', ''ATI RADEON Xpress 1250''],
  Init [Const 0x1002, Const 0x796E] [''RS690'', ''ATI RADEON 2100''],
  Init [Const 0x1002, Const 0x8086] [''1050'', ''PCI''],
  Init [Const 0x1002, Const 0x9000] [''RV350'', ''ATI Radeon 9600''],
  Init [Const 0x1002, Const 0x9094] [''RV730'', ''ATI Radeon HD 4600 Series''],
  Init [Const 0x1002, Const 0x9400] [''R600'', ''ATI Radeon HD 2900 XT''],
  Init [Const 0x1002, Const 0x9401] [''R600'', ''ATI RADEON HD 2900 XT''],
  Init [Const 0x1002, Const 0x9402] [''R600'', ''ATI RADEON HD 2900 XT''],
  Init [Const 0x1002, Const 0x9403] [''R600'', ''ATI RADEON HD 2900 PRO''],
  Init [Const 0x1002, Const 0x9405] [''R600'', ''ATI RADEON HD 2900 GT''],
  Init [Const 0x1002, Const 0x940A] [''R600GL'', ''ATI FireGL V8650''],
  Init [Const 0x1002, Const 0x940B] [''R600GL'', ''ATI FireGL V8600''],
  Init [Const 0x1002, Const 0x940F] [''R600GL'', ''ATI FireGL V7600''],
  Init [Const 0x1002, Const 0x9440] [''RV770'', ''ATI Radeon HD 4250''],
  Init [Const 0x1002, Const 0x9441] [''R700'', ''ATI Radeon HD 4870 X2''],
  Init [Const 0x1002, Const 0x9442] [''RV770'', ''ATI Radeon HD 4800 Series''],
  Init [Const 0x1002, Const 0x9443] [''R700'', ''ATI Radeon HD 4850 X2''],
  Init [Const 0x1002, Const 0x9444] [''RV770'', ''ATI FirePro V8750 (FireGL)''],
  Init [Const 0x1002, Const 0x9446] [''RV770'', ''ATI FirePro V7770 (FireGL)''],
  Init [Const 0x1002, Const 0x9447] [''R700'', ''ATI FirePro V8700 Duo (FireGL)''],
  Init [Const 0x1002, Const 0x944A] [''M98'', ''ATI Mobility Radeon HD 4850''],
  Init [Const 0x1002, Const 0x944B] [''M98'', ''ATI Mobility Radeon HD 4850 X2''],
  Init [Const 0x1002, Const 0x944C] [''RV770'', ''ATI Radeon HD 4800 Series''],
  Init [Const 0x1002, Const 0x944E] [''RV770'', ''ATI Radeon HD 4700 Series''],
  Init [Const 0x1002, Const 0x9450] [''RV770'', ''AMD FireStream 9270''],
  Init [Const 0x1002, Const 0x9452] [''RV770'', ''AMD FireStream 9250''],
  Init [Const 0x1002, Const 0x9456] [''RV770'', ''ATI FirePro V8700 (FireGL)''],
  Init [Const 0x1002, Const 0x945A] [''M98'', ''ATI Mobility Radeon HD 4870''],
  Init [Const 0x1002, Const 0x9460] [''RV790'', ''ATI Radeon HD 4890 Series''],
  Init [Const 0x1002, Const 0x9462] [''RV790'', ''ATI Mobility Radeon HD 5650'']]"

lemma PciDevTable_21_facts:
  "length PciDevTable_21 = 150" "rejected PciDevTable_21 = 1" "oversized PciDevTable_21 = 0"
  "vendors PciDevTable_21 \<subseteq> Const ` set vendor_numbers"
  unfolding PciDevTable_21_def count_rows by (simp_all add: part_simps listed vendor_known_list cong: part_cong count_rows_cong)

definition PciDevTable_22 :: "initializer list" where
 "PciDevTable_22 = [
  Init [Const 0x1002, Const 0x9480] [''M96'', ''ATI Mobility Radeon HD 4650''],
  Init [Const 0x1002, Const 0x9487] [''RV730'', ''ATI Radeon Graphics Processor''],
  Init [Const 0x1002, Const 0x9488] [''M96'', ''ATI Mobility Radeon HD 4670''],
  Init [Const 0x1002, Const 0x948F] [''RV730'', ''ATI Radeon Graphics Processor''],
  Init [Const 0x1002, Const 0x9490] [''RV730'', ''ATI Radeon HD 4600 Series''],
  Init [Const 0x1002, Const 0x9491] [''M96'', ''ATI Radeon E4600''],
  Init [Const 0x1002, Const 0x9495] [''RV730'', ''ATI RADEON HD4650''],
  Init [Const 0x1002, Const 0x9498] [''RV730'', ''ATI Radeon HD 4600''],
  Init [Const 0x1002, Const 0x949C] [''RV730'', ''ATI FirePro V7750 (FireGL)''],
  Init [Const 0x1002, Const 0x949E] [''RV730'', ''ATI FirePro V5700 (FireGL)''],
  Init [Const 0x1002, Const 0x949F] [''RV730'', ''ATI FirePro V3750 (FireGL)''],
  Init [Const 0x1002, Const 0x94A0] [''M97'', ''ATI Mobility Radeon HD 4830''],
  Init [Const 0x1002, Const 0x94A1] [''M97'', ''ATI Mobility Radeon HD 4860''],
  Init [Const 0x1002, Const 0x94A3] [''M97'', ''ATI FirePro M7740''],
  Init [Const 0x1002, Const 0x94B1] [''RV740'', ''ATI Radeon Graphics Processor''],
  Init [Const 0x1002, Const 0x94B3] [''RV740'', ''ATI Radeon HD 4770''],
  Init [Const 0x1002, Const 0x94B4] [''RV740'', ''ATI Radeon HD 4700 Series''],
  Init [Const 0x1002, Const 0x94B5] [''AA38'', ''ATI Radeon HD 4650''],
  Init [Const 0x1002, Const 0x94C1] [''RV610-DT (Pro)'', ''ATI Radeon HD 2400 XT''],
  Init [Const 0x1002, Const 0x94C3] [''RV610'', ''ATI Radeon HD 2400 PRO PCI-E''],
  Init [Const 0x1002, Const 0x94C4] [''RV610LE'', ''ATI Radeon HD 2400 PRO AGP''],
  Init [Const 0x1002, Const 0x94C5] [''RV610'', ''ATI RADEON HD 2400 LE''],
  Init [Const 0x1002, Const 0x94C7] [''RV610'', ''ATI RADEON HD 2350''],
  Init [Const 0x1002, Const 0x94C8] [''M72'', ''ATI MOBILITY /ATI RADEON HD 2400 XT''],
  Init [Const 0x1002, Const 0x94C9] [''M72'', ''ATI MOBILITY /ATI RADEON HD 2400''],
  Init [Const 0x1002, Const 0x94CB] [''M72'', ''ATI RADEON E2400''],
  Init [Const 0x1002, Const 0x94CC] [''RV610'', ''ATI RADEON HD 2400''],
  Init [Const 0x1002, Const 0x9501] [''RV670 XT'', ''ATI Radeon HD 3870''],
  Init [Const 0x1002, Const 0x9504] [''M76'', ''ATI MOBILITY /ATI RADEON HD 3850''],
  Init [Const 0x1002, Const 0x9505] [''RV630'', ''ATI RADEON HD 3850''],
  Init [Const 0x1002, Const 0x9506] [''M76'', ''ATI MOBILITY /ATI RADEON HD 3850 X2''],
  Init [Const 0x1002, Const 0x9507] [''RV670'', ''ATI Radeon HD 3830''],
  Init [Const 0x1002, Const 0x9508] [''M76'', ''ATI MOBILITY /ATI RADEON HD 3870''],
  Init [Const 0x1002, Const 0x9509] [''M76'', ''ATI MOBILITY /ATI RADEON HD 3870 X2''],
  Init [Const 0x1002, Const 0x950F] [''R680'', ''ATI RADEON HD 3870 X2''],
  Init [Const 0x1002, Const 0x9511] [''RV630GL'', ''ATI FireGL V7700''],
  Init [Const 0x1002, Const 0x9513] [''R680'', ''ATI Radeon HD 3850 X2''],
  Init [Const 0x1002, Const 0x9515] [''RV670 AGP'', ''ATI Radeon HD 3850 AGP''],
  Init [Const 0x1002, Const 0x9519] [''RV670'', ''AMD FireStream 9170''],
  Init [Const 0x1002, Const 0x9540] [''RV710'', ''ATI Radeon HD 4550''],
  Init [Const 0x1002, Const 0x9541] [''RV710'', ''ATI Radeon Graphics Processor''],
  Init [Const 0x1002, Const 0x954E] [''RV710'', ''ATI Radeon Graphics Processor''],
  Init [Const 0x1002, Const 0x954F] [''RV710'', ''ATI Radeon HD 4350''],
  Init [Const 0x1002, Const 0x9552] [''M92'', ''ATI Mobility Radeon HD 4330 '' @ [CHR 0xD0, CHR 0xA1, CHR 0xD0, CHR 0xB5, CHR 0xD1, CHR 0x80, CHR 0xD0, CHR 0xB8, CHR 0xD0, CHR 0xB8]],
  Init [Const 0x1002, Const 0x9553] [''M92'', ''ATI Mobility Radeon HD 4570 series''],
  Init [Const 0x1002, Const 0x9555] [''M93'', ''ATI Mobility Radeon HD 4500 Series''],
  Init [Const 0x1002, Const 0x9557] [''M93'', ''ATI FirePro RG220''],
  Init [Const 0x1002, Const 0x9581] [''M76M'', ''ATI Mobility Radeon HD 2600''],
  Init [Const 0x1002, Const 0x9583] [''M76'', ''ATI MOBILITY /ATI RADEON HD 2600 XT''],
  Init [Const 0x1002, Const 0x9586] [''RV630'', ''ATI RADEON HD 2600 XT AGP''],
  Init [Const 0x1002, Const 0x9587] [''RV630 PRO'', ''ATI Radeon HD 2600 Pro AGP''],
  Init [Const 0x1002, Const 0x9588] [''RV630 XT'', ''ATI Radeon HD 2600 XT''],
  Init [Const 0x1002, Const 0x9589] [''&#1055;&#1056;&#1054; RV630'', ''ATI Radeon HD 2600 Pro''],
  Init [Const 0x1002, Const 0x958B] [''M76'', ''ATI MOBILITY / ATI RADEON HD 2600 XT Gemini''],
  Init [Const 0x1002, Const 0x958C] [''RV630GL'', ''ATI FireGL V5600''],
  Init [Const 0x1002, Const 0x958D] [''RV630GL'', ''ATI FireGL V3600''],
  Init [Const 0x1002, Const 0x958E] [''RV630'', ''ATI RADEON HD 2600 LE''],
  Init [Const 0x1002, Const 0x958F] [''M76'', ''ATI Mobility FireGL Graphics Processor''],
  Init [Const 0x1002, Const 0x9590] [''RV630'', ''ATI RADEON HD 3650 Serieshttp://www.pcidatabase.com/update_device.php?__ec_i=ec.1307313611.e071ed73c''],
  Init [Const 0x1002, Const 0x9591] [''M86-M'', ''ATI Mobility Radeon HD 3650''],
  Init [Const 0x1002, Const 0x9593] [''M86'', ''ATI Mobility Radeon HD 3670''],
  Init [Const 0x1002, Const 0x9595] [''M86'', ''ATI Mobility FireGL V5700''],
  Init [Const 0x1002, Const 0x9596] [''RV630'', ''ATI RADEON HD 3600 Series''],
  Init [Const 0x1002, Const 0x9597] [''RV630'', ''ATI RADEON HD 3600 Series''],
  Init [Const 0x1002, Const 0x9598] [''RV630'', ''ATI Radeon HD 3600 Series ''],
  Init [Const 0x1002, Const 0x9599] [''RV630'', ''ATI RADEON HD 3600 Series''],
  Init [Const 0x1002, Const 0x959B] [''M86'', ''ATI Mobility FireGL Graphics Processor''],
  Init [Const 0x1002, Const 0x95C0] [''RV610'', ''ATI RADEON HD 3470''],
  Init [Const 0x1002, Const 0x95C2] [''M72'', ''ATI MOBILITY /ATI RADEON HD 3430''],
  Init [Const 0x1002, Const 0x95C4] [''M82-S'', ''ATI Mobility Radeon HD 3450''],
  Init [Const 0x1002, Const 0x95C5] [''RV620 LE'', ''ATI Radeon HD 3470''],
  Init [Const 0x1002, Const 0x95C6] [''RV620'', ''ATI Radeon HD 3450''],
  Init [Const 0x1002, Const 0x95C7] [''RV610'', ''ATI RADEON HD 3430''],
  Init [Const 0x1002, Const 0x95C9] [''RV620'', ''ATI Radeon HD 3450''],
  Init [Const 0x1002, Const 0x95CC] [''RV620'', ''ATI FirePRO V3700''],
  Init [Const 0x1002, Const 0x95CD] [''RV610'', ''ATI FireMV 2450''],
  Init [Const 0x1002, Const 0x95CE] [''RV610'', ''ATI FireMV 2260''],
  Init [Const 0x1002, Const 0x95CF] [''RV610'', ''ATI FireMV 2260''],
  Init [Const 0x1002, Const 0x9610] [''RS780'', ''ATI Radeon HD 3200 Graphics''],
  Init [Const 0x1002, Const 0x9611] [''RS780'', ''ATI RADEON 3100 Graphics''],
  Init [Const 0x1002, Const 0x9612] [''RS780M'', ''ATI RADEON HD 3200 Graphics''],
  Init [Const 0x1002, Const 0x9613] [''RS780M'', ''ATI RADEON 3100 Graphics''],
  Init [Const 0x1002, Const 0x9614] [''RS780'', ''ATI RADEON HD 3300 Graphics''],
  Init [Const 0x1002, Const 0x9615] [''RS780'', ''AMD 780E''],
  Init [Const 0x1002, Const 0x9616] [''RS780'', ''AMD 760G''],
  Init [Const 0x1002, Const 0x9644] [''A4-3400'', ''AMD Radeon'' @ [CHR 0x99] @ '' HD 6410D''],
  Init [Const 0x1002, Const 0x9647] [''AMD A6-3420M APU With AMD Radeon HD 6520G'', ''&#1089;&#1090;&#1072;&#1085;&#1076;&#1072;&#1088;&#1090;&#1085;&#1099;&#1081; vga &#1075;&#1088;&#10''],
  Init [Const 0x1002, Const 0x9648] ['' 9648'', ''AMD Radeon(TM) HD 6480G''],
  Init [Const 0x1002, Const 0x9649] [''HD 6480G'', ''AMD Radeon(TM) HD 6480G''],
  Init [Const 0x1002, Const 0x9710] [''RS880'', ''ATI Radeon HD 4200''],
  Init [Const 0x1002, Const 0x9711] [''RS880'', ''ATI Radeon 4100''],
  Init [Const 0x1002, Const 0x9712] [''4250'', ''ATI Mobility Radeon HD 4200 Series (ATI Mobility Radeon HD 4250)''],
  Init [Const 0x1002, Const 0x9713] [''RS880MC'', ''ATI Mobility Radeon 4100''],
  Init [Const 0x1002, Const 0x9715] [''RS880'', ''ATI Radeon HD 4250 Graphics''],
  Init [Const 0x1002, Const 0x9802] [''AMD E-350'', ''AMD Radeon'' @ [CHR 0x99] @ '' HD 6310 Graphics''],
  Init [Const 0x1002, Const 0x9803] [''2411E6FE'', ''Display driver http://support1.toshiba-tro.de/tedd-files2/0/display-20110404110958.zip''],
  Init [Const 0x1002, Const 0x9804] [''AMD Radeon HD 6310 Graphics  AMD Radeon HD 6310 Gr'', ''AMD Radeon HD 6310 Graphics''],
  Init [Const 0x1002, Const 0x9806] [''AMD Radeon HD 6320'', ''E-450 APU''],
  Init [Const 0x1002, Const 0x9807] [''unknow'', ''amd radeon hd 6290 graphic''],
  Init [Const 0x1002, Const 0x9808] [''E2-1800'', ''E-Series APU (E2-1800, maybe more)''],
  Init [Const 0x1002, Const 0x9809] [''7310M'', ''ATI Radeon 7310M''],
  Init [Const 0x1002, Const 0x9876] [''ATI GTC (GT-C2U2)'', ''ATI 3D Rage Pro AGP 2X''],
  Init [Const 0x1002, Const 0x9999] [''(0x9498'', ''ATI Radeon HD 4600''],
  Init [Const 0x1002, Const 0xAA01] [''Ati Function driver for high definition audio1'', ''Ati Mobility Radeon HD HDMI Audio realtek''],
  Init [Const 0x1002, Const 0xAA08] [''All with HDMI support'', ''High Definition Audio Device''],
  Init [Const 0x1002, Const 0xAA10] [''677'', ''HDMI Audio Support''],
  Init [Const 0x1002, Const 0xAA20] [''RV630'', ''ATI Radeon HD 3600 Series''],
  Init [Const 0x1002, Const 0xAA28] [''3400'', ''Radeon HD 3400 Series''],
  Init [Const 0x1002, Const 0xAA68] ['' 0x040300'', '' 0x00''],
  Init [Const 0x1002, Const 0xAC12] [''Theater HD T507'', ''(DVB-T) TV tuner/capture device''],
  Init [Const 0x1002, Const 0xCAB0] [''A3/U1'', ''S2K CPU to PCI Bridge''],
  Init [Const 0x1002, Const 0xCAB1] [''A3/U1'', ''Slot1 CPU to PCI Bridge''],
  Init [Const 0x1002, Const 0xCAB2] [''RS200'', ''CPU to PCI Bridge''],
  Init [Const 0x1002, Const 0xCBB2] [''RS200'', ''CPU to PCI Bridge''],
  Init [Const 0x1002, Malformed ''0xo876''] [[], []],
  Init [Const 0x1002, Const 7800] [[], []],
  Init [Const 0x1003, Const 0x0201] [''0x0201'', ''GUI Accelerator''],
  Init [Const 0x1004, Const 0x0005] [''PCI'' @ [CHR 0x5C] @ ''VEN_13F0'', ''DEV_0200''],
  Init [Const 0x1004, Const 0x0006] [''82C593'', ''ISA Bridge''],
  Init [Const 0x1004, Const 0x0007] [''82C594'', ''Wildcat System Controller''],
  Init [Const 0x1004, Const 0x0008] [''82C596/597'', ''Wildcat ISA Bridge''],
  Init [Const 0x1004, Const 0x0009] [''82C597-AFC2'', []],
  Init [Const 0x1004, Const 0x000C] [''82C541'', []],
  Init [Const 0x1004, Const 0x000D] [''82C543'', []],
  Init [Const 0x1004, Const 0x0100] [''dtdftdfz'', ''CPU to PCI Bridge for notebook''],
  Init [Const 0x1004, Const 0x0101] [''82C532'', ''Peripheral Controller''],
  Init [Const 0x1004, Const 0x0102] [''82C534'', ''PCI to PCI Bridge''],
  Init [Const 0x1004, Const 0x0103] [''82C538'', ''PCI to ISA Bridge''],
  Init [Const 0x1004, Const 0x0104] [''82C535'', ''Host Bridge''],
  Init [Const 0x1004, Const 0x0105] [''82C147'', ''IrDA Controller''],
  Init [Const 0x1004, Const 0x0200] [''82C975'', ''RISC GUI Accelerator''],
  Init [Const 0x1004, Const 0x0280] [''82C925'', ''RISC GUI Accelerator''],
  Init [Const 0x1004, Const 0x0304] [''SAA7785'', ''ThunderBird PCI Audio Accelerator''],
  Init [Const 0x1004, Const 0x0305] [''SAA7785'', ''ThunderBird joystick port''],
  Init [Const 0x1004, Const 0x0306] [''SAA7785'', ''ThunderBird 16650 UART''],
  Init [Const 0x1004, Const 0x0307] [''KTX0208X'', ''Philips Seismic Edge 705''],
  Init [Const 0x1004, Const 0x0308] [''1'', ''Philips PSC705 GamePort Enumerator''],
  Init [Const 0x1004, Const 0x0702] [''VAS96011'', ''Golden Gate II''],
  Init [Const 0x1006, Const 0x3044] [''n/a 1'', ''OHCI Compliant IEEE 1394 Host Controller''],
  Init [Const 0x1008, Const 0x9876] [''23'', ''23''],
  Init [Const 0x100A, Const 0x8235] [''VIA 82C3128'', ''U87088R06''],
  Init [Const 0x100B, Const 0x0001] [''DP83810'', ''10/100 Ethernet MAC''],
  Init [Const 0x100B, Const 0x0002] [''PC87415'', ''PCI-IDE DMA Master Mode Interface Ctrlr''],
  Init [Const 0x100B, Const 0x000E] [''PC87560'', ''Legacy I/O Controller''],
  Init [Const 0x100B, Const 0x000F] [''CS4210'', ''IEEE 1394 OHCI Controller''],
  Init [Const 0x100B, Const 0x0011] [''PC87560'', ''PCI System I/O''],
  Init [Const 0x100B, Const 0x0012] [[], ''USB Controller''],
  Init [Const 0x100B, Const 0x001B] [''LM4560'', ''Advanced PCI Audio Accelerator''],
  Init [Const 0x100B, Const 0x0020] [''DP83815/16'', ''MacPhyter 10/100 Mb/s Ethernet MAC & PHY''],
  Init [Const 0x100B, Malformed ''0x0020h''] [''DP83815'', ''10/100 MacPhyter3v PCI Adapter'']]"

lemma PciDevTable_22_facts:
  "length PciDevTable_22 = 150" "rejected PciDevTable_22 = 2" "oversized PciDevTable_22 = 0"
  "vendors PciDevTable_22 \<subseteq> Const ` set vendor_numbers"
  unfolding PciDevTable_22_def count_rows by (simp_all add: part_simps listed vendor_known_list cong: part_cong count_rows_cong)

definition PciDevTable_23 :: "initializer list" where
 "PciDevTable_23 = [
  Init [Const 0x100B, Const 0x0021] [''PC82440'', ''PCI to ISA Bridge''],
  Init [Const 0x100B, Const 0x0022] [''DP83820/1'', ''10/100/1000 Mb/s PCI Ethernet NIC''],
  Init [Const 0x100B, Const 0x0028] [''Geode GX2'', ''PCI Host Bridge''],
  Init [Const 0x100B, Const 0x002A] [''CS5535'', ''GeodeLink PCI South Bridge''],
  Init [Const 0x100B, Const 0x002D] [''5535'', ''Geode IDE Controller''],
  Init [Const 0x100B, Const 0x002E] [''Castle ()'', ''GEODE - GX3 Audio CS5535''],
  Init [Const 0x100B, Const 0x002F] [''Geode'', ''USB Controller''],
  Init [Const 0x100B, Const 0x0030] [''NSC'', ''Geode VGA Compatible Device''],
  Init [Const 0x100B, Const 0x0500] [''SCx200'', ''LPC Bridge and GPIO''],
  Init [Const 0x100B, Const 0x0501] [''SCx200'', ''SMI Status and ACPI''],
  Init [Const 0x100B, Const 0x0502] [''SC1100/SCx200'', ''IDE Controller''],
  Init [Const 0x100B, Const 0x0503] [''SC1100/SCx200'', ''XpressAUDIO''],
  Init [Const 0x100B, Const 0x0504] [''SCx200'', ''Video Processor''],
  Init [Const 0x100B, Const 0x0505] [''SCx200'', ''X-Bus Expansion Interface''],
  Init [Const 0x100B, Const 0x0510] [''SC1100'', ''LPC Bridge and GPIO''],
  Init [Const 0x100B, Const 0x0511] [''SC1100'', ''SMI Status and ACPI''],
  Init [Const 0x100B, Const 0x0515] [''SC1100'', ''X-Bus Expansion Interface''],
  Init [Const 0x100B, Const 0x23] [[], []],
  Init [Const 0x100B, Const 0xD001] [''M2764AFI'', ''PCI-IDE Interface''],
  Init [Const 0x100C, Const 0x3202] [''ET4000W32P-A'', ''GUI Accelerator''],
  Init [Const 0x100C, Const 0x3205] [''ET4000W32P-B'', ''GUI Accelerator''],
  Init [Const 0x100C, Const 0x3206] [''ET4000W32P-C'', ''GUI Accelerator''],
  Init [Const 0x100C, Const 0x3207] [''ET4000W32P-D'', ''GUI Accelerator''],
  Init [Const 0x100C, Const 0x3208] [''ET6000'', ''Graphics/Multimedia Engine''],
  Init [Const 0x100C, Const 0x4702] [''ET6300'', []],
  Init [Const 0x166D, Const 0x0001] [''BCM1125/BCM1250 PCI Configuration Header'', []],
  Init [Const 0x166D, Const 0x0002] [''BCM1125/BCM1250 HyperTransport Configuration Heade'', ''MIPS BCM1125/BCM1250 processors''],
  Init [Const 0x100E, Const 0x0564] [''STPC Client'', ''Host Bridge''],
  Init [Const 0x100E, Const 0x55CC] [''STPC Client'', ''South Bridge''],
  Init [Const 0x100E, Const 0x9000] [''P9000'', ''WeitekPower GUI Accelerator''],
  Init [Const 0x100E, Const 0x9001] [''P9000'', ''GUI Accelerator''],
  Init [Const 0x100E, Const 0x9100] [''P9100'', ''GUI Accelerator''],
  Init [Const 0x1011, Const 0x0001] [''DC21050'', ''PCI-PCI Bridge''],
  Init [Const 0x1011, Const 0x0002] [''DC21040'', ''Tulip Ethernet Adapter''],
  Init [Const 0x1011, Const 0x0004] [''DC21030'', ''PCI Graphics Accelerator''],
  Init [Const 0x1011, Const 0x0007] [''Zephyr'', ''NV-RAM''],
  Init [Const 0x1011, Const 0x0008] [''KZPSA'', ''SCSI to SCSI Adapter''],
  Init [Const 0x1011, Const 0x0009] [''DC21140'', ''Fast Ethernet Ctrlr''],
  Init [Const 0x1011, Const 0x000A] [''DC21230'', ''Video Codec''],
  Init [Const 0x1011, Const 0x000C] [''1011'', ''6IfPpL  <a href=''],
  Init [Const 0x1011, Const 0x000D] [''TGA2'', ''TGA2 PDXGB''],
  Init [Const 0x1011, Const 0x000F] [''DEFPA'', ''FDDI''],
  Init [Const 0x1011, Const 0x0014] [''DC21041'', ''Tulip Plus Ethernet Adapter''],
  Init [Const 0x1011, Const 0x0016] [''DGLPB'', ''ATM''],
  Init [Const 0x1011, Const 0x0019] [''DC21142/3'', ''PCI/CardBus 10/100 Mbit Ethernet Ctlr''],
  Init [Const 0x1011, Const 0x0021] [''21052[-AB]'', ''PCI-PCI Bridge''],
  Init [Const 0x1011, Const 0x0022] [''DC21150-AA'', ''PCI-PCI Bridge''],
  Init [Const 0x1011, Const 0x0023] [''DC21150'', ''PCI to PCI Bridge''],
  Init [Const 0x1011, Const 0x0024] [''DC21151/2'', ''PCI-PCI Bridge''],
  Init [Const 0x1011, Const 0x0025] [''21153'', ''PCI-PCI Bridge''],
  Init [Const 0x1011, Const 0x0026] [''21154'', ''PCI-PCI Bridge''],
  Init [Const 0x1011, Const 0x0034] [''Modem56'', ''CardBus''],
  Init [Const 0x1011, Const 0x0045] [''DC21553'', ''PCI to PCI Bridge''],
  Init [Const 0x1011, Const 0x0046] [''21554'', ''PCI-to-PCI Bridge''],
  Init [Const 0x1011, Const 0x1011] [''DC21050'', ''PCI-PCI Bridge''],
  Init [Const 0x1011, Const 0x1065] [''DAC960'', ''Mylex DAC1164P Disk Array Controller''],
  Init [Const 0x1011, Const 0x2000] [''3X-KPCON-AA'', ''Fault Mgr (3.3v/5v Universal PCI)''],
  Init [Const 0x1013, Const 0x0038] [''FW82371EB'', ''pci''],
  Init [Const 0x1013, Const 0x0040] [''CL-GD7555'', ''Flat Panel GUI Accelerator''],
  Init [Const 0x1013, Const 0x004C] [''CL-GD7556'', ''64-bit Accelerated LCD/CRT Controller''],
  Init [Const 0x1013, Const 0x00A0] [''CL-GD5440'', ''GUI Accelerator''],
  Init [Const 0x1013, Const 0x00A2] [''CL-GD5432'', ''Alpine GUI Accelerator''],
  Init [Const 0x1013, Const 0x00A4] [''CL-GD5434'', ''Alpine GUI Accelerator''],
  Init [Const 0x1013, Const 0x00A8] [''CL-GD5434'', ''Alpine GUI Accelerator''],
  Init [Const 0x1013, Const 0x00AC] [''CL-GD5426'', ''Video card (i guess?)''],
  Init [Const 0x1013, Const 0x00B8] [''CL-GD5446'', ''64-bit VisualMedia Accelerator''],
  Init [Const 0x1013, Const 0x00BC] [''CL-GD5480'', ''64-bit SGRAM GUI accelerator''],
  Init [Const 0x1013, Const 0x00D0] [''CL-GD5462'', ''Laguna VisualMedia graphics accelerator''],
  Init [Const 0x1013, Const 0x00D4] [''CL-GD5455'', ''Laguna 3D VisualMedia Graphics Accel''],
  Init [Const 0x1013, Const 0x00D5] [''CL-GD5464'', ''Laguna BD''],
  Init [Const 0x1013, Const 0x00D6] [''CL-GD5465'', ''Laguna 3D VisualMedia Graphics Accel''],
  Init [Const 0x1013, Const 0x00E8] [''CL-GD5436U'', []],
  Init [Const 0x1013, Const 0x1013] [''cs4630cm'', ''accelerator do audio do pci de sound fusion''],
  Init [Const 0x1013, Const 0x1100] [''CL-PD6729'', ''PCI-to-PC Card host adapter''],
  Init [Const 0x1013, Const 0x1110] [''CL-PD6832'', ''PCMCIA/CardBus Controller''],
  Init [Const 0x1013, Const 0x1112] [''CL-PD6834'', ''PCMCIA/CardBus Controller''],
  Init [Const 0x1013, Const 0x1113] [''CL-PD6833'', ''PCI-to-CardBus Host Adapter''],
  Init [Const 0x1013, Const 0x1200] [''CL-GD7542'', ''Nordic GUI Accelerator''],
  Init [Const 0x1013, Const 0x1202] [''GD7543'', ''Viking GUI Accelerator''],
  Init [Const 0x1013, Const 0x1204] [''CL-GD7541'', ''Nordic-lite VGA Cntrlr''],
  Init [Const 0x1013, Const 0x4000] [''1085'', ''Ambient CLM Data Fax Voice''],
  Init [Const 0x1013, Const 0x4400] [''CL-CD4400'', ''Communications Controller''],
  Init [Const 0x1013, Const 0x6001] [''CS4610/4611'', ''CrystalClear SoundFusion PCI Audio Accelerator''],
  Init [Const 0x1013, Const 0x6003] [''CS4630-CM'', ''Crystal Sound Fusion a''],
  Init [Const 0x1013, Const 0x6004] [''CS464'', ''CrystalClear SoundFusion PCI Audio Accel''],
  Init [Const 0x1013, Const 0x6005] [''CS4010'', ''Crystal Soundfusion(tm) CS 40210''],
  Init [Const 0x1013, Const 0x9876] [''cirrus logic crystal CS 4614'', ''SoundFusion PCI Audio Accelerator''],
  Init [Const 0x1014, Const 0x0002] [''MCA Bridge'', ''MCA Bridge''],
  Init [Const 0x1014, Const 0x0005] [''Alta Lite'', ''CPU Bridge''],
  Init [Const 0x1014, Const 0x0007] [''Alta MP'', ''CPU Bridge''],
  Init [Const 0x1014, Const 0x000A] [''Fire Coral'', ''ISA Bridge w/PnP''],
  Init [Const 0x1014, Const 0x0017] [[], ''CPU to PCI Bridge''],
  Init [Const 0x1014, Const 0x0018] [''Auto LANStreamer'', ''TR Auto LANStreamer''],
  Init [Const 0x1014, Const 0x001B] [''GXT-150P'', ''Graphics Adapter''],
  Init [Const 0x1014, Const 0x001D] [''82G2675'', ''scsi-2 fast pci adapter''],
  Init [Const 0x1014, Const 0x0020] [''82351/2'', ''MCA Bridge''],
  Init [Const 0x1014, Const 0x0022] [''82351/2'', ''PCI to PCI Bridge ''],
  Init [Const 0x1014, Const 0x002D] [''Python'', []],
  Init [Const 0x1014, Const 0x002E] [''ServeRAID I/II/3x/4H'', ''Coppertime RAID SCSI Adapter''],
  Init [Const 0x1014, Const 0x0036] [''Miami/PCI'', ''32-bit LocalBus Bridge''],
  Init [Const 0x1014, Const 0x0037] [''IBM27-82660'', ''PowerPC to PCI Bridge and Memory Ctrlr''],
  Init [Const 0x1014, Const 0x003A] [[], ''CPU to PCI Bridge''],
  Init [Const 0x1014, Const 0x003E] [''85H9533'', ''IBM Token Ring PCI''],
  Init [Const 0x1014, Const 0x0045] [[], ''SSA Adapter''],
  Init [Const 0x1014, Const 0x0046] [''MPIC'', ''Interrupt Controller''],
  Init [Const 0x1014, Const 0x0047] [[], ''PCI to PCI Bridge''],
  Init [Const 0x1014, Const 0x0048] [[], ''PCI to PCI Bridge''],
  Init [Const 0x1014, Const 0x0049] [[], ''Warhead SCSI Controller''],
  Init [Const 0x1014, Const 0x004D] [''IBM 3780IDSP'', ''MPEG-2 Decoder''],
  Init [Const 0x1014, Const 0x004E] [[], ''ATM Controller''],
  Init [Const 0x1014, Const 0x004F] [[], ''ATM Controller''],
  Init [Const 0x1014, Const 0x0050] [[], ''ATM Controller''],
  Init [Const 0x1014, Const 0x0053] [''85h9533'', ''25 MBit ATM controller''],
  Init [Const 0x1014, Const 0x0057] [''85g1897'', ''MPEG PCI Bridge''],
  Init [Const 0x1014, Const 0x005C] [''i82557B'', ''10/100 PCI Ethernet Adapter''],
  Init [Const 0x1014, Const 0x005D] [''05J3506'', ''TCP/IP networking device''],
  Init [Const 0x1014, Const 0x007C] [[], ''ATM Controller''],
  Init [Const 0x1014, Const 0x007D] [''3780IDSP'', ''MPEG-2 Decoder''],
  Init [Const 0x1014, Const 0x0090] [''GXT-3000P'', []],
  Init [Const 0x1014, Const 0x0095] [''20H2999'', ''PCI Docking Bridge''],
  Init [Const 0x1014, Const 0x0096] [[], ''Chukar chipset SCSI Controller''],
  Init [Const 0x1014, Const 0x00A1] [''PowerNP NPr2.7'', ''ATM support device''],
  Init [Const 0x1014, Const 0x00A5] [[], ''ATM Controller''],
  Init [Const 0x1014, Const 0x00A6] [[], ''ATM 155Mbps MM Controller''],
  Init [Const 0x1014, Const 0x00B7] [''GXT2000'', ''256-bit Graphics Rasterizer''],
  Init [Const 0x1014, Const 0x00BE] [[], ''ATM 622Mbps Controller''],
  Init [Const 0x1014, Const 0x00CE] [''02li537'', ''Adapter 2 Token Ring Card''],
  Init [Const 0x1014, Const 0x00F9] [''CPC700'', ''Memory Controller and PCI Bridge''],
  Init [Const 0x1014, Const 0x00FC] [''CPC710'', ''PCI-64 Bridge''],
  Init [Const 0x1014, Const 0x0105] [''CPC710'', ''PCI-32 Bridge''],
  Init [Const 0x1014, Const 0x010F] [''0680'', ''Remote Supervisor+Serial Port+Mouse/Keyb''],
  Init [Const 0x1014, Const 0x011B] [''cbeh3w'', ''Raid controller''],
  Init [Const 0x1014, Const 0x0142] [''Yotta'', ''Video Compositor Input''],
  Init [Const 0x1014, Const 0x0144] [''Yotta'', ''Video Compositor Output''],
  Init [Const 0x1014, Const 0x0153] [[], []],
  Init [Const 0x1014, Const 0x0156] [''405GP'', ''PLB to PCI Bridge''],
  Init [Const 0x1014, Const 0x0170] [''RC1000'', ''Rasterizer/IBM GT1000 Geometr''],
  Init [Const 0x1014, Const 0x0188] [''x'', ''PCI Bridge''],
  Init [Const 0x1014, Const 0x01A2] [''82801'', ''Modem: Intel Corporation 82440MX AC'' @ [CHR 0x27] @ ''97 Modem Controller (prog-if 00 [Generic])''],
  Init [Const 0x1014, Const 0x01A7] [''IBM 133'', ''PCI-X Bridge R1.1''],
  Init [Const 0x1014, Const 0x01BD] [''ServeRAID 4/5'', ''Morpheus SCSI RAID Controller''],
  Init [Const 0x1014, Const 0x01EF] [''440GP'', ''PLB to PCI-X Bridge''],
  Init [Const 0x1014, Const 0x0246] [[], []],
  Init [Const 0x1014, Const 0x027F] [''440GX'', ''Embedded PowerPC CPU''],
  Init [Const 0x1014, Const 0x0289] [''8086'', ''0890''],
  Init [Const 0x1014, Const 0x028C] [''112'', ''SCSI Storage Controller''],
  Init [Const 0x1014, Const 0x0295] [''NECSCE 11508082'', ''IBM SurePOS Riser Card Function 0''],
  Init [Const 0x1014, Const 0x0297] [''NECSCE 11508082'', ''IBM SurePOS Riser Card Function 1 (UARTs)''],
  Init [Const 0x1014, Const 0x02A1] ['' '', ''Calgary PCI-X Host Bridge''],
  Init [Const 0x1014, Const 0x0302] [''b8331462'', ''PCI-X Host Bridge'']]"

lemma PciDevTable_23_facts:
  "length PciDevTable_23 = 150" "rejected PciDevTable_23 = 0" "oversized PciDevTable_23 = 0"
  "vendors PciDevTable_23 \<subseteq> Const ` set vendor_numbers"
  unfolding PciDevTable_23_def count_rows by (simp_all add: part_simps listed vendor_known_list cong: part_cong count_rows_cong)

definition PciDevTable_24 :: "initializer list" where
 "PciDevTable_24 = [
  Init [Const 0x1014, Const 0x0308] [''1'', ''IBM CalIOC2 (Calgary on PCI-E)''],
  Init [Const 0x1014, Const 0x0339] [''n/a'', ''n/a''],
  Init [Const 0x1014, Const 0xFFFF] [''MPIC 2'', ''Interrupt Controller''],
  Init [Const 0x1014, Malformed ''0xIBM37C0''] [''Unknown'', ''IBM Netfinity Advanced System Management Processor''],
  Init [Const 0x1014, Malformed ''0xIBM37D0''] [''n/a'', ''n/a''],
  Init [Const 0x1017, Const 0x5343] [''v7-mpeg modul'', ''SPEA 3D Accelerator''],
  Init [Const 0x1018, Const 0x3330] [''544469821'', ''5444469821''],
  Init [Const 0x1019, Const 0x1B10] [''sis-648D'', ''VIA chipset''],
  Init [Const 0x1019, Const 0x9876] [''5.03.2600.2180 32bit Unicode'', ''Intel(R) Celeron(R) CPU 2.80GHz''],
  Init [Const 0x101A, Const 0x0005] [''8156'', ''100VG/AnyLAN Adapter''],
  Init [Const 0x101A, Const 0x0009] [''Altera FLEX'', ''PCI-X dual port  ''],
  Init [Const 0x101E, Const 0x9010] [''MegaRAID 428'', ''Ultra Wide SCSI RAID Controller2''],
  Init [Const 0x101E, Const 0x9030] [[], ''EIDE Controller''],
  Init [Const 0x101E, Const 0x9031] [[], ''EIDE Controller''],
  Init [Const 0x101E, Const 0x9032] [[], ''IDE and SCSI Cntrlr''],
  Init [Const 0x101E, Const 0x9033] [''I960'', ''SCSI Controller''],
  Init [Const 0x101E, Const 0x9040] [''amd sempron(tm)2200+'', ''Multimedia card''],
  Init [Const 0x101E, Const 0x9060] [''MegaRAID 434'', ''Ultra GT RAID Controller''],
  Init [Const 0x101E, Const 0x9063] [''MegaRAC 780'', ''Remote Assistant''],
  Init [Const 0x101E, Const 0x9095] [''9095'', ''SGPIO/SES/IPMI Initiator''],
  Init [Const 0x1022, Const 0x1100] [''Athlon 64 / Opteron'', ''HyperTransport Technology Configuration''],
  Init [Const 0x1022, Const 0x1101] [''Athlon 64 / Opteron'', ''Address Map''],
  Init [Const 0x1022, Const 0x1102] [''Athlon 64 / Opteron'', ''AMD Hammer - DRAM Controller ''],
  Init [Const 0x1022, Const 0x1103] [''Athlon 64 / Opteron'', ''AMD Hammer - Miscellaneous Control ''],
  Init [Const 0x1022, Const 0x2000] [''Am79C970/1/2/3/5/6'', ''PCnet LANCE PCI Ethernet Controller''],
  Init [Const 0x1022, Const 0x2001] [''Am79C978'', ''PCnet-Home Networking Ctrlr (1/10 Mbps)''],
  Init [Const 0x1022, Const 0x2003] [''Am1772'', ''Wireless LAN chipset SMC 2602W V3 http://www.smc.com/index.cfm?event=downloads.doSearchCriteria&loca''],
  Init [Const 0x1022, Const 0x2020] [''Am53C974'', ''SCSI Controller''],
  Init [Const 0x1022, Const 0x2040] [''Am79C974'', ''Ethernet Controller''],
  Init [Const 0x1022, Const 0x2081] [''Unknown'', ''GeodeLX graphics adapter''],
  Init [Const 0x1022, Const 0x2082] [''GX3'', ''Geode GX3 AES Crypto Driver''],
  Init [Const 0x1022, Const 0x208F] [''CS5536'', ''GeodeLink PCI South Bridge''],
  Init [Const 0x1022, Const 0x2093] [''CS5536'', ''CS5536 Audio Controller''],
  Init [Const 0x1022, Const 0x2094] [''CS5536'', ''CS5536 OHCI USB Host Controller''],
  Init [Const 0x1022, Const 0x2095] [''CS5536'', ''CS5536 EHCI USB Host Controller''],
  Init [Const 0x1022, Const 0x2096] [''Number: CS5536'', ''CS5536 USB Device Controller''],
  Init [Const 0x1022, Const 0x2097] [''CS5536'', ''CS5536 USB OTG Controller''],
  Init [Const 0x1022, Const 0x209A] [''CS5536'', ''CS5536 IDE Controller''],
  Init [Const 0x1022, Const 0x2433] [''690LC'', ''Chill Control Connector''],
  Init [Const 0x1022, Const 0x3000] [''SC520'', ''ELAN Microcontroller PCI Host Bridge''],
  Init [Const 0x1022, Const 0x5E4B] [''RV410'', ''Radeon X700 Pro''],
  Init [Const 0x1022, Const 0x7004] [''AMD-751'', ''CPU to PCI Bridge''],
  Init [Const 0x1022, Const 0x7006] [''AMD-751'', ''Processor-to-PCI Bridge / Memory Ctrlr''],
  Init [Const 0x1022, Const 0x7007] [''AMD-751'', ''AGP and PCI-to-PCI Bridge (1x/2x AGP)''],
  Init [Const 0x1022, Const 0x700A] [''AMD-IGR4'', ''AGP Host to PCI Bridge''],
  Init [Const 0x1022, Const 0x700B] [''AMD-IGR4'', ''AGP PCI to PCI Bridge''],
  Init [Const 0x1022, Const 0x700C] [''AMD-762'', ''CPU to PCI Bridge (SMP chipset)''],
  Init [Const 0x1022, Const 0x700D] [''AMD-762'', ''CPU to PCI Bridge (AGP 4x)''],
  Init [Const 0x1022, Const 0x700E] [''AMD-761'', ''North Bridge''],
  Init [Const 0x1022, Const 0x700F] [''AMD-761'', ''CPU to AGP Bridge  (AGP 4x)''],
  Init [Const 0x1022, Const 0x7400] [''AMD-755'', ''PCI to ISA Bridge''],
  Init [Const 0x1022, Const 0x7401] [''AMD-755'', ''Bus Master IDE Controller''],
  Init [Const 0x1022, Const 0x7403] [''AMD-755'', ''Power Management Controller''],
  Init [Const 0x1022, Const 0x7404] [''AMD-755'', ''PCI to USB Open Host Controller''],
  Init [Const 0x1022, Const 0x7408] [''AMD-756'', ''PCI-ISA Bridge''],
  Init [Const 0x1022, Const 0x7409] [''AMD-756'', ''EIDE Controller''],
  Init [Const 0x1022, Const 0x740B] [''AMD-756'', ''Power Management''],
  Init [Const 0x1022, Const 0x740C] [''AMD-756'', ''USB Open Host Controller''],
  Init [Const 0x1022, Const 0x7410] [''AMD-766'', ''PCI to ISA/LPC Bridge''],
  Init [Const 0x1022, Const 0x7411] [''AMD-766'', ''Enhanced IDE Controller''],
  Init [Const 0x1022, Const 0x7412] [''AMD-766'', ''USB Controller''],
  Init [Const 0x1022, Const 0x7413] [''AMD-766'', ''Power Management Controller''],
  Init [Const 0x1022, Const 0x7414] [''AMD-766'', ''USB OpenHCI Host Controller''],
  Init [Const 0x1022, Const 0x7440] [''AMD-768'', ''LPC Bridge''],
  Init [Const 0x1022, Const 0x7441] [''AMD-768'', ''EIDE Controller''],
  Init [Const 0x1022, Const 0x7443] [''AMD-768'', ''System Management''],
  Init [Const 0x1022, Const 0x7445] [''AMD-768'', ''AC97 Audio''],
  Init [Const 0x1022, Const 0x7446] [''AMD-768'', ''AC97 Modem''],
  Init [Const 0x1022, Const 0x7448] [''AMD-768'', ''PCI Bridge''],
  Init [Const 0x1022, Const 0x7449] [''AMD-768'', ''USB Controller''],
  Init [Const 0x1022, Const 0x7450] [''AMD-8131'', ''PCI-X Bridge''],
  Init [Const 0x1022, Const 0x7451] [''AMD-8131'', ''PCI-X IOAPIC''],
  Init [Const 0x1022, Const 0x7454] [''AMD-8151'', ''System Controller''],
  Init [Const 0x1022, Const 0x7455] [''AMD-8151'', ''AGP Bridge''],
  Init [Const 0x1022, Const 0x7458] [''AMD-8132'', ''PCI-X Bridge''],
  Init [Const 0x1022, Const 0x7459] [''AMD-8132'', ''PCI-X IOAPIC''],
  Init [Const 0x1022, Const 0x7460] [''AMD-8111'', ''PCI Bridge''],
  Init [Const 0x1022, Const 0x7461] [''AMD-8111'', ''USB 2.0 Controller''],
  Init [Const 0x1022, Const 0x7462] [''AMD-8111'', ''Ethernet Controller''],
  Init [Const 0x1022, Const 0x7463] [''AMD-8111'', ''USB Enhanced Host Controller''],
  Init [Const 0x1022, Const 0x7464] [''AMD-8111'', ''USB OpenHCI Host Controller''],
  Init [Const 0x1022, Const 0x7468] [''AMD-8111'', ''LPC Bridge''],
  Init [Const 0x1022, Const 0x7469] [''AMD-8111'', ''UltraATA/133 Controller''],
  Init [Const 0x1022, Const 0x746A] [''AMD-8111'', ''SMBus 2.0 Controller''],
  Init [Const 0x1022, Const 0x746B] [''AMD-8111'', ''System Management''],
  Init [Const 0x1022, Const 0x746D] [''AMD-8111 (not sure but definitively not c-media cm'', '' Audio Controller''],
  Init [Const 0x1022, Const 0x746E] [''AMD-8111'', ''AC'' @ [CHR 0x27] @ ''97 Modem''],
  Init [Const 0x1022, Const 0x756B] [''AMD-8111'', ''ACPI Controller''],
  Init [Const 0x1022, Const 0x7801] [''amd_sata'', ''AMD SATA Controller''],
  Init [Const 0x1022, Malformed ''0x7801_''] [''amd_sata'', ''AMD SATA Controller''],
  Init [Const 0x1022, Const 0x7804] [''AMD SATA Controller'', ''AMD SATA Controller''],
  Init [Const 0x1022, Const 0x7807] [''Standard OpenHCD USB Host Controller'', ''Standard OpenHCD USB Host Controller''],
  Init [Const 0x1022, Const 0x7808] [''Standard PCI-to-USB extended host controller '', ''Standard PCI-to-USB extended host controller ''],
  Init [Const 0x1022, Const 0x780B] [''R309218'', ''SM Bus controller''],
  Init [Const 0x1022, Const 0x7812] [''amd_sata '', ''AMD USB 3.0 Host Controller''],
  Init [Const 0x1022, Const 0x840] [''4u'', ''Used to blow up the motherboard.  Highly explosive.  Use at ur own risk''],
  Init [Const 0x1022, Const 0x9642] [''AMD-6370D'', ''AMD Radeon HD6370D''],
  Init [Const 0x1023, Const 0x0194] [''82C194'', ''CardBus Controller''],
  Init [Const 0x1023, Const 0x2000] [''4DWAVE-DX'', ''advanced PCI DirectSound accelerator''],
  Init [Const 0x1023, Const 0x2001] [''4D WAVE DX SOUND ACCELERATOR'', ''PCI Audio''],
  Init [Const 0x1023, Const 0x2100] [''Cyber-XP4'', ''Video Accelerator''],
  Init [Const 0x1023, Const 0x2200] [''Volari V3'', ''Video adapter''],
  Init [Const 0x1023, Const 0x8400] [''84001023'', ''sausgauos''],
  Init [Const 0x1023, Const 0x8420] [''51331071'', ''Trident Cyber Blade i7 AGP (55)''],
  Init [Const 0x1023, Const 0x8500] [''VT8361'', ''Via Tech VT8361/VT8601 Graphics Controller''],
  Init [Const 0x1023, Const 0x8520] [''Trident Video Accelerator CyberBlade i1'', ''Windows xp''],
  Init [Const 0x1023, Const 0x8620] [''CyberBlade-i1'', ''trident''],
  Init [Const 0x1023, Const 0x8820] [''Ai1'', ''TRIDENT DISPLAY CONTROLER /CyberALADDiN-T Driver''],
  Init [Const 0x1023, Const 0x9320] [''TGUI9320'', ''32-bit GUI Accelerator''],
  Init [Const 0x1023, Const 0x9350] [''TGUI9350'', ''32-bit GUI Accelerator''],
  Init [Const 0x1023, Const 0x9360] [[], ''Flat panel Cntrlr''],
  Init [Const 0x1023, Const 0x9382] [''Cyber9382'', []],
  Init [Const 0x1023, Const 0x9383] [''Cyber9383'', []],
  Init [Const 0x1023, Const 0x9385] [''Cyber9385'', []],
  Init [Const 0x1023, Const 0x9386] [''Cyber9386'', ''Video Accelerator''],
  Init [Const 0x1023, Const 0x9388] [''Cyber9388'', ''Video Accelerator''],
  Init [Const 0x1023, Const 0x9397] [''Cyber9397'', ''Video Accelerator 3D''],
  Init [Const 0x1023, Const 0x939A] [''Cyber9397DVD'', ''Video Accelerator''],
  Init [Const 0x1023, Const 0x9420] [''TGUI9420'', ''DGi GUI Accelerator''],
  Init [Const 0x1023, Const 0x9430] [''TGUI9430'', ''GUI Accelerator''],
  Init [Const 0x1023, Const 0x9440] [''TGUI9682'', ''DGi GUI Acclerator''],
  Init [Const 0x1023, Const 0x9460] [''TGUI9460'', ''32-bit GUI Accelerator''],
  Init [Const 0x1023, Const 0x9470] [''TGUI9470'', []],
  Init [Const 0x1023, Const 0x9520] [''ox16'', ''Video Accelerator''],
  Init [Const 0x1023, Const 0x9525] [''Cyber9525'', ''Video Accelerator''],
  Init [Const 0x1023, Const 0x9540] [''Cyber9540'', ''Video Acclerator''],
  Init [Const 0x1023, Const 0x9660] [''TGUI9660'', ''GUI Accelerator''],
  Init [Const 0x1023, Const 0x9680] [''TGUI9680'', ''GUI Accelerator''],
  Init [Const 0x1023, Const 0x9682] [''TGUI9680'', ''Trident A CAB01''],
  Init [Const 0x1023, Const 0x9683] [''TGUI9683'', ''GUI Accelerator''],
  Init [Const 0x1023, Const 0x9685] [''ProVIDIA 9685'', ''2MB VGA''],
  Init [Const 0x1023, Const 0x9750] [''3DImage 9750 PCI/AGP'', ''trident dgi''],
  Init [Const 0x1023, Const 0x9753] [''TGUI9753'', ''Video Accelerator''],
  Init [Const 0x1023, Const 0x9754] [''TGUI9753'', ''Wave Video Accelerator''],
  Init [Const 0x1023, Const 0x9759] [''TGUI975?'', ''Image GUI Accelerator''],
  Init [Const 0x1023, Const 0x9783] [''TGUI9783'', []],
  Init [Const 0x1023, Const 0x9785] [''TGUI9785'', []],
  Init [Const 0x1023, Const 0x9850] [''3D Image 9850 AGP'', ''4mb''],
  Init [Const 0x1023, Const 0x9880] [''Blade 3D 9880'', ''gggggg''],
  Init [Const 0x1023, Const 0x9910] [''00011178'', ''CyberBlade XP''],
  Init [Const 0x1023, Const 0x9930] [''CyberBlade XPm'', []],
  Init [Const 0x1023, Const 0x9960] [''9960'', ''Trident Video Accelerator CyberBlade-1A31''],
  Init [Const 0x1025, Const 0x0028] [''AC97'', ''Agere Systems soft modem chip''],
  Init [Const 0x1025, Const 0x1435] [''M1435'', ''USB'' @ [CHR 0x5C] @ ''VID_0502&PID_3476&MI_01'' @ [CHR 0x5C] @ ''6&207B7CA8&0&0001''],
  Init [Const 0x1025, Const 0x1445] [''M1445'', ''VL Bridge & EIDE''],
  Init [Const 0x1025, Const 0x1449] [''M1449'', ''ISA Bridge''],
  Init [Const 0x1025, Const 0x1451] [''M1451'', ''Pentium Chipset''],
  Init [Const 0x1025, Const 0x1461] [''M1461'', ''P54C Chipset''],
  Init [Const 0x1025, Const 0x1489] [''M1489'', []],
  Init [Const 0x1025, Const 0x1511] [''M1511'', []]]"

lemma PciDevTable_24_facts:
  "length PciDevTable_24 = 150" "rejected PciDevTable_24 = 3" "oversized PciDevTable_24 = 0"
  "vendors PciDevTable_24 \<subseteq> Const ` set vendor_numbers"
  unfolding PciDevTable_24_def count_rows by (simp_all add: part_simps listed vendor_known_list cong: part_cong count_rows_cong)

definition PciDevTable_25 :: "initializer list" where
 "PciDevTable_25 = [
  Init [Const 0x1025, Const 0x1512] [''M1512'', []],
  Init [Const 0x1025, Const 0x1513] [''M1513'', []],
  Init [Const 0x1025, Const 0x1521] [''M1521'', ''CPU Bridge''],
  Init [Const 0x1025, Const 0x1523] [''M1523'', ''ISA Bridge''],
  Init [Const 0x1025, Const 0x1531] [''M1531'', ''North Bridge''],
  Init [Const 0x1025, Const 0x1533] [''M1533'', ''ISA South Bridge''],
  Init [Const 0x1025, Const 0x1535] [''M1535'', ''PCI South Bridge''],
  Init [Const 0x1025, Const 0x1541] [''M1541'', ''AGP PCI North Bridge Aladdin V/V+''],
  Init [Const 0x1025, Const 0x1542] [''M1542'', ''AGP+PCI North Bridge''],
  Init [Const 0x1025, Const 0x1543] [''M1543C'', ''PCi South Bridge Aladdin IV+/V''],
  Init [Const 0x1025, Const 0x1561] [''M1561'', ''driver video''],
  Init [Const 0x1025, Const 0x1621] [''M1621'', ''PCI North Bridge Aladdin Pro II''],
  Init [Const 0x1025, Const 0x1631] [''M1631'', ''PCI North Bridge Aladdin Pro III''],
  Init [Const 0x1025, Const 0x1641] [''M1641'', ''PCI North Bridge Aladdin Pro IV''],
  Init [Const 0x1025, Const 0x3141] [''M3141'', ''GUI Accelerator''],
  Init [Const 0x1025, Const 0x3143] [''M3143'', ''GUI Accelerator''],
  Init [Const 0x1025, Const 0x3145] [''M3145'', ''GUI Accelerator''],
  Init [Const 0x1025, Const 0x3147] [''M3147'', ''GUI Accelerator''],
  Init [Const 0x1025, Const 0x3149] [''M3149'', ''GUI Accelerator''],
  Init [Const 0x1025, Const 0x3151] [''M3151'', ''GUI Accelerator''],
  Init [Const 0x1025, Const 0x3307] [''M3307'', ''MPEG-1 Decoder''],
  Init [Const 0x1025, Const 0x3309] [''M3309'', ''MPEG Decoder''],
  Init [Const 0x1025, Const 0x5212] [''M4803'', []],
  Init [Const 0x1025, Const 0x5215] [''M5217'', ''EIDE Controller''],
  Init [Const 0x1025, Const 0x5217] [''M5217'', ''I/O Controller''],
  Init [Const 0x1025, Const 0x5219] [''M5219'', ''I/O Controller''],
  Init [Const 0x1025, Const 0x5225] [''M5225'', ''EIDE Controller''],
  Init [Const 0x1025, Const 0x5229] [''M522'', ''EIDE Controlle''],
  Init [Const 0x1025, Const 0x5235] [''1025'', ''I/O Controller''],
  Init [Const 0x1025, Const 0x5237] [''M5237'', ''Intel(R) 5 Series/3400 Series Chipset Family 4 Port SATA AHCI Controller - 3B29''],
  Init [Const 0x1025, Const 0x5239] [[], []],
  Init [Const 0x1025, Const 0x5240] [[], ''EIDE Controller''],
  Init [Const 0x1025, Const 0x5241] [[], ''PCMCIA Bridge''],
  Init [Const 0x1025, Const 0x5242] [[], ''General Purpose Controller''],
  Init [Const 0x1025, Const 0x5243] [[], ''PCI to PCI Bridge''],
  Init [Const 0x1025, Const 0x5244] [[], ''Floppy Disk Controller''],
  Init [Const 0x1025, Const 0x5247] [''M1541'', ''PCI-PCI Bridge''],
  Init [Const 0x1025, Const 0x5427] [[], ''PCI to AGP Bridge''],
  Init [Const 0x1025, Const 0x5451] [''M5451'', ''PCI AC-Link Controller Audio Device''],
  Init [Const 0x1025, Const 0x5453] [''M5453'', ''M5453 AC-Link Controller Modem Device''],
  Init [Const 0x1025, Const 0x7101] [''M7101'', ''PCI PMU Power Management Controller''],
  Init [Const 0x1028, Const 0x0001] [''PowerEdge 2 /Si'', ''Expandable RAID Controller (PERC) (SCSI)''],
  Init [Const 0x1028, Const 0x0002] [''PowerEdge 3/Di'', ''Expandable RAID Controller''],
  Init [Const 0x1028, Const 0x0003] [''PowerEdge 3/Si'', ''Expandable RAID Controller''],
  Init [Const 0x1028, Const 0x0004] [''PowerEdge 3/Si'', ''Expandable RAID Controller''],
  Init [Const 0x1028, Const 0x0005] [''PowerEdge 3/Di'', ''Expandable RAID Controller''],
  Init [Const 0x1028, Const 0x0006] [''PowerEdge 3/Di'', ''Expandable RAID Controller''],
  Init [Const 0x1028, Const 0x0007] [''270'', ''Remote Assistant Card''],
  Init [Const 0x1028, Const 0x0008] [''PowerEdge 3/Di'', ''RAC Virtual UART Port''],
  Init [Const 0x1028, Const 0x000A] [''PowerEdge 3/Di'', ''Expandable RAID Controller''],
  Init [Const 0x1028, Const 0x000C] [''53C885 23800 SCSI Adapter'', ''Embedded Systems Management Device 4''],
  Init [Const 0x1028, Const 0x000D] [''?'', ''LSI53C895 PCI to Ultra2 SCSI I/O Processor with LVD Link''],
  Init [Const 0x1028, Const 0x000E] [''000E'', ''PERC 4/DI Raid Controller''],
  Init [Const 0x1028, Const 0x0010] [''DRAC4'', ''HJ866 - ESM4 &#1059;&#1076;&#1072;&#1083;&#1077;&#1085;&#1085;&#1099;&#1081; &#1044;&#1086;&#1089;&#''],
  Init [Const 0x1028, Const 0x0011] [''DRAC4'', ''Dell Remote Access Controller v4''],
  Init [Const 0x1028, Const 0x0012] [''DRAC4-UART'', ''Dell RAC v4 Virtual UART''],
  Init [Const 0x1028, Const 0x0013] [''PERC 4e/Si and PERC 4e/Di'', ''Expandable RAID Controller''],
  Init [Const 0x1028, Const 0x0014] [''DRAC4-0'', ''Dell Remote Access Controller subsystem''],
  Init [Const 0x1028, Const 0x0015] [''PERC 5/i RAID Controller'', ''Integrated RAID controller''],
  Init [Const 0x1028, Const 0x012C] [''82545'', ''Intel Gigabit controller''],
  Init [Const 0x1028, Const 0x016D] [''82541GI'', ''Dell PRO/1000 MT Network Connection''],
  Init [Const 0x1028, Const 0x0287] [''DELL PERC 320/DC'', ''Adaptec 2200S SCSI RAID controller''],
  Init [Const 0x1028, Const 0x1000] [''FA82537EP'', ''A Intel 537 epg v.92 modem repackaged by dell''],
  Init [Const 0x1028, Const 0x1050] [''0200'', ''ethernet controller''],
  Init [Const 0x1028, Const 0x1F0C] [''1078'', ''Dell PERC 6/i Integrated RAID Controller''],
  Init [Const 0x1028, Const 0x3002] [''AR3011'', ''Dell Wireless 1702 Bluetooth v3.0+HS''],
  Init [Const 0x1028, Const 0x3582] [''inspiron n5110'', ''video controller''],
  Init [Const 0x1028, Const 0x9876] [''PowerEdge 3/Si'', ''Expandable RAID Controller''],
  Init [Const 0x102A, Const 0x0000] [''HYDRA'', ''4 port usb hub''],
  Init [Const 0x102A, Const 0x0003] [''0x0000'', ''USB'' @ [CHR 0x5C] @ ''VID_0000&PID_0003'' @ [CHR 0x5C] @ ''5&18BB29D0&1&2''],
  Init [Const 0x102A, Const 0x0010] [''ASPEN'', ''i486 Chipset''],
  Init [Const 0x102A, Const 0x002A] [''HYDRA'', ''4 port usb hub''],
  Init [Const 0x102A, Const 0x102A] [''HYDRA'', ''P5 Chipset''],
  Init [Const 0x102A, Const 0x9876] [''HYDRA'', ''P5 CHIPSET''],
  Init [Const 0x102B, Const 0x0010] [''MGA-I'', ''Impression?''],
  Init [Const 0x102B, Const 0x0040] [''chip=0x2539102b'', ''Matrox P650 very new model (20080724)''],
  Init [Const 0x102B, Const 0x051] [''MGA-2164W'', ''matrox''],
  Init [Const 0x102B, Const 0x0518] [''MGA-PX2085'', ''Atlas GUI Accelerator''],
  Init [Const 0x102B, Const 0x0519] [''MGA-2064W'', ''Strorm GUI Accelerator''],
  Init [Const 0x102B, Const 0x051A] [''mga-1164sg-a'', ''Hurricane/Cyclone 64-bit graphics chip''],
  Init [Const 0x102B, Const 0x051B] [''MGA-2164W'', ''Matrox''],
  Init [Const 0x102B, Const 0x051E] [''MGA-1164SG'', ''Chinook''],
  Init [Const 0x102B, Const 0x051F] [''MGA-200B'', ''Mistral''],
  Init [Const 0x102B, Const 0x0520] [''Matrox lnc MGA-G200B'', ''AGP''],
  Init [Const 0x102B, Const 0x0521] [''Matrox lnc MGA-G200B'', ''102B''],
  Init [Const 0x102B, Const 0x0522] [''G200e'', ''Matrox G200e (ServerEngines) - English''],
  Init [Const 0x102B, Const 0x0525] [''i440B'', ''Intel Pentium III''],
  Init [Const 0x102B, Const 0x0527] [''Parhelia AGP'', []],
  Init [Const 0x102B, Const 0x0528] [''Parhelia'', ''Parhelia 128MB/256MB/PCI/HR256''],
  Init [Const 0x102B, Const 0x0530] [''Matrox  G200eV'', ''Matrox G200eV''],
  Init [Const 0x102B, Const 0x0534] [''?'', ''G200eR''],
  Init [Const 0x102B, Const 0x0540] [''M9138'', ''M9138 LP PCIe x16''],
  Init [Const 0x102B, Const 0x0D10] [''MGA-I'', ''Athena GUI accelerator''],
  Init [Const 0x102B, Const 0x1000] [''MGA-G100'', ''Twister''],
  Init [Const 0x102B, Const 0x1001] [''MGA-G100'', ''Twister AGP''],
  Init [Const 0x102B, Const 0x1525] [''Fusion G450 AGP'', []],
  Init [Const 0x102B, Const 0x1527] [''Fusion Plus G800 AGP'', []],
  Init [Const 0x102B, Const 0x2007] [''Mistral'', ''GUI+3D Accelerator''],
  Init [Const 0x102B, Const 0x2527] [''MGA-G550'', ''AGP Chipset''],
  Init [Const 0x102B, Const 0x2537] [''Parhelia-LX'', ''Parhelia Chipset AGP''],
  Init [Const 0x102B, Const 0x2538] [''Matrox Millennium P650 LP PCIe 64'', ''Matrox Millennium P650 LP PCIe 64''],
  Init [Const 0x102B, Const 0x2539] [''G550/P650 Dual DVI'', ''Matrox Graphics Board dual DVI''],
  Init [Const 0x102B, Const 0x4536] [''Meteor 2 STD/MC/Dig'', ''Video Capture Card''],
  Init [Const 0x102B, Const 0x522] [''MGA-G200E'', ''Matrox G200e (ServerEngines)''],
  Init [Const 0x102B, Const 0x525] [''G450'', ''G45+''],
  Init [Const 0x102B, Const 0x532] [''G200eW'', ''Matrox G200eW 8 MB DDR2 ''],
  Init [Const 0x102B, Const 0x6573] [''Shark'', ''10/100 Multiport Switch NIC''],
  Init [Const 0x102B, Const 0x80A0] [''RT.x10'', ''Multimedia Device''],
  Init [Const 0x102B, Const 0x9876] [''RT 2000'', ''Multimedia device''],
  Init [Const 0x102C, Const 0x00B8] [''64310'', ''Wingine DGX - DRAM Graphics Accelerator''],
  Init [Const 0x102C, Const 0x00C0] [''69000'', ''AGP/PCI Flat Panel/CRT VGA Accelerator''],
  Init [Const 0x102C, Const 0x00D0] [''65545'', ''Flat panel/crt VGA Cntrlr''],
  Init [Const 0x102C, Const 0x00D8] [''65540'', ''Flat Panel/CRT VGA Controller''],
  Init [Const 0x102C, Const 0x00DC] [''65548'', ''GUI Accelerator''],
  Init [Const 0x102C, Const 0x00E0] [''65550'', ''LCD/CRT controller''],
  Init [Const 0x102C, Const 0x00E4] [''65554'', ''Flat Panel/LCD CRT GUI Accelerator''],
  Init [Const 0x102C, Const 0x00E5] [''65555'', ''VGA GUI Accelerator''],
  Init [Const 0x102C, Const 0x00F0] [''68554'', ''vga Controller''],
  Init [Const 0x102C, Const 0x00F4] [''68554'', ''graphic driver''],
  Init [Const 0x102C, Const 0x00F5] [''68555'', ''GUI Controller''],
  Init [Const 0x102C, Const 0x01E0] [''65560'', ''PCI Flat Panel/CRT VGA Accelerator''],
  Init [Const 0x102C, Const 0x0C30] [''69030'', ''AGP/PCI Flat Panel/CRT VGA Accelerator''],
  Init [Const 0x102D, Const 0x50DC] [''3328'', ''Audio''],
  Init [Const 0x102F, Const 0x0009] [''r4x00'', ''CPU Bridge''],
  Init [Const 0x102F, Const 0x000A] [''TX3927'', ''CPU Bridge?''],
  Init [Const 0x102F, Const 0x0020] [''Meteor 155'', ''ATM PCI Adapter''],
  Init [Const 0x102F, Const 0x0030] [''TC35815CF'', ''PCI'' @ [CHR 0x5C] @ ''VEN_8086''],
  Init [Const 0x102F, Const 0x0031] [''TX4938'', ''Integrated 10/100 Mbit Ethernet Controller''],
  Init [Const 0x102F, Const 0x0100] [''8185'', ''Realtek RTS5208 Card Reader''],
  Init [Const 0x102F, Const 0x0105] [''TC86C001FG'', ''GOKU-S Bus Master IDE Controller''],
  Init [Const 0x102F, Const 0x0106] [''TC86C001FG'', ''GOKU-S USB Host Controller''],
  Init [Const 0x102F, Const 0x0107] [''TC86C001FG'', ''GOKU-S USB Device Controller''],
  Init [Const 0x102F, Const 0x0108] [''TC86C001FG'', ''GOKU-S I2C Bus/SIO/GPIO Controller''],
  Init [Const 0x102F, Const 0x0180] [''TX4927'', ''MIPS Processor''],
  Init [Const 0x102F, Const 0x0181] [''TX4925'', ''MIPS RISC PCI Controller (PCIC)''],
  Init [Const 0x102F, Const 0x0182] [''TX4937'', ''MIPS RISC PCI Controller (PCIC)''],
  Init [Const 0x102F, Const 0x01BA] [''SE1000'', ''SpursEngine''],
  Init [Const 0x102F, Const 0x0805] [''TC35815CF'', ''PCI'' @ [CHR 0x5C] @ ''VEN_1179&DEV_0805&SUBSYS_00011179&REV_03''],
  Init [Const 0x102F, Const 0x102F] [''ACPI'' @ [CHR 0x5C] @ ''SMCFO30'' @ [CHR 0x5C] @ ''4&69EE968&0'', ''PCI'' @ [CHR 0x5C] @ ''VEN_1179&DEV_0805&SUBSYS_00011179&REV_05'' @ [CHR 0x5C] @ ''4&7562792&0&68F0''],
  Init [Const 0x1031, Const 0x5601] [''MiroVIDEO DC20'', ''I/O & JPEG''],
  Init [Const 0x1031, Const 0x5607] [''2IVDC-PCX1 1250400 033893932'', ''video in and out with motion jpeg compression and deco''],
  Init [Const 0x1031, Const 0x5631] [''Media 3D'', []],
  Init [Const 0x1031, Const 0x6057] [''MiroVIDEO DC30D'', ''DC30D-601601-4.0''],
  Init [Const 0x1033, Const 0x0001] [''upD98409'', ''PCI to 486 like bus Bridge''],
  Init [Const 0x1033, Const 0x0002] [[], ''PCI to VL98 Bridge''],
  Init [Const 0x1033, Const 0x0003] [[], ''ATM Controller''],
  Init [Const 0x1033, Const 0x0004] [''R4000'', ''PCI bus Bridge''],
  Init [Const 0x1033, Const 0x0005] [''pci 7432'', ''PCI to 486 like peripheral bus Bridge''],
  Init [Const 0x1033, Const 0x0006] [[], ''GUI Accelerator''],
  Init [Const 0x1033, Const 0x0007] [''unknown from Creative.com'', ''PCI to ux-bus Bridge'']]"

lemma PciDevTable_25_facts:
  "length PciDevTable_25 = 150" "rejected PciDevTable_25 = 0" "oversized PciDevTable_25 = 0"
  "vendors PciDevTable_25 \<subseteq> Const ` set vendor_numbers"
  unfolding PciDevTable_25_def count_rows by (simp_all add: part_simps listed vendor_known_list cong: part_cong count_rows_cong)

definition PciDevTable_26 :: "initializer list" where
 "PciDevTable_26 = [
  Init [Const 0x1033, Const 0x0008] [[], ''GUI Accelerator (vga equivalent)''],
  Init [Const 0x1033, Const 0x0009] [[], ''graphic Cntrlr for 98''],
  Init [Const 0x1033, Const 0x001A] [''Nile II'', []],
  Init [Const 0x1033, Const 0x001D] [''uPD98405'', ''NEASCOT-S20 ATM Integrated SAR Ctrlr''],
  Init [Const 0x1033, Const 0x0021] [''Vrc4373'', ''Nile I''],
  Init [Const 0x1033, Const 0x0029] [''PoverVR PCX1'', ''3D Accelerator''],
  Init [Const 0x1033, Const 0x002A] [''PoverVR'', ''3D Accelerator''],
  Init [Const 0x1033, Const 0x002F] [''NEC D72874GC'', ''1394 Host Controller''],
  Init [Const 0x1033, Const 0x0034] [''PCI'' @ [CHR 0x5C] @ ''VEN_1033&DEV_0034&SUBSYS_00341033&REV_43'', ''PCI'' @ [CHR 0x5C] @ ''VEN_1033&DEV_0034&SUBSYS_00341033''],
  Init [Const 0x1033, Const 0x0035] [''udp9210'', ''Dual OHCI controllers plus Single EHCI controller''],
  Init [Const 0x1033, Const 0x0036] [''uPD98409'', ''NEASCOT-S40C ATM Light SAR Controller''],
  Init [Const 0x1033, Const 0x003E] [''uPD66369'', ''NAPCCARD CardBus Controller''],
  Init [Const 0x1033, Const 0x0046] [''PoverVR PCX2'', ''3D Accelerator''],
  Init [Const 0x1033, Const 0x005A] [''Vrc5074'', ''Nile 4''],
  Init [Const 0x1033, Const 0x0063] [''uPD72862'', ''Firewarden IEEE1394 OHCI Host Controller''],
  Init [Const 0x1033, Const 0x0067] [''PowerVR Neon 250'', ''PowerVR series II graphics processor''],
  Init [Const 0x1033, Const 0x0074] [''NEC FMK 56 V90'', ''56k Voice Modem''],
  Init [Const 0x1033, Const 0x009B] [''Vrc5476'', []],
  Init [Const 0x1033, Const 0x00A6] [[], []],
  Init [Const 0x1033, Const 0x00BE] [''VR4122'', ''64-bit CPU with Northbridge''],
  Init [Const 0x1033, Const 0x00CD] [''uPD72870'', ''IEEE1394 1-Chip OHCI Host Controller''],
  Init [Const 0x1033, Const 0x00CE] [''uPD72871/2'', ''IEEE1394 1-Chip OHCI Host Controller''],
  Init [Const 0x1033, Const 0x00E0] [''0x1033'' @ [CHR 0x09], ''USB 2.0 Host Controller''],
  Init [Const 0x1033, Const 0x00E0] [''uPD720100A uPD720102GC'', ''USB 2.0 Host Controller''],
  Init [Const 0x1033, Const 0x00E7] [''uPD72874'', ''IEEE1394 OHCI 1.1 3-port PHY-Link Ctrlr''],
  Init [Const 0x1033, Const 0x00F2] [''D72874GC'', ''IEEE1394+OHCI+1.1+3-port+PHY-Link+Ctrlr''],
  Init [Const 0x1033, Const 0x0165] [''-'', ''AVerMedia A313 MiniCard Hybrid DVB-T''],
  Init [Const 0x1033, Const 0x0194] [''720200'', ''Renesas Electronics USB 3.0 Host Controller''],
  Init [Const 0x1033, Const 0x0520] [''NEC D72874GC'', ''1394 CARD''],
  Init [Const 0x1033, Const 0x1033] [''0720101GJ'', ''NEC PCI to USB Open Host Controller''],
  Init [Const 0x1033, Const 0x9876] [''uPD720100A uPD720102GC'', ''USB 2.0 Host Controller''],
  Init [Const 0x1033, Const 0x284B] [''n/a'', ''n/a''],
  Init [Const 0x1036, Const 0x0000] [''TMC-18C30'', ''Fast SCSI''],
  Init [Const 0x1039, Malformed ''&#65296;''] [[], []],
  Init [Const 0x1039, Const 0] [[], []],
  Init [Const 0x1039, Malformed ''0x 7012''] [''HDAUDIO'' @ [CHR 0x5C] @ ''FUNC_01&VEN_&DEV_504514F1&SUBSYS_1631C106&'', ''PCI Audio Accelerator''],
  Init [Const 0x1039, Const 0x0001] [''HPSiS760'', ''Anthlon 64 cpu to PCI bridge''],
  Init [Const 0x1039, Const 0x0002] [''520'', ''Virtual PCI to PCI Bridge (AGP)''],
  Init [Const 0x1039, Const 0x0003] [''SiS760'', ''SiS AGP Controller / SiS Accelerated Graphics Port ''],
  Init [Const 0x1039, Const 0x0005] [''0900'', ''Pentium chipset''],
  Init [Const 0x1039, Const 0x0006] [''SiS 85C501'', ''PCI/ISA Cache Memory Controller (PCMC)''],
  Init [Const 0x1039, Const 0x0008] [''SiS 85C503'', ''PCI System I/O (PSIO)''],
  Init [Const 0x1039, Const 0x0009] [''5595'', ''SIS PMU device''],
  Init [Const 0x1039, Const 0x0016] [''SiS740'', ''SMBus ControllerP4kjc''],
  Init [Const 0x1039, Const 0x0018] [''SiS950'', ''vga''],
  Init [Const 0x1039, Const 0x0160] [''SiS160'', ''SiS160 811 Wireless LAN Adapter''],
  Init [Const 0x1039, Const 0x0180] [''SiS180'', ''SiS 180/181 RAID Controller ''],
  Init [Const 0x1039, Const 0x0181] [''?'', ''Raid Controller(?Mode Raid1)''],
  Init [Const 0x1039, Const 0x0182] [''?'', ''Raid Controller(?Mode Raid0+1)''],
  Init [Const 0x1039, Const 0x0183] [''?SIS965'', ''?SATA''],
  Init [Const 0x1039, Const 0x0186] [''1039'', ''0330''],
  Init [Const 0x1039, Const 0x0190] [''SiS968, SiS965, SiS966, SiS965L, SiS966L'', ''SiS191 Gigabit LAN & SiS190 LAN''],
  Init [Const 0x1039, Const 0x0191] [''SIS191'', ''SIS191''],
  Init [Const 0x1039, Const 0x0200] [''SiS5597/98'', ''Onboard Graphics Controller''],
  Init [Const 0x1039, Const 0x0204] [''SiS 6215'', ''PCI1''],
  Init [Const 0x1039, Const 0x0205] [''SiS 6205'', ''PCI Graphics & Video Accelerator''],
  Init [Const 0x1039, Const 0x0300] [''SiS330'', ''GUI Accelerator+3D''],
  Init [Const 0x1039, Const 0x0305] [''SiS305'', ''2D/3D/Video/DVD Accelerator''],
  Init [Const 0x1039, Const 0x0315] [''Geforce2 MX400'', ''2D/3D Accelerator''],
  Init [Const 0x1039, Const 0x0325] [''SiS6330'', ''Silicon Integrated Systems (SiS)''],
  Init [Const 0x1039, Const 0x0330] [''SiS330'', ''Xabre 2D/3D Accelerator (AG400T8-D64)''],
  Init [Const 0x1039, Const 0x0406] [''85C501'', ''PCI/ISA Cache Memory Controller (PCMC)''],
  Init [Const 0x1039, Const 0x0496] [''85C496'', ''CPU to PCI & PCI to ISA Bridge''],
  Init [Const 0x1039, Const 0x0530] [''SiS530'', ''Host-to-PCI bridge''],
  Init [Const 0x1039, Const 0x0540] [''SiS540'', ''Host-to-PCI Bridge''],
  Init [Const 0x1039, Const 0x0550] [''SiS550/1/2'', ''North Bridge''],
  Init [Const 0x1039, Const 0x0596] [''SiS596'', ''Pentium PCI chipset with IDE''],
  Init [Const 0x1039, Const 0x0597] [''SiS620'', ''EIDE Controller (step C)''],
  Init [Const 0x1039, Const 0x0601] [''SiS83C601'', ''PCI EIDE Controller''],
  Init [Const 0x1039, Const 0x0620] [''SiS620'', ''Host-to-PCI Bridge''],
  Init [Const 0x1039, Const 0x0630] [''SiS6330'', ''Host-to-PCI Bridge''],
  Init [Const 0x1039, Const 0x0635] [''SiS 635'', ''Host-to-PCI Bridge''],
  Init [Const 0x1039, Const 0x0640] [''SiS 640'', ''Host-to-PCI Bridge''],
  Init [Const 0x1039, Const 0x0645] [''SiS 645'', ''Host-to-PCI Bridge''],
  Init [Const 0x1039, Const 0x0646] [''SiS645DX'', ''Host-to-PCI Bridge''],
  Init [Const 0x1039, Const 0x0648] [''SiS648MX'', ''Host-to-PCI Bridge''],
  Init [Const 0x1039, Const 0x0649] [''sis649'', ''Host-to-PCI Bridge''],
  Init [Const 0x1039, Const 0x0650] [''SiS961'', ''Host-to-PCI Bridge''],
  Init [Const 0x1039, Const 0x0651] [''SiS651'', ''Host-to-PCI Bridge''],
  Init [Const 0x1039, Const 0x0655] [''SiS655'', ''Host-to-PCI Bridge''],
  Init [Const 0x1039, Const 0x0656] [''???'', ''CPU to PCI Bridge''],
  Init [Const 0x1039, Const 0x0658] [''SiS R658'', ''CPU to PCI Bridge''],
  Init [Const 0x1039, Const 0x0659] [''SiS R659'', ''CPU to PCI Bridge''],
  Init [Const 0x1039, Const 0x0660] [''vt8237a'', ''Host-to-PCI Bridge''],
  Init [Const 0x1039, Const 0x0661] [''SiS 661FX'', ''SiS 661FX/GX Chipset - Host-PCI Bridge''],
  Init [Const 0x1039, Const 0x0662] [''???'', ''CPU to PCI Bridge''],
  Init [Const 0x1039, Const 0x0663] [''???'', ''CPU to PCI Bridge''],
  Init [Const 0x1039, Const 0x0730] [''SiS 730'', ''Host-to-PCI Bridge''],
  Init [Const 0x1039, Const 0x0735] [''SiS 735'', ''Host-to-PCI Bridge''],
  Init [Const 0x1039, Const 0x0740] [''SiS 074'', ''LPC Bridge''],
  Init [Const 0x1039, Const 0x0741] [''SIS741'', ''CPU to PCI Bridge''],
  Init [Const 0x1039, Const 0x0745] [''SiS745'', ''Host-to-PCI Bridge''],
  Init [Const 0x1039, Const 0x0746] [''SiS746'', ''Host-to-PCI Bridge''],
  Init [Const 0x1039, Const 0x0748] [''SiS748'', ''CPU to PCI Bridge''],
  Init [Const 0x1039, Const 0x0755] [''SiSM650?'', ''Host-to-PCI Bridge''],
  Init [Const 0x1039, Const 0x0756] [''SiS755FX'', ''CPU to PCI Bridge''],
  Init [Const 0x1039, Const 0x0760] [''SiS760'', ''Athlon 64 CPU to PCI Bridge''],
  Init [Const 0x1039, Const 0x0761] [''88e8056'', ''Athlon 64 CPU to PCI Bridge''],
  Init [Const 0x1039, Const 0x0762] [''???'', ''Athlon 64 CPU to PCI Bridge''],
  Init [Const 0x1039, Const 0x0900] [''SiS 900'', ''SiS 900 Fast Ethernet Adapter''],
  Init [Const 0x1039, Const 0x0901] [''Device ID = 0900 SiS900'', ''SiS900 10/100 Ethernet Adapter''],
  Init [Const 0x1039, Const 0x0962] [''SiS962'', ''LPC Bridge''],
  Init [Const 0x1039, Const 0x0963] [''SiS963'', ''PCI to ISA Bridge''],
  Init [Const 0x1039, Const 0x0964] [''SiS964'', ''SiS 964 MuTIOL Media I/O Bridge ''],
  Init [Const 0x1039, Const 0x0999] [''sis950'', ''pci'' @ [CHR 0x5C] @ ''ven_1039&subsys_200b163&rev_a0'' @ [CHR 0x5C] @ ''3&61aaa01'' @ [CHR 0x5C] @ ''0&17''],
  Init [Const 0x1039, Const 0x1039] [''SiS5597a'', ''SiS5597 SVGAa''],
  Init [Const 0x1039, Const 0x1040] [[], []],
  Init [Const 0x1039, Const 0x10EC] [''961/2'', ''bus controler''],
  Init [Const 0x1039, Const 0x1182] [''?'', ''Raid Controller(?Mode Raid5)''],
  Init [Const 0x1039, Const 0x1183] [''SIS966/968 '', ''SATA IDE Controller''],
  Init [Const 0x1039, Const 0x1184] [''SIS966(AHCI)&#12289;SIS968(RAID)'', ''Raid/AHCI Controller''],
  Init [Const 0x1039, Const 0x1185] [''SIS968'', ''AHCI Controller''],
  Init [Const 0x1039, Const 0x1234] [''SiS5597a'', ''SiS5597 SVGAa''],
  Init [Const 0x1039, Const 0x191] [''MTC ms9377c'', ''PCI /ven_1039''],
  Init [Const 0x1039, Const 0x3602] [''SiS83C602'', ''IDE Controller''],
  Init [Const 0x1039, Const 0x4321] [''Video Controller'', ''Video Controller (VGA Compatible)''],
  Init [Const 0x1039, Const 0x5107] [''SiS5107'', ''Hot Docking Controller''],
  Init [Const 0x1039, Const 0x5300] [''SiS540'', ''AGP''],
  Init [Const 0x1039, Const 0x5315] [''SiS530/1/2'', ''GUI Accelerator''],
  Init [Const 0x1039, Const 0x5401] [''SiS5401'', ''486 PCI Chipset''],
  Init [Const 0x1039, Const 0x5511] [''SiS5511/5512'', ''PCI/ISA System Memory Controller''],
  Init [Const 0x1039, Const 0x5513] [''All SIS SouthBridge'', ''SiS 5513 IDE UDMA Controller / SiS 85C513 IDE Controller''],
  Init [Const 0x1039, Const 0x5517] [''SiS5517'', ''CPU to PCI Bridge''],
  Init [Const 0x1039, Const 0x5518] [''SiS5518'', ''UDMA IDE Controller''],
  Init [Const 0x1039, Const 0x5571] [''SiS5571'', ''Memory/PCI bridge''],
  Init [Const 0x1039, Const 0x5581] [''SiS 5581'', ''p5 chipset''],
  Init [Const 0x1039, Const 0x5582] [''SiS5582'', ''PCI to ISA Bridge''],
  Init [Const 0x1039, Const 0x5591] [''MTC ms9377c (SIS 741)'', ''PCI'' @ [CHR 0x5C] @ ''VEN_1039''],
  Init [Const 0x1039, Const 0x5596] [''SiS661FX'', '' VGA Controller''],
  Init [Const 0x1039, Const 0x5597] [''SiS5597'', ''Host to PCI bridge''],
  Init [Const 0x1039, Const 0x5600] [''SiS600'', ''Host-to-PCI Bridge''],
  Init [Const 0x1039, Const 0x5630] [''SiS630'', ''Host-to-PCI Bridge''],
  Init [Const 0x1039, Const 0x5811] [[], []],
  Init [Const 0x1039, Const 0x6204] [''SiS6204'', ''video decoder/mpeg interface''],
  Init [Const 0x1039, Const 0x6205] [''SiS6215'', ''PCI VGA Controller''],
  Init [Const 0x1039, Const 0x6225] [''SiS 950 m2284dxs'', ''PCI Graphics & Video Accelerator''],
  Init [Const 0x1039, Const 0x6236] [''SG3730il'', ''Graphics''],
  Init [Const 0x1039, Const 0x6300] [''SiS630/730'', ''GUI Accelerator+3D''],
  Init [Const 0x1039, Const 0x6306] [''SiS530/620'', ''Integrated 3D  SVGA Controller''],
  Init [Const 0x1039, Const 0x6325] [''pc&#305;'' @ [CHR 0x5C] @ ''VEN_1039&DEV_6325'', ''sis-651dx''],
  Init [Const 0x1039, Const 0x6326] [''0x1039'', ''sis 6326 AGP''],
  Init [Const 0x1039, Const 0x6330] [''SiS661FX/M661FX/760/741/M760/M741'', ''GUI 2D/3D Accelerator''],
  Init [Const 0x1039, Const 0x6331] ['' 04'', ''USB Host Controller''],
  Init [Const 0x1039, Const 0x6351] [''SIS M672 FX'', ''SiS IGP Graphics family SIS66x/SIS76x & SIS67x''],
  Init [Const 0x1039, Const 0x6355] [''962'', ''962lua''],
  Init [Const 0x1039, Const 0x6787] [''SiS5597a'', ''Smart Link 56K Voice Modem (download from driverguide.com)''],
  Init [Const 0x1039, Const 0x6972] [[], []],
  Init [Const 0x1039, Const 0x7001] [''SiS 7001'', ''SiS 7001 PCI to USB Open Host Controller ''],
  Init [Const 0x1039, Const 0x7002] [''SiS 7001 PCI to USB Open Host Controller'', ''USB 2.0 Enhanced Host Controller''],
  Init [Const 0x1039, Const 0x7005] [''SiS551/2'', ''Memory Stick Controller'']]"

lemma PciDevTable_26_facts:
  "length PciDevTable_26 = 150" "rejected PciDevTable_26 = 2" "oversized PciDevTable_26 = 0"
  "vendors PciDevTable_26 \<subseteq> Const ` set vendor_numbers"
  unfolding PciDevTable_26_def count_rows by (simp_all add: part_simps listed vendor_known_list cong: part_cong count_rows_cong)

definition PciDevTable_27 :: "initializer list" where
 "PciDevTable_27 = [
  Init [Const 0x1039, Const 0x7007] [''1039'', ''OHCI Compliant FireWire Controller''],
  Init [Const 0x1039, Const 0x7012] [''SiS 7012'', ''SiS 7012 Audio Device / Realtek AC'' @ [CHR 0x27] @ ''97 Audio''],
  Init [Const 0x1039, Const 0x7013] [''SiS5597a'', ''Smart Link 56K Voice Modem (download from driverguide.com)''],
  Init [Const 0x1039, Const 0x7013] [''SiS7013'', ''Smart Link 56K Voice Modem''],
  Init [Const 0x1039, Const 0x7015] [''SiS550 dd'', ''Software Audio dd''],
  Init [Const 0x1039, Const 0x7016] [''SiS191'', ''10/100 Ethernet Adapter''],
  Init [Const 0x1039, Const 0x7018] [''SiS7018'', ''Onboard audio''],
  Init [Const 0x1039, Const 0x7019] [''SiS550/1/2'', ''Hardware Audio''],
  Init [Const 0x1039, Const 0x7300] [''SiS7013'', ''GUI Accelerator+3D''],
  Init [Const 0x1039, Const 0x7502] [''649'', ''Realtek HDA Audio Driver.''],
  Init [Const 0x1039, Const 0x8139] [''2012'', ''2012''],
  Init [Const 0x1039, Const 0x96325] [''pc&#305;'' @ [CHR 0x5C] @ ''ven_1039&dev_6325'', ''sis 650 integrated gfx controller (IGP)''],
  Init [Const 0x1039, Const 0x964] [''sis964'', ''LPC BRIDGE''],
  Init [Const 0x1039, Const 0x9876] [''sis6215'', ''pci vga card for win95 & nt4 only''],
  Init [Const 0x1039, Const 0x9989] [''SiS5597a'', ''Smart Link 56K Voice Modem (download from driverguide.com)''],
  Init [Const 0x1039, Malformed ''0x_7012''] [''HDAUDIO'' @ [CHR 0x5C] @ ''FUNC_01&VEN_&DEV_504514F1&SUBSYS_1631C106&'', ''PCI Audio Accelerator''],
  Init [Const 0x1039, Const 5811] [[], []],
  Init [Const 0x103B, Const 0x103B] [''82801DB'', ''LAN Controller with 82562EM/EX PHY''],
  Init [Const 0x103C, Const 0x0024] [''?'', ''Standard Vista USB Keyboard''],
  Init [Const 0x103C, Const 0x0180000A] [''0x00000000'', ''HID Keyboard Device''],
  Init [Const 0x103C, Const 0x0A01] [''HP2400'', ''HP Scanjet 2400''],
  Init [Const 0x103C, Const 0x1005] [''A4977A'', ''Visialize EG''],
  Init [Const 0x103C, Const 0x1008] [''Donner GFX'', ''001''],
  Init [Const 0x103C, Const 0x100A] [''hpVisualizeFX'', ''Hewlett-Packard VisualizeFX Series Video''],
  Init [Const 0x103C, Const 0x1028] [''ACPI/HPQ0004/3&b1bfb68&0'', ''HP ProtectSmart Hard Drive Protection - HP 3D DriveGuard''],
  Init [Const 0x103C, Const 0x1029] [''HPFC-5200B'', ''Tachyon XL2 Fibre Channel Adapter''],
  Init [Const 0x103C, Const 0x102A] [''Tach TS'', ''Tachyon TS Fibre Channel Host Adapter''],
  Init [Const 0x103C, Const 0x1030] [''J2585B'', ''DeskDirect 10/100VG LAN Adapter''],
  Init [Const 0x103C, Const 0x1031] [''J2585B222'', ''DeskDirect 10/100 NIC''],
  Init [Const 0x103C, Const 0x1040] [''J2973A'', ''DeskDirect 10BaseT NIC''],
  Init [Const 0x103C, Const 0x1041] [''J2585B'', ''DeskDirect 10/100VG NIC''],
  Init [Const 0x103C, Const 0x1042] [''J2970A'', ''DeskDirect 10BaseT/2 NIC''],
  Init [Const 0x103C, Const 0x1048] [''SAS'', []],
  Init [Const 0x103C, Const 0x1049] [''DIVA1'', []],
  Init [Const 0x103C, Const 0x104A] [''DIVA2'', ''intel''],
  Init [Const 0x103C, Const 0x104B] [''SP2'', []],
  Init [Const 0x103C, Const 0x104D] [''J3242A'', ''EL-10 Ethernet Adapter''],
  Init [Const 0x103C, Const 0x1064] [''79C970'', ''PCnet Ethernet Controller''],
  Init [Const 0x103C, Const 0x10C1] [[], ''NetServer Smart IRQ Router''],
  Init [Const 0x103C, Const 0x10ED] [''TopTools'', ''HP Communications Port''],
  Init [Const 0x103C, Const 0x1200] [''82557B'', ''10/100 NIC''],
  Init [Const 0x103C, Const 0x1219] [[], ''NetServer PCI Hot-Plug Controller''],
  Init [Const 0x103C, Const 0x121A] [[], ''NetServer SMIC Controller''],
  Init [Const 0x103C, Const 0x121B] [[], ''NetServer Legacy COM Port Decoder''],
  Init [Const 0x103C, Const 0x121C] [[], ''NetServer PCI COM Port Decoder''],
  Init [Const 0x103C, Const 0x1229] [''zx1'', ''System Bus Adapter''],
  Init [Const 0x103C, Const 0x122A] [''zx1'', ''I/O Controller''],
  Init [Const 0x103C, Const 0x122B] [''zx1'', ''Local Bus Adapter''],
  Init [Const 0x103C, Const 0x12FA] [''Broadcom BCM4306'', ''Broadcom Wireless miniPCI in a HP laptop''],
  Init [Const 0x103C, Const 0x1302] [''1302103C'', ''HP Management Shared Memory Device''],
  Init [Const 0x103C, Const 0x137A] [''AR5007'', ''Atheros AR5007''],
  Init [Const 0x103C, Const 0x1411] [''HPOJ750'', ''HP PSC 750''],
  Init [Const 0x103C, Const 0x171D] [''HP Integrated Module with Bluetooth Wireless'', ''HP Integrated Module with Bluetooth Wireless''],
  Init [Const 0x103C, Const 0x1F1D] [''USB'' @ [CHR 0x5C] @ ''VID_03F0&PID_2F1D&REV_0000'', ''3G Broadband device''],
  Init [Const 0x103C, Const 0x201D] [''?'', ''3G Broadband device''],
  Init [Const 0x103C, Const 0x231D] [''USB'' @ [CHR 0x5C] @ ''VID_03F0&PID_231D'' @ [CHR 0x5C] @ ''6&23104BA&0&7'', ''HP Integrated Module with Bluetooth Wireless Technology''],
  Init [Const 0x103C, Const 0x241D] [''USB'' @ [CHR 0x5C] @ ''VID_0000_PID_0000_0000'' @ [CHR 0x5C] @ ''5&39D01B80&0&4'', ''HP compaq nx6125''],
  Init [Const 0x103C, Const 0x2910] [''E2910A'', ''PCI Bus Exerciser''],
  Init [Const 0x103C, Const 0x292] [''E2924A'', ''PCI Host Interface Adapter''],
  Init [Const 0x103C, Const 0x2920] [[], ''Fast Host Interface''],
  Init [Const 0x103C, Const 0x2924] [''QDS-BRCM1051'', ''PCI Host Interface Adapter''],
  Init [Const 0x103C, Const 0x2925] [''E2925A'', ''32 bit PCI Bus Exerciser and Analyzer''],
  Init [Const 0x103C, Const 0x2926] [''E2926A'', ''64 bit PCI Bus Exerciser and Analyzer''],
  Init [Const 0x103C, Const 0x2927] [''E2927a'', ''64 Bit, 66/50MHz PCI Analyzer & Exerciser''],
  Init [Const 0x103C, Const 0x294] [''qds brcm1051'', ''pci hostinterface''],
  Init [Const 0x103C, Const 0x2940] [''E2940A'', ''64 bit, 66/50MHz CompactPCI Analyzer&Exerciser''],
  Init [Const 0x103C, Const 0x311D] [''rev 001'', ''ATHEROS AR3011 bluetooth 3.0+HS adapter''],
  Init [Const 0x103C, Const 0x3206] [''unknown'', ''Adaptec Embedded Serial ATA HostRAID''],
  Init [Const 0x103C, Const 0x3207] [''not sure'', ''not sure''],
  Init [Const 0x103C, Const 0x3220] [''P600'', ''P600 SmartArray Raid Controller''],
  Init [Const 0x103C, Const 0x3230] [''Smart Array P400 Controller'', ''Smart Array P400 Controller''],
  Init [Const 0x103C, Const 0x323A] [''Smart Array P410i Controller'', ''Smart Array P410i Controller''],
  Init [Const 0x103C, Const 0x3302] [''3305103C'', ''Integrated Lights Out 2.0 Interfaz IPMI''],
  Init [Const 0x103C, Const 0x3A1D] [''hs2340'', ''HP hs2340 HSPA+ MobileBroadband''],
  Init [Const 0x103C, Const 0x5461] [''unknown'', ''HP integrated Module with Bluetooth 2.0 Wireless support''],
  Init [Const 0x103C, Const 0x9876] [''rev 001'', ''ATHEROS AR3011 bluetooth 3.0+HS adapter''],
  Init [Const 0x1043, Const 0x0675] [''p5g41c-mlx'', ''Crestline''],
  Init [Const 0x1043, Const 0x1969] [''P5LD2 - EAYZ'', ''Attansic L1 Gigabit Ethernet 10/100/1000Base-T Adapter''],
  Init [Const 0x1043, Const 0x5653] [''M5A78L-M LX V2'', ''ATI Radeon 3000 Graphics (Microsoft Corporation - WDDM v1.1)''],
  Init [Const 0x1043, Const 0x8103] [''NV31'', ''NV31 [GeForce FX 5600 Ultra]''],
  Init [Const 0x1043, Const 0x82C6] [''RTL8168'', ''Gigabit Ethernet(NDIS 6.0)''],
  Init [Const 0x1044, Const 0x1012] [''Domino'', ''RAID Engine''],
  Init [Const 0x1044, Const 0x800A] [''13D09B4F'', ''802.11 bg WLAN''],
  Init [Const 0x1044, Const 0xA400] [''2124A/9X'', ''SmartCache III/RAID SCSI Controller''],
  Init [Const 0x1044, Const 0xA500] [''unknown'', ''PCI Bridge''],
  Init [Const 0x1044, Const 0xA501] [''c03c'', ''I2O SmartRAID V Controller''],
  Init [Const 0x1044, Const 0xA511] [''Raptor'', ''SmartRAID Controller''],
  Init [Const 0x1045, Const 0x0005] [[], []],
  Init [Const 0x1045, Const 0xA0F8] [''82C750'', ''PCI USB Controller''],
  Init [Const 0x1045, Const 0xC101] [''82C264'', ''GUI Accelerator''],
  Init [Const 0x1045, Const 0xC178] [''82C178'', ''pci usb card 2- port''],
  Init [Const 0x1045, Const 0xC556] [''82C556'', ''Viper''],
  Init [Const 0x1045, Const 0xC557] [''82C557'', ''CPU Bridge (Viper)''],
  Init [Const 0x1045, Const 0xC558] [''82C558'', ''ISA Bridge w/PnP''],
  Init [Const 0x1045, Const 0xC567] [''82C750'', ''Vendetta chipset: host bridge''],
  Init [Const 0x1045, Const 0xC568] [''82C750'', ''Vendetta chipset: ISA bridge''],
  Init [Const 0x1045, Const 0xC569] [''82C579'', ''Pentium to PCI Bridge''],
  Init [Const 0x1045, Const 0xC621] [''82C621'', ''PCI IDE Controller (PIC)''],
  Init [Const 0x1045, Const 0xC700] [''82C700'', ''82C700 FireStar PCI to ISA Bridge''],
  Init [Const 0x1045, Const 0xC701] [''82C701'', ''FireStar mobile chipset: host bridge''],
  Init [Const 0x1045, Const 0xC814] [''82C814'', ''FireBridge II Docking Station Controller''],
  Init [Const 0x1045, Const 0xC822] [''82C822'', ''CPU to PCI & PCI to ISA PnP bridge''],
  Init [Const 0x1045, Const 0xC824] [''82C824'', ''FireFox 32-Bit PC Card Controller''],
  Init [Const 0x1045, Const 0xC825] [''82C825 function 0'', ''PCI-to-ISA Bridge''],
  Init [Const 0x1045, Const 0xC832] [''82C832'', ''CPU-to-PCI and PCI-to-ISA Bridge''],
  Init [Const 0x1045, Const 0xC861] [''82C861'', ''FireLink PCI-to- 5 x USB Bridge( usb1.1 )''],
  Init [Const 0x1045, Const 0xC881] [''82C881'', ''FireLink 1394 OHCI Link Controller''],
  Init [Const 0x1045, Const 0xC895] [''82C895'', []],
  Init [Const 0x1045, Const 0xC931] [''82C931'', ''ISA Sound & Game Port controller.''],
  Init [Const 0x1045, Const 0xC935] [''82C935'', ''MachOne integrated PCI audio processor''],
  Init [Const 0x1045, Const 0xD568] [''82C825'', ''PCI bus master IDE controller''],
  Init [Const 0x1045, Const 0xD768] [''82C750'', ''Ultra DMA IDE controller''],
  Init [Const 0x1046, Const 0x5600] [''03001426'', ''00/4&1a671''],
  Init [Const 0x1048, Const 0x0253] [''0x0c92'', ''ELSA GLADIAC 528''],
  Init [Const 0x1048, Const 0x0C60] [''Elsa Gladiac MX'', ''NVidia Geforce 2 MX''],
  Init [Const 0x1048, Const 0x0C71] [''Elsa Gladiac 721'', ''NVidia GeForce3 Ti 200''],
  Init [Const 0x1048, Const 0x1000] [''Quick Step 1000'', ''ISDN Controller''],
  Init [Const 0x1048, Const 0x3000] [''QuickStep 3000'', []],
  Init [Const 0x1048, Const 0x8901] [[], ''ELSA GLoria XL''],
  Init [Const 0x104A, Const 0x0008] [''STG 2000X'', ''diamond''],
  Init [Const 0x104A, Const 0x0009] [''STG 1764X'', []],
  Init [Const 0x104A, Const 0x0010] [''STG4000'', ''PowerVR KYRO series 3 graphics processor''],
  Init [Const 0x104A, Const 0x0123] [''V65204'', ''SPEAr1300''],
  Init [Const 0x104A, Const 0x0209] [''STPC Consmr/Indstrl'', ''North/South Bridges''],
  Init [Const 0x104A, Const 0x020A] [''STPC Atlas/Elite'', ''North Bridge''],
  Init [Const 0x104A, Const 0x0210] [''STPC Atlas'', ''ISA Bridge''],
  Init [Const 0x104A, Const 0x021A] [''STPC Consmr-S/Elite'', ''ISA Bridge''],
  Init [Const 0x104A, Const 0x021B] [''STPC Consumer-II'', ''ISA Bridge''],
  Init [Const 0x104A, Const 0x0228] [''STPC Atlas'', ''IDE Controller''],
  Init [Const 0x104A, Const 0x0230] [''STPC Atlas'', ''USB Controller''],
  Init [Const 0x104A, Const 0x0500] [''ST70137'', ''ADSL''],
  Init [Const 0x104A, Const 0x0981] [''jmc260'', ''10/100 Ethernet Adapter''],
  Init [Const 0x104A, Const 0x1746] [''mp280'', ''mp280''],
  Init [Const 0x104A, Const 0x2774] [''STE10/100A'', ''PCI 10/100 Ethernet Controller''],
  Init [Const 0x104A, Const 0x3520] [[], ''MPEG-II Video Decoder''],
  Init [Const 0x104A, Const 0x7108] [''STi7108'', ''Advanced HD AVC decoder with 3D graphics acceleration''],
  Init [Const 0x104A, Const 0xCC00] [''STA2X11'', ''ConneXt I/O Hub multifunction device''],
  Init [Const 0x104A, Const 0xCC01] [''STA2X11'', ''ConneXt I/O Hub multifunction device''],
  Init [Const 0x104A, Const 0xCC02] [''STA2X11'', ''ConneXt I/O Hub multifunction device''],
  Init [Const 0x104A, Const 0xCC03] [''STA2X11'', ''ConneXt I/O Hub multifunction device''],
  Init [Const 0x104A, Const 0xCC04] [''STA2X11'', ''ConneXt I/O Hub multifunction device''],
  Init [Const 0x104A, Const 0xCC05] [''STA2X11'', ''ConneXt I/O Hub multifunction device''],
  Init [Const 0x104A, Const 0xCC06] [''STA2X11'', ''ConneXt I/O Hub multifunction device''],
  Init [Const 0x104A, Const 0xCC07] [''STA2X11'', ''ConneXt I/O Hub multifunction device''],
  Init [Const 0x104A, Const 0xCC08] [''STA2X11'', ''ConneXt I/O Hub multifunction device''],
  Init [Const 0x104A, Const 0xCC09] [''STA2X11'', ''ConneXt I/O Hub multifunction device''],
  Init [Const 0x104A, Const 0xCC0A] [''STA2X11'', ''ConneXt I/O Hub multifunction device''],
  Init [Const 0x104A, Const 0xCC0B] [''STA2X11'', ''ConneXt I/O Hub multifunction device''],
  Init [Const 0x104A, Const 0xCC0C] [''STA2X11'', ''ConneXt I/O Hub multifunction device''],
  Init [Const 0x104A, Const 0xCC0D] [''STA2X11'', ''ConneXt I/O Hub multifunction device'']]"

lemma PciDevTable_27_facts:
  "length PciDevTable_27 = 150" "rejected PciDevTable_27 = 1" "oversized PciDevTable_27 = 2"
  "vendors PciDevTable_27 \<subseteq> Const ` set vendor_numbers"
  unfolding PciDevTable_27_def count_rows by (simp_all add: part_simps listed vendor_known_list cong: part_cong count_rows_cong)

definition PciDevTable_28 :: "initializer list" where
 "PciDevTable_28 = [
  Init [Const 0x104A, Const 0xCC0E] [''STA2X11'', ''ConneXt I/O Hub multifunction device''],
  Init [Const 0x104A, Const 0xCC0F] [''STA2X11'', ''ConneXt I/O Hub multifunction device''],
  Init [Const 0x104A, Const 0xCC10] [''STA2X11'', ''ConneXt I/O Hub multifunction device''],
  Init [Const 0x104A, Const 0xCC11] [''STA2X11'', ''ConneXt I/O Hub multifunction device''],
  Init [Const 0x104A, Const 0xCC12] [''STA2X11'', ''ConneXt I/O Hub multifunction device''],
  Init [Const 0x104A, Const 0xCC13] [''STA2X11'', ''ConneXt I/O Hub multifunction device''],
  Init [Const 0x104A, Const 0xCC14] [''STA2X11'', ''ConneXt I/O Hub multifunction device''],
  Init [Const 0x104A, Const 0xCC15] [''STA2X11'', ''ConneXt I/O Hub multifunction device''],
  Init [Const 0x104A, Const 0xCC16] [''STA2X11'', ''ConneXt I/O Hub multifunction device''],
  Init [Const 0x104A, Const 0xCC17] [''STA2X11'', ''ConneXt I/O Hub multifunction device''],
  Init [Const 0x104A, Const 0xCD00] [''V65204'', ''SPEAr1300''],
  Init [Const 0x104A, Const 0xCD80] [''SPEAr1300'', ''Root Complex of SPEAr1300''],
  Init [Const 0x104C, Malformed ''0x 803B''] [''0366107B'', ''Texas Instruments Card Reader''],
  Init [Const 0x104C, Const 0x014E] [''4610,4515,4610fm'', ''device''],
  Init [Const 0x104C, Const 0x0500] [''TNETE100A/110A/211'', ''ThunderLAN 100 Mbit LAN Controller''],
  Init [Const 0x104C, Const 0x0508] [''TI380PCI'', ''PCI interface for TI380 compressors''],
  Init [Const 0x104C, Const 0x1000] [''TI PCI Eagle i/f AS'', []],
  Init [Const 0x104C, Const 0x104C] [''PCI'' @ [CHR 0x5C] @ ''VEN_104C&DEV_803B&SUBSYS_FF021179&REV_00'', ''PCI Simple Communications Controller''],
  Init [Const 0x104C, Const 0x3B04] [''028000'', ''otros dispositivos''],
  Init [Const 0x104C, Const 0x3D04] [''TVP4010'', ''Permedia''],
  Init [Const 0x104C, Const 0x3D07] [''TVP4020'', ''AGP Permedia 2''],
  Init [Const 0x104C, Const 0x8000] [''TSB12LV21'', ''LYNX IEEE1394 FireWire Host Controller''],
  Init [Const 0x104C, Const 0x8009] [''TSB12LV22'', ''OHCI-Lynx PCI IEEE 1394 Host Controller''],
  Init [Const 0x104C, Const 0x8010] [''TSB12LV26'', ''OHCI-Lynx IEEE 1394 Host Controller''],
  Init [Const 0x104C, Const 0x8011] [''PCI4450'', ''OHCI-Lynx IEEE 1394 Controller''],
  Init [Const 0x104C, Const 0x8017] [''PCI4410'', ''OHCI-Lynx IEEE 1394 Controller''],
  Init [Const 0x104C, Const 0x8019] [''TSB12LV23'', ''OHCI-Lynx PCI IEEE 1394 Host Controller''],
  Init [Const 0x104C, Const 0x8020] [''TSB12LV26'', ''OHCI-Lynx PCI IEEE 1394 Host Controller''],
  Init [Const 0x104C, Const 0x8021] [''TSB43AB23'', ''1394a-2000 OHCI PHY/Link Layer CONTROLLER''],
  Init [Const 0x104C, Const 0x8023] [''TSB43AB21/A'', ''IEEE1394a-2000 OHCI PHY/Link-Layer Ctrlr''],
  Init [Const 0x104C, Const 0x8024] [''TSB43AB23'', ''1394a-2000 OHCI PHY/Link Layer Ctrl''],
  Init [Const 0x104C, Const 0x8025] [''TSB82AA2'', ''1394b OHCI-Lynx IEEE 1394 Host Controller''],
  Init [Const 0x104C, Const 0x8026] [''TSB43AB21A'', ''1394a-2000 OHCI PHY/Link Layer Ctrlr''],
  Init [Const 0x104C, Const 0x8027] [''PCI4451'', ''OHCI-Lynx IEEE 1394 Controller''],
  Init [Const 0x104C, Const 0x8029] [''040803-2158'', ''OHCI Compliant IEEE-1394 FireWire Controller ''],
  Init [Const 0x104C, Const 0x802E] [''PCI7420'', ''OHCI Compliant IEEE 1394 Host Controller''],
  Init [Const 0x104C, Const 0x8033] [''PCI0021'', ''Integrated FlashMedia / Card Reader''],
  Init [Const 0x104C, Const 0x8034] [''10981734'', ''SDA Standard Compliant SD Host Controller''],
  Init [Const 0x104C, Const 0x8035] [''N/A'', ''PCI GemCore based SmartCard controller''],
  Init [Const 0x104C, Const 0x8036] [''PCI6515'', ''Texas Instruments PCIxxx12 Cardbus Controller''],
  Init [Const 0x104C, Const 0x8038] [''PCI'' @ [CHR 0x5C] @ ''VEN_104C&DEV_8038&SUBSYS_01861028&REV_00'' @ [CHR 0x5C] @ ''4&2FA'', ''Texas Instruments PCI GemCore based SmartCard Controller''],
  Init [Const 0x104C, Const 0x8039] [''104C'', ''104C''],
  Init [Const 0x104C, Const 0x803A] [''PCIxx12'', ''OHCI Compliant IEEE 1394 Host controller''],
  Init [Const 0x104C, Const 0x803B] [''PCIxx12 Integrated FlashMedia Controlled'', ''Texas Instruments Card Reader''],
  Init [Const 0x104C, Const 0x803C] [''PCI0024'', ''SDA Standard Compliant SD Host Controller''],
  Init [Const 0x104C, Const 0x803D] [''0780'', ''Texas Instruments PCI GemCore based SmartCard controller''],
  Init [Const 0x104C, Const 0x8119] [''na'', ''iRDA Compatible Controller''],
  Init [Const 0x104C, Const 0x8201] [''006B103C'', ''TI UltraMedia Firmware Loader Device''],
  Init [Const 0x104C, Const 0x8204] [''4610, 4515, 4610FM, 7510'', ''PCI 7510/4510 Cardbus Controller''],
  Init [Const 0x104C, Const 0x8231] [''XIO2000A'', ''PCI-Express to PCI/PCI-X bridge''],
  Init [Const 0x104C, Const 0x8232] [''1'', ''Controladora de v'' @ [CHR 0xED] @ ''deo multimedia''],
  Init [Const 0x104C, Const 0x8241] [''Texas Instruments USB 3.0 XHCI Host Controller'', ''Texas Instruments USB 3.0 XHCI Host Controller''],
  Init [Const 0x104C, Const 0x8400] [''ACX100AGHK'', ''D-Link AirPlus DWL-520+, Uses a TI 802.11b 22 MBPS Chip''],
  Init [Const 0x104C, Const 0x8671] [''bogus'', ''bogus''],
  Init [Const 0x104C, Const 0x9065] [''TMX320C6412'', ''Fixed Point Digital Signal Processor''],
  Init [Const 0x104C, Const 0x9066] [''USR5410'', ''U.S. Robotics 802.11g Wireless Turbo PC Card ''],
  Init [Const 0x104C, Const 0xA001] [''TDC1570'', ''64-bit PCI ATM SAR''],
  Init [Const 0x104C, Const 0xA100] [''TDC1561'', ''32-bit PCI ATM SAR''],
  Init [Const 0x104C, Const 0xA102] [''TNETA1575'', ''HyperSAR Plus w/PCI host & UTOPIA i/f''],
  Init [Const 0x104C, Const 0xA106] [''TMS320C6205'', ''Fixed Point Digital Signal Processor''],
  Init [Const 0x104C, Const 0xA186] [''TMS320C6416T'', ''TI C6416T DSP''],
  Init [Const 0x104C, Const 0xA828] [''PCI2050BPDV'', ''PCI-to-PCI Bridge''],
  Init [Const 0x104C, Const 0xAC10] [''PCI1050'', ''PC Card Controller''],
  Init [Const 0x104C, Const 0xAC11] [''PCI1030/1053'', ''PC Card Controller''],
  Init [Const 0x104C, Const 0xAC12] [''PCI1131'', ''PC card CardBus Controller''],
  Init [Const 0x104C, Const 0xAC13] [''PCI9066'', ''Texas Instruments'' @ [CHR 0xC3, CHR 0x83, CHR 0xC2, CHR 0xA2, CHR 0xC3, CHR 0xA2, CHR 0xE2, CHR 0x82, CHR 0xAC, CHR 0xC5, CHR 0xBE, CHR 0xC3, CHR 0x82, CHR 0xC2, CHR 0xA2] @ '' PCIxx12 Integrated FlashMedia Controller''],
  Init [Const 0x104C, Const 0xAC15] [''PCI-1131'', ''CardBus Controller''],
  Init [Const 0x104C, Const 0xAC16] [''PCI1250'', ''PC Card CardBus Controller''],
  Init [Const 0x104C, Const 0xAC17] [''PCI1220'', ''CardBus Controller''],
  Init [Const 0x104C, Const 0xAC18] [''PCI1260'', ''PC card CardBus Controller''],
  Init [Const 0x104C, Const 0xAC19] [''PCI1221'', ''PC card CardBus Controller''],
  Init [Const 0x104C, Const 0xAC1A] [''PCI1210'', ''PC card CardBus Controller''],
  Init [Const 0x104C, Const 0xAC1B] [''PCI1450'', ''PC card CardBus Controller''],
  Init [Const 0x104C, Const 0xAC1C] [''PCI1225'', ''PC Card CardBus Controller''],
  Init [Const 0x104C, Const 0xAC1E] [''PCI1211'', ''PCI To PCMCIA  bridge''],
  Init [Const 0x104C, Const 0xAC1F] [''PCI1251B'', ''PC card CardBus Controller''],
  Init [Const 0x104C, Const 0xAC20] [''PCI2030'', ''PCI to PCI Bridge''],
  Init [Const 0x104C, Const 0xAC21] [''PCI2031'', ''PCI to PCI Bridge''],
  Init [Const 0x104C, Const 0xAC22] [''PCI2032'', ''PCI Docking Bridge''],
  Init [Const 0x104C, Const 0xAC23] [''PCI2250'', ''PCI-to-PCI Bridge''],
  Init [Const 0x104C, Const 0xAC28] [''PCI2050/2050I'', ''PCI-to-PCI Bridge''],
  Init [Const 0x104C, Const 0xAC30] [''PCI1260'', ''PC card CardBus Controller''],
  Init [Const 0x104C, Const 0xAC40] [''PCI4450'', ''PC card CardBus Controller''],
  Init [Const 0x104C, Const 0xAC41] [''PCI4410'', ''PC card CardBus Controller''],
  Init [Const 0x104C, Const 0xAC42] [''PCI4451'', ''PC card CardBus Controller''],
  Init [Const 0x104C, Const 0xAC43] [''PCI4550'', ''PC card CardBus Controller''],
  Init [Const 0x104C, Const 0xAC44] [''PCI4510SDFSDFSD'', ''PC Card Controller SDFSDAFSADFSDAFSDAF''],
  Init [Const 0x104C, Const 0xAC46] [''PCI4520'', ''PCCard CardBus Controller''],
  Init [Const 0x104C, Const 0xAC47] [''7510/4510'', ''Cardbus''],
  Init [Const 0x104C, Const 0xAC50] [''PCI1410'', ''PC card cardBus Controller''],
  Init [Const 0x104C, Const 0xAC51] [''PCI-1420'', ''Texas Instruments 1420''],
  Init [Const 0x104C, Const 0xAC52] [''PCI1451'', ''PC card CardBus Controller''],
  Init [Const 0x104C, Const 0xAC53] [''PCI1421'', ''PC card CardBus Controller - 5-in-1 Media Card Reader''],
  Init [Const 0x104C, Const 0xAC54] [''PCI-1510'', ''PCCard CardBus Controller w/UltraMedia''],
  Init [Const 0x104C, Const 0xAC55] [''PCI1520'', ''PCCard CardBus Controller''],
  Init [Const 0x104C, Const 0xAC56] [''PCI1510'', ''PCCard CardBus Controller''],
  Init [Const 0x104C, Const 0xAC57] [''PCI1530'', ''PCCard CardBus Controller''],
  Init [Const 0x104C, Const 0xAC58] [''PCI1515'', ''PCCard CardBus Controller''],
  Init [Const 0x104C, Const 0xAC59] [''PCI1620'', ''PCCard CardBus Controller w/UltraMedia''],
  Init [Const 0x104C, Const 0xAC5A] [''PCI1610'', ''PCCard CardBus Controller w/UltraMedia''],
  Init [Const 0x104C, Const 0xAC60] ['' '', ''PCI2040 PCI to DSP Bridge''],
  Init [Const 0x104C, Const 0xAC8E] [''PCI7420'', ''Generic CardBus Controller ''],
  Init [Const 0x104C, Const 0xAC8F] [''7420/7620'', ''FlashMedia''],
  Init [Const 0x104C, Const 0xB000] [''TMS320C645x'', ''Device ID: 0xB001 ''],
  Init [Const 0x104C, Const 0xB001] [''TMS320DM642'', ''DSP with a C64x+ core and M/S PCI interface''],
  Init [Const 0x104C, Const 0xFE00] [''tsb12lv26'', ''FireWire Host Controller''],
  Init [Const 0x104C, Const 0xFE03] [''12C01A'', ''FireWire Host Controller''],
  Init [Const 0x104D, Const 0x011B] [''RT2571WF'', ''USB Ralink Wireless LAN''],
  Init [Const 0x104D, Const 0x5001] [''SNY5001'', ''Sony Firmware Extension Parser listed as ACPI&#92;SNY5001 in device manager.''],
  Init [Const 0x104D, Const 0x6001] [''SNY6001'', ''Sony Programmable I/O Control Device''],
  Init [Const 0x104D, Const 0x8009] [''CXD1947'', ''PCI bus 9''],
  Init [Const 0x104D, Const 0x8039] [''CXD3222'', ''OHCI i.LINK (IEEE 1394) PCI Host Ctrlr''],
  Init [Const 0x104D, Const 0x8056] [''0x127a'', ''Rockwell HCF 56K Modem''],
  Init [Const 0x104D, Const 0x8087] [''PCI'' @ [CHR 0x5C] @ ''VEN_104D&DEV_8086'', ''SONY MPEG ENCODER''],
  Init [Const 0x104D, Const 0x808A] [''Qc pass'', ''Memory Stick Controller''],
  Init [Const 0x104E, Const 0x0017] [''OTI-64017'', []],
  Init [Const 0x104E, Const 0x0107] [''OTI107'', ''Spitfire VGA Accelerator''],
  Init [Const 0x104E, Const 0x0109] [[], ''Video Adapter''],
  Init [Const 0x104E, Const 0x0217] [''OTI-64217'', []],
  Init [Const 0x104E, Const 0x0317] [''OTI-64317'', []],
  Init [Const 0x104E, Const 0x0611] [''OTI-610'', ''T9732''],
  Init [Const 0x104E, Const 0x317] [''OTI107'', ''Spitfire VGA Accelerator''],
  Init [Const 0x104F, Const 0x104F] [''iatca8262'', ''Multi I/O''],
  Init [Const 0x1050, Malformed ''0x 6692''] [''W6692/92A/92CF'', ''PCI BusISDN S/T-Controller''],
  Init [Const 0x1050, Const 0x0000] [''004005-34c8c8'', ''Ethernet Controller (NE2000 compatible)''],
  Init [Const 0x1050, Const 0x0001] [''W83769F'', ''PCI/IDE controller''],
  Init [Const 0x1050, Const 0x0033] [''W89C33'', ''Winbond W89C33 mPCI 802.11 Wireless LAN Adapter''],
  Init [Const 0x1050, Const 0x0105] [''W82C105'', ''Ethernet Adapter''],
  Init [Const 0x1050, Const 0x0628] [''W83628F/629D'', ''PCI to ISA Bridge Set''],
  Init [Const 0x1050, Const 0x0840] [''W89C840F'', ''100/10Mbps Ethernet Controller''],
  Init [Const 0x1050, Const 0x0940] [''w89c940f'', ''winbond pci ethernet''],
  Init [Const 0x1050, Const 0x1050] [''W99200aF'', ''Video capture card mpeg-1''],
  Init [Const 0x1050, Const 0x5A5A] [''W89C940F'', ''ELANC-PCI Twisted-pair Ether-LAN Ctrlr''],
  Init [Const 0x1050, Const 0x6692] [''W6692CF'', ''PCI BusISDN S/T-Controller''],
  Init [Const 0x1050, Const 0x8481] [''Unknown'', ''SD Host Controller''],
  Init [Const 0x1050, Const 0x9921] [''W99200AF'', ''MPEG1 capture card''],
  Init [Const 0x1050, Const 0x9922] [''W9922PF'', ''MPEG-1/2 Decoder''],
  Init [Const 0x1050, Const 0x9960] [''W9960CF'', ''Video Codec''],
  Init [Const 0x1050, Const 0x9961] [''W9961CF'', ''H.263/H.261 Video Codec''],
  Init [Const 0x1050, Const 0x9970] [''W9970CF'', ''VGA controller''],
  Init [Const 0x1050, Const 0x9971] [''W9971CF'', ''W9971CF''],
  Init [Const 0x1050, Const 6692] [[], []],
  Init [Const 0x1051, Const 0x0100] [''Motorola MC145575'', []],
  Init [Const 0x1054, Const 3] [''06A2'', ''0003''],
  Init [Const 0x1054, Const 0x0001] [[], ''PCI Bridge''],
  Init [Const 0x1054, Const 0x0002] [''pci bus'', ''PCI bus Cntrlr''],
  Init [Const 0x1054, Const 0x0003] [''06A2'', ''hts547575a9e384''],
  Init [Const 0x1054, Const 0x3505] [''SH7751'', ''SuperH (SH) 32-Bit RISC MCU/MPU Series''],
  Init [Const 0x1055, Const 0x0810] [[], ''EFAR 486 host Bridge''],
  Init [Const 0x1055, Const 0x0922] [[], ''Pentium/p54c host Bridge'']]"

lemma PciDevTable_28_facts:
  "length PciDevTable_28 = 150" "rejected PciDevTable_28 = 2" "oversized PciDevTable_28 = 0"
  "vendors PciDevTable_28 \<subseteq> Const ` set vendor_numbers"
  unfolding PciDevTable_28_def count_rows by (simp_all add: part_simps listed vendor_known_list cong: part_cong count_rows_cong)

definition PciDevTable_29 :: "initializer list" where
 "PciDevTable_29 = [
  Init [Const 0x1055, Const 0x0926] [''I don'' @ [CHR 0xB4] @ ''t know pentium 133 intel   everex setpnot mx'', ''ISA Bridge''],
  Init [Const 0x1055, Const 0x9130] [''SLC90E66'', ''Ultra ATA/66 IDE Controller''],
  Init [Const 0x1055, Const 0x9460] [''SLC90E66'', ''Victory66 PCI to ISA Bridge''],
  Init [Const 0x1055, Const 0x9461] [''SLC90E66'', ''Victory66 UDMA EIDE Controller''],
  Init [Const 0x1055, Const 0x9462] [''SLC90E66'', ''Victory66 USB Host Controller''],
  Init [Const 0x1055, Const 0x9463] [''SLC90E66'', ''Victory66 Power Management Controller''],
  Init [Const 0x1055, Const 0xE420] [''LAN9420/LAN9420i'', ''PCI 10/100 Ethernet controller''],
  Init [Const 0x1056, Const 0x2001F] [''Divio NW700LQ. 0243CDTAA. V90479. 1'', ''Philips P89C51RD271BA. 1D041700A0. AeD0217G''],
  Init [Const 0x1057, Times (Const 0) (Const 5600)] [''52-6116-2A'', ''Motorola FM 56 PCI Speakerphone Modem''],
  Init [Const 0x1057, Const 0x0001] [''MPC105'', ''PCI Bridge / Memory Controller (PCIB/MC)''],
  Init [Const 0x1057, Const 0x0002] [''MPC106'', ''PCI Bridge/Memory Controller (PCIB/MC)''],
  Init [Const 0x1057, Const 0x0003] [''MPC8240'', ''Integrated Processor''],
  Init [Const 0x1057, Const 0x0004] [''MPC107'', ''PCI Bridge/Memory Controller for PPC''],
  Init [Const 0x1057, Const 0x0006] [''MPC8245'', ''Integrated Processor''],
  Init [Const 0x1057, Const 0x0100] [''MC145575'', ''HCF-PCI''],
  Init [Const 0x1057, Const 0x0431] [''KTI829c'', ''100VG Ethernet Controller''],
  Init [Const 0x1057, Const 0x1801] [''DSP56301'', ''24-bit Digital Signal Processor''],
  Init [Const 0x1057, Const 0x1802] [''DSP56305'', ''24-Bit Digital Signal Processor''],
  Init [Const 0x1057, Const 0x18C0] [''MPC8265A/66'', ''PowerQUICC II PCI Bridge''],
  Init [Const 0x1057, Const 0x3052] [''0644dfea15'', ''MotorolaSM56Modem_PCI device''],
  Init [Const 0x1057, Const 0x3055] [''SM56'', ''Motorola SM56 Data Fax Modem ''],
  Init [Const 0x1057, Const 0x3057] [''HDAUDIO'' @ [CHR 0x5C] @ ''FUNC_02om&VEN_1057&DEV_3057&SUBSYS_0001000'', ''Modem Device on High Definition Audio Bus''],
  Init [Const 0x1057, Const 0x3410] [''DSP56361'', ''Digital Signal Processor''],
  Init [Const 0x1057, Const 0x3421] [''56IVMR/Phoenix 56ISM'', ''Modem''],
  Init [Const 0x1057, Const 0x4801] [''Raven'', ''PowerPC Chipset''],
  Init [Const 0x1057, Const 0x4802] [''Falcon'', ''memory control chipset''],
  Init [Const 0x1057, Const 0x4803] [''Hawk'', []],
  Init [Const 0x1057, Const 0x4806] [''CPX8216'', []],
  Init [Const 0x1057, Const 0x4809] [''CPX8216T'', ''HotSwap Controller''],
  Init [Const 0x1057, Const 0x5600] [''WDM MOT8888'', ''SM 56 PCI Speakerphone/Data,Fax  Modem''],
  Init [Const 0x1057, Const 0x5602] [''SM56'', ''PCI Modem''],
  Init [Const 0x1057, Const 0x5608] [''52-6116-2A 21-864-4 OR 62802-51 QZ0024 M5T90-000'', ''Motorola SM56 Speakerphone Modem''],
  Init [Const 0x1057, Const 0x5803] [''MPC5200'', ''32-Bit Embedded PowerPC Processor''],
  Init [Const 0x1057, Const 0x6400] [''MPC190'', ''Security Co-Processor''],
  Init [Const 0x1057, Const 0x9876] [''1543'', ''3052''],
  Init [Const 0x105A, Const 0x0262] [''Promise Technology'', ''Ultra66/FastTrak66''],
  Init [Const 0x105A, Const 0x0D30] [''PDC20265/R'', ''MBUltra100/MBFastTrack100 Lite''],
  Init [Const 0x105A, Const 0x0D38] [''PDC20263'', ''FastTrak66 Lite EIDE Controller''],
  Init [Const 0x105A, Const 0x105A] [''DC5300'', ''EIDE Controller''],
  Init [Const 0x105A, Const 0x1275] [''PDC20275'', ''MBUltra133''],
  Init [Const 0x105A, Const 0x1960] [''?'', ''SuperTrak 66/100 RAID''],
  Init [Const 0x105A, Const 0x1962] [''?'', ''SuperTrak SX 6000''],
  Init [Const 0x105A, Const 0x3318] [''PDC20318'', ''SATA150 TX4''],
  Init [Const 0x105A, Const 0x3319] [''PDC20319'', ''FastTrak S150 TX4''],
  Init [Const 0x105A, Const 0x3371] [''PDC20371?'', ''FastTrak S150 TX2+''],
  Init [Const 0x105A, Const 0x3373] [''PDC20378'', ''FastTrak 378/SATA 378 RAID Controller''],
  Init [Const 0x105A, Const 0x3375] [''PDC20375'', ''SATA150 TX2+''],
  Init [Const 0x105A, Const 0x3376] [''PDC20376'', ''FastTrak 376 Controller''],
  Init [Const 0x105A, Const 0x3515] [''PDC40719'', ''FastTrak TX43xx''],
  Init [Const 0x105A, Const 0x3519] [''PDC40519'', ''FastTrak TX42xx''],
  Init [Const 0x105A, Const 0x3570] [''PDC20771'', ''FastTrak TX2300 SATA300 Controller''],
  Init [Const 0x105A, Const 0x3571] [''PDC20571'', ''Fasttrack TX2200''],
  Init [Const 0x105A, Const 0x3574] [''PDC20579'', ''SATAII 150 579''],
  Init [Const 0x105A, Const 0x3D17] [''PDC40718-GP'', ''SATA 300 TX4 Controller''],
  Init [Const 0x105A, Const 0x3D18] [''PDC20518/40518'', ''SATAII 150TX2+/SATAII150 TX4''],
  Init [Const 0x105A, Const 0x3D73] [''PDC40775'', ''SATAII 300 TX2+''],
  Init [Const 0x105A, Const 0x3F19] [''scsi'', ''FastTrak TX2650/4650/4652''],
  Init [Const 0x105A, Const 0x3F20] [''PDC42819'', ''FastTrak TX2650(3F21)/4650(3F22)/PDC42819(3716)''],
  Init [Const 0x105A, Const 0x4302] [''?'', ''SuperTrak EX 43X0''],
  Init [Const 0x105A, Const 0x4303] [''?'', ''SuperTrak EX 4350''],
  Init [Const 0x105A, Const 0x4D30] [''PDC20267'', ''FastTrack100 on Intel MB SE7500CW2''],
  Init [Const 0x105A, Const 0x4D33] [''PDC20246'', ''FastTrak/Ultra33 ATA RAID controller''],
  Init [Const 0x105A, Const 0x4D38] [''PDC20262'', ''Ultra66/FastTrak66''],
  Init [Const 0x105A, Const 0x4D68] [''PDC20268/R'', ''Ultra100TX2/FastTrak100TX/LP''],
  Init [Const 0x105A, Const 0x4D69] [''PDC20269'', ''Ultra133TX2''],
  Init [Const 0x105A, Const 0x5275] [''PDC20276'', ''MBUltra133/MBFastTrak133''],
  Init [Const 0x105A, Const 0x5300] [''DC5300'', ''EIDE Controller''],
  Init [Const 0x105A, Const 0x6268] [''PDC20270'', ''FastTrak100 TX2/TX4/LP''],
  Init [Const 0x105A, Const 0x6269] [''PDC20271'', ''FastTrak TX2000 EIDE controller''],
  Init [Const 0x105A, Const 0x6300] [''?'', ''FastTrak SX 8300''],
  Init [Const 0x105A, Const 0x6301] [''?'', ''FastTrak SX8300-1''],
  Init [Const 0x105A, Const 0x6302] [''6302'', ''FastTrak SX 4300''],
  Init [Const 0x105A, Const 0x6303] [''?'', ''FastTrak SX 4''],
  Init [Const 0x105A, Const 0x6304] [''?'', ''FastTrak SX8300-2''],
  Init [Const 0x105A, Const 0x6305] [''?'', ''FastTrak SX8300-3''],
  Init [Const 0x105A, Const 0x6306] [''?'', ''FastTrak SX 4300-2''],
  Init [Const 0x105A, Const 0x6307] [''?'', ''FastTrak SX 4300-3''],
  Init [Const 0x105A, Const 0x6621] [''PDC 20621(?)'', ''FastTrak SX4000''],
  Init [Const 0x105A, Const 0x6622] [''PDC 20622 (?)'', ''FastTrak S150SX4''],
  Init [Const 0x105A, Const 0x6629] [''PDC20619'', ''FastTrak TX4000''],
  Init [Const 0x105A, Const 0x7250] [''7250'', ''Vitesse 7250 SAS RAID''],
  Init [Const 0x105A, Const 0x7275] [''PDC 20277'', ''SBUltra133/SBFastTrak 133 Lite''],
  Init [Const 0x105A, Const 0x8000] [''?'', ''SATAII150 SX8''],
  Init [Const 0x105A, Const 0x8002] [''?'', ''SATAII150 SX8''],
  Init [Const 0x105A, Const 0x8003] [''PDC 20621'', ''FastTrak SX4000''],
  Init [Const 0x105A, Const 0x8004] [''?'', ''SATAII150 SX8''],
  Init [Const 0x105A, Const 0x8006] [''?'', ''SATAII150 SX8''],
  Init [Const 0x105A, Const 0x8350] [''?'', ''SuperTrak EX8350/16350/8300/16300''],
  Init [Const 0x105A, Const 0x8650] [''?'', ''SuperTrak EX SAS RAID''],
  Init [Const 0x105A, Const 0xC350] [''?'', ''SuperTrak EX 123X0''],
  Init [Const 0x105A, Const 0xE350] [''?'', ''SuperTrak EX 243X0''],
  Init [Const 0x105D, Const 0x2309] [''Imagine 128'', ''GUI Accelerator''],
  Init [Const 0x105D, Const 0x2339] [''I128s2'', ''Imagine 128 Series 2''],
  Init [Const 0x105D, Const 0x493D] [''T2R'', ''Revolution 3D''],
  Init [Const 0x105D, Const 0x5348] [''Revolution IV'', ''Revolution IV''],
  Init [Const 0x1060, Const 0x0001] [''UM82C881'', ''486 Chipset''],
  Init [Const 0x1060, Const 0x0002] [''UM82C886'', ''ISA Bridge''],
  Init [Const 0x1060, Const 0x0101] [''UM8673F'', ''EIDE Controller''],
  Init [Const 0x1060, Const 0x0881] [''UM8881'', ''HB4 486 PCI Chipset''],
  Init [Const 0x1060, Const 0x0886] [''UM8886F'', ''ISA Bridge''],
  Init [Const 0x1060, Const 0x0891] [''UM82C891'', ''Pentium CPU to PCI bridge''],
  Init [Const 0x1060, Const 0x1001] [''UM886A'', ''IDE Cntrlr (dual function)''],
  Init [Const 0x1060, Const 0x673A] [''UM8886BF'', ''EIDE Controller''],
  Init [Const 0x1060, Const 0x673B] [[], ''EIDE Master/DMA''],
  Init [Const 0x1060, Const 0x8710] [''UM8710'', ''VGA Cntrlr''],
  Init [Const 0x1060, Const 0x8821] [[], ''CPU/PCI Bridge''],
  Init [Const 0x1060, Const 0x8822] [[], ''PCI/ISA Bridge''],
  Init [Const 0x1060, Const 0x8851] [[], ''Pentium CPU/PCI Bridge''],
  Init [Const 0x1060, Const 0x8852] [''LG-772'', ''Pentium CPU/ISA Bridge''],
  Init [Const 0x1060, Const 0x886A] [''UM8886A'', ''ISA Bridge with EIDE''],
  Init [Const 0x1060, Const 0x8881] [''UM8881F'', ''HB4 486 PCI Chipset''],
  Init [Const 0x1060, Const 0x8886] [''UM8886'', ''ISA Bridge (w/o IDE support)''],
  Init [Const 0x1060, Const 0x888A] [''UM8886A'', []],
  Init [Const 0x1060, Const 0x8891] [''UM8891'', ''586 Chipset''],
  Init [Const 0x1060, Const 0x9017] [''UM9017F'', ''Ethernet''],
  Init [Const 0x1060, Const 0x9018] [''UM9018'', ''Ethernet''],
  Init [Const 0x1060, Const 0x9026] [''UM9026'', ''Fast Ethernet''],
  Init [Const 0x1060, Const 0xE881] [''UM8881'', ''486 Chipset''],
  Init [Const 0x1060, Const 0xE886] [''UM8886N'', ''ISA Bridge w/EIDE''],
  Init [Const 0x1060, Const 0xE88A] [''UM8886N'', ''PCI / ISA Bridge''],
  Init [Const 0x1060, Const 0xE891] [''UM8891N'', ''um8891n''],
  Init [Const 0x1061, Const 0x0001] [''AGX013/016'', ''GUI Accelerator''],
  Init [Const 0x1061, Const 0x0002] [''IIT3104'', ''MPEG Decoder''],
  Init [Const 0x1676, Const 0x1001] [''5.10.00.5760'', ''Realtek AC'' @ [CHR 0x27] @ '' 97 Audio Driver''],
  Init [Const 0x1065, Const 0x8139] [''nic'', ''Realtek 8139C Network Card''],
  Init [Const 0x1066, Const 0x0000] [''PT80C826'', ''VL Bridge''],
  Init [Const 0x1066, Const 0x0001] [''PT86C521'', ''Vesuvius V1-LS System Controller''],
  Init [Const 0x1066, Const 0x0002] [''PT86C523'', ''Vesuvius V3-LS ISA Bridge''],
  Init [Const 0x1066, Const 0x0003] [''PT80C524'', ''Nile PCI to PCI Bridge''],
  Init [Const 0x1066, Const 0x0004] [''PT80C525'', ''Nile-II PCI to PCI Bridge''],
  Init [Const 0x1066, Const 0x0005] [''PCI'' @ [CHR 0x5C] @ ''en_14E&DEV4318_REV|02'', ''System Controller''],
  Init [Const 0x1066, Const 0x8002] [''PT86C523'', ''ISA Bridge''],
  Init [Const 0x1067, Const 0x1002] [''VG500'', ''VolumePro Volume Rendering Accelerator''],
  Init [Const 0x1001, Const 0x0010] [''ispLSI1032E'', ''PCI 1616, 16 TTL-IN, 16 TTL-OUT''],
  Init [Const 0x1001, Const 0x0011] [''ispLSI1032E'', ''OPTO-PCI, 16 IN / 16 OUT 24 VDC''],
  Init [Const 0x1001, Const 0x0012] [''ispLSI1032E'', ''PCI-AD, PCI-ADDA analog I/O-card''],
  Init [Const 0x1001, Const 0x0013] [''ispLSI1032E'', ''PCI-OptoRel, PCI-Relais 16 Relais & Opto''],
  Init [Const 0x1001, Const 0x0014] [''ispLSI1032E'', ''Timer, Pulse & Counter-card 16..32 bit''],
  Init [Const 0x1001, Const 0x0015] [''ispLSI1032E'', ''PCI-DAC416, 4 channel D/A16bit precision''],
  Init [Const 0x1001, Const 0x0016] [''ispLSI1032E'', ''PCI-MFB high-speed analog I/O''],
  Init [Const 0x1001, Const 0x0017] [''ispLSI1032E'', ''PROTO-3 PCI, digital I/O with chipselect''],
  Init [Const 0x1001, Const 0x0020] [''ispLSI1032E'', ''Universal digital I/O PCI-Interface''],
  Init [Const 0x1677, Const 0x20AD] [''5ACPCI.MFIO-K01'', ''Profibus DP / K-Feldbus / COM''],
  Init [Const 0x144B, Const 0x0601] [[], []],
  Init [Const 0x1402, Const 0x2E00] [''ME-2000/2600'', ''Multifunction Data Aquistion card''],
  Init [Const 0x1402, Const 0x4610] [''ME-4610'', ''Multi-IO board (16x 16bit ADC, 32x TTL I/O)''],
  Init [Const 0x1402, Const 0x4650] [''ME-4650'', ''Multi-IO board (16x 16bit ADC, 32x TTL I/O)''],
  Init [Const 0x14D4, Const 0x0400] [''Panacom 7'', ''Interface chip''],
  Init [Const 0x1307, Const 0x0001] [''PCI-DAS1602/16'', []],
  Init [Const 0x1307, Const 0x0006] [''PCI-GPIB'', []]]"

lemma PciDevTable_29_facts:
  "length PciDevTable_29 = 150" "rejected PciDevTable_29 = 0" "oversized PciDevTable_29 = 1"
  "vendors PciDevTable_29 \<subseteq> Const ` set vendor_numbers"
  unfolding PciDevTable_29_def count_rows by (simp_all add: part_simps listed vendor_known_list cong: part_cong count_rows_cong)

definition PciDevTable_30 :: "initializer list" where
 "PciDevTable_30 = [
  Init [Const 0x1307, Const 0x000B] [''PCI-DIO48H'', []],
  Init [Const 0x1307, Const 0x000C] [''PCI-PDISO8'', []],
  Init [Const 0x1307, Const 0x000D] [''PCI-PDISO16'', []],
  Init [Const 0x1307, Const 0x000F] [''PCI-DAS1200'', []],
  Init [Const 0x1307, Const 0x0010] [''PCI-DAS1602/12'', []],
  Init [Const 0x1307, Const 0x0014] [''PCI-DIO24H'', ''24 Bit Digital Input/Output Board''],
  Init [Const 0x1307, Const 0x0015] [''PCI-DIO24H/CTR3'', []],
  Init [Const 0x1307, Const 0x0016] [''PCI-DIO24H/CTR16'', []],
  Init [Const 0x1307, Const 0x0017] [''PCI-DIO96H'', []],
  Init [Const 0x1307, Const 0x0018] [''PCI-CTR05'', []],
  Init [Const 0x1307, Const 0x0019] [''PCI-DAS1200/JR'', []],
  Init [Const 0x1307, Const 0x001A] [''PCI-DAS1001'', []],
  Init [Const 0x1307, Const 0x001B] [''PCI-DAS1002'', []],
  Init [Const 0x1307, Const 0x001C] [''PCI-DAS1602JR/16'', ''AR2425''],
  Init [Const 0x1307, Const 0x001D] [''PCI-DAS6402/16'', []],
  Init [Const 0x1307, Const 0x001E] [''PCI-DAS6402/12'', []],
  Init [Const 0x1307, Const 0x001F] [''PCI-DAS16/M1'', []],
  Init [Const 0x1307, Const 0x0020] [''PCI-DDA02/12'', []],
  Init [Const 0x1307, Const 0x0021] [''PCI-DDA04/12'', []],
  Init [Const 0x1307, Const 0x0022] [''PCI-DDA08/12'', []],
  Init [Const 0x1307, Const 0x0023] [''PCI-DDA02/16'', []],
  Init [Const 0x1307, Const 0x0024] [''PCI-DDA04/16'', []],
  Init [Const 0x1307, Const 0x0025] [''PCI-DDA08/16'', []],
  Init [Const 0x1307, Const 0x0026] [''PCI-DAC04/12-HS'', []],
  Init [Const 0x1307, Const 0x0027] [''PCI-DAC04/16-HS'', []],
  Init [Const 0x1307, Const 0x0028] [''PCI-DIO24'', ''24 Bit Digital Input/Output Board''],
  Init [Const 0x1307, Const 0x0029] [''PCI-DAS08'', []],
  Init [Const 0x1307, Const 0x002C] [''PCI-INT32'', ''PCI-INT32''],
  Init [Const 0x1307, Const 0x0033] [''PCI-DUAL-AC5'', []],
  Init [Const 0x1307, Const 0x0034] [''PCI-DAS-TC'', []],
  Init [Const 0x1307, Const 0x0035] [''PCI-DAS64/M1/16'', []],
  Init [Const 0x1307, Const 0x0036] [''PCI-DAS64/M2/16'', []],
  Init [Const 0x1307, Const 0x0037] [''PCI-DAS64/M3/16'', []],
  Init [Const 0x1307, Const 0x004C] [''PCI-DAS1000'', []],
  Init [Const 0x1307, Const 0x004D] [''PCI-QUAD04'', []],
  Init [Const 0x1307, Const 0x0064] [''PCI-CTR10'', ''10 channels, 16 bit counter/timer with 32-Bits of Digital I/O''],
  Init [Const 0x1307, Const 0x0361] [''?'', ''?''],
  Init [Const 0x1318, Const 0x0911] [''G-NIC II'', ''1000BT Network Interface Card''],
  Init [Const 0x1458, Const 0x1458] [''0x1458'', ''microsoft''],
  Init [Const 0x1458, Const 0x5000] [''0x29e0'', ''GA-X48T-DQ6''],
  Init [Const 0x1319, Const 0x0801] [''FM0801-au'', ''PCI Card MediaForte made in singapore (driver - ct''],
  Init [Const 0x1319, Const 0x0802] [''FM801-as'', ''Xwave PCI Joystick''],
  Init [Const 0x1319, Const 0x1000] [''FM801-as'', ''PCI Audio''],
  Init [Const 0x1319, Const 0x1001] [''FM801'', ''Joystick''],
  Init [Const 0x1319, Const 0x1319] [''FM0801-as'', ''Xwave PCI audio controller''],
  Init [Const 0x1319, Const 0x4901] [''FM801-AU'', ''ForteMedia PCI Audio Card''],
  Init [Const 0x1319, Const 802] [''fm801-au'', ''PCI Audio''],
  Init [Const 0x1412, Const 0x1712] [''ICE1712'', ''M-audio Delta 44 (http://www.m-audio.com)''],
  Init [Const 0x1412, Const 0x1724] [''VT1723'', ''Envy24PT/HT PCI Multi-Channel Audio Controller''],
  Init [Const 0x131F, Const 0x2002] [''72svec'', ''CyberSerial 16850''],
  Init [Const 0x131F, Const 0x2011] [''1655'', ''Siig Inc Duet 1S(16550)+1P''],
  Init [Const 0x131F, Const 0x2012] [[], ''Duet 1S(16850)+1P''],
  Init [Const 0x131F, Const 0x2020] [''SIIG cyber8000'', ''Communication controller''],
  Init [Const 0x131F, Const 0x2030] [''SIIG CyberSerial PCI 16C550'', ''SIIG Cyber Serial Dual PCI Board''],
  Init [Const 0x131F, Const 0x2042] [[], ''Trio 1S(16850)+2P''],
  Init [Const 0x131F, Const 0x2050] [''Siig Inc CyberSerial (4-port) 16550'', ''Siig Inc CyberSerial (4-port) 16550''],
  Init [Const 0x131F, Const 0x2051] [[], ''CyberSerial 16650''],
  Init [Const 0x131F, Const 0x2052] [[], ''CyberSerial 16850''],
  Init [Const 0x131F, Const 0x2060] [''JJ_P21022-B'', ''Trio 2S(16550)+1P''],
  Init [Const 0x131F, Const 0x2061] [[], ''Trio 2S(16650)+1P''],
  Init [Const 0x131F, Const 0x2062] [''1969'', ''Trio 2S(16850)+1P''],
  Init [Const 0x131F, Const 0x9876] [''JJ_P21022-B'', ''Trio 2S(16550)+1P''],
  Init [Const 0x1407, Const 0x0100] [''0439'', ''Lava Dual Serial 550 PCI''],
  Init [Const 0x1407, Const 0x0101] [[], ''Lava Quattro PCI A/B''],
  Init [Const 0x1407, Const 0x0102] [[], ''Lava Quattro PCI C/D''],
  Init [Const 0x1407, Const 0x0110] [''0110'', ''Lava DSerial PCI Port A''],
  Init [Const 0x1407, Const 0x0111] [''nep5p'', ''Lava DSerial PCI Port B''],
  Init [Const 0x1407, Const 0x0180] [''Lava Octopus PCI Ports '', ''Lava Octopus PCI Ports 1-4''],
  Init [Const 0x1407, Const 0x0181] [[], ''Lava Octopus PCI Ports 5-8''],
  Init [Const 0x1407, Const 0x0200] [''9923'', ''LavaPort Dual-650 PCI''],
  Init [Const 0x1407, Const 0x0201] [[], ''LavaPort Quad-650 PCI A/B''],
  Init [Const 0x1407, Const 0x0202] [[], ''LavaPort Quad-650 PCI C/D''],
  Init [Const 0x1407, Const 0x0220] [[], ''LavaPort Quad-650 PCI A/B''],
  Init [Const 0x1407, Const 0x0221] [[], ''LavaPort Quad-650 PCI C/D''],
  Init [Const 0x1407, Const 0x0400] [[], ''Lava 8255 PIO PCI''],
  Init [Const 0x1407, Const 0x0500] [''P4'', ''Lava Single Serial 550 PCI''],
  Init [Const 0x1407, Const 0x0510] [[], ''Lava SP Serial 550 PCI''],
  Init [Const 0x1407, Const 0x0511] [[], ''Lava SP BIDIR Parallel PCI''],
  Init [Const 0x1407, Const 0x0520] [''s'', ''Lava RS422 SS-PCI''],
  Init [Const 0x1407, Const 0x0600] [''4-0 9253'', ''LavaPort 650 PCI''],
  Init [Const 0x1407, Const 0x0A00] [''LavaPort PCI'', ''COM Port Accelerator''],
  Init [Const 0x1407, Const 0x120] [[], ''Lava Quattro 550 PCI A/B''],
  Init [Const 0x1407, Const 0x121] [[], ''Lava Quattro 550 PCI C/D''],
  Init [Const 0x1407, Const 0x520] [''s'', ''s''],
  Init [Const 0x1407, Const 0x8000] [''PCI'' @ [CHR 0x5C] @ ''VEN_197B&DEV_2382'', ''Lava Parallel''],
  Init [Const 0x1407, Const 0x8001] [[], ''Lava Dual Parallel port A''],
  Init [Const 0x1407, Const 0x8002] [''9923'', ''Lava Dual Parallel port A''],
  Init [Const 0x1407, Const 0x8003] [[], ''Lava Dual Parallel port B''],
  Init [Const 0x1407, Const 0x8800] [''2003'', ''BOCA Research IOPPAR''],
  Init [Const 0x9412, Const 0x6565] [''HT6565'', ''IDE Controller?''],
  Init [Const 0x1190, Const 0x2550] [''TC-2550'', ''Single Chip Ultra (Wide) SCSI Processor''],
  Init [Const 0x1190, Const 0xC721] [[], ''EIDE''],
  Init [Const 0x1190, Const 0xC731] [''TP-910/920/940'', ''PCI Ultra (Wide) SCSI Adapter''],
  Init [Const 0x1242, Const 0x1460] [''JNIC-1460'', ''2-Gb/s Fibre Channel-PCI 64-bit 66 MHz''],
  Init [Const 0x1242, Const 0x1560] [''JNIC-1560'', ''Dual Channel 2 Gb/s Fibre Channel-PCI-X''],
  Init [Const 0x1242, Const 0x4643] [''JNI PCI 64-bit Fibrechannel'', ''JNI PCI 64-bit Fibrechannel (needs clone)''],
  Init [Const 0x14F2, Const 0x0001] [[], ''Moselle Split Bridge''],
  Init [Const 0x14F2, Const 0x0002] [[], ''Capilano Split Bridge''],
  Init [Const 0x14F2, Const 0x0120] [''win7_rtm.090713-1255'', ''Merlin Split Bridge''],
  Init [Const 0x14F2, Const 0x0121] [[], ''PCI Parallel Port''],
  Init [Const 0x14F2, Const 0x0122] [''unknown'', ''PCI Serial Port''],
  Init [Const 0x14F2, Const 0x0123] [''6.1.7600.16385'', ''PCI PS/2 Keyboard Port''],
  Init [Const 0x14F2, Const 0x0124] [''3103'', ''PCI PS/2 Mouse Port''],
  Init [Const 0x1308, Const 0x0001] [[], ''NetCelerator Adapter''],
  Init [Const 0x134D, Const 0x2188] [''fa82537ep'', ''intel''],
  Init [Const 0x134D, Const 0x2189] [''HSP688T'', ''pctel HSP56 V92 PCI Modem''],
  Init [Const 0x134D, Const 0x2486] [''82537'', ''V.92 MDC Modem''],
  Init [Const 0x134D, Const 0x7890] [''8086'', ''HSP56 MicroModem''],
  Init [Const 0x134D, Const 0x7891] [''PCT 789T-c1'', ''HSP MicroModem 56''],
  Init [Const 0x134D, Const 0x7892] [''PCT 789T-A'', ''HSP56 MicroModem''],
  Init [Const 0x134D, Const 0x7893] [''S911 K017'', ''HSP MicroModem 56''],
  Init [Const 0x134D, Const 0x7894] [''688w'', ''HSP MicroModem 56''],
  Init [Const 0x134D, Const 0x7895] [''PCT789T'', ''HSP MicroModem 56''],
  Init [Const 0x134D, Const 0x7896] [''pct789t-c'', ''HSP MicroModem 56''],
  Init [Const 0x134D, Const 0x7897] [''97860963'', ''HSP MicroModem 56/PCT789T''],
  Init [Const 0x134D, Const 0x9714] [''PCT 288-1A'', ''PCTEL''],
  Init [Const 0x134D, Const 0xD800] [''pct388p-a'', ''pctel 56k modem''],
  Init [Const 0x134D, Const 8086] [''hfp56'', ''dev''],
  Init [Const 0x135E, Const 0x0EC3] [''8012e'', ''PCIe 8 Relay Output/8 Isolated Input Board ''],
  Init [Const 0x135E, Const 0x5101] [''5101'', ''Route 56''],
  Init [Const 0x135E, Const 0x5102] [''PCI-ACB'', ''RS-232 synchronous card''],
  Init [Const 0x135E, Const 0x7101] [[], ''Single Port RS-232/422/485/520''],
  Init [Const 0x135E, Const 0x7201] ['' '', ''Dual Port RS-232/422/485 Interface''],
  Init [Const 0x135E, Const 0x7202] [[], ''Dual Port RS-232 Interface''],
  Init [Const 0x135E, Const 0x7401] [[], ''Four Port RS-232 Interface''],
  Init [Const 0x135E, Const 0x7402] [[], ''Four Port RS-422/485 Interface''],
  Init [Const 0x135E, Const 0x7801] [[], ''Eight Port RS-232 Interface''],
  Init [Const 0x135E, Const 0x8001] [''8001'', ''Digital I/O Adapter''],
  Init [Const 0x1385, Const 0x4100] [''MA401'', ''802.11b Wireless Adapter''],
  Init [Const 0x1385, Const 0x4105] [[], []],
  Init [Const 0x1385, Const 0x620A] [''GA620'', ''Toshiba''],
  Init [Const 0x1385, Const 0x622A] [''GA622'', []],
  Init [Const 0x1385, Const 0x630A] [''GA630'', []],
  Init [Const 0x1385, Const 0x8169] [''GA511'', ''Gigabit Ethernet Adapter''],
  Init [Const 0x1385, Const 0xF311] [''FA311'', ''Fast Ethernet Adapter''],
  Init [Const 0x1385, Const 0xF312] [[], []],
  Init [Const 0x1389, Const 0x0001] [''PCI1500PFB'', ''Intelligent fieldbus Adapter''],
  Init [Const 0x1389, Const 0x0104] [''PCI-CANIO'', ''PCI-CANIO adapter''],
  Init [Const 0x1397, Const 0x0B4D] [''HFC-8S 16B8D8S0'', ''ISDN HDLC FIFO Controller''],
  Init [Const 0x1397, Const 0x2BD0] [''HFC-PCI A ISDN 2BDS0'', ''ISDN HDLC FIFO Controller''],
  Init [Const 0x1397, Const 0x8B4D] [''HFC-4S ISDN 8B4D4S0'', ''ISDN HDLC FIFO Controller''],
  Init [Const 0x1397, Const 0xB000] [''B000'', ''HCF-PCI card''],
  Init [Const 0x1397, Const 0xB006] [''B006'', ''HCF-PCI card''],
  Init [Const 0x1397, Const 0xB007] [''B007'', ''HCF-PCI card''],
  Init [Const 0x1397, Const 0xB008] [''n/a'', ''usb webcam''],
  Init [Const 0x1397, Const 0xB009] [''B009'', ''HCF-PCI card''],
  Init [Const 0x1397, Const 0xB00A] [''B00A'', ''HCF-PCI card''],
  Init [Const 0x1397, Const 0xB00B] [''B00B'', ''HCF-PCI card''],
  Init [Const 0x1397, Const 0xB00C] [''B00C'', ''HCF-PCI card''],
  Init [Const 0x1397, Const 0xB100] [''B100'', ''HCF-PCI card'']]"

lemma PciDevTable_30_facts:
  "length PciDevTable_30 = 150" "rejected PciDevTable_30 = 0" "oversized PciDevTable_30 = 0"
  "vendors PciDevTable_30 \<subseteq> Const ` set vendor_numbers"
  unfolding PciDevTable_30_def count_rows by (simp_all add: part_simps listed vendor_known_list cong: part_cong count_rows_cong)

definition PciDevTable_rows3 :: "initializer list" where
  "PciDevTable_rows3 = concat [PciDevTable_21, PciDevTable_22, PciDevTable_23, PciDevTable_24,
     PciDevTable_25, PciDevTable_26, PciDevTable_27, PciDevTable_28,
     PciDevTable_29, PciDevTable_30]"

lemma PciDevTable_rows3_facts:
  "length PciDevTable_rows3 = 1500" "rejected PciDevTable_rows3 = 11" "oversized PciDevTable_rows3 = 3"
  "vendors PciDevTable_rows3 \<subseteq> Const ` set vendor_numbers"
  by (simp_all add: PciDevTable_rows3_def rejected_append oversized_append vendors_append
      PciDevTable_21_facts PciDevTable_22_facts PciDevTable_23_facts
      PciDevTable_24_facts PciDevTable_25_facts PciDevTable_26_facts
      PciDevTable_27_facts PciDevTable_28_facts PciDevTable_29_facts
      PciDevTable_30_facts)

end
