(* ===== verification/PciDevices4.thy ===== *)
theory PciDevices4
  imports PciVendors
begin

text \<open>
  src/src/sys/drv/pci/identifiers.h: rows 4501 to 6000 of the device table \<open>PciDevTable\<close>, in
  parts of 150 rows. Of each part: its length, how many of its rows a compiler rejects, how
  many have a number that does not fit its member, and that all of its vendors are listed.
\<close>

definition PciDevTable_31 :: "initializer list" where
 "PciDevTable_31 = [
  Init [Const 0x13C0, Const 0x0010] [''SyncLink Adapter'', ''single port multiprotocol serial adapter''],
  Init [Const 0x13C0, Const 0x0020] [''SyncLink SCC'', ''low speed single port multiprotocol serial adapter''],
  Init [Const 0x13C0, Const 0x0030] [''SyncLink 4 Port Adapter'', ''4 port multiprotocol serial adapter''],
  Init [Const 0x13C0, Const 0x0070] [''SyncLink GT Adapter'', ''single port multiprotocol serial adapter''],
  Init [Const 0x13C0, Const 0x0080] [''SyncLink GT4 Adapter'', ''4 port multiprotocol serial adapter''],
  Init [Const 0x13C0, Const 0x0090] [''SyncLink AC Adapter'', ''one port asynchronous serial adapter''],
  Init [Const 0x13C0, Const 0x00A0] [''SyncLink GT2 Adapter'', ''2 port multiprotocol serial adapter''],
  Init [Const 0x13C0, Const 0x0210] [''SyncLink Serial Adapter version 2'', ''single port multiprotocol serial adapter''],
  Init [Const 0x13C1, Const 0x1000] [''9548qad'', ''ATA-RAID Controller''],
  Init [Const 0x13C1, Const 0x1001] [''7000/8000 series'', ''ATA-133 Storage Controller''],
  Init [Const 0x13C1, Const 0x1002] [''9000 series'', ''SATA/PATA Storage Controller''],
  Init [Const 0x13C1, Const 0x1003] [''9550SX/9590SE Series'', ''SATA2 Raid Controller''],
  Init [Const 0x13C1, Const 0x1004] [''9650SE Series'', ''PCI-Express SATA2 Raid Controller''],
  Init [Const 0x13C1, Const 0x1005] [''9690SA Series'', ''PCI-Express SATA2/SAS Raid Controller''],
  Init [Const 0x13C1, Const 0x1010] [''9750 Series'', ''PCI-Express2 SAS2/SATA2 Raid Controller''],
  Init [Const 0x13DF, Const 0x0001] [''PCI56RVP'', ''Modem''],
  Init [Const 0x13F6, Const 137] [''pcnet ht2001 9932'', ''serlio''],
  Init [Const 0x13F6, Const 0x00111] [''520098396000734'', ''sound card''],
  Init [Const 0x13F6, Const 0x0100] [''CMI8338/PCI C3DX'', ''PCI''],
  Init [Const 0x13F6, Const 0x0101] [''CMI8338-031'', ''PCI Audio Device''],
  Init [Const 0x13F6, Const 0x0111] [''0434119232'', ''PCI-SCCME8738LX-2''],
  Init [Const 0x13F6, Const 0x0112] [''CMI-8378B/PCI-6CH'', ''PCI Audio Chip''],
  Init [Const 0x13F6, Const 0x0191] [''PCI'' @ [CHR 0x5C] @ ''VEN_13F6&DEV_0111&REV_10'', ''CMI 8738 8CH Sound Card''],
  Init [Const 0x13F6, Const 0x0211] [''PCI'' @ [CHR 0x5C] @ ''VEN_13F6&DEV_0211&SUBSYS_021113F6&rev_10'' @ [CHR 0x5C] @ ''3&267'', '' Driver controller pci simple comunications - PCtel HSP56 Micro Modem Driver  ''],
  Init [Const 0x13F6, Const 0x0300] [''0x4005'', ''pci audio driver''],
  Init [Const 0x13F6, Const 0x111] [''PCI'' @ [CHR 0x5C] @ ''VEN_13F6&DEPCI'' @ [CHR 0x5C] @ ''VEN_13F6&DEV_0511&SUBSYS_051113'', ''C-Media Audio Controller''],
  Init [Const 0x13F6, Const 0x8788] [''CMI8788/PCI-8CH'', ''C-Media Oxygen HD''],
  Init [Const 0x13F6, Const 0x9876] [''CMI8738'', ''C-Media Audio Controller''],
  Init [Const 0x13F6, Const 0x9891] [''CMI8738'', ''C-Media Audio Controller''],
  Init [Const 0x1448, Const 0x0001] [''ADAT/EDIT'', ''Audio Editing''],
  Init [Const 0x134A, Const 0x0001] [''F01 2ASV17184.1'', ''Domex DMX 3191D PCI SCSI Controller''],
  Init [Const 0x134A, Const 0x0002] [[], ''Domex DMX3192U/3194UP SCSI Adapter''],
  Init [Const 0x134A, Const 0x3510A] [''DTC50C18'', ''scsi''],
  Init [Const 0x144A, Const 0x348A] [''LPCI-3488A'', ''Low-profile High-Performance IEEE488 GPIB Interface Card for PCI Bus''],
  Init [Const 0x144A, Const 0x7230] [[], []],
  Init [Const 0x144A, Const 0x7248] [''PCI-9052'', ''PLX PCI9052''],
  Init [Const 0x144A, Const 0x7250] [''PCI-7250'', ''PLX PCI9052''],
  Init [Const 0x144A, Const 0x7256] [''PCI-7256'', ''PCI-7256 16-CH Latching Relay & 16-CH Isolated Digital Input Card''],
  Init [Const 0x144A, Const 0x7296] [''PCI-7296 (PLX PCI-9052)'', ''96-ch digital I/O card''],
  Init [Const 0x144A, Const 0x7432] [''PCI-7432'', []],
  Init [Const 0x144A, Const 0x7433] [''PCI-7433'', ''64-ch digital Input card''],
  Init [Const 0x144A, Const 0x7434] [''PCI-7434'', []],
  Init [Const 0x144A, Const 0x7841] [''PCI-7841'', ''SJA 1000- baseddual port  CAN bus card''],
  Init [Const 0x144A, Const 0x8133] [''PCI-8133'', ''Dell Wireless 5720 VZW Mobile Broadband Card''],
  Init [Const 0x144A, Const 0x8554] [''PCI-8554'', []],
  Init [Const 0x144A, Const 0x9111] [''PCI-9111'', []],
  Init [Const 0x144A, Const 0x9113] [''PCI-9113'', []],
  Init [Const 0x144A, Const 0x9114] [''PCI-9114'', []],
  Init [Const 0x1B13, Const 0x0001] [''GeForce4 MX 440'', ''nVidia Corporation NV17''],
  Init [Const 0x145F, Const 0x0001] [''NextMove PCI'', ''Multi-axis Motion Controller''],
  Init [Const 0x145F, Const 0x0002] [''NextMove PCI-2'', ''Multi-axis Motion Controller''],
  Init [Const 0x148D, Const 0x1003] [''Rockwell HCF chipset'', ''Creative ModemBlaster V.90 PCI DI5655''],
  Init [Const 0x14B3, Const 0x0000] [''9ff-usa-a99-99-0970'', ''DSL NIC''],
  Init [Const 0x14B7, Const 0x0001] [''Symphony 4110'', ''pci9052''],
  Init [Const 0x14B9, Const 0x0001] [''PC4800'', ''werwerwerwe''],
  Init [Const 0x14B9, Const 0x0340] [[], ''Cisco Systems 340 PCI Wireless LAN Adptr''],
  Init [Const 0x14B9, Const 0x2500] [''PC2500 DS'', ''Wireless PCI LAN Adapter''],
  Init [Const 0x14B9, Const 0x3100] [''PC3100 FH'', ''Wireless PCI LAN Adapter''],
  Init [Const 0x14B9, Const 0x3101] [''PC3100 FH'', ''Wireless PCI LAN Adapter''],
  Init [Const 0x14B9, Const 0x3500] [''PC3500 FH'', ''Wireless PCI LAN Adapter''],
  Init [Const 0x14B9, Const 0x4500] [''PC4500 DS'', ''Wireless PCI LAN Adapter''],
  Init [Const 0x14B9, Const 0x4800] [''PC4800 DS'', ''Wireless PCI LAN Adapter''],
  Init [Const 0x14B9, Const 0xA504] [''A504 Cisco MAC'', ''Cisco Aironet 350 Series Mini-PCI (MPI350)''],
  Init [Const 0x14B9, Const 0xA506] [''AIR-MP21G'', ''802.11b/g wireless adapter''],
  Init [Const 0x14DB, Const 0x2100] [''PCI IO 1S'', ''download drivers''],
  Init [Const 0x14DB, Const 0x2101] [''PCI IO 1S-650'', []],
  Init [Const 0x14DB, Const 0x2102] [''PCI IO 1S-850'', []],
  Init [Const 0x14DB, Const 0x2110] [''PCI IO 1S1P'', ''OX16PCI952''],
  Init [Const 0x14DB, Const 0x2111] [''PCI IO 1S1P-650'', []],
  Init [Const 0x14DB, Const 0x2112] [''PCI IO 1S1P-850'', []],
  Init [Const 0x14DB, Const 0x2120] [''TK9902'', ''0701 Parallel Port device''],
  Init [Const 0x14DB, Const 0x2121] [''PCI IO 2P'', ''Avlab Technology PCI IO 2P''],
  Init [Const 0x14DB, Const 0x2130] [''PCI IO 2S'', ''2 Port PCI Serial Card''],
  Init [Const 0x14DB, Const 0x2131] [''PCI IO 2S-650'', ''pci serial port''],
  Init [Const 0x14DB, Const 0x2132] [''PCI IO 2S-850'', []],
  Init [Const 0x14DB, Const 0x2140] [''PCI IO 2P1S'', []],
  Init [Const 0x14DB, Const 0x2141] [''PCI IO 2P1S-650'', []],
  Init [Const 0x14DB, Const 0x2142] [''PCI IO 2P1S-850'', []],
  Init [Const 0x14DB, Const 0x2144] [''PCI IO 2P2S'', []],
  Init [Const 0x14DB, Const 0x2145] [''PCI IO 2P2S-650'', []],
  Init [Const 0x14DB, Const 0x2146] [''PCI IO 2P2S-850'', []],
  Init [Const 0x14DB, Const 0x2150] [''PCI IO 4S'', []],
  Init [Const 0x14DB, Const 0x2151] [''PCI IO 4S-654'', []],
  Init [Const 0x14DB, Const 0x2152] [''PCI IO 4S-850'', []],
  Init [Const 0x14DB, Const 0x2160] [''PCI IO 2S1P'', []],
  Init [Const 0x14DB, Const 0x2161] [''PCI IO 2S1P-650'', []],
  Init [Const 0x14DB, Const 0x2162] [''PCI IO 2S1P-850'', []],
  Init [Const 0x14DB, Const 0x2180] [''PCI IO 8S'', ''VEN_14DB&DEV_2180&SUBSYS_218014DB&REV_00''],
  Init [Const 0x14DB, Const 0x2181] [''PCI IO 8S-654'', ''Avlab Technology Inc''],
  Init [Const 0x14DB, Const 0x2182] [''PCI IO 8S-850'', ''Avlab Technology Inc''],
  Init [Const 0x14DC, Const 0x0000] [''PCI 230'', []],
  Init [Const 0x14DC, Const 0x0001] [''PCI242H'', ''4-port high speed RS-232''],
  Init [Const 0x14DC, Const 0x0002] [''PCI244H'', ''8-port high speed RS-232''],
  Init [Const 0x14DC, Const 0x0003] [''PCI247H'', ''2-port high speed RS-232''],
  Init [Const 0x14DC, Const 0x0004] [''PCI248H'', ''2-port high speed RS-422/485''],
  Init [Const 0x14DC, Const 0x0005] [''PCI249H'', ''2-port high speed RS-232 and RS-422/485''],
  Init [Const 0x14DC, Const 0x0006] [''PCI260'', ''16-channel analog input (with timers)''],
  Init [Const 0x14DC, Const 0x0007] [''PCI224'', ''16-chan 12-bit analog output (w/ timers)''],
  Init [Const 0x14DC, Const 0x0008] [''PCI234'', ''4-chan 16-bit analog output (w/ timers)''],
  Init [Const 0x14DC, Const 0x0009] [''PCI236'', ''24-channel digital I/O''],
  Init [Const 0x14DC, Const 0x000A] [''PCI272'', ''72-channel digital I/O''],
  Init [Const 0x14DC, Const 0x000B] [''PCI215'', ''48-channel digital I/O (w/ 6 timers)''],
  Init [Const 0x14DC, Const 0x000C] [''PCI263'', ''16-channel reed relay output''],
  Init [Const 0x1507, Const 0x0001] [''MPC105 Eagle'', []],
  Init [Const 0x1507, Const 0x0002] [''MPC106 Grackle'', []],
  Init [Const 0x1507, Const 0x0003] [''MPC8240 Kahlua'', []],
  Init [Const 0x1507, Const 0x0100] [''MPC145575 HFC-PCI'', []],
  Init [Const 0x1507, Const 0x0431] [''KTI829c 100VG'', []],
  Init [Const 0x1507, Const 0x4801] [''Raven'', []],
  Init [Const 0x1507, Const 0x4802] [''Falcon'', []],
  Init [Const 0x1507, Const 0x4803] [''Hawk'', []],
  Init [Const 0x1507, Const 0x4806] [''CPX8216'', []],
  Init [Const 0x151A, Const 0x1002] [''PCI-1002&DEV_4341&subsys_82441033&rev_01'' @ [CHR 0x5C], ''4341''],
  Init [Const 0x151A, Const 0x1004] [''PCI-1004'', []],
  Init [Const 0x151A, Const 0x1008] [''PCI-1008'', []],
  Init [Const 0x157C, Const 0x8001] [''Fix2000'', ''PCI Y2K Compliance Card''],
  Init [Const 0x2001, Const 0x3C19] [''Ralink RT5370'', ''USB <=> Wireless N 150 Adapter''],
  Init [Const 0x2001, Const 0xF103] [''.'', ''.''],
  Init [Const 0x1592, Const 0x0781] [''W83787IF'', ''Multi-IO Card''],
  Init [Const 0x1592, Const 0x0782] [''W837871F'', ''Parallel Port Card (EPP)''],
  Init [Const 0x1592, Const 0x0783] [''TC32001 PCI I/O'', ''Multi-IO Card''],
  Init [Const 0x1592, Const 0x0785] [''907ab184740802'', ''Multi-IO Card''],
  Init [Const 0x1592, Const 0x0786] [''Winbond w83787if'', ''Multi-IO Card''],
  Init [Const 0x1592, Const 0x0787] [''winbond w83787if'', ''Multi-IO Card 2 series''],
  Init [Const 0x1592, Const 0x0788] [''w837871f'', ''Multi-IO Card''],
  Init [Const 0x1592, Const 0x078A] [''007AB192367002ND'', ''Multi-IO Card''],
  Init [Const 0x15AD, Const 0x0405] [''9500MGS'', ''VMWare Player 3.1.6 Software Driver''],
  Init [Const 0x15AD, Const 0x0710] [''0740'', ''Virtual SVGA''],
  Init [Const 0x15AD, Const 0x0720] [''VMXNET'', ''VMware PCI Ethernet Adapter''],
  Init [Const 0x15AD, Const 0x0740] [''0X0880'', ''VMWare VMCI Bus Device''],
  Init [Const 0x15AD, Const 0x0770] [''n/a'', ''Standard Enhanced PCI to USB Host Controller''],
  Init [Const 0x15AD, Const 0x0778] [''0778'', ''Sabrent USB-to-Parallel Adapter''],
  Init [Const 0x15AD, Const 0x07B0] [''VMXNET 3'', ''VMware vSphere 4 PCI Ethernet Adapter''],
  Init [Const 0x15AD, Const 0x0801] [''n/a'', ''PCI Memory Controller''],
  Init [Const 0x15AD, Const 0x1975] [''N/A'', ''High Definition Audio Codec''],
  Init [Const 0x15AD, Const 0x1977] [''N/A'', ''High Definition Audio Controller''],
  Init [Const 0x15DC, Const 0x0001] [''Argus 300'', ''PCI Cryptography Module''],
  Init [Const 0x3388, Const 0x0020] [''HB2/HB6'', ''Universal PCI-PCI Bridge (transparent mode)''],
  Init [Const 0x3388, Const 0x0021] [''HB1 pci-pci 0304'', ''ZS095A0''],
  Init [Const 0x3388, Const 0x0022] [''HB1  0304'', ''PCI-PCI Bridge''],
  Init [Const 0x3388, Const 0x0026] [''PCI6154BB'', ''Universal PCI-PCI Bridge (transparent mode)''],
  Init [Const 0x3388, Const 0x0028] [''HB8'', ''Dual Mode PCI-X-to-PCI-X Bridge (transparent mode)''],
  Init [Const 0x3388, Const 0x0029] [''HB8'', ''Dual Mode PCI-X-to-PCI-X Bridge (non-transparent mode)''],
  Init [Const 0x3388, Const 0x0030] [''HB7'', ''Transparent PCI-X-to-PCI-X Bridge''],
  Init [Const 0x3388, Const 0x0031] [''PCI 6156'', ''Synchronous 32-Bit, 33 MHz PCI-to-PCI Bridge for Video Capture Applications''],
  Init [Const 0x3388, Const 0x8011] [''II'', ''CPU to PCI Bridge''],
  Init [Const 0x3388, Const 0x8012] [''cmi 8330'', ''PCI to ISA Bridge''],
  Init [Const 0x3388, Const 0x8013] [''PLX Registration Record Management'', ''EIDE Controller''],
  Init [Const 0x4D51, Const 0x0200] [''MQ-200'', []],
  Init [Const 0x5053, Const 0x2010] [''14441'', ''Daytona Audio Adapter'']]"

lemma PciDevTable_31_facts:
  "length PciDevTable_31 = 150" "rejected PciDevTable_31 = 0" "oversized PciDevTable_31 = 1"
  "vendors PciDevTable_31 \<subseteq> Const ` set vendor_numbers"
  unfolding PciDevTable_31_def count_rows by (simp_all add: part_simps listed vendor_known_list cong: part_cong count_rows_cong)

definition PciDevTable_32 :: "initializer list" where
 "PciDevTable_32 = [
  Init [Const 0x2646, Const 0x0001] [''12333'', ''22323''],
  Init [Const 0x2646, Const 0x2646] [''6.06000'', ''22323''],
  Init [Const 0x5555, Const 0x0003] [''VPI General Digital Video Component'', ''Digital Video OEM computer module''],
  Init [Const 0x6666, Const 0x0001] [''815'', ''PCCOM4''],
  Init [Const 0x6666, Const 0x0002] [[], ''PCCOM8''],
  Init [Const 0x0033, Const 0x002F] [''.43'', ''ieee 1394 controller''],
  Init [Const 0x0033, Const 0x00333] [''1ACPI'' @ [CHR 0x5C] @ ''GenuineIntel_-_x86_Family_6_Model_23'' @ [CHR 0x5C] @ ''_0'', ''1ACPI'' @ [CHR 0x5C] @ ''GenuineIntel_-_x86_Family_6_Model_23'' @ [CHR 0x5C] @ ''_0''],
  Init [Const 0x12FC, Const 0x5CEC] [''PCI-488 GPIB'', ''IEEE 488''],
  Init [Const 0x1304, Const 0x0004] [''PTX SAm FPGA'', ''PTX SAM FPGA''],
  Init [Const 0x130B, Const 0x130B] [''0x9876'', ''0x9876''],
  Init [Const 0x1310, Const 0x0003] [''9060'', ''CompactPCI Interface''],
  Init [Const 0x1310, Const 0x000D] [[], ''FPGA PCI Bridge''],
  Init [Const 0x1317, Const 0x0531] [''nm0403A03461H121S122P'', ''ADMtek AN986''],
  Init [Const 0x1317, Const 0x0981] [''AN981'', ''FastNIC 10/100 Fast Ethernet Adapter''],
  Init [Const 0x1317, Const 0x0985] [''an983B'', ''Linksys LNE 100TX Fast Ethernet Adapter(LNE100TX v4)''],
  Init [Const 0x1317, Const 0x1985] [''AN985'', ''CardBus 10/100 Fast Ethernet&#1050;&#1086;&#1085;&#1090;&#1088;&#1086;&#1083;&#1083;&#1077;&#1088;''],
  Init [Const 0x1317, Const 0x2850] [''016'', ''HSP56 MicroModem''],
  Init [Const 0x1317, Const 0x5120] [''ADM5120'', ''ADMtek ADM5120 SOC (rev: 0)''],
  Init [Const 0x1317, Const 0x7892] [''PCT 789T-A'', ''HSP56 MicroModem''],
  Init [Const 0x1317, Const 0x8201] [''ADM8211'', ''802.11b Wireless PCI Card''],
  Init [Const 0x1317, Const 0x9511] [''ADM9511'', ''PCI 10/100 Fast Ethernet Adapter''],
  Init [Const 0x1317, Const 0x9513] [''ADM9513'', ''PCI 10/100 Fast Ethernet Adapter''],
  Init [Const 0x1317, Const 8201] [''13d1'', ''1317''],
  Init [Const 0x133D, Const 0x1000] [''SST-5136-PFB-PCI'', ''Industrial I/O Card''],
  Init [Const 0x1344, Const 0x3240] [[], ''CopperHead CopperTail SC1 AMC AC97''],
  Init [Const 0x1344, Const 0x3320] [''MT8LLN21PADF'', ''North Bridge''],
  Init [Const 0x1344, Const 0x3321] [''21PAD'', ''North Bridge''],
  Init [Const 0x1344, Const 0x3470] [''MT7LLN22NCNE'', ''South Bridge''],
  Init [Const 0x1344, Const 0x4020] [[], ''CopperHead CopperTail SC1 IDE Controller''],
  Init [Const 0x1344, Const 0x4030] [[], ''CopperHead CopperTail SC1 USB Controller''],
  Init [Const 0x135A, Const 0x0042] [''16550'', ''4-port RS-232''],
  Init [Const 0x135A, Const 0x0181] [''16550'', ''PCI LPT and RS-232''],
  Init [Const 0x135A, Const 0x0224] [''PLX9050'', ''PLX PCI Bus Logic''],
  Init [Const 0x135A, Const 0x0228] [''f97260118'', ''pq100akj9737''],
  Init [Const 0x1375, Const 0x2571] [''NA'', ''NA''],
  Init [Const 0x416C, Const 0x0100] [''AlladinCARD'', ''Puerto paralelo PCI''],
  Init [Const 0x416C, Const 0x0200] [''CPC'', []],
  Init [Const 0x137A, Const 0x0001] [[], []],
  Init [Const 0x137A, Const 0x0003] [''PCI-424 Original'', ''PCI-424 Original''],
  Init [Const 0x137A, Const 0x0004] [''PCI-424 X'', ''PCI-424 X''],
  Init [Const 0x137A, Const 0x0005] [''PCIe-424'', ''PCIe-424''],
  Init [Const 0x1387, Const 0x4640] [''-none-'', ''sl240''],
  Init [Const 0x1387, Const 0x5310] [''N/A'', ''SCRAMNet GT200''],
  Init [Const 0x1393, Const 0x1010] [[], []],
  Init [Const 0x1393, Const 0x1020] [[], []],
  Init [Const 0x1393, Const 0x1022] [''unknown'', ''unknown''],
  Init [Const 0x1393, Const 0x1040] [''C104H/PCI'', ''Smartio''],
  Init [Const 0x1393, Const 0x1041] [''CP104U series'', []],
  Init [Const 0x1393, Const 0x1042] [[], []],
  Init [Const 0x1393, Const 0x1140] [[], []],
  Init [Const 0x1393, Const 0x1141] [[], []],
  Init [Const 0x1393, Const 0x1320] [''CP-132'', ''Industio''],
  Init [Const 0x1393, Const 0x1321] [[], []],
  Init [Const 0x1393, Const 0x1340] [''CP--134U-I-DB9 V2.3 UPCI Board'', ''UniversalPCI board, 4 ports RS-422/485 with Isolation DB9M''],
  Init [Const 0x1393, Const 0x1401] [[], []],
  Init [Const 0x1393, Const 0x1680] [''C168H/PCI'', ''Smartio''],
  Init [Const 0x1393, Const 0x1681] [''CP-168U'', ''CP-168U Smart Serial Board''],
  Init [Const 0x1393, Const 0x2040] [''CP-204J'', ''Intellio''],
  Init [Const 0x1393, Const 0x2180] [''C218'', ''Intellio Turbo PCI''],
  Init [Const 0x1393, Const 0x2210] [''---'', ''---''],
  Init [Const 0x1393, Const 0x2240] [''---'', ''---''],
  Init [Const 0x1393, Const 0x3200] [''C320'', ''Intellio Turbo PCI''],
  Init [Const 0x1393, Const 0x5020] [''e400'', []],
  Init [Const 0x1393, Const 0x6800] [''0x0000'', ''dvr capture card''],
  Init [Const 0x139A, Const 0x0007] [''SES2000'', ''Alacritech iSCSI Controller''],
  Init [Const 0x13A7, Const 0x6240] [''Network Controller'', ''BSRV2-301A''],
  Init [Const 0x13A8, Const 0x0152] [''XR17C152'', ''Dual UART''],
  Init [Const 0x13A8, Const 0x0154] [''XR17C154'', ''Four Channel PCI Bus UART''],
  Init [Const 0x13A8, Const 0x0158] [''XR17C158'', ''Eight Channel PCI Bus UART (5V)''],
  Init [Const 0x4C53, Const 0x0000] [''PLUSTEST'', ''Diagnostics Device''],
  Init [Const 0x4C53, Const 0x0001] [''pustest'', ''Diagnostics Device''],
  Init [Const 0x13B6, Const 0x13B6] [''S/N 26296347'', ''sguiu''],
  Init [Const 0x13C7, Const 0x0ADC] [[], ''Multi-Function Analogue/Digital IO card''],
  Init [Const 0x13C7, Const 0x0B10] [''.'', ''Parallel I/O Card''],
  Init [Const 0x13C7, Const 0x0D10] [''.'', ''Digital I/O Card''],
  Init [Const 0x13C7, Const 0x5744] [''.'', ''Watchdog Card''],
  Init [Const 0x13D0, Const 0x2103] [''T228502'', ''B2C2 Sky2PC Core Chip sky star 2 <technisat>''],
  Init [Const 0x13D0, Const 0x2200] [[], []],
  Init [Const 0x13D1, Const 0xAB02] [[], ''PCMCIA 10/100 mbps Ethernet Adapter''],
  Init [Const 0x13D1, Const 0xAB03] [[], []],
  Init [Const 0x13D1, Const 0xAB06] [''FE2000VX'', ''CardBus /Atelco Fibreline Ethernet Adptr''],
  Init [Const 0x13D1, Const 0xAB08] [''SMC8035TX'', ''EZ Card'' @ [CHR 0x99] @ '' 10/100 Fast Ethernet CardBus Adapter''],
  Init [Const 0x13D7, Const 0x0205] [''6205'', ''toshiba''],
  Init [Const 0x13D7, Const 0x8086] [''6205'', ''toshiba''],
  Init [Const 0x13D8, Const 0x1000] [''XQ11800FP'', ''XaQti 1000Mbit/sec Gbit Ethernet Controller''],
  Init [Const 0x106B, Const 0x0001] [''Bandit'', ''PowerPC Host-PCI Bridge''],
  Init [Const 0x106B, Const 0x0002] [''Grand Central'', ''I/O Controller''],
  Init [Const 0x106B, Const 0x0003] [''Control Video'', []],
  Init [Const 0x106B, Const 0x0004] [''PlanB'', ''Video-in''],
  Init [Const 0x106B, Const 0x0007] [''OHare'', ''I/O Controller''],
  Init [Const 0x106B, Const 0x0009] [''BCM5703X'', ''BCM5703X''],
  Init [Const 0x106B, Const 0x000C] [[], []],
  Init [Const 0x106B, Const 0x000E] [''Hydra'', ''Mac I/O Controller''],
  Init [Const 0x106B, Const 0x0010] [''Heathrow'', ''Mac I/O Controller''],
  Init [Const 0x106B, Const 0x0017] [''Paddington'', ''Mac I/O Controller''],
  Init [Const 0x106B, Const 0x0018] [''UniNorth'', ''FireWire Controller''],
  Init [Const 0x106B, Const 0x001F] [''UniNorth'', ''Host-PCI bridge''],
  Init [Const 0x106B, Const 0x0020] [''UniNorth'', ''AGP interface''],
  Init [Const 0x106B, Const 0x0026] [''Pangea'', ''USB Interface''],
  Init [Const 0x106B, Const 0x0027] [''Pangea'', ''AGP interface''],
  Init [Const 0x106B, Const 0x002D] [''UniNorth 1.5'', ''AGP Bridge''],
  Init [Const 0x106B, Const 0x002E] [''UniNorth 1.5'', ''PCI Bridge''],
  Init [Const 0x106B, Const 0x002F] [''UniNorth 1.5'', ''Internal PCI''],
  Init [Const 0x106B, Const 0x0030] [''UniNorth/Pangea'', ''FireWire Controller''],
  Init [Const 0x106B, Const 0x003B] [''Intrepid'', ''Integrated ATA Controller''],
  Init [Const 0x106B, Const 0x004F] [''Shasta'', ''Mac I/O controler''],
  Init [Const 0x106B, Const 0x0050] [''Shasta'', ''IDE controler''],
  Init [Const 0x106B, Const 0x0051] [''Shasta'', ''Sungem ethernet controler''],
  Init [Const 0x106B, Const 0x0052] [''Shasta'', ''Firewire controler''],
  Init [Const 0x106B, Const 0x0053] [''Shasta'', ''PCI Bridge''],
  Init [Const 0x106B, Const 0x0054] [''Shasta'', ''PCI Bridge''],
  Init [Const 0x106B, Const 0x0055] [''Shasta'', ''PCI Bridge''],
  Init [Const 0x106B, Const 0x0058] [''U3L'', ''AGP Bridge''],
  Init [Const 0x106B, Const 0x008A] [''Apple RAID Controller'', ''Mac Pro RAID Card''],
  Init [Const 0x106B, Const 0x008C] [''BCM4321 802.11a/b/g/n'', ''AirPort Extreme''],
  Init [Const 0x106C, Const 0x8801] [[], ''Dual Pentium ISA/PCI Motherboard''],
  Init [Const 0x106C, Const 0x8802] [''P54C Tr8'', ''PowerPC ISA/PCI Motherboard''],
  Init [Const 0x106C, Const 0x8803] [[], ''Dual Window Graphics Accelerator''],
  Init [Const 0x106C, Const 0x8804] [''ht019a'', ''PCI LAN Controller''],
  Init [Const 0x106C, Const 0x8805] [''00b'', ''100-BaseT LAN Controller''],
  Init [Const 0x106E, Const 0x4362] [''88E8053'', ''Yukon PCI-E Gigabit Ethernet Controller (copper)''],
  Init [Const 0x1657, Const 0x0646] [''BRE040'', ''Brocade 400 series PCIe HBA''],
  Init [Const 0x5136, Const 0x4678] [''12363383'', ''S S Technologies''],
  Init [Const 0x1073, Const 0x0001] [[], ''3D graphics Cntrlr''],
  Init [Const 0x1073, Const 0x0002] [''YGV615'', ''RPA3 3D-Graphics Controller''],
  Init [Const 0x1073, Const 0x0003] [''00011179'', []],
  Init [Const 0x1073, Const 0x0004] [''YMF754B DS-1S Audio'', ''PCI Audio Controller''],
  Init [Const 0x1073, Const 0x0005] [''DS1'', ''DS1 Audio''],
  Init [Const 0x1073, Const 0x0006] [''DS1'', ''DS1 Audio''],
  Init [Const 0x1073, Const 0x0008] [''DS1'', ''DS1 Audio''],
  Init [Const 0x1073, Const 0x000A] [''YMF740'', ''DS-1L PCI Audio Controller''],
  Init [Const 0x1073, Const 0x000C] [''YMF740C'', ''DS-1L PCI audio controller''],
  Init [Const 0x1073, Const 0x000D] [''YMF724F'', ''YamahaDS1 native audio ''],
  Init [Const 0x1073, Const 0x0010] [''YMF744B-V'', ''DS-1 PCI audio controller''],
  Init [Const 0x1073, Const 0x0012] [''YMF754B'', ''DS-1E PCI Audio Controller''],
  Init [Const 0x1073, Const 0x0020] [''744'', ''DS-1 Audio''],
  Init [Const 0x1073, Const 0x1000] [''SW1000XG'', ''Sound system''],
  Init [Const 0x1073, Const 0x2000] [''DS2416'', ''Digital Mixing Card''],
  Init [Const 0x1073, Const 0x9876] [''ymf724b-v9941'', ''yamaha''],
  Init [Const 0x1074, Const 0x4E78] [''82C500/1'', ''Nx586 Chipset''],
  Init [Const 0x1077, Const 0x1016] [''ISP10160'', ''Single Channel Ultra3 SCSI Processor''],
  Init [Const 0x1077, Const 0x1020] [''ISP093a/2460'', ''Fast-wide SCSI - Sparc PCI''],
  Init [Const 0x1077, Const 0x1022] [''ISP1022A'', ''Fast-wide SCSI''],
  Init [Const 0x1077, Const 0x1080] [''ISP1080'', ''SCSI Host Adapter''],
  Init [Const 0x1077, Const 0x1216] [''ISP12160'', ''Dual Channel Ultra3 SCSI Processor''],
  Init [Const 0x1077, Const 0x1240] [''ISP1240'', ''SCSI Host Adapter''],
  Init [Const 0x1077, Const 0x1280] [''ISP1280'', ''SCSI Host Adapter''],
  Init [Const 0x1077, Const 0x2020] [''ISP2020A'', ''Fast!SCSI Basic Adapter''],
  Init [Const 0x1077, Const 0x2100] [''ISP2100'', ''64-bit Fibre Channel Adapter''],
  Init [Const 0x1077, Const 0x2200] [''ISP2200'', ''PCI Fibre Channel Adapter'']]"

lemma PciDevTable_32_facts:
  "length PciDevTable_32 = 150" "rejected PciDevTable_32 = 0" "oversized PciDevTable_32 = 0"
  "vendors PciDevTable_32 \<subseteq> Const ` set vendor_numbers"
  unfolding PciDevTable_32_def count_rows by (simp_all add: part_simps listed vendor_known_list cong: part_cong count_rows_cong)

definition PciDevTable_33 :: "initializer list" where
 "PciDevTable_33 = [
  Init [Const 0x1077, Const 0x2300] [''ISP 2300'', ''64-bit PCI FC-AL Adapter''],
  Init [Const 0x1077, Const 0x2312] [''ISP 2312'', ''Fibre Channel Adapter''],
  Init [Const 0x1077, Const 0x2422] [''ISP2422'', ''QLogic PCI to Fibre Channel Host Adapter for QLA2460''],
  Init [Const 0x1077, Const 0x2432] [''ISP2432'', ''4Gb PCI Single/Dual Fibre Channel HBA''],
  Init [Const 0x1077, Const 0x2532] [''ISP2532'', ''8Gb PCIe x8 Single/Dual Fibre Channel HBA''],
  Init [Const 0x1077, Const 0x3010] [''n/a'', ''n/a''],
  Init [Const 0x1077, Const 0x3032] [''ISP4032'', ''QLOGIC Dual Port 1GBPS PCI-E HBA''],
  Init [Const 0x1077, Const 0x4000] [[], []],
  Init [Const 0x1077, Const 0x4010] [[], []],
  Init [Const 0x1077, Const 0x6312] [''SP202'', ''Qlogic FC-HBA QLA200''],
  Init [Const 0x1077, Const 0x6422] [''EP2422'', ''4-Gbps Fibre Channel to PCI-X 2.0 266MHz controller for Embedded Applications''],
  Init [Const 0x1077, Const 0x6432] [''EP2432'', ''4-Gbps Fibre Channel to PCIe controller for Embedded Applications''],
  Init [Const 0x1077, Const 0x8000] [''8142'', ''QLE8142 QLogic PCI Express to 10 GbE Dual Channel CNA''],
  Init [Const 0x1077, Const 0x8001] [''8142'', ''QLE8142 QLogic PCI Express to 10 GbE Dual Channel CNA (FCoE)''],
  Init [Const 0x1077, Const 0x8020] [''8242'', ''QLogic Dual Port 10 Gigabit Ethernet CNA''],
  Init [Const 0x1077, Const 0x8021] [''8242'', ''QLogic [FCoE] Adapter''],
  Init [Const 0x1077, Const 0x8022] [''ISP8242'', ''QLE8142 QLogic PCI Express to 10 GbE Dual Channel CNA (iSCSI)''],
  Init [Const 0x1078, Const 0x0000] [''Cx5520'', ''ISA Bridge''],
  Init [Const 0x1078, Const 0x0001] [''MediaGXm'', ''Cyrix Integrated CPU''],
  Init [Const 0x1078, Const 0x0002] [''Cx5520'', ''ISA Bridge''],
  Init [Const 0x1078, Const 0x0100] [''Cx5530'', ''ISA bridge''],
  Init [Const 0x1078, Const 0x0101] [''Cx5530'', ''SMI status and ACPI timer''],
  Init [Const 0x1078, Const 0x0102] [''Cx5530'', ''IDE Controller''],
  Init [Const 0x1078, Const 0x0103] [''Cx5530'', ''XpressAUDIO''],
  Init [Const 0x1078, Const 0x0104] [''Cx5530'', ''Video Controller''],
  Init [Const 0x1078, Const 0x0400] [''ZFMicro'', ''CPU to PCI Bridge''],
  Init [Const 0x1078, Const 0x0401] [''ZFMicro'', ''Power Management Controller''],
  Init [Const 0x1078, Const 0x0402] [''ZFMicro'', ''IDE Controller''],
  Init [Const 0x1078, Const 0x0403] [''ZFMicro'', ''Expansion Bus''],
  Init [Const 0x1079, Malformed ''0d01''] [[], []],
  Init [Const 0x1079, Const 0x10DECB79] [''zdvzdv'', ''zdzvz''],
  Init [Const 0x544C, Const 0x0350] [''00212673158479'', ''IAM''],
  Init [Const 0x107D, Const 0x0000] [''P86C850'', ''Graphic GLU-Logic''],
  Init [Const 0x107E, Const 0x0001] [''FLIPPER'', ''FRED Local Bus I/F to PCI Peripheral''],
  Init [Const 0x107E, Const 0x0002] [[], ''100 vg anylan Cntrlr''],
  Init [Const 0x107E, Const 0x0004] [''5526'', ''Fibre Channel Host Adapter''],
  Init [Const 0x107E, Const 0x0005] [''x526'', ''Fibre Channel Host Adapter''],
  Init [Const 0x107E, Const 0x0008] [''4575/5525/5575/6575'', ''(i)chipSAR+ 155 MBit ATM controller''],
  Init [Const 0x107E, Const 0x9003] [''5535-4P-BRI-ST'', []],
  Init [Const 0x107E, Const 0x9007] [''5535-4P-BRI-U'', []],
  Init [Const 0x107E, Const 0x9008] [''5535-1P-SR'', []],
  Init [Const 0x107E, Const 0x900C] [''5535-1P-SR-ST'', []],
  Init [Const 0x107E, Const 0x900E] [''5535-1P-SR-U'', []],
  Init [Const 0x107E, Const 0x9011] [''5535-1P-PRI'', []],
  Init [Const 0x107E, Const 0x9013] [''5535-2P-PRI'', []],
  Init [Const 0x107E, Const 0x9023] [''5535-4P-BRI-ST'', []],
  Init [Const 0x107E, Const 0x9027] [''5536-4P-BRI-U'', []],
  Init [Const 0x107E, Const 0x9031] [''5535-1P-PRI'', []],
  Init [Const 0x107E, Const 0x9033] [''5536-2P-PRI'', ''Adapter''],
  Init [Const 0x107E, Const 0x9060] [''6535'', ''CompactPCI T1/E1/J1Communications Ctrlr''],
  Init [Const 0x107E, Const 0x9070] [''4538'', ''PMC T1/E1/J1 Communications Controller''],
  Init [Const 0x107E, Const 0x9080] [''4532-002/005'', ''PMC ATM Over OC-3/STM-1 Comm Controller''],
  Init [Const 0x107E, Const 0x9081] [''4532-001/004'', ''PMC ATM Over OC-3/STM-1 Comm Controller''],
  Init [Const 0x107E, Const 0x9082] [''4532-000/003'', ''PMC ATM Over OC-3/STM-1 Comm Controller''],
  Init [Const 0x107E, Const 0x9090] [''107'', ''PMC ATM Over T3/E3 Communications Ctrlr''],
  Init [Const 0x107E, Const 0x90A0] [''4539'', ''PMC Quad T1/E1/J1 Communications Ctrlr''],
  Init [Const 0x107F, Const 0x0802] [''mb87j3560'', ''pinacale capture card''],
  Init [Const 0x107F, Const 0x0803] [[], ''EIDE Bus Master Controller''],
  Init [Const 0x107F, Const 0x0806] [[], ''EIDE Controller''],
  Init [Const 0x107F, Const 0x2015] [[], ''EIDE Controller''],
  Init [Const 0x1080, Const 0x0600] [''82C596/9'', ''CPU to PCI & PCI to ISA Bridge''],
  Init [Const 0x1080, Const 0xC691] [''Cypress CY7c68001'', ''AN2131QC 0230''],
  Init [Const 0x1080, Const 0xC693] [''82C693'', ''PCI to ISA Bridge''],
  Init [Const 0x1081, Const 0x0D47] [''2330'', ''Radius PCI to NuBUS Bridge''],
  Init [Const 0x1083, Const 0x0001] [''FR710'', ''PCI Enhanced IDE Adapter''],
  Init [Const 0x1083, Const 0x0613] [[], ''PCI''],
  Init [Const 0x1085, Const 0x0001] [''UsbDgn'', ''Datalaster Interface for OBD automotive''],
  Init [Const 0x1087, Const 0x9200] [[], []],
  Init [Const 0x1089, Const 0x5555] [''3059'', ''3249''],
  Init [Const 0x108A, Const 0x0001] [''Model 617'', ''PCI-VME Bus Adapter''],
  Init [Const 0x108A, Const 0x0003] [''Model 616'', ''PCI to VME Bridge''],
  Init [Const 0x108A, Const 0x0010] [''Model 618'', ''VME Bridge''],
  Init [Const 0x108A, Const 0x0040] [''dataBLIZZARD'', []],
  Init [Const 0x108A, Const 0x3000] [''Model 2106'', ''VME Bridge''],
  Init [Const 0x108D, Const 0x0001] [''OC-3136/37'', ''Token-Ring 16/4 PCI Adapter''],
  Init [Const 0x108D, Const 0x0002] [''OC-3139f'', ''Fastload 16/4 PCI/III Token Ring Adapter''],
  Init [Const 0x108D, Const 0x0004] [''OC-3139/40'', ''RapidFire Token Ring 16/4 Adapter''],
  Init [Const 0x108D, Const 0x0005] [''OC-3250'', ''GoCard Token Ring 16/4 Adapter''],
  Init [Const 0x108D, Const 0x0006] [''OC-3530'', ''RapidFire Token Ring 100 Adapter''],
  Init [Const 0x108D, Const 0x0007] [''OC-3141'', ''RapidFire Token Ring 16/4 Adapter''],
  Init [Const 0x108D, Const 0x0008] [''OC-3540'', ''RapidFire HSTR 100/16/4 Adapter''],
  Init [Const 0x108D, Const 0x000A] [''OC-3150'', ''RapidFire Token-Ring 16/4 PCI Adapter''],
  Init [Const 0x108D, Const 0x0011] [''OC-2805'', ''Ethernet Controller''],
  Init [Const 0x108D, Const 0x0012] [''OC-2325'', ''Ethernet PCI/II 10/100 Controller''],
  Init [Const 0x108D, Const 0x0013] [''OC-2183/85'', ''PCI/II Ethernet Controller''],
  Init [Const 0x108D, Const 0x0014] [''OC-2326'', ''Ethernet PCI/II 10/100 Controller''],
  Init [Const 0x108D, Const 0x0019] [''PCI/VEN_8086&DEV_1039&SUBSYS_02671014&REV_81'' @ [CHR 0x5C] @ ''4&252'', ''10/100 Ethernet Controller''],
  Init [Const 0x108D, Const 0x0021] [''OC-6151/52'', ''155 Mbit ATM Adapter''],
  Init [Const 0x108D, Const 0x0022] [[], ''ATM Adapter''],
  Init [Const 0x108E, Const 0x0001] [''SPARC EBUS'', []],
  Init [Const 0x108E, Const 0x1000] [''PCIO'', ''PCI Input/Output Controller''],
  Init [Const 0x108E, Const 0x1001] [''PCIO'', ''Happy Meal Ethernet''],
  Init [Const 0x108E, Const 0x1100] [''RIO EBUS'', []],
  Init [Const 0x108E, Const 0x1101] [''RIO GEM'', []],
  Init [Const 0x108E, Const 0x1102] [''RIO 1394'', []],
  Init [Const 0x108E, Const 0x1103] [''RIO USB'', []],
  Init [Const 0x108E, Const 0x2BAD] [''GEM'', ''Sun Gigabit Ethernet Card''],
  Init [Const 0x108E, Const 0x5000] [''SME2411'', ''UltraSPARC-IIi Advanced PCI Bridge''],
  Init [Const 0x108E, Const 0x5043] [''SunPCI'', ''Co-processor''],
  Init [Const 0x108E, Const 0x7063] [''SunPCi'', ''PCI card with Intel or AMD processor''],
  Init [Const 0x108E, Const 0x8000] [''STP2223BGA'', ''UPA to PCI Interface (UPA)''],
  Init [Const 0x108E, Const 0x8001] [''Schizo'', ''PCI Bus Module''],
  Init [Const 0x108E, Const 0xA000] [''UltraSPARC IIi'', ''Sabre''],
  Init [Const 0x108E, Const 0xA001] [''UltraSPARC IIe'', ''Hummingbird''],
  Init [Const 0x108E, Const 0xABBA] [''CE (Cassini Ethernet)'', ''10/100/1000 Ethernet adapter''],
  Init [Const 0x1091, Const 0x0020] [[], ''3D Graphics Processor''],
  Init [Const 0x1091, Const 0x0021] [[], ''3D graphics processor w/texturing''],
  Init [Const 0x1091, Const 0x0040] [[], ''3D graphics frame buffer''],
  Init [Const 0x1091, Const 0x0041] [[], ''3D graphics frame buffer''],
  Init [Const 0x1091, Const 0x0060] [[], ''Proprietary bus Bridge''],
  Init [Const 0x1091, Const 0x00E4] [''Powerstorm 4D50T'', []],
  Init [Const 0x1091, Const 0x0720] [[], ''Motion JPEG Codec''],
  Init [Const 0x1092, Const 0x00A0] [''SpeedStar Pro SE'', ''GUI Accelerator''],
  Init [Const 0x1092, Const 0x00A8] [''SpeedStar 64'', ''GUI Accelerator''],
  Init [Const 0x1092, Const 0x0550] [''Viper V550'', []],
  Init [Const 0x1092, Const 0x08D4] [''Supra 2260'', ''WinModem''],
  Init [Const 0x1092, Const 0x094C] [''SupraExpress 56i Pro'', ''SupraExpress 56i Pro''],
  Init [Const 0x1092, Const 0x09C8] [''SUP2761'', ''SupraExpress 56i Pro VCC''],
  Init [Const 0x1092, Const 0x1002] [''R6793-12'', ''RS56-pci''],
  Init [Const 0x1092, Const 0x1092] [''Viper V330'', ''2710a''],
  Init [Const 0x1092, Const 0x6120] [''Maximum'', ''DVD''],
  Init [Const 0x1092, Const 0x8810] [''Stealth SE'', ''GUI Accelerator''],
  Init [Const 0x1092, Const 0x8811] [''Stealth 64/SE'', ''GUI Accelerator''],
  Init [Const 0x1092, Const 0x8880] [''Stealth Video'', []],
  Init [Const 0x1092, Const 0x8881] [''Stealth Video'', ''GUI Accelerator''],
  Init [Const 0x1092, Const 0x88B0] [''Stealth 64 Video'', ''GUI Accelerator''],
  Init [Const 0x1092, Const 0x88B1] [''Stealth 64 Video'', ''GUI Accelerator''],
  Init [Const 0x1092, Const 0x88C0] [''Stealth 64'', ''GUI Accelerator''],
  Init [Const 0x1092, Const 0x88C1] [''Stealth 64'', ''GUI Accelerator''],
  Init [Const 0x1092, Const 0x88D0] [''Stealth 64'', ''GUI Accelerator''],
  Init [Const 0x1092, Const 0x88D1] [''Stealth 64'', ''GUI Accelerator''],
  Init [Const 0x1092, Const 0x88F0] [''Stealth 64 Video'', ''GUI Accelerator''],
  Init [Const 0x1092, Const 0x88F1] [''Stealth 64 Video'', ''GUI Accelerator''],
  Init [Const 0x1092, Const 0x9876] [[], ''Supra Express 56i Pro CW #2''],
  Init [Const 0x1092, Const 0x9999] [''Monster Sound'', ''Diamand Technology DT0398''],
  Init [Const 0x1093, Const 0x0160] [''PCI-DIO-96'', ''data adquisition input and output''],
  Init [Const 0x1093, Const 0x0161] [''PCI-1200'', ''Multifunction data acquisition board''],
  Init [Const 0x1093, Const 0x0162] [''PCI-MIO-16XE-50'', ''24MIO  6-03-2''],
  Init [Const 0x1093, Const 0x1150] [''PCI-DIO-32HS'', ''High Speed Digital I/O Board''],
  Init [Const 0x1093, Const 0x1170] [''PCI-MIO-16XE-10'', []],
  Init [Const 0x1093, Const 0x1180] [''PCI-VEN-1180 '', ''base system device''],
  Init [Const 0x1093, Const 0x1190] [''PCI-MIO-16E-4'', []],
  Init [Const 0x1093, Const 0x11B0] [[], []],
  Init [Const 0x1093, Const 0x11C0] [[], []],
  Init [Const 0x1093, Const 0x11D0] [[], []],
  Init [Const 0x1093, Const 0x11E0] [[], []],
  Init [Const 0x1093, Const 0x1270] [''PCI-6032E'', ''Multifunction Data Acquisition Card''],
  Init [Const 0x1093, Const 0x12B0] [''PCI-6534'', ''High Speed DIO''],
  Init [Const 0x1093, Const 0x1310] [''PCI-6602'', ''Data Acquisition Device''],
  Init [Const 0x1093, Const 0x1320] [[], []]]"

lemma PciDevTable_33_facts:
  "length PciDevTable_33 = 150" "rejected PciDevTable_33 = 1" "oversized PciDevTable_33 = 1"
  "vendors PciDevTable_33 \<subseteq> Const ` set vendor_numbers"
  unfolding PciDevTable_33_def count_rows by (simp_all add: part_simps listed vendor_known_list cong: part_cong count_rows_cong)

definition PciDevTable_34 :: "initializer list" where
 "PciDevTable_34 = [
  Init [Const 0x1093, Const 0x1330] [''PCI-6031E'', []],
  Init [Const 0x1093, Const 0x1340] [''PCI-6033E'', ''Multifunction Data Acquisition Card''],
  Init [Const 0x1093, Const 0x1350] [''PCI-6071E'', '' NI PCI-6071E Multifunction I/O & NI-DAQ''],
  Init [Const 0x1093, Const 0x1360] [[], []],
  Init [Const 0x1093, Const 0x17D0] [''PCI-6503'', []],
  Init [Const 0x1093, Const 0x18B0] [[], []],
  Init [Const 0x1093, Const 0x28B0] [''NI 6014'', ''I/O Terminal NI-DAQ (Legacy) and NI-DAQmx''],
  Init [Const 0x1093, Const 0x2A60] [''PCI-6023E'', []],
  Init [Const 0x1093, Const 0x2A70] [''PCI-6024E'', ''Multifunction Data Acquisition Card''],
  Init [Const 0x1093, Const 0x2A80] [''PCI-6025E'', ''Multifunction Data Acquisition Card''],
  Init [Const 0x1093, Const 0x2B20] [''PCI-6527'', []],
  Init [Const 0x1093, Const 0x2C80] [''PCI-6035E'', []],
  Init [Const 0x1093, Const 0x2CA0] [[], ''PCI-6034E''],
  Init [Const 0x1093, Const 0x702C] [''NI PXI-7831R'', ''NI FPGA Modul''],
  Init [Const 0x1093, Const 0x70AF] [''PCI-6221'', ''16-Bit, 250 kS/s, 16 Analog Inputs''],
  Init [Const 0x1093, Const 0x70B8] [''NI PCI-6251'', ''Multifunction DAQ Device''],
  Init [Const 0x1093, Const 0x70E3] [''1'', ''NI PXI-8431/8 (RS485/RS422)''],
  Init [Const 0x1093, Const 0x70E4] [''70E41093'', ''NI PCI-8430/8 (RS-232) Interface''],
  Init [Const 0x1093, Const 0x710E] [''PCIe-GPIB'', ''GPIB Controller Interface Board''],
  Init [Const 0x1093, Const 0x71BC] [''PCI-6221 '', ''16-Bit, 250 kS/s, 16 Analog Inputs  (DSUB37)''],
  Init [Const 0x1093, Const 0x7414] [''PCIe-GPIB+'', ''NI PCIe-GPIB+ GPIB with analyzer''],
  Init [Const 0x1093, Const 0xB001] [''IMAQ-PCI-1408'', []],
  Init [Const 0x1093, Const 0xB011] [''IMAQ-PXI-1408'', []],
  Init [Const 0x1093, Const 0xB021] [''IMAQ-PCI-1424'', []],
  Init [Const 0x1093, Const 0xB031] [''IMAQ-PCI-1413'', []],
  Init [Const 0x1093, Const 0xB041] [''IMAQ-PCI-1407'', ''1pcs''],
  Init [Const 0x1093, Const 0xB051] [''IMAQ-PXI-1407'', []],
  Init [Const 0x1093, Const 0xB061] [''IMAQ-PCI-1411'', []],
  Init [Const 0x1093, Const 0xB071] [''IMAQ-PCI-1422'', ''IMAQ-PCI-1422''],
  Init [Const 0x1093, Const 0xB081] [''IMAQ-PXI-1422'', []],
  Init [Const 0x1093, Const 0xB091] [''IMAQ-PXI-1411'', ''bluethooth''],
  Init [Const 0x1093, Const 0xC801] [''PCI-GPIB'', ''GPIB Controller Interface Board''],
  Init [Const 0x1093, Const 0xC811] [[], []],
  Init [Const 0x1093, Const 0xC821] [[], []],
  Init [Const 0x1093, Const 0xC831] [''TNT5002'', ''PCI-GPIB''],
  Init [Const 0x1093, Const 0xC840] [[], []],
  Init [Const 0x1093, Const 0xD130] [''PCI-232/2'', ''2-port RS-232 Serial Interface Board''],
  Init [Const 0x1095, Const 0x0240] [''SIL3112'', ''SATA/Raid controller(2XSATA150)''],
  Init [Const 0x1095, Const 0x0242] [''SIL3132'', ''SATAII/Raid controller''],
  Init [Const 0x1095, Const 0x0244] [''SIL3132'', ''eSATA/Raid controller''],
  Init [Const 0x1095, Const 0x0640] [''PCI0640A/B'', ''EIDE Ctrlr''],
  Init [Const 0x1095, Const 0x0641] [''pci0640'', ''pci eide adapter with raid 1''],
  Init [Const 0x1095, Const 0x0642] [''PCI0642'', ''IDE Cntrlr w/RAID 1''],
  Init [Const 0x1095, Const 0x0643] [''PCI0643'', ''PCI EIDE controller''],
  Init [Const 0x1095, Const 0x0646] [''CMD646'', ''EIDE/UDMA Controller''],
  Init [Const 0x1095, Const 0x0647] [''PCI0647'', ''9738''],
  Init [Const 0x1095, Const 0x0648] [''PCI-648'', ''Bus Master Ultra DMA PCI-IDE/ATA Chip''],
  Init [Const 0x1095, Const 0x0649] [''PCI-649'', ''PATA100 ATAPI/RAID Controller''],
  Init [Const 0x1095, Const 0x0650] [''PBC0650A'', ''Fast SCSI-II Ctrlr''],
  Init [Const 0x1095, Const 0x0670] [''USB0670'', ''PCI-USB''],
  Init [Const 0x1095, Const 0x0673] [''USB0673'', ''PCI-USB ASIC''],
  Init [Const 0x1095, Const 0x0680] [''SiI 0680/680A'', ''PATA133 ATAPI/RAID Controller''],
  Init [Const 0x1095, Const 0x1392] [''1390/1392'', ''High Definition Audio HDMI output''],
  Init [Const 0x1095, Const 0x2455] [''SI3124'', ''SATALink 4-Port PCI-X Host Controller''],
  Init [Const 0x1095, Const 0x3112] [''SIL3112'', ''SATA/Raid controller(2XSATA150)''],
  Init [Const 0x1095, Const 0x3114] [''Sil 3114'', ''SATALink/SATARaid Controller''],
  Init [Const 0x1095, Const 0x3124] [''SiI 3124'', ''PCI-X to Serial ATA Controller''],
  Init [Const 0x1095, Const 0x3132] [''SiI 3132'', ''RR252x SATA Controller''],
  Init [Const 0x1095, Const 0x3512] [''Sil 3512'', ''SATALink/SATARaid Controllerhttp://www.pcidatabase.com/update_device.php?__ec_i=ec.1378825283.616786''],
  Init [Const 0x1095, Const 0x3531] [''3531'', ''SiI 3531 SATA Controller''],
  Init [Const 0x1095, Const 0x9876] [''0x9876'', ''0x9876''],
  Init [Const 0x1096, Const 0x1106] [''0x3059'', ''Realtek AC97 Audio for VIA (R) Audio Controller''],
  Init [Const 0x1096, Const 0x3059] [''VT8233'', ''South Bridge''],
  Init [Const 0x1097, Const 0x0038] [[], ''EIDE Controller (single FIFO)''],
  Init [Const 0x1098, Const 0x0001] [''QD8500'', ''EIDE Controller''],
  Init [Const 0x1098, Const 0x0002] [''QD8580'', ''EIDE Controller''],
  Init [Const 0x109A, Const 0x8280] [''0x036en'', ''4 channel video digitizer cardm''],
  Init [Const 0x109E, Const 0x0350] [''036E'', ''rb8701.1''],
  Init [Const 0x109E, Malformed ''0x0350&SUBSYS_000000''] [''Bt848h'', ''tv tuner driverhj''],
  Init [Const 0x109E, Const 0x0351] [''Bt848'', ''BrookTree Bt848 Video Capture Device - Audio Section'' @ [CHR 0x09] @ ''PCI''],
  Init [Const 0x109E, Const 0x0369] [''Bt878fusion 878a'', ''Video Capture''],
  Init [Const 0x109E, Const 0x036C] [''th&#305;k'', []],
  Init [Const 0x109E, Const 0x036E] [''A8FEFC28'', ''AVerMediaAverTV WDM AudioCapture (878)''],
  Init [Const 0x109E, Malformed ''0x036E&SUBSYS_000000''] [''Conextant Fucion 878A 25878-123'', ''Video Capture''],
  Init [Const 0x109E, Malformed ''0x036E&SUBSYS_000000''] [''Conextant Fucion 878A 25878-123'', ''Video Capture''],
  Init [Const 0x109E, Const 0x036F] [''Bt878'', ''Video Capture''],
  Init [Const 0x109E, Const 0x0370] [''Bt880B'', ''Video Capture (10 bit High qualtiy cap)''],
  Init [Const 0x109E, Const 0x0878] [''00000000&REV_11'', ''AVerMediaAverTV WDM AudioCapture (878)''],
  Init [Const 0x109E, Const 0x0879] [''Bt879khf'', ''Video Capture (Audio Section)''],
  Init [Const 0x109E, Const 0x0880] [''Bt880'', ''Video Capture (Audio Section)''],
  Init [Const 0x109E, Const 0x109E] [''Brooktree Corp BT848 SVR-2000 V1.02m'', ''Multimedia Video Controllerm''],
  Init [Const 0x109E, Minus (Const 0x109E) (Const 0x036E)] [''1822-0001'', ''0400 video devce''],
  Init [Const 0x109E, Const 0x2115] [''BtV 2115'', ''BtV Mediastream Controller 9x''],
  Init [Const 0x109E, Const 0x2125] [''109'', ''BtV Mediastream Controller''],
  Init [Const 0x109E, Const 0x2164] [''BtV 2164'', ''Display Adapter''],
  Init [Const 0x109E, Const 0x2165] [''BtV 2165'', ''MediaStream Controller''],
  Init [Const 0x109E, Const 0x36E] [''878a'', ''25878-13''],
  Init [Const 0x109E, Malformed ''0x36E&SUBSYS_0000000''] [''Bt360 MediaStream &#1050;&#1086;&#1085;&#1090;&#10'', ''Brooktree Corp''],
  Init [Const 0x109E, Malformed ''0x36E&SUBSYS_0000000''] [''CONEXANT FUSION 878A 25878-13 E153498.1'', ''conexant 878a''],
  Init [Const 0x109E, Const 0x8230] [''BtV 8230'', ''ATM Segment/Reassembly Controller (SRC)''],
  Init [Const 0x109E, Const 0x8472] [''Bt8471/72'', ''32/64-channel HDLC Controllers''],
  Init [Const 0x109E, Const 0x8474] [''Bt8474'', ''128-channel HDLC Controller''],
  Init [Const 0x109F, Const 0x036F] [''Bt878'', ''Video Capturee''],
  Init [Const 0x10A4, Const 0x5969] [[], []],
  Init [Const 0x9902, Const 0x0001] [''SG2010'', ''PCI-to-PCI Bridge''],
  Init [Const 0x9902, Const 0x0002] [''SG2010'', ''PCI to high speed serial bridge''],
  Init [Const 0x9902, Const 0x0003] [''SG1010'', ''6 port serial switch /PCI-to-PCI bridge''],
  Init [Const 0x10A8, Const 0x0000] [''0103'', ''ethernet controller''],
  Init [Const 0x10A9, Const 0x0004] [''O2 MACE'', []],
  Init [Const 0x10A9, Const 0x0005] [''RAD Audio'', []],
  Init [Const 0x10A9, Const 0x0006] [''HPCEX'', []],
  Init [Const 0x10A9, Const 0x0007] [''RPCEX'', []],
  Init [Const 0x10A9, Const 0x0008] [''DiVO VIP'', []],
  Init [Const 0x10A9, Const 0x0009] [''Alteon'', ''Gigabit Ethernet''],
  Init [Const 0x10A9, Const 0x0010] [''AMP'', ''Video I/O''],
  Init [Const 0x10A9, Const 0x0011] [''GRIP'', []],
  Init [Const 0x10A9, Const 0x0012] [''SGH PSHAC GSN'', []],
  Init [Const 0x10A9, Const 0x1001] [''Magic Carpet'', []],
  Init [Const 0x10A9, Const 0x1002] [''Lithium'', []],
  Init [Const 0x10A9, Const 0x1003] [''Dual JPEG 1'', []],
  Init [Const 0x10A9, Const 0x1004] [''Dual JPEG 2'', []],
  Init [Const 0x10A9, Const 0x1005] [''Dual JPEG 3'', []],
  Init [Const 0x10A9, Const 0x1006] [''Dual JPEG 4'', []],
  Init [Const 0x10A9, Const 0x1007] [''Dual JPEG 5'', []],
  Init [Const 0x10A9, Const 0x1008] [''Cesium'', []],
  Init [Const 0x10A9, Const 0x2001] [[], ''Fibre Channel''],
  Init [Const 0x10A9, Const 0x2002] [''ASDE'', []],
  Init [Const 0x10A9, Const 0x8001] [''O2 1394'', []],
  Init [Const 0x10A9, Const 0x8002] [''G-net NT'', []],
  Init [Const 0x10AB, Const 0x1005] [''USB'' @ [CHR 0x5C] @ ''VID_0000@PID_0000'' @ [CHR 0x5C] @ ''6@390392D@0@1'', ''USB Pendrive''],
  Init [Const 0x10AB, Const 0x1007] [''USB'' @ [CHR 0x5C] @ ''VID_0000@PID_0000'' @ [CHR 0x5C] @ ''6@390392D@0@1'', ''usb pendrive''],
  Init [Const 0x10AB, Const 0x8086] [''2200'', ''PCI Simple Communications Controller ''],
  Init [Const 0x10AD, Const 0x0001] [''W83769F'', ''EIDE Ctrlr''],
  Init [Const 0x10AD, Const 0x0103] [''sl82c103'', ''PCI-ide mode 4.5 Cntrlr''],
  Init [Const 0x10AD, Const 0x0105] [''W83789F'', ''Sonata bus master PCI-IDE controller''],
  Init [Const 0x10AD, Const 0x0565] [''W83C553F'', ''PCI/ISA bridge''],
  Init [Const 0xA0F1, Const 0x9876] [''0x9876'', ''0x9876''],
  Init [Const 0x10B5, Const 0x0324] [[], []],
  Init [Const 0x10B5, Const 0x0480] [''IOP 480'', ''Integrated PowerPC I/O Processor''],
  Init [Const 0x10B5, Const 0x0960] [''PCI 9080RDK-960'', ''PCI Reference Design Kit for PCI 9080''],
  Init [Const 0x10B5, Const 0x1030] [''Gazel R685'', ''ISDN card''],
  Init [Const 0x10B5, Const 0x1054] [''Gazel R697'', ''dual channel ISDN card''],
  Init [Const 0x10B5, Const 0x1078] [''PCI 9050'', ''Vision Systems VScom PCI-210''],
  Init [Const 0x10B5, Const 0x1103] [''PCI 9050'', ''Vision Systems VScom PCI-200''],
  Init [Const 0x10B5, Const 0x1146] [''PCI 9050'', ''Vision Systems VScom PCI-010S''],
  Init [Const 0x10B5, Const 0x1147] [''PCI 9050'', ''Vision Systems VScom PCI-020S''],
  Init [Const 0x10B5, Const 0x1151] [''Gazel R753'', ''ISDN card''],
  Init [Const 0x10B5, Const 0x1152] [''Gazel R753'', ''ISDN card''],
  Init [Const 0x10B5, Const 0x2724] [[], ''Thales PCSM Security Card''],
  Init [Const 0x10B5, Const 0x2748] [''9054'', ''TPCX Transientrecorder Card''],
  Init [Const 0x10B5, Const 0x3001] [''plx9030'', ''gpscard''],
  Init [Const 0x10B5, Const 0x5406] [''PCI RDK9054-LITE'', ''PCI Reference Design Kit for PLX PCI 9054''],
  Init [Const 0x10B5, Const 0x5601] [''PCI 9056'', ''32-bit; 66MHz PCI Bus Master I/O Accelerator, 17 x 17mm FPBGA''],
  Init [Const 0x10B5, Const 0x6520] [''PCI6520 G'', ''PCI-X to PCI-X Bridge''],
  Init [Const 0x10B5, Const 0x6ACC] [''PCI 9030'', ''General Mechatronics 6 Axis Motion Control Card for EMC2''],
  Init [Const 0x10B5, Const 0x8111] [''PEX 8311'', ''1 Lane PCI Express to PCI bridge (PEX8111); 1 Lane PCI Express to Generic Local Bus bridge (PEX8311)''],
  Init [Const 0x10B5, Const 0x8112] [''PEX8112'', ''1 Lane PCI Express to PCI bridge''],
  Init [Const 0x10B5, Const 0x8508] [''PEX8508'', ''8 Lane, 5 Port PCI Express Switch''],
  Init [Const 0x10B5, Const 0x8509] [''PEX8509'', ''8-lane PCI-Express Switch''],
  Init [Const 0x10B5, Const 0x8516] [''PEX 8516'', ''Versatile PCI Express Switch'']]"

lemma PciDevTable_34_facts:
  "length PciDevTable_34 = 150" "rejected PciDevTable_34 = 5" "oversized PciDevTable_34 = 0"
  "vendors PciDevTable_34 \<subseteq> Const ` set vendor_numbers"
  unfolding PciDevTable_34_def count_rows by (simp_all add: part_simps listed vendor_known_list cong: part_cong count_rows_cong)

definition PciDevTable_35 :: "initializer list" where
 "PciDevTable_35 = [
  Init [Const 0x10B5, Const 0x8518] [''PEX8518-AB25BI'', ''PLX PCI-e switch''],
  Init [Const 0x10B5, Const 0x8532] [''PEX 8532'', ''Versatile PCI Express Switch''],
  Init [Const 0x10B5, Const 0x8548] [''8548'', ''48-lane PCIe switch''],
  Init [Const 0x10B5, Const 0x8609] [''PEX 8609'', ''8 Lane, 8 Port PCI Express Switch''],
  Init [Const 0x10B5, Const 0x8664] [''PEX 8664'', ''64-Lane, 16-Port PCI Express Gen 2 (5.0 GT/s) Switch, 35 x 35mm FCBGA''],
  Init [Const 0x10B5, Const 0x9030] [''PCI 9030'', ''PCI SMARTarget I/O Accelerator''],
  Init [Const 0x10B5, Const 0x9036] [''PCI9036'', ''Interface chip - value 1k''],
  Init [Const 0x10B5, Const 0x9050] [''PCI 9050'', ''Target PCI Interface Chip - value 1k''],
  Init [Const 0x10B5, Const 0x9052] [''PCI 9052'', ''PCI 9052 Target PLX PCI Interface Chip''],
  Init [Const 0x10B5, Const 0x9054] [''PCI 9054'', ''PCI I/O Accelerator''],
  Init [Const 0x10B5, Const 0x9056] [''PCI9056'', ''32-bit, 66 MHz PCI Bus-Mastering I/O Accelerator for PowerQUICC and Generic 32-bit, 66 MHz Local Bus''],
  Init [Const 0x10B5, Const 0x9060] [''PCI9060'', ''PCI Bus Master Interface Chip''],
  Init [Const 0x10B5, Const 0x906D] [''PCI 9060SD'', ''PCI Bus Master Interface Chip''],
  Init [Const 0x10B5, Const 0x906E] [''PCI 9060ES'', ''PCI Bus Master Interface Chip''],
  Init [Const 0x10B5, Const 0x9080] [''PCI 9080'', ''High performance PCI to Local Bus chip''],
  Init [Const 0x10B6, Const 0x0001] [''Smart 16/4'', ''Ringnode (PCI1b)''],
  Init [Const 0x10B6, Const 0x0002] [''Smart 16/4'', ''Ringnode (PCIBM2/CardBus)''],
  Init [Const 0x10B6, Const 0x0003] [''Smart 16/4'', ''Ringnode''],
  Init [Const 0x10B6, Const 0x0004] [[], ''Smart 16/4 Ringnode Mk1 (PCIBM1)''],
  Init [Const 0x10B6, Const 0x0006] [[], ''16/4 CardBus Adapter (Eric 2)''],
  Init [Const 0x10B6, Const 0x0007] [''Presto PCI'', []],
  Init [Const 0x10B6, Const 0x0009] [[], ''Smart 100/16/4 PCi-HS Ringnode''],
  Init [Const 0x10B6, Const 0x000A] [[], ''Smart 100/16/4 PCI Ringnode''],
  Init [Const 0x10B6, Const 0x000B] [[], ''16/4 CardBus  Adapter Mk2''],
  Init [Const 0x10B6, Const 0x1000] [''Horizon'', ''ATM adapter''],
  Init [Const 0x10B6, Const 0x1001] [''Ambassador'', ''ATM adapter''],
  Init [Const 0x10B6, Const 0x1002] [''Ambassador'', ''ATM Adapter''],
  Init [Const 0x10B7, Const 0x0001] [''3C985'', ''1000BaseSX Gigabit Etherlink''],
  Init [Const 0x10B7, Const 0x0013] [''3com p/n: 3CRDAG675'', ''3Com11a/b/g Wireless PCI Adapter ''],
  Init [Const 0x10B7, Const 0x1000] [''3C905CX-TXNM'', ''3COM 3C905CX-TXNM with 40-0664-003 ASIC''],
  Init [Const 0x10B7, Const 0x1006] [''14e4:1645'', ''Broadcom Corporation NetXtreme BCM5701 Gigabit Ethernet''],
  Init [Const 0x10B7, Const 0x1007] [''3C556'', ''V.90 Mini-PCI Modem''],
  Init [Const 0x10B7, Const 0x1700] [''3C940'', ''Gigabit Ethernet PCI CODEC''],
  Init [Const 0x10B7, Const 0x1F1F] [''3CRWE777A'', ''AirConnect Wireless LAN PCI Card''],
  Init [Const 0x10B7, Const 0x3390] [''3C339'', ''Token Link Velocity''],
  Init [Const 0x10B7, Const 0x3590] [''3C359'', ''TokenLink Velocity XL Adapter''],
  Init [Const 0x10B7, Const 0x4500] [''3C450'', ''Cyclone''],
  Init [Const 0x10B7, Const 0x5055] [''3C555'', ''Laptop Hurricane''],
  Init [Const 0x10B7, Const 0x5057] [''3C575'', ''Megahertz 10/100 LAN CardBus PC Card''],
  Init [Const 0x10B7, Const 0x5157] [''3C575B'', ''Megahertz 10/100 LAN CardBus PC Card''],
  Init [Const 0x10B7, Const 0x5257] [''3CCFE575CT'', ''Cyclone Fast Ethernet CardBus PC Card''],
  Init [Const 0x10B7, Const 0x5900] [''3C590'', ''Ethernet III Bus Fast PCI''],
  Init [Const 0x10B7, Const 0x5920] [''3C592'', ''PCI/EISA 10Mbps Demon/Vortex''],
  Init [Const 0x10B7, Const 0x5950] [''3COM 3C595-TX'', ''100MB PCI Ethernet Adapter''],
  Init [Const 0x10B7, Const 0x5951] [''3C595'', ''Fast EtherLink PCI T4''],
  Init [Const 0x10B7, Const 0x5952] [''3C595'', ''Fast EtherLink PCI MII''],
  Init [Const 0x10B7, Const 0x5970] [''3C597'', ''PCI/EISA Fast Demon/Vortex''],
  Init [Const 0x10B7, Const 0x5B57] [''3C595'', ''Megahertz 10/100 LAN CardBus''],
  Init [Const 0x10B7, Const 0x6055] [''3C556'', ''10/100 Fast Ethernet MiniPCI Adapter''],
  Init [Const 0x10B7, Const 0x6056] [''3CN3AC1556B'', ''MiniPCI 10/100 Ethernet+Modem56k (see devid:1007)''],
  Init [Const 0x10B7, Const 0x6560] [''3CCFE656'', ''Cyclone CardBus PC Card''],
  Init [Const 0x10B7, Const 0x6561] [''FEM656'', ''10/100 LAN+56K Modem CardBus PC Card''],
  Init [Const 0x10B7, Const 0x6562] [''3CCFEM656'', ''Cyclone CardBus PC Card''],
  Init [Const 0x10B7, Const 0x6563] [''FEM656B'', ''10/100 LAN+56K Modem CardBus PC Card''],
  Init [Const 0x10B7, Const 0x6564] [''3CCFEM656'', ''Cyclone CardBus PC Card''],
  Init [Const 0x10B7, Const 0x6565] [''3CCFEM656C'', ''Global 10/100 Fast Ethernet+56K Modem''],
  Init [Const 0x10B7, Const 0x7646] [''3CSOHO100B-TX'', ''3com''],
  Init [Const 0x10B7, Const 0x7770] [''???'', ''AirConnect Wireless PCI''],
  Init [Const 0x10B7, Const 0x8811] [[], ''Token Ring''],
  Init [Const 0x10B7, Const 0x9000] [''3C900-TPO'', ''Fast Etherlink PCI TPO NIC''],
  Init [Const 0x10B7, Const 0x9001] [''3C900-COMBO'', ''Fast Etherlink XL PCI Combo NIC''],
  Init [Const 0x10B7, Const 0x9004] [''3C900-TPO'', ''EtherLink XL TPO 10Mb''],
  Init [Const 0x10B7, Const 0x9005] [''3C900B-COMBO'', ''Fast Etherlink 10Mbps Combo NIC''],
  Init [Const 0x10B7, Const 0x9006] [''3C900B-TPC'', ''EtherLink XL TPC''],
  Init [Const 0x10B7, Const 0x900A] [''3C900B-FL'', ''EtherLink PCI Fiber NIC''],
  Init [Const 0x10B7, Const 0x9041] [''3C905-T4'', ''Fast Etherlink XL 10/100''],
  Init [Const 0x10B7, Const 0x9050] [''3C905B - Combo'', ''Fast Etherlink XL PCI 10/100''],
  Init [Const 0x10B7, Const 0x9051] [''3C905-T4'', ''Fast Etherlink XL 10/100''],
  Init [Const 0x10B7, Const 0x9055] [''APCI/pnpb006'', ''Fast Etherlink 10/100 PCI TX NIC''],
  Init [Const 0x10B7, Const 0x9056] [''3C905B-T4'', ''Fast EtherLink XL 10/100''],
  Init [Const 0x10B7, Const 0x9058] [''3C905B-COMBO'', ''Deluxe EtherLink 10/100 PCI Combo NIC''],
  Init [Const 0x10B7, Const 0x905A] [''3C905B-FX'', ''Fast EtherLink 100 Fiber NIC''],
  Init [Const 0x10B7, Const 0x9200] [''3C905 CX-TXM'', ''3Com 10/100 Managed NIC 3C905CX-TX-M''],
  Init [Const 0x10B7, Const 0x9201] [''3C920B-EMB'', ''Integrated Fast Ethernet Controller''],
  Init [Const 0x10B7, Const 0x9202] [''3C920B-EMB'', ''3C920B-EMB 3Com + Realtek 8201L''],
  Init [Const 0x10B7, Const 0x9210] [''3C920B-EMB-WNM'', ''Integrated Fast Ethernet Controller''],
  Init [Const 0x10B7, Const 0x9300] [''3csoho100b-tx'', ''3ComSOHO100B-TX''],
  Init [Const 0x10B7, Const 0x9800] [''3C980-TX'', ''Fast EtherLink XL Server Adapter2''],
  Init [Const 0x10B7, Const 0x9805] [''3C980-TX'', ''Python-T 10/100baseTX NIC''],
  Init [Const 0x10B7, Const 0x9876] [''3C920B-EMB'', ''3C920B-EMB 3Com + Realtek 8201L''],
  Init [Const 0x10B7, Const 0x9902] [''3CR990-TX-95'', ''EtherLink 10/100 PCI with 3XP Processor''],
  Init [Const 0x10B7, Const 0x9903] [''3CR990-TX-97'', ''EtherLink 10/100 PCI with 3XP Processor''],
  Init [Const 0x10B7, Const 0x9905] [''3C990B-FX'', ''100FX PCI Server NIC w/3XP''],
  Init [Const 0x10B7, Const 0x9908] [''3CR990SVR95'', ''EtherLink 10/100 Server PCI with 3XP''],
  Init [Const 0x10B7, Const 0x9909] [''3CR990SVR97'', ''EtherLink 10/100 Server PCI with 3XP''],
  Init [Const 0x10B7, Const 0xD004] [''3C900B-TPO'', ''EtherLink XL PCI''],
  Init [Const 0x10B8, Const 0x0005] [''LAN83C170QF/171'', ''EPIC/XF 10/100 Mbps Fast Ethernet Ctrlr''],
  Init [Const 0x10B8, Const 0x0006] [''LAN83C175'', ''EPIC/C Ethernet CardBus Integrated Ctrlr''],
  Init [Const 0x10B8, Const 0x1000] [''37C665'', ''FDC''],
  Init [Const 0x10B8, Const 0x1001] [''37C922'', ''FDC''],
  Init [Const 0x10B8, Const 0xA011] [''83C170QF'', ''Fast ethernet controller''],
  Init [Const 0x10B8, Const 0xB106] [''SMC34C90'', ''CardBus Controller''],
  Init [Const 0x10B9, Const 0x0101] [''CMI8338/C3DX'', ''PCI Audio Device (OEM)''],
  Init [Const 0x10B9, Const 0x0102] [''CMI8338/C3DX'', ''PCI Audio Device (OEM)''],
  Init [Const 0x10B9, Const 0x0111] [''CMI8738/C3DX'', ''C-Media Audio Device (OEM)''],
  Init [Const 0x10B9, Const 0x0780] [''???'', ''Multi-IO Card''],
  Init [Const 0x10B9, Const 0x0782] [''???'', ''Multi-IO Card''],
  Init [Const 0x10B9, Const 0x10B9] [''ALI M5273 A1'', ''0402t505 CK46828100B''],
  Init [Const 0x10B9, Const 0x10CE] [''5288'', ''cpi''],
  Init [Const 0x10B9, Const 0x1435] [''M1435'', ''VL Bridge''],
  Init [Const 0x10B9, Const 0x1445] [''M1445'', ''CPU to PCI & PCI to ISA Bridge w/EIDE''],
  Init [Const 0x10B9, Const 0x1449] [''M1449'', ''ISA Bridge''],
  Init [Const 0x10B9, Const 0x1451] [''M1451'', ''Pentium CPU to PCI Bridge''],
  Init [Const 0x10B9, Const 0x1461] [''M1461'', ''P54C Chipset''],
  Init [Const 0x10B9, Const 0x1489] [''M1489'', ''486 PCI Chipset''],
  Init [Const 0x10B9, Const 0x1511] [''M1575'', ''Aladdin 2 Host Bridge''],
  Init [Const 0x10B9, Const 0x1513] [''M1513'', ''Aladdin 2 South Bridge''],
  Init [Const 0x10B9, Const 0x1521] [''M1521'', ''Bios''],
  Init [Const 0x10B9, Const 0x1523] [''M1523'', ''ISA Bridge''],
  Init [Const 0x10B9, Const 0x1533] [''M1535+'', ''PCI South Bridge''],
  Init [Const 0x10B9, Const 0x1535] [''M1535x'', ''ISA Bridge''],
  Init [Const 0x10B9, Const 0x1541] [''M1541'', ''Aladdin V AGPset Host Bridge''],
  Init [Const 0x10B9, Const 0x1543] [''M1543 a1'', ''Aladdin V chipset South Bridge''],
  Init [Const 0x10B9, Const 0x1561] [''M1561'', ''North Bridge''],
  Init [Const 0x10B9, Const 0x1563] [''M1563'', ''South Bridge with Hypertransport Support''],
  Init [Const 0x10B9, Const 0x1632] [''M1632'', ''North Bridge''],
  Init [Const 0x10B9, Const 0x1641] [''M1641'', ''CPU to PCI Bridge''],
  Init [Const 0x10B9, Const 0x1644] [''M1644'', ''AGP System Controller''],
  Init [Const 0x10B9, Const 0x1646] [''M1646'', ''AGP System Controller''],
  Init [Const 0x10B9, Const 0x1647] [''M1647'', ''CPU to PCI Bridge''],
  Init [Const 0x10B9, Const 0x1651] [''M1651'', ''CPU to PCI Bridge''],
  Init [Const 0x10B9, Const 0x1661] [''M1661'', ''AGP System Controller''],
  Init [Const 0x10B9, Const 0x1667] [''M1667'', ''AGP System Controller''],
  Init [Const 0x10B9, Const 0x1671] [''M1671'', ''Super P4 Nouth Bridge''],
  Init [Const 0x10B9, Const 0x1672] [''M1672'', ''AGP System Controller''],
  Init [Const 0x10B9, Const 0x1681] [''M1681'', ''P4 Nouth Bridge with HyperTransport''],
  Init [Const 0x10B9, Const 0x1687] [''M1687'', ''K8 North Bridge with HyperTransport''],
  Init [Const 0x10B9, Const 0x1849] [''52871849'', ''02'' @ [CHR 0x5C] @ ''3&267A616A''],
  Init [Const 0x10B9, Const 0x3141] [''M3141'', ''GUI Accelerator''],
  Init [Const 0x10B9, Const 0x3143] [''M3143'', ''GUI Accelerator''],
  Init [Const 0x10B9, Const 0x3145] [''M3145'', ''GUI Accelerator''],
  Init [Const 0x10B9, Const 0x3147] [''M3147'', ''GUI Accelerator''],
  Init [Const 0x10B9, Const 0x3149] [''M3149'', ''GUI Accelerator''],
  Init [Const 0x10B9, Const 0x3151] [''M3151'', ''GUI Accelerator''],
  Init [Const 0x10B9, Const 0x3307] [''M3307'', ''MPEG-1 Decoder''],
  Init [Const 0x10B9, Const 0x3309] [''M3309'', ''MPEG Decoder''],
  Init [Const 0x10B9, Const 0x3432423] [''23128091'', ''131312''],
  Init [Const 0x10B9, Const 0x5212] [''M4803'', []],
  Init [Const 0x10B9, Const 0x5215] [''MS4803'', ''EIDE Ctrlr''],
  Init [Const 0x10B9, Const 0x5217] [''m5217h'', ''I/O (?)''],
  Init [Const 0x10B9, Const 0x5219] [''PCI'' @ [CHR 0x5C] @ ''VEN_10B9&DEV_5451&CC_040100'', ''Ali M5219 PCI BUS MASTER IDE Controller''],
  Init [Const 0x10B9, Const 0x5225] [''M5225'', ''IDE Controller''],
  Init [Const 0x10B9, Const 0x5228] [''M1563'', ''M5228 PATA/RAID Controller''],
  Init [Const 0x10B9, Const 0x5229] [''M5229 Southbridge'', ''EIDE Controller''],
  Init [Const 0x10B9, Malformed ''0x5229&REV_00''] [''?'', ''Ali EIDE''],
  Init [Const 0x10B9, Malformed ''0x5229&REV_20''] [''?'', ''PATA 33''],
  Init [Const 0x10B9, Malformed ''0x5229&REV_C2''] [''?'', ''PATA 66''],
  Init [Const 0x10B9, Malformed ''0x5229&REV_C4''] [''?'', ''PATA 100''],
  Init [Const 0x10B9, Malformed ''0x5229&REV_C5''] [''?'', ''PATA 133''],
  Init [Const 0x10B9, Const 0x5235] [''M1621'', ''ALI M6503c'']]"

lemma PciDevTable_35_facts:
  "length PciDevTable_35 = 150" "rejected PciDevTable_35 = 5" "oversized PciDevTable_35 = 1"
  "vendors PciDevTable_35 \<subseteq> Const ` set vendor_numbers"
  unfolding PciDevTable_35_def count_rows by (simp_all add: part_simps listed vendor_known_list cong: part_cong count_rows_cong)

definition PciDevTable_36 :: "initializer list" where
 "PciDevTable_36 = [
  Init [Const 0x10B9, Const 0x5236] [''M5273'', ''EHCI USB 2.0''],
  Init [Const 0x10B9, Const 0x5237] [''M5273 A1 for windows 2000'', ''OpenHCI 1.1 USB to  2.0''],
  Init [Const 0x10B9, Const 0x5239] [''523910A9'', ''USB EHCI2.0 Controller''],
  Init [Const 0x10B9, Const 0x5249] [''M5249'', ''HyperTransport to PCI Bridge''],
  Init [Const 0x10B9, Const 0x5251] [''M5251'', ''IEEE P1394 OpenHCI 1.0 Controller''],
  Init [Const 0x10B9, Const 0x5253] [''M5253'', ''IEEE P1394 OpenHCI 1.0 Controller''],
  Init [Const 0x10B9, Const 0x5261] [''M5261'', ''Ethernet Controller''],
  Init [Const 0x10B9, Const 0x5263] [''Albatron K8ULTRA-U Pro'', ''ULi PCI Fast Ethernet Controller''],
  Init [Const 0x10B9, Const 0x528] [''52871849'', ''02'' @ [CHR 0x5C] @ ''3&267A616A''],
  Init [Const 0x10B9, Const 0x5281] [''M1565/1566'', ''ALI M5281/5283  SATA/RAID Controller''],
  Init [Const 0x10B9, Const 0x5286] [''52291849'', ''Realtek PCIE CardReader''],
  Init [Const 0x10B9, Const 0x5287] [''ULI M1573'', ''SATA/Raid controller''],
  Init [Const 0x10B9, Const 0x5288] [''ULI M1575/M1697 '', ''M5288 SATA/Raid controller (Asrock 939SLI32-eSata2)''],
  Init [Const 0x10B9, Const 0x5289] [''ULI M1567/M1689 '', ''M5289 SATA/Raid controller''],
  Init [Const 0x10B9, Const 0x5450] [''65525'', ''Agere Systems AC97 Modem''],
  Init [Const 0x10B9, Const 0x5451] [''M5451'', ''Ali Audio Accelerator''],
  Init [Const 0x10B9, Const 0x5455] [''M1563M Southbridge'', ''AC'' @ [CHR 0x27] @ ''97 Audio Controller''],
  Init [Const 0x10B9, Const 0x5457] [''M1563M'', ''AC97 Modem controller''],
  Init [Const 0x10B9, Const 0x5459] [''MDV92XP NetoDragon'', ''PCI Soft Modem V92 NetoDragon''],
  Init [Const 0x10B9, Const 0x5461] [''M5461'', ''High Definition Audio Controller''],
  Init [Const 0x10B9, Const 0x5471] [''M1563M Southbridge'', ''Memory Stick Host''],
  Init [Const 0x10B9, Const 0x5473] [''M1563M Southbridge'', ''MMC/SD controller''],
  Init [Const 0x10B9, Const 0x7101] [''M7101'', ''Power Management Controller''],
  Init [Const 0x10B9, Const 0x7471] [''M1563M Southbridge'', ''Memory Stick Host''],
  Init [Const 0x10B9, Const 0x9876] [''mdv92xp'', ''xhcth700000b''],
  Init [Const 0xA259, Const 0x3038] [''82945G'', ''USB'' @ [CHR 0x5C] @ ''VID_03F0&PID_0205''],
  Init [Const 0x10BA, Const 0x0304] [[], ''GUI Accelerator''],
  Init [Const 0x10BD, Const 0x0803] ['' MYSON Technology Inc SURECOM EP-320X-S 100/10M Et'', ''Ethernet PCI Adapter''],
  Init [Const 0x10BD, Const 0x0E34] [''NE34'', ''Ethernet Adapter (NE2000 PCI clone)''],
  Init [Const 0x10BD, Const 0x5240] [''0055'', ''IDE Cntrlr''],
  Init [Const 0x10BD, Const 0x5241] [''8086'', ''PCMCIA Bridge''],
  Init [Const 0x10BD, Const 0x5242] [[], ''General Purpose Cntrlr''],
  Init [Const 0x10BD, Const 0x5243] [''00000000'', ''Bus Cntrlr''],
  Init [Const 0x10BD, Const 0x5244] [[], ''FCD Cntrlr''],
  Init [Const 0x10BD, Const 0x8136] [''Unkown'', ''Unkown''],
  Init [Const 0x10BD, Const 0x8139] [''surecom EP-320X-R adapter with realtek 8139c chip'', ''realtek 8139c''],
  Init [Const 0x10C3, Const 0x8920] [''5335fn800829'', ''MCP67 High Definition Audio ''],
  Init [Const 0x10C3, Const 0x8925] [[], []],
  Init [Const 0xA727, Const 0x0013] [''3com p/n: 3CRDAG675'', ''3com 11 a/b/g wireless PCI Adapter''],
  Init [Const 0x10C4, Const 0x8363] [''s/n124102160'', []],
  Init [Const 0x10C4, Const 0xEA60] [''CP210x'', ''Silicon Labs CP210x USB to UART Bridge''],
  Init [Const 0x10C8, Const 4] [''831610F7'', ''MagicGraph 128XD''],
  Init [Const 0x10C8, Const 0x0000] [''NM2097'', ''Graphics Cntrlr''],
  Init [Const 0x10C8, Const 0x0003] [''NM2093'', ''MagicGraph 128ZV Video Controller''],
  Init [Const 0x10C8, Const 0x0004] [''NM2160'', ''MagicGraph 128XD''],
  Init [Const 0x10C8, Const 0x0005] [''NM2200'', ''MagicMedia 256AV''],
  Init [Const 0x10C8, Const 0x0006] [''NM2360'', ''MagicMedia 256ZX/256M6D''],
  Init [Const 0x10C8, Const 0x0016] [''NM2380'', ''MagicMedia 256XL+''],
  Init [Const 0x10C8, Const 0x0025] [''NM2230'', ''MagicMedia 256AV+''],
  Init [Const 0x10C8, Const 0x0083] [''NM2097'', ''Graphic Controller NeoMagic MagicGraph128ZV+''],
  Init [Const 0x10C8, Const 0x8005] [''NM2200'', ''MagicMedia 256AV Audio Device''],
  Init [Const 0x10C8, Const 0x8006] [''NM2360'', ''MagicMedia 256ZX Audio Device''],
  Init [Const 0x10C8, Const 0x8016] [''NM2380'', ''MagicMedia 256XL+ Audio Device''],
  Init [Const 0x10CA, Const 0x9876] [''ROOT'' @ [CHR 0x5C] @ ''MEDIA'' @ [CHR 0x5C] @ ''0000'', ''PCI'' @ [CHR 0x5C] @ ''VEN_8086&DEV_266E&SUBSYS_300A103C''],
  Init [Const 0x10CD, Const 0x1100] [''ASC1100'', ''PCI SCSI Host Adapter''],
  Init [Const 0x10CD, Const 0x1200] [''ASC1200'', ''Fast SCSI-II''],
  Init [Const 0x10CD, Const 0x1300] [''ABP-3925'', ''ABP-3925''],
  Init [Const 0x10CD, Const 0x2300] [''F914C536'', ''PCI Ultra Wide SCSI Host Adapter''],
  Init [Const 0x10CD, Const 0x2500] [''ASC38C0800/1600'', ''PCI Ultra 80/160 SCSI Controllers''],
  Init [Const 0x10CD, Const 0x4000] [''ASC30C0400'', ''IEEE-1394 OHCI PCI Controller''],
  Init [Const 0x10CF, Const 0x10C5] [''FMV-103'', ''Serial Parallel Card''],
  Init [Const 0x10CF, Const 0x2001] [''MB86605'', ''PCI SCSI Host Adapter (Fast Wide SCSI-2)''],
  Init [Const 0x10CF, Const 0x2002] [''MB86606'', ''Fast Wide SCSI Controller''],
  Init [Const 0x10CF, Const 0x2005] [''MB86974'', ''10/100 Fast Ethernet Adapter''],
  Init [Const 0x10CF, Const 0x200C] [''MB86974'', ''IEEE1394 OpenHCI Controller''],
  Init [Const 0x10CF, Const 0x2010] [[], ''OHCI FireWire Controller''],
  Init [Const 0x10CF, Const 0x2011] [''12711718'', ''MPEG2 R-Engine (MPEG2 Hardware Encoder)''],
  Init [Const 0x10CF, Const 0x2019] [''MB86295'', ''Coral-P Graphics Chip''],
  Init [Const 0x10CF, Const 0x201E] [''MB86296'', ''Coral-PA Graphics Chip''],
  Init [Const 0x10CF, Const 0x202A] [''u/k'', ''u/k''],
  Init [Const 0x10CF, Const 0x202B] [''mb86297'', ''Carmine Graphisc adapter''],
  Init [Const 0x10D6, Const 0xFF51] [''0x0100'', ''ATJ2091N''],
  Init [Const 0x10D6, Const 0xFF66] [''0x0100'', ''ATJ2091N''],
  Init [Const 0x1658, Const 0x0704] [''905410B5'', ''DIG 704 PCI - Interface with Millisecond Timer and Interrupts''],
  Init [Const 0x10D9, Const 0x0066] [''MX86101P'', ''sdas''],
  Init [Const 0x10D9, Const 0x0512] [''MX98713'', ''Fast Ethernet Adapter''],
  Init [Const 0x10D9, Const 0x0531] [''MX98715/25'', ''Single Chip Fast Ethernet NIC Controller''],
  Init [Const 0x10D9, Const 0x0532] [''MX98723/727'', ''PCI/CardBus Fast Ethernet Controller''],
  Init [Const 0x10D9, Const 0x0553] [''MX987x5'', ''Ethernet Adapter''],
  Init [Const 0x10D9, Const 0x8625] [''MX86250'', ''xiankasqudong''],
  Init [Const 0x10D9, Const 0x8626] [''MX86251'', ''PCI'' @ [CHR 0x5C] @ ''VEN_10D9&DEV_8626&SUBSYS_00000000&REV_00'' @ [CHR 0x5C] @ ''4&1F7DBC9F&0&08F0 ''],
  Init [Const 0x10D9, Const 0x8627] [''MX86251FC'', ''Voodoo Rush MX86251''],
  Init [Const 0x10D9, Const 0x8888] [''MX86250'', ''9619E''],
  Init [Const 0x10D9, Const 0xC115] [''lc82c115'', '' Linksys LNE100TX ''],
  Init [Const 0x10DC, Const 0x0001] [''STAR/RD24'', ''PCI-SCI  PMC  mezzanine''],
  Init [Const 0x10DC, Const 0x0002] [''ATT 2C15-3 (FPGA)'', ''SCI bridge  on PCI 5 Volt card''],
  Init [Const 0x10DC, Const 0x0004] [''EP20S780'', ''ALTERA STRATIX''],
  Init [Const 0x10DC, Const 0x0010] [''680-1110-150/400'', ''Simple PMC/PCI to S-LINK interface''],
  Init [Const 0x10DC, Const 0x0011] [''680-1110-200/450'', ''Simple S-LINK to PMC/PCI interface''],
  Init [Const 0x10DC, Const 0x0012] [''S32PCI64'', ''32-bit S-LINK to 64-bit PCI interface''],
  Init [Const 0x10DC, Const 0x0021] [[], ''HIPPI destination''],
  Init [Const 0x10DC, Const 0x0022] [[], ''HIPPI source''],
  Init [Const 0x10DC, Const 0x0033] [''EP20KE (APEX-FPGA)'', ''ALICE DDL to  PCI interface (RORC)''],
  Init [Const 0x10DC, Const 0x0101] [''SL651 7057 C200'', ''Acquisition card for the SPS Orbit System (MACI)''],
  Init [Const 0x10DC, Const 0x016A] [''XC4VFX100'', ''CALICE ODR''],
  Init [Const 0x10DC, Const 0x10DC] [''ATT 2C15-3 (FPGA)'', ''TTC sr   first TTC chip receiver PMC''],
  Init [Const 0x10DC, Const 0x301] [''PLX PCI 9030'', ''based on the PLX PCI 9030 to build a MIL1553 bus interface''],
  Init [Const 0x10DC, Const 0x324] [''PLX PCI96556'', ''64 Bit/66MHz PCI to Local Bus Bridge''],
  Init [Const 0x10DC, Const 0x8086] [''a002'', ''geodelink pci south''],
  Init [Const 0x10DD, Const 0x0001] [[], ''3D graphics processor''],
  Init [Const 0x10DE, Malformed ''0x 04EF''] [''NV3'', ''Riva 128''],
  Init [Const 0x10DE, Const 0x0001] [''Lucent 0x00da'', ''SoundMAX Integrated Digital Audio''],
  Init [Const 0x10DE, Const 0x0002] [''0x0002'', ''HDMI Audio Driver Driver''],
  Init [Const 0x10DE, Const 0x0003] [''It seems to be Realtek ALC888/9'', ''nVIDIA High Definition Audio/HDMI ''],
  Init [Const 0x10DE, Const 0x0006] [''Realtek'', ''realtek based HD Audio''],
  Init [Const 0x10DE, Const 0x0008] [''NV1'', ''Edge 3D''],
  Init [Const 0x10DE, Const 0x0009] [''NV1'', ''Edge 3D''],
  Init [Const 0x10DE, Const 0x000B] [''7025'', ''HDMI Audio Driver Driver 1.00.00.59''],
  Init [Const 0x10DE, Const 0x0010] [''NV2'', ''Mutara V08''],
  Init [Const 0x10DE, Const 0x0011] [''Various - see list on site'', ''NVIDIA High Def Audio''],
  Init [Const 0x10DE, Const 0x0018] [''NV3'', ''Riva 128''],
  Init [Const 0x10DE, Const 0x0019] [''NV3'', ''Riva 128ZX''],
  Init [Const 0x10DE, Const 0x001D] [''NV35'', ''nVidia GeForce FX 5900XT''],
  Init [Const 0x10DE, Const 0x0020] [''GTX680M'', ''NVIDIA RIVA TNT''],
  Init [Const 0x10DE, Malformed (''0x0028'' @ [CHR 0x09] @ ''  '' @ [CHR 0x09, CHR 0x09] @ ''NV05'')] [''0DF4 '', ''MCP67 ''],
  Init [Const 0x10DE, Const 0x0028] [''0753'', ''ACPI'' @ [CHR 0x5C] @ ''NSC1200''],
  Init [Const 0x10DE, Const 0x0029] [''NV05'', ''NVIDIA RIVA TNT 2 Ultra''],
  Init [Const 0x10DE, Const 0x002A] [''0df4'', ''TNT2''],
  Init [Const 0x10DE, Const 0x002B] [''NV5'', ''Riva TNT2''],
  Init [Const 0x10DE, Const 0x002C] [''NV05'', ''NVIDIA Vanta/Vanta LT''],
  Init [Const 0x10DE, Const 0x002D] [''NV05'', ''NVIDIA RIVA TNT2 Model 64/Model 64 AGP 32M''],
  Init [Const 0x10DE, Const 0x002E] [''NV6'', ''VANTA''],
  Init [Const 0x10DE, Const 0x002F] [''NV6'', ''VANTA''],
  Init [Const 0x10DE, Const 0x0035] [''MCP04'', ''MCP04 PATA Controller''],
  Init [Const 0x10DE, Const 0x0036] [''MCP04'', ''MCP04 SATA/RAID Controller''],
  Init [Const 0x10DE, Const 0x003E] [''MCP04'', ''MCP04 SATA/RAID Controller''],
  Init [Const 0x10DE, Const 0x0040] [''NV40'', ''NVIDIA GeForce 6800 Ultra''],
  Init [Const 0x10DE, Const 0x0041] [''NV40'', ''NVIDIA GeForce 6800''],
  Init [Const 0x10DE, Const 0x0042] [''NV40'', ''NVIDIA GeForce 6800 LE''],
  Init [Const 0x10DE, Const 0x0043] [''NV40'', ''NVIDIA GeForce 6800 XE''],
  Init [Const 0x10DE, Const 0x0044] [''NV40'', ''NVIDIA GeForce 6800 XT''],
  Init [Const 0x10DE, Const 0x0045] [''NV40'', ''NVIDIA GeForce 6800 GT''],
  Init [Const 0x10DE, Const 0x0046] [''NV45'', ''NVIDIA GeForce 6800 GT''],
  Init [Const 0x10DE, Const 0x0047] [''NV40'', ''NVIDIA GeForce 6800 GS''],
  Init [Const 0x10DE, Const 0x0048] [''NV40'', ''NVIDIA GeForce 6800 XT''],
  Init [Const 0x10DE, Const 0x0049] [''NV40'', ''NVIDIA NV40GL''],
  Init [Const 0x10DE, Const 0x004D] [''NV40'', ''NVIDIA Quadro FX 3400''],
  Init [Const 0x10DE, Const 0x004E] [''NV40'', ''NVIDIA Quadro FX 4000''],
  Init [Const 0x10DE, Const 0x0052] [''NV06'', ''NVIDIA nForce PCI System Management''],
  Init [Const 0x10DE, Const 0x0053] [''CK804'', ''CK804 PATA Controller''],
  Init [Const 0x10DE, Const 0x0054] [''CK804'', ''CK804 SATA/RAID Controller''],
  Init [Const 0x10DE, Const 0x0055] [''CK804'', ''CK804 SATA/RAID Controller''],
  Init [Const 0x10DE, Const 0x0057] [''CK804'', ''NVIDIA Network Bus Enumerator''],
  Init [Const 0x10DE, Const 0x0059] [''sdsd'', ''nForce Audio Controller''],
  Init [Const 0x10DE, Const 0x005E] [''nForce4'', ''nForce4 HyperTransport Bridge''],
  Init [Const 0x10DE, Const 0x0060] [''MCP68'', ''PCI to ISA Bridge''],
  Init [Const 0x10DE, Const 0x0064] [''MCP'', ''SMBus Controller''],
  Init [Const 0x10DE, Const 0x0065] [''nForce MCP2/MCP2-T/MCP2-U'', ''PATA Controller''],
  Init [Const 0x10DE, Const 0x0066] [''nForce MCP2'', ''nForce 2 Networking Controller''],
  Init [Const 0x10DE, Const 0x0067] [''MCP2'', ''Nvidia 7050 chipset HDMI Audio'']]"

lemma PciDevTable_36_facts:
  "length PciDevTable_36 = 150" "rejected PciDevTable_36 = 2" "oversized PciDevTable_36 = 0"
  "vendors PciDevTable_36 \<subseteq> Const ` set vendor_numbers"
  unfolding PciDevTable_36_def count_rows by (simp_all add: part_simps listed vendor_known_list cong: part_cong count_rows_cong)

definition PciDevTable_37 :: "initializer list" where
 "PciDevTable_37 = [
  Init [Const 0x10DE, Const 0x0068] [''MCP2'', ''EHCI USB 2.0 Controller''],
  Init [Const 0x10DE, Const 0x006A] [''MCP2s'', ''nForce AC97s''],
  Init [Const 0x10DE, Const 0x006B] [''nForce MCP-T?'', ''Audio Processing Unit (Dolby Digital)''],
  Init [Const 0x10DE, Const 0x006C] [''nForce'', ''PCI to PCI Bridge''],
  Init [Const 0x10DE, Const 0x006D] [''nForce MCP-T'', ''Audio Codec Interface''],
  Init [Const 0x10DE, Const 0x006E] [''nForce MCP2'', ''OHCI Compliant IEEE 1394 Controller''],
  Init [Const 0x10DE, Const 0x0085] [''MCP2S'', ''MCP2S PATA Controller''],
  Init [Const 0x10DE, Const 0x008C] [''RLT8201BL'', ''Single-Port 10/100M Fast Ethernet PHYceiver''],
  Init [Const 0x10DE, Const 0x008E] [''MCP2S'', ''MCP2S SATA/RAID Controller''],
  Init [Const 0x10DE, Const 0x0090] [''G70'', ''NVIDIA GeForce 7800 GTX''],
  Init [Const 0x10DE, Const 0x0091] [''G70'', ''NVIDIA GeForce 7800 GTX''],
  Init [Const 0x10DE, Const 0x0092] [''G70'', ''NVIDIA GeForce 7800 GT''],
  Init [Const 0x10DE, Const 0x0093] [''G70'', ''NVIDIA GeForce 7800 GS''],
  Init [Const 0x10DE, Const 0x0094] [''G70'', ''NVIDIA GeForce 7800SE/XT/LE/LT/ZT''],
  Init [Const 0x10DE, Const 0x0095] [''G70'', ''NVIDIA GeForce 7800 SLI''],
  Init [Const 0x10DE, Const 0x0098] [''G70'', ''NVIDIA GeForce Go 7800''],
  Init [Const 0x10DE, Const 0x0099] [''G70'', ''NVIDIA GeForce Go 7800 GTX''],
  Init [Const 0x10DE, Const 0x009C] [''G70'', ''NVIDIA Quadro FX 350M''],
  Init [Const 0x10DE, Const 0x009D] [''G70'', ''NVIDIA Quadro FX 4500''],
  Init [Const 0x10DE, Const 0x009E] [''G70'', ''NVIDIA G70GL''],
  Init [Const 0x10DE, Const 0x00A0] [''NV10de'', ''Aladdin TNT2''],
  Init [Const 0x10DE, Const 0x00C0] [''NV41'', ''NVIDIA GeForce 6800 GS''],
  Init [Const 0x10DE, Const 0x00C1] [''NV41'', ''NVIDIA GeForce 6800''],
  Init [Const 0x10DE, Const 0x00C2] [''NV41'', ''NVIDIA GeForce 6800 LE''],
  Init [Const 0x10DE, Const 0x00C3] [''NV41'', ''NVIDIA GeForce 6800 XT''],
  Init [Const 0x10DE, Const 0x00C8] [''NV41.8'', ''NVIDIA GeForce Go 6800''],
  Init [Const 0x10DE, Const 0x00C9] [''NV41'', ''NVIDIA GeForce Go 6800 Ultra''],
  Init [Const 0x10DE, Const 0x00CC] [''NV41'', ''NVIDIA Quadro FX Go 1400''],
  Init [Const 0x10DE, Const 0x00CD] [''NV41'', ''NVIDIA Quadro FX 3450/4000 SDI''],
  Init [Const 0x10DE, Const 0x00CE] [''NV41'', ''NVIDIA Quadro FX 1400''],
  Init [Const 0x10DE, Const 0x00D0] [''nForce 3'', ''LPC Bridge''],
  Init [Const 0x10DE, Const 0x00D1] [''nForce 3'', ''Host Bridge''],
  Init [Const 0x10DE, Const 0x00D2] [''nForce 3?'', ''PCI-to-PCI Bridge''],
  Init [Const 0x10DE, Const 0x00D4] [''MCP2'', ''SMBus Controller''],
  Init [Const 0x10DE, Const 0x00D5] [''nForce3-150'', ''CK8 PATA 133/PATA to SATA Bridge''],
  Init [Const 0x10DE, Const 0x00D6] [''MCP3'', ''nForce 3 Networking Controller''],
  Init [Const 0x10DE, Const 0x00D7] [''nForce MCP3?'', ''OpenHCD USB Host Controller''],
  Init [Const 0x10DE, Const 0x00D8] [''nForce MCP3?'', ''Enhanced PCI to USB Host Controller''],
  Init [Const 0x10DE, Const 0x00D9] [''nForce 3'', ''Agere System PCI Soft Modem''],
  Init [Const 0x10DE, Const 0x00DA] [''MCP3'', ''AC97 Audio Controller''],
  Init [Const 0x10DE, Const 0x00DD] [''nForce MCP3?'', ''PCI-to-PCI Bridge''],
  Init [Const 0x10DE, Const 0x00DF] [''MCP73'', ''nForce 7 Networking Contr''],
  Init [Const 0x10DE, Const 0x00E0] [''nForce3 250'', ''LPC Interface Bridge''],
  Init [Const 0x10DE, Const 0x00E1] [''nForce3 250'', ''Host/PCI Bridge''],
  Init [Const 0x10DE, Const 0x00E2] [''nForce 8400 M'', ''AGP Host to PCI Bridge''],
  Init [Const 0x10DE, Const 0x00E3] [''nForce 250'', ''CK8S SATA/RAID Controller''],
  Init [Const 0x10DE, Const 0x00E4] [''nForce3 200'', ''PCI System Management''],
  Init [Const 0x10DE, Const 0x00E5] [''nForce3 250'', ''Parallel ATA Controller''],
  Init [Const 0x10DE, Const 0x00E7] [''nForce3 250'', ''OpenHCD USB Controller''],
  Init [Const 0x10DE, Const 0x00E8] [''nForce3 250'', ''Enhanced PCI to USB Controller''],
  Init [Const 0x10DE, Const 0x00EA] [''nForce3 250 '', ''Audio Codec Interface (Realtek ALC658)''],
  Init [Const 0x10DE, Const 0x00ED] [''nForce gt 220'', ''PCI-PCI Bridge''],
  Init [Const 0x10DE, Const 0x00EE] [''nForce 250'', ''CK8S SATA/RAID Controller''],
  Init [Const 0x10DE, Const 0x00F0] [''BR02'', ''NVIDIA Device''],
  Init [Const 0x10DE, Const 0x00F1] [''BR02'', ''NVIDIA GeForce 6600 GT''],
  Init [Const 0x10DE, Const 0x00F2] [''BR02'', ''NVIDIA GeForce 6600''],
  Init [Const 0x10DE, Const 0x00F3] [''BR02'', ''NVIDIA GeForce 6200''],
  Init [Const 0x10DE, Const 0x00F4] [''BR02'', ''NVIDIA GeForce 6600 gt''],
  Init [Const 0x10DE, Const 0x00F5] [''BR02'', ''NVIDIA GeForce 7800 GS''],
  Init [Const 0x10DE, Const 0x00F6] [''BR02'', ''NVIDIA GeForce 6800 GS/XT''],
  Init [Const 0x10DE, Const 0x00F8] [''BR02'', ''NVIDIA Quadro FX 3400/4400''],
  Init [Const 0x10DE, Const 0x00F9] [''BR02'', ''NVIDIA GeForce 6800 Series GPU''],
  Init [Const 0x10DE, Const 0x00FA] [''BR02'', ''NVIDIA GeForce PCX 5750''],
  Init [Const 0x10DE, Const 0x00FB] [''BR02'', ''NVIDIA GeForce PCX 5900''],
  Init [Const 0x10DE, Const 0x00FC] [''BR02'', ''NVIDIA GeForce PCX 5300''],
  Init [Const 0x10DE, Const 0x00FD] [''BR02'', ''NVIDIA Quadro PCI-E Series''],
  Init [Const 0x10DE, Const 0x00FE] [''BR02'', ''NVIDIA Quadro FX 1300''],
  Init [Const 0x10DE, Const 0x00FF] [''BR02'', ''NVIDIA GeForce PCX 4300''],
  Init [Const 0x10DE, Const 0x0100] [''NV10'', ''HDAUDIO'' @ [CHR 0x5C] @ ''FUNC_01&VEN_10EC&DEV_0269&SUBSYS_11790644&REV_1002'' @ [CHR 0x5C] @ ''4&1422899C&0&0001''],
  Init [Const 0x10DE, Const 0x0101] [''NV10'', ''NVIDIA GeForce DDR''],
  Init [Const 0x10DE, Const 0x0102] [''NV10'', ''GeForce 256 Ultra''],
  Init [Const 0x10DE, Const 0x0103] [''NV10'', ''NVIDIA Quadro''],
  Init [Const 0x10DE, Const 0x0110] [''NV12'', ''NVIDIA GeForce2 MX/MX 400''],
  Init [Const 0x10DE, Const 0x0111] [''NV11'', ''NVIDIA GeForce2 MX 100/200''],
  Init [Const 0x10DE, Const 0x0112] [''NV11'', ''NVIDIA GeForce2 Go''],
  Init [Const 0x10DE, Malformed ''0x0112h''] [''???'', ''Nvidia GeForce2 Go/MX Ultra Video Adapter''],
  Init [Const 0x10DE, Const 0x0113] [''NV11'', ''NVIDIA Quadro2 MXR/EX''],
  Init [Const 0x10DE, Const 0x0140] [''NV43'', ''NVIDIA GeForce 6600 GT''],
  Init [Const 0x10DE, Const 0x0141] [''NV43'', ''nVIDIA GeForce 6600 PCI-E Video Adapter''],
  Init [Const 0x10DE, Const 0x0142] [''NV43'', ''NVIDIA GeForce 6600 LE''],
  Init [Const 0x10DE, Const 0x0143] [''NV43'', ''NVIDIA GeForce 6600 VE''],
  Init [Const 0x10DE, Const 0x0144] [''NV43'', ''NVIDIA GeForce Go 6600''],
  Init [Const 0x10DE, Const 0x0145] [''NV43'', ''NVIDIA GeForce 6610 XL''],
  Init [Const 0x10DE, Const 0x0146] [''NV43'', ''NVIDIA GeForce Go 6200 TE/6600 TE''],
  Init [Const 0x10DE, Const 0x0147] [''NV43'', ''NVIDIA GeForce 6700 XL''],
  Init [Const 0x10DE, Const 0x0148] [''NV43'', ''NVIDIA GeForce Go 6600''],
  Init [Const 0x10DE, Const 0x0149] [''NV43'', ''NVIDIA GeForce Go 6600 GT''],
  Init [Const 0x10DE, Const 0x014A] [''NV43'', ''NVIDIA Quadro NVS 440''],
  Init [Const 0x10DE, Const 0x014B] [''NV43'', ''NVIDIA NV43''],
  Init [Const 0x10DE, Const 0x014C] [''NV43'', ''NVIDIA Quadro FX 540M''],
  Init [Const 0x10DE, Const 0x014D] [''NV43'', ''NVIDIA Quadro FX 550''],
  Init [Const 0x10DE, Const 0x014E] [''NV43'', ''NVIDIA Quadro FX 540''],
  Init [Const 0x10DE, Const 0x014F] [''NV43'', ''NVIDIA GeForce 6200''],
  Init [Const 0x10DE, Const 0x0150] [''NV15'', ''NVIDIA GeForce2 GTS/GeForce2 Pro''],
  Init [Const 0x10DE, Const 0x0151] [''NV15'', ''NVIDIA GeForce2 Ti''],
  Init [Const 0x10DE, Const 0x0152] [''NV15'', ''NVIDIA GeForce2 Ultra''],
  Init [Const 0x10DE, Const 0x0153] [''NV15'', ''NVIDIA Quadro2 Pro''],
  Init [Const 0x10DE, Const 0x016] [''1'', ''1''],
  Init [Const 0x10DE, Const 0x0160] [''NV44'', ''NVIDIA GeForce 6500 ''],
  Init [Const 0x10DE, Const 0x0161] [''NV44'', ''NVIDIA GeForce 6200 TurboCache(TM)''],
  Init [Const 0x10DE, Const 0x0162] [''NV44'', ''NVIDIA GeForce 6200SE TurboCache(TM)''],
  Init [Const 0x10DE, Const 0x0163] [''NV44'', ''NVIDIA GeForce 6200 LE''],
  Init [Const 0x10DE, Const 0x0164] [''NV44'', ''NVIDIA NV44''],
  Init [Const 0x10DE, Const 0x0165] [''NV44'', ''NVIDIA Quadro NVS 285''],
  Init [Const 0x10DE, Const 0x0166] [''NV44'', ''NVIDIA GeForce Go 6250''],
  Init [Const 0x10DE, Const 0x0167] [''NV44'', ''NVIDIA GeForce Go 6200''],
  Init [Const 0x10DE, Const 0x0168] [''NV44'', ''NVIDIA GeForce Go 6400''],
  Init [Const 0x10DE, Const 0x0169] [''NV44'', ''NVIDIA GeForce 6250''],
  Init [Const 0x10DE, Const 0x016A] [''NV44'', ''NVIDIA GeForce 7100 GS''],
  Init [Const 0x10DE, Const 0x016B] [''NV44'', ''NVIDIA NV44GLM''],
  Init [Const 0x10DE, Const 0x016C] [''NV44'', ''NVIDIA NV44GLM''],
  Init [Const 0x10DE, Const 0x016D] [''NV44'', ''NVIDIA NV44GLM''],
  Init [Const 0x10DE, Const 0x016E] [''NV44'', ''NVIDIA NV44GL''],
  Init [Const 0x10DE, Const 0x0170] [''NV17'', ''NVIDIA GeForce4 MX 460''],
  Init [Const 0x10DE, Const 0x0171] [''NV17'', ''NVIDIA GeForce4 MX 440 with AGP 4X 64mb''],
  Init [Const 0x10DE, Const 0x0172] [''NV17'', ''NVIDIA GeForce4 MX 420''],
  Init [Const 0x10DE, Const 0x0173] [''NV17'', ''NVIDIA GeForce4 MX 440-SE''],
  Init [Const 0x10DE, Const 0x0174] [''NV17'', ''NVIDIA GeForce4 MX 440 Go''],
  Init [Const 0x10DE, Const 0x0175] [''NV17'', ''NVIDIA GeForce4 MX 420 Go''],
  Init [Const 0x10DE, Const 0x0176] [''NV17'', ''NVIDIA GeForce4 MX 420 Go 32M''],
  Init [Const 0x10DE, Const 0x0177] [''NV17'', ''NVIDIA GeForce4 460 Go''],
  Init [Const 0x10DE, Const 0x0178] [''NV17'', ''NVIDIA Quadro4 550 XGL''],
  Init [Const 0x10DE, Const 0x0179] [''NV17.2'', ''NVIDIA GeForce4 MX 440 Go 64M''],
  Init [Const 0x10DE, Const 0x017A] [''NV17'', ''NVIDIA Quadro NVS''],
  Init [Const 0x10DE, Const 0x017B] [''NV17GL.3'', ''Quadro4 550 XGL''],
  Init [Const 0x10DE, Const 0x017C] [''NV17'', ''NVIDIA Quadro4 500 Go GL''],
  Init [Const 0x10DE, Const 0x017D] [''NV17'', ''NVIDIA GeForce4 410 Go 16M''],
  Init [Const 0x10DE, Const 0x0181] [''NV18'', ''NVIDIA GeForce4 MX 440 with AGP8X''],
  Init [Const 0x10DE, Const 0x0182] [''NV18'', ''NVIDIA GeForce4 MX 440SE with AGP8X''],
  Init [Const 0x10DE, Const 0x0183] [''NV18'', ''NVIDIA GeForce4 MX 420 with AGP8X''],
  Init [Const 0x10DE, Const 0x0185] [''NV18'', ''NVIDIA GeForce4 MX 4000 128 mb 64 bit''],
  Init [Const 0x10DE, Const 0x0186] [''NV18'', ''NVIDIA GeForce4 448 Go''],
  Init [Const 0x10DE, Const 0x0187] [''NV18'', ''NVIDIA GeForce4000 Go''],
  Init [Const 0x10DE, Const 0x0188] [''NV18'', ''NVIDIA Quadro4 580 XGL''],
  Init [Const 0x10DE, Const 0x018A] [''NV18'', ''NVIDIA Quadro NVS with AGP8X''],
  Init [Const 0x10DE, Const 0x018B] [''NV18'', ''NVIDIA Quadro4 380 XGL''],
  Init [Const 0x10DE, Const 0x018C] [''NV18'', ''NVIDIA Quadro NVS 50 PCI''],
  Init [Const 0x10DE, Const 0x018D] [''NV18'', ''NVIDIA GeForce4 448 Go''],
  Init [Const 0x10DE, Const 0x0191] [''G80'', ''NVIDIA GeForce 8800 GTX''],
  Init [Const 0x10DE, Const 0x0193] [''G80'', ''NVIDIA GeForce 8800 GTS''],
  Init [Const 0x10DE, Const 0x0194] [''G80'', ''NVIDIA GeForce 8800 Ultra''],
  Init [Const 0x10DE, Const 0x0197] [''G80'', ''NVIDIA Tesla C870''],
  Init [Const 0x10DE, Const 0x019D] [''G80'', ''NVIDIA Quadro FX 5600''],
  Init [Const 0x10DE, Const 0x019E] [''G80'', ''NVIDIA Quadro FX 4600''],
  Init [Const 0x10DE, Const 0x01A0] [''CR11'', ''NVIDIA GeForce2 Integrated GPU''],
  Init [Const 0x10DE, Const 0x01A4] [''nForce'', ''AGP Controller''],
  Init [Const 0x10DE, Const 0x01A5] [''nForce'', ''AGP Controller''],
  Init [Const 0x10DE, Const 0x01A6] [''nForce'', ''AGP Controller''],
  Init [Const 0x10DE, Const 0x01A8] [''nForce 210'', ''Memory Controller (SDR) ddr3''],
  Init [Const 0x10DE, Const 0x01A9] [''nForce 420'', ''Memory Controller (SDR)'']]"

lemma PciDevTable_37_facts:
  "length PciDevTable_37 = 150" "rejected PciDevTable_37 = 1" "oversized PciDevTable_37 = 0"
  "vendors PciDevTable_37 \<subseteq> Const ` set vendor_numbers"
  unfolding PciDevTable_37_def count_rows by (simp_all add: part_simps listed vendor_known_list cong: part_cong count_rows_cong)

definition PciDevTable_38 :: "initializer list" where
 "PciDevTable_38 = [
  Init [Const 0x10DE, Const 0x01AA] [''nForce 220/230'', ''Memory Controller (DDR)''],
  Init [Const 0x10DE, Const 0x01AB] [''nForce 415/420/430'', ''Memory Controller (DDR)''],
  Init [Const 0x10DE, Const 0x01AC] [''nForce 2x0/415/4x0'', ''Memory Controller''],
  Init [Const 0x10DE, Const 0x01AD] [''nForce 2x0/415/4x0'', ''Memory Controller''],
  Init [Const 0x10DE, Const 0x01B0] [''MCP73'', ''nForce Dolby Digital Audio Controller''],
  Init [Const 0x10DE, Const 0x01B1] [''MCP3'', ''nForce AC'' @ [CHR 0x27] @ ''97 Audio Controller''],
  Init [Const 0x10DE, Const 0x01B2] [''nForce'', ''HUB Interface''],
  Init [Const 0x10DE, Const 0x01B4] [''MCP'', ''nForce 1/2 SMBus Controller''],
  Init [Const 0x10DE, Const 0x01B7] [''nForce'', ''AGP Bridge''],
  Init [Const 0x10DE, Const 0x01B8] [''nForce'', ''PCI Bridge''],
  Init [Const 0x10DE, Const 0x01BC] [''MCP'', ''nForce IDE/ATA Controller''],
  Init [Const 0x10DE, Const 0x01C1] [''nForce MCP'', ''AC97 Modem''],
  Init [Const 0x10DE, Const 0x01C2] [''MCP'', ''OHCI USB Controller''],
  Init [Const 0x10DE, Const 0x01C3] [''MCP73 ethernet'', ''nForce Networking Controller''],
  Init [Const 0x10DE, Const 0x01D0] [''G72'', ''NVIDIA GeForce 7350 LE''],
  Init [Const 0x10DE, Const 0x01D1] [''G72'', ''NVIDIA GeForce 7300 LE''],
  Init [Const 0x10DE, Const 0x01D2] [''G72'', ''NVIDIA GeForce 7550 LE''],
  Init [Const 0x10DE, Const 0x01D3] [''G7200'', ''NVIDIA GeForce 7300 SE/7200 GS''],
  Init [Const 0x10DE, Const 0x01D5] [''G72'', ''NVIDIA GeForce 7300 LE''],
  Init [Const 0x10DE, Const 0x01D7] [''G72'', ''NVIDIA GeForce Go 7300''],
  Init [Const 0x10DE, Const 0x01D8] [''G72'', ''NVIDIA GeForce Go 7400''],
  Init [Const 0x10DE, Const 0x01DB] [''G72'', ''NVIDIA Quadro NVS 120M''],
  Init [Const 0x10DE, Const 0x01DC] [''G72'', ''NVIDIA Quadro FX 350M''],
  Init [Const 0x10DE, Const 0x01DD] [''G72'', ''NVIDIA GeForce 7500 LE''],
  Init [Const 0x10DE, Const 0x01DE] [''G72'', ''NVIDIA Quadro FX 350''],
  Init [Const 0x10DE, Const 0x01DF] [''G72'', ''NVIDIA GeForce 7300 GS''],
  Init [Const 0x10DE, Const 0x01E0] [''nForce2'', ''AGP Controller''],
  Init [Const 0x10DE, Const 0x01E1] [''nForce2'', ''AGP Controller''],
  Init [Const 0x10DE, Const 0x01E8] [''nForce2'', ''AGP Host to PCI Bridge''],
  Init [Const 0x10DE, Const 0x01EA] [''nForce2'', ''Memory Controller 0''],
  Init [Const 0x10DE, Const 0x01EB] [''nForce2'', ''Memory Controller 1''],
  Init [Const 0x10DE, Const 0x01EC] [''nForce2'', ''Memory Controller 2''],
  Init [Const 0x10DE, Const 0x01ED] [''nForce2'', ''Memory Controller 3''],
  Init [Const 0x10DE, Const 0x01EE] [''nForce2'', ''Memory Controller 4''],
  Init [Const 0x10DE, Const 0x01EF] [''nForce2'', ''Memory Controller 5''],
  Init [Const 0x10DE, Const 0x01F0] [''CR17'', ''NVIDIA GeForce4 MX Integrated GPU''],
  Init [Const 0x10DE, Const 0x0200] [''NV20'', ''NVIDIA GeForce3''],
  Init [Const 0x10DE, Const 0x0201] [''NV20'', ''NVIDIA GeForce3 Ti 200''],
  Init [Const 0x10DE, Const 0x0202] [''NV20'', ''NVIDIA GeForce3 Ti 500''],
  Init [Const 0x10DE, Const 0x0203] [''NV20'', ''NVIDIA Quadro DCC''],
  Init [Const 0x10DE, Const 0x0210] [''NV48'', ''NVIDIA NV48''],
  Init [Const 0x10DE, Const 0x0211] [''NV48'', ''NVIDIA GeForce 6800''],
  Init [Const 0x10DE, Const 0x0212] [''NV48'', ''NVIDIA GeForce 6800 LE''],
  Init [Const 0x10DE, Const 0x0215] [''NV48'', ''NVIDIA GeForce 6800 GT''],
  Init [Const 0x10DE, Const 0x0218] [''NV48'', ''NVIDIA GeForce 6800 XT''],
  Init [Const 0x10DE, Const 0x0220] [''NV44'', ''NVIDIA NV44''],
  Init [Const 0x10DE, Const 0x0221] [''NV44'', ''nVidia Geforce 6200 AGP''],
  Init [Const 0x10DE, Const 0x0222] [''NV44'', ''NVIDIA GeForce 6200 A-LE''],
  Init [Const 0x10DE, Const 0x0228] [''NV44'', ''NVIDIA NV44M''],
  Init [Const 0x10DE, Const 0x0240] [''C51'', ''NVIDIA GeForce 6150''],
  Init [Const 0x10DE, Const 0x0241] [''C51'', ''NVIDIA GeForce 6150 LE''],
  Init [Const 0x10DE, Const 0x0242] [''C51'', ''NVIDIA GeForce 6100''],
  Init [Const 0x10DE, Const 0x0243] [''C51'', ''PCI Express Bridge''],
  Init [Const 0x10DE, Const 0x0244] [''Geforce Go 7600'', ''Geforce Go 6150''],
  Init [Const 0x10DE, Const 0x0245] [''C51'', ''NVIDIA Quadro NVS 210S / NVIDIA GeForce 6150LE''],
  Init [Const 0x10DE, Const 0x0246] [''C51'', ''PCI Express Bridge''],
  Init [Const 0x10DE, Const 0x0247] [''C51'', ''Geforce 6100 Go''],
  Init [Const 0x10DE, Const 0x0248] [''C51'', ''PCI Express Bridge''],
  Init [Const 0x10DE, Const 0x0249] [''C51'', ''PCI Express Bridge''],
  Init [Const 0x10DE, Const 0x024A] [''C51'', ''PCI Express Bridge''],
  Init [Const 0x10DE, Const 0x024B] [''C51'', ''PCI Express Bridge''],
  Init [Const 0x10DE, Const 0x024C] [''C51'', ''PCI Express Bridge''],
  Init [Const 0x10DE, Const 0x024D] [''C51'', ''PCI Express Bridge''],
  Init [Const 0x10DE, Const 0x024E] [''C51'', ''PCI Express Bridge''],
  Init [Const 0x10DE, Const 0x024F] [''C51'', ''PCI Express Bridge''],
  Init [Const 0x10DE, Const 0x0250] [''NV25'', ''NVIDIA GeForce4 Ti 4600''],
  Init [Const 0x10DE, Const 0x0251] [''NV25'', ''NVIDIA GeForce4 Ti 4400''],
  Init [Const 0x10DE, Const 0x0252] [''NV25'', ''NVIDIA GeForce4 Ti''],
  Init [Const 0x10DE, Const 0x0253] [''NV25'', ''NVIDIA GeForce4 Ti 4200''],
  Init [Const 0x10DE, Const 0x0258] [''NV25'', ''NVIDIA Quadro4 900 XGL''],
  Init [Const 0x10DE, Const 0x0259] [''NV25'', ''NVIDIA Quadro4 750 XGL''],
  Init [Const 0x10DE, Const 0x025B] [''NV25'', ''NVIDIA Quadro4 700 XGL''],
  Init [Const 0x10DE, Const 0x0264] [''NVIDIA SMB Bus Controller'', ''NVIDIA motherboard nForce 430 ( MCP-51 ) with Built-In Geforce 6150 GPU''],
  Init [Const 0x10DE, Const 0x0265] [''MCP51'', ''PATA Controller''],
  Init [Const 0x10DE, Const 0x0266] [''MCP51S'', ''NVIDIA nForce 430/410 Serial ATA Controller''],
  Init [Const 0x10DE, Const 0x0267] [''MCP51S'', ''NVIDIA nForce 430/410 Serial ATA Controller''],
  Init [Const 0x10DE, Const 0x0268] [''MCP51'', ''NVIDIA nForce Networking Controller''],
  Init [Const 0x10DE, Const 0x0269] [''MCP51'', ''Ethernet Controller ''],
  Init [Const 0x10DE, Const 0x026B] [''MCP51'', ''MCP51 AC'' @ [CHR 0x27] @ ''97 Audio ''],
  Init [Const 0x10DE, Const 0x026C] [''MCP51'', ''Realtek HD Audio Driver''],
  Init [Const 0x10DE, Const 0x026E] [''MCP51 USB Controller (EHCI) '', ''MCP51 USB Controller''],
  Init [Const 0x10DE, Const 0x0271] [''nForce'', ''Coprocessor''],
  Init [Const 0x10DE, Const 0x0280] [''NV28'', ''NVIDIA GeForce4 Ti 4800''],
  Init [Const 0x10DE, Const 0x0281] [''NV28'', ''NVIDIA GeForce4 Ti 4200 with AGP8X''],
  Init [Const 0x10DE, Const 0x0282] [''NV28'', ''NVIDIA GeForce4 Ti 4800 SE''],
  Init [Const 0x10DE, Const 0x0286] [''NV25'', ''NVIDIA GeForce4 4200 Go''],
  Init [Const 0x10DE, Const 0x0288] [''NV28'', ''NVIDIA Quadro4 980 XGL''],
  Init [Const 0x10DE, Const 0x0289] [''NV28'', ''NVIDIA Quadro4 780 XGL''],
  Init [Const 0x10DE, Const 0x028C] [''NV28'', ''NVIDIA Quadro4 700 Go GL''],
  Init [Const 0x10DE, Const 0x0290] [''G71'', ''NVIDIA GeForce 7900 GTX''],
  Init [Const 0x10DE, Const 0x0291] [''G71'', ''NVIDIA GeForce 7900 GT/GTO''],
  Init [Const 0x10DE, Const 0x0292] [''G71'', ''NVIDIA GeForce 7900 GS''],
  Init [Const 0x10DE, Const 0x0293] [''G71'', ''NVIDIA GeForce 7950 GX2''],
  Init [Const 0x10DE, Const 0x0294] [''G71'', ''NVIDIA GeForce 7950 GX2''],
  Init [Const 0x10DE, Const 0x0295] [''G71'', ''NVIDIA GeForce 7950 GT''],
  Init [Const 0x10DE, Const 0x0297] [''G71'', ''NVIDIA GeForce Go 7950 GTX''],
  Init [Const 0x10DE, Const 0x0298] [''G71'', ''NVIDIA GeForce Go 7900 GS''],
  Init [Const 0x10DE, Const 0x0299] [''G71'', ''NVIDIA GeForce Go 7900 GTX''],
  Init [Const 0x10DE, Const 0x029B] [''G71'', ''NVIDIA Quadro FX 1500M''],
  Init [Const 0x10DE, Const 0x029C] [''G71'', ''NVIDIA Quadro FX 5500''],
  Init [Const 0x10DE, Const 0x029D] [''G71'', ''NVIDIA Quadro FX 3500''],
  Init [Const 0x10DE, Const 0x029E] [''G71'', ''NVIDIA Quadro FX 1500''],
  Init [Const 0x10DE, Const 0x029F] [''G71'', ''NVIDIA Quadro FX 4500 X2''],
  Init [Const 0x10DE, Const 0x02A0] [''NV2A'', ''NVIDIA NV2A GeForce 3 Integrated (XBOX)''],
  Init [Const 0x10DE, Const 0x02E0] [''BR02'', ''NVIDIA GeForce 7600 GT''],
  Init [Const 0x10DE, Const 0x02E1] [''BR02'', ''NVIDIA GeForce 7600 GS''],
  Init [Const 0x10DE, Const 0x02E2] [''BR02'', ''NVIDIA GeForce 7300 GT''],
  Init [Const 0x10DE, Const 0x02E3] [''BR02'', ''NVIDIA GeForce 7900 GS''],
  Init [Const 0x10DE, Const 0x02E4] [''BR02'', ''NVIDIA GeForce 7950 GT''],
  Init [Const 0x10DE, Const 0x0300] [''NV30'', ''NVIDIA NV30''],
  Init [Const 0x10DE, Const 0x0301] [''NV30'', ''NVIDIA GeForce FX 5800 Ultra''],
  Init [Const 0x10DE, Const 0x0302] [''NV30'', ''NVIDIA GeForce FX 5800''],
  Init [Const 0x10DE, Const 0x0308] [''NV30'', ''NVIDIA Quadro FX 2000''],
  Init [Const 0x10DE, Const 0x0309] [''NV30'', ''NVIDIA Quadro FX 1000''],
  Init [Const 0x10DE, Const 0x030A] [''NV30'', ''NVIDIA ICE FX 2000''],
  Init [Const 0x10DE, Const 0x0311] [''NV31'', ''NVIDIA GeForce FX 5600 Ultra''],
  Init [Const 0x10DE, Const 0x0312] [''NV31'', ''NVIDIA GeForce FX 5600''],
  Init [Const 0x10DE, Const 0x0313] [''NV31'', ''NVIDIA NV31''],
  Init [Const 0x10DE, Const 0x0314] [''NV31'', ''NVIDIA GeForce FX 5600XT''],
  Init [Const 0x10DE, Const 0x0316] [''NV31'', ''NVIDIA NV31M''],
  Init [Const 0x10DE, Const 0x0317] [''NV31'', ''NVIDIA NV31M Pro''],
  Init [Const 0x10DE, Const 0x0318] [''NV31'', ''NVIDIA NV31GL''],
  Init [Const 0x10DE, Const 0x0319] [''NV31'', ''NVIDIA NV31GL''],
  Init [Const 0x10DE, Const 0x031A] [''NV31'', ''NVIDIA GeForce FX Go 5600''],
  Init [Const 0x10DE, Const 0x031B] [''NV31'', ''NVIDIA GeForce FX Go 5650''],
  Init [Const 0x10DE, Const 0x031C] [''NV31'', ''NVIDIA Quadro FX Go 700''],
  Init [Const 0x10DE, Const 0x031D] [''NV31'', ''NVIDIA NV31GLM''],
  Init [Const 0x10DE, Const 0x031E] [''NV31'', ''NVIDIA NV31GLM Pro''],
  Init [Const 0x10DE, Const 0x031F] [''NV31'', ''NVIDIA NV31GLM Pro''],
  Init [Const 0x10DE, Const 0x0320] [''NV34'', ''NVIDIA GeForce FX 5200''],
  Init [Const 0x10DE, Const 0x0321] [''NV34'', ''NVIDIA GeForce FX 5200 Ultra''],
  Init [Const 0x10DE, Const 0x0322] [''NV34.3'', ''NVIDIA GeForce FX 5200''],
  Init [Const 0x10DE, Const 0x0323] [''NV34'', ''NVIDIA GeForce FX 5200LE''],
  Init [Const 0x10DE, Const 0x0324] [''NV34'', ''NVIDIA GeForce FX Go 5200''],
  Init [Const 0x10DE, Const 0x0325] [''NV34'', ''NVIDIA GeForce FX Go 5250/5500''],
  Init [Const 0x10DE, Const 0x0326] [''NV34'', ''NVIDIA GeForce GTX 550 Ti''],
  Init [Const 0x10DE, Const 0x0327] [''NV34'', ''NVIDIA GeForce FX 5100''],
  Init [Const 0x10DE, Const 0x0328] [''NV34'', ''NVIDIA GeForce FX Go 5200 32/64M''],
  Init [Const 0x10DE, Const 0x0329] [''NV34'', ''NVIDIA NV34MAP''],
  Init [Const 0x10DE, Const 0x032A] [''NV34'', ''NVIDIA Quadro NVS 55/280 PCI''],
  Init [Const 0x10DE, Const 0x032B] [''NV34'', ''NVIDIA Quadro FX 500/FX 600''],
  Init [Const 0x10DE, Const 0x032C] [''NV34'', ''NVIDIA GeForce FX Go 53x0''],
  Init [Const 0x10DE, Const 0x032D] [''NV34'', ''NVIDIA GeForce FX Go 5100''],
  Init [Const 0x10DE, Const 0x032F] [''NV34'', ''NVIDIA NV34GL''],
  Init [Const 0x10DE, Const 0x0330] [''NV35'', ''NVIDIA GeForce FX 5900 Ultra''],
  Init [Const 0x10DE, Const 0x0331] [''NV35'', ''NVIDIA GeForce FX 5900''],
  Init [Const 0x10DE, Const 0x0332] [''NV35'', ''NVIDIA GeForce FX 5900XT''],
  Init [Const 0x10DE, Const 0x0333] [''NV35'', ''NVIDIA GeForce FX 5950 Ultra''],
  Init [Const 0x10DE, Const 0x0334] [''NV35'', ''NVIDIA GeForce FX 5900ZT''],
  Init [Const 0x10DE, Const 0x0338] [''NV35'', ''NVIDIA Quadro FX 3000'']]"

lemma PciDevTable_38_facts:
  "length PciDevTable_38 = 150" "rejected PciDevTable_38 = 0" "oversized PciDevTable_38 = 0"
  "vendors PciDevTable_38 \<subseteq> Const ` set vendor_numbers"
  unfolding PciDevTable_38_def count_rows by (simp_all add: part_simps listed vendor_known_list cong: part_cong count_rows_cong)

definition PciDevTable_39 :: "initializer list" where
 "PciDevTable_39 = [
  Init [Const 0x10DE, Const 0x033F] [''NV35'', ''NVIDIA Quadro FX 700''],
  Init [Const 0x10DE, Const 0x0341] [''NV36'', ''NVIDIA GeForce FX 5700 Ultra''],
  Init [Const 0x10DE, Const 0x0342] [''NV36'', ''NVIDIA GeForce FX 5700''],
  Init [Const 0x10DE, Const 0x0343] [''NV36'', ''NVIDIA GeForce FX 5700LE''],
  Init [Const 0x10DE, Const 0x0344] [''NV36'', ''NVIDIA GeForce FX 5700VE''],
  Init [Const 0x10DE, Const 0x0345] [''NV36'', ''NVIDIA NV36''],
  Init [Const 0x10DE, Const 0x0347] [''NV36'', ''NVIDIA GeForce FX Go 5700''],
  Init [Const 0x10DE, Const 0x0348] [''NV36'', ''NVIDIA GeForce FX Go 5700''],
  Init [Const 0x10DE, Const 0x0349] [''NV36'', ''NVIDIA NV36M Pro''],
  Init [Const 0x10DE, Const 0x034B] [''NV36'', ''NVIDIA NV36MAP''],
  Init [Const 0x10DE, Const 0x034C] [''NV36'', ''NVIDIA Quadro FX Go 1000''],
  Init [Const 0x10DE, Const 0x034E] [''NV36'', ''NVIDIA Quadro FX 1100''],
  Init [Const 0x10DE, Const 0x034F] [''NV36'', ''NVIDIA NV36GL''],
  Init [Const 0x10DE, Const 0x0368] [''(0xCB84 integrated chip nForce Pro 3400)'', ''SMBus controller''],
  Init [Const 0x10DE, Const 0x036C] [''81FB1043'', ''Standard OpenHCD USB Hostcontroller''],
  Init [Const 0x10DE, Const 0x036D] [''81FB1043'', ''Standard PCI-to-USB Enhanced Hostcontroller''],
  Init [Const 0x10DE, Const 0x036E] [''MCP55'', ''MCP55 PATA Controller''],
  Init [Const 0x10DE, Const 0x036F] [''MCP55'', ''MCP55 SATA/RAID Controller''],
  Init [Const 0x10DE, Const 0x0371] [''MCP55'', ''High Definition Audio Controller''],
  Init [Const 0x10DE, Const 0x0373] [''rev.1'', ''NVIDIA nForce Networking Controller''],
  Init [Const 0x10DE, Const 0x037E] [''MCP55'', ''MCP55 SATA/RAID Controller''],
  Init [Const 0x10DE, Const 0x037F] [''MCP55S'', ''MCP55 SATA/RAID Controller''],
  Init [Const 0x10DE, Const 0x038B] [''G73'', ''NVIDIA GeForce 7650 GS''],
  Init [Const 0x10DE, Const 0x0390] [''G73'', ''NVIDIA GeForce 7650 GS''],
  Init [Const 0x10DE, Const 0x0391] [''G73'', ''NVIDIA GeForce 7600 GT''],
  Init [Const 0x10DE, Const 0x0392] [''GS'', ''NVIDIA GeForce 7600 GS''],
  Init [Const 0x10DE, Const 0x0393] [''G73'', ''NVIDIA GeForce 7300 GT''],
  Init [Const 0x10DE, Const 0x0394] [''G73'', ''NVIDIA GeForce 7600 LE''],
  Init [Const 0x10DE, Const 0x0395] [''G73'', ''NVIDIA GeForce 7300 GT''],
  Init [Const 0x10DE, Const 0x0398] [''G70'', ''NVIDIA GeForce Go 7600''],
  Init [Const 0x10DE, Const 0x039E] [''G73'', ''NVIDIA Quadro FX 560''],
  Init [Const 0x10DE, Const 0x039F] [''SUBSYS_00000000'', ''REV_A1'' @ [CHR 0x5C] @ ''4&1B41B794&0&00E0''],
  Init [Const 0x10DE, Const 0x03AC] [''GT216GLM'', ''Nvidia Quadro FX 880M''],
  Init [Const 0x10DE, Const 0x03D0] [''MCP61'', ''NVIDIA Graphic driver for XP32''],
  Init [Const 0x10DE, Const 0x03D1] [''C61'', ''nForce 520 LE''],
  Init [Const 0x10DE, Const 0x03D2] [''C61'', ''NVIDIA GeForce 6100 nForce 400''],
  Init [Const 0x10DE, Const 0x03D5] [''C61'', ''NVIDIA GeForce 6100 nForce 420''],
  Init [Const 0x10DE, Const 0x03D6] [''GT218'', ''NVidia GeForce 7025 nForce 630a''],
  Init [Const 0x10DE, Const 0x03E0] [''nForce 430, MCP61 LPC Bridge'', ''PCI standard ISA bridge''],
  Init [Const 0x10DE, Const 0x03E1] [''NV3'', ''Riva128''],
  Init [Const 0x10DE, Const 0x03E7] [''MCP61'', ''MCP61 SATA/RAID Controller''],
  Init [Const 0x10DE, Const 0x03EA] [''MCP61 Memory Controller'', ''Memory controller''],
  Init [Const 0x10DE, Const 0x03EB] [''MCP6P1, 85B36Q1, G822B1, MCP61 SMBus'', ''NVIDIA nForce PCI '' @ [CHR 0xD0, CHR 0xA1, CHR 0xD0, CHR 0xB8, CHR 0xD1, CHR 0x81, CHR 0xD1, CHR 0x82, CHR 0xD0, CHR 0xB5, CHR 0xD0, CHR 0xBC, CHR 0xD0, CHR 0xB0] @ '' '' @ [CHR 0xD0, CHR 0xA3, CHR 0xD0, CHR 0xBF, CHR 0xD1, CHR 0x80, CHR 0xD0, CHR 0xB0, CHR 0xD0, CHR 0xB2, CHR 0xD0, CHR 0xBB, CHR 0xD0, CHR 0xB5, CHR 0xD0, CHR 0xBD, CHR 0xD0, CHR 0xB8, CHR 0xD0, CHR 0xB5]],
  Init [Const 0x10DE, Const 0x03EC] [''MCP61'', ''MCP61 PATA Controller''],
  Init [Const 0x10DE, Const 0x03EF] [''nForce 405, MCP61 Ethernet'', ''Nvidia Networking Card''],
  Init [Const 0x10DE, Malformed ''0x03EF &''] [''MCP51 & MCP61'', ''GeForce 6100''],
  Init [Const 0x10DE, Const 0x03F0] [''ALC660/ALC662'', ''Realtek High Defnition Audio getarnt als nVidia MCP''],
  Init [Const 0x10DE, Const 0x03F1] [''MCP61 USB Controller'', ''Serial bus controller''],
  Init [Const 0x10DE, Const 0x03F2] [''MCP61 USB Controller'', ''Serial bus controller''],
  Init [Const 0x10DE, Const 0x03F3] [''MCP61 PCI bridge'', ''Bridge''],
  Init [Const 0x10DE, Const 0x03F4] [''Co-Processor'', ''NVIDIA nForce System Management Controller''],
  Init [Const 0x10DE, Const 0x03F5] [''MCP61 Memory Controller'', ''Memory controller''],
  Init [Const 0x10DE, Const 0x03F6] [''MCP61'', ''MCP61 SATA/RAID Controller''],
  Init [Const 0x10DE, Const 0x03F7] [''MCP51'', ''MCP61 SATA/RAID Controller''],
  Init [Const 0x10DE, Const 0x0400] [''G84'', ''NVIDIA GeForce 8600 GTS''],
  Init [Const 0x10DE, Const 0x0401] [''G84'', ''NVIDIA GeForce 8600 GT''],
  Init [Const 0x10DE, Const 0x0402] [''G84'', ''NVIDIA GeForce 8600 GT''],
  Init [Const 0x10DE, Const 0x0403] [''G84'', ''NVIDIA GeForce 8600GS''],
  Init [Const 0x10DE, Const 0x0404] [''G84'', ''NVIDIA GeForce 8400 GS''],
  Init [Const 0x10DE, Const 0x0405] [''unknown'', ''GeForce 9500m GS''],
  Init [Const 0x10DE, Const 0x0406] [''G84'', ''NVIDIA GeForce 8300 GS''],
  Init [Const 0x10DE, Const 0x0407] [''NVIDIA GeForce 8600M GT'', ''NVIDIA GeForce 8600M GT''],
  Init [Const 0x10DE, Const 0x0409] [''No Idea'', ''Nvidia GeForce 8700M GT''],
  Init [Const 0x10DE, Const 0x040A] [''G84'', ''NVIDIA Quadro FX 370''],
  Init [Const 0x10DE, Const 0x040C] [''NVIDIA Quadro NVS 570M'', ''Mobile Quadro FX/NVS video card''],
  Init [Const 0x10DE, Const 0x040E] [''G84'', ''NVIDIA Quadro FX 570''],
  Init [Const 0x10DE, Const 0x040F] [''G84'', ''NVIDIA Quadro FX 1700''],
  Init [Const 0x10DE, Const 0x0420] [''G86'', ''NVIDIA GeForce 8400 SE''],
  Init [Const 0x10DE, Const 0x0421] [''G86'', ''NVIDIA GeForce 8500 GT''],
  Init [Const 0x10DE, Const 0x0422] [''G86'', ''NVIDIA GeForce 8400 GS''],
  Init [Const 0x10DE, Const 0x0423] [''G86'', ''NVIDIA GeForce 8300 GS''],
  Init [Const 0x10DE, Const 0x0424] [''G86'', ''NVIDIA GeForce 8400 GS''],
  Init [Const 0x10DE, Const 0x0425] [''NVIDIA 8600m GS'', ''NVIDIA 8600m GS''],
  Init [Const 0x10DE, Const 0x0426] [''G86M'', ''Geforce 8400M GT GPU''],
  Init [Const 0x10DE, Const 0x0427] [''G86M'', ''Geforce 8400M GS''],
  Init [Const 0x10DE, Const 0x0428] [''NVIDIA GeForce 8400M G'', ''NVIDIA GeForce 8400M G''],
  Init [Const 0x10DE, Const 0x0429] [''Unknown'', ''nVidia Quadro NVS 135M or Quadro NVS 140M ''],
  Init [Const 0x10DE, Const 0x042B] [''8400 ??'', ''NVIDIA Quadro NVS 135M''],
  Init [Const 0x10DE, Const 0x042C] [''G86'', ''NVIDIA GeForce 8600gts''],
  Init [Const 0x10DE, Const 0x042D] [''Quadro FX 360 M'', ''Quadro FX 360 M (Mobile)''],
  Init [Const 0x10DE, Const 0x042E] [''GeForce 9300M G'', ''Mobile graphics''],
  Init [Const 0x10DE, Const 0x042F] [''G86'', ''NVIDIA Quadro NVS 290''],
  Init [Const 0x10DE, Const 0x0448] [''MCP65'', ''MCP65 PATA Controller''],
  Init [Const 0x10DE, Const 0x044C] [''MCP65'', ''MCP65 RAID''],
  Init [Const 0x10DE, Const 0x044D] [''MCP65'', ''MCP65 AHCI''],
  Init [Const 0x10DE, Const 0x044E] [''MCP67D'', ''MCP67D AHCI''],
  Init [Const 0x10DE, Const 0x044F] [''MCP65'', ''MCP65 ?AHCI''],
  Init [Const 0x10DE, Const 0x0450] [''E0001458'', ''A3''],
  Init [Const 0x10DE, Const 0x045D] [''MCP65'', ''MCP65 SATA Controller(IDE mode)''],
  Init [Const 0x10DE, Const 0x0523] [''NVidia GeForce 9400GT'', ''GPU''],
  Init [Const 0x10DE, Const 0x0531] [''7150'', ''NVIDIA GeForce Go 7150M (UMA)''],
  Init [Const 0x10DE, Const 0x0533] [''-PCI'' @ [CHR 0x5C] @ ''VEN 10DEV 0533&SUBSYS 30EA103C&REV A2'' @ [CHR 0x5C] @ ''3&2411E'', ''nVidia GeForce 7000M / nForce 610M''],
  Init [Const 0x10DE, Const 0x053A] [''C68'', ''NVIDIA GeForce 7050 PV / NVIDIA nForce 630a''],
  Init [Const 0x10DE, Const 0x053B] [''C68'', ''NVIDIA GeForce 7050 PV / NVIDIA nForce 630a''],
  Init [Const 0x10DE, Const 0x053E] [''C68'', ''NVIDIA GeForce 7025 / NVIDIA nForce 630a''],
  Init [Const 0x10DE, Const 0x054] [''NVidia nForce 4 SLI'', ''IDE Controller''],
  Init [Const 0x10DE, Const 0x0542] [''30CF'', ''nForce PCI System Management''],
  Init [Const 0x10DE, Const 0x0543] [''Coprocessor'', ''Coprocessor''],
  Init [Const 0x10DE, Const 0x0543] [''Coprocessor'', ''Coprocessor''],
  Init [Const 0x10DE, Const 0x0548] [''ENE0100'', ''ENE0100c''],
  Init [Const 0x10DE, Const 0x054C] [''MCP67'', ''MCP67 Ethernet Vista''],
  Init [Const 0x10DE, Const 0x0550] [''MCP67'', ''MCP67 SATA Controller(IDE mode)''],
  Init [Const 0x10DE, Const 0x0554] [''MCP67'', ''MCP67 AHCI''],
  Init [Const 0x10DE, Const 0x0555] [''MCP67'', ''MCP67 AHCI''],
  Init [Const 0x10DE, Const 0x0556] [''MCP67'', ''MCP67 AHCI''],
  Init [Const 0x10DE, Const 0x0558] [''MCP67'', ''MCP67 RAID''],
  Init [Const 0x10DE, Const 0x0559] [''MCP67'', ''MCP67 RAID''],
  Init [Const 0x10DE, Const 0x055A] [''MCP67'', ''MCP67 RAID''],
  Init [Const 0x10DE, Const 0x0560] [''MCP67'', ''MCP67 PATA Controller''],
  Init [Const 0x10DE, Const 0x056C] [''MCP73'', ''MCP73 PATA''],
  Init [Const 0x10DE, Const 0x05E0] [''GT200b'', ''GeForce GTX 295''],
  Init [Const 0x10DE, Const 0x05E1] [''GT200'', ''NVIDIA GeForce GTX 280''],
  Init [Const 0x10DE, Const 0x05E2] [''GT200'', ''NVIDIA GeForce GTX 260''],
  Init [Const 0x10DE, Const 0x05E3] [''GT200b'', ''GeForce GTX 285''],
  Init [Const 0x10DE, Const 0x05E6] [''GT200'', ''NVIDIA GeForce GT 240M''],
  Init [Const 0x10DE, Const 0x05E7] [''GT200'', ''NVIDIA Tesla C1060''],
  Init [Const 0x10DE, Const 0x05F8] [''GT200'', ''NVIDIA Quadroplex 2200 S4''],
  Init [Const 0x10DE, Const 0x05F9] [''GT200'', ''NVIDIA Quadro CX''],
  Init [Const 0x10DE, Const 0x05FD] [''GT200'', ''NVIDIA Quadro FX 5800''],
  Init [Const 0x10DE, Const 0x05FE] [''GT200'', ''NVIDIA Quadro FX 4800''],
  Init [Const 0x10DE, Const 0x05FF] [''G200GL'', ''NVIDIA Quadro FX 3800''],
  Init [Const 0x10DE, Const 0x0600] [''G92'', ''NVIDIA GeForce 8800 GTS 512''],
  Init [Const 0x10DE, Const 0x0601] [''G92'', ''NVIDIA GeForce 9800 GT''],
  Init [Const 0x10DE, Const 0x0602] [''G92'', ''NVIDIA GeForce 8800 GT''],
  Init [Const 0x10DE, Const 0x0604] [''G92'', ''NVIDIA GeForce 9800 GX2''],
  Init [Const 0x10DE, Const 0x0605] [''G92'', ''NVIDIA GeForce 9800 GT''],
  Init [Const 0x10DE, Const 0x0606] [''G92'', ''NVIDIA GeForce 8800 GS''],
  Init [Const 0x10DE, Const 0x0608] [''G92'', ''NVIDIA Geforce 9800M GTX''],
  Init [Const 0x10DE, Const 0x060B] [''G92'', ''GeForce 9800M GT''],
  Init [Const 0x10DE, Const 0x060D] [''G92'', ''NVIDIA GeForce 8800 GS''],
  Init [Const 0x10DE, Const 0x0610] [''G93'', ''NVIDIA GeForce 9300 GSO''],
  Init [Const 0x10DE, Const 0x0611] [''G92'', ''NVIDIA GeForce 8800 GT''],
  Init [Const 0x10DE, Const 0x0612] [''G92'', ''NVIDIA GeForce 9800 GTX/9800 GTX+''],
  Init [Const 0x10DE, Const 0x0613] [''G92'', ''NVIDIA GeForce 9800 GTX+''],
  Init [Const 0x10DE, Const 0x0614] [''G92'', ''NVIDIA GeForce 9800 GT''],
  Init [Const 0x10DE, Const 0x0615] [''G92+'', ''GeForce GTS 250''],
  Init [Const 0x10DE, Const 0x0619] [''G92'', ''NVIDIA Quadro FX 4700 X2''],
  Init [Const 0x10DE, Const 0x061A] [''G92'', ''NVIDIA Quadro FX 3700''],
  Init [Const 0x10DE, Const 0x061B] [''G92'', ''NVIDIA Quadro VX 200''],
  Init [Const 0x10DE, Const 0x061D] [''G92'', ''Nvidia Quadro 2800M''],
  Init [Const 0x10DE, Const 0x061F] [''02EF'', ''NVIDIA Quadro FX 3800M''],
  Init [Const 0x10DE, Const 0x0622] [''G94'', ''gt220''],
  Init [Const 0x10DE, Const 0x0623] [''G94'', ''NVIDIA GeForce 9600 GS''],
  Init [Const 0x10DE, Const 0x0625] [''G94'', ''NVIDIA GeForce 9600 GSO 512''],
  Init [Const 0x10DE, Const 0x062C] [''na'', ''G-Force 9800M GTS''],
  Init [Const 0x10DE, Const 0x062D] [''G94'', ''NVIDIA GeForce 9600 GT''],
  Init [Const 0x10DE, Const 0x062E] [''G94'', ''NVIDIA GeForce 9600 GT''],
  Init [Const 0x10DE, Const 0x0637] [''G94'', ''NVIDIA GeForce 9600 GT''],
  Init [Const 0x10DE, Const 0x0638] [''0638'', ''NVIDIA Quadro FX 1800''],
  Init [Const 0x10DE, Const 0x0640] [''60770'', ''81yJUT  <a href='']]"

lemma PciDevTable_39_facts:
  "length PciDevTable_39 = 150" "rejected PciDevTable_39 = 1" "oversized PciDevTable_39 = 0"
  "vendors PciDevTable_39 \<subseteq> Const ` set vendor_numbers"
  unfolding PciDevTable_39_def count_rows by (simp_all add: part_simps listed vendor_known_list cong: part_cong count_rows_cong)

definition PciDevTable_40 :: "initializer list" where
 "PciDevTable_40 = [
  Init [Const 0x10DE, Const 0x0641] [''jwh058862'', ''NVIDIA GeForce 9400 GT''],
  Init [Const 0x10DE, Const 0x0642] [''G96'', ''NVIDIA GeForce 8400 GS''],
  Init [Const 0x10DE, Const 0x0643] [''G96'', ''NVIDIA GeForce 9500 GT''],
  Init [Const 0x10DE, Const 0x0644] [''G96'', ''NVIDIA GeForce 9500 GS''],
  Init [Const 0x10DE, Const 0x0645] [''G96'', ''NVIDIA GeForce 9500 GS''],
  Init [Const 0x10DE, Const 0x0646] [''G95'', ''Geforce 9500GS''],
  Init [Const 0x10DE, Const 0x0648] [''G96'', ''NVIDIA GeForce 9600 GS''],
  Init [Const 0x10DE, Const 0x0649] [''G96'', ''nVidia GeForce 9600M GT''],
  Init [Const 0x10DE, Const 0x064A] [''G96'', ''GeForce 9700M GT''],
  Init [Const 0x10DE, Const 0x0652] [''G96M'', ''Ge Force GT 130M''],
  Init [Const 0x10DE, Const 0x0654] [''G96M'', ''NVIDIA (0x10de)''],
  Init [Const 0x10DE, Const 0x0658] [''Quadro FX 380'', ''Quadro FX''],
  Init [Const 0x10DE, Const 0x0659] [''0x00'', ''512 MB QUADRO NVIDIA FX580 ''],
  Init [Const 0x10DE, Const 0x065C] [''unkown'', ''Quadro FX 770M''],
  Init [Const 0x10DE, Const 0x06C0] [''GTX 480'', ''MSI GTX 480''],
  Init [Const 0x10DE, Const 0x06C4] [''GTX 465'', ''nVidia GTX 465''],
  Init [Const 0x10DE, Const 0x06CD] [''Nvidia Gefore GTX 470'', ''Nvidia Gefore GTX 470''],
  Init [Const 0x10DE, Const 0x06DD] [''GF100'', ''nVidia Quadro 4000''],
  Init [Const 0x10DE, Const 0x06E0] [''G98'', ''NVIDIA GeForce 9300 GE''],
  Init [Const 0x10DE, Const 0x06E1] [''G98'', ''NVIDIA GeForce 9300 GS''],
  Init [Const 0x10DE, Const 0x06E2] [''G98'', ''NVIDIA GeForce 8400''],
  Init [Const 0x10DE, Const 0x06E3] [''G98'', ''NVIDIA GeForce 8300 GS''],
  Init [Const 0x10DE, Const 0x06E4] [''G98'', ''NVIDIA GeForce 8400 GS''],
  Init [Const 0x10DE, Const 0x06E5] [''2430'', ''asus''],
  Init [Const 0x10DE, Const 0x06E6] [''G100'', ''nVidia G100''],
  Init [Const 0x10DE, Const 0x06E7] [''G98'', ''NVIDIA GeForce 9300 SE''],
  Init [Const 0x10DE, Const 0x06E9] [''G98'', ''NVIDIA GeForce 9300M GS''],
  Init [Const 0x10DE, Const 0x06EA] [''unknown'', ''nvidia quadro nvs 150m''],
  Init [Const 0x10DE, Const 0x06EB] [''G98M'', ''Quadro NVS 160M''],
  Init [Const 0x10DE, Const 0x06EC] [''0x0003'', ''NVIDIA GeForce G105M (Acer Aspire 5738z)''],
  Init [Const 0x10DE, Const 0x06EF] [''NVIDIA GeForce G 103M'', ''NVIDIA GeForce G 103M''],
  Init [Const 0x10DE, Malformed ''0x06eo''] [''G98'', ''NIVIDIA GEFORCE 9300GE''],
  Init [Const 0x10DE, Const 0x06F8] [''G98'', ''NVIDIA Quadro NVS 420''],
  Init [Const 0x10DE, Const 0x06F9] [''G98'', ''NVIDIA Quadro FX 370 LP''],
  Init [Const 0x10DE, Const 0x06FA] [''G98'', ''NVIDIA Quadro NVS 450''],
  Init [Const 0x10DE, Const 0x06FD] [''NVS 295'', ''NVidia NVS 295''],
  Init [Const 0x10DE, Const 0x0753] [''8100'', ''NVIDIA nForce System Management Controller''],
  Init [Const 0x10DE, Const 0x0760] [''MCP78 NIC'', ''NForce Network Controller''],
  Init [Const 0x10DE, Const 0x0768] [''MCP ?'', ''AHCI Controller''],
  Init [Const 0x10DE, Const 0x07B5] [''MCP72'', ''MCP72 AHCI''],
  Init [Const 0x10DE, Const 0x07B9] [''MCP72'', ''MCP72 RAID''],
  Init [Const 0x10DE, Const 0x07D8] [''nForce 7100-630i (MCP73PV)'', ''nForce 7100-630i (MCP73PV)''],
  Init [Const 0x10DE, Malformed ''0x07D8 nVIDIA''] [''nForce 7100-630i '', ''MCP73PV''],
  Init [Const 0x10DE, Const 0x07DA] [''PCI'' @ [CHR 0x5C] @ ''VEN_10DE&DEV_07DA&SUBSYS_01371025&REV_A2'', ''coprocessor''],
  Init [Const 0x10DE, Const 0x07DC] [''nForce 7100-630i (MCP73PV)'', ''nForce 7100-630i (MCP73PV)''],
  Init [Const 0x10DE, Const 0x07DE] [''not known'', ''not known''],
  Init [Const 0x10DE, Const 0x07E0] [''C73'', ''NVIDIA GeForce 7150m graphics''],
  Init [Const 0x10DE, Const 0x07E1] [''C73'', ''NVIDIA GeForce 7100 / NVIDIA nForce 630i''],
  Init [Const 0x10DE, Const 0x07E2] [''C73'', ''NVIDIA GeForce 7050 / NVIDIA nForce 630i''],
  Init [Const 0x10DE, Const 0x07E3] [''C73'', ''NVIDIA GeForce 7050 / NVIDIA nForce 610i''],
  Init [Const 0x10DE, Const 0x07E5] [''C73'', ''NVIDIA GeForce 7050 / NVIDIA nForce 620i''],
  Init [Const 0x10DE, Const 0x07F0] [''MCP73'', ''MCP73 SATA(IDE mode)''],
  Init [Const 0x10DE, Const 0x07F4] [''MCP73'', ''MCP73 AHCI1''],
  Init [Const 0x10DE, Const 0x07F5] [''MCP73'', ''MCP73 AHCI2''],
  Init [Const 0x10DE, Const 0x07F6] [''MCP73'', ''MCP73 AHCI3''],
  Init [Const 0x10DE, Const 0x07F7] [''MCP73'', ''MCP73 AHCI4''],
  Init [Const 0x10DE, Const 0x07F8] [''MCP73'', ''MCP73 RAID1''],
  Init [Const 0x10DE, Const 0x07F9] [''MCP73'', ''MCP73 RAID2''],
  Init [Const 0x10DE, Const 0x07FA] [''MCP73'', ''MCP73 RAID3''],
  Init [Const 0x10DE, Const 0x07FB] [''MCP73'', ''MCP73 RAID4''],
  Init [Const 0x10DE, Const 0x07FC] [''nForce 630i'', ''High Definition Audio Bus''],
  Init [Const 0x10DE, Const 0x0848] [''C73'', ''NVIDIA GeForce 8300''],
  Init [Const 0x10DE, Const 0x0849] [''C77'', ''NVIDIA GeForce 8200''],
  Init [Const 0x10DE, Const 0x084A] [''C77'', ''NVIDIA nForce 730a''],
  Init [Const 0x10DE, Const 0x084B] [''C77'', ''NVIDIA GeForce 8200''],
  Init [Const 0x10DE, Const 0x084C] [''C77'', ''NVIDIA nForce 780a SLI''],
  Init [Const 0x10DE, Const 0x084D] [''C77'', ''NVIDIA nForce 750a SLI''],
  Init [Const 0x10DE, Const 0x084F] [''C77'', ''NVIDIA GeForce 8100 / nForce 720a''],
  Init [Const 0x10DE, Const 0x0860] [''C79'', ''NVIDIA GeForce 9300''],
  Init [Const 0x10DE, Const 0x0861] [''1002'', ''NVIDIA GeForce 9400''],
  Init [Const 0x10DE, Const 0x0863] [''C79'', ''NVIDIA GeForce 9400M''],
  Init [Const 0x10DE, Const 0x0864] [''C79'', ''NVIDIA GeForce 9300''],
  Init [Const 0x10DE, Const 0x0865] [''C79'', ''NVIDIA GeForce 9300''],
  Init [Const 0x10DE, Const 0x0866] [''?'', ''NVIDIA GeForce 9400M G''],
  Init [Const 0x10DE, Const 0x0868] [''C79'', ''NVIDIA nForce 760i SLI''],
  Init [Const 0x10DE, Const 0x086A] [''C79'', ''NVIDIA GeForce 9400''],
  Init [Const 0x10DE, Const 0x086C] [''C79'', ''NVIDIA GeForce 9300 / nForce 730i''],
  Init [Const 0x10DE, Const 0x086D] [''C79'', ''NVIDIA GeForce 9200''],
  Init [Const 0x10DE, Const 0x086F] [''MCP79MVL'', ''GeForce 8200M G''],
  Init [Const 0x10DE, Const 0x0871] [''C79'', ''NVIDIA GeForce 9200''],
  Init [Const 0x10DE, Const 0x087A] [''C79'', ''NVIDIA Quadro FX 470''],
  Init [Const 0x10DE, Const 0x087D] [''00741B0A'', ''REV_B1'' @ [CHR 0x5C] @ ''4''],
  Init [Const 0x10DE, Const 0x0A20] [''GeForce GT 220'', ''GeForce GT 220''],
  Init [Const 0x10DE, Const 0x0A22] [''GF315'', ''GeForce 315''],
  Init [Const 0x10DE, Const 0x0A23] [''nvidia geforce 210'', ''nvidia geforce 210''],
  Init [Const 0x10DE, Const 0x0A29] [''NVIDIA GeForce GT-330M'', ''NVIDIA GeForce GT-330M''],
  Init [Const 0x10DE, Const 0x0A2B] [''GT 330M'', ''NVIDIA GeForce 330M''],
  Init [Const 0x10DE, Const 0x0A2C] [''NV'', ''Quadro NVS 5100M''],
  Init [Const 0x10DE, Const 0x0A2D] [''GT 320M'', ''GT 320M''],
  Init [Const 0x10DE, Const 0x0A38] [''nVidia quadro 400'', ''nVidia quadro 400''],
  Init [Const 0x10DE, Const 0x0A38A] [''nVidia quadro 400 / 600 / 2000 / NVS 300'', ''nVidia quadro 400 / 600 / 2000 / NVS 300''],
  Init [Const 0x10DE, Const 0x0A65] [''GeForce 210'', ''Nvidia 200 Series''],
  Init [Const 0x10DE, Const 0x0A66] [''GT218'', ''GeForce 310''],
  Init [Const 0x10DE, Const 0x0A6A] [''NVS 2100M'', ''NVIDIA NVS 2100M''],
  Init [Const 0x10DE, Const 0x0A6C] [''NVS 5100M'', ''NVidia NVS 5100M''],
  Init [Const 0x10DE, Const 0x0A6F] [''ION'', ''Ion next gen small size chip''],
  Init [Const 0x10DE, Const 0x0A70] [''G310M'', ''vga nVidia &#26174;&#31034;&#39537;&#21160;&#31243;&#24207;''],
  Init [Const 0x10DE, Const 0x0A73] [''0x0A73'', ''NVIDIA ION Graphic driver''],
  Init [Const 0x10DE, Const 0x0A74] [''GeForce G210M'', ''GPU''],
  Init [Const 0x10DE, Const 0x0A75] [''GF300M'', ''GeForce 310M''],
  Init [Const 0x10DE, Const 0x0AA3] [''MCP7A'', ''nForce 730i SMBus Controller''],
  Init [Const 0x10DE, Const 0x0AB0] [''NForce 9300 LAN/SATA/SMBUS/SMU/GPU'', ''0x0A80''],
  Init [Const 0x10DE, Const 0x0AB8] [''MCP79'', ''MCP79 AHCI1''],
  Init [Const 0x10DE, Const 0x0AB9] [''MCP79'', ''MCP79 AHCI2''],
  Init [Const 0x10DE, Const 0x0ABC] [''MCP79'', ''MCP79 RAID1''],
  Init [Const 0x10DE, Const 0x0ABD] [''MCP79'', ''MCP79 RAID2''],
  Init [Const 0x10DE, Const 0x0AD0] [''MCP78'', ''SATA Controller IDE mode''],
  Init [Const 0x10DE, Const 0x0BC4] [''MCP?'', ''AHCI Controller''],
  Init [Const 0x10DE, Const 0x0BC5] [''MCP?'', ''AHCI Controller''],
  Init [Const 0x10DE, Const 0x0BCC] [''MCP?'', ''Raid Controller''],
  Init [Const 0x10DE, Const 0x0BCD] [''MCP?'', ''Raid Controller''],
  Init [Const 0x10DE, Const 0x0BE3] [''NV34'', ''Riva 128''],
  Init [Const 0x10DE, Const 0x0CA3] [''GT240'', ''GeForce GT 240''],
  Init [Const 0x10DE, Const 0x0DC4] [''GeForce 400M GTS 450'', ''http://www.nvidia.pl/download/driverResults.aspx/71737/pl''],
  Init [Const 0x10DE, Const 0x0DCD] [''GT555M'', ''Nvidia GeForce GT555M''],
  Init [Const 0x10DE, Const 0x0DD1] [''GF106M'', ''Geforce GTX 460M''],
  Init [Const 0x10DE, Const 0x0DE1] [''GF108'', ''NVIDIA GeForce GT 430''],
  Init [Const 0x10DE, Const 0x0DE3] [''GF116'', ''nVidia GT 635M''],
  Init [Const 0x10DE, Const 0x0DF4] [''0DF4'', ''NVIDIA GeForce GT 540M''],
  Init [Const 0x10DE, Const 0x0DF5] [''164A10CF'', ''NVIDIA GeForce GT 525M [VISTA,WIN7/64bits]''],
  Init [Const 0x10DE, Const 0x0DF8] [''GF108'', ''Quadro 600 rev a1''],
  Init [Const 0x10DE, Const 0x0DFA] [''1000M'', ''Nvidia Quadro 1000M''],
  Init [Const 0x10DE, Const 0x0DFC] [''NVS Notebook'', ''NVS 5200M''],
  Init [Const 0x10DE, Const 0x0E22] [''GTX 460'', ''GTX 460''],
  Init [Const 0x10DE, Const 0x0FC2] [''GT 630'', ''NVIDIA GeForce 332.21''],
  Init [Const 0x10DE, Const 0x0FC6] [''GK107'', ''NVIDIA GeForce GTX 670''],
  Init [Const 0x10DE, Const 0x0FD4] [''Alienware M17xR3'', ''GTX 660M''],
  Init [Const 0x10DE, Const 0x0FE0] [''GK107M'', ''GeForce GTX 660M (Mac)''],
  Init [Const 0x10DE, Const 0x0FFD] [''GK107'', ''NVIDIA NVS 510''],
  Init [Const 0x10DE, Const 0x0FFE] [''GK107GL'', ''NVIDIA Quadro K2000''],
  Init [Const 0x10DE, Const 0x1021] [''nVidia K20Xm'', ''K20X passive cooling''],
  Init [Const 0x10DE, Const 0x1022] [''nVidia K20c'', ''K20 active cooling''],
  Init [Const 0x10DE, Const 0x1040] [''GT520'', ''Nvidia GeForce GT520''],
  Init [Const 0x10DE, Const 0x1050] [''GT540M'', ''Nvidia GeForce GT540M''],
  Init [Const 0x10DE, Const 0x1051] [''GT520'', ''GeForce GT520 MX''],
  Init [Const 0x10DE, Const 0x1054] [''GeForce 410M'', ''Vvideo '' @ [CHR 0xD0, CHR 0x9A, CHR 0xD0, CHR 0xB0, CHR 0xD1, CHR 0x80, CHR 0xD1, CHR 0x82, CHR 0xD1, CHR 0x8B]],
  Init [Const 0x10DE, Const 0x1056] [''NVidia NVS 4200m'', ''NVidia NVS 4200m''],
  Init [Const 0x10DE, Const 0x1058] [''NV34'', ''Riva128''],
  Init [Const 0x10DE, Const 0x1086] [''GF110'', ''GTX 570''],
  Init [Const 0x10DE, Const 0x10C3] [''GT218'', ''NVIDIA GeForce 8400GS''],
  Init [Const 0x10DE, Const 0x10D8] [''GT218'', ''NVIDIA NVS 300''],
  Init [Const 0x10DE, Const 0x10DE] [''NV34'', ''Riva 128''],
  Init [Const 0x10DE, Malformed ''0x10DE-1004''] [''GK110'', ''GTX780 ''],
  Init [Const 0x10DE, Const 0x10DE3] [''nv34'', ''riva 128''],
  Init [Const 0x10DE, Malformed ''0x10DEbis''] [''GFORCE 410'', ''GFORCE 410''],
  Init [Const 0x10DE, Const 0x10F0] [''82578DC (NV3)'', ''INTEL ''],
  Init [Const 0x10DE, Const 0x110] [''nv11'', ''geforcemx/mx400''],
  Init [Const 0x10DE, Const 0x1112] [''0x1112'', ''Gateway Solo 9550 NVIDIA Geforce 2 GO 32 MB''],
  Init [Const 0x10DE, Const 0x1140] [''GF117'', ''Geforce 710M''],
  Init [Const 0x10DE, Const 0x11A2] [''GK104M'', ''GeForce GTX 675MX (Mac)'']]"

lemma PciDevTable_40_facts:
  "length PciDevTable_40 = 150" "rejected PciDevTable_40 = 4" "oversized PciDevTable_40 = 1"
  "vendors PciDevTable_40 \<subseteq> Const ` set vendor_numbers"
  unfolding PciDevTable_40_def count_rows by (simp_all add: part_simps listed vendor_known_list cong: part_cong count_rows_cong)

definition PciDevTable_rows4 :: "initializer list" where
  "PciDevTable_rows4 = concat [PciDevTable_31, PciDevTable_32, PciDevTable_33, PciDevTable_34,
     PciDevTable_35, PciDevTable_36, PciDevTable_37, PciDevTable_38,
     PciDevTable_39, PciDevTable_40]"

lemma PciDevTable_rows4_facts:
  "length PciDevTable_rows4 = 1500" "rejected PciDevTable_rows4 = 19" "oversized PciDevTable_rows4 = 4"
  "vendors PciDevTable_rows4 \<subseteq> Const ` set vendor_numbers"
  by (simp_all add: PciDevTable_rows4_def rejected_append oversized_append vendors_append
      PciDevTable_31_facts PciDevTable_32_facts PciDevTable_33_facts
      PciDevTable_34_facts PciDevTable_35_facts PciDevTable_36_facts
      PciDevTable_37_facts PciDevTable_38_facts PciDevTable_39_facts
      PciDevTable_40_facts)

end
