(* ===== verification/PciDevices5.thy ===== *)
theory PciDevices5
  imports PciVendors
begin

text \<open>
  src/src/sys/drv/pci/identifiers.h: rows 6001 to 7495 of the device table \<open>PciDevTable\<close>, in
  parts of 150 rows. Of each part: its length, how many of its rows a compiler rejects, how
  many have a number that does not fit its member, and that all of its vendors are listed.
\<close>

definition PciDevTable_41 :: "initializer list" where
 "PciDevTable_41 = [
  Init [Const 0x10DE, Const 0x11A3] [''GK104M'', ''GeForce GTX 680MX''],
  Init [Const 0x10DE, Const 0x1200] [''GF114'', ''560 GTX TI''],
  Init [Const 0x10DE, Const 0x1201] [''GF114'', ''NVIDIA GeForce GTX 560''],
  Init [Const 0x10DE, Const 0x1202] [''gf114'', ''nvidia gtx 560 ti''],
  Init [Const 0x10DE, Const 0x1244] [''NVIDIA Corporation'', ''GeForce  GTX 550''],
  Init [Const 0x10DE, Const 0x1251] [''GF116 (GTX 560m)'', ''Nvidia Geforce GTX 560m (MXM 3.0b)''],
  Init [Const 0x10DE, Malformed ''0x135m''] [''220gt'', ''navidia quadro nvs135m''],
  Init [Const 0x10DE, Const 0x161] [''NV44'', ''GeForce 6200 TurboCache''],
  Init [Const 0x10DE, Const 0x181] [''NV18B'', ''GeForce4 MX 440 AGP 8X''],
  Init [Const 0x10DE, Const 0x247] [''NVS210S'', ''GF6150''],
  Init [Const 0x10DE, Malformed ''0x247PCI''] [''know'', ''Geforce 6100 Go''],
  Init [Const 0x10DE, Const 0x26C] [''6150'', ''AMD''],
  Init [Const 0x10DE, Const 0x45682] [''123456'', ''need''],
  Init [Const 0x10DE, Const 0x4569] [''<SCRIPT>alert('', ''<SCRIPT>document.location='' @ [CHR 0x27] @ ''http://www.pcidatabase.com/search.php?title=%3Cmeta%20http-equiv=%22refre''],
  Init [Const 0x10DE, Const 0x5209] [''0x10E6'', ''C-Media Audio Controller''],
  Init [Const 0x10DE, Const 0x69] [''nVidia MCP2T'', ''nVidia MCP2T in MSI MEGA 180''],
  Init [Const 0x10DE, Const 0x8001] [''MCP73'', ''nVidia MCP73 HDMI Audio Driver''],
  Init [Const 0x10DE, Const 0x9490] [''OSx 10.6.7'', ''4670 ati radeon hd eah4670/di/1gd3/a''],
  Init [Const 0x10DE, Const 0x9876] [''NV11'', ''GeForce2 MX / MX 400''],
  Init [Const 0x10DE, Malformed ''0x9876 03F0&SUBSYS_8''] [''N/A'', ''PCI(Has compatible Ids)''],
  Init [Const 0x10DE, Const 0x98DE] [''0x9876'', ''0x9876''],
  Init [Const 0x10DE, Const 0x9991] [''NV10'', ''HDAUDIO'' @ [CHR 0x5C] @ ''FUNC_01&VEN_10EC&DEV_0662&SUBSYS_1B0A0062&REV_1001'' @ [CHR 0x5C] @ ''4&22548B7C&0&0001''],
  Init [Const 0x10DE, Const 0xDC4] [''GTS 450'', ''NVIDIA GeForce GTS 450''],
  Init [Const 0x10DE, Const 0xDF5] [''GT525M'', ''Nvidia GeForce GT525M''],
  Init [Const 0x10DE, Const 0xDF5A] [''GT525M'', ''Nvidia GeForce GT525M''],
  Init [Const 0x10DE, Malformed ''0xODE9''] [''GT 630M'', ''Geforce GT 630M''],
  Init [Const 0x10DE, Malformed ''0x_026C''] [''nVidia Geforce 6150 GPU ( Built-Into Controller )'', ''Nvidia Motherboard nForce 430 ( MCP-51 ) with On-Board GeForce 6150 GPU''],
  Init [Const 0x10DF, Const 0x10DF] [''Light Pulse'', ''Fibre Channel Adapter''],
  Init [Const 0x10DF, Const 0x1AE5] [''LP6000'', ''Fibre Channel Host Adapter''],
  Init [Const 0x10DF, Const 0xF0A5] [''PL1050Ex'', ''Emulex 1050EX FC HBA - 2GB PCI-EXPRESS''],
  Init [Const 0x10DF, Const 0xF0E5] [''Emulex LightPulse'' @ [CHR 0xAE] @ '' LPe1150 '', ''ANSI Fibre Channel: FC-PH-3, FC-PI-2, FC-FS, FC-AL-2, FC-GS-4, FC-FLA, FC-PLDA, FC-SP, FC-TAPE, FCP-''],
  Init [Const 0x10DF, Const 0xF100] [''LPe12000 / LPe12002 / LPe1205'', ''8Gb PCIe Single / Dual port Fibre Channel Adapter''],
  Init [Const 0x10DF, Const 0xF700] [''LP7000'', ''Fibre Channel Host Adapter''],
  Init [Const 0x10DF, Const 0xF800] [''LP8000'', ''Fibre Channel Host Adapter''],
  Init [Const 0x10DF, Const 0xF900] [''????'', ''Light Pulse LP9002 2Gb''],
  Init [Const 0x10DF, Const 0xF9001] [''1'', ''FC HBA''],
  Init [Const 0x10DF, Const 0xF980] [''LP9802 / DC'', ''LP9802 & LP9802DC HBA adapter''],
  Init [Const 0x10DF, Const 0xFA00] [''LP10000'', ''Fibre Channel Host Adapter''],
  Init [Const 0x10DF, Const 0xFD00] [''L2A2860 HELIOS v1.11'', ''Emulex LP11002''],
  Init [Const 0x10DF, Const 0xFE00] [''LPe11000 / LPe11002 / LPe1105'', ''4Gb PCIe Single / Dual port Fibre Channel Adapter''],
  Init [Const 0x10E1, Const 0x0391] [''TRM-S1040'', ''0000''],
  Init [Const 0x10E1, Const 0x690C] [''DC-690c'', []],
  Init [Const 0x10E1, Const 0xDC20] [''DC-390F'', ''SCSI Controller''],
  Init [Const 0xC0DE, Const 0x5600] [''62802'', []],
  Init [Const 0xC0DE, Const 0xC0DE] [''ENF656'', ''oZ0030''],
  Init [Const 0x10E3, Const 0x0000] [''CA91C042/142'', ''Universe/II VMEbus Bridge''],
  Init [Const 0x10E3, Const 0x0148] [''Tundra Tsi148'', ''PCI/X-to-VME Bridge''],
  Init [Const 0x10E3, Const 0x0513] [''Tsi320'', ''Dual-Mode PCI-to-PCI Bus Bridge''],
  Init [Const 0x10E3, Const 0x0850] [''Tsi850'', ''Power PC Dual PCI Host Bridge''],
  Init [Const 0x10E3, Const 0x0854] [''Tsi850'', ''Power PC Single PCI Host Bridge''],
  Init [Const 0x10E3, Const 0x0860] [''CA91C860'', ''QSpan Motorola Processor Bridge''],
  Init [Const 0x10E3, Const 0x0862] [''CA91L862A'', ''QSpan II PCI-to-Motorola CPU Bridge''],
  Init [Const 0x10E3, Const 0x8114] [''Tsi384'', ''PCIe to PCI-X Bridge''],
  Init [Const 0x10E3, Const 0x8260] [''CA91L8200/8260'', ''PowerSpan II PowerPC-to-PCI Bus Switch''],
  Init [Const 0x10E3, Const 0x8261] [''CA91L8200/8260'', ''PowerSpan II PowerPC-to-PCI Bus Switch''],
  Init [Const 0x10E6, Const 0x5209] [''0904UGG1EB'', ''C-Media Audio Controller''],
  Init [Const 0x10E8, Const 0x0002] [''2BA57D2F'', ''PCI card''],
  Init [Const 0x10E8, Const 0x2011] [''Q-Motion pci 264'', ''Video Capture/Edit board''],
  Init [Const 0x10E8, Const 0x4750] [''S59200'', ''Amcc PCI MatchMaker''],
  Init [Const 0x10E8, Const 0x5920] [''S5920'', ''amcc''],
  Init [Const 0x10E8, Const 0x8033] [''BBK-PCI light'', ''Transputer Link Interface''],
  Init [Const 0x10E8, Const 0x8034] [''bbk pci light'', ''transputer link interface''],
  Init [Const 0x10E8, Const 0x8043] [''LANai4.x'', ''Myrinet LANai interface chip''],
  Init [Const 0x10E8, Const 0x8062] [''S5933Qc'', ''Parastation''],
  Init [Const 0x10E8, Const 0x807D] [''S5933QE'', ''PCI44''],
  Init [Const 0x10E8, Const 0x8088] [''FS'', ''Kingsberg Spacetec Format Synchronizer''],
  Init [Const 0x10E8, Const 0x8089] [''SOB'', ''Kingsberg Spacetec Serial Output Board''],
  Init [Const 0x10E8, Const 0x809C] [''S5933'', ''Traquair HEPC3''],
  Init [Const 0x10E8, Const 0x80B1] [''Data Fire Basic 4MB PCI'', ''Active ISDN Controller''],
  Init [Const 0x10E8, Const 0x80B9] [''PCI MATCHMAKER S5935QF'', ''Driver''],
  Init [Const 0x10E8, Const 0x80D7] [''PCI-9112'', ''Data Acquisition Card (ADLINK)''],
  Init [Const 0x10E8, Const 0x80D8] [''PCI-7200'', ''40MB/s 32-channels Digital I/O card (ADLINK)''],
  Init [Const 0x10E8, Const 0x80D9] [''PCI-9118'', ''Data Acquisition Card (ADLINK)''],
  Init [Const 0x10E8, Const 0x80DA] [[], []],
  Init [Const 0x10E8, Const 0x80E3] [''S5933QC'', ''AMCC PCI Matchmaker''],
  Init [Const 0x10E8, Const 0x811A] [''PCI-DSlink'', ''PCI-IEEE1355-DS-DE interface''],
  Init [Const 0x10E8, Const 0x8170] [''S5933Qe'', ''AMCC Matchmaker PCI drivers''],
  Init [Const 0x10E8, Const 0x831C] [''S5933 32b PCI MatchMaker'', ''KVD PCIDIS Interface''],
  Init [Const 0x10E9, Const 0x10E9] [''VID_044E&PID_3001'', ''ALPS Integrated Bluetooth UGPZ = BTHUSB, USB '' @ [CHR 0x5C] @ '' Vid_044e & Pid_3001 ''],
  Init [Const 0x10E9, Const 0x3001] [''Bluetooth USB Controller (ALPS/UGPZ6)'', ''http://esupport.sony.com/US/p/swu-matrix.pl?upd_id=2396''],
  Init [Const 0x10EA, Const 0x1680] [''IGA-1680'', ''svga''],
  Init [Const 0x10EA, Const 0x1682] [''IGA-1682'', ''video''],
  Init [Const 0x10EA, Const 0x1683] [''IGA-1683'', []],
  Init [Const 0x10EA, Const 0x2000] [''CyberPro 2010'', ''TV output ram 2MB  Cyberpro2010''],
  Init [Const 0x10EA, Const 0x2010] [''CyberPro 20xx/2000A'', ''vbcvbcvbcvb''],
  Init [Const 0x10EA, Const 0x5000] [''CyberPro 5000'', []],
  Init [Const 0x10EA, Const 0x5050] [''CyberPro 5050'', []],
  Init [Const 0x10EB, Const 0x0101] [''3GA'', ''64 bit graphics processor''],
  Init [Const 0x10EB, Const 0x8111] [''Twist3'', ''Frame Grabber''],
  Init [Const 0x9005, Const 0x0010] [''AIC-7890AB scsi controller'', ''AHA-2940U2W/U2B,2950U2W Ultra2 SCSI''],
  Init [Const 0x9005, Const 0x0011] [''11111'', ''AHA-2930U2 Ultra2 SCSI Host Adapter''],
  Init [Const 0x9005, Const 0x0013] [''AIC-7890/1'', ''SCSI Controller''],
  Init [Const 0x9005, Const 0x001F] [''AIC-7890 AB for Windows  XP'', ''Ultra2-Wide SCSI controller''],
  Init [Const 0x9005, Const 0x0020] [''AIC-789x'', ''SCSI Controller''],
  Init [Const 0x9005, Const 0x002F] [''AIC-789x'', ''SCSI Controller''],
  Init [Const 0x9005, Const 0x0030] [''AIC-789x'', ''SCSI Controller''],
  Init [Const 0x9005, Const 0x003F] [''AIC-789x'', ''SCSI Controller''],
  Init [Const 0x9005, Const 0x0050] [[], ''AHA-3940U2x/3950U2x Ultra2 SCSI Adapter''],
  Init [Const 0x9005, Const 0x0051] [[], ''AHA-3950U2x Ultra2 SCSI Adapter''],
  Init [Const 0x9005, Const 0x0053] [''AIC-7896'', ''SCSI Controller''],
  Init [Const 0x9005, Const 0x005F] [''AIC-7896/7'', ''Ultra2 SCSI Controller''],
  Init [Const 0x9005, Const 0x0080] [''AIC-7892Q'', ''Ultra160/m PCI SCSI Controller''],
  Init [Const 0x9005, Const 0x0081] [''AIC-7892B'', ''Ultra160 SCSI Controller''],
  Init [Const 0x9005, Const 0x0083] [''AIC-7892D'', ''Ultra160 SCSI Controller''],
  Init [Const 0x9005, Const 0x008F] [''AIC-7892'', ''Ultra160 SCSI Controller''],
  Init [Const 0x9005, Const 0x00C0] [''AIC-7899A'', ''Ultra160 SCSI Controller''],
  Init [Const 0x9005, Const 0x00C1] [''AIC-7899B'', ''Ultra160 SCSI Controller''],
  Init [Const 0x9005, Const 0x00C3] [''AIC-7899D'', ''Ultra160 SCSI Controller''],
  Init [Const 0x9005, Const 0x00C5] [[], ''RAID Subsystem HBA''],
  Init [Const 0x9005, Const 0x00CF] [''AIC-7899G'', ''Ultra160 SCSI Controller''],
  Init [Const 0x9005, Const 0x0241] [''1420'', ''Adaptec 1420SA Serial AHA HostRAID Controller''],
  Init [Const 0x9005, Const 0x0258] [''AAC-RAID'', ''Adaptec AAR-2610SA SATA 6-Port Raid''],
  Init [Const 0x9005, Const 0x0285] [''Adaptec 2410SA SATA RAID'', ''PCIX133 32/64bit''],
  Init [Const 0x9005, Const 0x0286] [''SUBSYS_95801014REV_02'', ''SUBSYS_95801014REV_02''],
  Init [Const 0x9005, Const 0x041F] [''AIC 9410'', ''SAS/SATA Controller''],
  Init [Const 0x9005, Const 0x043E] [''AIC9450W'', ''SAS/SATA Controller''],
  Init [Const 0x9005, Const 0x41E] [''AIC-9410W'', ''Razor ASIC''],
  Init [Const 0x9005, Const 0x564A] [''AIC-7211W'', ''iSCSI Controller''],
  Init [Const 0x9005, Const 0x8000] [''ASC-29320A'', ''Ultra320 SCSI Controller''],
  Init [Const 0x9005, Const 0x800F] [''AIC-7901'', ''Ultra320 SCSI Controller''],
  Init [Const 0x9005, Const 0x8010] [''ASC-39320'', ''Ultra320 SCSI Controller''],
  Init [Const 0x9005, Const 0x8011] [''ASC-39320D'', ''Ultra320 SCSI Controller''],
  Init [Const 0x9005, Const 0x8012] [''ASC-29320'', ''Ultra320 SCSI Controller''],
  Init [Const 0x9005, Const 0x8014] [''ASC-29320LP'', ''Ultra320 SCSI Controller''],
  Init [Const 0x9005, Const 0x8015] [''ASC-39320'', ''Ultra320 SCSI Controller''],
  Init [Const 0x9005, Const 0x8016] [''ASC-39320A'', ''Ultra320 SCSI Controller''],
  Init [Const 0x9005, Const 0x8017] [''ASC-29320ALP'', ''Ultra320 SCSI Controller''],
  Init [Const 0x9005, Const 0x801C] [''AIC-?????'', ''Ultra320 SCSI Controller''],
  Init [Const 0x9005, Const 0x801D] [''AIC-7902B'', ''Ultra320 SCSI Controller''],
  Init [Const 0x9005, Const 0x801E] [''AIC-7901'', ''Ultra320 SCSI Controller''],
  Init [Const 0x9005, Const 0x801F] [''AIC-7902'', ''Ultra320 SCSI Controller''],
  Init [Const 0x9005, Const 0x8080] [''ASC-29320A'', ''Ultra320 HostRAID Controller''],
  Init [Const 0x9005, Const 0x808F] [''AIC-7901'', ''Ultra320 HostRAID Controller''],
  Init [Const 0x9005, Const 0x8090] [''ASC-39320'', ''HostRAID SCSI Controller''],
  Init [Const 0x9005, Const 0x8091] [''ASC-39320D'', ''HostRAID SCSI Controller''],
  Init [Const 0x9005, Const 0x8092] [''ASC-29320'', ''HostRAID SCSI Controller''],
  Init [Const 0x9005, Const 0x8093] [''ASC-29320LPE'', ''HostRAID SCSI Controller''],
  Init [Const 0x9005, Const 0x8094] [''ASC-29320LP'', ''HostRAID SCSI Controller''],
  Init [Const 0x9005, Const 0x8095] [''ASC-39320'', ''HostRAID SCSI Controller''],
  Init [Const 0x9005, Const 0x8096] [''ASC-39320A'', ''HostRAID SCSI Controller''],
  Init [Const 0x9005, Const 0x8097] [''ASC-29320ALP'', ''HostRAID SCSI Controller''],
  Init [Const 0x9005, Const 0x809C] [''ASC-39320D'', ''HostRAID SCSI Controller''],
  Init [Const 0x9005, Const 0x809D] [''AIC-7902B'', ''HostRAID SCSI Controller''],
  Init [Const 0x9005, Const 0x809E] [''AIC-7901A'', ''HostRAID SCSI Controller''],
  Init [Const 0x9005, Const 0x809F] [''AIC-7902B'', ''HostRAID SCSI Controller''],
  Init [Const 0x10ED, Const 0x10DE] [''SN0730506616'', ''PT ICT FQC''],
  Init [Const 0x10ED, Const 0x7310] [''V753'', ''VGA Video Overlay Adapter''],
  Init [Const 0x10EE, Const 0x0004] [''Virtex 4'', ''Virtex 4 FPGA''],
  Init [Const 0x10EE, Const 0x0007] [''Virtex V'', ''Virtex V FPGA''],
  Init [Const 0x10EE, Const 0x0105] [''0'', ''Fibre Channel'']]"

lemma PciDevTable_41_facts:
  "length PciDevTable_41 = 150" "rejected PciDevTable_41 = 5" "oversized PciDevTable_41 = 2"
  "vendors PciDevTable_41 \<subseteq> Const ` set vendor_numbers"
  unfolding PciDevTable_41_def count_rows by (simp_all add: part_simps listed vendor_known_list cong: part_cong count_rows_cong)

definition PciDevTable_42 :: "initializer list" where
 "PciDevTable_42 = [
  Init [Const 0x10EE, Const 0x0106] [''Virtex 5'', ''data compression device''],
  Init [Const 0x10EE, Const 0x0314] [''Spartan XC2S50E'', ''Communications Controller''],
  Init [Const 0x10EE, Const 0x1001] [''8343176'', ''PCI to H.100 audio interface''],
  Init [Const 0x10EE, Const 0x3FC0] [''RME Digi96'', []],
  Init [Const 0x10EE, Const 0x3FC1] [''RME Digi96/8'', ''Xilinx Corp RME Digi96/8 Pad''],
  Init [Const 0x10EE, Const 0x3FC2] [''RME Digi 96/8 Pro'', []],
  Init [Const 0x10EE, Const 0x3FC3] [''RME Digi96/8 Pad'', ''RME Digi96/8 Pad''],
  Init [Const 0x10EE, Const 0x3FC4] [''Digi9652'', ''Hammerfall''],
  Init [Const 0x10EE, Const 0x3FC5] [''0'', ''HDSP 9632''],
  Init [Const 0x10EE, Const 0x4F01] [''Jungo'', ''PCI Simple Communications Controller''],
  Init [Const 0x10EE, Const 0x5343] [''Seamont SC100'', ''Security Adapter''],
  Init [Const 0x10EE, Const 0x8130] [''Durango PMC'', ''Virtex-II Bridge, XC2V1000-4FG456C''],
  Init [Const 0x10EE, Const 0x8381] [''Santos'', ''Frame Grabber''],
  Init [Const 0x10EE, Const 0xA123] [''XA3S1600E'', ''Spartan 3E''],
  Init [Const 0x10EE, Const 0xA124] [''Spartan 3E'', ''XA3S1600E''],
  Init [Const 0x10EE, Const 0xA125] [''Spartan 6'', ''XC6SLX16''],
  Init [Const 0x10EF, Const 0x8154] [''M815x'', ''Token Ring Adapter''],
  Init [Const 0x10F0, Const 0xA800] [''VCL-P'', ''Graphics board''],
  Init [Const 0x10F0, Const 0xB300] [''VCL-M'', ''graphics board''],
  Init [Const 0x10F1, Const 0x1566] [[], ''IDE/SCSI''],
  Init [Const 0x10F1, Const 0x1677] [''http://www.broadcom.com/support/ethernet_nic/netxt'', ''Multimedia''],
  Init [Const 0x10F1, Const 0x1A2A] [''Unknown'', ''web cam on toshiba satellite c6555''],
  Init [Const 0x10F1, Const 0x1A34] [''Unknown'', ''Camera''],
  Init [Const 0x10F1, Const 0x2013] [''RS-56 sp-pci'', ''Conexant RS-56 PCI Modem''],
  Init [Const 0x10F4, Const 0x1300] [''rev1.1'', ''PCI to S5U13x06B0B Bridge Adapter''],
  Init [Const 0x10F5, Const 0xA001] [''NDR4000'', ''NR4600 Bridge''],
  Init [Const 0x10F6, Const 0x0111] [''PCI'' @ [CHR 0x5C] @ ''VEN_0102&DEV_0003&REV_00'', ''CMI8''],
  Init [Const 0x10F6, Const 0x10F6] [''pci'' @ [CHR 0x5C] @ ''ven'', ''CMI8738/C3DX Multimedia Audio Controller''],
  Init [Const 0x10FA, Const 0x0000] [''BT848KPF'', ''GUI Accelerator''],
  Init [Const 0x10FA, Const 0x0001] [[], ''GUI Accelerator''],
  Init [Const 0x10FA, Const 0x0002] [[], ''GUI Accelerator''],
  Init [Const 0x10FA, Const 0x0003] [[], ''GUI Accelerator''],
  Init [Const 0x10FA, Const 0x0004] [''2189'', ''GUI Accelerator''],
  Init [Const 0x10FA, Const 0x0005] [[], ''GUI Accelerator''],
  Init [Const 0x10FA, Const 0x0006] [[], ''GUI Accelerator''],
  Init [Const 0x10FA, Const 0x0007] [[], ''GUI Accelerator''],
  Init [Const 0x10FA, Const 0x0008] [[], ''GUI Accelerator''],
  Init [Const 0x10FA, Const 0x0009] [[], ''GUI Accelerator''],
  Init [Const 0x10FA, Const 0x000A] [[], ''GUI Accelerator''],
  Init [Const 0x10FA, Const 0x000B] [[], ''GUI Accelerator''],
  Init [Const 0x10FA, Const 0x000C] [''Targa 1000'', ''Video Capture & Editing card''],
  Init [Const 0x10FA, Const 0x000D] [[], ''GUI Accelerator''],
  Init [Const 0x10FA, Const 0x000E] [[], ''GUI Accelerator''],
  Init [Const 0x10FA, Const 0x000F] [[], ''GUI Accelerator''],
  Init [Const 0x10FA, Const 0x0010] [[], ''GUI Accelerator''],
  Init [Const 0x10FA, Const 0x0011] [[], ''GUI Accelerator''],
  Init [Const 0x10FA, Const 0x0012] [[], ''GUI Accelerator''],
  Init [Const 0x10FA, Const 0x0013] [[], ''GUI Accelerator''],
  Init [Const 0x10FA, Const 0x0014] [[], ''GUI Accelerator''],
  Init [Const 0x10FA, Const 0x0015] [[], ''GUI Accelerator''],
  Init [Const 0x10FB, Const 0x186F] [''TH6255'', []],
  Init [Const 0x10FC, Const 0x8139] [''Chip Description'', ''10''],
  Init [Const 0x10FD, Const 0x7E50] [''10FD'', ''1518''],
  Init [Const 0x1100, Const 0x3044] [''VT6307'', ''IEEE1394 Firewire 3 Port PCI Card''],
  Init [Const 0x1101, Const 0x0002] [''INI-920'', ''Ultra SCSI Adapter''],
  Init [Const 0x1101, Const 0x1060] [''INI-A100U2W'', ''Orchid Ultra-2 SCSI Controller''],
  Init [Const 0x1101, Const 0x134A] [[], ''Ultra SCSI Adapter''],
  Init [Const 0x1101, Const 0x1622] [''INIC1620'', ''PCI SATA Controller''],
  Init [Const 0x1101, Const 0x9100] [''INI-9010/9010W'', ''Fast Wide SCSI Controller''],
  Init [Const 0x1101, Const 0x9400] [''INIC-940'', ''Fast Wide SCSI Controller''],
  Init [Const 0x1101, Const 0x9401] [''INIC-935'', ''Fast Wide SCSI Controller''],
  Init [Const 0x1101, Const 0x9500] [''1101'', ''SCSI Initio ultra wide inci-950''],
  Init [Const 0x1101, Const 0x9502] [''INIC-1620'', ''pci sata controller''],
  Init [Const 0x1101, Const 0x9700] [[], ''Fast Wide SCSI''],
  Init [Const 0x1102, Const 0x0002] [''sb0570'', ''Sound Blaster audigy! (Also Live! 5.1) - Drivers only 98SE/ME/2k/XP''],
  Init [Const 0x1102, Const 0x0003] [''EMU8008'', ''AWE64D OEM (CT4600)''],
  Init [Const 0x1102, Const 0x0004] [''Creative SB Audigy 2 ZS (WDM)'', ''Audigy Audio Processor''],
  Init [Const 0x1102, Const 0x0005] [''EMU20K1, CA20K1'', ''Sound Blaster X-Fi XtremeMusic (SB0460), XtremeGamer OEM (SB0770)''],
  Init [Const 0x1102, Const 0x0006] [''emu10k1x'', ''Soundblaster Live! 5.1 (SB0200)''],
  Init [Const 0x1102, Const 0x0007] [''C6SB0410515017656A'', ''Sound Blaster 5.1 vhttp://files2.europe.creative.com/manualdn/Drivers/AVP/10599/0x48689B99/SB51_XPDR''],
  Init [Const 0x1102, Const 0x0008] [''ca0108'', ''sound blaster Audigy 4''],
  Init [Const 0x1102, Const 0x000A] [''SB1040'', ''Creative Labs  Sound Blaster X-Fi Xtreme Audio''],
  Init [Const 0x1102, Const 0x000B] [''SB1270'', ''Sound Blaster X-Fi Titanium HD''],
  Init [Const 0x1102, Const 0x000D] [''SB0880'', ''PCIe SB X-Fi Titanium Fatal1ty Pro Series''],
  Init [Const 0x1102, Const 0x0011] [''SB1500'', ''Sound Blaster Z''],
  Init [Const 0x1102, Const 0x0012] [''SB1500'', ''Sound Blaster Z Audio Controller''],
  Init [Const 0x1102, Const 0x006] [''emu10k1x'', ''Soundblaster Live! 5.1''],
  Init [Const 0x1102, Const 0x1017] [''5803'', ''3D Blaster Banshee PCI CT6760''],
  Init [Const 0x1102, Const 0x1020] [''NV5'', ''3D Blaster RIVA TNT2''],
  Init [Const 0x1102, Const 0x1047] [''EV1938'', ''Creative EV1938 3D Blaster Annihilator 2''],
  Init [Const 0x1102, Const 0x1102] [''10011102'', ''Phison''],
  Init [Const 0x1102, Const 0x1371] [''ES1373'', '' ES1373 AudioPCI''],
  Init [Const 0x1102, Const 0x2898] [''es2898'', ''es56t-p1''],
  Init [Const 0x1102, Const 0x4001] [''EMU10K1'', ''Audigy IEEE1394a Firewire Controller''],
  Init [Const 0x1102, Const 0x7002] [''EMU10K1'', ''GamePort''],
  Init [Const 0x1102, Const 0x7003] [''EMU10KX'', ''SB Creative Labs Audigy MIDI/Game-&#1087;&#1086;&#1088;&#1090;''],
  Init [Const 0x1102, Const 0x7004] [''ca0103-dbq'', ''Game port for SB Live! Series''],
  Init [Const 0x1102, Const 0x7005] [''650'', ''Audigy LS Series Game Port''],
  Init [Const 0x1102, Const 0x7802] [''EMU1OK1-NGF'', ''Environmental Audio (SB  Live)''],
  Init [Const 0x1102, Const 0x8938] [''EV1938'', ''Sound''],
  Init [Const 0x1102, Const 0x9800] [''EMU10KX'', ''Game Port''],
  Init [Const 0x1102, Const 0xC00D11BA] [''ca0103-dbq'', ''sound  port for SB Live! Series''],
  Init [Const 0x1102, Const 1371] [[], []],
  Init [Const 0x1105, Const 0x5000] [[], ''Multimedia''],
  Init [Const 0x1105, Const 0x8300] [''EM8220'', ''MPEG-2 Decoder''],
  Init [Const 0x1105, Const 0x8400] [''EM8400'', ''MPEG-2 Decoder''],
  Init [Const 0x1105, Const 0x8470] [''EM8470'', ''multimedia controller/A/V streaming processor''],
  Init [Const 0x1105, Const 0x8475] [''EM8475'', ''MPEG-4 Decoder''],
  Init [Const 0x1105, Const 0xC623] [''EM8623L'', ''Media Decoder SoC''],
  Init [Const 0x1106, Const 0x0130] [''VT6305'', ''VIA Fire 1394.A OHCI Link Layer Ctrlr''],
  Init [Const 0x1106, Const 0x0198] [[], ''CPU to PCI Bridge''],
  Init [Const 0x1106, Const 0x0238] [''K8T890'', ''CPU to PCI Bridge''],
  Init [Const 0x1106, Const 0x0259] [''CN400/PM880'', ''Host Bridge''],
  Init [Const 0x1106, Const 0x0269] [''KT880'', ''CPU to PCI Bridge''],
  Init [Const 0x1106, Const 0x0282] [''K8T880Pro'', ''CPU to PCI Bridge''],
  Init [Const 0x1106, Const 0x0305] [''VT8363A/8365'', ''Host Bridge''],
  Init [Const 0x1106, Const 0x0314] [''VIA Technologies'', ''VT82xxxx EIDE Controller (All VIA Chipsets)''],
  Init [Const 0x1106, Const 0x0391] [''VT8363/71'', ''Host Bridge''],
  Init [Const 0x1106, Const 0x0397] [''VT1708S'', ''VIA High Definition Audio''],
  Init [Const 0x1106, Const 0x0440] [''VIA VT1818S'', ''VIA VT1818S @ ATI SB800 - High Definition Audio Controller'' @ [CHR 0x09] @ ''PCI''],
  Init [Const 0x1106, Const 0x0441] [''VT2020'', ''VIA HD Audio Controller''],
  Init [Const 0x1106, Const 0x0448] [''0'', ''0''],
  Init [Const 0x1106, Const 0x0501] [''VT8501'', ''Host Bridge''],
  Init [Const 0x1106, Const 0x0505] [''VIA S3G UniChrome IGP'', ''4397''],
  Init [Const 0x1106, Const 0x0506] [''1106'', ''1708''],
  Init [Const 0x1106, Const 0x0561] [''82C570 MV'', ''IDE Controller''],
  Init [Const 0x1106, Const 0x0571] [''VT8235 / VT8237a'', ''Bus Master IDE Controller''],
  Init [Const 0x1106, Const 0x0576] [''82C576'', ''P54 Ctrlr''],
  Init [Const 0x1106, Const 0x0581] [''CX700'', ''VIA/S3G Unichrome Pro II IGP''],
  Init [Const 0x1106, Const 0x0585] [''VT82C585VP/VPX'', ''Host Bus-PCI Bridge''],
  Init [Const 0x1106, Const 0x0586] [''VT82C586VP'', ''PCI-to-ISA Bridge''],
  Init [Const 0x1106, Const 0x0591] [''VT8237S'', ''VIA VT8237A SATA RAID Controller''],
  Init [Const 0x1106, Const 0x0595] [''VT82C595'', ''Apollo VP2 PCI North Bridge''],
  Init [Const 0x1106, Const 0x0596] [''VT82C596'', ''PCI ISA Bridge''],
  Init [Const 0x1106, Const 0x0597] [''VT82C597'', ''Host Bridge (Apollo VP3)''],
  Init [Const 0x1106, Const 0x0598] [''VT82C598'', ''Host Bridge''],
  Init [Const 0x1106, Const 0x0601] [''VIA8601'', ''System Controller''],
  Init [Const 0x1106, Const 0x0605] [''VT82c686b'', ''PM133 System Control''],
  Init [Const 0x1106, Const 0x0680] [''VT82C680'', ''Apollo P6''],
  Init [Const 0x1106, Const 0x0686] [''VT82C686'', ''PCI-to-ISA bridge''],
  Init [Const 0x1106, Const 0x0689] [''8906'', ''3249''],
  Init [Const 0x1106, Const 0x0691] [''VIA VT KN133'', ''Mainboard''],
  Init [Const 0x1106, Const 0x0692] [[], ''North Bridge''],
  Init [Const 0x1106, Const 0x0693] [''VT82C693'', ''Host Bridge''],
  Init [Const 0x1106, Const 0x0926] [''VT86C926'', ''Amazon PCI Ethernet Controller''],
  Init [Const 0x1106, Const 0x1000] [''82C570MV'', ''Host Bridge''],
  Init [Const 0x1106, Const 0x1006] [''3059'', ''3249''],
  Init [Const 0x1106, Const 0x1089] [''3059'', ''VIA Sound VIA AC97 in VT82C686A/B,VIA AC97 in VT8233/AC,VT8235''],
  Init [Const 0x1106, Malformed ''0x10jn''] [''1106'', ''3108''],
  Init [Const 0x1106, Const 0x1106] [''1106&DEV_E721&SUBSYS'', ''HDAUDIO'' @ [CHR 0x5C] @ ''FUNC_01''],
  Init [Const 0x1106, Const 0x1107] [''060000A'', ''ISA Bridge w/IDE''],
  Init [Const 0x1106, Const 0x1111] [''060000A1106'', ''VIA Sound VIA AC97 in VT82C686A/B, VIA AC97 in VT8233/AC, VT8235 & VT8237/R, VIA Vinyl audio VT1612A''],
  Init [Const 0x1106, Const 0x1204] [''???'', ''CPU to PCI''],
  Init [Const 0x1106, Const 0x1238] [''K8T890'', ''CPU to PCI Bridge''],
  Init [Const 0x1106, Const 0x1259] [''CN400/PM880'', ''Host Bridge''],
  Init [Const 0x1106, Const 0x1269] [''KT880'', ''CPU to PCI Bridge''],
  Init [Const 0x1106, Const 0x1282] [''K8T880Pro'', ''CPU to PCI Bridge''],
  Init [Const 0x1106, Const 0x1289] [''VT1708'', ''PCI'' @ [CHR 0x5C] @ ''VEN_1106&DEV_3059&SUBSYS_03011F6&REV_50'' @ [CHR 0x5C] @ ''3&13C0B0C5&0&8''],
  Init [Const 0x1106, Const 0x1289A] [''VT1708'', ''PCI'' @ [CHR 0x5C] @ ''VEN_1106&DEV_3059&SUBSYS_03011F6&REV_50'' @ [CHR 0x5C] @ ''3&13C0B0C5&0&8''],
  Init [Const 0x1106, Const 0x1401] [''060000A'', ''ISA Bridge w/IDE'']]"

lemma PciDevTable_42_facts:
  "length PciDevTable_42 = 150" "rejected PciDevTable_42 = 1" "oversized PciDevTable_42 = 2"
  "vendors PciDevTable_42 \<subseteq> Const ` set vendor_numbers"
  unfolding PciDevTable_42_def count_rows by (simp_all add: part_simps listed vendor_known_list cong: part_cong count_rows_cong)

definition PciDevTable_43 :: "initializer list" where
 "PciDevTable_43 = [
  Init [Const 0x1106, Const 0x1571] [''VT82C416'', ''IDE Controller''],
  Init [Const 0x1106, Const 0x1595] [''VT82C595/97'', ''Host Bridge''],
  Init [Const 0x1106, Const 0x1708] [''VIA VT1708S '', ''High Definition Audio controller''],
  Init [Const 0x1106, Const 0x1989] [''VT1708'', ''PCI'' @ [CHR 0x5C] @ ''VEN_1106&DEV_3344&SUBSYS_12021565&REV_01'' @ [CHR 0x5C] @ ''4&8CA73A7&0&0008 ''],
  Init [Const 0x1106, Const 0x2006] [''VT6105M'', ''VIA Rhine III VT6105M Fast Ethernet controller''],
  Init [Const 0x1106, Const 0x2012] [''1106'', ''7205''],
  Init [Const 0x1106, Const 0x2038] [''Unknown'', ''PCI Device''],
  Init [Const 0x1106, Const 0x204] [''K8M400 chipset'', ''CPU ''],
  Init [Const 0x1106, Const 0x2204] [''???'', ''CPU to PCI''],
  Init [Const 0x1106, Const 0x2238] [''K8T890'', ''CPU to PCI Bridge''],
  Init [Const 0x1106, Const 0x2259] [''CN400/PM880'', ''Host Bridge''],
  Init [Const 0x1106, Const 0x2269] [''KT880'', ''CPU to PCI Bridge''],
  Init [Const 0x1106, Const 0x2282] [''K8T880Pro'', ''CPU to PCI Bridge''],
  Init [Const 0x1106, Const 0x24C5] [''8086 SoundController (ICH4-M B0 step)'', ''VIA Vynil v700b''],
  Init [Const 0x1106, Const 0x3009] [''SB200'', ''AC'' @ [CHR 0x27] @ ''97 Audio Controller''],
  Init [Const 0x1106, Const 0x3038] [''VT6212L'', ''USB''],
  Init [Const 0x1106, Malformed ''0x3038*''] [''VT8251'', ''4 x USB1.0 PCI controller''],
  Init [Const 0x1106, Const 0x3040] [''VT82C586A/B'', ''APM(or ACPIAPIC?)''],
  Init [Const 0x1106, Const 0x3041] [''82C570MV'', ''ISA Bridge w/IDE''],
  Init [Const 0x1106, Const 0x3043] [''VT86C100A'', ''Rhine 10/100 Ethernet Adapter''],
  Init [Const 0x1106, Const 0x3044] [''VT6306/VT6307/VT6308'', ''VIA Fire II 1394a OHCI Link Layer Ctrlr1''],
  Init [Const 0x1106, Const 0x305] [''VIA Sound VIA AC 97 in VT82C686A/B'', ''VIA AC 97 in VT8233/AC''],
  Init [Const 0x1106, Const 0x3050] [''VT82C596/596A/596'', ''Power Management and SMBus Controller''],
  Init [Const 0x1106, Const 0x3051] [[], ''Power Management Controller''],
  Init [Const 0x1106, Const 0x3053] [''VT6105M'', ''Rhine III Management Adapter''],
  Init [Const 0x1106, Const 0x3057] [''VT82C686A/B'', ''ACPI Power Management Controller''],
  Init [Const 0x1106, Const 0x3058] [''VT1709'', ''PCI'' @ [CHR 0x5C] @ ''VEN_1106&DEV_3059&SUBSYS_81661043&REV_60'' @ [CHR 0x5C] @ ''3&267A616A&0&8D''],
  Init [Const 0x1106, Const 0x3059] [''VT 8233'', ''VIA Vinyl (or Tremor) Audio VT1618''],
  Init [Const 0x1106, Const 0x30590] [''9739'', ''C-Media Electronics Audio Controller''],
  Init [Const 0x1106, Const 0x3065] [''VT6102'', ''Rhine II PCI Fast Ethernet Controlltoounsia-dinge@hotmail.frer''],
  Init [Const 0x1106, Const 0x3068] [''PCI'' @ [CHR 0x5C] @ ''VEN_1106&DEV_3068&SUBSYS_4C211543&REV_80'' @ [CHR 0x5C] @ ''3&61A'', ''VIA MC'' @ [CHR 0x27] @ ''97 Modem Controller - Agere Systems AC'' @ [CHR 0x27] @ ''97 Modem / AC-Link modems''],
  Init [Const 0x1106, Malformed ''0x3068&CC_0000''] [''VT82C686A/B&VT8231'', ''APM(or ACPI?)''],
  Init [Const 0x1106, Malformed ''0x3068&CC_0780''] [''VT82C686A/B&VT8231'', ''MC97 MODEM''],
  Init [Const 0x1106, Const 0x3074] [''VT8233'', ''PCI to ISA Bridge''],
  Init [Const 0x1106, Const 0x3086] [''VT82C686'', ''Power''],
  Init [Const 0x1106, Const 0x3091] [''VT8633'', ''CPU to PCI Bridge''],
  Init [Const 0x1106, Const 0x3099] [''vt8233'', ''CPU to PCI Bridge''],
  Init [Const 0x1106, Const 0x3101] [''VT8653'', ''CPU to PCI Bridge''],
  Init [Const 0x1106, Const 0x3102] [''VT8362'', ''CPU to PCI Bridge''],
  Init [Const 0x1106, Const 0x3103] [''VT8615'', ''CPU to PCI Bridge''],
  Init [Const 0x1106, Const 0x3104] [''VT6202'', ''USB 2.0 Enhanced Host Controller''],
  Init [Const 0x1106, Const 0x3106] [''VT6105M/LOM'', ''Rhine III PCI Fast Ethernet Controller''],
  Init [Const 0x1106, Const 0x3107] [''VT8233/A AC97'' @ [CHR 0x27] @ '' Enhance Audio Controller'', ''PCI to ISA Bridge''],
  Init [Const 0x1106, Const 0x3108] [''8237'', ''VIA/S3G UniChrome Pro IGP (Integrated Video Adapter)''],
  Init [Const 0x1106, Const 0x3109] [''VT8233/A AC97'' @ [CHR 0x27] @ '' Enhance Audio Controller'', ''PCI to ISA Bridge''],
  Init [Const 0x1106, Const 0x3112] [''VT8361'', ''CPU to PCI Bridge''],
  Init [Const 0x1106, Const 0x3113] [[], ''PCI to PCI Bridge''],
  Init [Const 0x1106, Const 0x3116] [''VT8375'', ''CPU-to-PCI Bridge''],
  Init [Const 0x1106, Const 0x3118] [''CN400'', ''Via Built-In VGA S3 Graphics UniChrome'' @ [CHR 0x99] @ '' Pro IGP Series CN400''],
  Init [Const 0x1106, Const 0x3119] [''VT6120/VT6121/VT6122'', [CHR 0x27] @ ''Velocity'' @ [CHR 0x27] @ '' Gigabit Ethernet Controllers''],
  Init [Const 0x1106, Const 0x3122] [''3122110'', ''CastleRock AGP 8X Controller''],
  Init [Const 0x1106, Const 0x3123] [''VT8623'', ''CPU to PCI Bridge''],
  Init [Const 0x1106, Const 0x3128] [''vt8753'', ''CPU-to-PCI Bridge''],
  Init [Const 0x1106, Const 0x3133] [''VT3133'', ''CPU to PCI Bridge''],
  Init [Const 0x1106, Const 0x3147] [''VT8233'', ''PCI to ISA Bridge''],
  Init [Const 0x1106, Const 0x3148] [''VT8751'', ''CPU-to-PCI Bridge''],
  Init [Const 0x1106, Const 0x3149] [''VT8237 Family/ VT6420'', ''SATA RAID Controller''],
  Init [Const 0x1106, Const 0x3156] [''VT8372'', ''CPU to PCI Bridge''],
  Init [Const 0x1106, Const 0x3157] [''VIA VT8237'', ''CX700 - SATA RAID ''],
  Init [Const 0x1106, Const 0x3158] [[], ''CPU-to-PCI Bridge''],
  Init [Const 0x1106, Const 0x3164] [''VT6410'', ''VIA RAID Controller - 3164 ''],
  Init [Const 0x1106, Const 0x3168] [''VT8374'', ''P4X400 Host Controller/AGP Bridge''],
  Init [Const 0x1106, Const 0x3177] [''VT8235'', ''PCI to ISA Bridge''],
  Init [Const 0x1106, Const 0x3178] [[], ''CPU to PCI Bridge''],
  Init [Const 0x1106, Const 0x3188] [''K8HTB-8237'', ''CPU to PCI Bridge''],
  Init [Const 0x1106, Const 0x3189] [''VT8377'', ''CPU to PCI Bridge''],
  Init [Const 0x1106, Const 0x3198] [''VEN_1106&DEV_B198&SUBSYS_00000000&REV_00'', ''CPU-to-PCI Bridge''],
  Init [Const 0x1106, Const 0x3202] [[], ''CPU to PCI Bridge''],
  Init [Const 0x1106, Const 0x3204] [''1394 i2c'', ''CPU to PCI Bridge''],
  Init [Const 0x1106, Const 0x3205] [''PCI'' @ [CHR 0x5C] @ ''VEN_1106&DEV_3108&SUBSYS_0000&REV_00'' @ [CHR 0x5C] @ ''3&61A'', ''CPU to PCI Bridge''],
  Init [Const 0x1106, Const 0x3208] [''PT890'', ''CPU to PCI Bridge''],
  Init [Const 0x1106, Const 0x3209] [[], ''CPU to PCI Bridge''],
  Init [Const 0x1106, Const 0x3213] [[], ''PCI to PCI Bridge''],
  Init [Const 0x1106, Const 0x3227] [''VT8237R'', ''PCI-to-ISA Bridge''],
  Init [Const 0x1106, Const 0x3230] [''K8M890CE & K8N890CE Display Driver'', ''Integrated Graphics''],
  Init [Const 0x1106, Const 0x3238] [''K8T890'', ''CPU-to-PCI Bridge''],
  Init [Const 0x1106, Const 0x3249] [''VT6421'', ''VIA VT6421 RAID Controller - Windows XP 32.bit''],
  Init [Const 0x1106, Const 0x3253] [''VT6655'', ''PCI-Cardbus Wireless LAN Adapter''],
  Init [Const 0x1106, Const 0x3258] [''PT880'', ''CPU-to-PCI Bridge''],
  Init [Const 0x1106, Const 0x3259] [''???'', ''CPU to PCI Bridge''],
  Init [Const 0x1106, Const 0x3269] [''KT880'', ''CPU to PCI Bridge''],
  Init [Const 0x1106, Const 0x3282] [''K8T880Pro'', ''CPU to PCI Bridge''],
  Init [Const 0x1106, Const 0x3288] [''040300'', ''HDA Codec Realtek ALC660''],
  Init [Const 0x1106, Const 0x3343] [''81CE1043'', ''VIA S3G UniChrome Family''],
  Init [Const 0x1106, Const 0x3344] [''CN700'', ''VIA/S3G UniChrome Pro IGP CN700''],
  Init [Const 0x1106, Const 0x3349] [''VT8251'', ''VIA VT8251 AHCI RAID Controller''],
  Init [Const 0x1106, Const 0x3365] [''060000A1106'', ''VIA Sound VIA AC97 in VT82C686A/B, VIA AC97 in VT8233/AC, VT8235 & VT8237/R, VIA Vinyl audio VT1612A''],
  Init [Const 0x1106, Const 0x3371] [''P4M900'', ''VIA Chrome9 HC IGP''],
  Init [Const 0x1106, Const 0x3403] [''VT6315/VT6330'', ''OHCI Compliant IEEE 1394 Host Controller ''],
  Init [Const 0x1106, Const 0x3483] [''VL805-q6'', ''Universal Serial Bus (USB) Controller''],
  Init [Const 0x1106, Const 0x3680] [''pci'' @ [CHR 0x5C] @ ''ven_1106&dev_3108_&subsys_4c211543_rev_80'' @ [CHR 0x5C] @ ''3&13'', ''via mc97 controller for ac -link modems''],
  Init [Const 0x1106, Const 0x401A] [''VT-6325'', ''Via Card Reader''],
  Init [Const 0x1106, Const 0x4149] [''VT6420'', ''PATA''],
  Init [Const 0x1106, Const 0x4204] [''???'', ''CPU to PCI Bridge''],
  Init [Const 0x1106, Const 0x4238] [''K8T890'', ''CPU to PCI Bridge''],
  Init [Const 0x1106, Const 0x4258] [''???'', ''CPU to PCI Bridge''],
  Init [Const 0x1106, Const 0x4259] [''???'', ''CPU to PCI Bridge''],
  Init [Const 0x1106, Const 0x4269] [''KT880'', ''CPU to PCI Bridge''],
  Init [Const 0x1106, Const 0x4282] [''K8T880Pro'', ''CPU to PCI Bridge''],
  Init [Const 0x1106, Const 0x4397] [''VT1708S'', ''ALC662 &#1040;&#1091;&#1076;&#1080;&#1086; &#1050;&#1086;&#1076;&#1077;&#1082;''],
  Init [Const 0x1106, Const 0x5000] [''3059'', ''VIA Sound VIA AC97 in VT82C686A/B, VIA AC97 in VT8233/AC, VT8235''],
  Init [Const 0x1106, Const 0x5030] [''VT82C596'', ''ACPI Power Management Controller''],
  Init [Const 0x1106, Const 0x5308] [''PT880 Pro / VT8237'', ''Via I/O APIC Interrupt Controller''],
  Init [Const 0x1106, Const 0x5372] [''VT8237S'', ''IDE SATA Controller''],
  Init [Const 0x1106, Const 0x6100] [''VIA VT86C100A'', ''Rhine II PCI Fast SATA and ethernet controller''],
  Init [Const 0x1106, Const 0x6287] [''27611'', ''UT2DC2  <a href=''],
  Init [Const 0x1106, Const 0x7064] [''SUBSYS_10020000'', ''REV_46'' @ [CHR 0x5C] @ ''3&61AAA01&0&80''],
  Init [Const 0x1106, Const 0x7204] [''K8M400'', ''CPU to PCI Bridge''],
  Init [Const 0x1106, Const 0x7205] [''KM400'', ''VIA Technologies, Inc. VT8378 [S3 UniChrome] Graphics Adapter''],
  Init [Const 0x1106, Const 0x7238] [''K8T890'', ''CPU to PCI Bridge''],
  Init [Const 0x1106, Const 0x7258] [''PT880'', ''CPU to PCI Bridge''],
  Init [Const 0x1106, Const 0x7259] [''PM800'', ''CPU to PCI Bridge''],
  Init [Const 0x1106, Const 0x7269] [''KT880'', ''CPU to PCI Bridge''],
  Init [Const 0x1106, Const 0x7282] [''K8T880Pro'', ''CPU to PCI Bridge''],
  Init [Const 0x1106, Const 0x7353] [''CX700'', ''SATA RAID''],
  Init [Const 0x1106, Const 0x7372] [''VT8237'', ''SATA RAID''],
  Init [Const 0x1106, Const 0x7565] [''473040005'', ''60''],
  Init [Const 0x1106, Const 0x8208] [''PT890?'', ''PCI to AGP Bridge''],
  Init [Const 0x1106, Const 0x8231] [''VT8231'', ''PCI to ISA Bridge''],
  Init [Const 0x1106, Const 0x8235] [''VT8754'', ''vga''],
  Init [Const 0x1106, Const 0x8237] [''VT8237'', ''AC97 Enhanced Audio Controller - the 8251 controller is different''],
  Init [Const 0x1106, Const 0x8305] [''VT8363A/65'', ''PCI to AGP Bridge''],
  Init [Const 0x1106, Const 0x8391] [''VT8363/71'', ''PCI to AGP Bridge''],
  Init [Const 0x1106, Const 0x8501] [''VT8501'', ''PCI to AGP Bridge''],
  Init [Const 0x1106, Const 0x8596] [''VT82C596'', ''PCI to AGP Bridge''],
  Init [Const 0x1106, Const 0x8597] [''VT82C597'', ''PCI-to-PCI Bridge (AGP)''],
  Init [Const 0x1106, Const 0x8598] [''VT82C598'', ''PCI-to-PCI Bridge (AGP)''],
  Init [Const 0x1106, Const 0x8601] [''VT82C601'', ''PCI-to-PCI Bridge (AGP)''],
  Init [Const 0x1106, Const 0x8602] [[], ''CPU to AGP Bridge''],
  Init [Const 0x1106, Const 0x8605] [''VT8605'', ''PCI-to-PCI Bridge(AGP)''],
  Init [Const 0x1106, Const 0x8691] [''VT82C691/693A/694X'', ''PCI-to-PCI Bridge (AGP)''],
  Init [Const 0x1106, Const 0x8693] [''VT82C693/A'', ''PCI-to-PCI Bridge (AGP)''],
  Init [Const 0x1106, Const 0x8920] [''3059'', ''3249''],
  Init [Const 0x1106, Const 0x9238] [''K8T890'', ''I/O APIC''],
  Init [Const 0x1106, Const 0x9398] [''VT8601'', ''2D/3D Graphics Accelerator''],
  Init [Const 0x1106, Const 0x9530] [''1106'', ''Via MSP Cardreader driver''],
  Init [Const 0x1106, Const 0x9875] [''1'', ''pci''],
  Init [Const 0x1106, Const 0x9876] [''VT8233/A AC97'' @ [CHR 0x27] @ '' Enhance Audio Controller'', ''PCI to ISA Bridge''],
  Init [Const 0x1106, Const 0xA208] [''PT890'', ''PCI-to-PCI Bridge''],
  Init [Const 0x1106, Const 0xA238] [''K8T890'', ''PCI-to-PCI Bridge''],
  Init [Const 0x1106, Const 0xB01F] [''castle rock agp8x controll'', ''fast ethernet nic''],
  Init [Const 0x1106, Const 0xB091] [''VT8633'', ''PCI-to-PCI Bridge (AGP)''],
  Init [Const 0x1106, Const 0xB099] [''VT8366/A'', ''PCI-to-PCI Bridge (AGP)''],
  Init [Const 0x1106, Const 0xB101] [''VT8653'', ''PCI-to-PCI Bridge (AGP)''],
  Init [Const 0x1106, Const 0xB102] [''VT8362'', ''PCI-to-PCI Bridge (AGP)''],
  Init [Const 0x1106, Const 0xB103] [''VT8615'', ''PCI-to-PCI Bridge (AGP)''],
  Init [Const 0x1106, Const 0xB112] [''VT8361'', ''PCI-to-PCI Bridge (AGP)''],
  Init [Const 0x1106, Const 0xB113] [[], ''I/O APIC''],
  Init [Const 0x1106, Const 0xB115] [''VT8363/65'', ''CPU to AGP Controller''],
  Init [Const 0x1106, Const 0xB116] [''VT8375'', ''PCI-to-PCI Bridge (AGP)'']]"

lemma PciDevTable_43_facts:
  "length PciDevTable_43 = 150" "rejected PciDevTable_43 = 3" "oversized PciDevTable_43 = 1"
  "vendors PciDevTable_43 \<subseteq> Const ` set vendor_numbers"
  unfolding PciDevTable_43_def count_rows by (simp_all add: part_simps listed vendor_known_list cong: part_cong count_rows_cong)

definition PciDevTable_44 :: "initializer list" where
 "PciDevTable_44 = [
  Init [Const 0x1106, Const 0xB133] [''vt686b'', ''CPU to AGP Controller''],
  Init [Const 0x1106, Const 0xB148] [''VT8751 Apollo'', ''PCI-to-Host''],
  Init [Const 0x1106, Const 0xB156] [''VT8372'', ''PCI-to-PCI Bridge (AGP)''],
  Init [Const 0x1106, Const 0xB158] [''VIA Technologies Inc'', ''PCI-to-PCI Bridge (AGP)''],
  Init [Const 0x1106, Const 0xB168] [''VT8235'', ''PCI-to-PCI Bridge (AGP 2.0/3.0)''],
  Init [Const 0x1106, Const 0xB188] [''K8M800/K8N800'', ''VIA CPU to AGP2.0/AGP3.0 Controller''],
  Init [Const 0x1106, Const 0xB198] [''546546'', ''PCI-to-PCI Bridge (AGP 2.0/3.0)''],
  Init [Const 0x1106, Const 0xB213] [[], ''I/O APIC''],
  Init [Const 0x1106, Const 0xC208] [''PT890'', ''PCI-to-PCI Bridge''],
  Init [Const 0x1106, Const 0xC238] [''K8T890'', ''PCI-to-PCI Bridge''],
  Init [Const 0x1106, Const 0xD208] [''PT890'', ''PCI-to-PCI Bridge''],
  Init [Const 0x1106, Const 0xD213] [[], ''PCI to PCI Bridge''],
  Init [Const 0x1106, Const 0xD238] [''K8T890'', ''PCI-to-PCI Bridge''],
  Init [Const 0x1106, Const 0xE208] [''PT890'', ''PCI-to-PCI Bridge''],
  Init [Const 0x1106, Const 0xE238] [''K8T890'', ''PCI-to-PCI Bridge''],
  Init [Const 0x1106, Const 0xE721] [''060000A1106'', ''VIA HD Audio Deck VT1708B''],
  Init [Const 0x1106, Const 0xE724] [''VT1705'', ''VT HD AUDIO DECK vt8235''],
  Init [Const 0x1106, Const 0xF208] [''PT890'', ''PCI-to-PCI Bridge''],
  Init [Const 0x1106, Const 0xF238] [''K8T890'', ''PCI-to-PCI Bridge''],
  Init [Const 0x1107, Const 0x8576] [[], ''PCI Host Bridge''],
  Init [Const 0x1108, Const 0x0100] [''p1690plus-AA'', ''Token Ring Adapter''],
  Init [Const 0x1108, Const 0x0101] [''p1690plus-AB'', ''2-Port Token Ring Adapter''],
  Init [Const 0x1108, Const 0x0105] [''P1690Plus'', ''Token Ring Adapter''],
  Init [Const 0x1108, Const 0x0108] [''P1690Plus'', ''Token Ring Adapter''],
  Init [Const 0x1108, Const 0x0138] [''P1690Plus'', ''Token Ring Adapter''],
  Init [Const 0x1108, Const 0x0139] [''P1690Plus'', ''Token Ring Adapter''],
  Init [Const 0x1108, Const 0x013C] [''P1690Plus'', ''Token Ring Adapter''],
  Init [Const 0x1108, Const 0x013D] [''P1690Plus'', ''Token Ring Adapter''],
  Init [Const 0x1109, Const 0x1400] [''EM110TX'', ''EX110TX PCI Fast Ethernet Adapter''],
  Init [Const 0x110B, Const 0x0001] [''Mpact'', ''Media Processor''],
  Init [Const 0x110B, Const 0x0002] [''GM90C7110VX'', ''MPACT DVD decoder.''],
  Init [Const 0x110B, Const 0x0004] [''Mpact'', ''Integrated video card''],
  Init [Const 0x13EA, Const 0x3131] [''DS3131'', ''BoSS Bit Synchronous HDLC Controller''],
  Init [Const 0x13EA, Const 0x3134] [''DS3134'', ''Chateau Channelized T1/E1/HDLC Controller''],
  Init [Const 0x13F0, Const 0x0200] [''0x0200'', ''IP100A Integrated 10/100 Ethernet MAC + PHY''],
  Init [Const 0x13F0, Const 0x0201] [''ST201'', ''Fast Ehternet Adapter''],
  Init [Const 0x13F0, Const 0x0300] [''NX1001'', ''Network Adapter''],
  Init [Const 0x13F0, Const 0x1021] [''Tamarack 9021A'', ''Tamarack 9021A Gigabit Ethernet adapter''],
  Init [Const 0x13F0, Const 0x1023] [''NX1101a'', ''Gigabit Ethernet Controllera''],
  Init [Const 0x13F0, Const 0x13F0] [''PCI'' @ [CHR 0x5C] @ ''VEN_13F0&DEV_0000&SUBSYS_82131043&REV_41'' @ [CHR 0x5C] @ ''4&19'', ''ST201 Fast Ethernet '' @ [CHR 0xC3] @ ''&#65533;'' @ [CHR 0xEF, CHR 0xBF, CHR 0xBD, CHR 0xC3] @ ''&#65533;'' @ [CHR 0xC3] @ ''&#65533; '' @ [CHR 0xD0, CHR 0x93, CHR 0xD0, CHR 0xA0, CHR 0xD0] @ ''&#65533;'' @ [CHR 0xD0, CHR 0x94, CHR 0xD0, CHR 0xA3, CHR 0xD0, CHR 0xA1, CHR 0xD0, CHR 0x9E, CHR 0xD0, CHR 0x92] @ '' '' @ [CHR 0xC3] @ ''&#65533;'' @ [CHR 0xC2, CHR 0xBF, CHR 0xC3, CHR 0x91, CHR 0x27, CHR 0xC3] @ ''&#65533;'' @ [CHR 0xC2, CHR 0xB5]],
  Init [Const 0x13F1, Const 0x0028] [''NV05'', ''MCP67 High Definition Audio''],
  Init [Const 0x13FD, Const 0x160E] [''Initio1606l'', ''SATA/150 &#1091;&#1089;&#1090;&#1088;&#1086;&#1081;&#1089;&#1090;&#1074;&#1072; USB 2.0''],
  Init [Const 0x13FD, Const 0x161F] [''1D59CB92'', ''s''],
  Init [Const 0x13FD, Const 0x1840] [''INIC-1608L'', ''SATA/150 device to USB 2.0 Host interface (http://www.initio.com/Html/inic-1608.html)''],
  Init [Const 0x1400, Const 0x0001] [[], []],
  Init [Const 0x1400, Const 0x0003] [[], []],
  Init [Const 0x1400, Const 0x0004] [''030000'', ''030000''],
  Init [Const 0x1400, Const 0x1401] [''9432 TX'', ''hd 2600xt''],
  Init [Const 0x1409, Const 0x7168] [''1889'', ''PCI Serial Port (4x)''],
  Init [Const 0x1409, Const 0x7268] [''PCI / ISA IEEE1284 ECP/EPP/SPP/BPP Signal Chips So'', ''PCI parallel port''],
  Init [Const 0x1409, Const 7268] [''PCI / ISA IEEE1284 ECP/EPP/SPP/BPP PAR4008A'', ''PCI parallel port''],
  Init [Const 0x140B, Const 0x0610] [[], []],
  Init [Const 0x140B, Const 0x615] [''NA'', ''Na''],
  Init [Const 0x140B, Const 0x682] [''NA'', ''NA''],
  Init [Const 0x1415, Const 0x8401] [''OX9162'', ''PCI Interface to local bus''],
  Init [Const 0x1415, Const 0x8403] [''OX12PCI840'', ''PCI Parallel Card''],
  Init [Const 0x1415, Const 0x9500] [''OX16PCI952'', ''Quad UART (disabled)''],
  Init [Const 0x1415, Const 0x9501] [''OX16PCI954'', ''Quad UART''],
  Init [Const 0x1415, Const 0x9505] [''OXuPCI952'', ''Dual UART''],
  Init [Const 0x1415, Const 0x950A] [''OX16PCI954'', ''Dual PCI UARTS''],
  Init [Const 0x1415, Const 0x950B] [''OXCF950'', ''Integrated High Performance UART''],
  Init [Const 0x1415, Const 0x9510] [''OX16PCI954'', ''PCI Interface (disabled)''],
  Init [Const 0x1415, Const 0x9511] [''OX9160'', ''PCI Interface to 8-bit local bus''],
  Init [Const 0x1415, Const 0x9512] [''OX16PCI954'', ''PCI Interface to 32-bit bus''],
  Init [Const 0x1415, Const 0x9513] [''OX16PCI954'', ''Parallel Port''],
  Init [Const 0x1415, Const 0x9521] [''OX16PCI952'', ''Dual UART''],
  Init [Const 0x1415, Const 0x9523] [''OX16PCI952'', ''Integrated Parallel Port''],
  Init [Const 0x1415, Const 0xC110] [''OXPCIe952'', ''Parallel PCI Express Card (Manhattan 158176)''],
  Init [Const 0x1415, Const 0xC158] [''OXPCIe952'', ''2 native UARTs (function 0)''],
  Init [Const 0x1415, Const 0xC15D] [''OXPCIe952'', ''2 native UARTs (function 1)''],
  Init [Const 0x1415, Const 0xC208] [''OXPCIe954'', ''Quad UARTs''],
  Init [Const 0x1415, Const 0xC20D] [''OXPCIe954'', ''Quad UARTs (function 1)''],
  Init [Const 0x1415, Const 0xC308] [''OXPCIe958'', ''Octo UARTs''],
  Init [Const 0x1415, Const 0xC30D] [''OXPCIe958'', ''Octo UARTs (function 1)''],
  Init [Const 0x141F, Const 0x6181] [''KFIR'', ''MPEG decoder''],
  Init [Const 0x1425, Const 0x0030] [''N/A'', ''T310 10GbE Single Port Adapter''],
  Init [Const 0x1425, Const 0x31] [''N/A'', ''T320 10GbE Dual Port Adapter''],
  Init [Const 0x1425, Const 0x32] [''N/A'', ''T302 1GbE Dual Port Adapter''],
  Init [Const 0x1425, Const 0x33] [''N/A'', ''T304 1GbE Quad Port Adapter''],
  Init [Const 0x1425, Const 0x34] [''N/A'', ''B320 10GbE Dual Port Adapter''],
  Init [Const 0x1425, Const 0x35] [''N/A'', ''S310-CR 10GbE Single Port Adapter''],
  Init [Const 0x1425, Const 0x36] [''N/A'', ''S320-LP-CR 10GbE Dual Port Adapter''],
  Init [Const 0x1425, Const 0x37] [''N/A'', ''N320-G2-CR 10GbE Dual Port Adapter''],
  Init [Const 0x1425, Const 0x4401] [''N/A'', ''T420-CR Unified Wire Ethernet Controller''],
  Init [Const 0x1425, Const 0x4402] [''N/A'', ''T422-CR Unified Wire Ethernet Controller''],
  Init [Const 0x1425, Const 0x4403] [''N/A'', ''T440-CR Unified Wire Ethernet Controller''],
  Init [Const 0x1425, Const 0x4404] [''N/A'', ''T420-BCH Unified Wire Ethernet Controller''],
  Init [Const 0x1425, Const 0x4405] [''N/A'', ''T440-BCH Unified Wire Ethernet Controller''],
  Init [Const 0x1425, Const 0x4406] [''N/A'', ''T440-CH Unified Wire Ethernet Controller''],
  Init [Const 0x1425, Const 0x4407] [''N/A'', ''T420-SO Unified Wire Ethernet Controller''],
  Init [Const 0x1425, Const 0x4408] [''N/A'', ''T420-CX Unified Wire Ethernet Controller''],
  Init [Const 0x1425, Const 0x4409] [''N/A'', ''T420-BT Unified Wire Ethernet Controller''],
  Init [Const 0x1425, Const 0x440A] [''N/A'', ''T404-BT Unified Wire Ethernet Controller''],
  Init [Const 0x1425, Const 0x440D] [''N/A'', ''T480 Unified Wire Ethernet Controller''],
  Init [Const 0x1425, Const 0x440E] [''N/A'', ''T440-LP-CR Unified Wire Ethernet Controller''],
  Init [Const 0x1425, Const 0x7145] [''1002'', ''N/A''],
  Init [Const 0x1462, Const 0x00C1] [''NV41.1'', ''NX6800-TD256E''],
  Init [Const 0x1462, Const 0x4720] [''883'', ''Audio controller''],
  Init [Const 0x1462, Const 0x5071] [''883'', ''Audio controller''],
  Init [Const 0x1462, Const 0x5964] [''0PCI'' @ [CHR 0x5C] @ ''VEN_11C1&DEV_0620&SUBSYS_062011C1'', ''RADEON 9250/9200 series AGP''],
  Init [Const 0x1462, Const 0x7120] [[], []],
  Init [Const 0x1462, Const 0x7960] [''MCP2T'', ''MCP2T''],
  Init [Const 0x1471, Const 0x0188] [''RoadRunner 10'', ''ADSL PCI''],
  Init [Const 0x148F, Const 0x1000] [''unknown'', ''Ralink Motorola BC4 Bluetooth 3.0+HS Adapter''],
  Init [Const 0x148F, Const 0x148F] [''2070'', ''TP-LINK 7200ND''],
  Init [Const 0x148F, Const 0x2000] [''Unknown'', ''Ralink Motorola BC8 Bluetooth 3.0 + HS Adapter''],
  Init [Const 0x148F, Const 0x2070] [''1.0'', ''802.11 g WLAN''],
  Init [Const 0x148F, Const 0x2573] [''1192Af7b'', ''802.11 bg''],
  Init [Const 0x148F, Const 0x2870] [''1.0'', ''802.11 n WLAN''],
  Init [Const 0x148F, Const 0x3000] [''RT3290'', ''802.11n + Bluetooth 3.0''],
  Init [Const 0x148F, Const 0x3070] [''RT3070L'', ''FreeWifiLink D3-10000N''],
  Init [Const 0x148F, Const 0x3572] [''RT3572'', ''Ralink 3572''],
  Init [Const 0x148F, Const 0x5370] [''Ralink RT2870'', ''802.11n USB Wireless LAN Card''],
  Init [Const 0x148F, Const 0x9021] [''Unknown'', ''Netopia USB b/g Adapter (black)''],
  Init [Const 0x14A9, Const 0xAD1F] [''1'', ''1''],
  Init [Const 0x14B1, Const 0x1033] [''R6795-12'', ''RH56D-PCI''],
  Init [Const 0x14B1, Const 0x2F30] [''01'', ''zyxel omni 56k CI lus rev.''],
  Init [Const 0x14C1, Const 0x8043] [''LANai 9.2 0129'', ''MyriNet''],
  Init [Const 0x14CD, Const 0x03] [''0x02'', ''0x0200''],
  Init [Const 0x14CF, Const 0x2920] [''FPMC-FIO1-F100-1'', ''Serial I/O Controller aka FPMC-DFLEX64''],
  Init [Const 0x14D9, Const 0x0010] [''AP1011/SP1011'', ''Sturgeon HyperTransport-PCI Bridge''],
  Init [Const 0x14E4, Const 0x0038] [''BCM88038'', ''100G packet processor ''],
  Init [Const 0x14E4, Const 0x0102] [''T2500'', ''Intel (R)''],
  Init [Const 0x14E4, Const 0x0318] [''n/a'', ''n/a''],
  Init [Const 0x14E4, Const 0x034F] [''NV36GL?'', ''???''],
  Init [Const 0x14E4, Const 0x04B5] [''BCM4312'', ''Broadcom 54bg Wireless''],
  Init [Const 0x14E4, Const 0x0732] [''BCM88732'', ''2x40G/8x10G MAC Aggregation Switch with 80G Uplink''],
  Init [Const 0x14E4, Const 0x0800] [''BCM33xx/47xx'', ''Sentry5 Chipcommon I/O Controller''],
  Init [Const 0x14E4, Const 0x0804] [''BCM33xx/47xx'', ''Sentry5 PCI Bridge''],
  Init [Const 0x14E4, Const 0x0805] [''BCM33xx/47xx'', ''Sentry5 MIPS32 CPU''],
  Init [Const 0x14E4, Const 0x0806] [''BCM33xx/47xx'', ''Sentry5 Ethernet Controller''],
  Init [Const 0x14E4, Const 0x080B] [''BCM33xx/47xx'', ''Sentry5 Crypto Accelerator''],
  Init [Const 0x14E4, Const 0x080F] [''BCM33xx/47xx'', ''Sentry5 DDR/SDR RAM Controller''],
  Init [Const 0x14E4, Const 0x0811] [''BCM33xx/47xx'', ''Sentry5 External Interface''],
  Init [Const 0x14E4, Const 0x0816] [''BCM3302'', ''Sentry5 MIPS32 CPU''],
  Init [Const 0x14E4, Const 0x1234] [''7175144F'', ''networkcontroller''],
  Init [Const 0x14E4, Const 0x1361] [''BCM4313'', ''Ethernet''],
  Init [Const 0x14E4, Const 0x14E4] [''BCM57780'', ''802.11b/g Wireless Lan Controller''],
  Init [Const 0x14E4, Const 0x1600] [''BCM5752'', ''NetXtreme BCM5752 Gigabit Ethernet PCI Express''],
  Init [Const 0x14E4, Const 0x1601] [''BCM5752M'', ''NetXtreme Desktop/Mobile''],
  Init [Const 0x14E4, Const 0x1610] [''BCM70010'', ''Broadcom BCN70010 Video Decoder''],
  Init [Const 0x14E4, Const 0x1612] [''BCM70010/BCM70012'', ''Crystal HD Video Decoder''],
  Init [Const 0x14E4, Const 0x1615] [''BCM70015'', ''Broadcom Crystal HD Video Decoder''],
  Init [Const 0x14E4, Const 0x161F] [''BCM70010/BCM70012'', ''AVC/VC-1/MPEG PCI Express'' @ [CHR 0xAE] @ '' HD Decoder Chipset for Netbooks/Nettops''],
  Init [Const 0x14E4, Const 0x1639] [''BCM5709'', ''NetXtreme Gigabit Ethernet II''],
  Init [Const 0x14E4, Const 0x163B] [''BCM5709'', ''Broadcom NetXtreme II BCM5706/5708/5709/5716 Driver''],
  Init [Const 0x14E4, Const 0x1644] ['' BCM5751F'', ''ven_1102dev_0004''],
  Init [Const 0x14E4, Const 0x1645] [''BCM570123'', ''broadtcomBCM5701 Gigabit EthernetASD''],
  Init [Const 0x14E4, Const 0x1646] [''BCM5702x1'', ''NetXtreme Gigabit Ethernet''],
  Init [Const 0x14E4, Const 0x1647] [''BCM5703'', ''NetXtreme Gigabit Ethernet'']]"

lemma PciDevTable_44_facts:
  "length PciDevTable_44 = 150" "rejected PciDevTable_44 = 0" "oversized PciDevTable_44 = 0"
  "vendors PciDevTable_44 \<subseteq> Const ` set vendor_numbers"
  unfolding PciDevTable_44_def count_rows by (simp_all add: part_simps listed vendor_known_list cong: part_cong count_rows_cong)

definition PciDevTable_45 :: "initializer list" where
 "PciDevTable_45 = [
  Init [Const 0x14E4, Const 0x1648] [''BCM5704'', ''NetXtreme Dual Gigabit Adapter''],
  Init [Const 0x14E4, Const 0x164C] [''BCM5708'', ''Broadcom NetXtreme II Gigabit Ethernet Adapter''],
  Init [Const 0x14E4, Const 0x164D] [''83471043'', ''NetXtreme Fast Ethernet Controller''],
  Init [Const 0x14E4, Const 0x1650] [''BCM57711'', ''Broadcom PCIe 10Gb Network Controller ''],
  Init [Const 0x14E4, Const 0x1653] [''BCM5788'', ''Broadcom NetXtreme Gigabit Ethernet''],
  Init [Const 0x14E4, Const 0x1654] [''BCM5705A2'', ''NetXtreme Gigabit Ethernet''],
  Init [Const 0x14E4, Const 0x1658] [''BM5750'', ''NtXtreme Gigabit Ethernet''],
  Init [Const 0x14E4, Const 0x1659] [''BCM5721'', ''NetXtreme Gigabit Ethernet PCI Express''],
  Init [Const 0x14E4, Const 0x165A] [''94309'', ''Broadcom NetXtreme BCM5722 Gigabit''],
  Init [Const 0x14E4, Const 0x165D] [''Aspire5733Z'', ''Broadcom NetXtreme Gigabit Ethernet''],
  Init [Const 0x14E4, Const 0x165E] [''3C905B'', ''NetXtreme Gigabit Ethernet''],
  Init [Const 0x14E4, Const 0x165F] [''BCM5720'', ''Broadcom NetXtreme 5720 Gigabit Ethernet''],
  Init [Const 0x14E4, Const 0x166A] [''BCM5780'', ''Broadcom NetXtreme Gigabit Ethernet 5780''],
  Init [Const 0x14E4, Const 0x166B] [''BCM5780S'', ''NetXtreme Gigabit Ethernet''],
  Init [Const 0x14E4, Const 0x166D] [''BCM5705MFE'', ''NetXtreme Ethernet 100kB''],
  Init [Const 0x14E4, Const 0x166E] [''BCM5705'', ''NetXtreme Gigabit Ethernet''],
  Init [Const 0x14E4, Const 0x167] [''BCM5751F'', ''NetXtreme Fast Ethernet Controller''],
  Init [Const 0x14E4, Const 0x1672] [''BCM5754M'', ''NetXtreme Gigabit Ethernet''],
  Init [Const 0x14E4, Const 0x1673] [''B5755M'', ''NetXtreme Gigabit Ethernet''],
  Init [Const 0x14E4, Const 0x1674] [''57XX'', ''57XX Series Broadcom Driver X86/X64''],
  Init [Const 0x14E4, Const 0x1676] [''BCM5750A1'', ''NetXtreme Gigabit Ethernet''],
  Init [Const 0x14E4, Const 0x1677] [''BCM5751'', ''NetXtreme Desktop/Mobile''],
  Init [Const 0x14E4, Malformed ''0x1677*''] [''BCM5782'', ''Broadcom Netxtreme Gigabit Ethernet''],
  Init [Const 0x14E4, Const 0x167A] [''BCM5754'', ''Broadcom NetXtreme Gigabit Ethernet Controller''],
  Init [Const 0x14E4, Const 0x167B] [''BCM5755/5780'', ''NetXtreme Gigabit Ethernet''],
  Init [Const 0x14E4, Const 0x167C] [''BCM5750'', ''NetXtreme Gigabit Ethernet''],
  Init [Const 0x14E4, Const 0x167D] [''BCM5751M'', ''Broadcom NetXtreme Gigabit Ethernet''],
  Init [Const 0x14E4, Const 0x167E] [''BCM5751FKFB'', ''vierkant''],
  Init [Const 0x14E4, Const 0x1680] [''BCM5761E'', ''NetXtreme Desktop/Mobile''],
  Init [Const 0x14E4, Const 0x1681] [''BCM5761'', ''Broadcom 57XX Gigabit Integrated Controller ''],
  Init [Const 0x14E4, Const 0x1684] [''BCM5764'', ''Broadcom NetXtreme Gigabit Ethernet''],
  Init [Const 0x14E4, Const 0x1690] [''BCM5776'', ''NexTreme Desktop/Mobile''],
  Init [Const 0x14E4, Const 0x1691] [''BCM57788'', ''Broadcom BCM57788 LOM ''],
  Init [Const 0x14E4, Malformed ''0x1691_''] [''BCM57788A'', ''Broadcom NetLink (TM) Gigabit Ethernet''],
  Init [Const 0x14E4, Const 0x1692] [''BCM57780'', ''NetLink''],
  Init [Const 0x14E4, Const 0x1693] [''BCM5787'', ''Ethernet Controller Broadcom Netlink Gigabit''],
  Init [Const 0x14E4, Const 0x1696] [''BCM5782'', ''Broadcom NetXtreme Gigabit Ethernet ''],
  Init [Const 0x14E4, Const 0x1698] [''02941028'', ''NetLink-FOR DELL LAPTOP AND MAYBE OTHERS''],
  Init [Const 0x14E4, Const 0x169A] [''BCM5787'', ''Broadcom Netlink (TM) gigabit ethernet Driver''],
  Init [Const 0x14E4, Const 0x169B] [''BCM5786'', ''NetXtreme Gigabit Ethernet''],
  Init [Const 0x14E4, Const 0x169C] [''17351043'', ''Broadcom NetLink (TM) Gigabit Ethernet''],
  Init [Const 0x14E4, Const 0x169D] [''BCM5782k, BCM5789'', ''Broadcom Ethernet Adapter''],
  Init [Const 0x14E4, Const 0x169E] [''BCM5754'', ''NetXtreme Gigabit Ethernet PCI Express''],
  Init [Const 0x14E4, Const 0x16A6] [''BCM5702X'', ''Gigabit Ethernet''],
  Init [Const 0x14E4, Const 0x16A7] [''BCM5703X'', ''Gigabit Ethernet''],
  Init [Const 0x14E4, Const 0x16A8] [''BLM5701'', ''NetXtreme Gigabit Ethernet''],
  Init [Const 0x14E4, Const 0x16AA] [''B06BDRV'', ''BroadCom NetExtreme II Server''],
  Init [Const 0x14E4, Const 0x16B1] [''BCM57781'', ''BCM57781''],
  Init [Const 0x14E4, Const 0x16B5] [''BCM57785X'', ''Broadcom NetLink Gigabit Ethernet''],
  Init [Const 0x14E4, Const 0x16BE] [''16BE8'', ''CardReader Broadcom 1.0.0.221''],
  Init [Const 0x14E4, Const 0x16BF] [''0x16BF'', ''CardReader Broadcom 1.0.0.221''],
  Init [Const 0x14E4, Const 0x16C6] [''BCM5702A3'', ''NetXtreme Gigabit Ethernet''],
  Init [Const 0x14E4, Const 0x16C7] [''BCM 94311'', ''DELL Wireless 1390 WLAN MiniCard''],
  Init [Const 0x14E4, Const 0x16DD] [''BCM5781'', ''NetXtreme Gigabit Ethernet''],
  Init [Const 0x14E4, Const 0x16F7] [''BCM5753'', ''NetXtreme BCM5753 Gigabit PCI Express''],
  Init [Const 0x14E4, Const 0x16FD] [''BCM5753M'', ''NetXtreme Gigabit Ethernet PciXpress''],
  Init [Const 0x14E4, Const 0x16FE] [''BCM5753F'', ''NetXtreme Gigabit Ethernet''],
  Init [Const 0x14E4, Const 0x170C] [''PCI'' @ [CHR 0x5C] @ ''VEN_14E4&DEV_4727&SUBSYS_1483103C&REV_01'', ''Broadcom 440x 10/100 Integrated Controller''],
  Init [Const 0x14E4, Const 0x170D] [''BCM5901'', ''NetXtreme''],
  Init [Const 0x14E4, Const 0x170E] [''BCM5901'', ''NetXtreme 100Base-TX''],
  Init [Const 0x14E4, Const 0x1713] [''BCM5906m'', ''Broadcom NetLink (TM) Fast Ethernet''],
  Init [Const 0x14E4, Const 0x333] [''BCM53333'', ''16p 1G (PHY)''],
  Init [Const 0x14E4, Const 0x3352] [''BCM3352'', ''BCM3352 QAMLink'' @ [CHR 0xAE] @ '' Single-Chip 4-Line VoIP''],
  Init [Const 0x14E4, Const 0x3360] [''BCM3360'', ''Advanced PHY Broadband Gateway Cable Modem''],
  Init [Const 0x14E4, Const 0x4211] [''intel'', ''10Mb/s NIC''],
  Init [Const 0x14E4, Const 0x4212] [''BCM V.90'', ''56k Modem''],
  Init [Const 0x14E4, Const 0x4301] [''Broadcom BCM4301 802.11g Wireless LAN Controller'', ''Dell Truemobile 1180 802.11g MiniPCI''],
  Init [Const 0x14E4, Const 0x4303] [''BCM4303'', ''BCM4301 802.11b802.11b Wireless LAN Controller''],
  Init [Const 0x14E4, Const 0x4305] [''BCM4307'', ''V.90 56k Modem''],
  Init [Const 0x14E4, Const 0x4306] [''BCM4306'', ''Unknown device 4306 (rev 02)''],
  Init [Const 0x14E4, Const 0x4307] [''BCM4306'', ''802.11b Wireless LAN Controller''],
  Init [Const 0x14E4, Const 0x4310] [''BCM4310'', ''BCM4301USB Controller''],
  Init [Const 0x14E4, Const 0x4311] [''BCM4311'', ''Wireless LAN BroadCom''],
  Init [Const 0x14E4, Const 0x4312] [''BCM4310'', ''broadcom wireless 1490 (dell)''],
  Init [Const 0x14E4, Const 0x4313] [''BCM4310 UART'', ''wireless network card''],
  Init [Const 0x14E4, Const 0x4315] [''BCM4315/BCM22062000'', ''Broadcom Wireless b/g (Tested Drivers)''],
  Init [Const 0x14E4, Const 0x4318] [''BCM4318'', ''Broadcom 802.11b/g''],
  Init [Const 0x14E4, Const 0x4320] [''BCM4306'', ''802.11B/G Wireless Lan Controller Revision 3''],
  Init [Const 0x14E4, Const 0x4321] [''BCM4306'', ''802.11a Wireless LAN Controller''],
  Init [Const 0x14E4, Const 0x4322] [''BCM4306'', ''UART''],
  Init [Const 0x14E4, Const 0x4323] [''BCM4306'', ''V.90 56k Modem''],
  Init [Const 0x14E4, Const 0x4324] [''BCM4357'', ''802.11a/b/g Wireless LAN''],
  Init [Const 0x14E4, Const 0x4325] [''BCM4306'', ''802.11b/g Wireless LAN Controller''],
  Init [Const 0x14E4, Const 0x4326] [''BCM4306'', ''Chipcommon I/O Controller?''],
  Init [Const 0x14E4, Const 0x4328] [''BCM4321KFBG'', ''Broadcom BCM43xx 1.0 (5.10.91.27)''],
  Init [Const 0x14E4, Const 0x4329] [''BCM43XX'', ''Broadcom 802.11n Network Adapter''],
  Init [Const 0x14E4, Const 0x432B] [''4322'', ''Broadcom Wireless LAN Driver ''],
  Init [Const 0x14E4, Const 0x4353] [''BCM943224HMS'', ''Broadcom Half Mini PCI Express Wifi card / DL1520''],
  Init [Const 0x14E4, Const 0x4357] [''BCM94322c5HM'', ''Broadcom WiFi 802.11b/g/n''],
  Init [Const 0x14E4, Const 0x4358] [''BCM943227HM4L'', ''Broadcom 802.11n WLAN module''],
  Init [Const 0x14E4, Const 0x4359] [''BCM943228HM4L'', ''Half-mini wireless-N card DW1530''],
  Init [Const 0x14E4, Const 0x4365] [''061117AA'', ''Broadcom 43142 Wireless LAN Adapter''],
  Init [Const 0x14E4, Const 0x4401] [''BCM4401'', ''10/100 Integrated Ethernet Controller''],
  Init [Const 0x14E4, Const 0x4402] [''BCM440'', ''10/100 Integrated Ethernet Controller''],
  Init [Const 0x14E4, Const 0x4403] [''BCM4402'', ''V.90 56k Modem''],
  Init [Const 0x14E4, Const 0x4410] [''BCM4413'', ''iLine32 HomePNA 2.0''],
  Init [Const 0x14E4, Const 0x4411] [''BCM4212'', ''V.90 56k Modem''],
  Init [Const 0x14E4, Const 0x4412] [''BCM4412'', ''10/100BaseT Ethernet''],
  Init [Const 0x14E4, Const 0x4430] [''BCM44xx'', ''CardBus iLine32 HomePNA 2.0''],
  Init [Const 0x14E4, Const 0x4432] [''BCM44xx'', ''CardBus 10/100BaseT Ethernet''],
  Init [Const 0x14E4, Const 0x4610] [''BCM4610'', ''Sentry5 PCI to SB Bridge''],
  Init [Const 0x14E4, Const 0x4611] [''BCM4610'', ''Sentry5 iLine32 HomePNA 1.0''],
  Init [Const 0x14E4, Const 0x4612] [''BCM4610'', ''Sentry5 V.90 56k Modem''],
  Init [Const 0x14E4, Const 0x4613] [''BCM4610'', ''Sentry5 Ethernet Controller''],
  Init [Const 0x14E4, Const 0x4614] [''BCM4610'', ''Sentry5 External Interface''],
  Init [Const 0x14E4, Const 0x4615] [''BCM4610'', ''Sentry5 USB Controller''],
  Init [Const 0x14E4, Const 0x4704] [''BCM4704'', ''Sentry5 PCI to SB Bridge''],
  Init [Const 0x14E4, Const 0x4708] [''BCM4704'', ''Crypto Accelerator''],
  Init [Const 0x14E4, Const 0x4710] [''BCM4710'', ''Sentry5 PCI to SB Bridge''],
  Init [Const 0x14E4, Const 0x4711] [''BCM47xx'', ''Sentry5 iLine32 HomePNA 2.0''],
  Init [Const 0x14E4, Const 0x4712] [''BCM47xx'', ''Sentry5 V.92 56k modem''],
  Init [Const 0x14E4, Const 0x4713] [''BCM47xx'', ''Sentry5 Ethernet Controller''],
  Init [Const 0x14E4, Const 0x4714] [''BCM47xx'', ''Sentry5 External Interface''],
  Init [Const 0x14E4, Const 0x4715] [''BCM47xx'', ''Sentry5 USB Controller''],
  Init [Const 0x14E4, Const 0x4716] [''BCM47xx'', ''Sentry5 USB Host Controller''],
  Init [Const 0x14E4, Const 0x4717] [''BCM47xx'', ''Sentry5 USB Device Controller''],
  Init [Const 0x14E4, Const 0x4718] [''BCM47xx'', ''Sentry5 Crypto Accelerator''],
  Init [Const 0x14E4, Const 0x4720] [''BCM4712'', ''MIPS CPU''],
  Init [Const 0x14E4, Const 0x4726] [''7175144f'', ''01''],
  Init [Const 0x14E4, Const 0x4727] [''BCM94313HMGB'', ''Broadcom 802.11n Network Adapter + BT combo card''],
  Init [Const 0x14E4, Const 0x4728] [''7175144f'', ''01''],
  Init [Const 0x14E4, Const 0x53343] [''BCM53343'', ''16P 1G  (PHY)''],
  Init [Const 0x14E4, Const 0x5365] [''BCM5365P'', ''Sentry5 PCI to SB Bridge''],
  Init [Const 0x14E4, Const 0x5600] [''BCM5600'', ''StrataSwitch 24+2 Ethernet Switch Controller''],
  Init [Const 0x14E4, Const 0x5605] [''BCM5605'', ''StrataSwitch 24+2 Ethernet Switch Controller''],
  Init [Const 0x14E4, Const 0x5615] [''BCM5784'', ''StrataSwitch 24+2 Ethernet Switch Controller''],
  Init [Const 0x14E4, Const 0x5625] [''BCM5625'', ''StrataSwitch 24+2 Ethernet Switch Controller''],
  Init [Const 0x14E4, Const 0x5645] [''BCM5645'', ''StrataSwitch 24+2 Ethernet Switch Controller''],
  Init [Const 0x14E4, Const 0x5670] [''BCM5670'', ''8-Port 10GE Ethernet Switch Fabric''],
  Init [Const 0x14E4, Const 0x5680] [''BCM5680'', ''G-Switch 8-Port Gigabit Ethernet Switch Controller''],
  Init [Const 0x14E4, Const 0x5690] [''BCM5690'', ''12-port Multi-Layer Gigabit Ethernet Switch''],
  Init [Const 0x14E4, Const 0x5691] [''BCM5691'', ''GE/10GE 8+2 Gigabit Ethernet Switch Controller''],
  Init [Const 0x14E4, Const 0x5802] [''BCM5802'', ''The BCM5802 Security Processor integrates Broadcom'' @ [CHR 0x92] @ ''s IPSec engine (DES, 3DES, HMAC-SHA-1, HMAC-MD5),''],
  Init [Const 0x14E4, Const 0x5805] [''BCM5805'', ''The BCM5805 Security Processor integrates a high-performance IPSec engine (DES, 3DES, HMAC-SHA-1, HM''],
  Init [Const 0x14E4, Const 0x5820] [''BCM5820'', ''Crypto Accelerator''],
  Init [Const 0x14E4, Const 0x5821] [''BCM5821'', ''Crypto Accelerator''],
  Init [Const 0x14E4, Const 0x5822] [''BCM5822'', ''Crypto Accelerator''],
  Init [Const 0x14E4, Const 0x5823] [''BCM5823'', ''Crypto Accelerator''],
  Init [Const 0x14E4, Const 0x5824] [''BCM5824'', ''Crypto Accelerator''],
  Init [Const 0x14E4, Const 0x5825] [''BCM5825'', ''BCM5825''],
  Init [Const 0x14E4, Const 0x5840] [''BCM5840'', ''Crypto Accelerator''],
  Init [Const 0x14E4, Const 0x5841] [''BCM5841'', ''Crypto Accelerator''],
  Init [Const 0x14E4, Const 0x5850] [''BCM5850'', ''Crypto Accelerator''],
  Init [Const 0x14E4, Const 0x7321] [''BCM5751'', ''network card integrated''],
  Init [Const 0x14E4, Const 0x7411] [''BCM7411'', ''High Definition Video/Audio Decoder''],
  Init [Const 0x14E4, Const 0x78655] [''BCM5787M'', ''Wireless-N WLAN''],
  Init [Const 0x14E4, Const 0x8010] [''BCM53010'', ''Next generation router SOC with gigabit switch''],
  Init [Const 0x14E4, Const 0x8011] [''BCM53011'', ''Next generation router SOC with gigabit switch''],
  Init [Const 0x14E4, Const 0x8012] [''BCM53012'', ''Next generation router SOC with gigabit switch''],
  Init [Const 0x14E4, Const 0x8016] [''BCM53016'', ''Next generation router SOC with gigabit switch with RGMII/SDIO, but disable 3 GPHY'']]"

lemma PciDevTable_45_facts:
  "length PciDevTable_45 = 150" "rejected PciDevTable_45 = 2" "oversized PciDevTable_45 = 2"
  "vendors PciDevTable_45 \<subseteq> Const ` set vendor_numbers"
  unfolding PciDevTable_45_def count_rows by (simp_all add: part_simps listed vendor_known_list cong: part_cong count_rows_cong)

definition PciDevTable_46 :: "initializer list" where
 "PciDevTable_46 = [
  Init [Const 0x14E4, Const 0x8018] [''BCM53018'', ''Next generation router SOC with gigabit switch with RGMII/SDIO''],
  Init [Const 0x14E4, Const 0x8019] [''BCM53019'', ''Next generation router SOC with gigabit switch without RGMII/SDIO''],
  Init [Const 0x14E4, Const 0x8022] [''BCM53022'', ''Next generation router SOC with gigabit switch with RGMII/SDIO''],
  Init [Const 0x14E4, Const 0x8023] [''BCM53023'', ''Next generation router SOC with gigabit switch with SATA instead of RGMII/SDIO''],
  Init [Const 0x14E4, Const 0x8025] [''BCM53025'', ''Next generation router SOC with gigabit switch with RGMII/SDIO, GMII, SGMII and SATA''],
  Init [Const 0x14E4, Const 0x8334] [''BCM53334'', ''24 1G''],
  Init [Const 0x14E4, Const 0x8342] [''BCM53342'', ''8 1G (PHY)''],
  Init [Const 0x14E4, Const 0x8344] [''BCM53344'', '' 24P 1G +4P 1G  (PHY)''],
  Init [Const 0x14E4, Const 0x8346] [''BCM53346'', ''24P 1G +4P 1G/10G  (PHY)''],
  Init [Const 0x14E4, Const 0x8393] [''BCM53393'', ''14P (1G,  (no PHY)''],
  Init [Const 0x14E4, Const 0x8394] [''BCM53394'', ''10P 1G + 4x1/2.5/5/10G  (no PHY) ''],
  Init [Const 0x14E4, Const 0x8401] [''BCM53401'', ''160Gbps L2+ Ethernet Switch''],
  Init [Const 0x14E4, Const 0x8402] [''BCM53402'', ''160Gbps L2+ Ethernet Switch''],
  Init [Const 0x14E4, Const 0x8405] [''BCM53405'', ''160Gbps L2+ Ethernet Switch''],
  Init [Const 0x14E4, Const 0x8406] [''BCM53406'', ''160Gbps L2+ Ethernet Switch''],
  Init [Const 0x14E4, Const 0x8408] [''BCM53408'', ''160Gbps L2+ Ethernet Switch''],
  Init [Const 0x14E4, Const 0x8411] [''BCM53411'', ''160Gbps L2+ Ethernet Switch''],
  Init [Const 0x14E4, Const 0x8412] [''BCM53412'', ''160Gbps L2+ Ethernet Switch''],
  Init [Const 0x14E4, Const 0x8415] [''BCM53415'', ''160Gbps L2+ Ethernet Switch''],
  Init [Const 0x14E4, Const 0x8416] [''BCM53416'', ''160Gbps L2+ Ethernet Switch''],
  Init [Const 0x14E4, Const 0x8418] [''BCM53418'', ''160Gbps L2+ Ethernet Switch''],
  Init [Const 0x14E4, Const 0x9867] [''900000000'', ''900000000''],
  Init [Const 0x14E4, Const 0x9876] [''Texas Instruments PCI GemCore based SmartCard cont'', ''0x14E4''],
  Init [Const 0x14E4, Const 0xA8D6] [''BCM6368'', ''Broadcom 802.11n WLAN chip''],
  Init [Const 0x14E4, Const 0xB061] [''BCM56061'', ''160Gbps L2+ Ethernet Switch''],
  Init [Const 0x14E4, Const 0xB062] [''BCM56062'', ''160Gbps L2+ Ethernet Switch''],
  Init [Const 0x14E4, Const 0xB063] [''BCM56063'', ''160Gbps L2+ Ethernet Switch''],
  Init [Const 0x14E4, Const 0xB064] [''BCM56064'', ''160Gbps L2+ Ethernet Switch''],
  Init [Const 0x14E4, Const 0xB150] [''BCM56150'', ''Hurricane2 (Lightly Managed) 24P 1G +4P 1G/10G  (PHY)''],
  Init [Const 0x14E4, Const 0xB152] [''BCM56152'', ''24P  1G (PHY)''],
  Init [Const 0x14E4, Const 0xB340] [''BCM56340'', ''48-port multi-layer switch with embedded CPU''],
  Init [Const 0x14E4, Const 0xB450] [''BCM56450'', ''100G Multi-layer Ethernet Switch''],
  Init [Const 0x14E4, Const 0xB640] [''BCM56640'', ''260Gbps Extensible Switch with 100GE''],
  Init [Const 0x14E4, Const 0xB845] [''BCM56845'', ''640G Multi-layer Ethernet Switch''],
  Init [Const 0x14E4, Const 0xB850] [''BCM56850'', ''1.28T I/O Multi-layer Ethernet Switch''],
  Init [Const 0x14E4, Malformed ''0xdev_4311''] [''1364103c'', ''subsys''],
  Init [Const 0x14EB, Const 0x0020] [''BEMx.x'', ''PCI to S5U13xxxB00B Bridge Adapter''],
  Init [Const 0x14EB, Const 0x0C01] [''S1D13808'', ''Embedded Memory Display Controller''],
  Init [Const 0x14EC, Const 0x16BE] [''CardReader_Broadcom'', ''1.0.0.222_W7x86_A''],
  Init [Const 0x14F5, Const 0x2F00] [''x'', ''x''],
  Init [Const 0xAA42, Const 0x03A3] [''9400-0931'', ''CharKey''],
  Init [Const 0x14FD, Const 0x0001] [''H260u'', ''H260u printer server for HP Printer''],
  Init [Const 0xA304, Const 0x3038] [''10EC'', ''USB''],
  Init [Const 0x165A, Const 0xC100] [''PIXCI CL1'', ''PCI camera link video capture board''],
  Init [Const 0x165A, Const 0xD200] [''PIXCI D2X'', ''PCI digital video capture board''],
  Init [Const 0x165A, Const 0xD300] [''PIXCI D3X'', ''PCI digital video capture board''],
  Init [Const 0x165A, Const 0xF001] [''PIXCI EL1'', ''PCI-E camera link video capture board''],
  Init [Const 0x1516, Const 0x0800] [''MTD800'', ''10/100 Mbps Fast Ethernet Controller''],
  Init [Const 0x1516, Const 0x0803] [''Myson MTD803/TAMARACK TC6020'', ''PCI Ethernet controller''],
  Init [Const 0x1516, Const 0x0891] [''MTD891'', ''10/100/1000 Mbps Gigabit Ethernet Controller''],
  Init [Const 0x1112, Const 0x2200] [''2200'', ''FDDI adapter''],
  Init [Const 0x1112, Const 0x2300] [''2300'', ''Fast Ethernet adapter''],
  Init [Const 0x1112, Const 0x2340] [''2340'', ''4 Port 10/100 UTP Fast Ethernet Adapter''],
  Init [Const 0x1112, Const 0x2400] [''2400'', ''ATM adapter''],
  Init [Const 0x1113, Const 0x1211] [''EN5030, EN5038,EN1207D-TX/ Realtek 8139C'', ''Ethernet Controller 10/100 MBit''],
  Init [Const 0x1113, Const 0x1216] [''EN5251BE'', ''accton  EN5251BE''],
  Init [Const 0x1113, Const 0x1217] [''EN-2242'', ''Ethernet Adapter''],
  Init [Const 0x1113, Const 0x5105] [''EN-1660'', ''untuk install driver''],
  Init [Const 0x1113, Const 0x9211] [''EN-1207F'', ''Fast Ethernet Adapter''],
  Init [Const 0x1113, Const 0x9511] [''SMC en5251be'', ''0445tabgf16143.1''],
  Init [Const 0x1113, Const 0x9876] [''EN5251BE / EN1207F-TX'', ''Ethernet Controller/ drivers''],
  Init [Const 0xA200, Const 0xA200] [''saa1735hl'', ''tv''],
  Init [Const 0x1114, Const 0x0506] [''AT76C506'', ''802.11b Wireless Network Adaptor''],
  Init [Const 0x1114, Const 0x3202] [''1103'', ''TPM - Trusted Platform Module''],
  Init [Const 0x1116, Const 0x0022] [''DT3001'', []],
  Init [Const 0x1116, Const 0x0023] [''DT3002'', ''9PAEAN''],
  Init [Const 0x1116, Const 0x0024] [''DT3003'', []],
  Init [Const 0x1116, Const 0x0025] [''DT3004'', []],
  Init [Const 0x1116, Const 0x0026] [''Dt3005'', []],
  Init [Const 0x1116, Const 0x0027] [''DT3001-PGL'', []],
  Init [Const 0x1116, Const 0x0028] [''DT3003-PGL'', []],
  Init [Const 0x1117, Const 0x9500] [[], ''max-lc SVGA card''],
  Init [Const 0x1117, Const 0x9501] [[], ''MaxPCI image processing board''],
  Init [Const 0x1119, Const 0x0000] [''GDT6000/6020/6050'', ''PCI SCSI RAID Controller''],
  Init [Const 0x1119, Const 0x0001] [''GDT6000/6010'', ''PCI 1-channel SCSI RAID Controller''],
  Init [Const 0x1119, Const 0x0002] [''GDT6110/6510'', ''PCI 1-channel SCSI RAID Controller''],
  Init [Const 0x1119, Const 0x0003] [''GDT6120/6520'', ''PCI 2-channel SCSI RAID Controller''],
  Init [Const 0x1119, Const 0x0004] [''GDT6530'', ''PCI 3-channel SCSI RAID Controller''],
  Init [Const 0x1119, Const 0x0005] [''GDT6550'', ''PCI 5-channel SCSI RAID Controller''],
  Init [Const 0x1119, Const 0x0006] [''GDT6117/6517'', ''Wide Ultra SCSI Controller''],
  Init [Const 0x1119, Const 0x0007] [''GDT6127/6527'', ''Wide Ultra SCSI Controller''],
  Init [Const 0x1119, Const 0x0008] [''GDT6537'', ''Wide Ultra SCSI Controller''],
  Init [Const 0x1119, Const 0x0009] [''GDT6557/6557-ECC'', ''Wide Ultra SCSI Controller''],
  Init [Const 0x1119, Const 0x000A] [''GDT6115/6515'', ''Ultra SCSI Controller''],
  Init [Const 0x1119, Const 0x000B] [''GDT6125/6525'', ''Wide SCSI Controller''],
  Init [Const 0x1119, Const 0x000C] [''GDT6535'', ''Wide SCSI Controller''],
  Init [Const 0x1119, Const 0x000D] [''GDT6555/6555-ECC'', ''Wide SCSI Controller''],
  Init [Const 0x1119, Const 0x0100] [''GDT6117RP/6517RP'', ''2 Channel Wide Ultra SCSI''],
  Init [Const 0x1119, Const 0x0101] [''GDT6127RP/6527RP'', ''Wide Ultra SCSI HBA''],
  Init [Const 0x1119, Const 0x0102] [''GDT6537RP'', ''Wide Ultra SCSI HBA''],
  Init [Const 0x1119, Const 0x0103] [''GDT6557RP'', ''Wide Ultra SCSI HBA''],
  Init [Const 0x1119, Const 0x0104] [''GDT6111RP/6511RP'', ''Ultra SCSI HBA''],
  Init [Const 0x1119, Const 0x0105] [''GDT6121RP/6521RP'', ''Ultra SCSI HBA''],
  Init [Const 0x1119, Const 0x0110] [''GDT6117RD/6517RD'', ''Wide Ultra SCSI HBA''],
  Init [Const 0x1119, Const 0x0111] [''GDT6127RD/6527RD'', ''Wide Ultra SCSI HBA''],
  Init [Const 0x1119, Const 0x0112] [''GDT6537RD'', ''Wide Ultra SCSI HBA''],
  Init [Const 0x1119, Const 0x0113] [''GDT6557RD'', ''Wide Ultra SCSI HBA''],
  Init [Const 0x1119, Const 0x0114] [''GDT6111RD/6511RD'', ''Ultra SCSI HBA''],
  Init [Const 0x1119, Const 0x0115] [''GDT6127RD/6527RD'', ''Ultra SCSI HBA''],
  Init [Const 0x1119, Const 0x0118] [''GDT6x18RD'', ''Wide Ultra2 SCSI HBA''],
  Init [Const 0x1119, Const 0x0119] [''GDT6x28RD'', ''Wide Ultra2 SCSI HBA''],
  Init [Const 0x1119, Const 0x011A] [''GDT6538RD/6638RD'', ''Wide Ultra2 SCSI HBA''],
  Init [Const 0x1119, Const 0x011B] [''GDT6558RD/6658RD'', ''Wide Ultra2 SCSI HBA''],
  Init [Const 0x1119, Const 0x0120] [''GDT6117RP2/6517RP2'', []],
  Init [Const 0x1119, Const 0x0121] [''GDT6127RP2/6527RP2'', []],
  Init [Const 0x1119, Const 0x0122] [''GDT6537RP2'', []],
  Init [Const 0x1119, Const 0x0123] [''GDT6557RP2'', []],
  Init [Const 0x1119, Const 0x0124] [''GDT6111RP2/6511RP2'', []],
  Init [Const 0x1119, Const 0x0125] [''GDT6127RP2/6527RP2'', []],
  Init [Const 0x1119, Const 0x0136] [''GDT 6x13RS'', []],
  Init [Const 0x1119, Const 0x0137] [''GDT 6x23RS'', ''Disk Array Controller''],
  Init [Const 0x1119, Const 0x0138] [''GDT 6x18RS'', []],
  Init [Const 0x1119, Const 0x0139] [''GDT 6x28RS'', ''0139''],
  Init [Const 0x1119, Const 0x013A] [''GDT 6x38RS'', ''IBM IXA - Integrated xSeries Adapter''],
  Init [Const 0x1119, Const 0x013B] [''GDT 6x58RS'', []],
  Init [Const 0x1119, Const 0x013C] [''GDT 6x33RS'', []],
  Init [Const 0x1119, Const 0x013D] [''GDT 6x43RS'', []],
  Init [Const 0x1119, Const 0x013E] [''GDT 6x53RS'', []],
  Init [Const 0x1119, Const 0x013F] [''GDT 6x63RS'', []],
  Init [Const 0x1119, Const 0x0166] [''GDT 7x13RN'', []],
  Init [Const 0x1119, Const 0x0167] [''GDT 7x23RN'', []],
  Init [Const 0x1119, Const 0x0168] [''GDT7x18RN'', ''64-bit PCI Wide Untra2 SCSI HBA''],
  Init [Const 0x1119, Const 0x0169] [''GDT7x28RN'', ''64-bit PCI Wide Ultra2 SCSI HBA''],
  Init [Const 0x1119, Const 0x016A] [''GDT7538RN/7638RN'', ''64-bit PCI Wide Ultra2 SCSI HBA''],
  Init [Const 0x1119, Const 0x016B] [''GDT7558RN/7658RN'', ''64-bit PCI Wide Ultra2 SCSI HBA''],
  Init [Const 0x1119, Const 0x016C] [''GDT 7x33RN'', []],
  Init [Const 0x1119, Const 0x016D] [''GDT 7x43RN'', []],
  Init [Const 0x1119, Const 0x016E] [''GDT 7x53RN'', []],
  Init [Const 0x1119, Const 0x016F] [''GDT 7x63RN'', []],
  Init [Const 0x1119, Const 0x01D6] [''GDT 4x13RZ'', ''GDT 4513RZ''],
  Init [Const 0x1119, Const 0x01D7] [''GDT 4x23RZ'', []],
  Init [Const 0x1119, Const 0x01DB] [''GDT8514RZ'', ''SCSI Ultra320  1-channel''],
  Init [Const 0x1119, Const 0x01F6] [''GDT 8x13RZ'', []],
  Init [Const 0x1119, Const 0x01F7] [''1119'', ''BtYVKixCnmzB''],
  Init [Const 0x1119, Const 0x01FC] [''GDT 8x33RZ'', ''cfa-4k''],
  Init [Const 0x1119, Const 0x01FD] [''GDT 8x43RZ'', []],
  Init [Const 0x1119, Const 0x01FE] [''GDT 8x53RZ'', []],
  Init [Const 0x1119, Const 0x01FF] [''GDT 8x63RZ'', []],
  Init [Const 0x1119, Const 0x0210] [''GDT6519RD/6619RD'', ''Fibre Channel HBA''],
  Init [Const 0x1119, Const 0x0211] [''GDT6529RD/6629RD'', ''Fibre Channel HBA''],
  Init [Const 0x1119, Const 0x0260] [''GDT7519RN/7619RN'', ''64-bit PCI Fibre Channel HBA''],
  Init [Const 0x1119, Const 0x0261] [''GDT7529RN/7629RN'', ''64-bit PCI Fibre Channel HBA''],
  Init [Const 0x1119, Const 0x0300] [''GDT Rx'', []],
  Init [Const 0x1119, Const 0x6111] [''1'', ''61xx raid''],
  Init [Const 0x111A, Const 0x0000] [''155P-MF1'', []],
  Init [Const 0x111A, Const 0x0002] [''166P-MF1'', []],
  Init [Const 0x111A, Const 0x0003] [''ENI-25P'', ''ATM Adapter''],
  Init [Const 0x111C, Const 0x0001] [''921014946'', ''Powerbus Bridge''],
  Init [Const 0x111D, Const 0x0001] [''IDT77201/211'', ''NICStAR ATM Adapter''],
  Init [Const 0x111D, Const 0x0003] [''IDT77222/252'', ''MICRO ABR SAR PCI ATM Controller'']]"

lemma PciDevTable_46_facts:
  "length PciDevTable_46 = 150" "rejected PciDevTable_46 = 1" "oversized PciDevTable_46 = 0"
  "vendors PciDevTable_46 \<subseteq> Const ` set vendor_numbers"
  unfolding PciDevTable_46_def count_rows by (simp_all add: part_simps listed vendor_known_list cong: part_cong count_rows_cong)

definition PciDevTable_47 :: "initializer list" where
 "PciDevTable_47 = [
  Init [Const 0x111D, Const 0x0004] [''IDT77V252'', ''MICRO ABR SAR PCI ATM Controller''],
  Init [Const 0x111D, Const 0x7603] [''IDT Audio CODEC'', ''IDT High Definition Audio CODECj''],
  Init [Const 0x111D, Const 0x7605] [''IDT'', ''IDT High Definition Audio CODEC''],
  Init [Const 0x111D, Const 0x7608] [''IDT Audio CODEC'', ''IDT High Definition Audio CODEC''],
  Init [Const 0x111D, Const 0x7616] [''5.10.5515.0'', ''SigmaTel High Definition Audio CODEC''],
  Init [Const 0x111D, Const 0x7618] [''STAC9221'', ''SigmaTel High Definition Audio CODEC''],
  Init [Const 0x111D, Const 0x7621] [''Sigmatel HD'', ''IDT High Definition Codec''],
  Init [Const 0x111D, Const 0x7634] [''IDT_Audiov5939'', ''IDT/Sigmae HDl Audio Driver v6.10.5939.0 05/06/2008''],
  Init [Const 0x111D, Const 0x7662] [''IDT_Audiov5939'', ''SigmaTel High Definition Audio CODEC''],
  Init [Const 0x111D, Const 0x7667] [''92hdxxx'', ''High Definition (HD) Audio Codecs''],
  Init [Const 0x111D, Const 0x7675] [''92HD73C1'', ''92HD73C1''],
  Init [Const 0x111D, Const 0x7680] [''102801ab'', ''SIGMATEL STAC 92XX ''],
  Init [Const 0x111D, Const 0x76A0] [''102801FF'', ''STAC 92XX C-Major HD Audio (Dell Precision M4300 and LAT D630 & D830)''],
  Init [Const 0x111D, Const 0x76B2] [''92HD75B3'', ''IDT Audio''],
  Init [Const 0x111D, Const 0x76D1] [''IDT 92HD87B1'', ''IDT High Definition Audio CODEC''],
  Init [Const 0x111D, Const 0x76D5] [''0x76D1'', ''IDT 92HD87B1/3''],
  Init [Const 0x111D, Const 0x76E7] [''92HDxxx'', ''HDAUDIO''],
  Init [Const 0x111D, Const 0x8018] [''PES12N3A'', ''PCI Express Switch''],
  Init [Const 0x111D, Const 0x802D] [''PES16T7'', ''PCI Express Switch PES16T7''],
  Init [Const 0x111D, Const 0x806E] [''PES24T6G2 '', ''PCI Express Gen2 Switch''],
  Init [Const 0x111D, Const 0x8086] [''IDT77201/211'', ''NICStAR ATM Adapter''],
  Init [Const 0x111D, Const 0x9876] [''IDT_Audiov5939'', ''IDT/Sigmatel HDl Audio Driver v6.10.5939.0 05/06/2008''],
  Init [Const 0x111F, Const 0x4A47] [''Precision MX'', ''Video engine interface''],
  Init [Const 0x111F, Const 0x5243] [[], ''Frame Capture Bus Interface''],
  Init [Const 0x1127, Const 0x0200] [''FireRunner PCA-200'', ''ATM''],
  Init [Const 0x1127, Const 0x0210] [''PCA-200PC'', ''ATM''],
  Init [Const 0x1127, Const 0x0250] [[], ''ATM''],
  Init [Const 0x1127, Const 0x0300] [''PCA-200E'', ''ATM adapter''],
  Init [Const 0x1127, Const 0x0310] [[], ''ATM''],
  Init [Const 0x1127, Const 0x0400] [''ForeRunner HE'', ''ATM Adapter''],
  Init [Const 0x1127, Const 0x1603] [''USB'' @ [CHR 0x5C] @ ''Vid_04d9&Pid_160&Rev_0310'', ''atm''],
  Init [Const 0x8866, Const 0x1685] [''T2-Mp3-001'', ''MP3 player/FM radio/voice recorder 256 Mo flash''],
  Init [Const 0x8866, Const 0x1689] [''T2-MP3-001'', ''MP3 player/FM radio/voice recorder 256 Mo flash''],
  Init [Const 0x112D, Const 0x8086] [''2200'', ''PCI''],
  Init [Const 0x112E, Const 0x0000] [[], ''EIDE/hdd and IDE/cd-rom Ctrlr''],
  Init [Const 0x112E, Const 0x000B] [[], ''EIDE/hdd and IDE/cd-rom Ctrlr''],
  Init [Const 0x1130, Const 0xF211] [''0x010'', ''USB Audio Sound Card''],
  Init [Const 0x1131, Const 0x0011] [''028'', ''Ethernet Controller''],
  Init [Const 0x1131, Const 0x1001] [''bm05e '', ''BlueTooth &#1040;&#1076;&#1072;&#1087;&#1090;&#1077;&#1088; ISSCBTA [Tripper USB Dongle]''],
  Init [Const 0x1131, Malformed (''0x1131'' @ [CHR 0x09] @ ''Philips Semic'')] [''1131'', ''VerTV Hybrid Super 007 M135RA''],
  Init [Const 0x1131, Const 0x1131] [''7130'', ''01384E42y8''],
  Init [Const 0x1131, Const 0x1201] [''PTD3000'', ''VPN IPSEC coprocessor''],
  Init [Const 0x1131, Const 0x1234] [''5.1.2600.0'', ''EHCI USB 2.0 Controller''],
  Init [Const 0x1131, Const 0x1301] [''PTD3210'', ''SSL Accelerator''],
  Init [Const 0x1131, Const 0x1562] [''ISP1561'', ''EHCI USB 2.0 Controller''],
  Init [Const 0x1131, Const 0x1996] [''7130'', ''01384E42y8''],
  Init [Const 0x1131, Const 0x2780] [''TDA2780AQ'', ''TV deflection controller''],
  Init [Const 0x1131, Const 0x3400] [''UCB1500'', ''Modem''],
  Init [Const 0x1131, Const 0x3401] [''UCB1500'', ''Multimedia Audio Device''],
  Init [Const 0x1131, Const 0x5400] [''TriMedia TM1000/1100'', ''Multimedia processor''],
  Init [Const 0x1131, Const 0x5400] [''TriMedia TM1000/1100'', ''Multimedia processorkk''],
  Init [Const 0x1131, Const 0x5402] [''TriMedia TM-1300EH'', ''Media Processor''],
  Init [Const 0x1131, Const 0x5406] [[], ''TriMedia PNX1700''],
  Init [Const 0x1131, Const 0x7130] [''SAA7130HL'', ''01384E42Y8''],
  Init [Const 0x1131, Const 0x7133] [''Philips SAA7133/35 Hybrid Capture Device or averme'', ''PCI audio and video broadcast decoder or only avertv dvb-t pci card''],
  Init [Const 0x1131, Const 0x7134] [''7134'', ''SAA7134 TV Card Philips''],
  Init [Const 0x1131, Const 0x7145] [''d145ah'', ''ddddf''],
  Init [Const 0x1131, Const 0x7146] [''saa7146ah'', '' 0X7146''],
  Init [Const 0x1131, Const 0x7160] [''Philips SAA7134E, TDA10046 and TDA8275A'', ''PCI'' @ [CHR 0x5C] @ ''VEN_1002&DEV_4383&SUBSYS_01E51028&REV_00'' @ [CHR 0x5C] @ ''3&AD6EAB4&0&A2  ''],
  Init [Const 0x1131, Const 0x7162] [''idk'', ''idk''],
  Init [Const 0x1131, Const 0x7164] [''PE9400'', ''ASUS My Cinnema PE9400 PCI-E 1x capture card.''],
  Init [Const 0x1131, Const 0x7231] [''Philips 7231/726x-&#1057;&#1077;&#1088;&#1080;&#10'', ''AVerMedia H339 &#1043;&#1080;&#1073;&#1088;&#1080;&#1076;&#1085;&#1099;&#1081; &#1040;&#1085;&#1072;''],
  Init [Const 0x1131, Const 0x9730] [''SAA9730'', ''Ethernet controller''],
  Init [Const 0x1131, Const 0x9876] [''tw9903 '', ''saa7146ah''],
  Init [Const 0x1131, Const 0xFFFF] [''FF'', ''device''],
  Init [Const 0x1133, Const 0x7711] [''EiconCard C91'', []],
  Init [Const 0x1133, Const 0x7901] [''EiconCard S90'', []],
  Init [Const 0x1133, Const 0x7902] [[], []],
  Init [Const 0x1133, Const 0x7911] [[], []],
  Init [Const 0x1133, Const 0x7912] [[], []],
  Init [Const 0x1133, Const 0x7941] [[], []],
  Init [Const 0x1133, Const 0x7942] [[], []],
  Init [Const 0x1133, Const 0x7943] [[], ''EiconCard S94''],
  Init [Const 0x1133, Const 0x7944] [[], ''EiconCard S94''],
  Init [Const 0x1133, Const 0xB921] [[], []],
  Init [Const 0x1133, Const 0xB922] [[], []],
  Init [Const 0x1133, Const 0xB923] [[], ''EiconCard P92''],
  Init [Const 0x1133, Const 0xE001] [''DIVA Pro 2.0 S/T'', []],
  Init [Const 0x1133, Const 0xE002] [''DIVA 2.0 S/T'', []],
  Init [Const 0x1133, Const 0xE003] [''DIVA Pro 2.0 U'', []],
  Init [Const 0x1133, Const 0xE004] [''DIVA 2.0 U'', ''chip''],
  Init [Const 0x1133, Const 0xE005] [''DIVA 2.01 S/T'', ''Eicon ISDN card using Siemens IPAC chip''],
  Init [Const 0x1133, Const 0xE00B] [''DIVA ISDN 2.02 PCI'', ''Eicon ISDN card using Infineon chip''],
  Init [Const 0x1133, Const 0xE010] [''Maestra'', ''DIVA Server BRI-2M''],
  Init [Const 0x1133, Const 0xE012] [''MaestraQ'', ''DIVA Server BRI-8M''],
  Init [Const 0x1133, Const 0xE013] [''MaestraQ-U'', ''DIVA Server 4BRI/PCI''],
  Init [Const 0x1133, Const 0xE014] [''MaestraP'', ''DIVA Server PRI-30M''],
  Init [Const 0x1133, Const 0xE015] [[], ''Diva Server PRI-30M PCI v.2''],
  Init [Const 0x1133, Const 0xE018] [''00'', ''DIVA Server BRI-2M/-2F''],
  Init [Const 0x1134, Const 0x0001] [''1106'', ''audio driver''],
  Init [Const 0x1134, Const 0x0002] [''DPRB'', ''Dual PCI to RapidIO Bridge''],
  Init [Const 0x1134, Const 0x9876] [''3059'', ''audio driver''],
  Init [Const 0x1135, Const 0x0001] [[], ''Printer Cntrlr''],
  Init [Const 0x1138, Const 0x8905] [''8905'', ''STD 32 Bridge''],
  Init [Const 0x113C, Const 0x0000] [''PCI9060'', ''i960 Bridge''],
  Init [Const 0x113C, Const 0x0001] [''PCI9060'', ''i960 Bridge / Evaluation Platform''],
  Init [Const 0x113C, Const 0x0911] [''PCI911'', ''i960Jx I/O Controller''],
  Init [Const 0x113C, Const 0x0912] [''PCI912'', ''i960Cx I/O Controller''],
  Init [Const 0x113C, Const 0x0913] [''PCI913'', ''i960Hx I/O Controller''],
  Init [Const 0x113C, Const 0x0914] [''PCI914'', ''I/O Controller with secondary PCI bus''],
  Init [Const 0x113F, Const 0x0808] [''SST-64P'', ''Adapter''],
  Init [Const 0x113F, Const 0x1010] [''SST-128P'', ''Adapter''],
  Init [Const 0x113F, Const 0x80C0] [[], []],
  Init [Const 0x113F, Const 0x80C4] [[], []],
  Init [Const 0x113F, Const 0x80C8] [[], []],
  Init [Const 0x113F, Const 0x8888] [[], []],
  Init [Const 0x113F, Const 0x9090] [[], []],
  Init [Const 0x1141, Const 0x0001] [[], ''EIDE/ATAPI super adapter''],
  Init [Const 0x1142, Const 0x3210] [''ProMotion 3210'', ''VGA/AVI Playback Accelerator''],
  Init [Const 0x1142, Const 0x6410] [''6410 6422'', ''GUI Accelerator''],
  Init [Const 0x1142, Const 0x6412] [[], ''GUI Accelerator''],
  Init [Const 0x1142, Const 0x6420] [[], ''GUI Accelerator''],
  Init [Const 0x1142, Const 0x6422] [''ProMotion-6422'', ''ProMotion-6422''],
  Init [Const 0x1142, Const 0x6424] [''ProVideo 6424'', ''ProMotion AT24 GUI Accelerator''],
  Init [Const 0x1142, Const 0x6425] [''ProMotion AT25'', ''0752 20005''],
  Init [Const 0x1142, Const 0x6426] [''aT25'', ''GUI Accelerator''],
  Init [Const 0x1142, Const 0x643D] [''AT25'', ''ProMotion-AT3D''],
  Init [Const 0x1142, Const 0x9876] [''ProMotion 6422'', ''139K76B 9808''],
  Init [Const 0x1142, Const 3210] [''9809'', ''139K76B''],
  Init [Const 0x1144, Const 0x0001] [[], ''Noservo Cntrlr''],
  Init [Const 0x1145, Malformed ''0xF)21''] [''????'', ''HDCClassName=''],
  Init [Const 0x1145, Const 0xF020] [[], ''CardBus ATAPI Host Adapter''],
  Init [Const 0x1145, Const 0xF021] [''NPATA32'', ''CardBus CompactFlash Adapter''],
  Init [Const 0x1145, Const 0xF024] [''NPATA-32'', ''CardBus CompactFlash Adapter''],
  Init [Const 0x1147, Const 0x1123] [''123'', ''131dq''],
  Init [Const 0x1148, Const 0x4000] [''SK-NET'', ''FDDI adapter''],
  Init [Const 0x1148, Const 0x4200] [[], ''Token Ring Adapter''],
  Init [Const 0x1148, Const 0x4300] [''SysKonnect Genesis'', ''SK-NET Gigabit Ethernet Adapter''],
  Init [Const 0x1148, Const 0x4320] [''Marvell Yukon D-Link DGE530T'', ''SysKonnect Marvel RDK 8001''],
  Init [Const 0x1148, Const 0x4362] [''88E8053'', ''Marvell Yukon 88E8053 based Ethernet Controller''],
  Init [Const 0x1148, Const 0x9000] [''Marvell Yukon II PCI-X'', ''PCI-X 10/100/1000Base-T Server''],
  Init [Const 0x1148, Const 0x9E00] [''Marvell Yukon EC'', ''PCI Express 10/100/1000Base-T Desktop''],
  Init [Const 0x114A, Const 0x5565] [''VMIPCI-5565'', ''Ultrahigh-Speed Fiber-Optics Reflective Memory w/ Interrupts''],
  Init [Const 0x114A, Const 0x5579] [''VMIPCI-5579'', ''Reflective Memory Card''],
  Init [Const 0x114A, Const 0x5588] [''VMICPCI5588'', ''VMICPCI5588 Reflective Memory Card''],
  Init [Const 0x114A, Const 0x6504] [[], ''Timer/SRAM FPGA''],
  Init [Const 0x114A, Const 0x7587] [''VMIVME-7587'', []],
  Init [Const 0x114D, Const 0x2189] [''0x1002114D'', ''PCTel HSP56 PCI Modem''],
  Init [Const 0x114F, Const 0x0002] [''AccelePort EPC'', ''ACPI'' @ [CHR 0x5C] @ ''NSC6001''],
  Init [Const 0x114F, Const 0x0003] [''RightSwitch SE-6'', []],
  Init [Const 0x114F, Const 0x0004] [''AccelePort Xem'', ''driver''],
  Init [Const 0x114F, Const 0x0005] [''AccelePort Xr'', []],
  Init [Const 0x114F, Const 0x0006] [''AccelePort C/X'', []],
  Init [Const 0x114F, Const 0x0007] [''DataFire PCI 1 S/T'', ''Digi Data Fire PCI 1 S/T''],
  Init [Const 0x114F, Const 0x0009] [''AccelePort Xr/J'', []],
  Init [Const 0x114F, Const 0x000A] [''AccelePort EPC/J'', []],
  Init [Const 0x114F, Const 0x000C] [''DataFirePRIme T1'', []],
  Init [Const 0x114F, Const 0x000D] [''SyncPort'', ''X.25/FR 2-port''],
  Init [Const 0x114F, Const 0x0011] [''AccelePort8r EIA-232'', []],
  Init [Const 0x114F, Const 0x0012] [''AccelePort8r EIA-422'', []]]"

lemma PciDevTable_47_facts:
  "length PciDevTable_47 = 150" "rejected PciDevTable_47 = 2" "oversized PciDevTable_47 = 0"
  "vendors PciDevTable_47 \<subseteq> Const ` set vendor_numbers"
  unfolding PciDevTable_47_def count_rows by (simp_all add: part_simps listed vendor_known_list cong: part_cong count_rows_cong)

definition PciDevTable_48 :: "initializer list" where
 "PciDevTable_48 = [
  Init [Const 0x114F, Const 0x0013] [''AccelePort Xr'', []],
  Init [Const 0x114F, Const 0x0014] [''AccelePort8r EIA-422'', []],
  Init [Const 0x114F, Const 0x0015] [''AccelePort Xem'', []],
  Init [Const 0x114F, Const 0x0016] [''AccelePort EPC/X'', []],
  Init [Const 0x114F, Const 0x0017] [''AccelePort C/X'', []],
  Init [Const 0x114F, Const 0x0019] [''DataFire PCI 1 U'', []],
  Init [Const 0x114F, Const 0x001A] [''DataFirePRIme E1'', []],
  Init [Const 0x114F, Const 0x001B] [''AccelePort C/X (IBM)'', []],
  Init [Const 0x114F, Const 0x001D] [''DataFire RAS'', ''T1/E1/PRI''],
  Init [Const 0x114F, Const 0x001F] [[], ''ClydeNonCsu6034''],
  Init [Const 0x114F, Const 0x0020] [[], ''ClydeNonCsu6032''],
  Init [Const 0x114F, Const 0x0021] [[], ''ClydeNonCsu4''],
  Init [Const 0x114F, Const 0x0022] [[], ''ClydeNonCsu2''],
  Init [Const 0x114F, Const 0x0023] [''AccelePort RAS'', []],
  Init [Const 0x114F, Const 0x0024] [''DataFire RAS B4 ST/U'', []],
  Init [Const 0x114F, Const 0x0026] [''AccelePort 4r 920'', []],
  Init [Const 0x114F, Const 0x0027] [''AccelePort 8r 920'', []],
  Init [Const 0x114F, Const 0x0029] [''DigiClassic PCI'', []],
  Init [Const 0x114F, Const 0x0034] [''AccelePort 2r 920'', []],
  Init [Const 0x114F, Const 0x0035] [''DataFire DSP'', ''T1/E1/PRI, Compact PCI''],
  Init [Const 0x114F, Const 0x0040] [''AccelePort Xp'', []],
  Init [Const 0x114F, Const 0x0042] [''AccelePort 2p PCI'', []],
  Init [Const 0x114F, Const 0x0070] [''DataFire Micro V'', []],
  Init [Const 0x114F, Const 0x0071] [''DataFire Micro V'', ''Descargar''],
  Init [Const 0x114F, Const 0x0072] [''DataFire Micro V'', []],
  Init [Const 0x114F, Const 0x0073] [''DataFire Micro V'', []],
  Init [Const 0x114F, Const 0x00C8] [''20F0'', ''Digi Neo 2''],
  Init [Const 0x114F, Const 0x6001] [''Avanstar'', ''ACPI'' @ [CHR 0x5C] @ ''VEN_HPQ&DEV_6001''],
  Init [Const 0x5143, Const 0x9204] [''Unknown'', ''WAN Card Lenovo Notebook''],
  Init [Const 0x1155, Const 0x0810] [[], ''486 CPU/PCI Bridge''],
  Init [Const 0x1155, Const 0x0922] [''2838'', ''Pentium CPU/PCI Bridge''],
  Init [Const 0x1155, Const 0x0926] [[], ''PCI/ISA Bridge''],
  Init [Const 0x1158, Const 0x3011] [''3011'', ''Tokenet/vg 1001/10m anylan''],
  Init [Const 0x1158, Const 0x9050] [[], ''Lanfleet/Truevalue''],
  Init [Const 0x1158, Const 0x9051] [[], ''Lanfleet/Truevalue''],
  Init [Const 0x1159, Const 0x0001] [''MV1000'', []],
  Init [Const 0x1159, Const 0x0002] [''MV-1500'', ''Frame Grabber''],
  Init [Const 0x115D, Const 0x0003] [''RBEM56G-100'', ''Cardbus Ethernet 10/100+Modem 56''],
  Init [Const 0x115D, Const 0x0005] [''NEC VersaPro VA70j need to reinstall driver'', ''CardBus Ethernet 10/100''],
  Init [Const 0x115D, Const 0x0007] [[], ''CardBus Ethernet 10/100''],
  Init [Const 0x115D, Const 0x000B] [[], ''CardBus Ethernet 10/100''],
  Init [Const 0x115D, Const 0x000C] [''MPCI 3A56GSP-100 PA'', ''Mini-PCI V.90 56k Modem''],
  Init [Const 0x115D, Const 0x000F] [[], ''CardBus Ethernet 10/100''],
  Init [Const 0x115D, Const 0x002B] [''168c'', ''Winmodem built into NEC Versa VXi''],
  Init [Const 0x115D, Const 0x0076] [''2U6MLA-35295-M5-E'', ''Xircom MPCI3B-56G (Lucent SCORPIO) Soft''],
  Init [Const 0x115D, Const 0x00D3] [''2333333333333'', ''Xircom MPCI Modem 56''],
  Init [Const 0x115D, Const 0x00D4] [''MPCI'', ''Modem 56k''],
  Init [Const 0x115D, Const 0x0101] [''Ms0612006303'', ''CardBus 56k Modem''],
  Init [Const 0x115D, Const 0x0103] [[], ''CardBus Ehternet + 56k Modem''],
  Init [Const 0x1161, Const 0x0001] [''921014946'', ''Host Bridge''],
  Init [Const 0x1163, Const 0x0001] [''Verite 1000'', ''3D Blaster''],
  Init [Const 0x1163, Const 0x2000] [''Rendition V2200 (1179-002)'', ''Rendition V2200 (BLITZ 2200 AGP)''],
  Init [Const 0x1165, Const 0x0001] [[], ''Motion JPEG rec/play w/audio''],
  Init [Const 0x1165, Const 0x0060] ['' '', ''Foresight Imaging I-Color''],
  Init [Const 0x1166, Const 0x0005] [''NB6536 (CNB20-LE)'', ''PCI to PCI Bridge, bus/dev/func 0/0/1''],
  Init [Const 0x1166, Const 0x0006] [''NB6536 (CNB20-HE)'', ''Host Bridge, function 2 and function 3''],
  Init [Const 0x1166, Const 0x0007] [''NB6635 (CNB20-LE/HE)'', ''CPU to PCI Bridge''],
  Init [Const 0x1166, Const 0x0008] [''NB6536 (CNB20-HE)'', ''Hostbridge & MCH, bus/dev/func 0/0/0''],
  Init [Const 0x1166, Const 0x0009] [''NB6536 (CNB20-LE)'', ''AGP interface''],
  Init [Const 0x1166, Const 0x0010] [''CIOB30'', []],
  Init [Const 0x1166, Const 0x0011] [''CMIC-HE'', []],
  Init [Const 0x1166, Const 0x0012] [''CMIC-LE'', []],
  Init [Const 0x1166, Const 0x0013] [''CNB20-HE'', ''Hostbridge and MCH''],
  Init [Const 0x1166, Const 0x0014] [''CNB20-HE'', ''Host Bridge''],
  Init [Const 0x1166, Const 0x0015] [''CMIC-GC'', ''Hostbridge and MCH''],
  Init [Const 0x1166, Const 0x0016] [''CMIC-GC'', ''Host Bridge''],
  Init [Const 0x1166, Const 0x0017] [''CMIC-SL'', []],
  Init [Const 0x1166, Const 0x0101] [''CIOB-X2'', []],
  Init [Const 0x1166, Const 0x0103] [''47553'', '' ''],
  Init [Const 0x1166, Const 0x0110] [''CIOB-E'', ''I/O Bridge with Gigabit Ethernet ServerWorks Grand Champion''],
  Init [Const 0x1166, Const 0x0200] [''OSB4'', ''PCI to ISA Bridge''],
  Init [Const 0x1166, Const 0x0201] [''CSB5'', ''ISA bridge''],
  Init [Const 0x1166, Const 0x0203] [''CSB6'', ''PCI to ISA Bridge''],
  Init [Const 0x1166, Const 0x0211] [''OSB4'', ''PATA33 Controller''],
  Init [Const 0x1166, Const 0x0212] [''CSB5'', ''PATA66''],
  Init [Const 0x1166, Const 0x0213] [''CSB6'', ''PATA100 RAID Controller''],
  Init [Const 0x1166, Const 0x0217] [''CSB6'', ''PATA100 IDE Controller''],
  Init [Const 0x1166, Const 0x0220] [''OSB4'', ''OpenHCI Compliant USB Controller''],
  Init [Const 0x1166, Const 0x0221] [''OSB6'', ''OHCI Compliant USB Controller''],
  Init [Const 0x1166, Const 0x0223] [''0x0223'', ''USB controller''],
  Init [Const 0x1166, Const 0x0225] [''CSB5'', ''PCI Bridge''],
  Init [Const 0x1166, Const 0x0227] [''CSB6'', ''PCI Bridge''],
  Init [Const 0x1166, Const 0x0230] [''???'', ''PCI to ISA bridge''],
  Init [Const 0x1166, Const 0x0240] [''RaidCore4000'', ''Apple K2 SATA AHCI&RAID Controller''],
  Init [Const 0x1166, Const 0x0241] [''RC5000Series&BC48??(4850L&4852...)'', ''ServerWorks Frodo4 SATA RAID Controller''],
  Init [Const 0x1166, Const 0x0242] [''RaidCore4000 Series'', ''ServerWorks Frodo8 8xSATA RAID''],
  Init [Const 0x1166, Const 0x024A] [''BC5785'', ''Broadcom5785/Serverworks HT1000 AHCI Controller''],
  Init [Const 0x1166, Const 0x024B] [''BC5785'', ''BC5785/ServerWorks HT1000 SATA(IDE MODE)''],
  Init [Const 0x1166, Const 0x0252] [''RaidCore5000 Series'', ''ServerWorks Elrond 8xSAS/SATAII''],
  Init [Const 0x1168, Const 0x7145] [''1002'', ''ATI Mobility Radeon X 1400''],
  Init [Const 0x1169, Const 0x0102] [''QL5032'', ''32 Channel Digital Input Card Interface''],
  Init [Const 0x1169, Const 0x0202] [''QL5032'', ''16 Channel Digital Output, 16 Channel Digital Input Interface''],
  Init [Const 0x1169, Const 0x0302] [''QL5032'', ''32 Channel Analog Input Interface''],
  Init [Const 0x1169, Const 0x0402] [''QL5032'', ''16 Channel Analog Output / Analog Input Interface''],
  Init [Const 0x1169, Const 0x0502] [''QL5232'', ''8 Channel Timer Counter Interface''],
  Init [Const 0x1169, Const 0x0902] [''QL5232'', ''PCI to TigerSHARC FPGA Interface''],
  Init [Const 0x1169, Const 0x2001] [''Ql5032-33APQ208C'', ''PCI to C-DAC RTU bus interface FPGA''],
  Init [Const 0x116A, Const 0x6100] [[], ''Bus/Tag Channel''],
  Init [Const 0x116A, Const 0x6800] [[], ''Escon Channel''],
  Init [Const 0x116A, Const 0x7100] [[], ''Bus/Tag Channel''],
  Init [Const 0x116A, Const 0x7800] [''nvidia harmony'', ''Escon Channel''],
  Init [Const 0x116E, Const 0x0015] [''VX120'', ''Fiery EX2000D RIP Card Melbourne VX120''],
  Init [Const 0x116E, Const 0x0500] [''Vx500'', ''Printer ASIC''],
  Init [Const 0x1172, Const 0x0001] [''EPF6016ATC144-2'', ''S CCA5000243A''],
  Init [Const 0x1172, Const 0x0004] [''-epf6016qc240-2'', ''Multi-serial card''],
  Init [Const 0x1172, Const 0x0007] [''StratixIIGX'', ''Altera FPGA board''],
  Init [Const 0x1172, Const 0x1234] [''5SGXEA7N'', ''Stratix V FPGA''],
  Init [Const 0x1172, Const 0xD4AA] [''EP1AGX90EF1152C6N'', ''Arria GX''],
  Init [Const 0x1176, Const 0x8474] [''42000133'', ''Conexant Multichannel Synchronous Communications Controller (MUSYCC)''],
  Init [Const 0x1178, Const 0xAFA1] [[], ''Fast Ethernet''],
  Init [Const 0x1179, Malformed ''0x 8136''] [''RTL8101E'', ''Realtek 10/100/1000 PCI-E NIC Family''],
  Init [Const 0x1179, Const 0x0102] [''toshiba america info systems'', ''Trusted Platform Module''],
  Init [Const 0x1179, Const 0x0103] [[], ''Extended PCI IDE Controller Type-B''],
  Init [Const 0x1179, Const 0x01179] [''0x8136'', ''PCI'' @ [CHR 0x5C] @ ''VEN_8086&DEV_444E&SUBSYS_444E8086&REV_01'' @ [CHR 0x5C] @ ''4&2FA5CE&0&00E0''],
  Init [Const 0x1179, Const 0x0404] [[], []],
  Init [Const 0x1179, Const 0x0406] [''Tecra a2'', ''Video Capture device''],
  Init [Const 0x1179, Const 0x0407] [''NVIDIA GeForce 8600M GT'', ''NVIDIA GeForce 8600M GT''],
  Init [Const 0x1179, Const 0x0601] [''0555873412'', ''Toshiba CPU to PCI bridge''],
  Init [Const 0x1179, Const 0x0602] [[], ''PCI to ISA Bridge for Notebooks''],
  Init [Const 0x1179, Const 0x0603] [''ToPIC95'', ''PCI to CardBus Bridge for Notebooks''],
  Init [Const 0x1179, Const 0x0604] [''PCI'' @ [CHR 0x5C] @ ''VEN_104C&DEV_803B&SUBSYS_FF1E1179'', ''PCI to PCI Bridge for Notebooks''],
  Init [Const 0x1179, Const 0x0605] [''ACPI'' @ [CHR 0x5C] @ ''TOS6205'', ''PCI to ISA Bridge for Notebooks''],
  Init [Const 0x1179, Const 0x0606] [[], ''PCI to ISA Bridge for Notebooks''],
  Init [Const 0x1179, Const 0x0609] [''0322'', ''PCI to PCI Bridge for Notebooks''],
  Init [Const 0x1179, Const 0x060A] [''ToPIC95B'', ''Toshiba ToPIC95 CardBus Controller''],
  Init [Const 0x1179, Const 0x060F] [''ToPIC97'', ''CardBus Controller''],
  Init [Const 0x1179, Const 0x0611] [''PNP0510'', ''PCI-ISA Bridge''],
  Init [Const 0x1179, Const 0x0617] [''ToPIC100'', ''PCI to CardBus Bridge with ZV support''],
  Init [Const 0x1179, Const 0x0618] [[], ''CPU to PCI and PCI to ISA Bridge''],
  Init [Const 0x1179, Const 0x0701] [''vt82c693'', ''PCI Communication Device''],
  Init [Const 0x1179, Const 0x0804] [''0x0804'', ''Toshiba Smart Media Host Controller''],
  Init [Const 0x1179, Const 0x0805] [''ACPI'' @ [CHR 0x5C] @ ''TOS6205'' @ [CHR 0x5C] @ ''2&DABA3FF&er.com1'', ''ACPI'' @ [CHR 0x5C] @ ''TOS6205'' @ [CHR 0x5C] @ ''2&DABA3FF&2''],
  Init [Const 0x1179, Const 0x0D01] [''0x0D01'', ''FIR Port Type-O''],
  Init [Const 0x1179, Const 0x1179] [''32'', ''Dispositivo de comunicaciones pci''],
  Init [Const 0x1179, Const 0x13A8] [''XR17C158/154/152'', ''Multi-channel PCI UART''],
  Init [Const 0x1179, Const 0x3B64] [''intel 3b64'', ''Management Engine Driver''],
  Init [Const 0x1179, Const 0x8136] [''0x8136'', ''pci'' @ [CHR 0x5C] @ ''ven_10 EC''],
  Init [Const 0x1179, Const 0x9876] [''ACPI'' @ [CHR 0x5C] @ ''TOS1900'', ''SD Card Controller''],
  Init [Const 0x117B, Const 0x8320] [''NOFM12'', ''VGA''],
  Init [Const 0x117C, Const 0x0030] [''ExpressPCI UL5D'', ''Dual-Channel Low-Profile Ultra320 SCSI PCIe Host Bus Adapter''],
  Init [Const 0x117C, Const 0x0042] [''ExpressSAS H60F'', ''Low-Profile 16-Internal Port 6Gb/s SAS/SATA PCIe 2.0 Host Bus Adapter''],
  Init [Const 0x117E, Const 0x0001] [[], ''Printer Host''],
  Init [Const 0x1185, Const 0x8929] [[], ''EIDE Controller''],
  Init [Const 0x1186, Const 0x0100] [''88e8003'', ''Ethernet Adapter''],
  Init [Const 0x1186, Const 0x1002] [''DFE-550TX/580TX/DFE-550FX'', ''Fast Ethernet Adapter''],
  Init [Const 0x1186, Const 0x1100] [''driv16c003206'', ''Fast Ethernet Adapter''],
  Init [Const 0x1186, Const 0x1300] [''DL10038C or DL10038E'', ''Realtek RTL8139 Family PCI Fast Ethernet Adapter''],
  Init [Const 0x1186, Const 0x1301] [''DGE-528T '', ''Fast Ethernet Adapter''],
  Init [Const 0x1186, Const 0x1340] [''DFE-690TXD'', ''Fast Ethernet CardBus PC Card''],
  Init [Const 0x1186, Const 0x1561] [''DRP-32TXD'', ''CardBus PC Card'']]"

lemma PciDevTable_48_facts:
  "length PciDevTable_48 = 150" "rejected PciDevTable_48 = 1" "oversized PciDevTable_48 = 0"
  "vendors PciDevTable_48 \<subseteq> Const ` set vendor_numbers"
  unfolding PciDevTable_48_def count_rows by (simp_all add: part_simps listed vendor_known_list cong: part_cong count_rows_cong)

definition PciDevTable_49 :: "initializer list" where
 "PciDevTable_49 = [
  Init [Const 0x1186, Const 0x3065] [''14001186'', ''D-Link DFE-500Tx PCI fast Ethernet adapter Re v.A''],
  Init [Const 0x1186, Const 0x3106] [''DFE 520TX/530TX+ rev E1'', ''Fast Ethernet Adapter''],
  Init [Const 0x1186, Const 0x3300] [''D-Link Air Wireless Network (DWL-G510)'', ''IEEE 802.11g PCI card''],
  Init [Const 0x1186, Const 0x3B00] [''0x3b001186'', ''D-LINK DWL-650+''],
  Init [Const 0x1186, Const 0x3C09] [''DWL-G510 Version C1'', ''Ralink RT61''],
  Init [Const 0x1186, Const 0x4000] [''DL2000'', ''Gigabit Ethernet Adapter''],
  Init [Const 0x1186, Const 0x4001] [''DFE-650TX'', ''D Link Fast Ethernet PCMCIA Card''],
  Init [Const 0x1186, Const 0x4200] [''DFE-520TX_C1'', ''-''],
  Init [Const 0x1186, Const 0x4300] [''dlg10086'', ''Used on DGE-528T Gigabit adaptor''],
  Init [Const 0x1186, Const 0x4302] [''dg530t'', ''DGE-530T''],
  Init [Const 0x1186, Const 0x4B00] [''DGE-560T'', ''D-Link System Inc DGE-560T PCI Express Gigabit Ethernet Adapter (rev 13)''],
  Init [Const 0x1186, Const 0x4B01] [''DGE-530T'', ''Gigabit Ethernet Adapter''],
  Init [Const 0x1186, Const 0x4C00] [''DGE-530T'', ''Gigabit Ethernet Adapter''],
  Init [Const 0x1186, Const 0x9876] [''876'', ''d''],
  Init [Const 0x1189, Const 0x1592] [[], ''VL/PCI Bridge''],
  Init [Const 0x118C, Const 0x0014] [''PCIB'', ''C-bus II to PCI bus host bridge chip''],
  Init [Const 0x118C, Const 0x1117] [''MAC-94C201B3'', ''Corollary/Intel Memory Controller Chip''],
  Init [Const 0x118D, Const 0x0001] [''n/a'', ''Raptor-PCI framegrabber''],
  Init [Const 0x118D, Const 0x0012] [''Model 12'', ''Road Runner Frame Grabber''],
  Init [Const 0x118D, Const 0x0014] [''Model 14'', ''Road Runner Frame Grabber''],
  Init [Const 0x118D, Const 0x0024] [''Model 24'', ''Road Runner Frame Grabber''],
  Init [Const 0x118D, Const 0x0044] [''Model 44'', ''Road Runner Frame Grabber''],
  Init [Const 0x118D, Const 0x0112] [''Model 12'', ''Road Runner Frame Grabber''],
  Init [Const 0x118D, Const 0x0114] [''Model 14'', ''Road Runner Frame Grabber''],
  Init [Const 0x118D, Const 0x0124] [''Model 24'', ''Road Runner Frame Grabber''],
  Init [Const 0x118D, Const 0x0144] [''Model 44'', ''Road Runner Frame Grabber''],
  Init [Const 0x118D, Const 0x0212] [''Model 12'', ''Road Runner Frame Grabber''],
  Init [Const 0x118D, Const 0x0214] [''Model 14'', ''Road Runner Frame Grabber''],
  Init [Const 0x118D, Const 0x0224] [''Model 24'', ''Road Runner Frame Grabber''],
  Init [Const 0x118D, Const 0x0244] [''Model 44'', ''Road Runner Frame Grabber''],
  Init [Const 0x118D, Const 0x0312] [''Model 12'', ''Road Runner Frame Grabber''],
  Init [Const 0x118D, Const 0x0314] [''Model 14'', ''Road Runner Frame Grabber''],
  Init [Const 0x118D, Const 0x0324] [''Model 24'', ''Road Runner Frame Grabber''],
  Init [Const 0x118D, Const 0x0344] [''Model 44'', ''Road Runner Frame Grabber''],
  Init [Const 0x118E, Const 0x0042] [[], []],
  Init [Const 0x118E, Const 0x0142] [[], []],
  Init [Const 0x118E, Const 0x0242] [[], []],
  Init [Const 0x118E, Const 0x0342] [[], []],
  Init [Const 0x118E, Const 0x0440] [[], []],
  Init [Const 0x118E, Const 0x0442] [[], []],
  Init [Const 0x118E, Const 0x0842] [''02321038'', ''red''],
  Init [Const 0x1191, Const 0x0001] [[], ''IDE Ctrlr''],
  Init [Const 0x1191, Const 0x0002] [''ATP850UF'', ''UltraDMA33 EIDE Controller (AEC6210UF)''],
  Init [Const 0x1191, Const 0x0003] [[], ''SCSI-2 cache Cntrlr''],
  Init [Const 0x1191, Const 0x0004] [''4111111111111111'', ''UltraDMA33 EIDE Controller''],
  Init [Const 0x1191, Const 0x0005] [''ATP850UF'', ''UltraDMA33 EIDE Controller (AEC6210UF)''],
  Init [Const 0x1191, Const 0x0006] [''ATP860A'', ''UltraDMA66 EDIE Controller (AEC6260)''],
  Init [Const 0x1191, Const 0x0007] [''ATP860R'', ''UltraDMA66 EIDE Controller (AEC6260)''],
  Init [Const 0x1191, Const 0x0008] [''ATP865'', ''2CH PCI UltraDMA133 IDE Controller''],
  Init [Const 0x1191, Const 0x0009] [''ATP865'', ''AEC6280PATA133|AEC6880 PATA RAID|AEC6290 SATA|AEC6890 SATA RAID|AEC6891 SATA RAID''],
  Init [Const 0x1191, Const 0x000A] [''aec6885'', ''ACARD AEC-6885/6895/6896 RAID Controller''],
  Init [Const 0x1191, Const 0x000B] [''373953244361001'', ''ACARD AEC-6897/6898 RAID Controller''],
  Init [Const 0x1191, Const 0x000D] [''ATP8620'', ''2S1P PCI-X SATA(3G)/UDMA Combo Controller''],
  Init [Const 0x1191, Const 0x8001] [''ATP8600'', ''SCSI-2 RAID (cache?) Adapter (AEC6820U)''],
  Init [Const 0x1191, Const 0x8002] [''ATP850S/5412751206270000'', ''AEC6710S/U/UW SCSI-2 Host Adapter ''],
  Init [Const 0x1191, Const 0x8010] [''ATP870'', ''Ultra Wide SCSI Controller''],
  Init [Const 0x1191, Const 0x8020] [''ATP870'', ''AEC6712U/TU Ultra SCSI Controller''],
  Init [Const 0x1191, Const 0x8030] [''ATP870'', ''AEC 6712S/TS Ultra SCSI Controller''],
  Init [Const 0x1191, Const 0x8040] [''ATP870'', ''SCSI Controller''],
  Init [Const 0x1191, Const 0x8050] [[], ''AEC6715UW Ultra Wide SCSI Controller''],
  Init [Const 0x1191, Const 0x8060] [''4116360015430005'', ''SCSI Host Adapter/PAYPAL.COM/X.COM''],
  Init [Const 0x1191, Const 0x8081] [''5412751206270000'', ''PCI Ultra160 LVD/SE SCSI Adapter''],
  Init [Const 0x1191, Const 0x808A] [''ATP885'', ''AEC6710S/U/UW SCSI-2 Host Adapter''],
  Init [Const 0x1197, Const 0x010C] [''CompuScope 82G'', ''8-bit 2GS/s Analog Input Card''],
  Init [Const 0x1199, Const 0x0001] [''IRMA 3270 PCI Adapter'', ''IRMA 3270 PCI Adapter''],
  Init [Const 0x1199, Const 0x0002] [[], ''Advanced ISCA PCI Adapter''],
  Init [Const 0x1199, Const 0x0201] [[], ''SDLC PCI Adapter''],
  Init [Const 0x119B, Const 0x1221] [''82C092G'', ''PCI PCMCIA bridge''],
  Init [Const 0x119E, Const 0x0001] [''MB86697'', ''FireStream 155 ATM adapter''],
  Init [Const 0x119E, Const 0x0003] [''MB86695'', ''FireStream 50 ATM adapter''],
  Init [Const 0xECC0, Const 0x0050] [[], []],
  Init [Const 0xECC0, Const 0x0051] [[], []],
  Init [Const 0xECC0, Const 0x0060] [[], []],
  Init [Const 0xECC0, Const 0x0070] [[], []],
  Init [Const 0xECC0, Const 0x0071] [[], []],
  Init [Const 0xECC0, Const 0x0072] [[], []],
  Init [Const 0xECC0, Const 0x0080] [''MiaMIDI'', ''4/2 channel (analog/digital) audio card''],
  Init [Const 0xECC0, Const 0x0100] [''GINA3G'', ''6/8 channel (analog/digital) audio card''],
  Init [Const 0xECC0, Const 0x3410] [''0x0001'', ''Motorola''],
  Init [Const 0x11A8, Const 0x7302] [[], ''NTX-8023-PCI 2MB Long Card''],
  Init [Const 0x11A8, Const 0x7308] [[], ''NTX-8023-PCI 8MB Long Card''],
  Init [Const 0x11A8, Const 0x7402] [[], ''NTX-8023-PCI 2MB Short Card''],
  Init [Const 0x11A8, Const 0x7408] [[], ''NTX-8023-PCI 8MB Short Card''],
  Init [Const 0x11A9, Const 0x4240] [''AMCC S5933Q'', ''pci matchmaker 9622qac''],
  Init [Const 0x11AB, Const 0x0028] [''NV05'', ''MCP67 High Definition Audio''],
  Init [Const 0x11AB, Const 0x0146] [''GT-64010/A'', ''System Ctrlr for R4xxx/5000 Family CPUs''],
  Init [Const 0x11AB, Const 0x11AB] [''88E8055 PCI-E'', ''Gigabit Ethernet Controller''],
  Init [Const 0x11AB, Minus (Const 0x11AB) (Const 4632)] [''88E8055'', ''Marvell Yukon 88E8055 PCI-E Gigabit Ethernet Controller''],
  Init [Const 0x11AB, Const 0x11ABC] [''88E8055 PCI-E'', ''Gigabit Ethernet Controller''],
  Init [Const 0x11AB, Const 0x13F8] [''W8300'', ''802.11 Adapter''],
  Init [Const 0x11AB, Const 0x1FA6] [''88W8310'', ''The Libertas WLAN 802.11b/g''],
  Init [Const 0x11AB, Const 0x1FA7] [''88W8310'', ''Libertas WLAN 802.11b/g''],
  Init [Const 0x11AB, Const 0x1FA8] [''WG311'', ''54M Wireless 802.11b PCI wifi Adapter Card''],
  Init [Const 0x11AB, Const 0x1FAA] [''8335 (MRV8835)'', ''Marvell Libertas 802.11 b/g Wireless (8335)''],
  Init [Const 0x11AB, Const 0x2A30] [''88W8687'', ''PCI-Express 802.11bg Wireless''],
  Init [Const 0x11AB, Const 0x4320] [''88E8001'', ''Marvell Yukon PCI E Gigabit drivers for d''],
  Init [Const 0x11AB, Const 0x4350] [''88E8036'', ''Yukon PCI-E Fast Ethernet Controller''],
  Init [Const 0x11AB, Const 0x4351] [''88E8036'', ''Yukon PCI-E Fast Ethernet Controller''],
  Init [Const 0x11AB, Const 0x4352] [''88E8038'', ''Marvell Yukon 88E8038 PCI-E Fasvt Ethernet Controller''],
  Init [Const 0x11AB, Const 0x4353] [''88E8039 - http://ftp.hp.com/pub/softpaq/sp37501-38'', ''Gigabit''],
  Init [Const 0x11AB, Const 0x4354] [''88E8040'', ''Marvell Yukon 88E8040 PCI-E Fast Ethernet Controller''],
  Init [Const 0x11AB, Const 0x4355] [''88E8001'', ''Marvell Yukon 88E8040T PCI-E Fast Ethernet Controller''],
  Init [Const 0x11AB, Const 0x4357] [''88E8042'', ''marvell ethernet lan No painel ''],
  Init [Const 0x11AB, Const 0x4360] [''88E8050'', ''Yukon PCI-E ASF Gigabit Ethernet Controller''],
  Init [Const 0x11AB, Const 0x4361] [''88E8036'', ''Marvell Yukon 88E8036 Network Card''],
  Init [Const 0x11AB, Const 0x4362] [''88E8053'', ''Marvell Yukon 88E8053 PCI-E Gigabit Ethernet Controller''],
  Init [Const 0x11AB, Const 0x4363] [''88E8042'', ''Yukon PCI-E Gigabit Ethernet Controller''],
  Init [Const 0x11AB, Const 0x4364] [''88E8056'', ''Yukon PCI-E Gigabit Ethernet Controller''],
  Init [Const 0x11AB, Const 0x4365] [''88E8070'', ''Yukon Gigabit Controller DRIVER''],
  Init [Const 0x11AB, Const 0x436A] [''88E8058'', ''Marvell Yukon 88E8058''],
  Init [Const 0x11AB, Const 0x436B] [''88E8072'', ''Marvell Yukon 8072''],
  Init [Const 0x11AB, Minus (Const 0x436B) (Const 1)] [''88E8072'', ''Marvell Yukon PCI-E Gigabit Ethernet Controller''],
  Init [Const 0x11AB, Const 0x436C] [''88E8072'', ''Marvell 8072 Ethernet Nic''],
  Init [Const 0x11AB, Const 0x4380] [''88e8071'', ''Marvell Yukon 88E8057 PCI-E Gigabit Ethernet Controller''],
  Init [Const 0x11AB, Const 0x4381] [''88E8059'', ''Marvell Yukon 88E8059 PCI-E Gigabit Ethernet Controller''],
  Init [Const 0x11AB, Const 0x4611] [''GT-64115'', ''System Controller''],
  Init [Const 0x11AB, Const 0x4620] [''GT-64120'', ''System Controller for R5000 & R7000 (64-bit PCI)''],
  Init [Const 0x11AB, Const 0x4801] [''88w8335'', ''8 port switched ethernet ctrlr''],
  Init [Const 0x11AB, Const 0x4809] [''EV-48300'', ''Evaluation board for the GT-48300''],
  Init [Const 0x11AB, Const 0x5005] [''F5D5005'', ''Belkin Desktop Gigabit PCI card''],
  Init [Const 0x11AB, Const 0x5040] [''88SX5040'', ''4-port SATA I PCI-X Controller''],
  Init [Const 0x11AB, Const 0x5041] [''88SX504'', ''4-port SATA I PCI-X Controller''],
  Init [Const 0x11AB, Const 0x5080] [''RocketRAID 62x'', ''SATA Controller''],
  Init [Const 0x11AB, Const 0x5081] [''RocketRAID 182x'', ''SATA Controller''],
  Init [Const 0x11AB, Const 0x6041] [''MV88SX6041'', ''Marvell Technology Group Ltd. MV88SX6041 4-port SATA II PCI-X Controller (rev 03)''],
  Init [Const 0x11AB, Const 0x6081] [''?'', ''PCI-X RocketRAID 222x SATA Controller''],
  Init [Const 0x11AB, Const 0x6101] [''88SE6101'', ''PATA 133 One Channel''],
  Init [Const 0x11AB, Const 0x6111] [''?'', ''61xx RAID''],
  Init [Const 0x11AB, Const 0x6120] [''?'', ''61xx RAID''],
  Init [Const 0x11AB, Const 0x6121] [''88SE6121'', ''61xx AHCI''],
  Init [Const 0x11AB, Const 0x6122] [''?'', ''61xx RAID''],
  Init [Const 0x11AB, Const 0x6140] [''4355'', ''61xx RAID''],
  Init [Const 0x11AB, Const 0x6145] [''88S8055 pci-3'', ''Add-on IC to provide 4x SATA Ports, attached to ICH7 (SthBridge?) via PCI-Express.''],
  Init [Const 0x11AB, Const 0x6320] [''GT-64130/131'', ''System Controller for PowerPC Processors''],
  Init [Const 0x11AB, Const 0x6440] [''88SE6320'', ''64xx/63xx SAS''],
  Init [Const 0x11AB, Const 0x6480] [''MV6446x'', ''PowerPC System Controller''],
  Init [Const 0x11AB, Const 0x6485] [''MV6446x '', ''Marvel 88SE6480 is the chip on the mainboard''],
  Init [Const 0x11AB, Const 0x9128] [''SE9128'', ''SATA3  6 GB/s  SATA3/Raid Controller''],
  Init [Const 0x11AB, Const 0x91A2] [''91xx'', ''Sata 6G RAID Controller''],
  Init [Const 0x11AB, Const 0x9653] [''GT-96100A'', ''Advanced Communication Controller''],
  Init [Const 0x11AB, Const 0x9876] [''88E8038'', ''marvell yukon 88E8038 pci-e fast ethernet controller''],
  Init [Const 0x11AB, Const 0xF003] [''GT-64010'', ''Primary Image Piranha Image Generator''],
  Init [Const 0x11AB, Const 0xF004] [''GT64120'', ''Primary Image Barracuda Image Generator''],
  Init [Const 0x11AB, Const 0xF006] [''GT-64120A'', ''Primary Image Cruncher Geometry Accelerator''],
  Init [Const 0x11AB, Const 0xFFFF] [''88SA8040'', ''PATA2SATA/SATA2PATA Bridge''],
  Init [Const 0x11AD, Const 0x0001] [''LC82C168?'', ''Fast Ethernet Adapter''],
  Init [Const 0x11AD, Const 0x0002] [''LC82C169'', ''NETGEAR FA310TX Fast Ethernet PCI Adapter''],
  Init [Const 0x11AD, Const 0xC115] [''LC82C115'', ''PNIC II PCI MAC/PHY''],
  Init [Const 0x11AE, Const 0x4153] [[], ''Bridge Controller''],
  Init [Const 0x11AE, Const 0x5842] [[], ''Bridge Controller'']]"

lemma PciDevTable_49_facts:
  "length PciDevTable_49 = 150" "rejected PciDevTable_49 = 0" "oversized PciDevTable_49 = 2"
  "vendors PciDevTable_49 \<subseteq> Const ` set vendor_numbers"
  unfolding PciDevTable_49_def count_rows by (simp_all add: part_simps listed vendor_known_list cong: part_cong count_rows_cong)

definition PciDevTable_50 :: "initializer list" where
 "PciDevTable_50 = [
  Init [Const 0x11AF, Const 0x0001] [''9704'', ''Cinema''],
  Init [Const 0x11AF, Const 0x000A] ['' '', ''Nitris''],
  Init [Const 0x11AF, Const 0x000B] ['' '', ''Nitris DX / Mojo DX''],
  Init [Const 0x11B0, Const 0x0001] [''V960PBC/PSC'', ''i960 Local Bus to PCI Bridge''],
  Init [Const 0x11B0, Const 0x0002] [''V961PBC/PSC'', ''i960Jx Local Bus to PCI Bridge''],
  Init [Const 0x11B0, Const 0x0004] [''V962PBC/PSC'', ''i960Cx/Hx Local Bus to PCI Bridge''],
  Init [Const 0x11B0, Const 0x0010] [''V292PBC/PSC'', ''Am29K Local Bus to PCI Bridge''],
  Init [Const 0x11B0, Const 0x0021] [''V363EPC'', ''i960Sx Local Bus to PCI Bridge''],
  Init [Const 0x11B0, Const 0x0022] [''V363EPC'', ''i960Jx Local Bus to PCI Bridge''],
  Init [Const 0x11B0, Const 0x0024] [''V363EPC'', ''i960Cx/Hx Local Bus to PCI Bridge''],
  Init [Const 0x11B0, Const 0x0030] [''V363EPC'', ''Am29K Local Bus to PCI Bridge''],
  Init [Const 0x11B0, Const 0x0100] [''V320USC'', ''PCI System Ctrlr for 32-bit MIPS CPU''],
  Init [Const 0x11B0, Const 0x0101] [''V320USC'', ''PCI System Ctrlr for 32-bit MIPS CPU''],
  Init [Const 0x11B0, Const 0x0102] [''V320USC'', ''PCI System Ctrlr for Super-H SH3 CPU''],
  Init [Const 0x11B0, Const 0x0103] [''V320USC'', ''PCI System Ctrlr for Super-H SH4 CPU''],
  Init [Const 0x11B0, Const 0x0200] [''V370PDC'', ''High Performance PCI SDRAM Controller''],
  Init [Const 0x11B0, Const 0x0292] [''V292PBC'', ''Am29030/40 Bridge''],
  Init [Const 0x11B0, Const 0x0500] [''V340HPC'', ''PCI System Ctrlr for 64-bit MIPS CPU''],
  Init [Const 0x11B0, Const 0x0960] [''V96xPBC'', ''i960 Bridges for i960 Processors''],
  Init [Const 0x11B0, Const 0x4750] [''V3 V962PBC-40LP / VLSI VP06597A'', ''SCRAMNet''],
  Init [Const 0x11B0, Const 0xC960] [''V96DPC'', ''i960 Dual PCI Bridge''],
  Init [Const 0x11B5, Const 0x0001] [''PMC/PMX1553'', ''1553 Bus Interface Card''],
  Init [Const 0x11B5, Const 0x0002] [''PMCF1'', ''FLASH memory Card''],
  Init [Const 0x11B5, Const 0x0003] [''PMCMMA'', ''Multi Media Adapter''],
  Init [Const 0x11B5, Const 0x0004] [''PMCVGO'', ''Video Graphics Overlay''],
  Init [Const 0x11B5, Const 0x0005] [''PMCPCIS'', ''PPzero Slave Interface Card''],
  Init [Const 0x11B5, Const 0x0006] [''PMCPCIM'', ''PPzero Master Interface Card''],
  Init [Const 0x11B5, Const 0x0007] [''PMCQ1'', ''Serial/1553 Interface Card''],
  Init [Const 0x11B5, Const 0x0008] [''EPMCQ2'', ''Intelligent Serial/Ethernet Card''],
  Init [Const 0x11B5, Const 0x0009] [''PMCPIO1'', ''Parallel I/O Module''],
  Init [Const 0x11B5, Const 0x000A] [''PMCFA1C'', ''Fibre Channel Adapter''],
  Init [Const 0x11B5, Const 0x000B] [''PMCHH1'', ''High Speed DSP Gateway Module''],
  Init [Const 0x11B5, Const 0x000C] [''PMCMA2'', ''Memory Adaptor Module''],
  Init [Const 0x11B5, Const 0x0012] [''PMCF1'', ''FLASH memory Card (V2)''],
  Init [Const 0x11B5, Const 0x0013] [''PMC1553EX'', ''1553 Bus Interface Card''],
  Init [Const 0x11B5, Const 0x0014] [''PMC1553E'', ''1553 Bus Interface Card''],
  Init [Const 0x11B5, Const 0x2200] [''PMCFA2C'', ''Dual Fibre Channel Adapter''],
  Init [Const 0x0070, Const 0x6800] [''PCI'' @ [CHR 0x5C] @ ''VEN_14F1&DEV_8810&REV_05'', ''Hauppage Nova -TD-500 DVB-T Tuner Device''],
  Init [Const 0x0070, Const 0x68001] [''PCI'' @ [CHR 0x5C] @ ''VEN_14F1&DEV_8810&REV_05'', ''Hauppage Nova -TD-500 DVB-T Tuner Device''],
  Init [Const 0x11B8, Const 0x0001] [''Quad PeerMaster'', []],
  Init [Const 0x11B9, Const 0xC0ED] [''SSA Ctrlr'', []],
  Init [Const 0x11BC, Const 0x0001] [''NPI NuCard'', ''PCI FDDI''],
  Init [Const 0x11BD, Const 0x0015] [''660806-2.0'', ''rob2d''],
  Init [Const 0x11BD, Const 0x1111] [''1456'', ''www.unibobodioulasso.0fees.net''],
  Init [Const 0x11BD, Const 0x1158] [''48'', ''Tunner Royal TS 1''],
  Init [Const 0x11BD, Const 0x11BD] [''MB87J3560'', ''maintenance informatique''],
  Init [Const 0x11BD, Malformed ''0x11PE''] [''49'', ''Tunner Royal TS 2''],
  Init [Const 0x11BD, Const 0x2020] [''assistance en ligne'', ''70009823/76199706''],
  Init [Const 0x11BD, Const 0xBEBE] [''51015777'', ''MAINTENANCE INFORMATIQUE VENTE DE CONSOMABLE''],
  Init [Const 0x11BD, Const 0xBEDE] [''51014521'', ''Pinnacle Studio 700 PCI''],
  Init [Const 0x11C1, Const 0x0440] [''LT Winmodem 56k'', ''Data+Fax+Voice+DSVD''],
  Init [Const 0x11C1, Const 0x0441] [''5517158'', ''modem driver''],
  Init [Const 0x11C1, Const 0x0442] [''1646T00'', ''LT WinModem 56K Data+Fax''],
  Init [Const 0x11C1, Const 0x0443] [''LT Winmodem'', ''1646T00''],
  Init [Const 0x11C1, Const 0x0444] [''LT Winmodem'', ''845G''],
  Init [Const 0x11C1, Const 0x0445] [''LT Winmodem'', []],
  Init [Const 0x11C1, Const 0x0446] [''NVidia SMBus'', ''PCI'' @ [CHR 0x5C] @ ''VEN_10DE&DEV_03d1&subsys_26011019&rev_a2'' @ [CHR 0x5C] @ ''3&2411e6fe&0&68''],
  Init [Const 0x11C1, Const 0x0447] [''LT Winmodem'', ''windowsme''],
  Init [Const 0x11C1, Const 0x0448] [''LT Winmodem 56k'', ''SV2P2''],
  Init [Const 0x11C1, Const 0x0449] [''LT Winmodem 56k'', ''0449144F''],
  Init [Const 0x11C1, Const 0x044A] [''LT Winmodem 56k'', ''pci ven_1904''],
  Init [Const 0x11C1, Const 0x044B] [''LT Winmodem'', ''USB'' @ [CHR 0x5C] @ ''VID_13FD&PID_1650&REV_0446''],
  Init [Const 0x11C1, Const 0x044C] [''LT Winmodem'', ''SV95PL-TOO''],
  Init [Const 0x11C1, Const 0x044D] [''LT Winmodem'', []],
  Init [Const 0x11C1, Const 0x044E] [''12232'', ''LT WinModem 56k Data+Fax or Agere F-1156IV/A3''],
  Init [Const 0x11C1, Const 0x044F] [''90094-1'', ''LT V.90+DSL WildFire Modem''],
  Init [Const 0x11C1, Const 0x0450] [''1468VQH19R-1(INT)'', ''LT Winmodem 56K''],
  Init [Const 0x11C1, Const 0x0451] [''LT Winmodem'', ''LT WinModem 56k Data+Fax+Voice+DSVD''],
  Init [Const 0x11C1, Const 0x0452] [''LT Winmodem'', ''1513144''],
  Init [Const 0x11C1, Const 0x0453] [''LT Winmodem'', []],
  Init [Const 0x11C1, Const 0x0454] [''LT Winmodem'', []],
  Init [Const 0x11C1, Const 0x0455] [''LT Winmodem'', []],
  Init [Const 0x11C1, Const 0x0456] [''LT Winmodem'', []],
  Init [Const 0x11C1, Const 0x0457] [''LT Winmodem'', []],
  Init [Const 0x11C1, Const 0x0458] [''1648C'', ''Mars 3 Mercury v.92 v.44''],
  Init [Const 0x11C1, Const 0x0459] [''LT Winmodem'', []],
  Init [Const 0x11C1, Const 0x045A] [''LT Winmodem'', []],
  Init [Const 0x11C1, Const 0x045D] [''LT WinModem'', ''mars2''],
  Init [Const 0x11C1, Const 0x0461] [''90094'', ''V90 Wildfire Modem''],
  Init [Const 0x11C1, Const 0x0462] [''1690'', ''56K.V90/ADSL Wildwire Modem''],
  Init [Const 0x11C1, Const 0x0464] [''This is NOT a Riptide! (as previously stated)'', ''Lucent Wildwire v.90 + DSL modem''],
  Init [Const 0x11C1, Const 0x0480] [''Venus Winmodem'', ''56k.V90/ADSL Wildfire Modem''],
  Init [Const 0x11C1, Const 0x048B] [''1648T00'', ''creative modem blaster di5733-1''],
  Init [Const 0x11C1, Const 0x048C] [''1648c-tv5'', ''net-comm modem''],
  Init [Const 0x11C1, Const 0x048D] [''lt winmodem'', ''9m56pml-g''],
  Init [Const 0x11C1, Const 0x048E] [''svp92pl-t00'', ''56k V.92modem''],
  Init [Const 0x11C1, Const 0x048F] [''SV92P-T00'', ''Agere PCI Soft Modem. SV92PL''],
  Init [Const 0x11C1, Const 0x0540] [[], []],
  Init [Const 0x11C1, Const 0x0600] [''sv5'', ''SV92P-T00 Agere PCI Soft Modem. SV92PL''],
  Init [Const 0x11C1, Const 0x0620] [''SV92PP'', ''Agere PCI Soft Modem ''],
  Init [Const 0x11C1, Const 0x0630] [''11c1063011c1'', ''#1: 32 pins, 8 each on 4 sides #2: 20 pins, 10 ea on 2 sides.''],
  Init [Const 0x11C1, Const 0x1040] [''Prespa'', ''Agere Systems HDA Modem''],
  Init [Const 0x11C1, Const 0x11C1] [[CHR 0xD0, CHR 0x9F, CHR 0xD1, CHR 0x80, CHR 0xD0, CHR 0xB5, CHR 0xD1, CHR 0x81, CHR 0xD0, CHR 0xBF, CHR 0xD0, CHR 0xB0], ''Agere Systems '' @ [CHR 0xD0, CHR 0x9C, CHR 0xD0, CHR 0xBE, CHR 0xD0, CHR 0xB4, CHR 0xD0, CHR 0xB5, CHR 0xD0, CHR 0xBC] @ '' HDA''],
  Init [Const 0x11C1, Const 0x3026] [''0x11c11040'', ''Agere Modem''],
  Init [Const 0x11C1, Const 0x3055] [''Modem on Audio Bus'', ''Agere Systems HDA Modem v6081''],
  Init [Const 0x11C1, Const 0x4758] [''210888GX'', ''Mach64 GX''],
  Init [Const 0x11C1, Const 0x5400] [''OR3TP12'', ''FPSC FPGA with 32/64bit, 33/66MHz core''],
  Init [Const 0x11C1, Const 0x5801] [[], ''USB Open Host Controller''],
  Init [Const 0x11C1, Const 0x5802] [''USS-312MC'', ''2-port PCI-to-USB OpenHCI Host Ctrlr''],
  Init [Const 0x11C1, Const 0x5803] [''USS-344'', ''QuadraBus 4-port USB OpenHCI Host Ctrlr''],
  Init [Const 0x11C1, Const 0x5805] [''uss344'', ''USB Advanced Host Controller''],
  Init [Const 0x11C1, Const 0x5811] [''FW322/323'', ''1394A PCI PHY/Link Open Host Ctrlr I/F''],
  Init [Const 0x11C1, Const 0x5901] [''FW643'', ''firewire chip for macbook pro''],
  Init [Const 0x11C1, Const 0x9876] [''lucent 1646T00'', ''LT WinModem 56K Data+Fax''],
  Init [Const 0x11C1, Const 0xAB20] [''WaveLAN'', ''PCI Wireless LAN Adapter''],
  Init [Const 0x11C1, Const 0xAB30] [''wlsam48d'', ''Mini-PCI WaveLAN a/b/g''],
  Init [Const 0x11C1, Const 0xED00] [''ET-131x'', ''PCI-E Ethernet Controller''],
  Init [Const 0x11C1, Const 7121] [[], []],
  Init [Const 0x11C1, Malformed ''fsu 00''] [[], []],
  Init [Const 0x11C6, Const 0x3001] [''1'', ''VM-1200 Opto Unit Controller''],
  Init [Const 0x11C8, Const 0x0658] [''PSB 32'', ''32 bit , 33 Mhz PCI-SCI Bridge''],
  Init [Const 0x11C8, Const 0xD665] [''PSB64'', ''64 bit , 33 Mhz PCI-SCI Bridge''],
  Init [Const 0x11C8, Const 0xD667] [''PSB66'', ''64 bit , 66 Mhz PCI-SCI Bridge. (D33x)''],
  Init [Const 0x11C9, Const 0x0010] [''1106'', ''16-line serial port w/DMA''],
  Init [Const 0x11C9, Const 0x0011] [[], ''4-line serial port w/DMA''],
  Init [Const 0x11CB, Const 0x2000] [''PCI-9050-1100083-11'', ''port small IC''],
  Init [Const 0x11CB, Const 0x4000] [''SUPI-1'', ''XIO/SIO Host''],
  Init [Const 0x11CB, Const 0x8000] [''T225'', ''Bridge RIO Host''],
  Init [Const 0x11CE, Const 0x102B] [''1001'', ''FF00102B''],
  Init [Const 0x11D1, Const 0x01F7] [''VxP524'', ''PCI Video Processor''],
  Init [Const 0x11D1, Const 0x01F8] [''VxP524'', ''PCI Video Processor''],
  Init [Const 0x11D1, Const 0x01F9] [''rev_03'', ''tuner card''],
  Init [Const 0x11D1, Malformed ''VXP520''] [''tag4769'', ''Video card''],
  Init [Const 0x11D4, Const 0x11D4] [''1986'', ''AD1988B 8-channel High Definition Audio CODEC''],
  Init [Const 0x11D4, Malformed ''0x11d4ncah6n''] [''266e&subsys'', ''01791028''],
  Init [Const 0x11D4, Const 0x1535] [''ADSP-21535'', ''Blackfin DSP PCI Bus Interface''],
  Init [Const 0x11D4, Const 0x1805] [''62412-51'', ''U52018.2-0.6''],
  Init [Const 0x11D4, Const 0x1884] [''AD1884HD'', ''SoundMAX Integrated Digital HD Audio''],
  Init [Const 0x11D4, Const 0x1889] [''AD1980'', ''Sound Chip''],
  Init [Const 0x11D4, Const 0x194A] [''AD1984A'', ''SoundMAX Integrated Digital Audio''],
  Init [Const 0x11D4, Const 0x1981] [''7037'', ''SoundMAX Integrated Digital Audio''],
  Init [Const 0x11D4, Const 0x1983] [''AD1983HD'', ''SoundMAX Integrated Digital HD Audio''],
  Init [Const 0x11D4, Const 0x1984] [''Analog Devices ADI 1984'', ''Analog Devices ADI 1984 Integrated HD Audio''],
  Init [Const 0x11D4, Const 0x1986] [''ADI1986A'', ''SoundMAX Digital HD Audio''],
  Init [Const 0x11D4, Const 0x1988] [''AD1981'', ''HD Audio Codec''],
  Init [Const 0x11D4, Const 0x198B] [''AD1988B'', ''SoundMAX AD1988B 8channel CODEC''],
  Init [Const 0x11D4, Const 0x2192] [''ADSP-2192'', ''DSP Microcomputer (function #0)''],
  Init [Const 0x11D4, Const 0x219A] [''ADSP-2192'', ''DSP Microcomputer (function #1)''],
  Init [Const 0x11D4, Const 0x219E] [''ADSP-2192'', ''DSP Microcomputer (function #2)''],
  Init [Const 0x11D4, Const 0x2F44] [''ADSP-1882'', ''SafeNet Crypto Accelerator chip''],
  Init [Const 0x11D4, Const 0x989B] [''AD1989B'', ''SoundMax Integrated Digital HD Audio''],
  Init [Const 0x11D5, Const 0x0115] [''10115'', ''Versatec Parallel Interface (VPI) + Centronics''],
  Init [Const 0x11D5, Const 0x0116] [''10118'', ''DR11-W emulator''],
  Init [Const 0x11D5, Const 0x0117] [''10117'', ''Versatec Parallel Interface (VPI) + Centronics''],
  Init [Const 0x11D5, Const 0x0118] [''10118'', ''DR11-W emulator'']]"

lemma PciDevTable_50_facts:
  "length PciDevTable_50 = 145" "rejected PciDevTable_50 = 4" "oversized PciDevTable_50 = 1"
  "vendors PciDevTable_50 \<subseteq> Const ` set vendor_numbers"
  unfolding PciDevTable_50_def count_rows by (simp_all add: part_simps listed vendor_known_list cong: part_cong count_rows_cong)

definition PciDevTable_rows5 :: "initializer list" where
  "PciDevTable_rows5 = concat [PciDevTable_41, PciDevTable_42, PciDevTable_43, PciDevTable_44,
     PciDevTable_45, PciDevTable_46, PciDevTable_47, PciDevTable_48,
     PciDevTable_49, PciDevTable_50]"

lemma PciDevTable_rows5_facts:
  "length PciDevTable_rows5 = 1495" "rejected PciDevTable_rows5 = 19" "oversized PciDevTable_rows5 = 10"
  "vendors PciDevTable_rows5 \<subseteq> Const ` set vendor_numbers"
  by (simp_all add: PciDevTable_rows5_def rejected_append oversized_append vendors_append
      PciDevTable_41_facts PciDevTable_42_facts PciDevTable_43_facts
      PciDevTable_44_facts PciDevTable_45_facts PciDevTable_46_facts
      PciDevTable_47_facts PciDevTable_48_facts PciDevTable_49_facts
      PciDevTable_50_facts)

end
