(* ===== verification/PciTables.thy ===== *)
theory PciTables
  imports Pci PciDevices1 PciDevices2 PciDevices3 PciDevices4 PciDevices5
begin

text \<open>
  src/src/sys/drv/pci/identifiers.h: the whole device table, and what holds of the tables: a
  search of the vendor table finds the row of a number, every vendor of the device table is
  listed, how many rows of the device table are no C, and how the class codes fit the bus scan.
\<close>

definition PciDevTable :: "initializer list" where
  "PciDevTable = concat [PciDevTable_rows1, PciDevTable_rows2, PciDevTable_rows3,
     PciDevTable_rows4, PciDevTable_rows5]"

definition PCI_DEVTABLE_LEN :: nat where "PCI_DEVTABLE_LEN = length PciDevTable"

lemmas PciDevTable_rows_facts =
  PciDevTable_rows1_facts PciDevTable_rows2_facts PciDevTable_rows3_facts
  PciDevTable_rows4_facts PciDevTable_rows5_facts

lemma PciDevTable_vendors: "vendors PciDevTable \<subseteq> Const ` set vendor_numbers"
  by (simp add: PciDevTable_def vendors_append PciDevTable_rows_facts)

section \<open>Vendors\<close>

lemma find_distinct:
  "distinct (map f xs) \<Longrightarrow> x \<in> set xs \<Longrightarrow> List.find (\<lambda>y. f y = f x) xs = Some x"
  by (induction xs) (auto simp: rev_image_eqI)

lemma vendor_row_unique:
  assumes "n \<in> set vendor_numbers"
  shows "\<exists>!v. v \<in> set PciVenTable \<and> VenId v = of_nat n"
proof -
  have "of_nat n \<in> VenId ` set PciVenTable"
    using assms arg_cong [OF vendor_numbers_ids, of set] by simp
  then obtain v where "v \<in> set PciVenTable" "VenId v = of_nat n" by auto
  then show ?thesis
    using distinct_VenId unfolding distinct_map by (metis inj_onD)
qed

lemma device_row_vendor:
  assumes "r \<in> set PciDevTable" and "dev_entry r = Some e"
  obtains n where "n \<in> set vendor_numbers" "dev_VenId e = of_nat n"
proof -
  have "row_vendor r \<in> vendors PciDevTable" using assms(1) by (simp add: vendors_def)
  then obtain n where "n \<in> set vendor_numbers" "row_vendor r = Const n"
    using PciDevTable_vendors by auto
  then show ?thesis using that dev_VenId_row [OF assms(2)] by blast
qed

text \<open>
  The vendor table has 1568 rows, and a search for a vendor identifier from its start
  finds the one row that has it: no identifier is listed twice.
\<close>

lemma vendor_table_search:
  assumes "r \<in> set PciVenTable"
  shows "PCI_VENTABLE_LEN = 1568 \<and> List.find (\<lambda>v. VenId v = VenId r) PciVenTable = Some r"
proof -
  have "length (map VenId PciVenTable) = 1568"
    unfolding vendor_numbers_ids length_map by (rule length_vendor_numbers)
  then show ?thesis
    using find_distinct [OF distinct_VenId assms] by (simp add: PCI_VENTABLE_LEN_def)
qed

text \<open>
  C39. Every row of the device table that a compiler accepts names a vendor of the vendor
  table, in exactly one row.
\<close>

theorem device_vendors_listed:
  assumes "r \<in> set PciDevTable" and "dev_entry r = Some e"
  shows "\<exists>!v. v \<in> set PciVenTable \<and> VenId v = dev_VenId e"
  using device_row_vendor [OF assms] vendor_row_unique by metis

section \<open>Rows that are no C\<close>

text \<open>
  The header is no strict ISO C: of the 7495 rows of the device table 131 have a number that is
  no constant expression, and one has an initializer too many, a constraint violation that
  compilers only warn of; 38 rows more have a number that does not fit the 16 bits of its member.
\<close>

lemma device_table_rows:
  "PCI_DEVTABLE_LEN = 7495 \<and> rejected PciDevTable = 132 \<and> oversized PciDevTable = 38"
  by (simp add: PCI_DEVTABLE_LEN_def PciDevTable_def rejected_append oversized_append
      PciDevTable_rows_facts)

section \<open>Class codes and the bus scan\<close>

lemma cls_select:
  "BaseClass (cls b s p bd sd pd) = of_nat b" "SubClass (cls b s p bd sd pd) = of_nat s"
  "SubDesc (cls b s p bd sd pd) = sd"
  by (simp_all add: cls_def PCI_CLASSCODETABLE.defs)

lemma bridge_row:
  "(\<exists>r. r \<in> set PciClassCodeTable \<and> BaseClass r = b \<and> SubClass r = s \<and> SubDesc r = ''PCI/PCI'')
     \<longleftrightarrow> b = 6 \<and> s = 4"
proof -
  have "(\<exists>r. r \<in> set PciClassCodeTable \<and> BaseClass r = b \<and> SubClass r = s \<and> SubDesc r = ''PCI/PCI'')
     \<longleftrightarrow> list_ex (\<lambda>r. SubDesc r = ''PCI/PCI'' \<and> BaseClass r = b \<and> SubClass r = s) PciClassCodeTable"
    by (auto simp: list_ex_iff)
  also have "\<dots> \<longleftrightarrow> b = 6 \<and> s = 4"
    unfolding PciClassCodeTable_def by (simp add: cls_select)
  finally show ?thesis .
qed

text \<open>
  C40. The scan of a function announces a bridge exactly when the class code table describes
  the class and subclass that the function reads as a bridge from PCI to PCI. With a host bridge
  that answers from a configuration space, \<open>scan_function\<close> prints nothing for a function that
  is not there, and for one that is its fields, a newline and, in that case, the notice.
\<close>

theorem bridge_notice_class:
  assumes "config_space C space"
  shows "\<exists>evs. list_all config_read evs
    \<and> snd (scan_function C b d f m) = m\<lparr>
        m_terminal := terminal_putbytes
          (if vendor_of space (b, d, f) \<noteq> 0xFFFF
           then function_fields space (b, d, f) @ [10] @
             (if \<exists>r. r \<in> set PciClassCodeTable \<and> BaseClass r = class_of space (b, d, f)
                  \<and> SubClass r = subclass_of space (b, d, f) \<and> SubDesc r = ''PCI/PCI''
              then bytes (nl ''Found PCI-PCI bridge...'') else [])
           else []) (m_terminal m),
        m_trace := evs @ m_trace m\<rparr>"
  using scan_function_spec(2) [OF assms, of b d f m]
  unfolding bridge_row does_def present_def function_line_def .

section \<open>Concrete instances\<close>

theorem bridge_notice_class_witness:
  "m_terminal (snd (scan_function demo_pci 0 0 1 demo_machine)) = terminal_putbytes
     (function_fields demo_space (0, 0, 1) @ [10] @ bytes (nl ''Found PCI-PCI bridge...''))
     (m_terminal demo_machine)"
proof -
  have "vendor_of demo_space (0, 0, 1) = 0x8086" "class_of demo_space (0, 0, 1) = 6"
    "subclass_of demo_space (0, 0, 1) = 4"
    by (simp_all add: vendor_of_def class_of_def subclass_of_def dword_def conval_def demo_space_def)
  then show ?thesis
    using bridge_notice_class [OF demo_pci_space, of 0 0 1 demo_machine] unfolding bridge_row by auto
qed

lemma vendor_table_search_witness:
  "List.find (\<lambda>v. VenId v = 0x0033) PciVenTable = Some (ven 0x0033 ''<'' ''Paradyne Corp.'')"
proof -
  have "ven 0x0033 ''<'' ''Paradyne Corp.'' \<in> set PciVenTable"
    by (simp add: PciVenTable_def PciVenTable_1_def)
  from vendor_table_search [OF this] show ?thesis
    by (simp add: ven_def PCI_VENTABLE.defs)
qed

theorem device_vendors_listed_witness: "\<exists>!v. v \<in> set PciVenTable \<and> VenId v = 0x165C"
proof -
  have r: "Init [Const 0x165C, Const 0x0002] [''FT232BL'', ''FT232BL''] \<in> set PciDevTable"
    unfolding PciDevTable_def PciDevTable_rows1_def PciDevTable_1_def by simp
  from device_vendors_listed [OF r] show ?thesis
    by (simp add: dev_entry_def PCI_DEVTABLE.defs)
qed

end
