(* ===== verification/Spec2Isabelle.thy ===== *)
theory Spec2Isabelle
  imports Prelude Terminal Util Keyboard Pic Tables Paging Machine Apic Irq I8042 Pci Kernel Boot PciTables
begin

text \<open>
  A verification library of DuckyOS, a small kernel for the i686 (all paths below
  src/src/sys).

  The program. The boot loader starts \<open>kernel_main\<close> (kernel.c). It calls \<open>arch_entry\<close>
  (arch/i686/arch.c), which sets up paging (paging.c), the segment and interrupt descriptor
  tables (tables.c), the table of handlers (irq.c), the two 8259 interrupt controllers
  (pic.c) and the interval timer (pit.c). It clears the screen (terminal.c), installs four
  handlers, enables interrupts, and calls \<open>arch_init\<close>: the keyboard controller
  (drv/i8042.c) with its handler, and the local APIC (apic.c) where the build uses one. It
  then scans the PCI buses (drv/pci/pci.c) and idles. From the \<open>sti\<close> on the kernel acts in
  interrupts: the processor enters a stub of isr.s through the descriptor table, the stub
  saves the registers and calls an entry point of irq.c, which ends the interrupt at the
  controllers and calls the handler of the vector. The keyboard handler reads a code from the
  controller and hands it to \<open>keyboard_handle\<close> (keyboard.c), which prints.

  Theories, and what they model.
  \<^item> \<open>Prelude\<close>: the C integer types as words, strings as bytes, the locale \<open>indexed_table\<close> of
    arrays read and written by index, the locale \<open>char_sink\<close> of what is printed through one
    \<open>putchar\<close>. An index outside its array is the value \<open>None\<close>: \<open>array_put\<close> checks the
    assignments to the page tables, the descriptor tables and the handler table one by one, also
    inside loops, which are \<open>for_each\<close> over an option. A left shift of an \<open>int\<close> into or past its
    sign bit keeps the low 32 bits, as the compilers of the build do.
  \<^item> \<open>Terminal\<close>: terminal.c over its globals and a store of 16 bit cells by address; the
    abstract screen it refines.
  \<^item> \<open>Util\<close>: the inline assembly of util.h (ports, MSRs, CPUID, delays) over a trace of
    input and output events, with the device that answers as a parameter.
  \<^item> \<open>Keyboard\<close>: the two key tables, the modifier flags, \<open>keyboard_handle\<close>; the US layout by
    the rows of a keyboard.
  \<^item> \<open>Pic\<close>: pic.c and pit.c, with the state that the commands in a trace leave a pair of
    8259s in, and of the 8253 timer as its control words and bytes program it.
  \<^item> \<open>Tables\<close>: tables.c with \<open>gdt_flush\<close> and \<open>idt_flush\<close>; descriptors read back the way the
    processor reads them.
  \<^item> \<open>Paging\<close>: paging.c, and the two level page walk of the processor over its three arrays,
    which lie in physical memory where the linker script loads them.
  \<^item> \<open>Machine\<close>: the state of the whole kernel, one component each for the static variables of
    the C files, with the operations of the components lifted to it.
  \<^item> \<open>Apic\<close>: apic.c, and the bit fields of \<open>local_apic_t\<close> (apic.h) by offset and width, with
    the registers of the processor's manual beside them.
  \<^item> \<open>Irq\<close>: irq.c, and the stubs of isr.s as lists of instructions run on registers and a
    stack; what the processor does when it delivers an interrupt.
  \<^item> \<open>I8042\<close>: i8042.c with every early exit of \<open>i8042_init\<close>; the conversation it should hold
    with the controller, and the controller as it is documented.
  \<^item> \<open>Pci\<close>: pci.c against a configuration space.
  \<^item> \<open>Kernel\<close>: the handlers of kernel.c, arch.c, \<open>kernel_main\<close> to its idle loop, and the
    transition system \<open>kernel_run\<close> of interrupts served after boot.
  \<^item> \<open>Boot\<close>: the part of \<open>kernel_main\<close> after the drivers as a list of actions, with interrupts
    served between any two of them.
  \<^item> \<open>PciIds\<close>, \<open>PciVendors\<close>, \<open>PciDevices1\<close> to \<open>PciDevices5\<close>, \<open>PciTables\<close>: every row of the
    tables of drv/pci/identifiers.h, in parts of 150 rows.

  What the theorems show.
  \<^item> Boot: on any hardware \<open>kernel_main\<close> reaches its idle loop with every assignment inside its
    array when no interrupt comes on the way (\<open>kernel_main_boots\<close>), with the lines of the controllers it means to have and those it
    does not (\<open>kernel_main_unmasks_keyboard\<close>). It does so with interrupts served after the
    drivers are set up as well (\<open>boot_with_interrupts\<close>).
  \<^item> After boot: an invariant of every sequence of interrupts (\<open>kernel_run_invariant\<close>), that
    each interrupt is served (\<open>kernel_serves_interrupts\<close>), that an interrupted program goes on
    unchanged (\<open>interrupt_transparent\<close>), and the way of a key press from the interrupt to the
    screen (\<open>key_press_shows_character\<close>).
  \<^item> Each component: the refinement of an abstract screen, the translation that paging
    gives, the remapped controllers, the descriptors as the processor reads them, the US layout
    typed, the conversation with the keyboard controller on any hardware and the ports enabled
    on the documented one, every field of the APIC at its place, the report of the bus scan.
  \<^item> Behaviour that is not as meant, as theorems about the code as it is: the colour lost for
    characters from 0x80 on, the limit of the descriptor table, the delay short by one, the
    missing bound of \<open>paging_map\<close>, the timer handler that writes to the APIC without one, the
    interrupts that are not ended with an APIC, the local interrupts that \<open>apic_init\<close> does not
    mask, functions listed twice.

  Interfaces. \<open>indexed_table\<close> is interpreted on lists and on the interrupt descriptor table,
  \<open>char_sink\<close> on the terminal, \<open>irq_lines\<close> (\<open>Pic\<close>) on the pair of controllers,
  \<open>register_fields\<close> (\<open>Apic\<close>) on the bit fields, \<open>bounded_poll\<close> (\<open>I8042\<close>) on the two waits,
  \<open>counting_loop\<close> (\<open>Pci\<close>) on the three loops of the scan, \<open>handler_calls\<close> (\<open>Irq\<close>) on the
  handlers with the invariant of the booted kernel.

  Hardware is a parameter: a function from the trace of events so far to the answer of a
  port, an MSR, CPUID or a memory mapped register. Theorems hold for every such function, or
  name what they need of it (a configuration space, writable bits of the APIC's registers that
  keep their values, the documented 8042). So are the addresses the linker chooses.

  Bounds. All loops of the code end and none needs fuel: the waits of the keyboard
  controller and the loops of the bus scan are recursive functions with a termination proof, a
  loop over an array is a \<open>for_each\<close> over its indices. A handler that stays in \<open>while (1)\<close> is the outcome \<open>Hung\<close>, and
  the idle loop of \<open>kernel_main\<close> is the end of its definition.

  Not modelled. The multiboot header and start code of entry.s, which run before the C
  program; the linker script and the build files; test.cpp, which is not built; declarations
  without an implementation (the probe callbacks of pci.h). Interrupts are served one after the
  other: the stubs clear the interrupt flag. After the drivers are set up they come between any
  two messages or devices of the bus scan; inside the drivers of \<open>arch_init\<close>, where the handler of
  the keyboard could take the answer the keyboard driver waits for, the model has none. An access to a bit
  field of the APIC is taken to be a read and a write of the 32 bit unit that holds it, as
  compilers do for volatile bit fields. Of \<open>iret\<close> only the check that the privilege level stays is
  modelled; the stub of vector 17, which drops no error code, is in the model but no theorem is
  stated of its return, since the processor delivers that exception only from level 3. A C function is taken to leave its arguments on the
  stack as they were.
\<close>

end
